(* ===== verification/Py_Prelude.thy ===== *)
theory Py_Prelude
  imports Complex_Main "HOL-Library.Sublist"
begin

text \<open>
  The shared prelude of the development: the fragment of Python that the serving layer of
  MLC LLM is written in. It holds
  \<^item> exceptions as values (\<open>py_error\<close>) and the two result types the components use, the
    pure one \<open>'a res\<close> and the stateful one \<open>('s, 'a) py\<close>, which keeps the state reached
    when an exception escapes, as Python does;
  \<^item> IEEE floats as far as the code compares them (\<open>py_float\<close>, with infinities and NaN),
    JSON values and the \<open>json.dumps\<close> printer;
  \<^item> the string operations the code calls (\<open>replace\<close>, \<open>rsplit\<close> with one split, \<open>join\<close>,
    \<open>strip\<close>, \<open>startswith\<close>, decimal printing) and Python list indexing;
  \<^item> the generic lemmas on these that the component theories rely on, collected in
    \<open>py_simps\<close> (unfolding of the result types) and \<open>str_simps\<close> (string operations).
  A \<open>string\<close> is a list of characters below 256, read as code points.
\<close>

named_theorems py_simps \<open>unfolding rules of the result types\<close>
named_theorems str_simps \<open>rules for the string operations\<close>

section \<open>Exceptions and results\<close>

text \<open>
  One constructor per exception class that the modelled code raises or lets through; the
  argument is the message. \<open>BadRequestError\<close> is the subclass of \<open>ValueError\<close> of
  protocol/error\_protocol.py. \<open>ExternalError\<close> stands for whatever a call into code outside
  the repository raises. \<open>CancelledError\<close> and \<open>GeneratorExit\<close> are not subclasses of
  \<open>Exception\<close>.
\<close>

datatype py_error =
    ValueError string
  | BadRequestError string
  | RuntimeError string
  | AssertionError string
  | KeyError string
  | IndexError
  | TypeError string
  | AttributeError string
  | FileNotFoundError string
  | ValidationError string
  | SyntaxError string
  | OverflowError string
  | ZeroDivisionError string
  | NotImplementedError
  | StopIteration
  | ExternalError string
  | CancelledError
  | GeneratorExit
  | SystemExit int

definition is_Exception :: "py_error \<Rightarrow> bool" where
  "is_Exception e = (case e of CancelledError \<Rightarrow> False | GeneratorExit \<Rightarrow> False | SystemExit _ \<Rightarrow> False | _ \<Rightarrow> True)"

definition is_ValueError :: "py_error \<Rightarrow> bool" where
  "is_ValueError e =
     (case e of ValueError _ \<Rightarrow> True | BadRequestError _ \<Rightarrow> True | ValidationError _ \<Rightarrow> True
      | _ \<Rightarrow> False)"

type_synonym 'a res = "py_error + 'a"

fun res_bind :: "'a res \<Rightarrow> ('a \<Rightarrow> 'b res) \<Rightarrow> 'b res" where
  "res_bind (Inl e) f = Inl e"
| "res_bind (Inr x) f = f x"

definition res_assert :: "bool \<Rightarrow> string \<Rightarrow> unit res" where
  "res_assert b msg = (if b then Inr () else Inl (AssertionError msg))"

fun res_map :: "('a \<Rightarrow> 'b res) \<Rightarrow> 'a list \<Rightarrow> 'b list res" where
  "res_map f [] = Inr []"
| "res_map f (x # xs) =
     res_bind (f x) (\<lambda>y. res_bind (res_map f xs) (\<lambda>ys. Inr (y # ys)))"

fun res_fold :: "('s \<Rightarrow> 'a \<Rightarrow> 's res) \<Rightarrow> 's \<Rightarrow> 'a list \<Rightarrow> 's res" where
  "res_fold f s [] = Inr s"
| "res_fold f s (x # xs) = res_bind (f s x) (\<lambda>s'. res_fold f s' xs)"

fun res_of_option :: "py_error \<Rightarrow> 'a option \<Rightarrow> 'a res" where
  "res_of_option e None = Inl e"
| "res_of_option e (Some x) = Inr x"

text \<open>Computations that also update a state; an escaping exception keeps the updates.\<close>

type_synonym ('s, 'a) py = "'s \<Rightarrow> 'a res \<times> 's"

definition py_return :: "'a \<Rightarrow> ('s, 'a) py" where
  "py_return x = (\<lambda>s. (Inr x, s))"

definition py_raise :: "py_error \<Rightarrow> ('s, 'a) py" where
  "py_raise e = (\<lambda>s. (Inl e, s))"

definition py_bind :: "('s, 'a) py \<Rightarrow> ('a \<Rightarrow> ('s, 'b) py) \<Rightarrow> ('s, 'b) py" where
  "py_bind m f = (\<lambda>s. case m s of (Inl e, s') \<Rightarrow> (Inl e, s') | (Inr x, s') \<Rightarrow> f x s')"

definition py_lift :: "'a res \<Rightarrow> ('s, 'a) py" where
  "py_lift r = (\<lambda>s. (r, s))"

definition py_get :: "('s \<Rightarrow> 'a) \<Rightarrow> ('s, 'a) py" where
  "py_get f = (\<lambda>s. (Inr (f s), s))"

definition py_modify :: "('s \<Rightarrow> 's) \<Rightarrow> ('s, unit) py" where
  "py_modify f = (\<lambda>s. (Inr (), f s))"

definition py_assert :: "bool \<Rightarrow> string \<Rightarrow> ('s, unit) py" where
  "py_assert b msg = py_lift (res_assert b msg)"

fun py_for :: "'a list \<Rightarrow> ('a \<Rightarrow> ('s, unit) py) \<Rightarrow> ('s, unit) py" where
  "py_for [] f = py_return ()"
| "py_for (x # xs) f = py_bind (f x) (\<lambda>_. py_for xs f)"

fun py_fold :: "('a \<Rightarrow> 'x \<Rightarrow> ('s, 'a) py) \<Rightarrow> 'a \<Rightarrow> 'x list \<Rightarrow> ('s, 'a) py" where
  "py_fold f acc [] = py_return acc"
| "py_fold f acc (x # xs) = py_bind (f acc x) (\<lambda>acc'. py_fold f acc' xs)"

text \<open>
  The body of a generator that is a loop over an input: \<open>f\<close> handles one item and may yield. The
  result has what was yielded, also when the loop ends with an exception.
\<close>

fun gen_loop ::
  "('a \<Rightarrow> 'x \<Rightarrow> ('s, 'y option \<times> 'a) py) \<Rightarrow> 'a \<Rightarrow> 'x list \<Rightarrow> 's \<Rightarrow> 'y list \<times> 'a res \<times> 's" where
  "gen_loop f a [] s = ([], Inr a, s)"
| "gen_loop f a (x # xs) s =
     (case f a x s of
        (Inl e, s') \<Rightarrow> ([], Inl e, s')
      | (Inr (y, a'), s') \<Rightarrow>
          (let (ys, r, s'') = gen_loop f a' xs s'
           in ((case y of None \<Rightarrow> ys | Some z \<Rightarrow> z # ys), r, s'')))"

section \<open>Floats, JSON\<close>

text \<open>
  Python floats are compared and stored, never computed with, except where a component says
  so: a finite one is its rational value.
\<close>

datatype py_float = Finite rat | PosInf | NegInf | NaN

fun float_lt :: "py_float \<Rightarrow> py_float \<Rightarrow> bool" where
  "float_lt (Finite a) (Finite b) = (a < b)"
| "float_lt NegInf (Finite b) = True"
| "float_lt NegInf PosInf = True"
| "float_lt (Finite a) PosInf = True"
| "float_lt _ _ = False"

fun float_abs :: "py_float \<Rightarrow> py_float" where
  "float_abs (Finite a) = Finite \<bar>a\<bar>"
| "float_abs NegInf = PosInf"
| "float_abs x = x"

definition float_truthy :: "py_float \<Rightarrow> bool" where
  "float_truthy x = (x \<noteq> Finite 0)"

text \<open>The comparisons of floats, as Python has them: every one with NaN is false.\<close>

instantiation py_float :: ord
begin

definition less_py_float :: "py_float \<Rightarrow> py_float \<Rightarrow> bool" where
  "less_py_float x y = float_lt x y"

definition less_eq_py_float :: "py_float \<Rightarrow> py_float \<Rightarrow> bool" where
  "less_eq_py_float x y = (float_lt x y \<or> (x = y \<and> x \<noteq> NaN))"

instance ..

end

datatype json =
    JNull
  | JBool bool
  | JInt int
  | JFloat py_float
  | JStr string
  | JList "json list"
  | JObj "(string \<times> json) list"

text \<open>A dict built by insertion: a key keeps its first position and its last value.\<close>

fun dict_set :: "('k \<times> 'v) list \<Rightarrow> 'k \<Rightarrow> 'v \<Rightarrow> ('k \<times> 'v) list" where
  "dict_set [] k v = [(k, v)]"
| "dict_set ((k', v') # d) k v = (if k' = k then (k, v) # d else (k', v') # dict_set d k v)"

definition dict_get :: "(string \<times> 'v) list \<Rightarrow> string \<Rightarrow> 'v res" where
  "dict_get d k = res_of_option (KeyError k) (map_of d k)"

definition dict_update :: "('k \<times> 'v) list \<Rightarrow> ('k \<times> 'v) list \<Rightarrow> ('k \<times> 'v) list" where
  "dict_update d d' = foldl (\<lambda>acc (k, v). dict_set acc k v) d d'"

section \<open>Strings and lists\<close>

fun digits_of_nat :: "nat \<Rightarrow> string" where
  "digits_of_nat n =
     (if n < 10 then [char_of (48 + n)]
      else digits_of_nat (n div 10) @ [char_of (48 + n mod 10)])"

declare digits_of_nat.simps [simp del]

definition str_of_int :: "int \<Rightarrow> string" where
  "str_of_int i = (if i < 0 then ''-'' @ digits_of_nat (nat (- i)) else digits_of_nat (nat i))"

definition str_of_nat :: "nat \<Rightarrow> string" where
  "str_of_nat n = digits_of_nat n"

text \<open>\<open>s.replace(old, new)\<close>: every occurrence, from the left, without overlaps.\<close>

fun replace_occ :: "string \<Rightarrow> string \<Rightarrow> string \<Rightarrow> string" where
  "replace_occ old new [] = []"
| "replace_occ old new (c # cs) =
     (if old \<noteq> [] \<and> prefix old (c # cs)
      then new @ replace_occ old new (drop (length old - 1) cs)
      else c # replace_occ old new cs)"

definition py_replace :: "string \<Rightarrow> string \<Rightarrow> string \<Rightarrow> string" where
  "py_replace s old new =
     (if old = [] then new @ concat (map (\<lambda>c. c # new) s) else replace_occ old new s)"

text \<open>\<open>s.rsplit(sep, 1)\<close> for a non-empty separator: split at its last occurrence.\<close>

fun rfind_split :: "string \<Rightarrow> string \<Rightarrow> (string \<times> string) option" where
  "rfind_split sep [] = None"
| "rfind_split sep (c # cs) =
     (case rfind_split sep cs of
        Some (b, a) \<Rightarrow> Some (c # b, a)
      | None \<Rightarrow> if prefix sep (c # cs) then Some ([], drop (length sep) (c # cs)) else None)"

definition rsplit_once :: "string \<Rightarrow> string \<Rightarrow> string list" where
  "rsplit_once s sep = (case rfind_split sep s of None \<Rightarrow> [s] | Some (b, a) \<Rightarrow> [b, a])"

fun py_join :: "string \<Rightarrow> string list \<Rightarrow> string" where
  "py_join sep [] = []"
| "py_join sep [x] = x"
| "py_join sep (x # y # ys) = x @ sep @ py_join sep (y # ys)"

definition is_space :: "char \<Rightarrow> bool" where
  "is_space c = (c \<in> {CHR '' '', CHR 0x09, CHR 0x0A, CHR 0x0B, CHR 0x0C, CHR 0x0D})"

definition py_strip :: "string \<Rightarrow> string" where
  "py_strip s = rev (dropWhile is_space (rev (dropWhile is_space s)))"

text \<open>Python indexing: negative indices count from the end, out of range raises.\<close>

definition py_index :: "'a list \<Rightarrow> int \<Rightarrow> 'a res" where
  "py_index xs i =
     (if 0 \<le> i
      then if nat i < length xs then Inr (xs ! nat i) else Inl IndexError
      else if nat (- i) \<le> length xs then Inr (xs ! (length xs - nat (- i))) else Inl IndexError)"

text \<open>Assignment to an element, \<open>xs[i] = v\<close>, for a non-negative index.\<close>

definition py_setitem :: "'a list \<Rightarrow> nat \<Rightarrow> 'a \<Rightarrow> 'a list res" where
  "py_setitem xs i v = (if i < length xs then Inr (xs[i := v]) else Inl IndexError)"

text \<open>\<open>json.dumps\<close> with its default separators; \<open>frepr\<close> prints a float.\<close>

definition hex_digit :: "nat \<Rightarrow> char" where
  "hex_digit n = (if n < 10 then char_of (48 + n) else char_of (87 + n))"

definition json_escape_char :: "char \<Rightarrow> string" where
  "json_escape_char c =
     (if c = CHR 0x22 then [CHR 0x5C, CHR 0x22]
      else if c = CHR 0x5C then [CHR 0x5C, CHR 0x5C]
      else if c = CHR 0x0A then [CHR 0x5C, CHR ''n'']
      else if c = CHR 0x0D then [CHR 0x5C, CHR ''r'']
      else if c = CHR 0x09 then [CHR 0x5C, CHR ''t'']
      else if c = CHR 0x08 then [CHR 0x5C, CHR ''b'']
      else if c = CHR 0x0C then [CHR 0x5C, CHR ''f'']
      else if 32 \<le> (of_char c :: nat) \<and> (of_char c :: nat) < 127 then [c]
      else [CHR 0x5C, CHR ''u'', CHR ''0'', CHR ''0'',
            hex_digit (of_char c div 16), hex_digit (of_char c mod 16)])"

definition json_dumps_str :: "string \<Rightarrow> string" where
  "json_dumps_str s = [CHR 0x22] @ concat (map json_escape_char s) @ [CHR 0x22]"

fun json_dumps :: "(py_float \<Rightarrow> string) \<Rightarrow> json \<Rightarrow> string" where
  "json_dumps frepr JNull = ''null''"
| "json_dumps frepr (JBool b) = (if b then ''true'' else ''false'')"
| "json_dumps frepr (JInt i) = str_of_int i"
| "json_dumps frepr (JFloat x) = frepr x"
| "json_dumps frepr (JStr s) = json_dumps_str s"
| "json_dumps frepr (JList xs) = ''['' @ py_join '', '' (map (json_dumps frepr) xs) @ '']''"
| "json_dumps frepr (JObj kvs) =
     ''{'' @ py_join '', '' (map (\<lambda>(k, v). json_dumps_str k @ '': '' @ json_dumps frepr v) kvs)
       @ ''}''"

section \<open>Lemmas\<close>

lemmas [py_simps] =
  py_return_def py_raise_def py_bind_def py_lift_def py_get_def py_modify_def py_assert_def
  res_assert_def

lemma res_bind_assoc: "res_bind (res_bind m f) g = res_bind m (\<lambda>x. res_bind (f x) g)"
  by (cases m) auto

lemma res_bind_Inr [simp]: "res_bind m Inr = m"
  by (cases m) auto

lemma res_bind_eq_Inr:
  "res_bind m f = Inr y \<longleftrightarrow> (\<exists>x. m = Inr x \<and> f x = Inr y)"
  by (cases m) auto

lemma res_bind_eq_Inl:
  "res_bind m f = Inl e \<longleftrightarrow> m = Inl e \<or> (\<exists>x. m = Inr x \<and> f x = Inl e)"
  by (cases m) auto

lemma map_res_bind: "map_sum id g (res_bind m f) = res_bind m (\<lambda>x. map_sum id g (f x))"
  by (cases m) simp_all

lemma res_bind_map: "res_bind (map_sum id g m) f = res_bind m (\<lambda>x. f (g x))"
  by (cases m) simp_all

lemma py_bind_assoc: "py_bind (py_bind m f) g = py_bind m (\<lambda>x. py_bind (f x) g)"
  by (rule ext) (auto simp: py_bind_def split: prod.splits sum.splits)

lemma py_bind_return [simp]: "py_bind (py_return x) f = f x"
  by (simp add: py_bind_def py_return_def)

lemma py_bind_raise [simp]: "py_bind (py_raise e) f = py_raise e"
  by (simp add: py_bind_def py_raise_def)

lemma py_bind_get [simp]: "py_bind (py_get f) g s = g (f s) s"
  by (simp add: py_bind_def py_get_def)

lemma py_bind_lift_Inr [simp]: "py_bind (py_lift (Inr x)) g = g x"
  by (rule ext) (simp add: py_bind_def py_lift_def)

lemma py_bind_eq_Inr:
  "py_bind m f s = (Inr y, s'') \<longleftrightarrow> (\<exists>x s'. m s = (Inr x, s') \<and> f x s' = (Inr y, s''))"
  by (auto simp: py_bind_def split: prod.splits sum.splits)

lemma res_assert_Inr [simp]: "res_assert b msg = Inr u \<longleftrightarrow> b"
  by (simp add: res_assert_def)

lemma res_map_Inr_iff:
  "res_map f xs = Inr ys \<longleftrightarrow> list_all2 (\<lambda>x y. f x = Inr y) xs ys"
proof (induction xs arbitrary: ys)
  case (Cons x xs)
  then show ?case by (cases ys) (auto simp: res_bind_eq_Inr)
qed auto

lemma res_map_cong [fundef_cong]:
  "xs = ys \<Longrightarrow> (\<And>x. x \<in> set ys \<Longrightarrow> f x = g x) \<Longrightarrow> res_map f xs = res_map g ys"
  by (induction xs arbitrary: ys) auto

lemma res_map_total:
  assumes "\<And>x. x \<in> set xs \<Longrightarrow> f x = Inr (g x)"
  shows "res_map f xs = Inr (map g xs)"
  using assms by (induction xs) auto

lemma length_res_map: "res_map f xs = Inr ys \<Longrightarrow> length ys = length xs"
  by (simp add: res_map_Inr_iff list_all2_lengthD)

lemma res_fold_append:
  "res_fold f s (xs @ ys) = res_bind (res_fold f s xs) (\<lambda>s'. res_fold f s' ys)"
  by (induction xs arbitrary: s) (auto simp: res_bind_assoc)

text \<open>A fold that cannot fail is the fold of its total part.\<close>

lemma res_fold_total:
  assumes "P s" and "\<And>s x. P s \<Longrightarrow> x \<in> set xs \<Longrightarrow> f s x = Inr (g s x) \<and> P (g s x)"
  shows "res_fold f s xs = Inr (foldl g s xs)"
  using assms by (induction xs arbitrary: s) auto

text \<open>An invariant that every successful step keeps holds after a successful fold.\<close>

lemma res_fold_invariant:
  assumes "res_fold f s xs = Inr s'" and "P s"
    and "\<And>s x t. P s \<Longrightarrow> x \<in> set xs \<Longrightarrow> f s x = Inr t \<Longrightarrow> P t"
  shows "P s'"
  using assms
proof (induction xs arbitrary: s)
  case (Cons x xs)
  from Cons.prems(1) obtain t where t: "f s x = Inr t" "res_fold f t xs = Inr s'"
    by (auto simp: res_bind_eq_Inr)
  moreover have "P t" using Cons.prems(2,3) t(1) by (meson list.set_intros(1))
  ultimately show ?case using Cons.IH Cons.prems(3) by (meson list.set_intros(2))
qed simp

lemma dict_set_lookup: "map_of (dict_set d k v) = (map_of d)(k \<mapsto> v)"
  by (induction d k v rule: dict_set.induct) (auto simp: fun_eq_iff)

lemma dict_set_fresh: "k \<notin> fst ` set d \<Longrightarrow> dict_set d k v = d @ [(k, v)]"
  by (induction d k v rule: dict_set.induct) auto

lemma dict_set_keys:
  "map fst (dict_set d k v) = (if k \<in> fst ` set d then map fst d else map fst d @ [k])"
  by (induction d k v rule: dict_set.induct) auto

lemma dict_update_lookup: "distinct (map fst d') \<Longrightarrow> map_of (dict_update d d') = map_of d ++ map_of d'"
proof (induction d' arbitrary: d)
  case Nil
  then show ?case by (simp add: dict_update_def)
next
  case (Cons kv d')
  obtain k v where kv: "kv = (k, v)" by (cases kv)
  from Cons have IH: "map_of (dict_update (dict_set d k v) d') = map_of (dict_set d k v) ++ map_of d'"
    by simp
  from Cons.prems kv have "k \<notin> dom (map_of d')"
    by (simp add: dom_map_of_conv_image_fst)
  with IH kv show ?case
    by (auto simp: dict_update_def dict_set_lookup fun_eq_iff map_add_def split: option.splits)
qed

subsection \<open>String operations\<close>

lemma replace_occ_absent: "\<not> sublist old s \<Longrightarrow> replace_occ old new s = s"
proof (induction old new s rule: replace_occ.induct)
  case (2 old new c cs)
  then have "\<not> prefix old (c # cs)" and "\<not> sublist old cs"
    by (auto simp: sublist_Cons_right)
  with 2 show ?case by auto
qed simp

lemma py_replace_absent [str_simps]:
  "old \<noteq> [] \<Longrightarrow> \<not> sublist old s \<Longrightarrow> py_replace s old new = s"
  by (simp add: py_replace_def replace_occ_absent)

lemma py_replace_self [str_simps]: "old \<noteq> [] \<Longrightarrow> py_replace old old new = new"
  by (cases old) (auto simp: py_replace_def)

lemma rfind_split_append: "rfind_split sep s = Some (b, a) \<Longrightarrow> b @ sep @ a = s"
proof (induction sep s arbitrary: b a rule: rfind_split.induct)
  case (2 sep c cs)
  then show ?case
    by (auto split: option.splits if_splits prod.splits simp: prefix_def)
qed simp

lemma rfind_split_None: "sep \<noteq> [] \<Longrightarrow> rfind_split sep s = None \<longleftrightarrow> \<not> sublist sep s"
proof (induction sep s rule: rfind_split.induct)
  case (2 sep c cs)
  then show ?case
    by (auto split: option.splits if_splits simp: sublist_Cons_right)
qed simp

text \<open>After the split point the separator does not start again: it was the last one.\<close>

lemma rfind_split_last:
  assumes "rfind_split sep s = Some (b, a)" and "sep \<noteq> []"
  shows "\<not> sublist sep (tl (sep @ a))"
  using assms
proof (induction sep s arbitrary: b a rule: rfind_split.induct)
  case (2 sep c cs)
  show ?case
  proof (cases "rfind_split sep cs")
    case None
    with "2.prems" have "prefix sep (c # cs)" and "a = drop (length sep) (c # cs)"
      by (auto split: if_splits)
    then have "sep @ a = c # cs" by (auto simp: prefix_def)
    with None "2.prems"(2) show ?thesis by (simp add: rfind_split_None)
  next
    case (Some p)
    with "2" show ?thesis by (cases p) auto
  qed
qed simp

text \<open>Splitting and joining with the same separator gives the string back.\<close>

lemma py_join_rsplit_once: "py_join sep (rsplit_once s sep) = s"
  by (auto simp: rsplit_once_def dest: rfind_split_append split: option.splits)

lemma py_join_rsplit_absent [str_simps]:
  "sep \<noteq> [] \<Longrightarrow> \<not> sublist sep s \<Longrightarrow> py_join x (rsplit_once s sep) = s"
  by (simp add: rsplit_once_def rfind_split_None [THEN iffD2])

lemma py_index_nat [simp]: "i < length xs \<Longrightarrow> py_index xs (int i) = Inr (xs ! i)"
  by (simp add: py_index_def)

lemma py_index_Inr:
  "py_index xs i = Inr x \<Longrightarrow> x \<in> set xs"
  by (auto simp: py_index_def Let_def split: if_splits)

lemma py_setitem_Inr [simp]:
  "py_setitem xs i v = Inr ys \<longleftrightarrow> i < length xs \<and> ys = xs[i := v]"
  by (auto simp: py_setitem_def)

lemma py_index_nat_Inr [simp]: "py_index xs (int i) = Inr x \<longleftrightarrow> i < length xs \<and> x = xs ! i"
  by (auto simp: py_index_def)

lemma py_bind_eq_Inl:
  "py_bind m f s = (Inl e, s'') \<longleftrightarrow>
     m s = (Inl e, s'') \<or> (\<exists>x s'. m s = (Inr x, s') \<and> f x s' = (Inl e, s''))"
  by (auto simp: py_bind_def split: prod.splits sum.splits)

lemma py_return_Inr [simp]: "py_return x s = (r, s') \<longleftrightarrow> r = Inr x \<and> s' = s"
  by (auto simp: py_return_def)

lemma py_raise_apply [simp]: "py_raise e s = (r, s') \<longleftrightarrow> r = Inl e \<and> s' = s"
  by (auto simp: py_raise_def)

lemma py_lift_apply [simp]: "py_lift r s = (r', s') \<longleftrightarrow> r = r' \<and> s' = s"
  by (auto simp: py_lift_def)

lemma py_assert_Inr [simp]: "py_assert b msg s = (Inr u, s') \<longleftrightarrow> b \<and> s' = s"
  by (auto simp: py_assert_def py_lift_def res_assert_def)

lemma py_fold_append:
  "py_fold f a (xs @ ys) = py_bind (py_fold f a xs) (\<lambda>a'. py_fold f a' ys)"
  by (induction xs arbitrary: a) (auto simp: py_bind_assoc)

text \<open>An invariant of accumulator and state that every successful step keeps.\<close>

lemma py_fold_invariant:
  assumes "py_fold f a xs s = (Inr a', s')" and "P a s"
    and "\<And>a s x b t. P a s \<Longrightarrow> x \<in> set xs \<Longrightarrow> f a x s = (Inr b, t) \<Longrightarrow> P b t"
  shows "P a' s'"
  using assms
proof (induction xs arbitrary: a s)
  case (Cons x xs)
  from Cons.prems(1) obtain b t where t: "f a x s = (Inr b, t)" "py_fold f b xs t = (Inr a', s')"
    by (auto simp: py_bind_eq_Inr)
  moreover have "P b t" using Cons.prems(2,3) t(1) by (meson list.set_intros(1))
  ultimately show ?case using Cons.IH Cons.prems(3) by (meson list.set_intros(2))
qed simp

lemma py_bind_lift: "py_bind (py_lift r) f = (case r of Inl e \<Rightarrow> py_raise e | Inr x \<Rightarrow> f x)"
  by (cases r) (auto simp: py_simps)

lemma py_lift_res_fold: "py_lift (res_fold f a xs) = py_fold (\<lambda>a x. py_lift (f a x)) a xs"
proof (induction xs arbitrary: a)
  case (Cons x xs)
  show ?case
    by (cases "f a x") (simp_all add: Cons [symmetric] py_bind_lift, simp add: py_simps)
qed (simp add: py_simps)

lemma gen_loop_Cons_Inr:
  "gen_loop f a (x # xs) s = (ys, Inr b, t) \<longleftrightarrow>
     (\<exists>y a' s' ys'. f a x s = (Inr (y, a'), s') \<and> gen_loop f a' xs s' = (ys', Inr b, t)
        \<and> ys = (case y of None \<Rightarrow> [] | Some z \<Rightarrow> [z]) @ ys')"
  by (fastforce split: prod.splits sum.splits option.splits)

lemma py_fold_total:
  assumes "P a" and "\<And>a s x. P a \<Longrightarrow> x \<in> set xs \<Longrightarrow> \<exists>b t. f a x s = (Inr b, t) \<and> P b"
  shows "\<exists>b t. py_fold f a xs s = (Inr b, t) \<and> P b"
  using assms
proof (induction xs arbitrary: a s)
  case (Cons x xs)
  then obtain b t where "f a x s = (Inr b, t)" "P b" by (meson list.set_intros(1))
  moreover from this Cons obtain c u where "py_fold f b xs t = (Inr c, u)" "P c"
    by (meson list.set_intros(2))
  ultimately show ?case by (auto simp: py_bind_eq_Inr)
qed simp

lemma py_index_0: "xs \<noteq> [] \<Longrightarrow> py_index xs 0 = Inr (xs ! 0)"
  by (simp add: py_index_def)

lemma not_isl_Inr: "\<not> isl x \<longleftrightarrow> (\<exists>y. x = Inr y)"
  by (cases x) auto

lemma res_map_progress: "list_all (\<lambda>x. \<not> isl (f x)) xs \<Longrightarrow> \<exists>ys. res_map f xs = Inr ys"
  by (induction xs) (auto simp: not_isl_Inr)

lemma res_fold_progress: "(\<And>a x. x \<in> set xs \<Longrightarrow> \<exists>b. f a x = Inr b) \<Longrightarrow> \<exists>b. res_fold f a xs = Inr b"
proof (induction xs arbitrary: a)
  case (Cons x xs)
  then obtain b where "f a x = Inr b" by fastforce
  with Cons show ?case by auto
qed simp

end
