(* ===== verification/Py_Parse.thy ===== *)
theory Py_Parse
  imports Py_Prelude
begin

text \<open>
  Reading text: \<open>str.strip\<close> with the white space of strings, \<open>int(text)\<close> with signs and
  underscores, and \<open>str.split\<close> with a separator of one character. The lemmas are the round trips
  with the printing of integers and with \<open>join\<close>.
\<close>

section \<open>Integers\<close>

definition str_space :: "char \<Rightarrow> bool" where
  "str_space c \<longleftrightarrow> is_space c \<or> c \<in> {CHR 0x1C, CHR 0x1D, CHR 0x1E, CHR 0x1F, CHR 0x85, CHR 0xA0}"

definition str_strip :: "string \<Rightarrow> string" where
  "str_strip s = rev (dropWhile str_space (rev (dropWhile str_space s)))"

definition digit_val :: "char \<Rightarrow> nat option" where
  "digit_val c = (let k = of_char c :: nat in if 48 \<le> k \<and> k \<le> 57 then Some (k - 48) else None)"

text \<open>The flag tells whether the last character was a digit: an underscore stands between digits.\<close>

fun digits_value :: "nat \<Rightarrow> bool \<Rightarrow> string \<Rightarrow> nat option" where
  "digits_value acc d [] = (if d then Some acc else None)"
| "digits_value acc d (c # cs) =
     (if c = CHR ''_'' then (if d then digits_value acc False cs else None)
      else case digit_val c of None \<Rightarrow> None | Some v \<Rightarrow> digits_value (10 * acc + v) True cs)"

definition invalid_literal :: "string \<Rightarrow> py_error" where
  "invalid_literal s = ValueError (''invalid literal for int() with base 10: '' @ s)"

definition int_of_str :: "string \<Rightarrow> int res" where
  "int_of_str s =
     (let t = str_strip s;
          (neg, ds) = (case t of
             c # cs \<Rightarrow> if c = CHR ''-'' then (True, cs) else if c = CHR ''+'' then (False, cs) else (False, t)
           | [] \<Rightarrow> (False, t))
      in case digits_value 0 False ds of
           None \<Rightarrow> Inl (invalid_literal s)
         | Some n \<Rightarrow> Inr (if neg then - int n else int n))"

section \<open>Splitting\<close>

fun split_char :: "char \<Rightarrow> string \<Rightarrow> string list" where
  "split_char c [] = [[]]"
| "split_char c (x # xs) =
     (if x = c then [] # split_char c xs
      else case split_char c xs of [] \<Rightarrow> [[x]] | y # ys \<Rightarrow> (x # y) # ys)"

text \<open>\<open>s.split(c, maxsplit=1)\<close>; the second part is missing when the separator does not occur.\<close>

fun split_once :: "char \<Rightarrow> string \<Rightarrow> string \<times> string option" where
  "split_once c [] = ([], None)"
| "split_once c (x # xs) =
     (if x = c then ([], Some xs) else (case split_once c xs of (a, b) \<Rightarrow> (x # a, b)))"

section \<open>Lemmas\<close>

lemma digit_val_char [simp]: "k < 10 \<Longrightarrow> digit_val (char_of (48 + k)) = Some k"
  by (simp add: digit_val_def)

lemma digit_val_plain:
  assumes "digit_val c \<noteq> None"
  shows "c \<noteq> CHR ''_''" "\<not> str_space c" "c \<noteq> CHR ''-''" "c \<noteq> CHR ''+''"
  using assms by (auto simp: digit_val_def str_space_def is_space_def)

lemma digits_of_nat_not_Nil [simp]: "digits_of_nat n \<noteq> []"
  by (subst digits_of_nat.simps) simp

lemma digits_of_nat_chars: "c \<in> set (digits_of_nat n) \<Longrightarrow> digit_val c \<noteq> None"
proof (induction n rule: digits_of_nat.induct)
  case (1 n)
  show ?case
  proof (cases "n < 10")
    case True
    with 1(2) show ?thesis by (subst (asm) digits_of_nat.simps) auto
  next
    case False
    with 1(2) have "c \<in> set (digits_of_nat (n div 10)) \<or> c = char_of (48 + n mod 10)"
      by (subst (asm) digits_of_nat.simps) auto
    then show ?thesis using 1(1) [OF False] by auto
  qed
qed

lemma char_digit_not_underscore: "(k :: nat) < 10 \<Longrightarrow> char_of (48 + k) \<noteq> CHR ''_''"
  by (rule digit_val_plain) simp

lemma digits_value_append:
  "digits_value acc d ds = Some n \<Longrightarrow> k < 10 \<Longrightarrow> digits_value acc d (ds @ [char_of (48 + k)]) = Some (10 * n + k)"
  by (induction acc d ds rule: digits_value.induct)
    (auto simp: char_digit_not_underscore split: if_splits option.splits)

lemma digits_value_digits: "digits_value 0 d (digits_of_nat n) = Some n"
proof (induction n rule: digits_of_nat.induct)
  case (1 n)
  show ?case
  proof (cases "n < 10")
    case True
    then show ?thesis by (subst digits_of_nat.simps) (simp add: char_digit_not_underscore)
  next
    case False
    with 1 digits_value_append [of 0 d "digits_of_nat (n div 10)" "n div 10" "n mod 10"] show ?thesis
      by (subst digits_of_nat.simps) simp
  qed
qed

lemma dropWhile_none: "\<forall>x \<in> set xs. \<not> P x \<Longrightarrow> dropWhile P xs = xs"
  by (cases xs) auto

lemma str_strip_id: "\<forall>c \<in> set s. \<not> str_space c \<Longrightarrow> str_strip s = s"
  by (simp add: str_strip_def dropWhile_none)

lemma digits_no_space: "c \<in> set (digits_of_nat n) \<Longrightarrow> \<not> str_space c"
  using digits_of_nat_chars digit_val_plain(2) by blast

lemma str_of_int_no_space: "c \<in> set (str_of_int i) \<Longrightarrow> \<not> str_space c"
  by (cases "i < 0"; cases "c = CHR ''-''")
    (simp_all add: str_of_int_def digits_no_space str_space_def [of "CHR ''-''"] is_space_def)

lemma int_of_str_of_int [simp]: "int_of_str (str_of_int i) = Inr i"
proof -
  have strip: "str_strip (str_of_int i) = str_of_int i"
    using str_of_int_no_space by (blast intro: str_strip_id)
  obtain c cs where ds: "digits_of_nat (nat i) = c # cs" by (cases "digits_of_nat (nat i)") auto
  then have "digit_val c \<noteq> None" using digits_of_nat_chars [of c "nat i"] by simp
  then have "c \<noteq> CHR ''-''" "c \<noteq> CHR ''+''" by (rule digit_val_plain)+
  moreover have "digits_value 0 False (c # cs) = Some (nat i)"
    using digits_value_digits [of False "nat i"] unfolding ds .
  ultimately show ?thesis
    unfolding int_of_str_def strip
    by (cases "i < 0") (simp_all add: str_of_int_def ds digits_value_digits del: digits_value.simps)
qed

lemma split_char_no: "c \<notin> set s \<Longrightarrow> split_char c s = [s]"
  by (induction s) auto

lemma split_char_sep: "c \<notin> set s \<Longrightarrow> split_char c (s @ c # t) = s # split_char c t"
  by (induction s) auto

lemma split_char_join:
  assumes "\<forall>s \<in> set ss. c \<notin> set s" and "ss \<noteq> []"
  shows "split_char c (py_join [c] ss) = ss"
  using assms
proof (induction ss rule: induct_list012)
  case (2 s)
  then show ?case by (simp add: split_char_no)
next
  case (3 s t ss)
  then show ?case by (simp add: split_char_sep)
qed simp

lemma split_once_None: "c \<notin> set s \<Longrightarrow> split_once c s = (s, None)"
  by (induction s) auto

lemma split_once_Some: "c \<notin> set s \<Longrightarrow> split_once c (s @ c # t) = (s, Some t)"
  by (induction s) auto

end
