(* ===== verification/OpenAI_Protocol.thy ===== *)
theory OpenAI_Protocol
  imports Py_Parse
begin

text \<open>
  The request and response classes of protocol/openai\_api\_protocol.py,
  protocol/debug\_protocol.py and protocol/microserving\_protocol.py as records, their pydantic
  validators, and the two checks of a chat request that run before a prompt is built
  (\<open>check_message_validity\<close>, \<open>check_function_call_usage\<close>, the second in the theory of the
  conversation template it updates). A pydantic constructor whose field type is a
  \<open>Literal\<close> is a function that refuses the other strings with a \<open>ValidationError\<close>; the field
  \<open>created\<close> of the responses (the wall clock) is left out.
\<close>

section \<open>protocol/debug\_protocol.py\<close>

datatype disagg_kind = PrepareReceive | RemoteSend | StartGeneration

record disagg_config =
  dis_kind :: "disagg_kind option"
  dis_kv_append_metadata :: "string option"
  dis_kv_window_begin :: "int option"
  dis_kv_window_end :: "int option"
  dis_dst_group_offset :: "int option"

datatype special_request_kind = QueryEngineMetrics

datatype grammar_execution_kind = Constraint | JumpForward

record debug_config =
  ignore_eos :: bool
  pinned_system_prompt :: bool
  special_request :: "special_request_kind option"
  grammar_execution_mode :: grammar_execution_kind
  disagg :: "disagg_config option"

definition default_debug_config :: debug_config where
  "default_debug_config =
     \<lparr>ignore_eos = False, pinned_system_prompt = False, special_request = None,
      grammar_execution_mode = JumpForward, disagg = None\<rparr>"

section \<open>Commons of protocol/openai\_api\_protocol.py\<close>

definition CHAT_COMPLETION_MAX_TOP_LOGPROBS :: int where
  "CHAT_COMPLETION_MAX_TOP_LOGPROBS = 20"

definition COMPLETION_MAX_TOP_LOGPROBS :: int where
  "COMPLETION_MAX_TOP_LOGPROBS = 5"

record top_log_probs =
  top_token :: string
  top_logprob :: py_float
  top_bytes :: "int list option"

record log_probs_content =
  lp_token :: string
  lp_logprob :: py_float
  lp_bytes :: "int list option"
  lp_top_logprobs :: "top_log_probs list"

record completion_log_probs =
  clp_text_offset :: "int list option"
  clp_token_logprobs :: "py_float list"
  clp_tokens :: "string list"
  clp_top_logprobs :: "(string \<times> py_float) list list"

record completion_usage =
  prompt_tokens :: int
  completion_tokens :: int
  total_tokens :: int
  usage_extra :: "(string \<times> json) list option"

record stream_options =
  include_usage :: "bool option"

datatype response_format_type = FormatText | FormatJsonObject

record request_response_format =
  format_type :: response_format_type
  json_schema :: "string option"

datatype prompt_arg = PromptStr string | PromptTokens "int list"

datatype stop_arg = StopStr string | StopList "string list"

type_synonym logit_bias_map = "(int \<times> py_float) list"

section \<open>v1/completions\<close>

record completion_request =
  creq_model :: "string option"
  creq_prompt :: prompt_arg
  creq_best_of :: int
  creq_echo :: bool
  creq_frequency_penalty :: "py_float option"
  creq_presence_penalty :: "py_float option"
  creq_logprobs :: "int option"
  creq_logit_bias :: "logit_bias_map option"
  creq_max_tokens :: "int option"
  creq_n :: int
  creq_seed :: "int option"
  creq_stop :: "stop_arg option"
  creq_stream :: bool
  creq_stream_options :: "stream_options option"
  creq_suffix :: "string option"
  creq_temperature :: "py_float option"
  creq_top_p :: "py_float option"
  creq_user :: "string option"
  creq_response_format :: "request_response_format option"
  creq_debug_config :: "debug_config option"

text \<open>The request with every field that has a default left at it.\<close>

definition CompletionRequest :: "prompt_arg \<Rightarrow> completion_request" where
  "CompletionRequest prompt =
     \<lparr>creq_model = None, creq_prompt = prompt, creq_best_of = 1, creq_echo = False,
      creq_frequency_penalty = None, creq_presence_penalty = None, creq_logprobs = None,
      creq_logit_bias = None, creq_max_tokens = None, creq_n = 1, creq_seed = None,
      creq_stop = None, creq_stream = False, creq_stream_options = None, creq_suffix = None,
      creq_temperature = None, creq_top_p = None, creq_user = None,
      creq_response_format = None, creq_debug_config = None\<rparr>"

definition completion_check_penalty_range :: "py_float option \<Rightarrow> py_float option res" where
  "completion_check_penalty_range penalty_value =
     (case penalty_value of
        None \<Rightarrow> Inr penalty_value
      | Some v \<Rightarrow>
          if float_truthy v \<and> (v < Finite (- 2) \<or> Finite 2 < v)
          then Inl (ValueError ''Penalty value should be in range [-2, 2].'')
          else Inr penalty_value)"

text \<open>The loop of the logit bias check: the first entry out of range raises.\<close>

fun check_bias_items :: "logit_bias_map \<Rightarrow> unit res" where
  "check_bias_items [] = Inr ()"
| "check_bias_items ((token_id, bias) # rest) =
     (if Finite 100 < float_abs bias
      then Inl (ValueError (''Logit bias value should be in range [-100, 100], token id ''
                 @ str_of_int token_id))
      else check_bias_items rest)"

definition completion_check_logit_bias :: "logit_bias_map option \<Rightarrow> logit_bias_map option res" where
  "completion_check_logit_bias v =
     (case v of None \<Rightarrow> Inr None | Some m \<Rightarrow> res_bind (check_bias_items m) (\<lambda>_. Inr v))"

definition completion_check_logprobs :: "'a completion_request_scheme \<Rightarrow> unit res" where
  "completion_check_logprobs r =
     (case creq_logprobs r of
        None \<Rightarrow> Inr ()
      | Some k \<Rightarrow>
          if k < 0 \<or> k > COMPLETION_MAX_TOP_LOGPROBS
          then Inl (ValueError ''logprobs must be in range [0, 5]'')
          else Inr ())"

text \<open>pydantic turns a \<open>ValueError\<close> of a validator into its \<open>ValidationError\<close>.\<close>

fun as_validation_error :: "'a res \<Rightarrow> 'a res" where
  "as_validation_error (Inl (ValueError msg)) = Inl (ValidationError msg)"
| "as_validation_error r = r"

definition validate_completion_request ::
  "'a completion_request_scheme \<Rightarrow> 'a completion_request_scheme res" where
  "validate_completion_request r =
     as_validation_error
       (res_bind (completion_check_penalty_range (creq_frequency_penalty r)) (\<lambda>_.
        res_bind (completion_check_penalty_range (creq_presence_penalty r)) (\<lambda>_.
        res_bind (completion_check_logit_bias (creq_logit_bias r)) (\<lambda>_.
        res_bind (completion_check_logprobs r) (\<lambda>_. Inr r)))))"

record completion_choice =
  cch_finish_reason :: "string option"
  cch_index :: nat
  cch_logprobs :: "completion_log_probs option"
  cch_text :: string

definition completion_finish_reasons :: "string list" where
  "completion_finish_reasons = [''stop'', ''length'', ''preempt'']"

definition CompletionResponseChoice ::
  "nat \<Rightarrow> string option \<Rightarrow> string \<Rightarrow> completion_log_probs option \<Rightarrow> completion_choice res" where
  "CompletionResponseChoice i reason text lps =
     (if reason \<noteq> None \<and> the reason \<notin> set completion_finish_reasons
      then Inl (ValidationError ''finish_reason'')
      else Inr \<lparr>cch_finish_reason = reason, cch_index = i, cch_logprobs = lps,
                cch_text = text\<rparr>)"

record completion_response =
  cresp_id :: string
  cresp_choices :: "completion_choice list"
  cresp_model :: "string option"
  cresp_usage :: "completion_usage option"

section \<open>v1/chat/completions\<close>

record chat_function =
  fn_description :: "string option"
  fn_name :: string
  fn_parameters :: "(string \<times> json) list"

record chat_tool =
  tool_type :: string
  tool_function :: chat_function

record chat_function_call =
  call_name :: string
  call_arguments :: "(string \<times> json) list option"

record chat_tool_call =
  tcall_id :: string
  tcall_type :: string
  tcall_function :: chat_function_call

datatype chat_role = System | User | Assistant | Tool

datatype chat_content = ContentStr string | ContentParts "(string \<times> json) list list"

record chat_message =
  msg_content :: "chat_content option"
  msg_role :: chat_role
  msg_name :: "string option"
  msg_tool_calls :: "chat_tool_call list option"
  msg_tool_call_id :: "string option"

definition ChatCompletionMessage :: "chat_role \<Rightarrow> chat_content option \<Rightarrow> chat_message" where
  "ChatCompletionMessage r c =
     \<lparr>msg_content = c, msg_role = r, msg_name = None, msg_tool_calls = None,
      msg_tool_call_id = None\<rparr>"

datatype tool_choice_arg = ToolChoiceStr string | ToolChoiceDict "(string \<times> json) list"

record chat_request =
  chat_messages :: "chat_message list"
  chat_model :: "string option"
  chat_frequency_penalty :: "py_float option"
  chat_presence_penalty :: "py_float option"
  chat_logprobs :: bool
  chat_top_logprobs :: int
  chat_logit_bias :: "logit_bias_map option"
  chat_max_tokens :: "int option"
  chat_n :: int
  chat_seed :: "int option"
  chat_stop :: "stop_arg option"
  chat_stream :: bool
  chat_stream_options :: "stream_options option"
  chat_temperature :: "py_float option"
  chat_top_p :: "py_float option"
  chat_tools :: "chat_tool list option"
  chat_tool_choice :: "tool_choice_arg option"
  chat_user :: "string option"
  chat_response_format :: "request_response_format option"
  chat_debug_config :: "debug_config option"

definition ChatCompletionRequest :: "chat_message list \<Rightarrow> chat_request" where
  "ChatCompletionRequest msgs =
     \<lparr>chat_messages = msgs, chat_model = None, chat_frequency_penalty = None,
      chat_presence_penalty = None, chat_logprobs = False, chat_top_logprobs = 0,
      chat_logit_bias = None, chat_max_tokens = None, chat_n = 1, chat_seed = None,
      chat_stop = None, chat_stream = False, chat_stream_options = None,
      chat_temperature = None, chat_top_p = None, chat_tools = None, chat_tool_choice = None,
      chat_user = None, chat_response_format = None, chat_debug_config = None\<rparr>"

definition chat_check_penalty_range :: "py_float option \<Rightarrow> py_float option res" where
  "chat_check_penalty_range penalty_value =
     (case penalty_value of
        None \<Rightarrow> Inr penalty_value
      | Some v \<Rightarrow>
          if float_truthy v \<and> (v < Finite (- 2) \<or> Finite 2 < v)
          then Inl (ValueError ''Penalty value should be in range [-2, 2].'')
          else Inr penalty_value)"

definition chat_check_logit_bias :: "logit_bias_map option \<Rightarrow> logit_bias_map option res" where
  "chat_check_logit_bias v =
     (case v of None \<Rightarrow> Inr None | Some m \<Rightarrow> res_bind (check_bias_items m) (\<lambda>_. Inr v))"

definition chat_check_logprobs :: "chat_request \<Rightarrow> unit res" where
  "chat_check_logprobs r =
     (if chat_top_logprobs r < 0 \<or> chat_top_logprobs r > CHAT_COMPLETION_MAX_TOP_LOGPROBS
      then Inl (ValueError ''top_logprobs must be in range [0, 20]'')
      else if \<not> chat_logprobs r \<and> chat_top_logprobs r > 0
      then Inl (ValueError ''logprobs must be True to support top_logprobs'')
      else Inr ())"

definition check_stream_options :: "chat_request \<Rightarrow> unit res" where
  "check_stream_options r =
     (if chat_stream_options r = None then Inr ()
      else if \<not> chat_stream r
      then Inl (ValueError ''stream must be set to True when stream_options is present'')
      else Inr ())"

definition check_debug_config :: "chat_request \<Rightarrow> unit res" where
  "check_debug_config r =
     (case chat_debug_config r of
        None \<Rightarrow> Inr ()
      | Some d \<Rightarrow>
          if special_request d = None then Inr ()
          else if \<not> chat_stream r
          then Inl (ValueError ''DebugConfig.special_request requires stream=True'')
          else (case chat_stream_options r of
                  None \<Rightarrow> Inl (ValueError
                    ''DebugConfig.special_request requires include_usage in stream_options'')
                | Some so \<Rightarrow>
                    if include_usage so \<noteq> Some True
                    then Inl (ValueError
                      ''DebugConfig.special_request requires include_usage in stream_options'')
                    else Inr ()))"

definition validate_chat_request :: "chat_request \<Rightarrow> chat_request res" where
  "validate_chat_request r =
     as_validation_error
       (res_bind (chat_check_penalty_range (chat_frequency_penalty r)) (\<lambda>_.
        res_bind (chat_check_penalty_range (chat_presence_penalty r)) (\<lambda>_.
        res_bind (chat_check_logit_bias (chat_logit_bias r)) (\<lambda>_.
        res_bind (chat_check_logprobs r) (\<lambda>_.
        res_bind (check_stream_options r) (\<lambda>_.
        res_bind (check_debug_config r) (\<lambda>_. Inr r)))))))"

definition is_content_list :: "chat_content option \<Rightarrow> bool" where
  "is_content_list c = (case c of Some (ContentParts _) \<Rightarrow> True | _ \<Rightarrow> False)"

text \<open>The body of the loop of \<open>check_message_validity\<close>, for the message at position \<open>i\<close>.\<close>

definition check_one_message :: "nat \<Rightarrow> chat_message \<Rightarrow> unit res" where
  "check_one_message i m =
     (if msg_role m = System \<and> i \<noteq> 0
      then Inl (BadRequestError (''System prompt at position '' @ str_of_nat i
                 @ '' in the message list is invalid.''))
      else if msg_tool_call_id m \<noteq> None \<and> msg_role m \<noteq> Tool
      then Inl (BadRequestError ''Non-tool message having `tool_call_id` is invalid.'')
      else if is_content_list (msg_content m) \<and> msg_role m \<noteq> User
      then Inl (BadRequestError ''Non-user message having a list of content is invalid.'')
      else if msg_tool_calls m \<noteq> None \<and> msg_role m \<noteq> Assistant
      then Inl (BadRequestError ''Non-assistant message having `tool_calls` is invalid.'')
      else if msg_tool_calls m \<noteq> None
      then Inl (BadRequestError ''Assistant message having `tool_calls` is not supported yet.'')
      else Inr ())"

fun check_messages_from :: "nat \<Rightarrow> chat_message list \<Rightarrow> unit res" where
  "check_messages_from i [] = Inr ()"
| "check_messages_from i (m # ms) =
     res_bind (check_one_message i m) (\<lambda>_. check_messages_from (Suc i) ms)"

definition check_message_validity :: "chat_request \<Rightarrow> unit res" where
  "check_message_validity r = check_messages_from 0 (chat_messages r)"

record chat_choice =
  cc_finish_reason :: "string option"
  cc_index :: nat
  cc_message :: chat_message
  cc_logprobs :: "log_probs_content list option"

record chat_stream_choice =
  sc_finish_reason :: "string option"
  sc_index :: nat
  sc_delta :: chat_message
  sc_logprobs :: "log_probs_content list option"

definition chat_finish_reasons :: "string list" where
  "chat_finish_reasons = [''stop'', ''length'', ''tool_calls'', ''error'']"

definition ChatCompletionResponseChoice ::
  "nat \<Rightarrow> string option \<Rightarrow> chat_message \<Rightarrow> log_probs_content list option \<Rightarrow> chat_choice res" where
  "ChatCompletionResponseChoice i reason m lps =
     (if reason \<noteq> None \<and> the reason \<notin> set chat_finish_reasons
      then Inl (ValidationError ''finish_reason'')
      else Inr \<lparr>cc_finish_reason = reason, cc_index = i, cc_message = m, cc_logprobs = lps\<rparr>)"

definition ChatCompletionStreamResponseChoice ::
  "nat \<Rightarrow> string option \<Rightarrow> chat_message \<Rightarrow> log_probs_content list option
     \<Rightarrow> chat_stream_choice res" where
  "ChatCompletionStreamResponseChoice i reason m lps =
     (if reason \<noteq> None \<and> the reason \<notin> set chat_finish_reasons
      then Inl (ValidationError ''finish_reason'')
      else Inr \<lparr>sc_finish_reason = reason, sc_index = i, sc_delta = m, sc_logprobs = lps\<rparr>)"

record chat_response =
  ccresp_id :: string
  ccresp_choices :: "chat_choice list"
  ccresp_model :: "string option"
  ccresp_usage :: "completion_usage option"

record chat_stream_response =
  csresp_id :: string
  csresp_choices :: "chat_stream_choice list"
  csresp_model :: "string option"
  csresp_usage :: "completion_usage option"

section \<open>The union of the two request classes\<close>

datatype request_protocol = ReqCompletion completion_request | ReqChat chat_request

text \<open>
  Only \<open>best_of\<close> is unsupported, and only completion requests have the attribute.
\<close>

fun openai_api_get_unsupported_fields :: "request_protocol \<Rightarrow> string list" where
  "openai_api_get_unsupported_fields (ReqCompletion r) =
     (if creq_best_of r \<noteq> 1 then [''best_of''] else [])"
| "openai_api_get_unsupported_fields (ReqChat r) = []"

section \<open>protocol/microserving\_protocol.py\<close>

record prep_recv_request = completion_request +
  prep_end :: int

record prep_recv_response =
  prep_kv_append_metadata :: string
  prep_prefix_matched_length :: int

record remote_send_request = completion_request +
  send_begin :: int
  send_end :: int
  send_kv_addr_info :: string
  send_recv_rank :: int

record start_generate_request = completion_request +
  start_begin :: int

section \<open>What the validators accept\<close>

definition penalty_ok :: "py_float option \<Rightarrow> bool" where
  "penalty_ok p = (case p of Some (Finite v) \<Rightarrow> - 2 \<le> v \<and> v \<le> 2 | Some NaN \<Rightarrow> True
                   | Some _ \<Rightarrow> False | None \<Rightarrow> True)"

definition bias_value_ok :: "py_float \<Rightarrow> bool" where
  "bias_value_ok b = (case b of Finite v \<Rightarrow> \<bar>v\<bar> \<le> 100 | NaN \<Rightarrow> True | _ \<Rightarrow> False)"

definition bias_ok :: "logit_bias_map option \<Rightarrow> bool" where
  "bias_ok m = (case m of None \<Rightarrow> True | Some kvs \<Rightarrow> list_all (\<lambda>(k, b). bias_value_ok b) kvs)"

definition chat_request_ok :: "chat_request \<Rightarrow> bool" where
  "chat_request_ok r \<longleftrightarrow>
     penalty_ok (chat_frequency_penalty r) \<and> penalty_ok (chat_presence_penalty r)
     \<and> bias_ok (chat_logit_bias r)
     \<and> 0 \<le> chat_top_logprobs r \<and> chat_top_logprobs r \<le> 20
     \<and> (chat_top_logprobs r = 0 \<or> chat_logprobs r)
     \<and> (chat_stream_options r = None \<or> chat_stream r)
     \<and> (Option.bind (chat_debug_config r) special_request = None
        \<or> chat_stream r \<and> Option.bind (chat_stream_options r) include_usage = Some True)"

definition completion_request_ok :: "'a completion_request_scheme \<Rightarrow> bool" where
  "completion_request_ok r \<longleftrightarrow>
     penalty_ok (creq_frequency_penalty r) \<and> penalty_ok (creq_presence_penalty r)
     \<and> bias_ok (creq_logit_bias r)
     \<and> (case creq_logprobs r of None \<Rightarrow> True | Some k \<Rightarrow> 0 \<le> k \<and> k \<le> 5)"

definition message_ok :: "nat \<Rightarrow> chat_message \<Rightarrow> bool" where
  "message_ok i m \<longleftrightarrow>
     (msg_role m = System \<longrightarrow> i = 0) \<and> (msg_tool_call_id m \<noteq> None \<longrightarrow> msg_role m = Tool)
     \<and> (is_content_list (msg_content m) \<longrightarrow> msg_role m = User) \<and> msg_tool_calls m = None"

section \<open>Lemmas\<close>

lemmas float_order = less_py_float_def less_eq_py_float_def

lemma float_lt_Finite: "Finite c < x \<longleftrightarrow> (case x of Finite v \<Rightarrow> c < v | PosInf \<Rightarrow> True | _ \<Rightarrow> False)"
  by (cases x) (auto simp: float_order)

lemma float_gt_Finite: "x < Finite c \<longleftrightarrow> (case x of Finite v \<Rightarrow> v < c | NegInf \<Rightarrow> True | _ \<Rightarrow> False)"
  by (cases x) (auto simp: float_order)

lemma penalty_range_Inr:
  "chat_check_penalty_range p = (if penalty_ok p then Inr p
     else Inl (ValueError ''Penalty value should be in range [-2, 2].''))"
  by (auto simp: chat_check_penalty_range_def penalty_ok_def float_truthy_def float_lt_Finite
      float_gt_Finite split: option.splits py_float.splits)

lemma completion_penalty_range: "completion_check_penalty_range = chat_check_penalty_range"
  by (rule ext) (simp add: completion_check_penalty_range_def chat_check_penalty_range_def)

lemma bias_item_Inr: "Finite 100 < float_abs b \<longleftrightarrow> \<not> bias_value_ok b"
  by (cases b) (auto simp: bias_value_ok_def float_lt_Finite)

lemma check_bias_items_Inr: "check_bias_items m = Inr u \<longleftrightarrow> list_all (\<lambda>(k, b). bias_value_ok b) m"
  by (induction m rule: check_bias_items.induct) (auto simp: bias_item_Inr)

lemma check_bias_items_ValueError: "check_bias_items m = Inl e \<Longrightarrow> \<exists>t. e = ValueError t"
  by (induction m rule: check_bias_items.induct) (auto split: if_splits)

lemma chat_logit_bias_Inr: "chat_check_logit_bias m = Inr m' \<longleftrightarrow> bias_ok m \<and> m' = m"
  by (auto simp: chat_check_logit_bias_def bias_ok_def res_bind_eq_Inr check_bias_items_Inr
      split: option.splits)

lemma completion_logit_bias: "completion_check_logit_bias = chat_check_logit_bias"
  by (rule ext) (simp add: completion_check_logit_bias_def chat_check_logit_bias_def)

lemma as_validation_error_Inr [simp]: "as_validation_error r = Inr x \<longleftrightarrow> r = Inr x"
  by (cases r rule: as_validation_error.cases) auto

lemma check_one_message_Inr [simp]: "check_one_message i m = Inr u \<longleftrightarrow> message_ok i m"
  by (auto simp: check_one_message_def message_ok_def)

lemma check_one_message_Inl:
  "check_one_message i m = Inl e \<Longrightarrow> \<not> message_ok i m \<and> (\<exists>t. e = BadRequestError t)"
  by (auto simp: check_one_message_def message_ok_def split: if_splits)

lemma check_messages_from_Inr:
  "check_messages_from k ms = Inr u \<longleftrightarrow> (\<forall>i<length ms. message_ok (k + i) (ms ! i))"
proof (induction ms arbitrary: k)
  case (Cons m ms)
  have "(\<forall>i<length (m # ms). message_ok (k + i) ((m # ms) ! i)) \<longleftrightarrow>
        message_ok k m \<and> (\<forall>i<length ms. message_ok (Suc k + i) (ms ! i))"
    by (auto simp: nth_Cons split: nat.splits)
  with Cons show ?case by (auto simp: res_bind_eq_Inr)
qed simp

lemma check_messages_from_Inl:
  "check_messages_from k ms = Inl e \<Longrightarrow>
     \<exists>i<length ms. (\<forall>j<i. message_ok (k + j) (ms ! j)) \<and> check_one_message (k + i) (ms ! i) = Inl e"
proof (induction ms arbitrary: k)
  case (Cons m ms)
  show ?case
  proof (cases "check_one_message k m")
    case (Inl e')
    with Cons.prems show ?thesis by (intro exI [of _ 0]) auto
  next
    case (Inr u)
    then have ok: "message_ok k m" by simp
    from Cons.prems Inr have "check_messages_from (Suc k) ms = Inl e" by simp
    from Cons.IH [OF this] obtain i where i: "i < length ms"
      "\<forall>j<i. message_ok (Suc k + j) (ms ! j)" "check_one_message (Suc k + i) (ms ! i) = Inl e"
      by blast
    have "message_ok (k + j) ((m # ms) ! j)" if "j < Suc i" for j
      using that ok i(2) by (cases j) auto
    with i show ?thesis by (intro exI [of _ "Suc i"]) auto
  qed
qed simp

section \<open>Properties\<close>

text \<open>
  A chat request passes \<open>check_message_validity\<close> exactly when every message is acceptable
  at its position (a system prompt only first, \<open>tool_call_id\<close> only on tool messages, content
  lists only on user messages, no \<open>tool_calls\<close>); otherwise the error is a
  \<open>BadRequestError\<close>, the one of the first message that is not acceptable.
\<close>

theorem check_message_validity_spec:
  "case check_message_validity r of
     Inr _ \<Rightarrow> \<forall>i<length (chat_messages r). message_ok i (chat_messages r ! i)
   | Inl e \<Rightarrow> \<exists>i<length (chat_messages r).
        (\<forall>j<i. message_ok j (chat_messages r ! j)) \<and> \<not> message_ok i (chat_messages r ! i)
        \<and> check_one_message i (chat_messages r ! i) = Inl e \<and> (\<exists>t. e = BadRequestError t)"
proof (cases "check_message_validity r")
  case (Inl e)
  then have "check_messages_from 0 (chat_messages r) = Inl e"
    by (simp add: check_message_validity_def)
  from check_messages_from_Inl [OF this] obtain i where "i < length (chat_messages r)"
    "\<forall>j<i. message_ok j (chat_messages r ! j)"
    "check_one_message i (chat_messages r ! i) = Inl e" by auto
  with check_one_message_Inl [OF this(3)] show ?thesis using Inl by auto
next
  case (Inr u)
  then show ?thesis
    using check_messages_from_Inr [of 0 "chat_messages r" u]
    by (simp add: check_message_validity_def)
qed

theorem check_message_validity_witness:
  "(let r = ChatCompletionRequest
      [ChatCompletionMessage System (Some (ContentStr ''a'')),
       ChatCompletionMessage System (Some (ContentStr ''b''))] in
    check_message_validity r
      = Inl (BadRequestError ''System prompt at position 1 in the message list is invalid.'')
    \<and> \<not> message_ok 1 (chat_messages r ! 1) \<and> message_ok 0 (chat_messages r ! 0))"
proof -
  let ?r = "ChatCompletionRequest
      [ChatCompletionMessage System (Some (ContentStr ''a'')),
       ChatCompletionMessage System (Some (ContentStr ''b''))]"
  have e: "check_message_validity ?r
      = Inl (BadRequestError ''System prompt at position 1 in the message list is invalid.'')"
    by code_simp
  from check_message_validity_spec [of ?r] e show ?thesis
    by (auto simp: Let_def ChatCompletionRequest_def ChatCompletionMessage_def message_ok_def
        is_content_list_def)
qed

text \<open>
  C20: the pydantic validators accept a chat request exactly when it satisfies
  \<open>chat_request_ok\<close>: both penalties absent, NaN or between -2 and 2, every logit bias NaN or
  of absolute value at most 100, \<open>top_logprobs\<close> between 0 and 20 and 0 unless \<open>logprobs\<close> is
  set, stream options only when streaming, special requests only when streaming with usage.
  The accepted request is the given one.
\<close>

theorem validate_chat_request_iff:
  "validate_chat_request r = Inr r' \<longleftrightarrow> chat_request_ok r \<and> r' = r"
proof -
  have lp: "chat_check_logprobs r = Inr () \<longleftrightarrow> 0 \<le> chat_top_logprobs r \<and> chat_top_logprobs r \<le> 20
      \<and> (chat_top_logprobs r = 0 \<or> chat_logprobs r)"
    by (auto simp: chat_check_logprobs_def CHAT_COMPLETION_MAX_TOP_LOGPROBS_def)
  have so: "check_stream_options r = Inr () \<longleftrightarrow> chat_stream_options r = None \<or> chat_stream r"
    by (auto simp: check_stream_options_def)
  have dc: "check_debug_config r = Inr () \<longleftrightarrow>
      Option.bind (chat_debug_config r) special_request = None
      \<or> chat_stream r \<and> Option.bind (chat_stream_options r) include_usage = Some True"
    by (auto simp: check_debug_config_def split: option.splits)
  have "validate_chat_request r = Inr r' \<longleftrightarrow>
      penalty_ok (chat_frequency_penalty r) \<and> penalty_ok (chat_presence_penalty r)
      \<and> bias_ok (chat_logit_bias r) \<and> chat_check_logprobs r = Inr ()
      \<and> check_stream_options r = Inr () \<and> check_debug_config r = Inr () \<and> r' = r"
    by (auto simp: validate_chat_request_def res_bind_eq_Inr penalty_range_Inr chat_logit_bias_Inr)
  then show ?thesis unfolding lp so dc chat_request_ok_def by blast
qed

end
