(* ===== verification/Conversation_Template.thy ===== *)
theory Conversation_Template
  imports OpenAI_Protocol
begin

text \<open>
  The conversation template of protocol/conversation\_protocol.py: the \<open>Conversation\<close> class, the
  construction of the prompt from the template and the message history (\<open>as_prompt\<close>), and
  \<open>check_function_call_usage\<close> of protocol/openai\_api\_protocol.py, which writes the function
  calling fields of the template. Images (serve/data.py) are opaque tensors of type \<open>'img\<close>; the two ways
  to obtain one, base64 decoding and an HTTP request, are the parameters \<open>load_b64\<close> and
  \<open>load_http\<close>.
\<close>

section \<open>serve/data.py: images\<close>

record 'img image_data =
  image_tensor :: 'img
  embed_size :: nat

datatype 'img prompt_part = Text string | Image "'img image_data"

fun is_Image :: "'img prompt_part \<Rightarrow> bool" where
  "is_Image (Text _) = False"
| "is_Image (Image _) = True"

definition image_from_url ::
  "(string \<Rightarrow> 'img res) \<Rightarrow> (string \<Rightarrow> 'img res) \<Rightarrow> string \<Rightarrow> (string \<times> json) list
     \<Rightarrow> 'img image_data res" where
  "image_from_url load_b64 load_http url config =
     res_bind
       (if prefix ''data:image'' url
        then res_bind (py_index (split_char (CHR '','') url) 1) load_b64
        else if prefix ''http'' url then load_http url
        else Inl (ValueError (''Unsupported image URL format: '' @ url)))
       (\<lambda>tensor.
     res_bind (dict_get config ''model_type'') (\<lambda>model_type.
       Inr \<lparr>image_tensor = tensor,
            embed_size = (if model_type = JStr ''phi3_v'' then 1921 else 576)\<rparr>))"

section \<open>The Conversation class\<close>

definition PLACEHOLDER_SYSTEM :: string where "PLACEHOLDER_SYSTEM = ''{system_message}''"
definition PLACEHOLDER_USER :: string where "PLACEHOLDER_USER = ''{user_message}''"
definition PLACEHOLDER_ASSISTANT :: string where "PLACEHOLDER_ASSISTANT = ''{assistant_message}''"
definition PLACEHOLDER_TOOL :: string where "PLACEHOLDER_TOOL = ''{tool_message}''"
definition PLACEHOLDER_FUNCTION :: string where "PLACEHOLDER_FUNCTION = ''{function_string}''"

definition upper_char :: "char \<Rightarrow> char" where
  "upper_char c = (if 97 \<le> (of_char c :: nat) \<and> (of_char c :: nat) \<le> 122
                   then char_of (of_char c - 32 :: nat) else c)"

text \<open>\<open>MessagePlaceholders[role.upper()].value\<close>\<close>

definition MessagePlaceholders :: "string \<Rightarrow> string res" where
  "MessagePlaceholders role =
     (let k = map upper_char role in
      if k = ''SYSTEM'' then Inr PLACEHOLDER_SYSTEM
      else if k = ''USER'' then Inr PLACEHOLDER_USER
      else if k = ''ASSISTANT'' then Inr PLACEHOLDER_ASSISTANT
      else if k = ''TOOL'' then Inr PLACEHOLDER_TOOL
      else if k = ''FUNCTION'' then Inr PLACEHOLDER_FUNCTION
      else Inl (KeyError k))"

type_synonym conv_message = "string \<times> chat_content option"

record conversation =
  conv_name :: "string option"
  system_template :: string
  system_message :: string
  system_prefix_token_ids :: "int list option"
  add_role_after_system_message :: bool
  roles :: "(string \<times> string) list"
  role_templates :: "(string \<times> string) list"
  messages :: "conv_message list"
  seps :: "string list"
  role_content_sep :: string
  role_empty_sep :: string
  stop_str :: "string list"
  stop_token_ids :: "int list"
  function_string :: string
  use_function_calling :: bool

definition default_role_templates :: "(string \<times> string) list" where
  "default_role_templates =
     [(''user'', PLACEHOLDER_USER), (''assistant'', PLACEHOLDER_ASSISTANT),
      (''tool'', PLACEHOLDER_TOOL)]"

definition check_message_seps :: "string list \<Rightarrow> string list res" where
  "check_message_seps ss =
     (if length ss = 0 \<or> length ss > 2 then Inl (ValueError ''seps should have size 1 or 2.'')
      else Inr ss)"

text \<open>
  \<open>Conversation.__init__\<close>: the given role templates override the default ones; the other
  fields are those of \<open>kwargs\<close>, whose separators are validated.
\<close>

definition Conversation_init ::
  "(string \<times> string) list option \<Rightarrow> conversation \<Rightarrow> conversation res" where
  "Conversation_init templates kwargs =
     (let ts = (case templates of None \<Rightarrow> default_role_templates
                | Some t \<Rightarrow> dict_update default_role_templates t)
      in as_validation_error
           (res_bind (check_message_seps (seps kwargs)) (\<lambda>ss.
              Inr (kwargs\<lparr>role_templates := ts, seps := ss\<rparr>))))"

fun get_url_from_item :: "(string \<times> json) list \<Rightarrow> string res" where
  "get_url_from_item item =
     (case map_of item ''image_url'' of
        None \<Rightarrow> Inl (AssertionError ''Content item should have an image_url field'')
      | Some (JStr s) \<Rightarrow> Inr s
      | Some (JObj d) \<Rightarrow>
          (case map_of d ''url'' of
             None \<Rightarrow> Inl (AssertionError
               ''Content image_url item should be a string or a dict with a url field'')
           | Some (JStr s) \<Rightarrow> Inr s
           | Some _ \<Rightarrow> Inl (AttributeError ''startswith''))
      | Some _ \<Rightarrow> Inl (ValueError ''Content image_url item type not supported. Should be a string or a dict with a url field.''))"

definition combine_step :: "'img prompt_part list \<Rightarrow> 'img prompt_part \<Rightarrow> 'img prompt_part list" where
  "combine_step acc p =
     (case (p, last acc) of
        (Text s, Text t) \<Rightarrow> butlast acc @ [Text (t @ s)]
      | _ \<Rightarrow> acc @ [p])"

fun combine_consecutive_messages :: "'img prompt_part list \<Rightarrow> 'img prompt_part list" where
  "combine_consecutive_messages [] = []"
| "combine_consecutive_messages (m # ms) = foldl combine_step [m] ms"

text \<open>\<open>self.role_templates[role].replace(MessagePlaceholders[role.upper()].value, text)\<close>\<close>

definition fill_template :: "conversation \<Rightarrow> string \<Rightarrow> string \<Rightarrow> string res" where
  "fill_template c role text =
     res_bind (dict_get (role_templates c) role) (\<lambda>t.
     res_bind (MessagePlaceholders role) (\<lambda>ph. Inr (py_replace t ph text)))"

text \<open>The body of the loop over the items of a content list.\<close>

definition render_item ::
  "(string \<Rightarrow> 'img res) \<Rightarrow> (string \<Rightarrow> 'img res) \<Rightarrow> conversation \<Rightarrow> (string \<times> json) list option
     \<Rightarrow> string \<Rightarrow> (string \<times> json) list \<Rightarrow> 'img prompt_part list res" where
  "render_item load_b64 load_http c config role item =
     (case map_of item ''type'' of
        None \<Rightarrow> Inl (AssertionError ''Content item should have a type field'')
      | Some ty \<Rightarrow>
          if ty = JStr ''text'' then
            res_bind (dict_get (role_templates c) role) (\<lambda>t.
            res_bind (MessagePlaceholders role) (\<lambda>ph.
            res_bind (dict_get item ''text'') (\<lambda>v.
              case v of JStr s \<Rightarrow> Inr [Text (py_replace t ph s)]
                      | _ \<Rightarrow> Inl (TypeError ''replace() argument 2 must be str''))))
          else if ty = JStr ''image_url'' then
            (case config of
               None \<Rightarrow> Inl (AssertionError ''Model config is required'')
             | Some cfg \<Rightarrow>
                 res_bind (get_url_from_item item) (\<lambda>url.
                 res_bind (image_from_url load_b64 load_http url cfg) (\<lambda>img.
                   Inr [Image img, Text [CHR 0x0A]])))
          else Inl (ValueError ''Unsupported content type''))"

text \<open>The body of the loop over the messages: what the message at position \<open>i\<close> appends.\<close>

definition render_message ::
  "(string \<Rightarrow> 'img res) \<Rightarrow> (string \<Rightarrow> 'img res) \<Rightarrow> conversation \<Rightarrow> (string \<times> json) list option
     \<Rightarrow> string \<Rightarrow> string list \<Rightarrow> nat \<Rightarrow> conv_message \<Rightarrow> 'img prompt_part list res" where
  "render_message load_b64 load_http c config system_msg separs i msg =
     (case msg of (role, content) \<Rightarrow>
      case map_of (roles c) role of
        None \<Rightarrow> Inl (ValueError (''Role '' @ role @ '' is not a supported role''))
      | Some role_text \<Rightarrow>
        res_bind (py_index separs (if role = ''assistant'' then 1 else 0)) (\<lambda>separator.
        case content of
          None \<Rightarrow> Inr [Text (role_text @ role_empty_sep c)]
        | Some body \<Rightarrow>
          let role_prefix =
                (if \<not> add_role_after_system_message c \<and> system_msg \<noteq> '''' \<and> i = 0 then ''''
                 else role_text @ role_content_sep c)
          in (case body of
                ContentStr s \<Rightarrow>
                  res_bind (fill_template c role s) (\<lambda>filled.
                    Inr [Text (role_prefix @ filled @ separator)])
              | ContentParts items \<Rightarrow>
                  res_bind (res_map (render_item load_b64 load_http c config role) items) (\<lambda>pss.
                    Inr ([Text role_prefix] @ concat pss @ [Text separator])))))"

fun render_messages ::
  "(string \<Rightarrow> 'img res) \<Rightarrow> (string \<Rightarrow> 'img res) \<Rightarrow> conversation \<Rightarrow> (string \<times> json) list option
     \<Rightarrow> string \<Rightarrow> string list \<Rightarrow> nat \<Rightarrow> conv_message list \<Rightarrow> 'img prompt_part list res" where
  "render_messages load_b64 load_http c config system_msg separs i [] = Inr []"
| "render_messages load_b64 load_http c config system_msg separs i (m # ms) =
     res_bind (render_message load_b64 load_http c config system_msg separs i m) (\<lambda>ps.
     res_bind (render_messages load_b64 load_http c config system_msg separs (Suc i) ms) (\<lambda>qs.
       Inr (ps @ qs)))"

text \<open>The last function string placeholder is filled, the remaining ones are deleted.\<close>

definition fill_function_string :: "conversation \<Rightarrow> string \<Rightarrow> string" where
  "fill_function_string c s =
     py_replace (py_join (function_string c) (rsplit_once s PLACEHOLDER_FUNCTION))
       PLACEHOLDER_FUNCTION ''''"

definition system_text :: "conversation \<Rightarrow> string" where
  "system_text c = py_replace (system_template c) PLACEHOLDER_SYSTEM (system_message c)"

definition separators :: "conversation \<Rightarrow> string list" where
  "separators c = (if length (seps c) = 1 then seps c @ seps c else seps c)"

definition as_prompt ::
  "(string \<Rightarrow> 'img res) \<Rightarrow> (string \<Rightarrow> 'img res) \<Rightarrow> conversation \<Rightarrow> (string \<times> json) list option
     \<Rightarrow> 'img prompt_part list res" where
  "as_prompt load_b64 load_http c config =
     (let system_msg = system_text c
      in res_bind (render_messages load_b64 load_http c config system_msg (separators c) 0
                     (messages c)) (\<lambda>ps.
         let message_list = (if system_msg \<noteq> '''' then [Text system_msg] else []) @ ps;
             prompt = combine_consecutive_messages message_list
         in if \<not> list_ex is_Image message_list
            then (case prompt of
                    Text s # rest \<Rightarrow> Inr (Text (fill_function_string c s) # rest)
                  | _ \<Rightarrow> Inl IndexError)
            else Inr prompt))"

section \<open>openai\_api\_protocol.py: check\_function\_call\_usage\<close>

fun json_len :: "json \<Rightarrow> nat res" where
  "json_len (JStr s) = Inr (length s)"
| "json_len (JList xs) = Inr (length xs)"
| "json_len (JObj d) = Inr (length d)"
| "json_len _ = Inl (TypeError ''object has no len()'')"

fun json_getitem :: "json \<Rightarrow> string \<Rightarrow> json res" where
  "json_getitem (JObj d) k = dict_get d k"
| "json_getitem _ k = Inl (TypeError ''indices must be integers'')"

fun show_json_name :: "json \<Rightarrow> string" where
  "show_json_name (JStr s) = s"
| "show_json_name _ = ''?''"

definition function_dict :: "chat_function \<Rightarrow> json" where
  "function_dict f =
     JObj [(''description'', (case fn_description f of None \<Rightarrow> JNull | Some s \<Rightarrow> JStr s)),
           (''name'', JStr (fn_name f)), (''parameters'', JObj (fn_parameters f))]"

text \<open>
  The loop that looks for the chosen tool. The name is read again in every round, so with no
  tool at all a malformed choice is only noticed when the error message is built.
\<close>

fun select_tool ::
  "(chat_function \<Rightarrow> string) \<Rightarrow> conversation \<Rightarrow> json \<Rightarrow> chat_tool list \<Rightarrow> conversation res" where
  "select_tool dump_json c fn_choice [] =
     res_bind (json_getitem fn_choice ''name'') (\<lambda>nm.
       Inl (BadRequestError (''The tool_choice function '' @ show_json_name nm
              @ '' is not found in the tools list'')))"
| "select_tool dump_json c fn_choice (t # ts) =
     res_bind (json_getitem fn_choice ''name'') (\<lambda>nm.
       if nm = JStr (fn_name (tool_function t))
       then Inr (c\<lparr>use_function_calling := True,
                   function_string := dump_json (tool_function t)\<rparr>)
       else select_tool dump_json c fn_choice ts)"

fun collect_functions :: "chat_tool list \<Rightarrow> json list res" where
  "collect_functions [] = Inr []"
| "collect_functions (t # ts) =
     (if tool_type t \<noteq> ''function''
      then Inl (BadRequestError ''Only 'function' tool type is supported'')
      else res_bind (collect_functions ts) (\<lambda>fs. Inr (function_dict (tool_function t) # fs)))"

definition check_function_call_usage ::
  "(chat_function \<Rightarrow> string) \<Rightarrow> (py_float \<Rightarrow> string) \<Rightarrow> chat_request \<Rightarrow> conversation
     \<Rightarrow> conversation res" where
  "check_function_call_usage dump_json frepr r c =
     (case chat_tools r of
        None \<Rightarrow> Inr (c\<lparr>use_function_calling := False\<rparr>)
      | Some tools \<Rightarrow>
        if chat_tool_choice r = Some (ToolChoiceStr ''none'')
        then Inr (c\<lparr>use_function_calling := False\<rparr>)
        else (case chat_tool_choice r of
                Some (ToolChoiceDict d) \<Rightarrow>
                  res_bind (dict_get d ''type'') (\<lambda>ty.
                  if ty \<noteq> JStr ''function''
                  then Inl (BadRequestError ''Only 'function' tool choice is supported'')
                  else
                  res_bind (dict_get d ''function'') (\<lambda>fn.
                  res_bind (json_len fn) (\<lambda>k.
                  if k > 1
                  then Inl (BadRequestError
                         ''Only one tool is supported when tool_choice is specified'')
                  else select_tool dump_json c fn tools)))
              | Some (ToolChoiceStr s) \<Rightarrow>
                  if s \<noteq> ''auto''
                  then Inl (BadRequestError (''Invalid tool_choice value: '' @ s))
                  else res_bind (collect_functions tools) (\<lambda>fs.
                         Inr (c\<lparr>use_function_calling := True,
                                function_string := json_dumps frepr (JList fs)\<rparr>))
              | None \<Rightarrow>
                  res_bind (collect_functions tools) (\<lambda>fs.
                    Inr (c\<lparr>use_function_calling := True,
                           function_string := json_dumps frepr (JList fs)\<rparr>))))"

section \<open>Specifications\<close>

text \<open>A prompt as a sequence of characters and images, regardless of how the text is cut.\<close>

fun part_units :: "'img prompt_part \<Rightarrow> (char + 'img image_data) list" where
  "part_units (Text s) = map Inl s"
| "part_units (Image i) = [Inr i]"

definition prompt_units :: "'img prompt_part list \<Rightarrow> (char + 'img image_data) list" where
  "prompt_units ps = concat (map part_units ps)"

definition no_adjacent_texts :: "'img prompt_part list \<Rightarrow> bool" where
  "no_adjacent_texts ps = successively (\<lambda>p q. is_Image p \<or> is_Image q) ps"

text \<open>The text one turn of a text-only conversation contributes to the prompt.\<close>

definition turn_text :: "conversation \<Rightarrow> nat \<Rightarrow> conv_message \<Rightarrow> string" where
  "turn_text c i m =
     (let role = fst m; role_text = the (map_of (roles c) role) in
      case snd m of
        Some (ContentStr s) \<Rightarrow>
          (if \<not> add_role_after_system_message c \<and> system_text c \<noteq> [] \<and> i = 0 then []
           else role_text @ role_content_sep c)
          @ py_replace (the (map_of (role_templates c) role)) (projr (MessagePlaceholders role)) s
          @ (if role = ''assistant'' then last (seps c) else hd (seps c))
      | _ \<Rightarrow> role_text @ role_empty_sep c)"

definition conversation_text :: "conversation \<Rightarrow> string" where
  "conversation_text c =
     system_text c @ concat (map (\<lambda>i. turn_text c i (messages c ! i)) [0..<length (messages c)])"

definition text_turn_ok :: "conversation \<Rightarrow> conv_message \<Rightarrow> bool" where
  "text_turn_ok c m \<longleftrightarrow>
     fst m \<in> fst ` set (roles c) \<and> fst m \<in> fst ` set (role_templates c)
     \<and> isl (MessagePlaceholders (fst m)) = False \<and> \<not> is_content_list (snd m)"

definition seps_ok :: "conversation \<Rightarrow> bool" where
  "seps_ok c \<longleftrightarrow> length (seps c) = 1 \<or> length (seps c) = 2"

text \<open>
  A text that no occurrence of a placeholder can touch, whatever stands before and after it: neither
  is contained in the other, and no end of the one is a beginning of the other.
\<close>

definition clear_of :: "string \<Rightarrow> string \<Rightarrow> bool" where
  "clear_of t s \<longleftrightarrow> \<not> sublist t s \<and> \<not> sublist s t
     \<and> list_all (\<lambda>x. x = [] \<or> \<not> prefix x t) (suffixes s) \<and> list_all (\<lambda>x. x = [] \<or> \<not> suffix x t) (prefixes s)"

text \<open>
  What the function string must become: the dump of the first tool that has the chosen name,
  or, without a choice, the JSON list of all tools.
\<close>

definition expected_function_string ::
  "(chat_function \<Rightarrow> string) \<Rightarrow> (py_float \<Rightarrow> string) \<Rightarrow> chat_request \<Rightarrow> string option" where
  "expected_function_string dump frepr r =
     (case chat_tool_choice r of
        Some (ToolChoiceDict d) \<Rightarrow>
          (case map_of d ''function'' of
             Some (JObj fd) \<Rightarrow> map_option (dump \<circ> tool_function)
               (find (\<lambda>t. map_of fd ''name'' = Some (JStr (fn_name (tool_function t))))
                  (the (chat_tools r)))
           | _ \<Rightarrow> None)
      | _ \<Rightarrow> Some (json_dumps frepr
                 (JList (map (function_dict \<circ> tool_function) (the (chat_tools r))))))"

text \<open>A template with a short history, for the concrete runs.\<close>

definition sample_conversation :: conversation where
  "sample_conversation =
     \<lparr>conv_name = Some ''sample'', system_template = ''<s>{system_message}{function_string}'',
      system_message = ''hi.'', system_prefix_token_ids = None,
      add_role_after_system_message = False, roles = [(''user'', ''U''), (''assistant'', ''A''),
      (''tool'', ''T'')], role_templates = default_role_templates,
      messages = [(''user'', Some (ContentStr ''q'')), (''assistant'', Some (ContentStr ''r'')),
        (''user'', Some (ContentStr ''p'')), (''assistant'', None)],
      seps = [''|'', ''/''], role_content_sep = '': '', role_empty_sep = '':'', stop_str = [''/''],
      stop_token_ids = [2], function_string = ''F'', use_function_calling = False\<rparr>"

section \<open>Lemmas\<close>

lemma prompt_units_append [simp]: "prompt_units (xs @ ys) = prompt_units xs @ prompt_units ys"
  by (simp add: prompt_units_def)

lemma prompt_units_simps [simp]:
  "prompt_units [] = []" "prompt_units (p # ps) = part_units p @ prompt_units ps"
  by (simp_all add: prompt_units_def)

lemma combine_step_ne [simp]: "combine_step acc p \<noteq> []"
  by (auto simp: combine_step_def split: prompt_part.splits)

lemma combine_step_units:
  "acc \<noteq> [] \<Longrightarrow> prompt_units (combine_step acc p) = prompt_units acc @ part_units p"
  by (induction acc rule: rev_induct) (auto simp: combine_step_def split: prompt_part.splits)

lemma foldl_combine_units:
  "acc \<noteq> [] \<Longrightarrow> prompt_units (foldl combine_step acc ps) = prompt_units acc @ prompt_units ps"
  by (induction ps arbitrary: acc) (auto simp: combine_step_units)

lemma combine_step_separated:
  assumes "acc \<noteq> []" and "no_adjacent_texts acc"
  shows "no_adjacent_texts (combine_step acc p)"
proof -
  from assms(1) obtain xs x where acc: "acc = xs @ [x]" by (meson rev_exhaust)
  show ?thesis
    using assms(2) unfolding acc
    by (cases p; cases x)
       (auto simp: combine_step_def no_adjacent_texts_def successively_append_iff)
qed

lemma foldl_combine_separated:
  "acc \<noteq> [] \<Longrightarrow> no_adjacent_texts acc \<Longrightarrow> no_adjacent_texts (foldl combine_step acc ps)"
  by (induction ps arbitrary: acc) (auto simp: combine_step_separated)

lemma combine_step_id:
  assumes "acc \<noteq> []" and "is_Image (last acc) \<or> is_Image p"
  shows "combine_step acc p = acc @ [p]"
  using assms(2) by (auto simp: combine_step_def split: prompt_part.splits)

lemma foldl_combine_id:
  "acc \<noteq> [] \<Longrightarrow> no_adjacent_texts (acc @ ps) \<Longrightarrow> foldl combine_step acc ps = acc @ ps"
proof (induction ps arbitrary: acc)
  case (Cons p ps)
  then have "is_Image (last acc) \<or> is_Image p"
    by (auto simp: no_adjacent_texts_def successively_append_iff)
  with Cons show ?case by (simp add: combine_step_id)
qed simp

lemma combine_id: "no_adjacent_texts ps \<Longrightarrow> combine_consecutive_messages ps = ps"
  by (cases ps) (auto simp: foldl_combine_id)

lemma combine_texts:
  "combine_consecutive_messages (map Text (s # ss)) = [Text (concat (s # ss))]"
proof -
  have "foldl combine_step [Text t] (map Text ss) = [Text (t @ concat ss)]" for t
    by (induction ss arbitrary: t) (auto simp: combine_step_def)
  then show ?thesis by simp
qed

lemma no_images_in_texts [simp]: "\<not> list_ex is_Image (map Text ss)"
  by (induction ss) auto

lemma map_of_in_keys: "k \<in> fst ` set d \<Longrightarrow> map_of d k = Some (the (map_of d k))"
  by (metis map_of_eq_None_iff option.exhaust_sel)

lemma Inr_projr: "isl r = False \<Longrightarrow> r = Inr (projr r)"
  by (cases r) auto

lemma render_message_text:
  assumes "text_turn_ok c m" and "seps_ok c"
  shows "render_message lb lh c cfg (system_text c) (separators c) i m
         = Inr [Text (turn_text c i m)]"
proof -
  obtain role content where m: "m = (role, content)" by (cases m)
  from assms(1) have "role \<in> fst ` set (roles c)" "role \<in> fst ` set (role_templates c)"
    and "isl (MessagePlaceholders role) = False" and plain: "\<not> is_content_list content"
    by (auto simp: m text_turn_ok_def)
  then obtain rt tm ph where rt: "map_of (roles c) role = Some rt"
    and tm: "map_of (role_templates c) role = Some tm"
    and ph: "MessagePlaceholders role = Inr ph" by (metis map_of_in_keys Inr_projr)
  have sep: "py_index (separators c) (if role = ''assistant'' then 1 else 0)
      = Inr (if role = ''assistant'' then last (seps c) else hd (seps c))"
    using assms(2)
    by (cases "seps c"; cases "tl (seps c)") (auto simp: seps_ok_def py_index_def separators_def)
  from plain consider "content = None" | s where "content = Some (ContentStr s)"
    by (auto simp: is_content_list_def split: option.splits chat_content.splits)
  then show ?thesis
    by cases (simp_all only: m render_message_def rt tm sep turn_text_def fill_template_def
        dict_get_def ph prod.case option.case res_bind.simps chat_content.case Let_def
        res_of_option.simps fst_conv snd_conv option.sel sum.sel)
qed

lemma render_messages_text:
  assumes "list_all (text_turn_ok c) ms" and "seps_ok c"
  shows "render_messages lb lh c cfg (system_text c) (separators c) k ms
         = Inr (map (\<lambda>i. Text (turn_text c (k + i) (ms ! i))) [0..<length ms])"
  using assms
proof (induction ms arbitrary: k)
  case (Cons m ms)
  have all: "map (\<lambda>i. Text (turn_text c (k + i) ((m # ms) ! i))) [0..<length (m # ms)]
      = Text (turn_text c k m)
        # map (\<lambda>i. Text (turn_text c (Suc k + i) (ms ! i))) [0..<length ms]"
    by (simp add: upt_conv_Cons map_Suc_upt [symmetric] del: upt_Suc)
  have "render_messages lb lh c cfg (system_text c) (separators c) (Suc k) ms
         = Inr (map (\<lambda>i. Text (turn_text c (Suc k + i) (ms ! i))) [0..<length ms])"
    using Cons by simp
  then show ?case
    unfolding all using Cons.prems by (simp add: render_message_text)
qed simp

lemma rfind_split_unique:
  assumes "\<not> sublist sep (tl (sep @ a))" and "sep \<noteq> []"
  shows "rfind_split sep (b @ sep @ a) = Some (b, a)"
proof (induction b)
  case Nil
  from assms(2) obtain c cs where sep: "sep = c # cs" by (cases sep) auto
  with assms(1) have "rfind_split sep (cs @ a) = None"
    using rfind_split_None [of sep "cs @ a"] by simp
  then show ?case by (simp add: sep)
qed simp

lemma PLACEHOLDER_FUNCTION_ne [simp]: "PLACEHOLDER_FUNCTION \<noteq> []"
  by (simp add: PLACEHOLDER_FUNCTION_def)

lemma clear_ofD:
  assumes "clear_of t s"
  shows "s = x @ v \<Longrightarrow> t = v @ y \<Longrightarrow> v = []" and "s = v @ x \<Longrightarrow> t = y @ v \<Longrightarrow> v = []"
    and "s \<noteq> x @ t @ y" and "t \<noteq> x @ s @ y"
proof -
  from assms have "\<And>z. suffix z s \<Longrightarrow> prefix z t \<Longrightarrow> z = []" "\<And>z. prefix z s \<Longrightarrow> suffix z t \<Longrightarrow> z = []"
    by (auto simp: clear_of_def list_all_iff)
  then show "s = x @ v \<Longrightarrow> t = v @ y \<Longrightarrow> v = []" "s = v @ x \<Longrightarrow> t = y @ v \<Longrightarrow> v = []"
    by (auto simp: suffix_def)
qed (use assms in \<open>auto simp: clear_of_def sublist_appendI\<close>)

lemma append_cut:
  assumes "xs @ ys = us @ vs"
  obtains w where "xs = us @ w" "w @ ys = vs" | w where "us = xs @ w" "ys = w @ vs"
  using assms unfolding append_eq_append_conv2 by blast

lemma clear_of_split:
  assumes "clear_of t s" and "b @ t @ a = p @ s @ q"
  shows "(\<exists>m. b = p @ s @ m) \<or> (\<exists>m. p = b @ t @ m)"
proof -
  note clear = clear_ofD [OF assms(1)]
  from assms(2) show ?thesis
  proof (cases rule: append_cut)
    case (1 u)
    from 1(2) [symmetric] show ?thesis
    proof (cases rule: append_cut)
      case (1 v)
      from 1(2) show ?thesis
      proof (cases rule: append_cut)
        case (2 w)
        from clear(1) [OF \<open>s = u @ v\<close> 2(1)] \<open>s = u @ v\<close> \<open>b = p @ u\<close> show ?thesis by simp
      qed (use clear(3) [of u] \<open>s = u @ v\<close> in auto)
    qed (use \<open>b = p @ u\<close> in simp)
  next
    case (2 u)
    from 2(2) show ?thesis
    proof (cases rule: append_cut)
      case (1 v)
      from 1(2) show ?thesis
      proof (cases rule: append_cut)
        case (2 w)
        from clear(2) [OF 2(1) \<open>t = u @ v\<close>] \<open>t = u @ v\<close> \<open>p = b @ u\<close> show ?thesis by simp
      qed (use clear(4) [of u] \<open>t = u @ v\<close> in auto)
    qed (use \<open>p = b @ u\<close> in simp)
  qed
qed

lemma replace_occ_clear_suffix:
  assumes "clear_of t s" and "suffix u s"
  shows "replace_occ t new (u @ q) = u @ replace_occ t new q"
  using assms(2)
proof (induction u)
  case (Cons c u)
  have "\<not> prefix t (c # u @ q)"
  proof
    assume "prefix t (c # u @ q)"
    then obtain a where "t @ a = (c # u) @ q" by (auto elim: prefixE)
    moreover from Cons.prems obtain x where x: "s = x @ c # u" by (auto elim: suffixE)
    ultimately show False
    proof (cases rule: append_cut)
      case (1 w)
      from clear_ofD(1) [OF assms(1) x 1(1)] show ?thesis by simp
    next
      case (2 w)
      with clear_ofD(3) [OF assms(1), of x w] x show ?thesis by simp
    qed
  qed
  with Cons show ?case by (simp add: suffix_ConsD)
qed simp

lemma replace_occ_clear:
  assumes "clear_of t s"
  shows "sublist s (replace_occ t new (p @ s @ q))"
proof (induction "length p" arbitrary: p rule: less_induct)
  case less
  have s: "s \<noteq> []" "t \<noteq> []" using assms by (auto simp: clear_of_def)
  show ?case
  proof (cases "prefix t (p @ s @ q)")
    case True
    then obtain a where "t @ a = p @ s @ q" by (auto elim: prefixE)
    with clear_of_split [OF assms, of "[]" a p q] s obtain m where m: "p = t @ m" by auto
    with s have "replace_occ t new (p @ s @ q) = new @ replace_occ t new (m @ s @ q)"
      by (cases t) auto
    with less [of m] m s show ?thesis by (simp add: sublist_append)
  next
    case False
    show ?thesis
    proof (cases p)
      case Nil
      then show ?thesis using replace_occ_clear_suffix [OF assms, of s] by (simp add: sublist_append)
    next
      case (Cons c p')
      with False less [of p'] show ?thesis by (simp add: sublist_Cons_right)
    qed
  qed
qed

lemma fill_function_string_keeps:
  assumes "clear_of PLACEHOLDER_FUNCTION s" and "sublist s t"
  shows "sublist s (fill_function_string c t)"
proof -
  have "sublist s (py_join (function_string c) (rsplit_once t PLACEHOLDER_FUNCTION))"
  proof (cases "rfind_split PLACEHOLDER_FUNCTION t")
    case None
    with assms(2) show ?thesis by (simp add: rsplit_once_def)
  next
    case (Some ba)
    then obtain b a where ba: "rfind_split PLACEHOLDER_FUNCTION t = Some (b, a)" by (cases ba) simp
    from assms(2) obtain p q where "t = p @ s @ q" by (auto simp: sublist_def)
    with rfind_split_append [OF ba] have "b @ PLACEHOLDER_FUNCTION @ a = p @ s @ q" by simp
    from clear_of_split [OF assms(1) this] this have "sublist s b \<or> sublist s a"
      by (auto simp: sublist_append)
    with ba show ?thesis by (auto simp: rsplit_once_def sublist_append)
  qed
  then obtain p q where "py_join (function_string c) (rsplit_once t PLACEHOLDER_FUNCTION) = p @ s @ q"
    by (auto simp: sublist_def)
  with replace_occ_clear [OF assms(1)] show ?thesis by (simp add: fill_function_string_def py_replace_def)
qed

lemma clear_of_braceless:
  assumes "CHR ''{'' \<notin> set s" and "CHR ''}'' \<notin> set s" and "\<not> sublist s PLACEHOLDER_FUNCTION"
  shows "clear_of PLACEHOLDER_FUNCTION s"
proof -
  have t: "hd PLACEHOLDER_FUNCTION = CHR ''{''" "last PLACEHOLDER_FUNCTION = CHR ''}''" by (simp_all add: PLACEHOLDER_FUNCTION_def)
  have "x = []" if "suffix x s" "prefix x PLACEHOLDER_FUNCTION" for x
    using that assms(1) by (cases x) (auto simp: PLACEHOLDER_FUNCTION_def suffix_def)
  moreover have "x = []" if "prefix x s" "suffix x PLACEHOLDER_FUNCTION" for x
  proof (rule ccontr)
    assume "x \<noteq> []"
    with that(2) t(2) have "last x = CHR ''}''" by (metis last_appendR suffix_def)
    with \<open>x \<noteq> []\<close> that(1) assms(2) show False by (metis last_in_set prefix_order.order_refl set_mono_prefix subsetD)
  qed
  moreover have "\<not> sublist PLACEHOLDER_FUNCTION s"
    using assms(1) by (auto simp: sublist_def PLACEHOLDER_FUNCTION_def)
  ultimately show ?thesis using assms(3) by (auto simp: clear_of_def list_all_iff)
qed

lemma select_tool_Inr:
  "select_tool dump c (JObj fd) tools = Inr c' \<Longrightarrow>
     \<exists>t. find (\<lambda>t. map_of fd ''name'' = Some (JStr (fn_name (tool_function t)))) tools = Some t
       \<and> c' = c\<lparr>use_function_calling := True, function_string := dump (tool_function t)\<rparr>"
  by (induction tools)
     (auto simp: res_bind_eq_Inr dict_get_def split: if_splits elim!: res_of_option.elims)

lemma select_tool_JObj: "select_tool dump c fn tools = Inr c' \<Longrightarrow> \<exists>fd. fn = JObj fd"
  by (cases fn; cases tools) auto

lemma collect_functions_Inr:
  "collect_functions ts = Inr fs \<longleftrightarrow>
     list_all (\<lambda>t. tool_type t = ''function'') ts \<and> fs = map (function_dict \<circ> tool_function) ts"
  by (induction ts arbitrary: fs) (auto simp: res_bind_eq_Inr)

lemma as_prompt_plain:
  fixes lb lh :: "string \<Rightarrow> 'img res"
  assumes "seps_ok c" and "messages c \<noteq> []" and "list_all (text_turn_ok c) (messages c)"
  shows "as_prompt lb lh c cfg = Inr [Text (fill_function_string c (conversation_text c))]"
proof -
  let ?turns = "map (\<lambda>i. turn_text c i (messages c ! i)) [0..<length (messages c)]"
  let ?all = "(if system_text c \<noteq> [] then [system_text c] else []) @ ?turns"
  have render: "render_messages lb lh c cfg (system_text c) (separators c) 0 (messages c)
      = Inr (map Text ?turns)"
    using render_messages_text [OF assms(3,1), of lb lh cfg 0] by simp
  let ?list = "(if system_text c \<noteq> [] then [Text (system_text c)] else [])
      @ map Text ?turns :: 'img prompt_part list"
  have "?list = map Text ?all" by simp
  moreover obtain s ss where all: "?all = s # ss" using assms(2) by (cases ?all) auto
  moreover have "concat ?all = conversation_text c" by (simp add: conversation_text_def)
  ultimately have one: "combine_consecutive_messages ?list = [Text (conversation_text c)]"
    by (metis combine_texts)
  have none: "\<not> list_ex is_Image ?list" by (auto simp: list_ex_iff)
  show ?thesis
    unfolding as_prompt_def Let_def render res_bind.simps
    using one none by (simp only: not_False_eq_True if_True list.case prompt_part.case)
qed

section \<open>Properties\<close>

text \<open>
  \<open>_combine_consecutive_messages\<close> only changes how the text is cut: the sequence of
  characters and images is the one of the input, no two neighbours of the result are both
  text, and combining a second time changes nothing.
\<close>

theorem combine_consecutive_messages_spec:
  "prompt_units (combine_consecutive_messages ps) = prompt_units ps
   \<and> no_adjacent_texts (combine_consecutive_messages ps)
   \<and> combine_consecutive_messages (combine_consecutive_messages ps)
       = combine_consecutive_messages ps"
proof -
  have sep: "no_adjacent_texts (combine_consecutive_messages ps)"
    by (cases ps) (auto simp: foldl_combine_separated no_adjacent_texts_def [of "[_]"]
        no_adjacent_texts_def [of "[]"])
  moreover have "prompt_units (combine_consecutive_messages ps) = prompt_units ps"
    by (cases ps) (simp_all add: foldl_combine_units)
  ultimately show ?thesis by (simp add: combine_id)
qed

text \<open>
  C21: for a template with one or two separators and a history of supported turns without
  content lists, \<open>as_prompt\<close> returns a single text: the filled system template, then every
  turn in order (role prefix, filled role template, the separator of the role; the role prefix
  of the first turn is dropped when the template says so and there is a system text), with the
  function string put in place.
\<close>

theorem as_prompt_text:
  fixes lb lh :: "string \<Rightarrow> 'img res"
  assumes "seps_ok c" and "messages c \<noteq> []" and "list_all (text_turn_ok c) (messages c)"
  shows "as_prompt lb lh c cfg = Inr [Text (fill_function_string c (conversation_text c))]"
  using as_prompt_plain [OF assms] .

theorem as_prompt_text_witness:
  "seps_ok sample_conversation \<and> messages sample_conversation \<noteq> []
   \<and> list_all (text_turn_ok sample_conversation) (messages sample_conversation)
   \<and> as_prompt (\<lambda>_. Inl IndexError :: unit res) (\<lambda>_. Inl IndexError) sample_conversation None
       = Inr [Text ''<s>hi.Fq|A: r/U: p|A:'']"
proof -
  have h: "seps_ok sample_conversation" "messages sample_conversation \<noteq> []"
    "list_all (text_turn_ok sample_conversation) (messages sample_conversation)"
    by code_simp+
  have "fill_function_string sample_conversation (conversation_text sample_conversation)
      = ''<s>hi.Fq|A: r/U: p|A:''" by code_simp
  with as_prompt_text [OF h, of "\<lambda>_. Inl IndexError :: unit res" "\<lambda>_. Inl IndexError" None] h
  show ?thesis by simp
qed

text \<open>
  A prompt without the function placeholder is left as it is; otherwise the function string goes to
  the last placeholder, and to no other place: when that is the only one and none is created by the
  insertion, the result is the prompt with the placeholder replaced.
\<close>

theorem fill_function_string_spec:
  "(\<not> sublist PLACEHOLDER_FUNCTION s \<longrightarrow> fill_function_string c s = s)
   \<and> (\<not> sublist PLACEHOLDER_FUNCTION (tl (PLACEHOLDER_FUNCTION @ a)) \<longrightarrow>
      \<not> sublist PLACEHOLDER_FUNCTION (b @ function_string c @ a) \<longrightarrow>
      fill_function_string c (b @ PLACEHOLDER_FUNCTION @ a) = b @ function_string c @ a)"
  by (auto simp: fill_function_string_def rsplit_once_def rfind_split_unique str_simps
      rfind_split_None [THEN iffD2])

theorem fill_function_string_witness:
  "fill_function_string sample_conversation ''ab'' = ''ab''
   \<and> fill_function_string sample_conversation (''a'' @ PLACEHOLDER_FUNCTION @ ''b'') = ''aFb''"
proof -
  have "\<not> sublist PLACEHOLDER_FUNCTION ''ab''"
    "\<not> sublist PLACEHOLDER_FUNCTION (tl (PLACEHOLDER_FUNCTION @ ''b''))"
    "\<not> sublist PLACEHOLDER_FUNCTION (''a'' @ function_string sample_conversation @ ''b'')"
    "function_string sample_conversation = ''F''"
    by code_simp+
  with fill_function_string_spec [of "''ab''" sample_conversation "''b''" "''a''"]
  show ?thesis by simp
qed

text \<open>
  When \<open>check_function_call_usage\<close> succeeds, only the two function calling fields of the
  template can change. Function calling is switched off exactly when no tools are given or the
  choice is ``none'', and then the function string is kept; otherwise the function string is
  the dump of the first tool with the chosen name, or, without a choice, the JSON list of all
  tools.
\<close>

theorem check_function_call_usage_spec:
  assumes "check_function_call_usage dump frepr r c = Inr c'"
  shows "if chat_tools r = None \<or> chat_tool_choice r = Some (ToolChoiceStr ''none'')
         then c' = c\<lparr>use_function_calling := False\<rparr>
         else \<exists>fs. expected_function_string dump frepr r = Some fs
                \<and> c' = c\<lparr>use_function_calling := True, function_string := fs\<rparr>"
proof (cases "\<exists>d. chat_tool_choice r = Some (ToolChoiceDict d)")
  case False
  with assms show ?thesis
    by (auto simp: check_function_call_usage_def expected_function_string_def res_bind_eq_Inr
        collect_functions_Inr split: option.splits if_splits tool_choice_arg.splits)
next
  case True
  then obtain d where d: "chat_tool_choice r = Some (ToolChoiceDict d)" by blast
  show ?thesis
  proof (cases "chat_tools r")
    case None
    with assms show ?thesis by (simp add: check_function_call_usage_def)
  next
    case (Some tools)
    with assms d obtain fn where "dict_get d ''function'' = Inr fn"
      and sel: "select_tool dump c fn tools = Inr c'"
      by (auto simp: check_function_call_usage_def res_bind_eq_Inr split: if_splits)
    then obtain fd where "map_of d ''function'' = Some (JObj fd)" "fn = JObj fd"
      using select_tool_JObj [OF sel] by (auto simp: dict_get_def elim!: res_of_option.elims)
    with sel d Some show ?thesis
      by (auto simp: expected_function_string_def dest!: select_tool_Inr)
  qed
qed

theorem check_function_call_usage_witness:
  "(let tool = (\<lambda>nm. \<lparr>tool_type = ''function'',
                  tool_function = \<lparr>fn_description = None, fn_name = nm, fn_parameters = []\<rparr>\<rparr>);
        r = (ChatCompletionRequest [])\<lparr>chat_tools := Some [tool ''f'', tool ''g''],
               chat_tool_choice := Some (ToolChoiceDict
                 [(''type'', JStr ''function''), (''function'', JObj [(''name'', JStr ''g'')])])\<rparr>
    in check_function_call_usage fn_name (\<lambda>_. []) r sample_conversation
       = Inr (sample_conversation\<lparr>use_function_calling := True, function_string := ''g''\<rparr>)
     \<and> expected_function_string fn_name (\<lambda>_. []) r = Some ''g'')"
proof -
  let ?tool = "\<lambda>nm. \<lparr>tool_type = ''function'',
      tool_function = \<lparr>fn_description = None, fn_name = nm, fn_parameters = []\<rparr>\<rparr>"
  let ?r = "(ChatCompletionRequest [])\<lparr>chat_tools := Some [?tool ''f'', ?tool ''g''],
      chat_tool_choice := Some (ToolChoiceDict
        [(''type'', JStr ''function''), (''function'', JObj [(''name'', JStr ''g'')])])\<rparr>"
  have e: "check_function_call_usage fn_name (\<lambda>_. []) ?r sample_conversation
      = Inr (sample_conversation\<lparr>use_function_calling := True, function_string := ''g''\<rparr>)"
    by code_simp
  from check_function_call_usage_spec [OF e] show ?thesis
    unfolding Let_def e by (auto simp: expected_function_string_def ChatCompletionRequest_def)
qed

end
