(* ===== verification/Engine_Utils.thy ===== *)
theory Engine_Utils
  imports Conversation_Template
begin

text \<open>
  serve/engine\_utils.py and protocol/generation\_config.py: the generation configuration made
  from a request, the checks of a request before it reaches the engine, the conversion of
  prompts to token lists and then to engine data, and the cleanup scope around a generation.
  The prompt arguments are dynamically typed, so they are values of the datatype
  \<open>prompt_value\<close>. The tokenizer is the parameter \<open>ftokenize\<close>.
\<close>

section \<open>protocol/generation\_config.py\<close>

record generation_config =
  gc_n :: int
  gc_temperature :: "py_float option"
  gc_top_p :: "py_float option"
  gc_frequency_penalty :: "py_float option"
  gc_presence_penalty :: "py_float option"
  gc_repetition_penalty :: "py_float option"
  gc_logprobs :: bool
  gc_top_logprobs :: int
  gc_logit_bias :: "logit_bias_map option"
  gc_max_tokens :: int
  gc_seed :: "int option"
  gc_stop_strs :: "string list option"
  gc_stop_token_ids :: "int list option"
  gc_response_format :: "request_response_format option"
  gc_debug_config :: "debug_config option"

section \<open>Generation configuration of a request\<close>

definition get_unsupported_fields :: "request_protocol \<Rightarrow> string list" where
  "get_unsupported_fields = openai_api_get_unsupported_fields"

fun request_stop :: "request_protocol \<Rightarrow> stop_arg option" where
  "request_stop (ReqCompletion r) = creq_stop r"
| "request_stop (ReqChat r) = chat_stop r"

fun set_request_stop :: "stop_arg option \<Rightarrow> request_protocol \<Rightarrow> request_protocol" where
  "set_request_stop s (ReqCompletion r) = ReqCompletion (r\<lparr>creq_stop := s\<rparr>)"
| "set_request_stop s (ReqChat r) = ReqChat (r\<lparr>chat_stop := s\<rparr>)"

fun request_n :: "request_protocol \<Rightarrow> int" where
  "request_n (ReqCompletion r) = creq_n r"
| "request_n (ReqChat r) = chat_n r"

fun stop_list :: "stop_arg option \<Rightarrow> string list option" where
  "stop_list None = None"
| "stop_list (Some (StopStr s)) = Some [s]"
| "stop_list (Some (StopList ss)) = Some ss"

text \<open>
  The keyword arguments collected from the request; a field that is not collected is at its
  default, and \<open>max_tokens\<close> is -1 when the request has none.
\<close>

fun openai_api_get_generation_config :: "request_protocol \<Rightarrow> generation_config" where
  "openai_api_get_generation_config (ReqChat r) =
     \<lparr>gc_n = chat_n r, gc_temperature = chat_temperature r, gc_top_p = chat_top_p r,
      gc_frequency_penalty = chat_frequency_penalty r,
      gc_presence_penalty = chat_presence_penalty r, gc_repetition_penalty = None,
      gc_logprobs = chat_logprobs r, gc_top_logprobs = chat_top_logprobs r,
      gc_logit_bias = chat_logit_bias r,
      gc_max_tokens = (case chat_max_tokens r of None \<Rightarrow> - 1 | Some k \<Rightarrow> k),
      gc_seed = chat_seed r, gc_stop_strs = stop_list (chat_stop r), gc_stop_token_ids = None,
      gc_response_format = chat_response_format r, gc_debug_config = chat_debug_config r\<rparr>"
| "openai_api_get_generation_config (ReqCompletion r) =
     \<lparr>gc_n = creq_n r, gc_temperature = creq_temperature r, gc_top_p = creq_top_p r,
      gc_frequency_penalty = creq_frequency_penalty r,
      gc_presence_penalty = creq_presence_penalty r, gc_repetition_penalty = None,
      gc_logprobs = (creq_logprobs r \<noteq> None),
      gc_top_logprobs = (case creq_logprobs r of None \<Rightarrow> 0 | Some k \<Rightarrow> k),
      gc_logit_bias = creq_logit_bias r,
      gc_max_tokens = (case creq_max_tokens r of None \<Rightarrow> - 1 | Some k \<Rightarrow> k),
      gc_seed = creq_seed r, gc_stop_strs = stop_list (creq_stop r), gc_stop_token_ids = None,
      gc_response_format = creq_response_format r, gc_debug_config = creq_debug_config r\<rparr>"

text \<open>
  \<open>stop_strs += extra_stop_str\<close> extends the list in place. When the request holds a list of
  stop strings it is that very object, so the request is changed too: the second component of
  the result is the request afterwards.
\<close>

definition get_generation_config ::
  "request_protocol \<Rightarrow> int list option \<Rightarrow> string list option
     \<Rightarrow> generation_config \<times> request_protocol" where
  "get_generation_config r extra_stop_token_ids extra_stop_str =
     (let kwargs = openai_api_get_generation_config r;
          kwargs1 = (case extra_stop_token_ids of
                       None \<Rightarrow> kwargs
                     | Some ids \<Rightarrow> kwargs\<lparr>gc_stop_token_ids :=
                         Some (case gc_stop_token_ids kwargs of None \<Rightarrow> ids | Some xs \<Rightarrow> xs @ ids)\<rparr>)
      in case extra_stop_str of
           None \<Rightarrow> (kwargs1, r)
         | Some ss \<Rightarrow>
             let stop_strs = (case gc_stop_strs kwargs1 of None \<Rightarrow> ss | Some xs \<Rightarrow> xs @ ss)
             in (kwargs1\<lparr>gc_stop_strs := Some stop_strs\<rparr>,
                 (case request_stop r of
                    Some (StopList _) \<Rightarrow> set_request_stop (Some (StopList stop_strs)) r
                  | _ \<Rightarrow> r)))"

definition check_unsupported_fields :: "request_protocol \<Rightarrow> unit res" where
  "check_unsupported_fields r =
     (let fields = get_unsupported_fields r in
      if length fields \<noteq> 0
      then Inl (BadRequestError (''Request fields '' @ py_join '', ''
             (map (\<lambda>f. [CHR 0x22] @ f @ [CHR 0x22]) fields) @ '' are not supported right now.''))
      else Inr ())"

section \<open>Prompts\<close>

datatype 'img prompt_value =
    VStr string
  | VInt int
  | VList "'img prompt_value list"
  | VImage "'img image_data"
  | VOther

datatype 'img tok_prompt = PTokens "int list" | PImage "'img image_data"

fun tok_prompt_len :: "'img tok_prompt \<Rightarrow> nat" where
  "tok_prompt_len (PTokens ts) = length ts"
| "tok_prompt_len (PImage i) = embed_size i"

definition check_and_get_prompts_length :: "'img tok_prompt list \<Rightarrow> int \<Rightarrow> int res" where
  "check_and_get_prompts_length prompts max_input_sequence_length =
     (let total_length = foldl (\<lambda>acc p. acc + int (tok_prompt_len p)) 0 prompts in
      if total_length > max_input_sequence_length
      then Inl (BadRequestError (''Request prompt has '' @ str_of_int total_length
             @ '' tokens in total, larger than the model input length limit ''
             @ str_of_int max_input_sequence_length @ ''.''))
      else Inr total_length)"

fun is_VInt :: "'img prompt_value \<Rightarrow> bool" where
  "is_VInt (VInt _) = True"
| "is_VInt _ = False"

fun the_VInt :: "'img prompt_value \<Rightarrow> int" where
  "the_VInt (VInt i) = i"
| "the_VInt _ = 0"

definition invalid_prompt :: py_error where
  "invalid_prompt = BadRequestError ''Invalid request prompt''"

fun process_one_prompt :: "(string \<Rightarrow> int list) \<Rightarrow> 'img prompt_value \<Rightarrow> 'img tok_prompt res" where
  "process_one_prompt ftokenize (VStr s) = Inr (PTokens (ftokenize s))"
| "process_one_prompt ftokenize (VList xs) =
     (if list_all is_VInt xs then Inr (PTokens (map the_VInt xs)) else Inl invalid_prompt)"
| "process_one_prompt ftokenize (VImage i) = Inr (PImage i)"
| "process_one_prompt ftokenize _ = Inl invalid_prompt"

fun process_prompts ::
  "'img prompt_value \<Rightarrow> (string \<Rightarrow> int list) \<Rightarrow> 'img tok_prompt list res" where
  "process_prompts (VStr s) ftokenize = Inr [PTokens (ftokenize s)]"
| "process_prompts (VList []) ftokenize = Inl invalid_prompt"
| "process_prompts (VList (x # xs)) ftokenize =
     (if is_VInt x
      then if list_all is_VInt (x # xs) then Inr [PTokens (map the_VInt (x # xs))]
           else Inl invalid_prompt
      else res_map (process_one_prompt ftokenize) (x # xs))"
| "process_prompts _ ftokenize = Inl (AssertionError [])"

datatype 'img engine_data = TextData string | TokenData "int list" | ImageData "'img image_data"

fun convert_prompts_to_data :: "'img prompt_value \<Rightarrow> 'img engine_data list res" where
  "convert_prompts_to_data (VImage i) = Inr [ImageData i]"
| "convert_prompts_to_data (VStr s) = Inr [TextData s]"
| "convert_prompts_to_data (VList []) = Inl IndexError"
| "convert_prompts_to_data (VList (x # xs)) =
     (if is_VInt x
      then if list_all is_VInt (x # xs) then Inr [TokenData (map the_VInt (x # xs))]
           else Inl (AssertionError [])
      else res_map (\<lambda>y. res_bind (convert_prompts_to_data y) (\<lambda>ds. py_index ds 0)) (x # xs))"
| "convert_prompts_to_data _ = Inl (TypeError ''object is not subscriptable'')"

section \<open>ErrorCleanupScope\<close>

text \<open>
  The scope runs its body and, when an exception of any kind leaves it, the cleanup; the
  exception goes on.
\<close>

definition error_cleanup_scope :: "('s, unit) py \<Rightarrow> ('s, 'a) py \<Rightarrow> ('s, 'a) py" where
  "error_cleanup_scope cleanup body =
     (\<lambda>s. case body s of
            (Inr x, s') \<Rightarrow> (Inr x, s')
          | (Inl e, s') \<Rightarrow>
              (case cleanup s' of (Inl e', s'') \<Rightarrow> (Inl e', s'') | (Inr _, s'') \<Rightarrow> (Inl e, s'')))"

section \<open>Specifications\<close>

fun prompt_item_ok :: "'img prompt_value \<Rightarrow> bool" where
  "prompt_item_ok (VStr _) = True"
| "prompt_item_ok (VImage _) = True"
| "prompt_item_ok (VList ys) = list_all is_VInt ys"
| "prompt_item_ok _ = False"

fun prompt_ok :: "'img prompt_value \<Rightarrow> bool" where
  "prompt_ok (VStr s) = True"
| "prompt_ok (VList xs) =
     (xs \<noteq> [] \<and> (list_all is_VInt xs \<or> list_all prompt_item_ok xs))"
| "prompt_ok _ = False"

fun tokenized_item :: "(string \<Rightarrow> int list) \<Rightarrow> 'img prompt_value \<Rightarrow> 'img tok_prompt" where
  "tokenized_item tok (VStr s) = PTokens (tok s)"
| "tokenized_item tok (VList xs) = PTokens (map the_VInt xs)"
| "tokenized_item tok (VImage i) = PImage i"
| "tokenized_item tok _ = PTokens []"

fun tokenized :: "(string \<Rightarrow> int list) \<Rightarrow> 'img prompt_value \<Rightarrow> 'img tok_prompt list" where
  "tokenized tok (VList xs) =
     (if list_all is_VInt xs then [PTokens (map the_VInt xs)] else map (tokenized_item tok) xs)"
| "tokenized tok v = [tokenized_item tok v]"

fun value_of_tok :: "'img tok_prompt \<Rightarrow> 'img prompt_value" where
  "value_of_tok (PTokens ts) = VList (map VInt ts)"
| "value_of_tok (PImage i) = VImage i"

fun data_of_tok :: "'img tok_prompt \<Rightarrow> 'img engine_data" where
  "data_of_tok (PTokens ts) = TokenData ts"
| "data_of_tok (PImage i) = ImageData i"

section \<open>Lemmas\<close>

lemma foldl_prompt_len:
  "foldl (\<lambda>acc p. acc + int (tok_prompt_len p)) k ps = k + int (sum_list (map tok_prompt_len ps))"
  by (induction ps arbitrary: k) auto

lemma process_one_prompt_cases:
  "process_one_prompt tok x =
     (if prompt_item_ok x then Inr (tokenized_item tok x) else Inl invalid_prompt)"
  by (cases x) auto

lemma res_map_process_one_prompt:
  "res_map (process_one_prompt tok) xs =
     (if list_all prompt_item_ok xs then Inr (map (tokenized_item tok) xs) else Inl invalid_prompt)"
  by (induction xs) (auto simp: process_one_prompt_cases)

lemma list_all_is_VInt_map [simp]: "list_all is_VInt (map VInt ts)"
  by (induction ts) auto

lemma map_the_VInt [simp]: "map (the_VInt \<circ> VInt) ts = ts"
  by (induction ts) auto

lemma convert_value_of_tok:
  "convert_prompts_to_data (value_of_tok p)
     = (if p = PTokens [] then Inl IndexError else Inr [data_of_tok p])"
proof (cases p)
  case (PTokens ts)
  then show ?thesis by (cases ts) auto
qed auto

lemma value_of_tok_not_int [simp]: "\<not> is_VInt (value_of_tok p)"
  by (cases p) auto

section \<open>Properties\<close>

text \<open>
  \<open>check_and_get_prompts_length\<close> returns the sum of the lengths of the prompts (token
  counts and image embedding sizes) exactly when it is within the limit, and raises a
  \<open>BadRequestError\<close> otherwise.
\<close>

theorem check_and_get_prompts_length_spec:
  "check_and_get_prompts_length ps limit = Inr k \<longleftrightarrow>
     k = int (sum_list (map tok_prompt_len ps)) \<and> k \<le> limit"
  by (auto simp: check_and_get_prompts_length_def foldl_prompt_len Let_def)

text \<open>
  \<open>process_prompts\<close> accepts a string, a non-empty list of token ids, or a non-empty list
  of strings, token lists and images, and returns one tokenized prompt per item in order (one
  for a string or a list of token ids); any other list is refused with a \<open>BadRequestError\<close>.
\<close>

theorem process_prompts_spec:
  "process_prompts v tok =
     (if prompt_ok v then Inr (tokenized tok v)
      else case v of VList _ \<Rightarrow> Inl invalid_prompt | _ \<Rightarrow> Inl (AssertionError []))"
proof (cases v)
  case (VList xs)
  show ?thesis
  proof (cases xs)
    case Nil
    with VList show ?thesis by simp
  next
    case (Cons x ys)
    with VList show ?thesis
      by (cases x) (auto simp: res_map_process_one_prompt simp del: res_map.simps)
  qed
qed auto

text \<open>
  The generation configuration keeps the sampling fields of the request, its stop strings
  are those of the request followed by the extra ones, and its stop token ids are the extra
  ones. The request itself is changed exactly when its stop field is a list: that list grows
  by the extra stop strings.
\<close>

theorem get_generation_config_spec:
  assumes "get_generation_config r (Some ids) (Some ss) = (cfg, r')"
  shows "gc_n cfg = request_n r \<and> gc_stop_token_ids cfg = Some ids
    \<and> gc_stop_strs cfg = Some (case_option [] (\<lambda>xs. xs) (stop_list (request_stop r)) @ ss)
    \<and> r' = (case request_stop r of Some (StopList xs) \<Rightarrow> set_request_stop (Some (StopList (xs @ ss))) r
            | _ \<Rightarrow> r)
    \<and> cfg\<lparr>gc_stop_strs := stop_list (request_stop r), gc_stop_token_ids := None\<rparr>
        = openai_api_get_generation_config r"
  using assms
  by (cases r) (auto simp: get_generation_config_def Let_def split: option.splits stop_arg.splits)

theorem get_generation_config_witness:
  "(let r = ReqCompletion ((CompletionRequest (PromptStr ''x''))\<lparr>creq_stop := Some (StopList [''a''])\<rparr>)
    in gc_stop_strs (fst (get_generation_config r (Some [2]) (Some [''b'']))) = Some [''a'', ''b'']
     \<and> request_stop (snd (get_generation_config r (Some [2]) (Some [''b'']))) = Some (StopList [''a'', ''b'']))"
proof -
  let ?r = "ReqCompletion ((CompletionRequest (PromptStr ''x''))\<lparr>creq_stop := Some (StopList [''a''])\<rparr>)"
  obtain cfg r' where e: "get_generation_config ?r (Some [2]) (Some [''b'']) = (cfg, r')"
    by fastforce
  from get_generation_config_spec [OF e] show ?thesis unfolding Let_def e by simp
qed

text \<open>
  What \<open>process_prompts\<close> returns is accepted by \<open>convert_prompts_to_data\<close>, item by item,
  provided no prompt is an empty token list; an empty token list (a tokenizer that maps the
  given text to no token) escapes as an \<open>IndexError\<close>, not as a bad request.
\<close>

theorem convert_prompts_to_data_tokenized:
  assumes "ps \<noteq> []"
  shows "convert_prompts_to_data (VList (map value_of_tok ps)) =
     (if list_all (\<lambda>p. p \<noteq> PTokens []) ps then Inr (map data_of_tok ps) else Inl IndexError)"
proof -
  have "res_map (\<lambda>y. res_bind (convert_prompts_to_data y) (\<lambda>ds. py_index ds 0)) (map value_of_tok ps)
      = (if list_all (\<lambda>p. p \<noteq> PTokens []) ps then Inr (map data_of_tok ps) else Inl IndexError)"
    by (induction ps) (auto simp: convert_value_of_tok py_index_def)
  with assms show ?thesis by (cases ps) auto
qed

theorem convert_prompts_to_data_witness:
  "convert_prompts_to_data (VList (map value_of_tok [PTokens [1, 2 :: int], PTokens []])) = Inl IndexError
   \<and> convert_prompts_to_data (VList (map value_of_tok [PTokens [1, 2 :: int]])) = Inr [TokenData [1, 2]]"
  using convert_prompts_to_data_tokenized [of "[PTokens [1, 2], PTokens []]"]
    convert_prompts_to_data_tokenized [of "[PTokens [1, 2]]"]
  by simp

end
