(* ===== verification/Engine_Config.thy ===== *)
theory Engine_Config
  imports Engine_Utils "HOL-Library.Multiset"
begin

text \<open>
  The construction of an engine: serve/config.py, protocol/mlc\_chat\_config.py and the first part
  of serve/engine\_base.py (the check of the engine config, the model arguments, the metrics,
  \<open>MLCEngineBase.__init__\<close> and \<open>terminate\<close>). The download cache, the file system, the JIT
  compiler and the C++ engine are parameters; log messages are left out.
\<close>

section \<open>serve/config.py\<close>

datatype engine_mode = Local | Interactive | Server

datatype kv_state_kind = KvCache | RnnState

datatype speculative_mode = SpecDisable | SmallDraft | Eagle | Medusa

datatype prefix_cache_mode = PrefixDisable | PrefixRadix

datatype prefill_mode = Chunked | Hybrid

datatype additional_model = ModelOnly string | ModelWithLib string string

record engine_config =
  ec_model :: "string option"
  ec_model_lib :: "string option"
  ec_additional_models :: "additional_model list"
  ec_mode :: "engine_mode option"
  ec_tensor_parallel_shards :: "int option"
  ec_pipeline_parallel_stages :: "int option"
  ec_opt :: "string option"
  ec_gpu_memory_utilization :: "py_float option"
  ec_kv_cache_page_size :: int
  ec_max_num_sequence :: "int option"
  ec_max_total_sequence_length :: "int option"
  ec_max_single_sequence_length :: "int option"
  ec_prefill_chunk_size :: "int option"
  ec_sliding_window_size :: "int option"
  ec_attention_sink_size :: "int option"
  ec_max_history_size :: "int option"
  ec_kv_state_kind :: "kv_state_kind option"
  ec_speculative_mode :: speculative_mode
  ec_spec_draft_length :: "int option"
  ec_spec_tree_width :: "int option"
  ec_prefix_cache_mode :: prefix_cache_mode
  ec_prefix_cache_max_num_recycling_seqs :: "int option"
  ec_prefill_mode :: prefill_mode
  ec_verbose :: bool

definition EngineConfig :: engine_config where
  "EngineConfig =
     \<lparr>ec_model = None, ec_model_lib = None, ec_additional_models = [], ec_mode = None,
      ec_tensor_parallel_shards = None, ec_pipeline_parallel_stages = None, ec_opt = None,
      ec_gpu_memory_utilization = None, ec_kv_cache_page_size = 16, ec_max_num_sequence = None,
      ec_max_total_sequence_length = None, ec_max_single_sequence_length = None,
      ec_prefill_chunk_size = None, ec_sliding_window_size = None,
      ec_attention_sink_size = None, ec_max_history_size = None, ec_kv_state_kind = None,
      ec_speculative_mode = SpecDisable, ec_spec_draft_length = Some 0, ec_spec_tree_width = Some 1,
      ec_prefix_cache_mode = PrefixRadix, ec_prefix_cache_max_num_recycling_seqs = None,
      ec_prefill_mode = Hybrid, ec_verbose = True\<rparr>"

section \<open>protocol/mlc\_chat\_config.py\<close>

record mlc_chat_config =
  mcc_version :: string
  mcc_model_type :: string
  mcc_quantization :: string
  mcc_model_config :: "(string \<times> json) list"
  mcc_vocab_size :: int
  mcc_context_window_size :: int
  mcc_sliding_window_size :: int
  mcc_prefill_chunk_size :: int
  mcc_attention_sink_size :: int
  mcc_tensor_parallel_shards :: int
  mcc_pipeline_parallel_stages :: int
  mcc_temperature :: "json option"
  mcc_presence_penalty :: "json option"
  mcc_frequency_penalty :: "json option"
  mcc_repetition_penalty :: "json option"
  mcc_top_p :: "json option"
  mcc_tokenizer_files :: "string list"
  mcc_tokenizer_info :: "(string \<times> json) list"
  mcc_conv_template :: conversation
  mcc_pad_token_id :: "json option"
  mcc_bos_token_id :: "json option"
  mcc_eos_token_id :: "json option"

definition MLC_CHAT_SYSTEM_DEFAULT :: "(string \<times> json) list" where
  "MLC_CHAT_SYSTEM_DEFAULT =
     [(''pad_token_id'', JInt 0), (''bos_token_id'', JInt 1), (''eos_token_id'', JInt 2),
      (''temperature'', JFloat (Finite 1)), (''presence_penalty'', JFloat (Finite 0)),
      (''frequency_penalty'', JFloat (Finite 0)), (''repetition_penalty'', JFloat (Finite 1)),
      (''top_p'', JFloat (Finite 1))]"

text \<open>\<open>getattr(self, key)\<close> for the keys of the defaults.\<close>

definition chat_config_attr :: "mlc_chat_config \<Rightarrow> string \<Rightarrow> json option" where
  "chat_config_attr c key =
     (if key = ''pad_token_id'' then mcc_pad_token_id c
      else if key = ''bos_token_id'' then mcc_bos_token_id c
      else if key = ''eos_token_id'' then mcc_eos_token_id c
      else if key = ''temperature'' then mcc_temperature c
      else if key = ''presence_penalty'' then mcc_presence_penalty c
      else if key = ''frequency_penalty'' then mcc_frequency_penalty c
      else if key = ''repetition_penalty'' then mcc_repetition_penalty c
      else if key = ''top_p'' then mcc_top_p c
      else None)"

definition get_system_defaults_for_missing_fields :: "mlc_chat_config \<Rightarrow> (string \<times> json) list" where
  "get_system_defaults_for_missing_fields c =
     foldl (\<lambda>res (key, value). if chat_config_attr c key = None then dict_set res key value else res)
       [] MLC_CHAT_SYSTEM_DEFAULT"

section \<open>serve/engine\_base.py: arguments of the engine\<close>

record model_info =
  mi_model :: string
  mi_model_lib :: "string option"

definition check_engine_config ::
  "string \<Rightarrow> string option \<Rightarrow> engine_mode \<Rightarrow> engine_config \<Rightarrow> unit res" where
  "check_engine_config model model_lib mode cfg =
     (if ec_model cfg \<noteq> None \<and> ec_model cfg \<noteq> Some model
      then Inl (ValueError ''The argument model of engine constructor differs from engine_config.model'')
      else if ec_model_lib cfg \<noteq> None \<and> model_lib \<noteq> None \<and> ec_model_lib cfg \<noteq> model_lib
      then Inl (ValueError ''The argument model_lib of engine constructor differs from engine_config.model_lib'')
      else if ec_mode cfg \<noteq> None \<and> ec_mode cfg \<noteq> Some mode
      then Inl (ValueError ''The argument mode of engine constructor differs from engine_config.mode'')
      else if ec_kv_cache_page_size cfg \<noteq> 16
      then Inl (ValueError ''KV cache only supports page size 16'')
      else Inr ())"

fun model_info_of :: "additional_model \<Rightarrow> model_info" where
  "model_info_of (ModelOnly m) = \<lparr>mi_model = m, mi_model_lib = None\<rparr>"
| "model_info_of (ModelWithLib m l) = \<lparr>mi_model = m, mi_model_lib = Some l\<rparr>"

definition parse_models :: "string \<Rightarrow> string option \<Rightarrow> additional_model list \<Rightarrow> model_info list" where
  "parse_models model model_lib additional =
     foldl (\<lambda>models a. models @ [model_info_of a])
       [\<lparr>mi_model = model, mi_model_lib = model_lib\<rparr>] additional"

record compile_overrides =
  co_context_window_size :: "int option"
  co_prefill_chunk_size :: "int option"
  co_sliding_window_size :: "int option"
  co_attention_sink_size :: "int option"
  co_tensor_parallel_shards :: "int option"
  co_pipeline_parallel_stages :: "int option"
  co_max_batch_size :: "int option"
  co_opt :: "string option"

definition model_compile_overrides :: "engine_config \<Rightarrow> compile_overrides" where
  "model_compile_overrides cfg =
     \<lparr>co_context_window_size = ec_max_single_sequence_length cfg,
      co_prefill_chunk_size = ec_prefill_chunk_size cfg,
      co_sliding_window_size = ec_sliding_window_size cfg,
      co_attention_sink_size = ec_attention_sink_size cfg,
      co_tensor_parallel_shards = ec_tensor_parallel_shards cfg,
      co_pipeline_parallel_stages = ec_pipeline_parallel_stages cfg,
      co_max_batch_size = ec_max_num_sequence cfg, co_opt = ec_opt cfg\<rparr>"

text \<open>The world the model arguments are resolved in.\<close>

record 'dev model_env =
  get_or_download_model :: "string \<Rightarrow> string res"
  read_chat_config :: "string \<Rightarrow> mlc_chat_config res"
  is_file :: "string \<Rightarrow> bool"
  jit :: "string \<Rightarrow> compile_overrides \<Rightarrow> 'dev \<Rightarrow> string res"

record model_args_state =
  ma_args :: "(string \<times> string) list"
  ma_config_paths :: "string list"
  ma_conversation :: "conversation option"

definition convert_model_info ::
  "'dev model_env \<Rightarrow> 'dev \<Rightarrow> engine_config \<Rightarrow> model_args_state \<Rightarrow> model_info
     \<Rightarrow> model_args_state res" where
  "convert_model_info env device cfg st m =
     res_bind (get_or_download_model env (mi_model m)) (\<lambda>model_path.
     let mlc_config_path = model_path @ ''/mlc-chat-config.json'' in
     res_bind (read_chat_config env mlc_config_path) (\<lambda>chat_cfg.
     let conv = (case ma_conversation st of None \<Rightarrow> mcc_conv_template chat_cfg | Some c \<Rightarrow> c) in
     res_bind
       (case mi_model_lib m of
          Some lib \<Rightarrow>
            if prefix ''mock://'' lib then Inr lib
            else if is_file env lib then Inr lib
            else Inl (FileNotFoundError (''The `model_lib` you passed in is not a file: '' @ lib))
        | None \<Rightarrow> jit env model_path (model_compile_overrides cfg) device)
       (\<lambda>lib. Inr \<lparr>ma_args = ma_args st @ [(model_path, lib)],
                   ma_config_paths = ma_config_paths st @ [mlc_config_path],
                   ma_conversation = Some conv\<rparr>)))"

definition process_model_args ::
  "'dev model_env \<Rightarrow> model_info list \<Rightarrow> 'dev \<Rightarrow> engine_config
     \<Rightarrow> ((string \<times> string) list \<times> string list \<times> conversation) res" where
  "process_model_args env models device cfg =
     res_bind (res_fold (convert_model_info env device cfg)
                 \<lparr>ma_args = [], ma_config_paths = [], ma_conversation = None\<rparr> models) (\<lambda>st.
       case ma_conversation st of
         None \<Rightarrow> Inl (AssertionError [])
       | Some conv \<Rightarrow> Inr (ma_args st, ma_config_paths st, conv))"

section \<open>serve/engine\_base.py: metrics\<close>

fun is_number :: "json \<Rightarrow> bool" where
  "is_number (JInt _) = True"
| "is_number (JFloat _) = True"
| "is_number (JBool _) = True"
| "is_number _ = False"

fun show_number :: "(py_float \<Rightarrow> string) \<Rightarrow> json \<Rightarrow> string" where
  "show_number frepr (JInt i) = str_of_int i"
| "show_number frepr (JFloat x) = frepr x"
| "show_number frepr (JBool b) = (if b then ''True'' else ''False'')"
| "show_number frepr _ = []"

text \<open>The nested \<open>traverse\<close> of \<open>prometheus_text\<close>: the lines it appends.\<close>

fun traverse_metrics :: "(py_float \<Rightarrow> string) \<Rightarrow> string \<Rightarrow> string \<Rightarrow> json \<Rightarrow> string list" where
  "traverse_metrics frepr comment_scope key_prefix (JObj kvs) =
     (if comment_scope \<noteq> [] then [[CHR 0x0A] @ ''# '' @ comment_scope] else [])
     @ map (\<lambda>(key, value). key_prefix @ key @ [CHR 0x09] @ show_number frepr value)
         (filter (\<lambda>(key, value). is_number value) kvs)
     @ concat (map (\<lambda>(key, value).
         if value \<noteq> JObj [] then
           traverse_metrics frepr (comment_scope @ ''/'' @ key) (key_prefix @ key @ ''_'') value
         else []) kvs)"
| "traverse_metrics frepr comment_scope key_prefix _ = []"

definition metrics_preamble :: "string list" where
  "metrics_preamble =
     [''# NOTE: these metrics count token in the unit of serving model's tokenization'',
      ''# be careful when comparing them to client-side metrics that may use'',
      ''# different tokenization to standardize across models.'' @ [CHR 0x0A]]"

definition prometheus_text :: "(py_float \<Rightarrow> string) \<Rightarrow> json \<Rightarrow> string" where
  "prometheus_text frepr metrics =
     py_join [CHR 0x0A] (metrics_preamble @ traverse_metrics frepr [] [] metrics)"

text \<open>The first chunk with a usage carries the metrics; the asynchronous version reads on.\<close>

fun query_engine_metrics :: "chat_stream_response list \<Rightarrow> (string \<times> json) list option res" where
  "query_engine_metrics [] =
     Inl (RuntimeError ''query_engine metrics did not get metrics back'')"
| "query_engine_metrics (r # rs) =
     (case csresp_usage r of
        Some u \<Rightarrow> Inr (usage_extra u)
      | None \<Rightarrow> query_engine_metrics rs)"

fun async_query_loop ::
  "(string \<times> json) list option option \<Rightarrow> chat_stream_response list
     \<Rightarrow> (string \<times> json) list option res" where
  "async_query_loop None [] =
     Inl (RuntimeError ''query_engine metrics did not get metrics back'')"
| "async_query_loop (Some m) [] = Inr m"
| "async_query_loop result (r # rs) =
     (case csresp_usage r of
        None \<Rightarrow> async_query_loop result rs
      | Some u \<Rightarrow> if result \<noteq> None then Inl (AssertionError [])
                 else async_query_loop (Some (usage_extra u)) rs)"

definition async_query_engine_metrics ::
  "chat_stream_response list \<Rightarrow> (string \<times> json) list option res" where
  "async_query_engine_metrics rs = async_query_loop None rs"

section \<open>serve/engine\_base.py: MLCEngineBase\<close>

text \<open>
  What \<open>__init__\<close> leaves in the engine. \<open>load_json\<close> reads a model config file, \<open>fill_config\<close>
  is the C++ engine's answer to \<open>reload\<close> followed by \<open>get_complete_engine_config\<close>.
\<close>

record engine_base =
  eb_conv_template :: conversation
  eb_model_config_dicts :: "json list"
  eb_model_infos :: "model_info list"
  eb_reload_config :: engine_config
  eb_engine_config :: engine_config
  eb_max_input_sequence_length :: int

definition py_min_opt :: "int option \<Rightarrow> int option \<Rightarrow> int res" where
  "py_min_opt a b = (case (a, b) of (Some x, Some y) \<Rightarrow> Inr (min x y)
                     | _ \<Rightarrow> Inl (TypeError ''not supported between instances of NoneType and int''))"

definition engine_base_init ::
  "'dev model_env \<Rightarrow> (string \<Rightarrow> json res) \<Rightarrow> (engine_config \<Rightarrow> engine_config res)
     \<Rightarrow> string \<Rightarrow> 'dev \<Rightarrow> string option \<Rightarrow> engine_mode \<Rightarrow> engine_config option
     \<Rightarrow> engine_base res" where
  "engine_base_init env load_json fill_config model device model_lib mode engine_cfg =
     (let cfg = (case engine_cfg of None \<Rightarrow> EngineConfig | Some c \<Rightarrow> c) in
      res_bind (check_engine_config model model_lib mode cfg) (\<lambda>_.
      let models = parse_models model model_lib (ec_additional_models cfg) in
      res_bind (process_model_args env models device cfg) (\<lambda>(model_args, model_config_paths, conv).
      res_bind (res_map load_json (take (length models) model_config_paths)) (\<lambda>dicts.
      let infos = map2 (\<lambda>m a. m\<lparr>mi_model_lib := Some (snd a)\<rparr>) models model_args;
          cfg' = cfg\<lparr>ec_model := Some (fst (hd model_args)),
                     ec_model_lib := Some (snd (hd model_args)),
                     ec_additional_models := map (\<lambda>(p, l). ModelWithLib p l) (tl model_args),
                     ec_mode := Some mode\<rparr>
      in res_bind (fill_config cfg') (\<lambda>full.
         res_bind (py_min_opt (ec_max_single_sequence_length full)
                     (ec_max_total_sequence_length full)) (\<lambda>max_input.
           Inr \<lparr>eb_conv_template = conv, eb_model_config_dicts = dicts, eb_model_infos = infos,
                eb_reload_config = cfg', eb_engine_config = full,
                eb_max_input_sequence_length = max_input\<rparr>))))))"

text \<open>
  The attributes \<open>terminate\<close> looks at (\<open>None\<close>: the attribute is not there yet) and the effects
  it has: calls of \<open>exit_background_loop\<close> and joined threads.
\<close>

record lifecycle =
  lc_terminated :: "bool option"
  lc_has_ffi :: bool
  lc_loop_thread :: bool
  lc_stream_thread :: bool
  lc_exit_calls :: nat
  lc_joined :: nat

definition terminate :: "lifecycle \<Rightarrow> lifecycle" where
  "terminate s =
     (if lc_terminated s = Some True then s
      else let s1 = s\<lparr>lc_terminated := Some True\<rparr> in
           if \<not> lc_has_ffi s1 then s1
           else let s2 = s1\<lparr>lc_exit_calls := Suc (lc_exit_calls s1)\<rparr>;
                    s3 = (if lc_loop_thread s2 then s2\<lparr>lc_joined := Suc (lc_joined s2)\<rparr> else s2)
                in if lc_stream_thread s3 then s3\<lparr>lc_joined := Suc (lc_joined s3)\<rparr> else s3)"

section \<open>Specifications\<close>

text \<open>The numeric leaves of a metrics tree with their full keys, and the scopes with a comment.\<close>

fun metric_leaves :: "string \<Rightarrow> json \<Rightarrow> (string \<times> json) list" where
  "metric_leaves key_prefix (JObj kvs) =
     concat (map (\<lambda>(key, value).
       if is_number value then [(key_prefix @ key, value)]
       else metric_leaves (key_prefix @ key @ ''_'') value) kvs)"
| "metric_leaves key_prefix _ = []"

fun metric_scopes :: "string \<Rightarrow> json \<Rightarrow> string list" where
  "metric_scopes scope (JObj kvs) =
     (if scope \<noteq> [] then [scope] else []) @ concat (map (\<lambda>(key, value).
       if value \<noteq> JObj [] then metric_scopes (scope @ ''/'' @ key) value else []) kvs)"
| "metric_scopes scope _ = []"

definition metric_line :: "(py_float \<Rightarrow> string) \<Rightarrow> string \<times> json \<Rightarrow> string" where
  "metric_line frepr kv = fst kv @ [CHR 0x09] @ show_number frepr (snd kv)"

definition scope_line :: "string \<Rightarrow> string" where
  "scope_line scope = [CHR 0x0A] @ ''# '' @ scope"

definition config_consistent ::
  "string \<Rightarrow> string option \<Rightarrow> engine_mode \<Rightarrow> engine_config \<Rightarrow> bool" where
  "config_consistent model model_lib mode cfg \<longleftrightarrow>
     ec_model cfg \<in> {None, Some model} \<and> ec_mode cfg \<in> {None, Some mode}
     \<and> (ec_model_lib cfg = None \<or> model_lib = None \<or> ec_model_lib cfg = model_lib)
     \<and> ec_kv_cache_page_size cfg = 16"

text \<open>How the library of one model is found.\<close>

definition resolves_to ::
  "'dev model_env \<Rightarrow> 'dev \<Rightarrow> engine_config \<Rightarrow> model_info \<Rightarrow> string \<times> string \<Rightarrow> bool" where
  "resolves_to env device cfg m arg \<longleftrightarrow>
     get_or_download_model env (mi_model m) = Inr (fst arg)
     \<and> (case mi_model_lib m of
          Some lib \<Rightarrow> snd arg = lib \<and> (prefix ''mock://'' lib \<or> is_file env lib)
        | None \<Rightarrow> jit env (fst arg) (model_compile_overrides cfg) device = Inr (snd arg))"

definition sample_chat_config :: mlc_chat_config where
  "sample_chat_config =
     \<lparr>mcc_version = ''0.1.0'', mcc_model_type = ''llama'', mcc_quantization = ''q4f16_1'',
      mcc_model_config = [], mcc_vocab_size = 32000, mcc_context_window_size = 4096,
      mcc_sliding_window_size = - 1, mcc_prefill_chunk_size = 2048, mcc_attention_sink_size = - 1,
      mcc_tensor_parallel_shards = 1, mcc_pipeline_parallel_stages = 1,
      mcc_temperature = Some (JFloat (Finite (1 / 2))), mcc_presence_penalty = None,
      mcc_frequency_penalty = None, mcc_repetition_penalty = None, mcc_top_p = None,
      mcc_tokenizer_files = [], mcc_tokenizer_info = [], mcc_conv_template = sample_conversation,
      mcc_pad_token_id = None, mcc_bos_token_id = Some (JInt 128000), mcc_eos_token_id = None\<rparr>"

definition sample_env :: "unit model_env" where
  "sample_env =
     \<lparr>get_or_download_model = (\<lambda>m. Inr (''/models/'' @ m)),
      read_chat_config = (\<lambda>p. Inr sample_chat_config), is_file = (\<lambda>p. p = ''lib.so''),
      jit = (\<lambda>p ov dev. Inr (p @ ''/jit.so''))\<rparr>"

section \<open>Lemmas\<close>

lemma parse_models_eq:
  "parse_models model lib extra =
     \<lparr>mi_model = model, mi_model_lib = lib\<rparr> # map model_info_of extra"
proof -
  have "foldl (\<lambda>ms a. ms @ [model_info_of a]) acc extra = acc @ map model_info_of extra" for acc
    by (induction extra arbitrary: acc) auto
  then show ?thesis by (simp add: parse_models_def)
qed

lemma check_engine_config_Inr:
  "check_engine_config model lib mode cfg = Inr u \<longleftrightarrow> config_consistent model lib mode cfg"
  by (auto simp: check_engine_config_def config_consistent_def)

lemma convert_model_info_Inr:
  assumes "convert_model_info env dev cfg st m = Inr st'"
  shows "\<exists>arg chat. resolves_to env dev cfg m arg
     \<and> read_chat_config env (fst arg @ ''/mlc-chat-config.json'') = Inr chat
     \<and> ma_args st' = ma_args st @ [arg]
     \<and> ma_config_paths st' = ma_config_paths st @ [fst arg @ ''/mlc-chat-config.json'']
     \<and> ma_conversation st' =
         Some (case ma_conversation st of None \<Rightarrow> mcc_conv_template chat | Some c \<Rightarrow> c)"
proof -
  from assms obtain path chat lib where
    path: "get_or_download_model env (mi_model m) = Inr path"
    and chat: "read_chat_config env (path @ ''/mlc-chat-config.json'') = Inr chat"
    and lib: "(case mi_model_lib m of
          Some lib \<Rightarrow>
            if prefix ''mock://'' lib then Inr lib
            else if is_file env lib then Inr lib
            else Inl (FileNotFoundError (''The `model_lib` you passed in is not a file: '' @ lib))
        | None \<Rightarrow> jit env path (model_compile_overrides cfg) dev) = Inr lib"
    and st': "st' = \<lparr>ma_args = ma_args st @ [(path, lib)],
        ma_config_paths = ma_config_paths st @ [path @ ''/mlc-chat-config.json''],
        ma_conversation = Some (case ma_conversation st of
          None \<Rightarrow> mcc_conv_template chat | Some c \<Rightarrow> c)\<rparr>"
    by (auto simp: convert_model_info_def res_bind_eq_Inr Let_def)
  have "resolves_to env dev cfg m (path, lib)"
    using path lib by (auto simp: resolves_to_def split: option.splits if_splits)
  then show ?thesis using chat st' by (intro exI [of _ "(path, lib)"] exI [of _ chat]) simp
qed

lemma res_fold_convert:
  assumes "res_fold (convert_model_info env dev cfg) st ms = Inr st'"
  shows "\<exists>args. list_all2 (resolves_to env dev cfg) ms args \<and> ma_args st' = ma_args st @ args
     \<and> ma_config_paths st' = ma_config_paths st @ map (\<lambda>a. fst a @ ''/mlc-chat-config.json'') args
     \<and> (ms = [] \<and> st' = st \<or> ms \<noteq> [] \<and>
         (\<exists>chat. read_chat_config env (fst (hd args) @ ''/mlc-chat-config.json'') = Inr chat \<and>
          ma_conversation st' = Some (case ma_conversation st of None \<Rightarrow> mcc_conv_template chat
                                      | Some c \<Rightarrow> c)))"
  using assms
proof (induction ms arbitrary: st)
  case (Cons m ms)
  then obtain t where t: "convert_model_info env dev cfg st m = Inr t"
    and rest: "res_fold (convert_model_info env dev cfg) t ms = Inr st'"
    by (auto simp: res_bind_eq_Inr)
  from convert_model_info_Inr [OF t] obtain arg chat where arg: "resolves_to env dev cfg m arg"
    "read_chat_config env (fst arg @ ''/mlc-chat-config.json'') = Inr chat"
    "ma_args t = ma_args st @ [arg]"
    "ma_config_paths t = ma_config_paths st @ [fst arg @ ''/mlc-chat-config.json'']"
    "ma_conversation t = Some (case ma_conversation st of None \<Rightarrow> mcc_conv_template chat | Some c \<Rightarrow> c)"
    by blast
  from Cons.IH [OF rest] obtain args where "list_all2 (resolves_to env dev cfg) ms args"
    "ma_args st' = ma_args t @ args"
    "ma_config_paths st' = ma_config_paths t @ map (\<lambda>a. fst a @ ''/mlc-chat-config.json'') args"
    "ma_conversation st' = ma_conversation t"
    using arg(5) by (cases "ms = []") auto
  with arg show ?case by (intro exI [of _ "arg # args"]) auto
qed simp

lemma metric_leaves_number [simp]: "is_number v \<Longrightarrow> metric_leaves p v = []"
  by (cases v) auto

lemma traverse_number [simp]: "is_number v \<Longrightarrow> traverse_metrics f s p v = []"
  by (cases v) auto

lemma scopes_number [simp]: "is_number v \<Longrightarrow> metric_scopes s v = []"
  by (cases v) auto

lemma mset_concat_map_split:
  "mset (concat (map (\<lambda>x. f x @ g x) xs)) = mset (concat (map f xs)) + mset (concat (map g xs))"
  by (induction xs) auto

lemma concat_map_filter: "concat (map (\<lambda>x. if P x then [f x] else []) xs) = map f (filter P xs)"
  by (induction xs) auto

lemma mset_concat_map:
  "(\<And>x. x \<in> set xs \<Longrightarrow> mset (f x) + mset (f' x) = mset (g x) + mset (g' x)) \<Longrightarrow>
   mset (concat (map f xs)) + mset (concat (map f' xs))
     = mset (concat (map g xs)) + mset (concat (map g' xs))"
proof (induction xs)
  case (Cons x xs)
  then have "mset (concat (map f xs)) + mset (concat (map f' xs))
     = mset (concat (map g xs)) + mset (concat (map g' xs))" by auto
  moreover have "mset (f x) + mset (f' x) = mset (g x) + mset (g' x)" using Cons.prems by auto
  ultimately show ?case
    by (simp add: add.assoc add.left_commute)
qed simp

lemma traverse_metrics_mset:
  "mset (traverse_metrics f s p v) =
     mset (map scope_line (metric_scopes s v)) + mset (map (metric_line f) (metric_leaves p v))"
proof (induction f s p v rule: traverse_metrics.induct)
  case (1 f s p kvs)
  let ?sub = "\<lambda>kv. if snd kv \<noteq> JObj [] then
      traverse_metrics f (s @ ''/'' @ fst kv) (p @ fst kv @ ''_'') (snd kv) else []"
  let ?scopes = "\<lambda>kv. if snd kv \<noteq> JObj [] then metric_scopes (s @ ''/'' @ fst kv) (snd kv) else []"
  let ?leaf = "\<lambda>kv. if is_number (snd kv) then [(p @ fst kv, snd kv)]
      else metric_leaves (p @ fst kv @ ''_'') (snd kv)"
  let ?num = "\<lambda>kv. if is_number (snd kv) then [metric_line f (p @ fst kv, snd kv)] else []"
  have split: "mset (?num kv) + mset (?sub kv)
      = mset (map scope_line (?scopes kv)) + mset (map (metric_line f) (?leaf kv))"
    if "kv \<in> set kvs" for kv
    using 1 [OF that, of "fst kv" "snd kv"] by (auto split: if_splits)
  have "mset (traverse_metrics f s p (JObj kvs)) =
      mset (if s \<noteq> [] then [scope_line s] else [])
      + (mset (concat (map ?num kvs)) + mset (concat (map ?sub kvs)))"
    by (simp add: concat_map_filter scope_line_def metric_line_def case_prod_beta')
  also have "mset (concat (map ?num kvs)) + mset (concat (map ?sub kvs)) =
      mset (concat (map (\<lambda>kv. map scope_line (?scopes kv)) kvs))
      + mset (concat (map (\<lambda>kv. map (metric_line f) (?leaf kv)) kvs))"
    using split by (rule mset_concat_map)
  finally show ?case
    by (simp add: map_concat case_prod_beta' comp_def)
qed auto

lemma foldl_dict_set_if:
  "distinct (map fst d) \<Longrightarrow>
   map_of (foldl (\<lambda>res (k, v). if P k then dict_set res k v else res) acc d)
     = map_of acc ++ map_of (filter (\<lambda>(k, v). P k) d)"
proof (induction d arbitrary: acc)
  case (Cons kv d)
  obtain k v where kv: "kv = (k, v)" by (cases kv)
  from Cons.prems kv have "map_of (filter (\<lambda>(k, v). P k) d) k = None"
    by (auto simp: map_of_eq_None_iff)
  with Cons kv show ?case
    by (auto simp: dict_set_lookup fun_eq_iff map_add_def split: option.splits)
qed simp

lemma map_of_filter_key: "map_of (filter (\<lambda>(k, v). P k) d) k = (if P k then map_of d k else None)"
  by (induction d) auto

section \<open>Properties\<close>

text \<open>
  An engine that was constructed got a consistent configuration; every model was resolved
  to a path and a library (the given one, if it is a file or a mock, else the compiled one),
  the conversation template is the one of the first model, the configuration sent to the C++
  engine names exactly these models and libraries and the mode, and the input length limit is
  the smaller of the two sequence length limits of the completed configuration.
\<close>

theorem engine_base_init_spec:
  assumes "engine_base_init env lj fc model dev lib mode ecfg = Inr b"
  shows "\<exists>cfg args chat.
     cfg = (case ecfg of None \<Rightarrow> EngineConfig | Some c \<Rightarrow> c)
     \<and> config_consistent model lib mode cfg
     \<and> list_all2 (resolves_to env dev cfg) (parse_models model lib (ec_additional_models cfg)) args
     \<and> read_chat_config env (fst (hd args) @ ''/mlc-chat-config.json'') = Inr chat
     \<and> eb_conv_template b = mcc_conv_template chat
     \<and> list_all2 (\<lambda>a d. lj (fst a @ ''/mlc-chat-config.json'') = Inr d) args (eb_model_config_dicts b)
     \<and> eb_reload_config b = cfg\<lparr>ec_model := Some (fst (hd args)), ec_model_lib := Some (snd (hd args)),
          ec_additional_models := map (\<lambda>(p, l). ModelWithLib p l) (tl args), ec_mode := Some mode\<rparr>
     \<and> fc (eb_reload_config b) = Inr (eb_engine_config b)
     \<and> (\<exists>x y. ec_max_single_sequence_length (eb_engine_config b) = Some x
         \<and> ec_max_total_sequence_length (eb_engine_config b) = Some y
         \<and> eb_max_input_sequence_length b = min x y)"
proof -
  define cfg where "cfg = (case ecfg of None \<Rightarrow> EngineConfig | Some c \<Rightarrow> c)"
  let ?models = "parse_models model lib (ec_additional_models cfg)"
  from assms obtain args paths conv where
    ok: "config_consistent model lib mode cfg"
    and args: "process_model_args env ?models dev cfg = Inr (args, paths, conv)"
    and rest: "eb_conv_template b = conv"
      "res_map lj (take (length ?models) paths) = Inr (eb_model_config_dicts b)"
      "eb_reload_config b = cfg\<lparr>ec_model := Some (fst (hd args)), ec_model_lib := Some (snd (hd args)),
          ec_additional_models := map (\<lambda>(p, l). ModelWithLib p l) (tl args), ec_mode := Some mode\<rparr>"
      "fc (eb_reload_config b) = Inr (eb_engine_config b)"
    and mn: "py_min_opt (ec_max_single_sequence_length (eb_engine_config b))
        (ec_max_total_sequence_length (eb_engine_config b)) = Inr (eb_max_input_sequence_length b)"
    by (auto simp: engine_base_init_def cfg_def [symmetric] res_bind_eq_Inr Let_def
        check_engine_config_Inr)
  from args obtain st where st: "res_fold (convert_model_info env dev cfg)
      \<lparr>ma_args = [], ma_config_paths = [], ma_conversation = None\<rparr> ?models = Inr st"
    "ma_args st = args" "ma_config_paths st = paths" "ma_conversation st = Some conv"
    by (auto simp: process_model_args_def res_bind_eq_Inr split: option.splits)
  have ne: "?models \<noteq> []" by (simp add: parse_models_eq)
  from res_fold_convert [OF st(1)] ne st(2-4) obtain chat where
    res: "list_all2 (resolves_to env dev cfg) ?models args"
      "paths = map (\<lambda>a. fst a @ ''/mlc-chat-config.json'') args"
      "read_chat_config env (fst (hd args) @ ''/mlc-chat-config.json'') = Inr chat"
      "conv = mcc_conv_template chat"
    by auto
  have "list_all2 (\<lambda>a d. lj (fst a @ ''/mlc-chat-config.json'') = Inr d) args (eb_model_config_dicts b)"
    using rest(2) list_all2_lengthD [OF res(1)] by (simp add: res(2) res_map_Inr_iff list_all2_map1)
  moreover obtain x y where "ec_max_single_sequence_length (eb_engine_config b) = Some x"
    "ec_max_total_sequence_length (eb_engine_config b) = Some y"
    "eb_max_input_sequence_length b = min x y"
    using mn by (auto simp: py_min_opt_def split: option.splits)
  ultimately show ?thesis
    using ok res rest by (intro exI [of _ cfg] exI [of _ args] exI [of _ chat])
      (simp add: cfg_def)
qed

theorem engine_base_init_witness:
  "\<exists>b. engine_base_init sample_env (\<lambda>p. Inr JNull)
        (\<lambda>c. Inr (c\<lparr>ec_max_single_sequence_length := Some 4096,
                    ec_max_total_sequence_length := Some 2048\<rparr>))
        ''m'' () (Some ''lib.so'') Local
        (Some (EngineConfig\<lparr>ec_additional_models := [ModelOnly ''d'']\<rparr>)) = Inr b
     \<and> eb_max_input_sequence_length b = 2048 \<and> eb_conv_template b = sample_conversation
     \<and> ec_additional_models (eb_reload_config b) = [ModelWithLib ''/models/d'' ''/models/d/jit.so'']"
proof -
  let ?init = "engine_base_init sample_env (\<lambda>p. Inr JNull)
        (\<lambda>c. Inr (c\<lparr>ec_max_single_sequence_length := Some 4096,
                    ec_max_total_sequence_length := Some 2048\<rparr>))
        ''m'' () (Some ''lib.so'') Local
        (Some (EngineConfig\<lparr>ec_additional_models := [ModelOnly ''d'']\<rparr>))"
  obtain b where b: "?init = Inr b"
    by (simp add: engine_base_init_def check_engine_config_def EngineConfig_def parse_models_eq
        process_model_args_def convert_model_info_def sample_env_def Let_def py_min_opt_def)
  have "eb_reload_config b = (EngineConfig\<lparr>ec_additional_models := [ModelOnly ''d'']\<rparr>)
      \<lparr>ec_model := Some ''/models/m'', ec_model_lib := Some ''lib.so'',
       ec_additional_models := [ModelWithLib ''/models/d'' ''/models/d/jit.so''], ec_mode := Some Local\<rparr>"
    using b by (auto simp: engine_base_init_def check_engine_config_def EngineConfig_def
        parse_models_eq process_model_args_def convert_model_info_def sample_env_def Let_def
        py_min_opt_def)
  moreover from engine_base_init_spec [OF b] obtain p chat where
    "read_chat_config sample_env p = Inr chat" "eb_conv_template b = mcc_conv_template chat"
    by blast
  then have "chat = sample_chat_config" "eb_conv_template b = mcc_conv_template chat"
    by (simp_all add: sample_env_def)
  then have "eb_conv_template b = sample_conversation" by (simp add: sample_chat_config_def)
  moreover from engine_base_init_spec [OF b] obtain x y where
    "eb_engine_config b = eb_reload_config b\<lparr>ec_max_single_sequence_length := Some 4096,
                    ec_max_total_sequence_length := Some 2048\<rparr>"
    "ec_max_single_sequence_length (eb_engine_config b) = Some x"
    "ec_max_total_sequence_length (eb_engine_config b) = Some y"
    "eb_max_input_sequence_length b = min x y"
    by fastforce
  then have "eb_max_input_sequence_length b = 2048" by simp
  ultimately show ?thesis using b by (intro exI [of _ b]) simp
qed

text \<open>
  \<open>prometheus_text\<close> prints every numeric leaf of the metrics tree exactly once, under
  its full key, and one comment line per nested scope, whatever the shape of the tree.
\<close>

theorem prometheus_text_lines:
  "\<exists>ls. prometheus_text frepr metrics = py_join [CHR 0x0A] (metrics_preamble @ ls)
     \<and> mset ls = mset (map scope_line (metric_scopes [] metrics))
                  + mset (map (metric_line frepr) (metric_leaves [] metrics))"
  by (intro exI [of _ "traverse_metrics frepr [] [] metrics"])
     (simp add: prometheus_text_def traverse_metrics_mset)

text \<open>
  Terminating an engine once or many times has the same effect: the flag is set, the
  background loop is told to exit at most once, and only if the FFI module was reached and the
  engine was not terminated before.
\<close>

lemma terminate_idempotent:
  "(terminate ^^ Suc k) s = terminate s \<and> lc_terminated (terminate s) = Some True
   \<and> lc_exit_calls (terminate s) = lc_exit_calls s +
       (if lc_terminated s \<noteq> Some True \<and> lc_has_ffi s then 1 else 0)"
proof -
  have dn: "lc_terminated (terminate s) = Some True" for s
    by (auto simp: terminate_def Let_def)
  then have "terminate (terminate s) = terminate s"
    by (simp add: terminate_def [of "terminate s"])
  then have "(terminate ^^ Suc k) s = terminate s" by (induction k) simp_all
  then show ?thesis using dn by (auto simp: terminate_def Let_def)
qed

text \<open>
  \<open>get_system_defaults_for_missing_fields\<close> gives the system default of exactly the
  fields that are missing in the chat config.
\<close>

lemma get_system_defaults_spec:
  "map_of (get_system_defaults_for_missing_fields c) key =
     (if chat_config_attr c key = None then map_of MLC_CHAT_SYSTEM_DEFAULT key else None)"
proof -
  have "distinct (map fst MLC_CHAT_SYSTEM_DEFAULT)" by (simp add: MLC_CHAT_SYSTEM_DEFAULT_def)
  from foldl_dict_set_if [OF this, of "\<lambda>k. chat_config_attr c k = None" "[]"]
  show ?thesis by (simp add: get_system_defaults_for_missing_fields_def map_of_filter_key)
qed

end
