(* ===== verification/Py_Float.thy ===== *)
theory Py_Float
  imports Py_Prelude "HOL-Library.Log_Nat"
begin

text \<open>
  The float arithmetic that the serving layer computes with: sums, products and quotients of doubles, rounded
  to the nearest double with ties to even, and the conversions \<open>float(n)\<close> and \<open>int(x)\<close>. A
  finite float is its rational value, so the two zeros are one. The lemmas bound what rounding and
  truncation make of a number between zero and a small integer, and show that integers scaled by a
  power of two are exact up to 53 bits.
\<close>

section \<open>Rounding and arithmetic\<close>

definition round_even :: "rat \<Rightarrow> int" where
  "round_even x =
     (let f = \<lfloor>x\<rfloor>; r = x - of_int f
      in if r < 1 / 2 \<or> (r = 1 / 2 \<and> even f) then f else f + 1)"

text \<open>The exponent of the last bit of the double next to a positive number.\<close>

definition float_exponent :: "rat \<Rightarrow> int" where
  "float_exponent x =
     (let (n, d) = quotient_of x; k = bitlen n - bitlen d
      in max ((if 2 powi k \<le> x then k else k - 1) - 52) (- 1074))"

definition round_pos :: "rat \<Rightarrow> rat" where
  "round_pos x = (let u = 2 powi float_exponent x in of_int (round_even (x / u)) * u)"

definition round_float :: "rat \<Rightarrow> py_float" where
  "round_float x =
     (let r = (if x = 0 then 0 else sgn x * round_pos \<bar>x\<bar>)
      in if 2 ^ 1024 \<le> r then PosInf else if r \<le> - (2 ^ 1024) then NegInf else Finite r)"

fun float_neg :: "py_float \<Rightarrow> py_float" where
  "float_neg (Finite a) = Finite (- a)"
| "float_neg PosInf = NegInf"
| "float_neg NegInf = PosInf"
| "float_neg NaN = NaN"

fun float_add :: "py_float \<Rightarrow> py_float \<Rightarrow> py_float" where
  "float_add (Finite a) (Finite b) = round_float (a + b)"
| "float_add NaN _ = NaN"
| "float_add _ NaN = NaN"
| "float_add PosInf NegInf = NaN"
| "float_add NegInf PosInf = NaN"
| "float_add PosInf _ = PosInf"
| "float_add NegInf _ = NegInf"
| "float_add _ PosInf = PosInf"
| "float_add _ NegInf = NegInf"

definition float_sgn :: "py_float \<Rightarrow> rat" where
  "float_sgn x = (case x of Finite a \<Rightarrow> sgn a | PosInf \<Rightarrow> 1 | NegInf \<Rightarrow> - 1 | NaN \<Rightarrow> 0)"

definition float_mul :: "py_float \<Rightarrow> py_float \<Rightarrow> py_float" where
  "float_mul x y =
     (case (x, y) of
        (Finite a, Finite b) \<Rightarrow> round_float (a * b)
      | _ \<Rightarrow> if x = NaN \<or> y = NaN then NaN
             else let s = float_sgn x * float_sgn y
                  in if s = 0 then NaN else if 0 < s then PosInf else NegInf)"

definition float_div :: "py_float \<Rightarrow> py_float \<Rightarrow> py_float res" where
  "float_div x y =
     (case (x, y) of
        (_, Finite b) \<Rightarrow> if b = 0 then Inl (ZeroDivisionError ''float division by zero'')
          else Inr (case x of Finite a \<Rightarrow> round_float (a / b)
                    | NaN \<Rightarrow> NaN
                    | _ \<Rightarrow> if 0 < float_sgn x * sgn b then PosInf else NegInf)
      | (Finite _, PosInf) \<Rightarrow> Inr (Finite 0)
      | (Finite _, NegInf) \<Rightarrow> Inr (Finite 0)
      | _ \<Rightarrow> Inr NaN)"

text \<open>\<open>float(n)\<close> and \<open>int(x)\<close>\<close>

definition float_of_int :: "int \<Rightarrow> py_float res" where
  "float_of_int n =
     (case round_float (of_int n) of
        Finite r \<Rightarrow> Inr (Finite r)
      | _ \<Rightarrow> Inl (OverflowError ''int too large to convert to float''))"

fun int_of_float :: "py_float \<Rightarrow> int res" where
  "int_of_float (Finite a) = Inr (if a < 0 then \<lceil>a\<rceil> else \<lfloor>a\<rfloor>)"
| "int_of_float NaN = Inl (ValueError ''cannot convert float NaN to integer'')"
| "int_of_float _ = Inl (OverflowError ''cannot convert float infinity to integer'')"

section \<open>Lemmas\<close>

lemma round_even_le: "y \<le> of_int N \<Longrightarrow> round_even y \<le> N"
proof -
  assume y: "y \<le> of_int N"
  then have "\<lfloor>y\<rfloor> \<le> N" by (simp add: floor_le_iff)
  moreover have "\<lfloor>y\<rfloor> \<noteq> N" if "1 / 2 \<le> y - of_int \<lfloor>y\<rfloor>" using that y by auto
  ultimately show ?thesis by (fastforce simp: round_even_def Let_def)
qed

lemma round_even_nonneg: "0 \<le> y \<Longrightarrow> 0 \<le> round_even y"
  by (auto simp: round_even_def Let_def)

lemma float_exponent_upper:
  assumes "0 < x" and "x < 2 powi (53 + e)" and "- 1074 \<le> e"
  shows "float_exponent x \<le> e"
proof -
  obtain n d where q: "quotient_of x = (n, d)" by fastforce
  then have d: "0 < d" and x: "x = of_int n / of_int d"
    by (auto simp: quotient_of_denom_pos quotient_of_div)
  with assms(1) have n: "0 < n" by (simp add: zero_less_divide_iff)
  let ?k = "bitlen n - bitlen d"
  have nb: "2 ^ nat (bitlen n - 1) \<le> n" and db: "d < 2 ^ nat (bitlen d)"
    using bitlen_bounds [OF n] bitlen_bounds [OF d] by auto
  have bn: "0 < bitlen n" "0 < bitlen d"
    using bitlen_eq_zero_iff [of n] bitlen_eq_zero_iff [of d] bitlen_nonneg [of n]
      bitlen_nonneg [of d] n d by linarith+
  have "2 powi (?k - 1) = (2 powi (bitlen n - 1) :: rat) / 2 powi (bitlen d)"
    by (simp add: power_int_diff power_int_add field_simps)
  also have "\<dots> \<le> x"
  proof -
    have "(2 powi (bitlen n - 1) :: rat) \<le> of_int n"
      using nb bn by (simp add: power_int_def)
    moreover have "(of_int d :: rat) \<le> 2 powi (bitlen d)"
      using db bn by (simp add: power_int_def)
    ultimately show ?thesis using n d unfolding x by (intro frac_le) auto
  qed
  finally have lo: "2 powi (?k - 1) \<le> x" .
  have "j < 53 + e" if "(2::rat) powi j \<le> x" for j :: int
  proof (rule ccontr)
    assume "\<not> j < 53 + e"
    then have "(2::rat) powi (53 + e) \<le> 2 powi j" by (intro power_int_increasing) auto
    then show False using that assms(2) by linarith
  qed
  then have "?k - 1 < 53 + e" and "2 powi ?k \<le> x \<Longrightarrow> ?k < 53 + e" using lo by blast+
  then show ?thesis using assms(3) unfolding float_exponent_def q by (auto simp: Let_def)
qed

lemma float_exponent_lower:
  assumes "0 < x" and "2 powi (52 + e) \<le> x"
  shows "e \<le> float_exponent x"
proof -
  obtain n d where q: "quotient_of x = (n, d)" by fastforce
  then have d: "0 < d" and x: "x = of_int n / of_int d"
    by (auto simp: quotient_of_denom_pos quotient_of_div)
  with assms(1) have n: "0 < n" by (simp add: zero_less_divide_iff)
  let ?k = "bitlen n - bitlen d"
  have nb: "n < 2 ^ nat (bitlen n)" and db: "2 ^ nat (bitlen d - 1) \<le> d"
    using bitlen_bounds [OF n] bitlen_bounds [OF d] by auto
  have bn: "0 < bitlen n" "0 < bitlen d"
    using bitlen_eq_zero_iff [of n] bitlen_eq_zero_iff [of d] bitlen_nonneg [of n]
      bitlen_nonneg [of d] n d by linarith+
  have "x < (2 powi (bitlen n) :: rat) / 2 powi (bitlen d - 1)"
  proof -
    have "of_int n < (2 powi (bitlen n) :: rat)"
      using nb bn of_int_less_iff [of n "2 ^ nat (bitlen n)", where 'a = rat] by (simp add: power_int_def)
    moreover have "(2 powi (bitlen d - 1) :: rat) \<le> of_int d"
      using db bn of_int_le_iff [of "2 ^ nat (bitlen d - 1)" d, where 'a = rat] by (simp add: power_int_def)
    ultimately show ?thesis using n d unfolding x by (intro frac_less) auto
  qed
  also have "\<dots> = 2 powi (?k + 1)" by (simp add: power_int_diff power_int_add field_simps)
  finally have hi: "x < 2 powi (?k + 1)" .
  have "52 + e < j" if "x < (2::rat) powi j" for j :: int
  proof (rule ccontr)
    assume "\<not> 52 + e < j"
    then have "(2::rat) powi j \<le> 2 powi (52 + e)" by (intro power_int_increasing) auto
    then show False using that assms(2) by linarith
  qed
  then have "52 + e < ?k + 1" and "x < 2 powi ?k \<Longrightarrow> 52 + e < ?k" using hi by blast+
  then show ?thesis unfolding float_exponent_def q by (auto simp: Let_def not_le)
qed

lemma float_exponent_bound:
  assumes "0 < x" and "x < 2 ^ 53"
  shows "float_exponent x \<le> 0"
  using float_exponent_upper [of x 0] assms by simp

lemma round_even_int [simp]: "round_even (of_int n) = n"
  by (simp add: round_even_def)

text \<open>A number of at most 53 significant bits above the exponent \<open>e\<close> is a double.\<close>

lemma round_pos_exact:
  assumes "0 < m" and "m < 2 ^ 53" and "- 1074 \<le> e"
  shows "round_pos (of_int m * 2 powi e) = of_int m * 2 powi e"
proof -
  let ?x = "of_int m * 2 powi e :: rat"
  have m: "(of_int m :: rat) < 2 ^ 53"
    using assms(2) of_int_less_iff [of m "2 ^ 53", where 'a = rat] by simp
  have "?x < 2 powi (53 + e)" using m by (simp add: power_int_add)
  moreover have "0 < ?x" using assms(1) by simp
  ultimately have e: "float_exponent ?x \<le> e" using assms(3) by (intro float_exponent_upper)
  have "?x / 2 powi float_exponent ?x = of_int m * 2 powi (e - float_exponent ?x)"
    by (simp add: power_int_diff)
  also have "\<dots> = of_int (m * 2 ^ nat (e - float_exponent ?x))"
    using e by (simp add: power_int_def)
  finally have q: "?x / 2 powi float_exponent ?x = of_int (m * 2 ^ nat (e - float_exponent ?x))" .
  have "of_int (round_even (?x / 2 powi float_exponent ?x)) = ?x / 2 powi float_exponent ?x"
    unfolding q by (simp only: round_even_int)
  then show ?thesis by (simp add: round_pos_def Let_def)
qed

lemma round_float_pos:
  assumes "0 < y" and "round_pos y = y" and "y < 2 ^ 1024"
  shows "round_float y = Finite y" "round_float (- y) = Finite (- y)"
proof -
  from assms(1) have n: "\<not> 2 ^ 1024 \<le> - y" "\<not> y \<le> - (2 ^ 1024)"
    using zero_less_power [of "2 :: rat" 1024] by linarith+
  show "round_float y = Finite y" "round_float (- y) = Finite (- y)"
    using assms n unfolding round_float_def by (simp_all only: Let_def) (simp_all add: not_le)
qed

lemma round_float_exact:
  assumes "\<bar>m\<bar> < 2 ^ 53" and "- 1074 \<le> e" and "e \<le> 900"
  shows "round_float (of_int m * 2 powi e) = Finite (of_int m * 2 powi e)"
proof (cases "m = 0")
  case False
  let ?x = "of_int \<bar>m\<bar> * 2 powi e :: rat"
  have r: "round_pos ?x = ?x" using False assms by (intro round_pos_exact) auto
  have "(of_int \<bar>m\<bar> :: rat) < 2 ^ 53"
    using assms(1) of_int_less_iff [of "\<bar>m\<bar>" "2 ^ 53", where 'a = rat] by simp
  then have "?x < 2 powi (53 + e)" by (simp add: power_int_add)
  also have "\<dots> \<le> 2 powi 1024" using assms(3) by (intro power_int_increasing) auto
  also have "\<dots> = 2 ^ 1024" by (simp only: power_int_numeral)
  finally have "?x < 2 ^ 1024" .
  then have "round_float ?x = Finite ?x" "round_float (- ?x) = Finite (- ?x)"
    using False r by (auto intro!: round_float_pos simp del: power_numeral)
  then show ?thesis by (cases "0 < m") simp_all
qed (simp add: round_float_def)

lemma round_float_bounds:
  assumes "0 \<le> x" and "x \<le> of_int n" and "n < 2 ^ 53"
  shows "\<exists>r. round_float x = Finite r \<and> 0 \<le> r \<and> r \<le> of_int n"
proof (cases "x = 0")
  case True
  then show ?thesis using assms by (simp add: round_float_def)
next
  case False
  have n: "(of_int n :: rat) < 2 ^ 53"
    using assms(3) of_int_less_iff [of n "2 ^ 53", where 'a = rat] by simp
  with False assms have x: "0 < x" "x < 2 ^ 53" by simp_all
  let ?e = "float_exponent x" and ?u = "(2::rat) powi float_exponent x"
  have e: "?e \<le> 0" by (rule float_exponent_bound [OF x])
  have u: "0 < ?u" by simp
  have N: "of_int n / ?u = of_int (n * 2 ^ nat (- ?e))"
    using e by (simp add: power_int_def field_simps)
  have "round_even (x / ?u) \<le> n * 2 ^ nat (- ?e)"
    using assms(2) u by (intro round_even_le) (simp only: N [symmetric] divide_right_mono less_imp_le)
  then have "of_int (round_even (x / ?u)) \<le> of_int n / ?u"
    by (simp only: N of_int_le_iff)
  then have hi: "round_pos x \<le> of_int n" using u by (simp add: round_pos_def Let_def field_simps)
  have lo: "0 \<le> round_pos x" using x u by (simp add: round_pos_def Let_def round_even_nonneg)
  from n have "round_pos x < 2 ^ 1024"
    using hi power_increasing [of 53 1024 "2::rat"] by linarith
  then show ?thesis using x hi lo by (auto simp: round_float_def)
qed

lemma int_of_float_bounds:
  assumes "0 \<le> r" and "r \<le> of_int n"
  shows "\<exists>k. int_of_float (Finite r) = Inr k \<and> 0 \<le> k \<and> k \<le> n"
  using assms by (auto simp: floor_le_iff)

end
