(* ===== verification/Router.thy ===== *)
theory Router
  imports Engine_Config Py_Float
begin

text \<open>
  The programmable router of router/router.py: it starts the servers, picks the least loaded
  endpoint for a request and translates the request into microserving calls. The servers are seen
  through the HTTP calls they get (\<open>ro_calls\<close>) and their answers, a function of the calls so far.
  A generator of the router is given by what happens up to its first \<open>yield\<close>, what it yields and
  what happens at its end, so that a consumer that stops at a \<open>yield\<close> can be told from one that
  reads to the end.
\<close>

section \<open>The environment\<close>

datatype router_call =
    CallCompletions string completion_request
  | CallPrepRecv string prep_recv_request
  | CallRemoteSend string remote_send_request
  | CallStartGenerate string start_generate_request

text \<open>
  A response: its status, its text, what \<open>response.json()\<close> gives, the lines of its content and
  the exception that reading the content ends with, if any.
\<close>

record http_response =
  hr_status :: int
  hr_text :: string
  hr_json :: "json res"
  hr_content :: "string list"
  hr_error :: "py_error option"

record router_env =
  net_post :: "router_call list \<Rightarrow> http_response res"
  net_json_loads :: "string \<Rightarrow> json res"
  net_validate :: "json \<Rightarrow> completion_response res"
  net_encode :: "string \<Rightarrow> int list"

section \<open>Router.\_\_init\_\_\<close>

text \<open>How a server is started: the arguments of \<open>PopenServer\<close> and the nvshmem configuration.\<close>

record server_launch =
  sl_model :: string
  sl_model_lib :: "string option"
  sl_host :: string
  sl_port :: int
  sl_enable_debug :: bool
  sl_device :: string
  sl_mode :: engine_mode
  sl_engine_config :: engine_config
  sl_uid :: "int list"
  sl_npes :: int
  sl_pe_start :: int

record router =
  ro_router_mode :: string
  ro_pd_balance_factor :: py_float
  ro_num_servers :: nat
  ro_hosts :: "string list"
  ro_ports :: "int list"
  ro_server_urls :: "string list"
  ro_num_running_requests :: "int list"
  ro_device_id_starts :: "int list"
  ro_servers :: "server_launch list"
  ro_calls :: "router_call list"

fun device_id_starts :: "int list \<Rightarrow> int list \<Rightarrow> int list" where
  "device_id_starts starts [] = starts"
| "device_id_starts starts (n # ns) = device_id_starts (starts @ [last starts + n]) ns"

definition start_server ::
  "string \<Rightarrow> string option \<Rightarrow> bool \<Rightarrow> int list \<Rightarrow> router \<Rightarrow> nat \<Rightarrow> server_launch" where
  "start_server model model_lib enable_prefix_cache uid r i =
     \<lparr>sl_model = model, sl_model_lib = model_lib, sl_host = ro_hosts r ! i, sl_port = ro_ports r ! i,
      sl_enable_debug = True, sl_device = ''cuda:'' @ str_of_int (ro_device_id_starts r ! i),
      sl_mode = Server,
      sl_engine_config = EngineConfig\<lparr>
        ec_prefix_cache_mode := (if enable_prefix_cache then PrefixRadix else PrefixDisable),
        ec_gpu_memory_utilization := Some (Finite (3602879701896397 / 4503599627370496))\<rparr>,
      sl_uid = uid, sl_npes = last (ro_device_id_starts r), sl_pe_start = ro_device_id_starts r ! i\<rparr>"

text \<open>
  The constructor. The servers are started by one thread each; \<open>order\<close> is the order in which
  the threads reach the append to \<open>self.servers\<close>, \<open>uid\<close> the result of the nvshmem
  initialisation.
\<close>

definition router_init ::
  "int list \<Rightarrow> nat list \<Rightarrow> string \<Rightarrow> string option \<Rightarrow> string list option \<Rightarrow> int list option
     \<Rightarrow> int list option \<Rightarrow> bool \<Rightarrow> string \<Rightarrow> py_float \<Rightarrow> router res" where
  "router_init uid order model model_lib hosts ports num_gpus enable_prefix_cache router_mode factor =
     (let hosts = (case hosts of None \<Rightarrow> [''127.0.0.1''] | Some h \<Rightarrow> h);
          ports = (case ports of None \<Rightarrow> [8080] | Some p \<Rightarrow> p);
          num_gpus = (case num_gpus of None \<Rightarrow> [1] | Some n \<Rightarrow> n);
          n = length hosts
      in res_bind (res_assert (n = length ports \<and> length ports = length num_gpus) []) (\<lambda>_.
         let r = \<lparr>ro_router_mode = router_mode, ro_pd_balance_factor = factor, ro_num_servers = n,
                   ro_hosts = hosts, ro_ports = ports,
                   ro_server_urls = map (\<lambda>i. ''http://'' @ hosts ! i @ '':'' @ str_of_int (ports ! i)) [0..<n],
                   ro_num_running_requests = replicate n 0,
                   ro_device_id_starts = device_id_starts [0] num_gpus, ro_servers = [], ro_calls = []\<rparr>
         in Inr (r\<lparr>ro_servers := map (start_server model model_lib enable_prefix_cache uid r) order\<rparr>)))"

section \<open>Picking an endpoint\<close>

text \<open>The loop over the candidates with the least count so far; \<open>None\<close> stands for \<open>-1\<close>.\<close>

fun pick_loop :: "int list \<Rightarrow> nat option \<Rightarrow> int \<Rightarrow> nat list \<Rightarrow> nat option res" where
  "pick_loop running endpoint_id min_running_req [] = Inr endpoint_id"
| "pick_loop running endpoint_id min_running_req (candidate_id # ids) =
     res_bind (py_index running (int candidate_id)) (\<lambda>c.
       if c < min_running_req then pick_loop running (Some candidate_id) c ids
       else pick_loop running endpoint_id min_running_req ids)"

definition pick_endpoint :: "nat list \<Rightarrow> (router, nat) py" where
  "pick_endpoint endpoint_ids =
     py_bind (py_get ro_num_running_requests) (\<lambda>running.
     py_bind (py_lift (pick_loop running None (10 ^ 9) endpoint_ids)) (\<lambda>endpoint_id.
     case endpoint_id of None \<Rightarrow> py_raise (AssertionError []) | Some e \<Rightarrow> py_return e))"

definition add_running :: "nat \<Rightarrow> int \<Rightarrow> (router, unit) py" where
  "add_running e d =
     py_bind (py_get ro_num_running_requests) (\<lambda>running.
     py_bind (py_lift (py_index running (int e))) (\<lambda>c.
     py_modify (\<lambda>r. r\<lparr>ro_num_running_requests := running[e := c + d]\<rparr>)))"

section \<open>Calls\<close>

text \<open>
  A request as it is read back from its \<open>model_dump()\<close>, be it by a server that it is posted to or by
  the constructor of another request. The dump has the names of the fields and not their aliases;
  \<open>RequestResponseFormat\<close> reads its schema under the alias \<open>schema\<close> only and ignores the key
  \<open>json_schema\<close>. No other field of a request has an alias.
\<close>

definition reread_request :: "'a completion_request_scheme \<Rightarrow> 'a completion_request_scheme" where
  "reread_request request = request\<lparr>creq_response_format :=
     map_option (\<lambda>f. f\<lparr>json_schema := None\<rparr>) (creq_response_format request)\<rparr>"

text \<open>A \<open>session.post\<close> with the check of the status that follows each.\<close>

definition post :: "router_env \<Rightarrow> router_call \<Rightarrow> (router, http_response) py" where
  "post env call =
     py_bind (py_modify (\<lambda>r. r\<lparr>ro_calls := ro_calls r @ [call]\<rparr>)) (\<lambda>_.
     py_bind (py_get ro_calls) (\<lambda>calls.
     py_bind (py_lift (net_post env calls)) (\<lambda>response.
     py_bind (py_assert (hr_status response = 200) (hr_text response)) (\<lambda>_.
     py_return response))))"

definition send_prepare_receive ::
  "router_env \<Rightarrow> prep_recv_request \<Rightarrow> string \<Rightarrow> (router, json \<times> json) py" where
  "send_prepare_receive env request server_url =
     py_bind (post env (CallPrepRecv server_url (reread_request request))) (\<lambda>response.
     py_bind (py_lift (hr_json response)) (\<lambda>data.
     case data of
       JObj d \<Rightarrow> py_bind (py_lift (dict_get d ''kv_append_metadata'')) (\<lambda>m.
                py_bind (py_lift (dict_get d ''prefix_matched_length'')) (\<lambda>p. py_return (m, p)))
     | _ \<Rightarrow> py_raise (TypeError ''indices'')))"

definition send_remote_send :: "router_env \<Rightarrow> remote_send_request \<Rightarrow> string \<Rightarrow> (router, unit) py" where
  "send_remote_send env request server_url =
     py_bind (post env (CallRemoteSend server_url (reread_request request))) (\<lambda>response.
     py_bind (py_lift (hr_json response)) (\<lambda>_. py_return ()))"

text \<open>One line of a stream of server-sent events; \<open>None\<close> when it is skipped.\<close>

definition sse_response :: "router_env \<Rightarrow> string \<Rightarrow> completion_response option res" where
  "sse_response env chunk =
     (let chunk = py_strip chunk
      in if chunk = [] \<or> chunk = [CHR 0x0A] then Inr None
         else let raw_data = py_strip (drop 6 chunk)
              in if raw_data = ''[DONE]'' then Inr None
                 else res_bind (net_json_loads env raw_data) (\<lambda>data.
                      res_bind (net_validate env data) (\<lambda>response. Inr (Some response))))"

fun sse_responses ::
  "router_env \<Rightarrow> string list \<Rightarrow> py_error option \<Rightarrow> completion_response list \<times> py_error option" where
  "sse_responses env [] ending = ([], ending)"
| "sse_responses env (chunk # chunks) ending =
     (case sse_response env chunk of
        Inl e \<Rightarrow> ([], Some e)
      | Inr r \<Rightarrow> (let (rs, e) = sse_responses env chunks ending
                 in ((case r of None \<Rightarrow> rs | Some x \<Rightarrow> x # rs), e)))"

text \<open>What a response holds: the responses read from it and the exception at the end, if any.\<close>

definition read_responses ::
  "router_env \<Rightarrow> bool \<Rightarrow> http_response \<Rightarrow> completion_response list \<times> py_error option" where
  "read_responses env stream response =
     (if stream then sse_responses env (hr_content response) (hr_error response)
      else case res_bind (hr_json response) (net_validate env) of
             Inl e \<Rightarrow> ([], Some e)
           | Inr r \<Rightarrow> ([r], None))"

definition send_start_generate ::
  "router_env \<Rightarrow> start_generate_request \<Rightarrow> string
     \<Rightarrow> (router, completion_response list \<times> py_error option) py" where
  "send_start_generate env request server_url =
     py_bind (post env (CallStartGenerate server_url (reread_request request))) (\<lambda>response.
     py_return (read_responses env (creq_stream request) response))"

section \<open>Disaggregated serving\<close>

text \<open>
  The window of the prompt whose KV data the prefill server computes, before and after it is
  read; the threshold is the double that the literal \<open>1e-5\<close> stands for.
\<close>

definition kv_window_end :: "py_float \<Rightarrow> nat \<Rightarrow> int res" where
  "kv_window_end factor len =
     (if float_abs factor < Finite (5902958103587057 / 590295810358705651712) then Inr (- 1)
      else res_bind (float_of_int (int len)) (\<lambda>l.
           int_of_float (float_mul (float_add (Finite 1) (float_neg factor)) l)))"

definition absolute_end :: "nat \<Rightarrow> int \<Rightarrow> int" where
  "absolute_end len e = (if e < 0 then int len + e else e)"

text \<open>The matched prefix length as the comparisons and the request model read it.\<close>

fun json_number :: "json \<Rightarrow> py_float res" where
  "json_number (JInt i) = Inr (Finite (of_int i))"
| "json_number (JBool b) = Inr (Finite (of_bool b))"
| "json_number (JFloat x) = Inr x"
| "json_number _ = Inl (TypeError ''not supported between instances'')"

fun validate_int :: "json \<Rightarrow> int res" where
  "validate_int (JInt i) = Inr i"
| "validate_int (JBool b) = Inr (of_bool b)"
| "validate_int (JFloat (Finite a)) = (if a = of_int \<lfloor>a\<rfloor> then Inr \<lfloor>a\<rfloor> else Inl (ValidationError ''begin''))"
| "validate_int _ = Inl (ValidationError ''begin'')"

fun validate_str :: "json \<Rightarrow> string res" where
  "validate_str (JStr t) = Inr t"
| "validate_str _ = Inl (ValidationError ''kv_addr_info'')"

fun prompt_len :: "prompt_arg \<Rightarrow> nat" where
  "prompt_len (PromptStr t) = length t"
| "prompt_len (PromptTokens ts) = length ts"

text \<open>
  The statements of the \<open>try\<close> block up to the loop over the answer of the decode server; the
  result is the end of the window and what there is to yield.
\<close>

definition disagg_calls ::
  "router_env \<Rightarrow> completion_request \<Rightarrow> nat \<Rightarrow> int
     \<Rightarrow> (router, completion_response list \<times> py_error option) py" where
  "disagg_calls env request decode_server_id kv_end =
     py_bind (py_get id) (\<lambda>r.
     py_bind (py_lift (py_index (ro_server_urls r) (int decode_server_id))) (\<lambda>decode_url.
     py_bind (send_prepare_receive env (completion_request.extend (reread_request request) (prep_recv_request.fields kv_end))
                decode_url) (\<lambda>(metadata, prefix_matched_length).
     py_bind (py_return (absolute_end (prompt_len (creq_prompt request)) kv_end)) (\<lambda>window_end.
     py_bind (py_lift (json_number prefix_matched_length)) (\<lambda>prefix.
     py_bind (py_assert (prefix \<le> Finite (of_int window_end)) []) (\<lambda>_.
     py_bind
       (if prefix < Finite (of_int window_end)
        then py_bind (py_lift (validate_int prefix_matched_length)) (\<lambda>begin.
             py_bind (py_lift (validate_str metadata)) (\<lambda>addr.
             py_bind (py_lift (py_index (ro_device_id_starts r) (int decode_server_id))) (\<lambda>rank.
             py_bind (py_lift (py_index (ro_server_urls r) 0)) (\<lambda>prefill_url.
             send_remote_send env
               (completion_request.extend (reread_request request) (remote_send_request.fields begin window_end addr rank))
               prefill_url))))
        else py_return ()) (\<lambda>_.
     send_start_generate env
       (completion_request.extend (reread_request request) (start_generate_request.fields window_end))
       decode_url)))))))"

text \<open>
  What the loop yields for the responses: a preempted one has \<open>None\<close> before it.
\<close>

definition yields_of :: "completion_response \<Rightarrow> completion_response option list" where
  "yields_of response =
     (case cresp_choices response of
        [] \<Rightarrow> [Some response]
      | c # _ \<Rightarrow> if cch_finish_reason c = Some ''preempt'' then [None, Some response]
                else [Some response])"

text \<open>
  The start of the generator: picks the decode server, counts the request and makes the calls; an
  \<open>Exception\<close> of a call takes the count back.
\<close>

definition release_on_exception ::
  "nat \<Rightarrow> (router, 'a) py \<Rightarrow> (router, 'a) py" where
  "release_on_exception e body r =
     (case body r of
        (Inr x, r') \<Rightarrow> (Inr x, r')
      | (Inl err, r') \<Rightarrow>
          if is_Exception err
          then (case add_running e (- 1) r' of (Inl err', r'') \<Rightarrow> (Inl err', r'') | (Inr _, r'') \<Rightarrow> (Inl err, r''))
          else (Inl err, r'))"

text \<open>Up to the first \<open>await\<close>.\<close>

definition disagg_reserve :: "completion_request \<Rightarrow> py_float \<Rightarrow> (router, nat \<times> int) py" where
  "disagg_reserve request factor =
     py_bind (py_get ro_num_servers) (\<lambda>n.
     py_bind (pick_endpoint [1..<n]) (\<lambda>decode_server_id.
     py_bind (py_lift (kv_window_end factor (prompt_len (creq_prompt request)))) (\<lambda>kv_end.
     py_bind (add_running decode_server_id 1) (\<lambda>_.
     py_return (decode_server_id, kv_end)))))"

definition disagg_start ::
  "router_env \<Rightarrow> completion_request \<Rightarrow> string \<Rightarrow> py_float
     \<Rightarrow> (router, nat \<times> completion_response option list \<times> py_error option) py" where
  "disagg_start env request request_id factor =
     (let request = request\<lparr>creq_user := Some request_id\<rparr> in
      py_bind (disagg_reserve request factor) (\<lambda>(decode_server_id, kv_end).
      py_bind (release_on_exception decode_server_id (disagg_calls env request decode_server_id kv_end))
        (\<lambda>(responses, ending). py_return (decode_server_id, concat (map yields_of responses), ending))))"

text \<open>
  The end of the generator: \<open>None\<close> after the last response, else the exception that reading the
  answer raised, or \<open>GeneratorExit\<close> and \<open>CancelledError\<close> thrown into a suspended generator.
\<close>

definition disagg_end :: "nat \<Rightarrow> py_error option \<Rightarrow> (router, unit) py" where
  "disagg_end decode_server_id ending =
     (case ending of
        Some e \<Rightarrow> release_on_exception decode_server_id (py_raise e)
      | None \<Rightarrow> add_running decode_server_id (- 1))"

section \<open>Round robin\<close>

definition round_robin_reserve :: "(router, nat) py" where
  "round_robin_reserve =
     py_bind (py_get ro_num_servers) (\<lambda>n.
     py_bind (pick_endpoint [0..<n]) (\<lambda>cur_endpoint.
     py_bind (add_running cur_endpoint 1) (\<lambda>_.
     py_return cur_endpoint)))"

definition round_robin_start ::
  "router_env \<Rightarrow> completion_request
     \<Rightarrow> (router, nat \<times> completion_response option list \<times> py_error option) py" where
  "round_robin_start env request =
     py_bind round_robin_reserve (\<lambda>cur_endpoint.
     py_bind (py_get ro_server_urls) (\<lambda>urls.
     py_bind (py_lift (py_index urls (int cur_endpoint))) (\<lambda>url.
     py_bind (post env (CallCompletions url (reread_request request))) (\<lambda>response.
     case read_responses env (creq_stream request) response of
       (responses, ending) \<Rightarrow> py_return (cur_endpoint, concat (map yields_of responses), ending)))))"

definition round_robin_end :: "nat \<Rightarrow> py_error option \<Rightarrow> (router, unit) py" where
  "round_robin_end cur_endpoint ending =
     (case ending of Some e \<Rightarrow> py_raise e | None \<Rightarrow> add_running cur_endpoint (- 1))"

section \<open>Router.handle\_completion\<close>

definition translate_start ::
  "router_env \<Rightarrow> completion_request \<Rightarrow> string
     \<Rightarrow> (router, nat \<times> completion_response option list \<times> py_error option) py" where
  "translate_start env request request_id =
     py_bind (py_get id) (\<lambda>r.
     if ro_router_mode r = ''disagg''
     then disagg_start env request request_id (ro_pd_balance_factor r)
     else if ro_router_mode r = ''round-robin'' then round_robin_start env request
     else py_raise (ValueError ''Cannot reach here''))"

definition translate_end :: "nat \<Rightarrow> py_error option \<Rightarrow> (router, unit) py" where
  "translate_end endpoint ending =
     py_bind (py_get ro_router_mode) (\<lambda>mode.
     if mode = ''disagg'' then disagg_end endpoint ending else round_robin_end endpoint ending)"

text \<open>
  The consumer of \<open>translate_request\<close>: it yields the responses up to the first \<open>None\<close>, where it
  breaks. The generator it leaves suspended is finalised with \<open>GeneratorExit\<close>.
\<close>

fun until_none :: "'a option list \<Rightarrow> 'a list \<times> bool" where
  "until_none [] = ([], False)"
| "until_none (None # ys) = ([], True)"
| "until_none (Some y # ys) = (let (zs, b) = until_none ys in (y # zs, b))"

definition run_attempt ::
  "(router, nat \<times> completion_response option list \<times> py_error option) py
     \<Rightarrow> (nat \<Rightarrow> py_error option \<Rightarrow> (router, unit) py) \<Rightarrow> router
     \<Rightarrow> completion_response list \<times> bool res \<times> router" where
  "run_attempt start finish r =
     (case start r of
        (Inl e, r') \<Rightarrow> ([], Inl e, r')
      | (Inr (endpoint, yields, ending), r') \<Rightarrow>
          (case until_none yields of
             (ys, True) \<Rightarrow> (ys, Inr False, snd (finish endpoint (Some GeneratorExit) r'))
           | (ys, False) \<Rightarrow>
               (case finish endpoint ending r' of
                  (Inl e, r'') \<Rightarrow> (ys, Inl e, r'')
                | (Inr _, r'') \<Rightarrow> (ys, Inr True, r''))))"

definition attempt ::
  "router_env \<Rightarrow> completion_request \<Rightarrow> string \<Rightarrow> router \<Rightarrow> completion_response list \<times> bool res \<times> router" where
  "attempt env request request_id = run_attempt (translate_start env request request_id) translate_end"

text \<open>The loop, for at most \<open>fuel\<close> attempts; \<open>None\<close> when they are not enough.\<close>

fun handle_loop ::
  "nat \<Rightarrow> router_env \<Rightarrow> completion_request \<Rightarrow> string \<Rightarrow> router
     \<Rightarrow> (completion_response list \<times> unit res \<times> router) option" where
  "handle_loop 0 env request request_id r = None"
| "handle_loop (Suc fuel) env request request_id r =
     (case attempt env request request_id r of
        (ys, Inl e, r') \<Rightarrow> Some (ys, Inl e, r')
      | (ys, Inr True, r') \<Rightarrow> Some (ys, Inr (), r')
      | (ys, Inr False, r') \<Rightarrow>
          map_option (\<lambda>(zs, e, r''). (ys @ zs, e, r'')) (handle_loop fuel env request request_id r'))"

definition prepare_request :: "router_env \<Rightarrow> completion_request \<Rightarrow> completion_request" where
  "prepare_request env request =
     request\<lparr>creq_prompt := (case creq_prompt request of PromptStr t \<Rightarrow> PromptTokens (net_encode env t) | p \<Rightarrow> p),
             creq_debug_config := (case creq_debug_config request of None \<Rightarrow> Some default_debug_config | d \<Rightarrow> d)\<rparr>"

definition handle_completion ::
  "nat \<Rightarrow> router_env \<Rightarrow> completion_request \<Rightarrow> string \<Rightarrow> router
     \<Rightarrow> (completion_response list \<times> unit res \<times> router) option" where
  "handle_completion fuel env request request_id r = handle_loop fuel env (prepare_request env request) request_id r"

section \<open>Concurrent requests\<close>

text \<open>Whether the end of a request takes its count back.\<close>

fun counted_back :: "string \<Rightarrow> py_error option \<Rightarrow> bool" where
  "counted_back mode None = True"
| "counted_back mode (Some e) = (mode = ''disagg'' \<and> is_Exception e)"

text \<open>
  The router with the endpoints of the requests in flight and of those that ended without taking
  their count back. The coroutines of the requests switch only at \<open>await\<close>: reserving an endpoint,
  a call, and the end of a request are the steps.
\<close>

type_synonym router_system = "router \<times> nat list \<times> nat list"

inductive rstep :: "router_env \<Rightarrow> router_system \<Rightarrow> router_system \<Rightarrow> bool" for env where
  reserve_disagg: "ro_router_mode r = ''disagg'' \<Longrightarrow>
     disagg_reserve request (ro_pd_balance_factor r) r = (Inr (e, kv_end), r') \<Longrightarrow>
     rstep env (r, flying, lost) (r', e # flying, lost)"
| reserve_round_robin: "ro_router_mode r = ''round-robin'' \<Longrightarrow>
     round_robin_reserve r = (Inr e, r') \<Longrightarrow>
     rstep env (r, flying, lost) (r', e # flying, lost)"
| called: "post env call r = (result, r') \<Longrightarrow>
     rstep env (r, flying, lost) (r', flying, lost)"
| ended: "e \<in> set flying \<Longrightarrow> translate_end e ending r = (result, r') \<Longrightarrow>
     rstep env (r, flying, lost)
       (r', remove1 e flying, if counted_back (ro_router_mode r) ending then lost else e # lost)"

inductive rreach :: "router_env \<Rightarrow> router \<Rightarrow> router_system \<Rightarrow> bool" for env r0 where
  init: "rreach env r0 (r0, [], [])"
| step: "rreach env r0 \<sigma> \<Longrightarrow> rstep env \<sigma> \<sigma>' \<Longrightarrow> rreach env r0 \<sigma>'"

section \<open>Specifications\<close>

definition bump :: "nat \<Rightarrow> int \<Rightarrow> int list \<Rightarrow> int list" where
  "bump e d xs = xs[e := xs ! e + d]"

text \<open>The lists of the router have an entry per server.\<close>

definition router_wf :: "router \<Rightarrow> bool" where
  "router_wf r \<longleftrightarrow> length (ro_num_running_requests r) = ro_num_servers r
     \<and> length (ro_server_urls r) = ro_num_servers r
     \<and> length (ro_device_id_starts r) = Suc (ro_num_servers r)"

text \<open>The attempts of a request, what each yielded and how it ended.\<close>

fun attempt_log ::
  "nat \<Rightarrow> router_env \<Rightarrow> completion_request \<Rightarrow> string \<Rightarrow> router \<Rightarrow> (completion_response list \<times> bool res) list" where
  "attempt_log 0 env request request_id r = []"
| "attempt_log (Suc fuel) env request request_id r =
     (case attempt env request request_id r of
        (ys, res, r') \<Rightarrow>
          (ys, res) # (if res = Inr False then attempt_log fuel env request request_id r' else []))"

text \<open>A computation of the router that only makes calls.\<close>

definition only_calls :: "(router, 'a) py \<Rightarrow> bool" where
  "only_calls m \<longleftrightarrow> (\<forall>r. \<exists>cs. snd (m r) = r\<lparr>ro_calls := ro_calls r @ cs\<rparr>)"

definition sample_router :: router where
  "sample_router = \<lparr>ro_router_mode = ''disagg'', ro_pd_balance_factor = Finite 0, ro_num_servers = 3,
     ro_hosts = [''a'', ''b'', ''c''], ro_ports = [1, 2, 3],
     ro_server_urls = [''http://a:1'', ''http://b:2'', ''http://c:3''],
     ro_num_running_requests = [4, 2, 1], ro_device_id_starts = [0, 1, 2, 3], ro_servers = [], ro_calls = []\<rparr>"

definition sample_http :: http_response where
  "sample_http = \<lparr>hr_status = 200, hr_text = [],
     hr_json = Inr (JObj [(''kv_append_metadata'', JStr ''m''), (''prefix_matched_length'', JInt 1)]),
     hr_content = [''data: {}'' @ [CHR 0x0A], [CHR 0x0A], ''data: [DONE]''], hr_error = None\<rparr>"

definition sample_reason :: "string option \<Rightarrow> completion_response" where
  "sample_reason reason = \<lparr>cresp_id = ''r'', cresp_choices =
     [\<lparr>cch_finish_reason = reason, cch_index = 0, cch_logprobs = None, cch_text = ''t''\<rparr>],
     cresp_model = None, cresp_usage = None\<rparr>"

text \<open>The servers of the samples; the answers are preempted while there are less than \<open>n\<close> calls.\<close>

definition sample_net :: "nat \<Rightarrow> router_env" where
  "sample_net n = \<lparr>net_post = (\<lambda>calls. Inr (sample_http\<lparr>hr_content :=
       [if length calls < n then ''data: p'' else ''data: s'']\<rparr>)),
     net_json_loads = (\<lambda>t. Inr (JStr t)),
     net_validate = (\<lambda>j. Inr (sample_reason (Some (if j = JStr ''p'' then ''preempt'' else ''stop'')))),
     net_encode = (\<lambda>t. [])\<rparr>"

definition sample_request :: completion_request where
  "sample_request = (CompletionRequest (PromptTokens [5, 6, 7]))\<lparr>creq_stream := True\<rparr>"

definition rinv :: "router \<Rightarrow> router_system \<Rightarrow> bool" where
  "rinv r0 = (\<lambda>(r, flying, lost). router_wf r \<and> ro_num_servers r = ro_num_servers r0
     \<and> set flying \<subseteq> {..<ro_num_servers r}
     \<and> (\<forall>i < ro_num_servers r. ro_num_running_requests r ! i = int (count_list flying i + count_list lost i)))"

definition sample_idle :: router where
  "sample_idle = sample_router\<lparr>ro_num_running_requests := [0, 0, 0]\<rparr>"

section \<open>Lemmas\<close>

text \<open>Picking: the first of the least loaded candidates.\<close>

lemma pick_loop_spec:
  assumes "\<forall>j \<in> set ids. j < length xs"
  shows "pick_loop xs best m ids = Inr
     (if \<forall>j \<in> set ids. m \<le> xs ! j then best
      else Some (hd (filter (\<lambda>j. xs ! j = Min ((!) xs ` set ids)) ids)))"
  using assms
proof (induction ids arbitrary: best m)
  case (Cons i ids)
  let ?M = "\<lambda>js. Min ((!) xs ` set js)"
  show ?case
  proof (cases "ids = []")
    case True
    with Cons.prems show ?thesis by (auto simp: py_index_nat_Inr)
  next
    case False
    then have M: "?M (i # ids) = min (xs ! i) (?M ids)" by simp
    have le: "?M ids \<le> xs ! j" if "j \<in> set ids" for j using that by simp
    have ex: "\<exists>j \<in> set ids. xs ! j = ?M ids"
      using Min_in [of "(!) xs ` set ids"] False by (force simp: image_iff)
    have all: "(\<forall>j \<in> set ids. c \<le> xs ! j) \<longleftrightarrow> c \<le> ?M ids" for c
      using False by simp
    from Cons.prems have i: "i < length xs" by simp
    have IH: "pick_loop xs b c ids = Inr (if \<forall>j \<in> set ids. c \<le> xs ! j then b
        else Some (hd (filter (\<lambda>j. xs ! j = ?M ids) ids)))" for b c
      using Cons by simp
    have hd: "xs ! i \<le> ?M ids \<Longrightarrow> hd (filter (\<lambda>j. xs ! j = ?M (i # ids)) (i # ids)) = i"
      unfolding M by simp
    have tl: "\<not> xs ! i \<le> ?M ids \<Longrightarrow> filter (\<lambda>j. xs ! j = ?M (i # ids)) (i # ids)
        = filter (\<lambda>j. xs ! j = ?M ids) ids"
      unfolding M by (simp add: min_def)
    show ?thesis
      using i hd tl by (cases "xs ! i \<le> ?M ids")
        (simp_all add: IH py_index_nat_Inr all del: filter.simps Min_insert)
  qed
qed simp

lemma pick_endpoint_run:
  assumes "\<forall>j \<in> set ids. j < length (ro_num_running_requests r)"
  shows "pick_endpoint ids r =
    (if \<forall>j \<in> set ids. 10 ^ 9 \<le> ro_num_running_requests r ! j then Inl (AssertionError [])
     else Inr (hd (filter (\<lambda>j. ro_num_running_requests r ! j
            = Min ((!) (ro_num_running_requests r) ` set ids)) ids)), r)"
  using pick_loop_spec [OF assms] by (simp add: pick_endpoint_def py_simps)

lemma hd_filter_least:
  assumes "ids \<noteq> []" and "e = hd (filter (\<lambda>j. xs ! j = Min ((!) xs ` set ids)) ids)"
  shows "e \<in> set ids \<and> (\<forall>j \<in> set ids. (xs ! e :: int) \<le> xs ! j)"
proof -
  have "\<exists>j \<in> set ids. xs ! j = Min ((!) xs ` set ids)"
    using Min_in [of "(!) xs ` set ids"] assms(1) by (force simp: image_iff)
  then have "filter (\<lambda>j. xs ! j = Min ((!) xs ` set ids)) ids \<noteq> []" by (auto simp: filter_empty_conv)
  then have "e \<in> set (filter (\<lambda>j. xs ! j = Min ((!) xs ` set ids)) ids)"
    unfolding assms(2) by (rule hd_in_set)
  then show ?thesis by simp
qed

lemma pick_endpoint_InrD:
  assumes "pick_endpoint ids r = (Inr e, r')" and "\<forall>j \<in> set ids. j < length (ro_num_running_requests r)"
  shows "r' = r \<and> e \<in> set ids
    \<and> (\<forall>j \<in> set ids. ro_num_running_requests r ! e \<le> ro_num_running_requests r ! j)"
proof -
  have "ids \<noteq> []" using assms by (auto simp: pick_endpoint_run [OF assms(2)])
  from hd_filter_least [OF this refl] assms show ?thesis
    by (auto simp: pick_endpoint_run [OF assms(2)] split: if_splits)
qed

lemma pick_endpoint_state: "snd (pick_endpoint ids r) = r"
  by (auto simp: pick_endpoint_def py_simps split: sum.splits option.splits)

lemma add_running_run:
  assumes "e < length (ro_num_running_requests r)"
  shows "add_running e d r = (Inr (), r\<lparr>ro_num_running_requests := bump e d (ro_num_running_requests r)\<rparr>)"
  using assms by (simp add: add_running_def py_simps bump_def py_index_def)

lemma length_bump [simp]: "length (bump e d xs) = length xs"
  by (simp add: bump_def)

lemma bump_bump [simp]: "e < length xs \<Longrightarrow> bump e d (bump e d' xs) = bump e (d' + d) xs"
  by (simp add: bump_def add.assoc)

lemma bump_0 [simp]: "bump e 0 xs = xs"
  by (simp add: bump_def)

lemma nth_bump: "e < length xs \<Longrightarrow> bump e d xs ! i = (if i = e then xs ! e + d else xs ! i)"
  by (auto simp: bump_def)

named_theorems calls_intros \<open>computations that only make calls\<close>

lemma only_calls_pure [calls_intros]:
  "only_calls (py_return x)" "only_calls (py_raise e)" "only_calls (py_lift y)" "only_calls (py_get f)"
  "only_calls (py_assert b msg)"
  by (auto simp: only_calls_def py_simps intro: exI [of _ "[]"])

lemma reread_request_extend [simp]:
  "reread_request (completion_request.extend q x) = completion_request.extend (reread_request q) x"
  by (cases q) (simp add: reread_request_def completion_request.defs)

lemma reread_request_idem [simp]: "reread_request (reread_request q) = reread_request q"
  by (cases "creq_response_format q") (simp_all add: reread_request_def)

lemma reread_request_select [simp]:
  "creq_prompt (reread_request q) = creq_prompt q" "creq_stream (reread_request q) = creq_stream q"
  "creq_user (reread_request q) = creq_user q" "creq_n (reread_request q) = creq_n q"
  by (simp_all add: reread_request_def)

lemma reread_request_id_iff:
  "reread_request q = q \<longleftrightarrow> (\<forall>f. creq_response_format q = Some f \<longrightarrow> json_schema f = None)"
proof
  assume "reread_request q = q"
  then have "creq_response_format (reread_request q) = creq_response_format q" by (rule arg_cong)
  moreover have "json_schema f = None" if "f\<lparr>json_schema := None\<rparr> = f" for f :: request_response_format
    using that by (cases f) simp
  ultimately show "\<forall>f. creq_response_format q = Some f \<longrightarrow> json_schema f = None"
    by (auto simp: reread_request_def)
qed (cases q; auto simp: reread_request_def map_option_case split: option.split)

lemma only_calls_bind [calls_intros]:
  assumes "only_calls m" and "\<And>x. only_calls (f x)"
  shows "only_calls (py_bind m f)"
  unfolding only_calls_def
proof
  fix r
  obtain x r' where m: "m r = (x, r')" by fastforce
  with assms(1) obtain cs where r': "r' = r\<lparr>ro_calls := ro_calls r @ cs\<rparr>"
    unfolding only_calls_def by (metis snd_conv)
  show "\<exists>cs. snd (py_bind m f r) = r\<lparr>ro_calls := ro_calls r @ cs\<rparr>"
  proof (cases x)
    case (Inl e)
    with m r' show ?thesis by (auto simp: py_bind_def)
  next
    case (Inr y)
    obtain cs' where "snd (f y r') = r'\<lparr>ro_calls := ro_calls r' @ cs'\<rparr>"
      using assms(2) unfolding only_calls_def by blast
    with m r' Inr show ?thesis by (auto simp: py_bind_def)
  qed
qed

lemma only_calls_post [calls_intros]: "only_calls (post env call)"
  unfolding post_def
  by (intro only_calls_bind calls_intros) (auto simp: only_calls_def py_simps)

lemma only_calls_if [calls_intros]:
  "only_calls m \<Longrightarrow> only_calls m' \<Longrightarrow> only_calls (if b then m else m')"
  by simp

lemma only_calls_case_prod [calls_intros]:
  "(\<And>x y. only_calls (f x y)) \<Longrightarrow> only_calls (case p of (x, y) \<Rightarrow> f x y)"
  by (cases p) simp

lemma only_calls_send [calls_intros]:
  "only_calls (send_prepare_receive env pr url)" "only_calls (send_remote_send env sr url)"
  "only_calls (send_start_generate env gr url)"
  unfolding send_prepare_receive_def send_remote_send_def send_start_generate_def
  by (intro calls_intros; simp add: calls_intros split: json.split)+

lemma only_calls_disagg: "only_calls (disagg_calls env request e k)"
  unfolding disagg_calls_def by (intro calls_intros)

lemma release_run:
  assumes "only_calls m" and "e < length (ro_num_running_requests r)" and "m r = (x, r')"
  shows "release_on_exception e m r = (x, case x of Inr _ \<Rightarrow> r' | Inl err \<Rightarrow>
    if is_Exception err then r'\<lparr>ro_num_running_requests := bump e (- 1) (ro_num_running_requests r')\<rparr> else r')"
proof -
  from assms obtain cs where "r' = r\<lparr>ro_calls := ro_calls r @ cs\<rparr>"
    unfolding only_calls_def by (metis snd_conv)
  with assms show ?thesis
    by (auto simp: release_on_exception_def add_running_run split: sum.splits)
qed

lemma reserve_from:
  assumes "router_wf r" and "set ids \<subseteq> {..<ro_num_servers r}"
    and "py_bind (pick_endpoint ids) (\<lambda>e. py_bind (py_lift k) (\<lambda>x. py_bind (add_running e 1) (\<lambda>_. py_return (g e x)))) r
      = (res, r')"
  shows "(\<exists>e x. res = Inr (g e x) \<and> k = Inr x \<and> e \<in> set ids
      \<and> (\<forall>j \<in> set ids. ro_num_running_requests r ! e \<le> ro_num_running_requests r ! j)
      \<and> r' = r\<lparr>ro_num_running_requests := bump e 1 (ro_num_running_requests r)\<rparr>)
    \<or> (\<exists>err. res = Inl err \<and> r' = r)"
proof -
  have ids: "\<forall>j \<in> set ids. j < length (ro_num_running_requests r)"
    using assms(1,2) by (auto simp: router_wf_def)
  obtain p r1 where p: "pick_endpoint ids r = (p, r1)" by fastforce
  have "r1 = r" using pick_endpoint_state [of ids r] p by simp
  show ?thesis
  proof (cases p)
    case (Inl err)
    with assms(3) p \<open>r1 = r\<close> show ?thesis by (auto simp: py_bind_def)
  next
    case (Inr e)
    with pick_endpoint_InrD [OF _ ids, of e r1] p have e: "e \<in> set ids"
      "\<forall>j \<in> set ids. ro_num_running_requests r ! e \<le> ro_num_running_requests r ! j" by auto
    with ids have "e < length (ro_num_running_requests r)" by blast
    with assms(3) p Inr \<open>r1 = r\<close> e show ?thesis
      by (cases k) (auto simp: py_bind_def py_lift_def py_return_def add_running_run)
  qed
qed

lemma disagg_reserve_run:
  assumes "router_wf r" and "disagg_reserve request f r = (res, r')"
  shows "(\<exists>e k. res = Inr (e, k) \<and> kv_window_end f (prompt_len (creq_prompt request)) = Inr k
      \<and> e \<in> {1..<ro_num_servers r}
      \<and> (\<forall>j \<in> {1..<ro_num_servers r}. ro_num_running_requests r ! e \<le> ro_num_running_requests r ! j)
      \<and> r' = r\<lparr>ro_num_running_requests := bump e 1 (ro_num_running_requests r)\<rparr>)
    \<or> (\<exists>err. res = Inl err \<and> r' = r)"
proof -
  have "py_bind (pick_endpoint [1..<ro_num_servers r]) (\<lambda>e. py_bind (py_lift (kv_window_end f
      (prompt_len (creq_prompt request)))) (\<lambda>k. py_bind (add_running e 1) (\<lambda>_. py_return (e, k)))) r = (res, r')"
    using assms(2) by (simp add: disagg_reserve_def)
  from reserve_from [OF assms(1) _ this] have "set [1..<ro_num_servers r] \<subseteq> {..<ro_num_servers r} \<Longrightarrow> ?thesis"
    unfolding set_upt .
  moreover have "set [1..<ro_num_servers r] \<subseteq> {..<ro_num_servers r}" by auto
  ultimately show ?thesis by blast
qed

lemma round_robin_reserve_run:
  assumes "router_wf r" and "round_robin_reserve r = (res, r')"
  shows "(\<exists>e. res = Inr e \<and> e < ro_num_servers r
      \<and> (\<forall>j < ro_num_servers r. ro_num_running_requests r ! e \<le> ro_num_running_requests r ! j)
      \<and> r' = r\<lparr>ro_num_running_requests := bump e 1 (ro_num_running_requests r)\<rparr>)
    \<or> (\<exists>err. res = Inl err \<and> r' = r)"
proof -
  have "py_bind (pick_endpoint [0..<ro_num_servers r]) (\<lambda>e. py_bind (py_lift (Inr ()))
      (\<lambda>_. py_bind (add_running e 1) (\<lambda>_. py_return e))) r = (res, r')"
    using assms(2) by (simp add: round_robin_reserve_def)
  note run = reserve_from [OF assms(1) _ this]
  have "set [0..<ro_num_servers r] \<subseteq> {..<ro_num_servers r}" by auto
  from run [OF this] show ?thesis by auto
qed

text \<open>
  The contract of a way to dispatch requests: starting counts the request on its endpoint, and
  ending takes the count back, for the exceptions in \<open>releases\<close>, which has not \<open>GeneratorExit\<close>.
\<close>

locale dispatcher =
  fixes start :: "(router, nat \<times> completion_response option list \<times> py_error option) py"
    and finish :: "nat \<Rightarrow> py_error option \<Rightarrow> (router, unit) py"
    and releases :: "py_error \<Rightarrow> bool"
  assumes start_ok: "router_wf r \<Longrightarrow> start r = (Inr (e, ys, ending), r') \<Longrightarrow>
      e < ro_num_servers r \<and> (\<exists>cs. r' = r\<lparr>ro_num_running_requests := bump e 1 (ro_num_running_requests r),
        ro_calls := ro_calls r @ cs\<rparr>)"
    and start_error: "router_wf r \<Longrightarrow> start r = (Inl err, r') \<Longrightarrow>
      \<exists>e d cs. r' = r\<lparr>ro_num_running_requests := bump e d (ro_num_running_requests r),
        ro_calls := ro_calls r @ cs\<rparr> \<and> (d = 0 \<or> d = 1 \<and> e < ro_num_servers r \<and> \<not> releases err)"
    and finish_run: "e < length (ro_num_running_requests r) \<Longrightarrow>
      finish e ending r = (case ending of None \<Rightarrow> Inr () | Some err \<Rightarrow> Inl err,
        r\<lparr>ro_num_running_requests := bump e (case ending of None \<Rightarrow> - 1 | Some err \<Rightarrow>
            if releases err then - 1 else 0) (ro_num_running_requests r)\<rparr>)"
    and exit_kept: "\<not> releases GeneratorExit"
begin

lemma attempt_counts:
  assumes "router_wf r" and "run_attempt start finish r = (ys, res, r')"
  shows "\<exists>e d cs. r' = r\<lparr>ro_num_running_requests := bump e d (ro_num_running_requests r),
      ro_calls := ro_calls r @ cs\<rparr> \<and> d \<in> {0, 1} \<and> (d = 1 \<longrightarrow> e < ro_num_servers r)
    \<and> (case res of Inr b \<Rightarrow> d = (if b then 0 else 1) | Inl err \<Rightarrow> releases err \<longrightarrow> d = 0)"
proof (cases "start r")
  case (Pair x r1)
  show ?thesis
  proof (cases x)
    case (Inl err)
    with start_error [OF assms(1)] Pair assms(2) show ?thesis by (fastforce simp: run_attempt_def)
  next
    case (Inr p)
    obtain e yields ending where p: "p = (e, yields, ending)" by (cases p)
    from start_ok [OF assms(1)] Pair Inr p obtain cs where e: "e < ro_num_servers r"
      and r1: "r1 = r\<lparr>ro_num_running_requests := bump e 1 (ro_num_running_requests r), ro_calls := ro_calls r @ cs\<rparr>"
      by blast
    have len: "e < length (ro_num_running_requests r)" "e < length (ro_num_running_requests r1)"
      using e assms(1) r1 by (auto simp: router_wf_def)
    obtain zs b where u: "until_none yields = (zs, b)" by fastforce
    note finish = finish_run [OF len(2)]
    show ?thesis
    proof (cases b)
      case True
      then have "res = Inr False \<and> r' = r1"
        using assms(2) Pair Inr p u exit_kept by (simp add: run_attempt_def finish)
      then show ?thesis using e r1 by fastforce
    next
      case False
      let ?d = "case ending of None \<Rightarrow> - 1 | Some err \<Rightarrow> if releases err then - 1 else (0 :: int)"
      have "r' = r\<lparr>ro_num_running_requests := bump e (1 + ?d) (ro_num_running_requests r), ro_calls := ro_calls r @ cs\<rparr>"
        and "res = (case ending of None \<Rightarrow> Inr True | Some err \<Rightarrow> Inl err)"
        using assms(2) Pair Inr p u False len
        by (auto simp: run_attempt_def finish_run r1 split: option.splits)
      then show ?thesis using e
        by (intro exI [of _ e] exI [of _ "1 + ?d"] exI [of _ cs]) (simp split: option.splits)
    qed
  qed
qed

end

lemma router_wf_update:
  "router_wf r \<Longrightarrow> router_wf (r\<lparr>ro_num_running_requests := bump e d (ro_num_running_requests r)\<rparr>)"
  "router_wf r \<Longrightarrow> router_wf (r\<lparr>ro_num_running_requests := bump e d (ro_num_running_requests r), ro_calls := cs\<rparr>)"
  "router_wf r \<Longrightarrow> router_wf (r\<lparr>ro_calls := cs\<rparr>)"
  by (simp_all add: router_wf_def)

lemma disagg_start_cases:
  assumes "router_wf r" and "disagg_start env request rid f r = (res, r')"
  shows "(\<exists>err. res = Inl err \<and> r' = r)
    \<or> (\<exists>e k x cs. e < ro_num_servers r
        \<and> disagg_calls env (request\<lparr>creq_user := Some rid\<rparr>) e k
            (r\<lparr>ro_num_running_requests := bump e 1 (ro_num_running_requests r)\<rparr>)
          = (x, r\<lparr>ro_num_running_requests := bump e 1 (ro_num_running_requests r), ro_calls := ro_calls r @ cs\<rparr>)
        \<and> (case x of
             Inl err \<Rightarrow> res = Inl err \<and> r' = r\<lparr>ro_num_running_requests :=
               bump e (if is_Exception err then 0 else 1) (ro_num_running_requests r), ro_calls := ro_calls r @ cs\<rparr>
           | Inr p \<Rightarrow> res = Inr (e, concat (map yields_of (fst p)), snd p)
               \<and> r' = r\<lparr>ro_num_running_requests := bump e 1 (ro_num_running_requests r), ro_calls := ro_calls r @ cs\<rparr>))"
proof -
  let ?q = "request\<lparr>creq_user := Some rid\<rparr>"
  obtain p r1 where p: "disagg_reserve ?q f r = (p, r1)" by fastforce
  show ?thesis
  proof (cases p)
    case (Inl err)
    with disagg_reserve_run [OF assms(1) p] assms(2) p show ?thesis
      by (auto simp: disagg_start_def Let_def py_bind_def)
  next
    case (Inr q)
    with disagg_reserve_run [OF assms(1) p] obtain e k where q: "q = (e, k)" and e: "e < ro_num_servers r"
      and r1: "r1 = r\<lparr>ro_num_running_requests := bump e 1 (ro_num_running_requests r)\<rparr>" by auto
    have len: "e < length (ro_num_running_requests r1)" "e < length (ro_num_running_requests r)"
      using e assms(1) r1 by (auto simp: router_wf_def)
    obtain x r2 where x: "disagg_calls env ?q e k r1 = (x, r2)" by fastforce
    with only_calls_disagg obtain cs where r2: "r2 = r1\<lparr>ro_calls := ro_calls r1 @ cs\<rparr>"
      unfolding only_calls_def by (metis snd_conv)
    have res: "(res, r') = (case x of
        Inl err \<Rightarrow> (Inl err, if is_Exception err then r2\<lparr>ro_num_running_requests := bump e (- 1) (ro_num_running_requests r2)\<rparr> else r2)
      | Inr p \<Rightarrow> (Inr (e, concat (map yields_of (fst p)), snd p), r2))"
      using assms(2) p Inr q release_run [OF only_calls_disagg len(1) x]
      by (auto simp: disagg_start_def Let_def py_bind_def py_return_def case_prod_beta split: sum.splits)
    then show ?thesis
      using e x len unfolding r1 r2
      by (intro disjI2 exI [of _ e] exI [of _ k] exI [of _ x] exI [of _ cs]) (auto split: sum.splits)
  qed
qed

lemma round_robin_start_cases:
  assumes "router_wf r" and "round_robin_start env request r = (res, r')"
  shows "(\<exists>err. res = Inl err \<and> r' = r)
    \<or> (\<exists>e cs. e < ro_num_servers r
        \<and> r' = r\<lparr>ro_num_running_requests := bump e 1 (ro_num_running_requests r), ro_calls := ro_calls r @ cs\<rparr>
        \<and> (\<forall>p. res = Inr p \<longrightarrow> fst p = e))"
proof -
  obtain p r1 where p: "round_robin_reserve r = (p, r1)" by fastforce
  show ?thesis
  proof (cases p)
    case (Inl err)
    with round_robin_reserve_run [OF assms(1) p] assms(2) p show ?thesis
      by (auto simp: round_robin_start_def py_bind_def)
  next
    case (Inr e)
    with round_robin_reserve_run [OF assms(1) p] have e: "e < ro_num_servers r"
      and r1: "r1 = r\<lparr>ro_num_running_requests := bump e 1 (ro_num_running_requests r)\<rparr>" by auto
    define m where "m = py_bind (py_get ro_server_urls) (\<lambda>urls.
     py_bind (py_lift (py_index urls (int e))) (\<lambda>url.
     py_bind (post env (CallCompletions url (reread_request request))) (\<lambda>response.
     case read_responses env (creq_stream request) response of
       (responses, ending) \<Rightarrow> py_return (e, concat (map yields_of responses), ending))))"
    have m: "m r1 = (res, r')"
      using assms(2) p Inr by (simp add: round_robin_start_def py_bind_def [of round_robin_reserve] m_def)
    have "only_calls m" unfolding m_def by (intro calls_intros)
    with m obtain cs where "r' = r1\<lparr>ro_calls := ro_calls r1 @ cs\<rparr>"
      unfolding only_calls_def by (metis snd_conv)
    moreover have "fst q = e" if "res = Inr q" for q
      using m that by (auto simp: m_def py_bind_eq_Inr py_return_def case_prod_beta)
    ultimately show ?thesis using e r1 by auto
  qed
qed

lemma unchanged:
  "\<exists>e cs. r = r\<lparr>ro_num_running_requests := bump e 0 (ro_num_running_requests r), ro_calls := ro_calls r @ cs\<rparr>"
  by (intro exI [of _ 0] exI [of _ "[]"]) simp

interpretation disagg: dispatcher "disagg_start env request rid f" disagg_end is_Exception
  for env request rid f
proof unfold_locales
  fix r e ys ending r'
  assume "router_wf r" and "disagg_start env request rid f r = (Inr (e, ys, ending), r')"
  from disagg_start_cases [OF this] show "e < ro_num_servers r \<and> (\<exists>cs. r' = r\<lparr>ro_num_running_requests :=
      bump e 1 (ro_num_running_requests r), ro_calls := ro_calls r @ cs\<rparr>)"
    by (elim disjE exE conjE) (auto split: sum.split_asm)
next
  fix r err r'
  assume "router_wf r" and "disagg_start env request rid f r = (Inl err, r')"
  from disagg_start_cases [OF this] have "r' = r \<or> (\<exists>e cs. e < ro_num_servers r \<and>
      r' = r\<lparr>ro_num_running_requests := bump e (if is_Exception err then 0 else 1) (ro_num_running_requests r),
        ro_calls := ro_calls r @ cs\<rparr>)"
    by (elim disjE exE conjE) (auto split: sum.split_asm)
  then show "\<exists>e d cs. r' = r\<lparr>ro_num_running_requests :=
      bump e d (ro_num_running_requests r), ro_calls := ro_calls r @ cs\<rparr>
      \<and> (d = 0 \<or> d = 1 \<and> e < ro_num_servers r \<and> \<not> is_Exception err)"
    using unchanged [of r] by (elim disjE exE conjE) (blast, metis (full_types))
next
  fix r :: router and e :: nat and ending
  assume "e < length (ro_num_running_requests r)"
  then show "disagg_end e ending r = (case ending of None \<Rightarrow> Inr () | Some err \<Rightarrow> Inl err,
        r\<lparr>ro_num_running_requests := bump e (case ending of None \<Rightarrow> - 1 | Some err \<Rightarrow>
            if is_Exception err then - 1 else 0) (ro_num_running_requests r)\<rparr>)"
    by (auto simp: disagg_end_def add_running_run release_on_exception_def py_raise_def split: option.splits)
qed (simp add: is_Exception_def)

interpretation round_robin: dispatcher "round_robin_start env request" round_robin_end "\<lambda>_. False"
  for env request
proof unfold_locales
  fix r e ys ending r'
  assume "router_wf r" and "round_robin_start env request r = (Inr (e, ys, ending), r')"
  from round_robin_start_cases [OF this] show "e < ro_num_servers r \<and> (\<exists>cs. r' = r\<lparr>ro_num_running_requests :=
      bump e 1 (ro_num_running_requests r), ro_calls := ro_calls r @ cs\<rparr>)"
    by auto
next
  fix r err r'
  assume "router_wf r" and "round_robin_start env request r = (Inl err, r')"
  from round_robin_start_cases [OF this] show "\<exists>e d cs. r' = r\<lparr>ro_num_running_requests :=
      bump e d (ro_num_running_requests r), ro_calls := ro_calls r @ cs\<rparr>
      \<and> (d = 0 \<or> d = 1 \<and> e < ro_num_servers r \<and> \<not> False)"
    using unchanged [of r] by (elim disjE exE conjE) (blast, blast)
next
  fix r :: router and e :: nat and ending
  assume "e < length (ro_num_running_requests r)"
  then show "round_robin_end e ending r = (case ending of None \<Rightarrow> Inr () | Some err \<Rightarrow> Inl err,
        r\<lparr>ro_num_running_requests := bump e (case ending of None \<Rightarrow> - 1 | Some err \<Rightarrow>
            if False then - 1 else 0) (ro_num_running_requests r)\<rparr>)"
    by (auto simp: round_robin_end_def add_running_run py_raise_def split: option.splits)
qed simp

lemma post_Inr:
  "post env c r = (Inr resp, r') \<longleftrightarrow>
     r' = r\<lparr>ro_calls := ro_calls r @ [c]\<rparr> \<and> net_post env (ro_calls r @ [c]) = Inr resp \<and> hr_status resp = 200"
  by (auto simp: post_def py_simps split: sum.splits)

lemma send_prepare_receive_Inr:
  assumes "send_prepare_receive env q url r = (Inr (m, j), r')"
  shows "r' = r\<lparr>ro_calls := ro_calls r @ [CallPrepRecv url (reread_request q)]\<rparr> \<and>
    (\<exists>resp d. net_post env (ro_calls r @ [CallPrepRecv url (reread_request q)]) = Inr resp \<and> hr_json resp = Inr (JObj d)
       \<and> map_of d ''prefix_matched_length'' = Some j)"
proof -
  from assms obtain resp data where post: "post env (CallPrepRecv url (reread_request q)) r = (Inr resp, r\<lparr>ro_calls := ro_calls r @ [CallPrepRecv url (reread_request q)]\<rparr>)"
    and json: "hr_json resp = Inr data"
    and data: "(case data of
       JObj d \<Rightarrow> py_bind (py_lift (dict_get d ''kv_append_metadata'')) (\<lambda>m.
                py_bind (py_lift (dict_get d ''prefix_matched_length'')) (\<lambda>p. py_return (m, p)))
     | _ \<Rightarrow> py_raise (TypeError ''indices'')) (r\<lparr>ro_calls := ro_calls r @ [CallPrepRecv url (reread_request q)]\<rparr>) = (Inr (m, j), r')"
    by (auto simp: send_prepare_receive_def py_bind_eq_Inr post_Inr)
  then show ?thesis
    by (cases data) (auto simp: py_bind_eq_Inr py_raise_def dict_get_def post_Inr elim!: res_of_option.elims)
qed

lemma send_remote_send_Inr:
  "send_remote_send env q url r = (Inr u, r') \<Longrightarrow> r' = r\<lparr>ro_calls := ro_calls r @ [CallRemoteSend url (reread_request q)]\<rparr>"
  by (auto simp: send_remote_send_def py_bind_eq_Inr post_Inr py_lift_def py_return_def)

lemma send_start_generate_Inr:
  "send_start_generate env q url r = (Inr u, r') \<Longrightarrow> r' = r\<lparr>ro_calls := ro_calls r @ [CallStartGenerate url (reread_request q)]\<rparr>"
  by (auto simp: send_start_generate_def py_bind_eq_Inr post_Inr py_return_def)

lemma prefix_number:
  assumes "json_number j = Inr p" and "p \<le> Finite (of_int w)"
    and "if p < Finite (of_int w) then validate_int j = Inr b else b = w"
  shows "p = Finite (of_int b) \<and> b \<le> w"
proof (cases j)
  case (JFloat x)
  with assms show ?thesis
    by (cases x) (auto simp: less_py_float_def less_eq_py_float_def split: if_splits)
qed (use assms in \<open>auto simp: less_py_float_def less_eq_py_float_def split: if_splits\<close>)

lemma disagg_calls_Inr:
  assumes "disagg_calls env q e k r = (Inr x, r')" and "0 < length (ro_server_urls r)"
  defines "w \<equiv> absolute_end (prompt_len (creq_prompt q)) k"
  shows "\<exists>resp d j b addr.
      net_post env (ro_calls r @ [CallPrepRecv (ro_server_urls r ! e) (completion_request.extend (reread_request q) (prep_recv_request.fields k))]) = Inr resp
      \<and> hr_json resp = Inr (JObj d) \<and> map_of d ''prefix_matched_length'' = Some j
      \<and> json_number j = Inr (Finite (of_int b)) \<and> b \<le> w
      \<and> ro_calls r' = ro_calls r
          @ [CallPrepRecv (ro_server_urls r ! e) (completion_request.extend (reread_request q) (prep_recv_request.fields k))]
          @ (if b < w then [CallRemoteSend (ro_server_urls r ! 0)
                (completion_request.extend (reread_request q) (remote_send_request.fields b w addr (ro_device_id_starts r ! e)))] else [])
          @ [CallStartGenerate (ro_server_urls r ! e) (completion_request.extend (reread_request q) (start_generate_request.fields w))]"
proof -
  from assms(1) obtain r1 m j p r2 where
    prep: "send_prepare_receive env (completion_request.extend (reread_request q) (prep_recv_request.fields k)) (ro_server_urls r ! e) r
      = (Inr (m, j), r1)" and j: "json_number j = Inr p" "p \<le> Finite (of_int w)"
    and send: "(if p < Finite (of_int w)
        then py_bind (py_lift (validate_int j)) (\<lambda>begin.
             py_bind (py_lift (validate_str m)) (\<lambda>addr.
             py_bind (py_lift (py_index (ro_device_id_starts r) (int e))) (\<lambda>rank.
             py_bind (py_lift (py_index (ro_server_urls r) 0)) (\<lambda>prefill_url.
             send_remote_send env
               (completion_request.extend (reread_request q) (remote_send_request.fields begin w addr rank))
               prefill_url))))
        else py_return ()) r1 = (Inr (), r2)"
    and start: "send_start_generate env (completion_request.extend (reread_request q) (start_generate_request.fields w))
       (ro_server_urls r ! e) r2 = (Inr x, r')"
    unfolding disagg_calls_def w_def id_def
    by (auto simp: py_bind_eq_Inr)
  note p = send_prepare_receive_Inr [OF prep]
  show ?thesis
  proof (cases "p < Finite (of_int w)")
    case True
    with send obtain b addr where b: "validate_int j = Inr b" and
      r2: "r2 = r1\<lparr>ro_calls := ro_calls r1 @ [CallRemoteSend (ro_server_urls r ! 0)
         (completion_request.extend (reread_request q) (remote_send_request.fields b w addr (ro_device_id_starts r ! e)))]\<rparr>"
      using assms(2) by (auto simp: py_bind_eq_Inr py_lift_def py_index_0 dest!: send_remote_send_Inr)
    from prefix_number [OF j] b True have "p = Finite (of_int b)" "b \<le> w" by auto
    with True have "b < w" by (simp add: less_py_float_def)
    with p r2 send_start_generate_Inr [OF start] j \<open>p = Finite (of_int b)\<close> show ?thesis by fastforce
  next
    case False
    then have "r2 = r1" using send by (simp add: py_return_def)
    from prefix_number [OF j, of w] False have "p = Finite (of_int w)" by auto
    with p \<open>r2 = r1\<close> send_start_generate_Inr [OF start] j show ?thesis by fastforce
  qed
qed

lemma kv_window_bounds:
  assumes "0 \<le> q" and "q \<le> 1" and "0 < len" and "int len < 2 ^ 53"
  shows "\<exists>k. kv_window_end (Finite q) len = Inr k \<and> 0 \<le> absolute_end len k \<and> absolute_end len k \<le> int len"
proof (cases "float_abs (Finite q) < Finite (5902958103587057 / 590295810358705651712)")
  case True
  then show ?thesis using assms(3) by (simp add: kv_window_end_def absolute_end_def)
next
  case False
  from round_float_bounds [of "of_int (int len)" "int len"] assms(4) obtain l where
    l: "round_float (of_int (int len)) = Finite l" "0 \<le> l" "l \<le> of_int (int len)" by auto
  from round_float_bounds [of "1 + - q" 1] assms(1,2) obtain a where
    a: "round_float (1 + - q) = Finite a" "0 \<le> a" "a \<le> 1" by auto
  have "a * l \<le> of_int (int len)" using a l mult_left_le_one_le [of l a] by linarith
  with round_float_bounds [of "a * l" "int len"] a l assms(4) obtain x where
    x: "round_float (a * l) = Finite x" "0 \<le> x" "x \<le> of_int (int len)" by auto
  from int_of_float_bounds [OF x(2,3)] obtain k where
    k: "int_of_float (Finite x) = Inr k" "0 \<le> k" "k \<le> int len" by blast
  have "kv_window_end (Finite q) len = Inr k"
    using False l a x k by (simp add: kv_window_end_def float_of_int_def float_mul_def)
  with k show ?thesis by (simp add: absolute_end_def)
qed

lemma translate_end_run:
  assumes "e < length (ro_num_running_requests r)"
  shows "translate_end e ending r = (case ending of None \<Rightarrow> Inr () | Some err \<Rightarrow> Inl err,
    r\<lparr>ro_num_running_requests := bump e (if counted_back (ro_router_mode r) ending then - 1 else 0)
        (ro_num_running_requests r)\<rparr>)"
  using assms disagg.finish_run [OF assms, of ending] round_robin.finish_run [OF assms, of ending]
  by (cases ending) (auto simp: translate_end_def)

lemma sum_list_bump: "e < length xs \<Longrightarrow> sum_list (bump e d xs) = sum_list xs + d"
  unfolding bump_def by (induction xs arbitrary: e) (auto split: nat.splits)

lemma run_attempt_cong:
  assumes "start r = start' r"
    and "\<And>e ys ending r'. start r = (Inr (e, ys, ending), r') \<Longrightarrow> finish e ending r' = finish' e ending r'
      \<and> finish e (Some GeneratorExit) r' = finish' e (Some GeneratorExit) r'"
  shows "run_attempt start finish r = run_attempt start' finish' r"
  using assms by (auto simp: run_attempt_def split: sum.splits prod.splits)

lemma attempt_disagg:
  assumes "router_wf r" and "ro_router_mode r = ''disagg''"
  shows "attempt env q rid r = run_attempt (disagg_start env q rid (ro_pd_balance_factor r)) disagg_end r"
  unfolding attempt_def
proof (rule run_attempt_cong)
  show start: "translate_start env q rid r = disagg_start env q rid (ro_pd_balance_factor r) r"
    by (simp add: translate_start_def assms(2))
  fix e ys ending r'
  assume "translate_start env q rid r = (Inr (e, ys, ending), r')"
  then have "disagg_start env q rid (ro_pd_balance_factor r) r = (Inr (e, ys, ending), r')" by (simp add: start)
  from disagg.start_ok [OF assms(1) this] have "ro_router_mode r' = ''disagg''" using assms(2) by auto
  then show "translate_end e ending r' = disagg_end e ending r'
      \<and> translate_end e (Some GeneratorExit) r' = disagg_end e (Some GeneratorExit) r'"
    by (simp add: translate_end_def)
qed

lemma attempt_round_robin:
  assumes "router_wf r" and "ro_router_mode r = ''round-robin''"
  shows "attempt env q rid r = run_attempt (round_robin_start env q) round_robin_end r"
  unfolding attempt_def
proof (rule run_attempt_cong)
  show start: "translate_start env q rid r = round_robin_start env q r"
    by (simp add: translate_start_def assms(2))
  fix e ys ending r'
  assume "translate_start env q rid r = (Inr (e, ys, ending), r')"
  then have "round_robin_start env q r = (Inr (e, ys, ending), r')" by (simp add: start)
  from round_robin.start_ok [OF assms(1) this] have "ro_router_mode r' = ''round-robin''" using assms(2) by auto
  then show "translate_end e ending r' = round_robin_end e ending r'
      \<and> translate_end e (Some GeneratorExit) r' = round_robin_end e (Some GeneratorExit) r'"
    by (simp add: translate_end_def)
qed

lemma router_attempt_counts:
  assumes "router_wf r" and "attempt env q rid r = (ys, res, r')"
  shows "\<exists>e d cs. r' = r\<lparr>ro_num_running_requests := bump e d (ro_num_running_requests r),
      ro_calls := ro_calls r @ cs\<rparr> \<and> d \<in> {0, 1} \<and> (d = 1 \<longrightarrow> e < ro_num_servers r)
    \<and> (case res of Inr b \<Rightarrow> d = (if b then 0 else 1)
       | Inl err \<Rightarrow> ro_router_mode r = ''disagg'' \<and> is_Exception err \<longrightarrow> d = 0)"
proof (cases "ro_router_mode r = ''disagg''")
  case True
  from disagg.attempt_counts [OF assms(1) assms(2) [unfolded attempt_disagg [OF assms(1) True]]] show ?thesis
    unfolding True simp_thms by assumption
next
  case False
  show ?thesis
  proof (cases "ro_router_mode r = ''round-robin''")
    case True
    from round_robin.attempt_counts [OF assms(1) assms(2) [unfolded attempt_round_robin [OF assms(1) True]]]
    show ?thesis by (cases res) (simp_all add: False)
  next
    case other: False
    then have "r' = r" "res = Inl (ValueError ''Cannot reach here'')"
      using assms(2) False by (auto simp: attempt_def run_attempt_def translate_start_def py_raise_def)
    with False show ?thesis by (intro exI [of _ 0] exI [of _ "[]"]) simp
  qed
qed

lemma handle_loop_log:
  assumes "router_wf r" and "handle_loop fuel env q rid r = Some (ys, res, r')"
  defines "tries \<equiv> attempt_log fuel env q rid r"
  shows "tries \<noteq> [] \<and> ys = concat (map fst tries) \<and> (\<forall>x \<in> set (butlast tries). snd x = Inr False)
    \<and> snd (last tries) = (case res of Inl err \<Rightarrow> Inl err | Inr _ \<Rightarrow> Inr True)
    \<and> (res = Inr () \<or> (\<exists>err. res = Inl err \<and> ro_router_mode r = ''disagg'' \<and> is_Exception err) \<longrightarrow>
         sum_list (ro_num_running_requests r') = sum_list (ro_num_running_requests r) + int (length tries - 1))"
  using assms(1,2) unfolding tries_def
proof (induction fuel arbitrary: r ys)
  case (Suc fuel)
  obtain zs a r1 where a: "attempt env q rid r = (zs, a, r1)" by (cases "attempt env q rid r")
  from router_attempt_counts [OF Suc.prems(1) a] obtain e d cs where
    r1: "r1 = r\<lparr>ro_num_running_requests := bump e d (ro_num_running_requests r), ro_calls := ro_calls r @ cs\<rparr>"
    and d: "d \<in> {0, 1}" "d = 1 \<longrightarrow> e < ro_num_servers r" and
    res: "case a of Inr b \<Rightarrow> d = (if b then 0 else 1)
       | Inl err \<Rightarrow> ro_router_mode r = ''disagg'' \<and> is_Exception err \<longrightarrow> d = 0" by blast
  have sum: "sum_list (ro_num_running_requests r1) = sum_list (ro_num_running_requests r) + d"
    using d Suc.prems(1) by (auto simp: r1 router_wf_def sum_list_bump)
  show ?case
  proof (cases "a = Inr False")
    case True
    with Suc.prems(2) a obtain us where us: "handle_loop fuel env q rid r1 = Some (us, res, r')" "ys = zs @ us"
      by (auto split: option.splits)
    have "router_wf r1" using Suc.prems(1) by (simp add: r1 router_wf_def)
    note IH = Suc.IH [OF this us(1)]
    have "d = 1" using res True by simp
    moreover have "ro_router_mode r1 = ro_router_mode r" by (simp add: r1)
    moreover have "1 + int (length (attempt_log fuel env q rid r1) - Suc 0) = int (length (attempt_log fuel env q rid r1))"
      using IH by (cases "attempt_log fuel env q rid r1") auto
    ultimately show ?thesis using IH True a us(2) sum by simp
  next
    case False
    with Suc.prems(2) a have "ys = zs" "r' = r1" "a = (case res of Inl err \<Rightarrow> Inl err | Inr _ \<Rightarrow> Inr True)"
      by (auto split: sum.splits bool.splits)
    with False a res sum show ?thesis by (auto split: sum.splits)
  qed
qed simp

lemma handle_loop_None:
  "handle_loop fuel env q rid r = None \<longleftrightarrow> (\<forall>x \<in> set (attempt_log fuel env q rid r). snd x = Inr False)"
proof (induction fuel arbitrary: r)
  case (Suc fuel)
  obtain ys a r1 where a: "attempt env q rid r = (ys, a, r1)" by (cases "attempt env q rid r")
  then show ?case using Suc [of r1]
    by (cases a) (auto split: bool.splits)
qed simp

lemma handle_loop_more:
  "handle_loop fuel env q rid r = Some x \<Longrightarrow> fuel \<le> fuel' \<Longrightarrow> handle_loop fuel' env q rid r = Some x"
proof (induction fuel arbitrary: r x fuel')
  case (Suc fuel)
  then obtain g where g: "fuel' = Suc g" "fuel \<le> g" by (cases fuel') auto
  obtain ys a r1 where a: "attempt env q rid r = (ys, a, r1)" by (cases "attempt env q rid r")
  show ?case
  proof (cases "a = Inr False")
    case True
    with Suc.prems(1) a obtain y where "handle_loop fuel env q rid r1 = Some y" by auto
    with Suc.IH [OF this g(2)] Suc.prems(1) a True g(1) show ?thesis by simp
  next
    case False
    with Suc.prems(1) a g(1) show ?thesis by (auto split: sum.splits bool.splits)
  qed
qed simp

lemma rinv_reserve:
  assumes "rinv r0 (r, flying, lost)" and "e < ro_num_servers r"
  shows "rinv r0 (r\<lparr>ro_num_running_requests := bump e 1 (ro_num_running_requests r)\<rparr>, e # flying, lost)"
  using assms by (auto simp: rinv_def router_wf_def nth_bump)

lemma count_list_remove1: "count_list (remove1 x xs) y = (if x = y then count_list xs y - 1 else count_list xs y)"
  by (induction xs) auto

lemma rinv_end:
  assumes "rinv r0 (r, flying, lost)" and "e \<in> set flying"
  shows "rinv r0 (r\<lparr>ro_num_running_requests := bump e (if b then - 1 else 0) (ro_num_running_requests r)\<rparr>,
    remove1 e flying, if b then lost else e # lost)"
proof -
  have "count_list flying e \<noteq> 0" using assms(2) by (simp add: count_list_0_iff)
  moreover have "set (remove1 e flying) \<subseteq> {..<ro_num_servers r}"
    using assms(1) set_remove1_subset by (fastforce simp: rinv_def)
  moreover have "e < length (ro_num_running_requests r)" using assms by (auto simp: rinv_def router_wf_def)
  ultimately show ?thesis using assms(1)
    by (auto simp: rinv_def router_wf_def nth_bump count_list_remove1)
qed

lemma rstep_rinv:
  assumes "rinv r0 \<sigma>" and "rstep env \<sigma> \<sigma>'"
  shows "rinv r0 \<sigma>'"
  using assms(2,1)
proof cases
  case (reserve_disagg r request e kv_end r' flying lost)
  then have "router_wf r" using assms(1) by (simp add: rinv_def)
  from disagg_reserve_run [OF this reserve_disagg(4)] show ?thesis
    using assms(1) reserve_disagg by (auto intro: rinv_reserve)
next
  case (reserve_round_robin r e r' flying lost)
  then have "router_wf r" using assms(1) by (simp add: rinv_def)
  from round_robin_reserve_run [OF this reserve_round_robin(4)] show ?thesis
    using assms(1) reserve_round_robin by (auto intro: rinv_reserve)
next
  case (called call r result r' flying lost)
  from only_calls_post [of env call] called(3) obtain cs where "r' = r\<lparr>ro_calls := ro_calls r @ cs\<rparr>"
    unfolding only_calls_def by (metis snd_conv)
  then show ?thesis using assms(1) called by (auto simp: rinv_def router_wf_def)
next
  case (ended e flying ending r result r' lost)
  then have "e < length (ro_num_running_requests r)" using assms(1) by (auto simp: rinv_def router_wf_def)
  from translate_end_run [OF this, of ending] ended rinv_end [OF _ ended(3)] assms(1) show ?thesis by auto
qed

lemma rreach_rinv:
  assumes "rreach env r0 \<sigma>" and "router_wf r0" and "ro_num_running_requests r0 = replicate (ro_num_servers r0) 0"
  shows "rinv r0 \<sigma>"
  using assms(1)
proof induction
  case init
  then show ?case using assms(2,3) by (simp add: rinv_def)
next
  case (step \<sigma> \<sigma>')
  then show ?case by (blast intro: rstep_rinv)
qed

lemma device_id_starts_eq:
  "starts \<noteq> [] \<Longrightarrow> device_id_starts starts ns
     = butlast starts @ map (\<lambda>i. last starts + sum_list (take i ns)) [0..<Suc (length ns)]"
proof (induction ns arbitrary: starts)
  case (Cons n ns)
  have *: "[0..<Suc (length (n # ns))] = 0 # map Suc [0..<Suc (length ns)]"
    by (subst upt_conv_Cons) (simp_all add: map_Suc_upt del: upt_Suc)
  obtain ys y where starts: "starts = ys @ [y]" using Cons.prems by (metis append_butlast_last_id)
  show ?case
    unfolding * using Cons.IH [of "starts @ [last starts + n]"] by (simp add: starts butlast_append comp_def add.assoc del: upt_Suc)
qed simp

section \<open>Properties\<close>

text \<open>
  The router picks the least loaded endpoint. Among candidates that exist, the choice is the
  first one with the least number of running requests, and it fails only when every candidate has
  a thousand million of them, or there is none.
\<close>

theorem pick_endpoint_least:
  assumes "\<forall>j \<in> set ids. j < length (ro_num_running_requests r)"
  shows "case pick_endpoint ids r of
      (Inr e, r') \<Rightarrow> r' = r \<and> (\<exists>as bs. ids = as @ e # bs
        \<and> (\<forall>j \<in> set as. ro_num_running_requests r ! e < ro_num_running_requests r ! j)
        \<and> (\<forall>j \<in> set bs. ro_num_running_requests r ! e \<le> ro_num_running_requests r ! j))
    | (Inl err, r') \<Rightarrow> err = AssertionError [] \<and> r' = r
        \<and> (\<forall>j \<in> set ids. 10 ^ 9 \<le> ro_num_running_requests r ! j)"
proof (cases "\<forall>j \<in> set ids. 10 ^ 9 \<le> ro_num_running_requests r ! j")
  case True
  then show ?thesis using pick_endpoint_run [OF assms] by simp
next
  case False
  let ?x = "ro_num_running_requests r"
  have ne: "ids \<noteq> []" using False by auto
  define M where "M = Min ((!) ?x ` set ids)"
  have M: "M \<le> ?x ! j" if "j \<in> set ids" for j using that by (simp add: M_def)
  have "M \<in> (!) ?x ` set ids" unfolding M_def using ne by (intro Min_in) auto
  then have "\<exists>j \<in> set ids. ?x ! j = M" by auto
  then obtain as e bs where ids: "ids = as @ e # bs" "?x ! e = M" "\<forall>j \<in> set as. ?x ! j \<noteq> M"
    using split_list_first_prop [of ids "\<lambda>j. ?x ! j = M"] by blast
  then have "hd (filter (\<lambda>j. ?x ! j = M) ids) = e" by simp
  then have "pick_endpoint ids r = (Inr e, r)"
    using pick_endpoint_run [OF assms] False by (simp add: M_def)
  moreover have "\<forall>j \<in> set as. ?x ! e < ?x ! j" "\<forall>j \<in> set bs. ?x ! e \<le> ?x ! j"
    using M ids by (auto simp: order_less_le)
  ultimately show ?thesis using ids(1) by auto
qed

theorem pick_endpoint_least_witness:
  "\<exists>as bs. [1, 2] = as @ 2 # bs \<and> (\<forall>j \<in> set as. (1 :: int) < [4, 2, 1] ! j) \<and> (\<forall>j \<in> set bs. (1 :: int) \<le> [4, 2, 1] ! j)"
proof -
  have "\<forall>j \<in> set [1, 2]. j < length (ro_num_running_requests sample_router)"
    by (simp add: sample_router_def)
  moreover have "pick_endpoint [1, 2] sample_router = (Inr 2, sample_router)" by code_simp
  ultimately show ?thesis
    using pick_endpoint_least [of "[1, 2]" sample_router] by (simp add: sample_router_def)
qed

text \<open>
  C4: disaggregated serving covers the prompt. When the calls for a request succeed, with a
  balance factor between zero and one and a prompt that is not empty, the decode server was asked
  to prepare for the prompt up to some position, the prefill server to send exactly what lies
  between the prefix that the decode server reported as cached and that position, if anything, and
  the decode server then to generate from that position on, which is inside the prompt.
\<close>

theorem disagg_windows:
  assumes "router_wf r" and "0 \<le> q" and "q \<le> 1"
    and "creq_prompt request = PromptTokens ts" and "ts \<noteq> []" and "int (length ts) < 2 ^ 53"
    and "disagg_start env request rid (Finite q) r = (Inr (e, ys, ending), r')"
  shows "\<exists>k w resp d j b addr. let request' = reread_request (request\<lparr>creq_user := Some rid\<rparr>);
        prep = CallPrepRecv (ro_server_urls r ! e) (completion_request.extend request' (prep_recv_request.fields k))
      in kv_window_end (Finite q) (length ts) = Inr k \<and> w = absolute_end (length ts) k \<and> 0 \<le> w \<and> w \<le> int (length ts)
      \<and> net_post env (ro_calls r @ [prep]) = Inr resp \<and> hr_json resp = Inr (JObj d)
      \<and> map_of d ''prefix_matched_length'' = Some j \<and> json_number j = Inr (Finite (of_int b)) \<and> b \<le> w
      \<and> ro_calls r' = ro_calls r @ [prep]
          @ (if b < w then [CallRemoteSend (ro_server_urls r ! 0)
                (completion_request.extend request' (remote_send_request.fields b w addr (ro_device_id_starts r ! e)))] else [])
          @ [CallStartGenerate (ro_server_urls r ! e) (completion_request.extend request' (start_generate_request.fields w))]"
proof -
  let ?q = "request\<lparr>creq_user := Some rid\<rparr>"
  have len: "prompt_len (creq_prompt ?q) = length ts" by (simp add: assms(4))
  from kv_window_bounds [OF assms(2,3) _ assms(6)] assms(5) obtain k0 where
    k0: "kv_window_end (Finite q) (length ts) = Inr k0" "0 \<le> absolute_end (length ts) k0"
      "absolute_end (length ts) k0 \<le> int (length ts)" by auto
  from assms(7) obtain e1 k r1 x r2 where res: "disagg_reserve ?q (Finite q) r = (Inr (e1, k), r1)"
    and calls: "release_on_exception e1 (disagg_calls env ?q e1 k) r1 = (Inr x, r2)" "e1 = e" "r2 = r'"
    by (auto simp: disagg_start_def Let_def py_bind_eq_Inr case_prod_beta)
  from disagg_reserve_run [OF assms(1) res] len k0 have k: "k = k0" and n: "0 < ro_num_servers r"
    and r1: "r1 = r\<lparr>ro_num_running_requests := bump e1 1 (ro_num_running_requests r)\<rparr>" by auto
  have run: "disagg_calls env ?q e k r1 = (Inr x, r')"
    using calls by (auto simp: release_on_exception_def split: prod.splits sum.splits if_splits)
  have "0 < length (ro_server_urls r1)" using n assms(1) by (simp add: r1 router_wf_def)
  from disagg_calls_Inr [OF run this] show ?thesis
    using k0 unfolding len k Let_def by (auto simp: r1)
qed

theorem disagg_windows_witness:
  "\<exists>k w resp d j b addr. let request' = reread_request (sample_request\<lparr>creq_user := Some ''r''\<rparr>);
        prep = CallPrepRecv ''http://c:3'' (completion_request.extend request' (prep_recv_request.fields k))
      in kv_window_end (Finite 0) 3 = Inr k \<and> w = absolute_end 3 k \<and> 0 \<le> w \<and> w \<le> 3
      \<and> net_post (sample_net 0) [prep] = Inr resp \<and> hr_json resp = Inr (JObj d)
      \<and> map_of d ''prefix_matched_length'' = Some j \<and> json_number j = Inr (Finite (of_int b)) \<and> b \<le> w
      \<and> ro_calls (snd (disagg_start (sample_net 0) sample_request ''r'' (Finite 0) sample_router)) = [prep]
          @ (if b < w then [CallRemoteSend ''http://a:1''
                (completion_request.extend request' (remote_send_request.fields b w addr 2))] else [])
          @ [CallStartGenerate ''http://c:3'' (completion_request.extend request' (start_generate_request.fields w))]"
proof -
  let ?p = "disagg_start (sample_net 0) sample_request ''r'' (Finite 0) sample_router"
  have "\<not> isl (fst ?p) \<and> fst (projr (fst ?p)) = 2" by code_simp
  then obtain ys ending where p: "?p = (Inr (2, ys, ending), snd ?p)"
    by (metis prod.collapse sum.collapse(2))
  have wf: "router_wf sample_router" by (simp add: router_wf_def sample_router_def)
  have prompt: "creq_prompt sample_request = PromptTokens [5, 6, 7]"
    by (simp add: sample_request_def CompletionRequest_def)
  have facts: "ro_server_urls sample_router ! 2 = ''http://c:3''" "ro_server_urls sample_router ! 0 = ''http://a:1''"
    "ro_calls sample_router = []" "ro_device_id_starts sample_router ! 2 = 2" "length [5, 6, 7 :: int] = 3" "int 3 = 3"
    by (simp_all add: sample_router_def)
  have "[5, 6, 7 :: int] \<noteq> []" "int (length [5, 6, 7 :: int]) < 2 ^ 53" "(0 :: rat) \<le> 1" by simp_all
  from disagg_windows [OF wf order_refl this(3) prompt this(1,2) p] show ?thesis
    unfolding facts append_Nil .
qed

text \<open>
  C11: the retries of a request. What the client receives are the responses of all attempts, also
  of those that were preempted, one after the other; every attempt but the last was preempted, and
  each of these leaves the count of the endpoint it used raised for good: after a request that
  completes, or fails with an exception that the disaggregated mode handles, the counts have grown
  by the number of preempted attempts.
\<close>

theorem handle_completion_attempts:
  assumes "router_wf r" and "handle_completion fuel env request rid r = Some (ys, res, r')"
  shows "let tries = attempt_log fuel env (prepare_request env request) rid r in
    tries \<noteq> [] \<and> ys = concat (map fst tries) \<and> (\<forall>x \<in> set (butlast tries). snd x = Inr False)
    \<and> snd (last tries) = (case res of Inl err \<Rightarrow> Inl err | Inr _ \<Rightarrow> Inr True)
    \<and> (res = Inr () \<or> (\<exists>err. res = Inl err \<and> ro_router_mode r = ''disagg'' \<and> is_Exception err) \<longrightarrow>
         sum_list (ro_num_running_requests r')
           = sum_list (ro_num_running_requests r) + int (length tries - 1))"
  using handle_loop_log [OF assms(1) assms(2) [unfolded handle_completion_def]] unfolding Let_def .

theorem handle_completion_attempts_witness:
  "sum_list (ro_num_running_requests (snd (snd (the
     (handle_completion 5 (sample_net 4) sample_request ''r'' sample_router))))) = 8"
proof -
  let ?h = "handle_completion 5 (sample_net 4) sample_request ''r'' sample_router"
  have run: "?h \<noteq> None" "fst (snd (the ?h)) = Inr ()" by code_simp+
  then obtain ys r' where h: "?h = Some (ys, Inr (), r')"
    by (metis option.collapse prod.collapse)
  have len: "length (attempt_log 5 (sample_net 4) (prepare_request (sample_net 4) sample_request) ''r'' sample_router) = 2"
    by code_simp
  have sum: "sum_list (ro_num_running_requests sample_router) = 7" by (simp add: sample_router_def)
  have "router_wf sample_router" by (simp add: router_wf_def sample_router_def)
  from handle_completion_attempts [OF this h] show ?thesis by (simp add: h Let_def len sum)
qed

text \<open>
  The retry loop returns as soon as an attempt is not preempted, and then more fuel changes nothing.
\<close>

lemma handle_completion_returns:
  "(handle_completion fuel env request rid r \<noteq> None) =
     (\<exists>x \<in> set (attempt_log fuel env (prepare_request env request) rid r). snd x \<noteq> Inr False)
   \<and> (\<forall>x fuel'. handle_completion fuel env request rid r = Some x \<and> fuel \<le> fuel' \<longrightarrow>
        handle_completion fuel' env request rid r = Some x)"
  unfolding handle_completion_def
  by (intro conjI) (simp add: handle_loop_None del: not_None_eq, blast intro: handle_loop_more)

text \<open>
  C3: the counts of the router under concurrency. Whatever the interleaving of requests, calls
  and ends, the count of an endpoint is the number of its requests in flight plus that of the
  requests which ended without taking their count back, so that with no such request the counts
  are exact; and the endpoint that the next disaggregated request reserves is a decode server with
  the least count.
\<close>

theorem router_counts_flying:
  assumes "rreach env r0 (r, flying, lost)" and "router_wf r0"
    and "ro_num_running_requests r0 = replicate (ro_num_servers r0) 0"
  shows "(\<forall>i < ro_num_servers r. ro_num_running_requests r ! i = int (count_list flying i + count_list lost i))
    \<and> (\<forall>request f e k r'. disagg_reserve request f r = (Inr (e, k), r') \<longrightarrow>
         e \<in> {1..<ro_num_servers r} \<and> (\<forall>j \<in> {1..<ro_num_servers r}.
           count_list flying e + count_list lost e \<le> count_list flying j + count_list lost j))"
proof -
  have inv: "rinv r0 (r, flying, lost)" by (rule rreach_rinv [OF assms])
  then have wf: "router_wf r" and
    eq: "\<forall>i < ro_num_servers r. ro_num_running_requests r ! i = int (count_list flying i + count_list lost i)"
    by (auto simp: rinv_def)
  have "e \<in> {1..<ro_num_servers r} \<and> (\<forall>j \<in> {1..<ro_num_servers r}.
      count_list flying e + count_list lost e \<le> count_list flying j + count_list lost j)"
    if "disagg_reserve request f r = (Inr (e, k), r')" for request f e k r'
  proof -
    from disagg_reserve_run [OF wf that] have e: "e \<in> {1..<ro_num_servers r}"
      "\<forall>j \<in> {1..<ro_num_servers r}. ro_num_running_requests r ! e \<le> ro_num_running_requests r ! j" by auto
    have "count_list flying e + count_list lost e \<le> count_list flying j + count_list lost j"
      if "j \<in> {1..<ro_num_servers r}" for j
      using e that eq by (metis (no_types, lifting) atLeastLessThan_iff of_nat_le_iff)
    with e show ?thesis by blast
  qed
  with eq show ?thesis by blast
qed

theorem router_counts_flying_witness:
  "ro_num_running_requests (snd (disagg_reserve sample_request (Finite 0) sample_idle)) ! 1 = int (count_list [1] 1 + count_list [] 1)"
proof -
  let ?p = "disagg_reserve sample_request (Finite 0) sample_idle"
  have p: "fst ?p = Inr (1, - 1)" by code_simp
  have "rstep (sample_net 0) (sample_idle, [], []) (snd ?p, [1], [])"
    by (rule rstep.reserve_disagg [where kv_end = "- 1" and request = sample_request])
      (simp_all add: sample_idle_def sample_router_def prod_eq_iff p [unfolded sample_idle_def sample_router_def, simplified])
  then have reach: "rreach (sample_net 0) sample_idle (snd ?p, [1], [])" by (rule rreach.step [OF rreach.init])
  have n: "ro_num_servers (snd ?p) = 3" by code_simp
  have wf: "router_wf sample_idle" by (simp add: router_wf_def sample_idle_def sample_router_def)
  have "ro_num_running_requests sample_idle = replicate (ro_num_servers sample_idle) 0"
    by (simp add: sample_idle_def sample_router_def numeral_3_eq_3)
  from router_counts_flying [OF reach wf this] n show ?thesis by simp
qed

text \<open>
  The constructor either refuses host, port and GPU lists of different lengths, or makes a
  well-formed router without running requests, whose servers get disjoint ranges of devices: the
  ranges are consecutive in the order of the servers, start at zero and end at the number of
  devices, which every server is told, and a server's device and first processing element are the
  start of its range.
\<close>

theorem router_init_ranges:
  "case router_init uid order model model_lib (Some hosts) (Some ports) (Some gpus) cache mode factor of
     Inl err \<Rightarrow> err = AssertionError [] \<and> \<not> (length hosts = length ports \<and> length ports = length gpus)
   | Inr r \<Rightarrow> length hosts = length ports \<and> length ports = length gpus \<and> router_wf r
       \<and> ro_num_servers r = length hosts \<and> ro_num_running_requests r = replicate (length hosts) 0
       \<and> ro_device_id_starts r ! 0 = 0
       \<and> (\<forall>i < length hosts. ro_device_id_starts r ! Suc i = ro_device_id_starts r ! i + gpus ! i)
       \<and> length (ro_servers r) = length order
       \<and> (\<forall>j < length order. let l = ro_servers r ! j; i = order ! j in
            sl_pe_start l = ro_device_id_starts r ! i
            \<and> sl_device l = ''cuda:'' @ str_of_int (ro_device_id_starts r ! i)
            \<and> sl_npes l = sum_list gpus)"
proof (cases "length hosts = length ports \<and> length ports = length gpus")
  case True
  have starts: "device_id_starts [0] gpus = map (\<lambda>i. sum_list (take i gpus)) [0..<Suc (length gpus)]"
    by (subst device_id_starts_eq) simp_all
  have nth: "device_id_starts [0] gpus ! i = sum_list (take i gpus)" if "i \<le> length gpus" for i
    using that unfolding starts by (simp del: upt_Suc)
  have "last (device_id_starts [0] gpus) = sum_list gpus" unfolding starts by simp
  moreover have "length (device_id_starts [0] gpus) = Suc (length gpus)" unfolding starts by simp
  ultimately show ?thesis
    using True by (simp add: router_init_def res_assert_def router_wf_def start_server_def Let_def nth take_Suc_conv_app_nth)
qed (auto simp: router_init_def Let_def res_assert_def)

theorem router_init_ranges_witness:
  "\<exists>r. router_init [7] [1, 0] ''m'' None (Some [''a'', ''b'']) (Some [1, 2]) (Some [2, 3]) False ''disagg'' (Finite 0) = Inr r
     \<and> ro_device_id_starts r ! 1 = 2 \<and> sl_device (ro_servers r ! 0) = ''cuda:2'' \<and> sl_npes (ro_servers r ! 0) = 5"
proof -
  let ?r = "router_init [7] [1, 0] ''m'' None (Some [''a'', ''b'']) (Some [1, 2]) (Some [2, 3]) False ''disagg'' (Finite 0)"
  have "\<not> isl ?r" by code_simp
  then obtain r where r: "?r = Inr r" by (cases ?r) auto
  have idx: "\<And>i. i < length [''a'', ''b''] \<longleftrightarrow> i < 2" "\<And>j. j < length [1, 0 :: nat] \<longleftrightarrow> j < 2" by auto
  from router_init_ranges [where uid = "[7]" and order = "[1, 0]" and model = "''m''" and model_lib = None
      and hosts = "[''a'', ''b'']" and ports = "[1, 2]" and gpus = "[2, 3]" and cache = False and mode = "''disagg''"
      and factor = "Finite 0", unfolded r]
  have s0: "ro_device_id_starts r ! 0 = 0" and s: "\<And>i. i < 2 \<Longrightarrow> ro_device_id_starts r ! Suc i = ro_device_id_starts r ! i + [2, 3] ! i"
    and l: "\<And>j. j < 2 \<Longrightarrow> sl_device (ro_servers r ! j) = ''cuda:'' @ str_of_int (ro_device_id_starts r ! ([1, 0] ! j))
      \<and> sl_npes (ro_servers r ! j) = 5"
    unfolding idx by (simp_all add: Let_def)
  have "ro_device_id_starts r ! 1 = 2" using s [of 0] s0 by simp
  moreover have "str_of_int 2 = ''2''" by code_simp
  ultimately show ?thesis using r l [of 0] by simp
qed

end
