(* ===== verification/Stream_Output.thy ===== *)
theory Stream_Output
  imports Engine_Config
begin

text \<open>
  The functions of serve/engine\_base.py between the API protocol and the engine: the processing
  of a request into prompts and a generation configuration, and of the delta outputs of the
  engine into stream responses; the tool calls of a finished answer and the wrapping of a whole
  answer. The engine state occurs only through its event trace, so these functions work on any
  record that extends \<open>trace_state\<close>. The external functions they use (tokenizer, image loading,
  pydantic's JSON parsing, the \<open>ast\<close> module) are the fields of a record \<open>externals\<close>.
\<close>

section \<open>serve/data.py: outputs of the engine\<close>

record single_output =
  so_delta_token_ids :: "int list"
  so_delta_logprob_json_strs :: "string list option"
  so_finish_reason :: "string option"
  so_request_final_usage_json_str :: "string option"
  so_extra_prefix_string :: string

text \<open>The six fields the C++ object hands out.\<close>

record raw_stream_output =
  raw_request_id :: string
  raw_delta_token_ids :: "int list list"
  raw_logprobs :: "string list list option"
  raw_finish_reasons :: "string option list"
  raw_final_usage :: "string option"
  raw_extra_prefix :: "string list"

definition unpack :: "raw_stream_output \<Rightarrow> (string \<times> single_output list) res" where
  "unpack raw =
     (case raw_final_usage raw of
        Some u \<Rightarrow>
          Inr (raw_request_id raw,
               [\<lparr>so_delta_token_ids = [], so_delta_logprob_json_strs = None,
                 so_finish_reason = None, so_request_final_usage_json_str = Some u,
                 so_extra_prefix_string = []\<rparr>])
      | None \<Rightarrow>
          res_bind
            (res_map (\<lambda>(i, ids, reason, pre).
               res_bind
                 (case raw_logprobs raw of
                    None \<Rightarrow> Inr None
                  | Some lps \<Rightarrow> res_bind (py_index lps (int i)) (\<lambda>l. Inr (Some l)))
                 (\<lambda>lp. Inr \<lparr>so_delta_token_ids = ids, so_delta_logprob_json_strs = lp,
                            so_finish_reason = reason, so_request_final_usage_json_str = None,
                            so_extra_prefix_string = pre\<rparr>))
               (enumerate 0 (zip (raw_delta_token_ids raw)
                  (zip (raw_finish_reasons raw) (raw_extra_prefix raw)))))
            (\<lambda>outs. Inr (raw_request_id raw, outs)))"

section \<open>serve/engine\_base.py: shared data\<close>

record callback_output =
  cb_delta_text :: string
  cb_delta_logprob_json_strs :: "string list option"
  cb_finish_reason :: "string option"
  cb_request_final_usage_json_str :: "string option"

text \<open>
  The part of \<open>EngineState\<close> that is used everywhere: the calls the trace recorder got, in
  order, or \<open>None\<close> when tracing is off.
\<close>

record trace_state =
  trace_recorder :: "(string \<times> string) list option"

definition record_event :: "string \<Rightarrow> string \<Rightarrow> ('s trace_state_scheme, unit) py" where
  "record_event request_id event =
     py_modify (\<lambda>s. case trace_recorder s of
                      None \<Rightarrow> s
                    | Some es \<Rightarrow> s\<lparr>trace_recorder := Some (es @ [(request_id, event)])\<rparr>)"

text \<open>
  What \<open>ast.parse(call_str, mode="eval").body\<close> is looked at for: a call of a name with its
  keyword arguments (\<open>None\<close> for a double-star argument) and what \<open>literal_eval\<close> makes of their
  values, or anything else.
\<close>

datatype ast_body = AstCall string "(string option \<times> json res) list" | AstOther

record 'img externals =
  ext_dump_function :: "chat_function \<Rightarrow> string"
  ext_float_repr :: "py_float \<Rightarrow> string"
  ext_load_b64 :: "string \<Rightarrow> 'img res"
  ext_load_http :: "string \<Rightarrow> 'img res"
  ext_encode :: "string \<Rightarrow> int list"
  ext_decode :: "int list \<Rightarrow> string"
  ext_usage_of_json :: "string \<Rightarrow> completion_usage res"
  ext_logprob_of_json :: "string \<Rightarrow> log_probs_content res"
  ext_ast_parse :: "string \<Rightarrow> ast_body res"
  ext_literal_list :: "string \<Rightarrow> json list res"
  ext_tool_call_id :: "nat \<Rightarrow> nat \<Rightarrow> string"

section \<open>Chat completion requests\<close>

fun role_name :: "chat_role \<Rightarrow> string" where
  "role_name System = ''system''"
| "role_name User = ''user''"
| "role_name Assistant = ''assistant''"
| "role_name Tool = ''tool''"

definition add_chat_message :: "conversation \<Rightarrow> chat_message \<Rightarrow> conversation res" where
  "add_chat_message conv m =
     (if msg_role m = System
      then (case msg_content m of
              Some (ContentStr s) \<Rightarrow> Inr (conv\<lparr>system_message := s\<rparr>)
            | _ \<Rightarrow> Inl (AssertionError []))
      else Inr (conv\<lparr>messages := messages conv @ [(role_name (msg_role m), msg_content m)]\<rparr>))"

fun prompt_value_of :: "'img prompt_part \<Rightarrow> 'img prompt_value" where
  "prompt_value_of (Text s) = VStr s"
| "prompt_value_of (Image i) = VImage i"

fun prepend_prefix_tokens :: "int list option \<Rightarrow> 'img tok_prompt list \<Rightarrow> 'img tok_prompt list res" where
  "prepend_prefix_tokens None prompts = Inr prompts"
| "prepend_prefix_tokens (Some ids) [] = Inl IndexError"
| "prepend_prefix_tokens (Some ids) (PTokens ts # ps) = Inr (PTokens (ids @ ts) # ps)"
| "prepend_prefix_tokens (Some ids) (PImage i # ps) = Inr (PTokens ids # PImage i # ps)"

text \<open>
  The result holds the request as well, whose list of stop strings may have been extended.
\<close>

definition process_chat_completion_request ::
  "'img externals \<Rightarrow> chat_request \<Rightarrow> string \<Rightarrow> (string \<times> json) list \<Rightarrow> int \<Rightarrow> conversation
     \<Rightarrow> ('s trace_state_scheme,
         'img tok_prompt list \<times> generation_config \<times> bool \<times> int \<times> request_protocol) py" where
  "process_chat_completion_request ext request request_id model_config max_len conv_template =
     py_bind (record_event request_id ''receive request'') (\<lambda>_.
     py_bind (py_lift (check_unsupported_fields (ReqChat request))) (\<lambda>_.
     py_bind (py_lift (check_message_validity request)) (\<lambda>_.
     py_bind (py_lift (check_function_call_usage (ext_dump_function ext) (ext_float_repr ext)
                         request conv_template)) (\<lambda>conv1.
     py_bind (py_lift (res_fold add_chat_message conv1 (chat_messages request))) (\<lambda>conv2.
     let conv = conv2\<lparr>messages := messages conv2 @ [(''assistant'', None)]\<rparr> in
     py_bind (record_event request_id ''start tokenization'') (\<lambda>_.
     py_bind (py_lift (as_prompt (ext_load_b64 ext) (ext_load_http ext) conv (Some model_config)))
       (\<lambda>parts.
     py_bind (py_lift (process_prompts (VList (map prompt_value_of parts)) (ext_encode ext)))
       (\<lambda>prompts0.
     py_bind (record_event request_id ''finish tokenization'') (\<lambda>_.
     py_bind (py_lift (prepend_prefix_tokens (system_prefix_token_ids conv) prompts0)) (\<lambda>prompts.
     py_bind (py_lift (check_and_get_prompts_length prompts max_len)) (\<lambda>prompt_length.
     let (generation_cfg, request') =
       get_generation_config (ReqChat request) (Some (stop_token_ids conv)) (Some (stop_str conv))
     in py_return (prompts, generation_cfg, use_function_calling conv, prompt_length, request'))))))))))))"

section \<open>Chat completion outputs\<close>

text \<open>One round of the loop over the delta outputs of a chunk.\<close>

definition chat_delta_step ::
  "'img externals \<Rightarrow> string \<Rightarrow> bool \<Rightarrow> chat_stream_choice list \<times> string option list
     \<Rightarrow> nat \<times> callback_output
     \<Rightarrow> ('s trace_state_scheme, chat_stream_choice list \<times> string option list) py" where
  "chat_delta_step ext request_id use_fc = (\<lambda>(choices, finish_reasons) (i, d).
     py_bind (py_lift
       (case cb_finish_reason d of
          None \<Rightarrow> Inr (finish_reasons, False)
        | Some reason \<Rightarrow>
            res_bind (py_index finish_reasons (int i)) (\<lambda>old.
              if old = None
              then res_bind (py_setitem finish_reasons i
                     (Some (if \<not> use_fc then reason else ''tool_calls''))) (\<lambda>frs. Inr (frs, True))
              else Inr (finish_reasons, False)))) (\<lambda>(frs, finish_reason_updated).
     if \<not> finish_reason_updated \<and> cb_delta_text d = []
     then py_bind (record_event request_id ''skip empty delta text'') (\<lambda>_.
            py_return (choices, frs))
     else py_bind (py_lift (py_index frs (int i))) (\<lambda>reason.
          py_bind (py_lift
            (case cb_delta_logprob_json_strs d of
               None \<Rightarrow> Inr None
             | Some ls \<Rightarrow> res_bind (res_map (ext_logprob_of_json ext) ls) (\<lambda>l. Inr (Some l))))
            (\<lambda>lps.
          py_bind (py_lift (ChatCompletionStreamResponseChoice i reason
            (ChatCompletionMessage Assistant (Some (ContentStr (cb_delta_text d)))) lps)) (\<lambda>c.
          py_return (choices @ [c], frs))))))"

text \<open>
  The result is the response, if any, and the finish reasons, which the source updates in place.
\<close>

definition process_chat_completion_stream_output ::
  "'img externals \<Rightarrow> callback_output list \<Rightarrow> chat_request \<Rightarrow> string \<Rightarrow> bool \<Rightarrow> string option list
     \<Rightarrow> ('s trace_state_scheme, chat_stream_response option \<times> string option list) py" where
  "process_chat_completion_stream_output ext delta_outputs request request_id use_fc finish_reasons =
     py_bind (py_lift (py_index delta_outputs 0)) (\<lambda>d0.
     case cb_request_final_usage_json_str d0 of
       Some u \<Rightarrow>
         py_bind (py_assert (length delta_outputs = 1) []) (\<lambda>_.
         py_bind (record_event request_id ''yield final usage'') (\<lambda>_.
         py_bind (py_lift (ext_usage_of_json ext u)) (\<lambda>usage.
         let response = \<lparr>csresp_id = request_id, csresp_choices = [],
                         csresp_model = chat_model request, csresp_usage = Some usage\<rparr>
         in py_return
              (if \<not> chat_stream request then Some response
               else (case chat_stream_options request of
                       None \<Rightarrow> None
                     | Some so \<Rightarrow> if include_usage so \<noteq> Some True then None else Some response),
               finish_reasons))))
     | None \<Rightarrow>
         py_bind (py_assert (int (length delta_outputs) = chat_n request) []) (\<lambda>_.
         py_bind (py_fold (chat_delta_step ext request_id use_fc) ([], finish_reasons)
                    (enumerate 0 delta_outputs)) (\<lambda>(choices, frs).
         if length choices = 0 then py_return (None, frs)
         else py_bind (record_event request_id ''yield delta output'') (\<lambda>_.
              py_return (Some \<lparr>csresp_id = request_id, csresp_choices = choices,
                               csresp_model = chat_model request, csresp_usage = None\<rparr>, frs)))))"

section \<open>Completion requests\<close>

fun value_of_prompt :: "prompt_arg \<Rightarrow> 'img prompt_value" where
  "value_of_prompt (PromptStr s) = VStr s"
| "value_of_prompt (PromptTokens ts) = VList (map VInt ts)"

text \<open>\<open>prompts[0]\<close> has to be a list of tokens.\<close>

fun the_token_prompt :: "'img tok_prompt list \<Rightarrow> int list res" where
  "the_token_prompt (PTokens ts # _) = Inr ts"
| "the_token_prompt (PImage _ # _) = Inl (AssertionError [])"
| "the_token_prompt [] = Inl IndexError"

definition process_completion_request ::
  "'img externals \<Rightarrow> completion_request \<Rightarrow> string \<Rightarrow> int \<Rightarrow> conversation
     \<Rightarrow> ('s trace_state_scheme,
         int list \<times> generation_config \<times> int \<times> completion_response option \<times> request_protocol) py" where
  "process_completion_request ext request request_id max_len conv_template =
     py_bind (record_event request_id ''receive request'') (\<lambda>_.
     py_bind (py_lift (check_unsupported_fields (ReqCompletion request))) (\<lambda>_.
     py_bind (record_event request_id ''start tokenization'') (\<lambda>_.
     py_bind (py_lift (process_prompts (value_of_prompt (creq_prompt request) :: 'img prompt_value)
                         (ext_encode ext))) (\<lambda>prompts.
     py_bind (record_event request_id ''finish tokenization'') (\<lambda>_.
     py_bind (py_lift (check_and_get_prompts_length prompts max_len)) (\<lambda>prompt_length.
     py_bind (py_lift (the_token_prompt prompts)) (\<lambda>prompt.
     let (generation_cfg, request') =
       get_generation_config (ReqCompletion request) (Some (stop_token_ids conv_template))
         (Some (stop_str conv_template))
     in py_bind
          (if creq_echo request
           then py_bind (py_lift (res_map (\<lambda>i.
                  CompletionResponseChoice i None (ext_decode ext prompt) None)
                  [0..<nat (gc_n generation_cfg)])) (\<lambda>choices.
                py_return (Some \<lparr>cresp_id = request_id, cresp_choices = choices,
                                 cresp_model = creq_model request, cresp_usage = None\<rparr>))
           else py_return None)
          (\<lambda>echo_response.
             py_return (prompt, generation_cfg, prompt_length, echo_response, request')))))))))"

section \<open>Completion outputs\<close>

definition get_logprobs_from_delta ::
  "'img externals \<Rightarrow> string list \<Rightarrow> completion_log_probs res" where
  "get_logprobs_from_delta ext delta_logprob_json_strs =
     res_bind (res_fold (\<lambda>(token_logprobs, tokens, top_logprobs) s.
       res_bind (ext_logprob_of_json ext s) (\<lambda>content.
         Inr (token_logprobs @ [lp_logprob content], tokens @ [lp_token content],
              top_logprobs @ [foldl (\<lambda>d t. dict_set d (top_token t) (top_logprob t)) []
                                (lp_top_logprobs content)])))
       ([], [], []) delta_logprob_json_strs)
     (\<lambda>(token_logprobs, tokens, top_logprobs).
       Inr \<lparr>clp_text_offset = None, clp_token_logprobs = token_logprobs, clp_tokens = tokens,
            clp_top_logprobs = top_logprobs\<rparr>)"

definition completion_delta_step ::
  "'img externals \<Rightarrow> completion_choice list \<times> string option list \<Rightarrow> nat \<times> callback_output
     \<Rightarrow> (completion_choice list \<times> string option list) res" where
  "completion_delta_step ext = (\<lambda>(choices, finish_reasons) (i, d).
     res_bind
       (case cb_finish_reason d of
          None \<Rightarrow> Inr (finish_reasons, False)
        | Some reason \<Rightarrow>
            res_bind (py_index finish_reasons (int i)) (\<lambda>old.
              if old = None
              then res_bind (py_setitem finish_reasons i (Some reason)) (\<lambda>frs. Inr (frs, True))
              else Inr (finish_reasons, False))) (\<lambda>(frs, finish_reason_updated).
     if \<not> finish_reason_updated \<and> cb_delta_text d = [] then Inr (choices, frs)
     else res_bind
            (case cb_delta_logprob_json_strs d of
               None \<Rightarrow> Inr None
             | Some ls \<Rightarrow> res_bind (get_logprobs_from_delta ext ls) (\<lambda>l. Inr (Some l))) (\<lambda>lps.
          res_bind (py_index frs (int i)) (\<lambda>reason.
          res_bind (CompletionResponseChoice i reason (cb_delta_text d) lps) (\<lambda>c.
          Inr (choices @ [c], frs))))))"

definition process_completion_stream_output ::
  "'img externals \<Rightarrow> callback_output list \<Rightarrow> completion_request \<Rightarrow> string \<Rightarrow> string option list
     \<Rightarrow> ('s trace_state_scheme, completion_response option \<times> string option list) py" where
  "process_completion_stream_output ext delta_outputs request request_id finish_reasons =
     py_bind (py_lift (py_index delta_outputs 0)) (\<lambda>d0.
     case cb_request_final_usage_json_str d0 of
       Some u \<Rightarrow>
         py_bind (py_assert (length delta_outputs = 1) []) (\<lambda>_.
         py_bind (record_event request_id ''yield final usage'') (\<lambda>_.
         py_bind (py_lift (ext_usage_of_json ext u)) (\<lambda>usage.
         let response = \<lparr>cresp_id = request_id, cresp_choices = [],
                         cresp_model = creq_model request, cresp_usage = Some usage\<rparr>
         in py_return
              (if \<not> creq_stream request then Some response
               else (case creq_stream_options request of
                       None \<Rightarrow> None
                     | Some so \<Rightarrow> if include_usage so \<noteq> Some True then None else Some response),
               finish_reasons))))
     | None \<Rightarrow>
         py_bind (py_assert (int (length delta_outputs) = creq_n request) []) (\<lambda>_.
         py_bind (py_lift (res_fold (completion_delta_step ext) ([], finish_reasons)
                    (enumerate 0 delta_outputs))) (\<lambda>(choices, frs).
         if length choices = 0 then py_return (None, frs)
         else py_bind (record_event request_id ''yield delta output'') (\<lambda>_.
              py_return (Some \<lparr>cresp_id = request_id, cresp_choices = choices,
                               cresp_model = creq_model request, cresp_usage = None\<rparr>, frs)))))"

definition create_completion_suffix_response ::
  "completion_request \<Rightarrow> string \<Rightarrow> string option list \<Rightarrow> completion_response option res" where
  "create_completion_suffix_response request request_id finish_reasons =
     (case creq_suffix request of
        None \<Rightarrow> Inr None
      | Some suffix_text \<Rightarrow>
          res_bind (res_assert (list_all (\<lambda>r. r \<noteq> None) finish_reasons) []) (\<lambda>_.
          res_bind (res_map (\<lambda>(i, reason). CompletionResponseChoice i reason suffix_text None)
                      (enumerate 0 finish_reasons)) (\<lambda>choices.
          Inr (Some \<lparr>cresp_id = request_id, cresp_choices = choices,
                     cresp_model = creq_model request, cresp_usage = None\<rparr>))))"

section \<open>Function calls in the output\<close>

type_synonym fn_call_json = "string \<times> (string option \<times> json) list"

fun parse_function_call :: "'img externals \<Rightarrow> json \<Rightarrow> fn_call_json option res" where
  "parse_function_call ext (JStr call_str) =
     res_bind (ext_ast_parse ext call_str) (\<lambda>body.
       case body of
         AstCall nm keywords \<Rightarrow>
           res_bind (res_fold (\<lambda>arguments (k, v). res_bind v (\<lambda>x. Inr (dict_set arguments k x)))
                       [] keywords) (\<lambda>arguments. Inr (Some (nm, arguments)))
       | AstOther \<Rightarrow> Inr None)"
| "parse_function_call ext _ = Inl (TypeError ''compile() arg 1 must be a string'')"

definition convert_function_str_to_json ::
  "'img externals \<Rightarrow> string \<Rightarrow> fn_call_json option list res" where
  "convert_function_str_to_json ext stringified_calls =
     res_bind (py_index stringified_calls 0) (\<lambda>first.
     res_bind (if first = CHR 0x5B
               then res_bind (py_index stringified_calls (- 1)) (\<lambda>final. Inr (final = CHR 0x5D))
               else Inr False) (\<lambda>is_list.
     res_bind (if is_list then ext_literal_list ext stringified_calls
               else Inr [JStr stringified_calls]) (\<lambda>calls.
     res_map (parse_function_call ext) calls)))"

text \<open>\<open>ChatToolCall(type="function", ...)\<close>: pydantic refuses a key that is not a string.\<close>

definition make_tool_call :: "'img externals \<Rightarrow> nat \<Rightarrow> nat \<times> fn_call_json \<Rightarrow> chat_tool_call res" where
  "make_tool_call ext i = (\<lambda>(j, nm, arguments).
     if list_ex (\<lambda>(k, v). k = None) arguments then Inl (ValidationError ''arguments'')
     else Inr \<lparr>tcall_id = ext_tool_call_id ext i j, tcall_type = ''function'',
               tcall_function = \<lparr>call_name = nm,
                 call_arguments = Some (map (\<lambda>(k, v). (the k, v)) arguments)\<rparr>\<rparr>)"

definition invalid_call_text :: string where
  "invalid_call_text = ''Got an invalid function call output from model''"

fun is_SyntaxError :: "py_error \<Rightarrow> bool" where
  "is_SyntaxError (SyntaxError _) = True"
| "is_SyntaxError _ = False"

text \<open>
  One round of the loop, on the tool calls, the output texts and the finish reasons. In the
  \<open>except\<close> branch the source assigns the loop variable, so the output text stays.
\<close>

definition call_output_step ::
  "'img externals \<Rightarrow> chat_tool_call list list \<times> string list \<times> string option list \<Rightarrow> nat \<times> string
     \<Rightarrow> (chat_tool_call list list \<times> string list \<times> string option list) res" where
  "call_output_step ext = (\<lambda>(tool_calls_list, texts, reasons) (i, output_text).
     case convert_function_str_to_json ext output_text of
       Inl e \<Rightarrow>
         if is_SyntaxError e \<or> is_ValueError e
         then res_bind (py_setitem reasons i (Some ''error'')) (\<lambda>rs.
                Inr (tool_calls_list, texts, rs))
         else Inl e
     | Inr fn_json_list \<Rightarrow>
         res_bind (res_map (make_tool_call ext i)
                     (enumerate 0 (map the (filter (\<lambda>f. f \<noteq> None) fn_json_list)))) (\<lambda>calls.
         res_bind (py_setitem tool_calls_list i calls) (\<lambda>tcl.
         if length calls = 0
         then res_bind (py_setitem texts i invalid_call_text) (\<lambda>ts.
              res_bind (py_setitem reasons i (Some ''error'')) (\<lambda>rs. Inr (tcl, ts, rs)))
         else res_bind (py_setitem reasons i (Some ''tool_calls'')) (\<lambda>rs. Inr (tcl, texts, rs)))))"

text \<open>The result holds the output texts and the finish reasons, which are updated in place.\<close>

definition process_function_call_output ::
  "'img externals \<Rightarrow> string list \<Rightarrow> string option list
     \<Rightarrow> (bool \<times> chat_tool_call list list \<times> string list \<times> string option list) res" where
  "process_function_call_output ext output_texts finish_reasons =
     (let tool_calls_list = replicate (length output_texts) [];
          use_fc = list_ex (\<lambda>r. r = Some ''tool_calls'') finish_reasons
      in if use_fc
         then res_bind (res_fold (call_output_step ext)
                (tool_calls_list, output_texts, finish_reasons) (enumerate 0 output_texts))
                (\<lambda>(tcl, texts, reasons). Inr (True, tcl, texts, reasons))
         else Inr (False, tool_calls_list, output_texts, finish_reasons))"

definition wrap_chat_completion_response ::
  "string \<Rightarrow> string option \<Rightarrow> string list \<Rightarrow> string option list \<Rightarrow> chat_tool_call list list
     \<Rightarrow> log_probs_content list list option \<Rightarrow> bool \<Rightarrow> completion_usage option \<Rightarrow> chat_response res" where
  "wrap_chat_completion_response request_id model output_texts finish_reasons tool_calls_list
       logprob_results use_fc usage =
     res_bind (res_map (\<lambda>(i, output_text, finish_reason, tool_calls).
       res_bind (case logprob_results of
                   None \<Rightarrow> Inr None
                 | Some ls \<Rightarrow> res_bind (py_index ls (int i)) (\<lambda>l. Inr (Some l))) (\<lambda>lps.
       ChatCompletionResponseChoice i finish_reason
         (if \<not> use_fc \<or> finish_reason = Some ''error''
          then ChatCompletionMessage Assistant (Some (ContentStr output_text))
          else (ChatCompletionMessage Assistant None)\<lparr>msg_tool_calls := Some tool_calls\<rparr>) lps))
       (enumerate 0 (zip output_texts (zip finish_reasons tool_calls_list)))) (\<lambda>choices.
     Inr \<lparr>ccresp_id = request_id, ccresp_choices = choices, ccresp_model = model,
          ccresp_usage = usage\<rparr>)"

definition wrap_completion_response ::
  "string \<Rightarrow> string option \<Rightarrow> string list \<Rightarrow> string option list
     \<Rightarrow> completion_log_probs option list \<Rightarrow> completion_usage option \<Rightarrow> completion_response res" where
  "wrap_completion_response request_id model output_texts finish_reasons logprob_results usage =
     res_bind (res_map (\<lambda>(i, output_text, finish_reason).
       res_bind (py_index logprob_results (int i)) (\<lambda>lps.
       CompletionResponseChoice i finish_reason output_text lps))
       (enumerate 0 (zip output_texts finish_reasons))) (\<lambda>choices.
     Inr \<lparr>cresp_id = request_id, cresp_choices = choices, cresp_model = model,
          cresp_usage = usage\<rparr>)"

section \<open>Specifications\<close>

text \<open>
  The finish reason of a generation after a delta: the first one that is reported stays, as the
  request reports it (\<open>fin\<close>). A delta is passed on when it has text or brings the reason.
\<close>

definition next_reason :: "(string \<Rightarrow> string) \<Rightarrow> string option \<Rightarrow> callback_output \<Rightarrow> string option" where
  "next_reason fin old d =
     (case old of Some r \<Rightarrow> Some r | None \<Rightarrow> map_option fin (cb_finish_reason d))"

definition passed_on :: "string option \<Rightarrow> callback_output \<Rightarrow> bool" where
  "passed_on old d \<longleftrightarrow> cb_delta_text d \<noteq> [] \<or> old = None \<and> cb_finish_reason d \<noteq> None"

definition passed_choices ::
  "(string \<Rightarrow> string) \<Rightarrow> string option list \<Rightarrow> callback_output list
     \<Rightarrow> (nat \<times> string \<times> string option) list" where
  "passed_choices fin frs ds =
     map (\<lambda>i. (i, cb_delta_text (ds ! i), next_reason fin (frs ! i) (ds ! i)))
       (filter (\<lambda>i. passed_on (frs ! i) (ds ! i)) [0..<length ds])"

definition chat_reason :: "bool \<Rightarrow> string \<Rightarrow> string" where
  "chat_reason use_fc r = (if \<not> use_fc then r else ''tool_calls'')"

text \<open>A chunk: the final one carries the usage, the others one delta per generation.\<close>

definition final_chunk :: "callback_output list \<Rightarrow> bool" where
  "final_chunk ds \<longleftrightarrow> ds \<noteq> [] \<and> cb_request_final_usage_json_str (hd ds) \<noteq> None"

definition chunk_ok :: "nat \<Rightarrow> callback_output list \<Rightarrow> bool" where
  "chunk_ok n ds \<longleftrightarrow> ds \<noteq> [] \<and> (final_chunk ds \<or> length ds = n)"

text \<open>The text and the finish reason that a sequence of chunks holds for generation \<open>i\<close>.\<close>

definition generated_text :: "nat \<Rightarrow> callback_output list list \<Rightarrow> string" where
  "generated_text i chunks =
     concat (map (\<lambda>ds. cb_delta_text (ds ! i)) (filter (\<lambda>ds. \<not> final_chunk ds) chunks))"

fun first_some :: "'a option list \<Rightarrow> 'a option" where
  "first_some [] = None"
| "first_some (Some x # _) = Some x"
| "first_some (None # xs) = first_some xs"

definition generated_reason :: "nat \<Rightarrow> callback_output list list \<Rightarrow> string option" where
  "generated_reason i chunks =
     first_some (map (\<lambda>ds. cb_finish_reason (ds ! i)) (filter (\<lambda>ds. \<not> final_chunk ds) chunks))"

definition logged :: "string \<Rightarrow> string list \<Rightarrow> 's trace_state_scheme \<Rightarrow> 's trace_state_scheme" where
  "logged request_id events s =
     s\<lparr>trace_recorder := map_option (\<lambda>es. es @ map (Pair request_id) events) (trace_recorder s)\<rparr>"

fun message_text :: "chat_message \<Rightarrow> string" where
  "message_text m = (case msg_content m of Some (ContentStr s) \<Rightarrow> s | _ \<Rightarrow> [])"

text \<open>
  Chunks the protocol classes can represent: as many deltas as the request asks for, parsable
  JSON, finish reasons among the literals of the response class.
\<close>

definition chat_chunk_good :: "'img externals \<Rightarrow> chat_request \<Rightarrow> bool \<Rightarrow> callback_output list \<Rightarrow> bool" where
  "chat_chunk_good ext request use_fc ds \<longleftrightarrow> ds \<noteq> [] \<and>
     (if final_chunk ds
      then length ds = 1 \<and> \<not> isl (ext_usage_of_json ext (the (cb_request_final_usage_json_str (hd ds))))
      else int (length ds) = chat_n request \<and>
        list_all (\<lambda>d.
          (case cb_finish_reason d of None \<Rightarrow> True
           | Some r \<Rightarrow> chat_reason use_fc r \<in> set chat_finish_reasons) \<and>
          (case cb_delta_logprob_json_strs d of None \<Rightarrow> True
           | Some ls \<Rightarrow> list_all (\<lambda>l. \<not> isl (ext_logprob_of_json ext l)) ls)) ds)"

definition completion_chunk_good :: "'img externals \<Rightarrow> completion_request \<Rightarrow> callback_output list \<Rightarrow> bool" where
  "completion_chunk_good ext request ds \<longleftrightarrow> ds \<noteq> [] \<and>
     (if final_chunk ds
      then length ds = 1 \<and> \<not> isl (ext_usage_of_json ext (the (cb_request_final_usage_json_str (hd ds))))
      else int (length ds) = creq_n request \<and>
        list_all (\<lambda>d.
          (case cb_finish_reason d of None \<Rightarrow> True
           | Some r \<Rightarrow> r \<in> set completion_finish_reasons) \<and>
          (case cb_delta_logprob_json_strs d of None \<Rightarrow> True
           | Some ls \<Rightarrow> list_all (\<lambda>l. \<not> isl (ext_logprob_of_json ext l)) ls)) ds)"

definition reasons_ok :: "string list \<Rightarrow> nat \<Rightarrow> string option list \<Rightarrow> bool" where
  "reasons_ok allowed n frs \<longleftrightarrow>
     length frs = n \<and> list_all (\<lambda>r. case r of None \<Rightarrow> True | Some x \<Rightarrow> x \<in> set allowed) frs"

text \<open>The conversation a list of messages is turned into.\<close>

definition chat_turns :: "chat_message list \<Rightarrow> conv_message list" where
  "chat_turns ms = map (\<lambda>m. (role_name (msg_role m), msg_content m)) (filter (\<lambda>m. msg_role m \<noteq> System) ms)"

fun system_content :: "string \<Rightarrow> chat_message list \<Rightarrow> string" where
  "system_content d [] = d"
| "system_content d (m # ms) =
     system_content (if msg_role m = System then message_text m else d) ms"

definition filled_conversation :: "conversation \<Rightarrow> chat_message list \<Rightarrow> conversation" where
  "filled_conversation c ms =
     c\<lparr>system_message := system_content (system_message c) ms,
       messages := messages c @ chat_turns ms @ [(''assistant'', None)]\<rparr>"

definition request_events :: "string list" where
  "request_events = [''receive request'', ''start tokenization'', ''finish tokenization'']"

text \<open>
  What the tool calls, the text and the finish reason of a generation become, when the request
  uses function calling.
\<close>

definition call_result ::
  "'img externals \<Rightarrow> string \<Rightarrow> chat_tool_call list \<Rightarrow> string \<Rightarrow> string option \<Rightarrow> bool" where
  "call_result ext output_text calls text' reason' \<longleftrightarrow>
     (case convert_function_str_to_json ext output_text of
        Inl e \<Rightarrow> (is_SyntaxError e \<or> is_ValueError e) \<and> calls = [] \<and> text' = output_text
          \<and> reason' = Some ''error''
      | Inr fns \<Rightarrow>
          map (\<lambda>c. call_name (tcall_function c)) calls = map (fst \<circ> the) (filter (\<lambda>f. f \<noteq> None) fns)
          \<and> (if calls = [] then text' = invalid_call_text \<and> reason' = Some ''error''
             else text' = output_text \<and> reason' = Some ''tool_calls''))"

definition sample_externals :: "unit externals" where
  "sample_externals =
     \<lparr>ext_dump_function = (\<lambda>f. fn_name f), ext_float_repr = (\<lambda>x. ''0.0''),
      ext_load_b64 = (\<lambda>s. Inr ()), ext_load_http = (\<lambda>s. Inr ()),
      ext_encode = map (\<lambda>c. of_char c), ext_decode = map (\<lambda>i. char_of (nat i)),
      ext_usage_of_json = (\<lambda>s. Inr \<lparr>prompt_tokens = 1, completion_tokens = 2, total_tokens = 3,
                                     usage_extra = None\<rparr>),
      ext_logprob_of_json = (\<lambda>s. Inl (ValidationError s)),
      ext_ast_parse = (\<lambda>s. if s = ''f()'' then Inr (AstCall ''f'' [])
                           else if s = ''x'' then Inr AstOther else Inl (SyntaxError s)),
      ext_literal_list = (\<lambda>s. Inl (ValueError s)),
      ext_tool_call_id = (\<lambda>i j. ''call'')\<rparr>"

definition sample_delta :: "string \<Rightarrow> string option \<Rightarrow> callback_output" where
  "sample_delta t r = \<lparr>cb_delta_text = t, cb_delta_logprob_json_strs = None, cb_finish_reason = r,
                       cb_request_final_usage_json_str = None\<rparr>"

definition sample_final :: "callback_output" where
  "sample_final = \<lparr>cb_delta_text = [], cb_delta_logprob_json_strs = None, cb_finish_reason = None,
                   cb_request_final_usage_json_str = Some ''{}''\<rparr>"

definition sample_chunks :: "callback_output list list" where
  "sample_chunks = [[sample_delta ''ab'' None], [sample_delta [] None],
                    [sample_delta ''c'' (Some ''stop'')], [sample_final]]"

section \<open>Lemmas\<close>

lemma first_some_append: "first_some (xs @ ys) = (case first_some xs of None \<Rightarrow> first_some ys | r \<Rightarrow> r)"
  by (induction xs rule: first_some.induct) auto

lemma filter_index_upt: "i < n \<Longrightarrow> filter (\<lambda>j. j = i) [0..<n] = [i]"
  by (induction n) (auto simp: less_Suc_eq filter_empty_conv)

lemma passed_choices_at:
  "i < length ds \<Longrightarrow>
   filter (\<lambda>c. fst c = i) (passed_choices fin frs ds) =
     (if passed_on (frs ! i) (ds ! i)
      then [(i, cb_delta_text (ds ! i), next_reason fin (frs ! i) (ds ! i))] else [])"
proof -
  assume i: "i < length ds"
  have "filter (\<lambda>c. fst c = i) (passed_choices fin frs ds) =
      map (\<lambda>j. (j, cb_delta_text (ds ! j), next_reason fin (frs ! j) (ds ! j)))
        (filter (\<lambda>j. passed_on (frs ! j) (ds ! j)) (filter (\<lambda>j. j = i) [0..<length ds]))"
    by (simp add: passed_choices_def filter_map comp_def conj_commute)
  then show ?thesis by (simp add: filter_index_upt [OF i])
qed

lemma generated_Cons [simp]:
  "generated_text i (ds # chunks) =
     (if final_chunk ds then [] else cb_delta_text (ds ! i)) @ generated_text i chunks"
  "generated_reason i (ds # chunks) =
     (if final_chunk ds \<or> cb_finish_reason (ds ! i) = None then generated_reason i chunks
      else cb_finish_reason (ds ! i))"
  "generated_text i [] = []" "generated_reason i [] = None"
  by (cases "cb_finish_reason (ds ! i)"; simp add: generated_text_def generated_reason_def)+

section \<open>Interfaces\<close>

text \<open>
  The law of one round of a loop over the deltas of a chunk, for the loops of chat completion
  and of completion, and what it gives for the whole loop.
\<close>

locale delta_stepper =
  fixes index :: "'c \<Rightarrow> nat" and text_of :: "'c \<Rightarrow> string" and reason_of :: "'c \<Rightarrow> string option"
    and fin :: "string \<Rightarrow> string"
    and step :: "'c list \<times> string option list \<Rightarrow> nat \<times> callback_output
      \<Rightarrow> ('s, 'c list \<times> string option list) py"
  assumes step_law:
    "step (cs, frs) (i, d) s = (Inr (cs', frs'), s') \<Longrightarrow> i < length frs \<Longrightarrow>
       frs' = frs[i := next_reason fin (frs ! i) d] \<and>
       map (\<lambda>c. (index c, text_of c, reason_of c)) cs' =
         map (\<lambda>c. (index c, text_of c, reason_of c)) cs @
         (if passed_on (frs ! i) d
          then [(i, cb_delta_text d, next_reason fin (frs ! i) d)] else [])"
begin

abbreviation view :: "'c \<Rightarrow> nat \<times> string \<times> string option" where
  "view c \<equiv> (index c, text_of c, reason_of c)"

lemma fold_law:
  assumes "py_fold step ([], frs) (enumerate 0 ds) s = (Inr (cs, frs'), s')"
    and "length ds \<le> length frs"
  shows "frs' = map2 (next_reason fin) frs ds @ drop (length ds) frs
       \<and> map view cs = passed_choices fin frs ds"
  using assms
proof (induction ds arbitrary: cs frs' s' rule: rev_induct)
  case Nil
  then show ?case by (simp add: passed_choices_def)
next
  case (snoc d ds)
  let ?k = "length ds"
  from snoc.prems(1) obtain cs1 frs1 t where
    fold: "py_fold step ([], frs) (enumerate 0 ds) s = (Inr (cs1, frs1), t)"
    and step: "step (cs1, frs1) (?k, d) t = (Inr (cs, frs'), s')"
    by (auto simp: enumerate_append_eq py_fold_append py_bind_eq_Inr)
  have k: "?k < length frs" using snoc.prems(2) by simp
  from snoc.IH [OF fold] k have frs1: "frs1 = map2 (next_reason fin) frs ds @ drop ?k frs"
    and cs1: "map view cs1 = passed_choices fin frs ds" by auto
  have nth: "frs1 ! ?k = frs ! ?k" and len: "?k < length frs1"
    using k by (auto simp: frs1 nth_append)
  have "frs' = frs1[?k := next_reason fin (frs ! ?k) d]"
    using step_law [OF step len] by (simp add: nth)
  also have "\<dots> = map2 (next_reason fin) frs (ds @ [d]) @ drop (Suc ?k) frs"
  proof (rule nth_equalityI)
    fix j assume "j < length (frs1[?k := next_reason fin (frs ! ?k) d])"
    then have "j < length frs" using k by (simp add: frs1)
    then show "frs1[?k := next_reason fin (frs ! ?k) d] ! j
        = (map2 (next_reason fin) frs (ds @ [d]) @ drop (Suc ?k) frs) ! j"
      using k by (cases j ?k rule: linorder_cases) (simp_all add: frs1 nth_append)
  qed (use k in \<open>simp add: frs1\<close>)
  finally have "frs' = map2 (next_reason fin) frs (ds @ [d]) @ drop (length (ds @ [d])) frs" by simp
  moreover have "map view cs = passed_choices fin frs (ds @ [d])"
    using step_law [OF step len] cs1
    by (auto simp: nth passed_choices_def nth_append intro!: map_cong filter_cong)
  ultimately show ?case by simp
qed

end

text \<open>
  The contract of a function that turns a chunk into a response, on which the handlers and
  their clients rely: a normal chunk gives the choices that are to be passed on and no usage,
  the final chunk no choices.
\<close>

locale delta_processor =
  fixes index :: "'c \<Rightarrow> nat" and text_of :: "'c \<Rightarrow> string" and reason_of :: "'c \<Rightarrow> string option"
    and fin :: "string \<Rightarrow> string"
    and choices :: "'r \<Rightarrow> 'c list" and usage_of :: "'r \<Rightarrow> completion_usage option"
    and process :: "string option list \<Rightarrow> callback_output list
      \<Rightarrow> ('s, 'r option \<times> string option list) py"
  assumes normal_chunk:
    "process frs ds s = (Inr (r, frs'), s') \<Longrightarrow> ds \<noteq> [] \<Longrightarrow> \<not> final_chunk ds \<Longrightarrow>
     length frs = length ds \<Longrightarrow>
       frs' = map2 (next_reason fin) frs ds \<and>
       map (\<lambda>c. (index c, text_of c, reason_of c)) (case r of None \<Rightarrow> [] | Some x \<Rightarrow> choices x)
         = passed_choices fin frs ds \<and> (\<forall>x. r = Some x \<longrightarrow> usage_of x = None)"
    and final_chunk:
    "process frs ds s = (Inr (r, frs'), s') \<Longrightarrow> final_chunk ds \<Longrightarrow>
       frs' = frs \<and> (\<forall>x. r = Some x \<longrightarrow> choices x = [] \<and> usage_of x \<noteq> None)"
begin

definition choices_at :: "nat \<Rightarrow> 'r list \<Rightarrow> 'c list" where
  "choices_at i ys = filter (\<lambda>c. index c = i) (concat (map choices ys))"

lemma normal_at:
  assumes "process frs ds s = (Inr (r, frs'), s')" "ds \<noteq> []" "\<not> final_chunk ds"
    "length frs = length ds" "i < length ds"
  shows "map (\<lambda>c. (index c, text_of c, reason_of c)) (choices_at i (case r of None \<Rightarrow> [] | Some x \<Rightarrow> [x])) =
     (if passed_on (frs ! i) (ds ! i)
      then [(i, cb_delta_text (ds ! i), next_reason fin (frs ! i) (ds ! i))] else [])"
proof -
  let ?v = "\<lambda>c. (index c, text_of c, reason_of c)"
  let ?cs = "case r of None \<Rightarrow> [] | Some x \<Rightarrow> choices x"
  have "map ?v (choices_at i (case r of None \<Rightarrow> [] | Some x \<Rightarrow> [x])) =
      filter (\<lambda>c. fst c = i) (map ?v ?cs)"
    by (cases r) (simp_all add: choices_at_def filter_map comp_def)
  also have "map ?v ?cs = passed_choices fin frs ds" using normal_chunk [OF assms(1-4)] by simp
  finally show ?thesis using passed_choices_at [OF assms(5)] by simp
qed

text \<open>
  Over a whole sequence of chunks: no text is lost or duplicated, and the first reason of the
  choices of a generation is the one the loop ends with.
\<close>

lemma run_at:
  assumes "gen_loop process frs chunks s = (ys, Inr frs', s')"
    and "\<forall>ds \<in> set chunks. chunk_ok n ds" and "length frs = n" and "i < n"
  shows "concat (map text_of (choices_at i ys)) = generated_text i chunks
    \<and> length frs' = n
    \<and> frs' ! i = (case frs ! i of Some r \<Rightarrow> Some r
                  | None \<Rightarrow> map_option fin (generated_reason i chunks))
    \<and> (frs ! i = None \<longrightarrow> first_some (map reason_of (choices_at i ys)) = frs' ! i)"
  using assms(1-3)
proof (induction chunks arbitrary: frs s ys)
  case Nil
  then show ?case
    by (auto simp: choices_at_def split: option.splits)
next
  case (Cons ds chunks)
  from Cons.prems(1) obtain r frs1 t ys' where p: "process frs ds s = (Inr (r, frs1), t)"
    and rest: "gen_loop process frs1 chunks t = (ys', Inr frs', s')"
    and ys: "ys = (case r of None \<Rightarrow> [] | Some z \<Rightarrow> [z]) @ ys'"
    unfolding gen_loop_Cons_Inr by blast
  have ok: "chunk_ok n ds" "\<forall>ds \<in> set chunks. chunk_ok n ds" using Cons.prems(2) by auto
  have split: "choices_at i ys = choices_at i (case r of None \<Rightarrow> [] | Some z \<Rightarrow> [z]) @ choices_at i ys'"
    by (simp add: ys choices_at_def)
  show ?case
  proof (cases "final_chunk ds")
    case True
    from final_chunk [OF p True] have f: "frs1 = frs" "choices_at i (case r of None \<Rightarrow> [] | Some z \<Rightarrow> [z]) = []"
      by (auto simp: choices_at_def split: option.splits)
    from Cons.IH [OF rest ok(2)] Cons.prems(3) f True show ?thesis
      by (cases "frs ! i") (simp_all add: split)
  next
    case False
    with ok(1) have len: "ds \<noteq> []" "length frs = length ds" "length ds = n"
      using Cons.prems(3) by (auto simp: chunk_ok_def)
    have i: "i < length ds" using assms(4) len by simp
    have frs1: "frs1 = map2 (next_reason fin) frs ds"
      using normal_chunk [OF p len(1) False len(2)] by simp
    then have frs1i: "frs1 ! i = next_reason fin (frs ! i) (ds ! i)" "length frs1 = n"
      using i len by simp_all
    have v: "map text_of (choices_at i (case r of None \<Rightarrow> [] | Some x \<Rightarrow> [x])) =
        (if passed_on (frs ! i) (ds ! i) then [cb_delta_text (ds ! i)] else [])"
      "map reason_of (choices_at i (case r of None \<Rightarrow> [] | Some x \<Rightarrow> [x])) =
        (if passed_on (frs ! i) (ds ! i) then [next_reason fin (frs ! i) (ds ! i)] else [])"
      using arg_cong [OF normal_at [OF p len(1) False len(2) i], of "map (fst \<circ> snd)"]
        arg_cong [OF normal_at [OF p len(1) False len(2) i], of "map (snd \<circ> snd)"]
      by (simp_all add: comp_def)
    from Cons.IH [OF rest ok(2) frs1i(2)] show ?thesis
      using v False
      by (cases "frs ! i"; cases "cb_finish_reason (ds ! i)")
        (auto simp: split frs1i next_reason_def passed_on_def)
  qed
qed

end

lemma record_event_run [simp]:
  "record_event r e s = (x, s') \<longleftrightarrow> x = Inr () \<and> s' = logged r [e] s"
  by (cases "trace_recorder s") (auto simp: record_event_def py_modify_def logged_def)

lemma logged_logged [simp]: "logged r es (logged r fs s) = logged r (fs @ es) s"
  by (cases "trace_recorder s") (simp_all add: logged_def)

lemma reason_update_Inr:
  assumes "i < length frs"
  shows "(case cb_finish_reason d of
            None \<Rightarrow> Inr (frs, False)
          | Some reason \<Rightarrow>
              res_bind (py_index frs (int i)) (\<lambda>old.
                if old = None
                then res_bind (py_setitem frs i (Some (fin reason))) (\<lambda>frs. Inr (frs, True))
                else Inr (frs, False))) =
     Inr (frs[i := next_reason fin (frs ! i) d], frs ! i = None \<and> cb_finish_reason d \<noteq> None)"
  using assms
  by (auto simp: py_setitem_def next_reason_def split: option.splits)
    (metis list_update_id)+

lemma completion_choice_Inr:
  "CompletionResponseChoice i r t l = Inr c \<longleftrightarrow>
     (r \<noteq> None \<longrightarrow> the r \<in> set completion_finish_reasons) \<and>
     c = \<lparr>cch_finish_reason = r, cch_index = i, cch_logprobs = l, cch_text = t\<rparr>"
  by (auto simp: CompletionResponseChoice_def)

lemma chat_stream_choice_Inr:
  "ChatCompletionStreamResponseChoice i r m l = Inr c \<longleftrightarrow>
     (r \<noteq> None \<longrightarrow> the r \<in> set chat_finish_reasons) \<and>
     c = \<lparr>sc_finish_reason = r, sc_index = i, sc_delta = m, sc_logprobs = l\<rparr>"
  by (auto simp: ChatCompletionStreamResponseChoice_def)

text \<open>The loops of the two kinds of completion keep the law.\<close>

interpretation chat_step: delta_stepper sc_index "\<lambda>c. message_text (sc_delta c)" sc_finish_reason
  "chat_reason use_fc" "chat_delta_step ext request_id use_fc" for ext request_id use_fc
proof
  fix cs frs i d s cs' frs' s'
  assume "chat_delta_step ext request_id use_fc (cs, frs) (i, d) s = (Inr (cs', frs'), s')"
    and "i < length frs"
  then show "frs' = frs[i := next_reason (chat_reason use_fc) (frs ! i) d] \<and>
       map (\<lambda>c. (sc_index c, message_text (sc_delta c), sc_finish_reason c)) cs' =
         map (\<lambda>c. (sc_index c, message_text (sc_delta c), sc_finish_reason c)) cs @
         (if passed_on (frs ! i) d
          then [(i, cb_delta_text d, next_reason (chat_reason use_fc) (frs ! i) d)] else [])"
    by (auto simp: chat_delta_step_def reason_update_Inr [where fin = "chat_reason use_fc", unfolded chat_reason_def]
        py_bind_eq_Inr chat_stream_choice_Inr ChatCompletionMessage_def passed_on_def
        chat_reason_def [abs_def]
        split: if_splits)
qed

interpretation completion_step: delta_stepper cch_index cch_text cch_finish_reason
  "\<lambda>r. r" "\<lambda>a x. py_lift (completion_delta_step ext a x)" for ext
proof
  fix cs frs i d s cs' frs' s'
  assume "py_lift (completion_delta_step ext (cs, frs) (i, d)) s = (Inr (cs', frs'), s')"
    and "i < length frs"
  then show "frs' = frs[i := next_reason (\<lambda>r. r) (frs ! i) d] \<and>
       map (\<lambda>c. (cch_index c, cch_text c, cch_finish_reason c)) cs' =
         map (\<lambda>c. (cch_index c, cch_text c, cch_finish_reason c)) cs @
         (if passed_on (frs ! i) d
          then [(i, cb_delta_text d, next_reason (\<lambda>r. r) (frs ! i) d)] else [])"
    by (auto simp: completion_delta_step_def reason_update_Inr [where fin = "\<lambda>r. r"]
        res_bind_eq_Inr completion_choice_Inr passed_on_def split: if_splits)
qed

context delta_processor begin

lemma post_processor:
  assumes "\<And>x. choices (post x) = choices x" and "\<And>x. usage_of (post x) = None \<longleftrightarrow> usage_of x = None"
  shows "delta_processor index text_of reason_of fin choices usage_of
    (\<lambda>frs ds. py_bind (process frs ds) (\<lambda>(r, frs'). py_return (map_option post r, frs')))"
proof
  fix frs ds s r frs' s'
  assume "py_bind (process frs ds) (\<lambda>(r, frs'). py_return (map_option post r, frs')) s = (Inr (r, frs'), s')"
  then obtain r0 where p: "process frs ds s = (Inr (r0, frs'), s')" and r: "r = map_option post r0"
    by (auto simp: py_bind_eq_Inr)
  have same: "(case r of None \<Rightarrow> [] | Some x \<Rightarrow> choices x) = (case r0 of None \<Rightarrow> [] | Some x \<Rightarrow> choices x)"
    by (cases r0) (simp_all add: r assms)
  show "ds \<noteq> [] \<Longrightarrow> \<not> final_chunk ds \<Longrightarrow> length frs = length ds \<Longrightarrow>
       frs' = map2 (next_reason fin) frs ds \<and>
       map (\<lambda>c. (index c, text_of c, reason_of c)) (case r of None \<Rightarrow> [] | Some x \<Rightarrow> choices x)
         = passed_choices fin frs ds \<and> (\<forall>x. r = Some x \<longrightarrow> usage_of x = None)"
    using normal_chunk [OF p] unfolding same by (auto simp: r assms)
  show "final_chunk ds \<Longrightarrow> frs' = frs \<and> (\<forall>x. r = Some x \<longrightarrow> choices x = [] \<and> usage_of x \<noteq> None)"
    using final_chunk [OF p] assms(1) by (auto simp: r) (metis assms(2) not_None_eq)
qed

end

lemma chat_output_cases:
  assumes "process_chat_completion_stream_output ext ds request rid use_fc frs s = (Inr (r, frs'), s')"
  shows "ds \<noteq> [] \<and>
    (if final_chunk ds
     then frs' = frs \<and> length ds = 1 \<and> s' = logged rid [''yield final usage''] s \<and>
       (\<exists>u. ext_usage_of_json ext (the (cb_request_final_usage_json_str (hd ds))) = Inr u \<and>
         r = (if \<not> chat_stream request
                \<or> Option.bind (chat_stream_options request) include_usage = Some True
              then Some \<lparr>csresp_id = rid, csresp_choices = [], csresp_model = chat_model request,
                         csresp_usage = Some u\<rparr>
              else None))
     else int (length ds) = chat_n request \<and>
       (\<exists>cs t. py_fold (chat_delta_step ext rid use_fc) ([], frs) (enumerate 0 ds) s = (Inr (cs, frs'), t)
         \<and> s' = (if cs = [] then t else logged rid [''yield delta output''] t)
         \<and> r = (if cs = [] then None
                else Some \<lparr>csresp_id = rid, csresp_choices = cs, csresp_model = chat_model request,
                           csresp_usage = None\<rparr>)))"
  using assms
  by (cases ds)
    (auto simp: process_chat_completion_stream_output_def py_bind_eq_Inr final_chunk_def Let_def
      py_index_def bind_eq_Some_conv split: option.splits if_splits)

lemma completion_output_cases:
  assumes "process_completion_stream_output ext ds request rid frs s = (Inr (r, frs'), s')"
  shows "ds \<noteq> [] \<and>
    (if final_chunk ds
     then frs' = frs \<and> length ds = 1 \<and> s' = logged rid [''yield final usage''] s \<and>
       (\<exists>u. ext_usage_of_json ext (the (cb_request_final_usage_json_str (hd ds))) = Inr u \<and>
         r = (if \<not> creq_stream request
                \<or> Option.bind (creq_stream_options request) include_usage = Some True
              then Some \<lparr>cresp_id = rid, cresp_choices = [], cresp_model = creq_model request,
                         cresp_usage = Some u\<rparr>
              else None))
     else int (length ds) = creq_n request \<and>
       (\<exists>cs. res_fold (completion_delta_step ext) ([], frs) (enumerate 0 ds) = Inr (cs, frs')
         \<and> s' = (if cs = [] then s else logged rid [''yield delta output''] s)
         \<and> r = (if cs = [] then None
                else Some \<lparr>cresp_id = rid, cresp_choices = cs, cresp_model = creq_model request,
                           cresp_usage = None\<rparr>)))"
  using assms
  by (cases ds)
    (auto simp: process_completion_stream_output_def py_bind_eq_Inr final_chunk_def Let_def
      py_index_def bind_eq_Some_conv split: option.splits if_splits)

interpretation chat_out: delta_processor sc_index "\<lambda>c. message_text (sc_delta c)" sc_finish_reason
  "chat_reason use_fc" csresp_choices csresp_usage
  "\<lambda>frs ds. process_chat_completion_stream_output ext ds request rid use_fc frs"
  for ext request rid use_fc
proof
  fix frs ds s r frs' s'
  assume p: "process_chat_completion_stream_output ext ds request rid use_fc frs s = (Inr (r, frs'), s')"
  note cases = chat_output_cases [OF p]
  show "final_chunk ds \<Longrightarrow>
      frs' = frs \<and> (\<forall>x. r = Some x \<longrightarrow> csresp_choices x = [] \<and> csresp_usage x \<noteq> None)"
    using cases by (auto split: if_splits)
  assume len: "ds \<noteq> []" "length frs = length ds" and "\<not> final_chunk ds"
  with cases obtain cs t where
    f: "py_fold (chat_delta_step ext rid use_fc) ([], frs) (enumerate 0 ds) s = (Inr (cs, frs'), t)"
    and r: "r = (if cs = [] then None
                else Some \<lparr>csresp_id = rid, csresp_choices = cs, csresp_model = chat_model request,
                           csresp_usage = None\<rparr>)"
    by auto
  from chat_step.fold_law [OF f] len r show "frs' = map2 (next_reason (chat_reason use_fc)) frs ds \<and>
       map (\<lambda>c. (sc_index c, message_text (sc_delta c), sc_finish_reason c))
           (case r of None \<Rightarrow> [] | Some x \<Rightarrow> csresp_choices x)
         = passed_choices (chat_reason use_fc) frs ds \<and> (\<forall>x. r = Some x \<longrightarrow> csresp_usage x = None)"
    by auto
qed

interpretation completion_out: delta_processor cch_index cch_text cch_finish_reason
  "\<lambda>r. r" cresp_choices cresp_usage
  "\<lambda>frs ds. process_completion_stream_output ext ds request rid frs"
  for ext request rid
proof
  fix frs ds s r frs' s'
  assume p: "process_completion_stream_output ext ds request rid frs s = (Inr (r, frs'), s')"
  note cases = completion_output_cases [OF p]
  show "final_chunk ds \<Longrightarrow>
      frs' = frs \<and> (\<forall>x. r = Some x \<longrightarrow> cresp_choices x = [] \<and> cresp_usage x \<noteq> None)"
    using cases by (auto split: if_splits)
  assume len: "ds \<noteq> []" "length frs = length ds" and "\<not> final_chunk ds"
  with cases obtain cs where
    f: "res_fold (completion_delta_step ext) ([], frs) (enumerate 0 ds) = Inr (cs, frs')"
    and r: "r = (if cs = [] then None
                else Some \<lparr>cresp_id = rid, cresp_choices = cs, cresp_model = creq_model request,
                           cresp_usage = None\<rparr>)"
    by auto
  from f have "py_fold (\<lambda>a x. py_lift (completion_delta_step ext a x)) ([], frs) (enumerate 0 ds) s
      = (Inr (cs, frs'), s)"
    by (simp add: py_lift_res_fold [symmetric])
  from completion_step.fold_law [OF this] len r
  show "frs' = map2 (next_reason (\<lambda>r. r)) frs ds \<and>
       map (\<lambda>c. (cch_index c, cch_text c, cch_finish_reason c))
           (case r of None \<Rightarrow> [] | Some x \<Rightarrow> cresp_choices x)
         = passed_choices (\<lambda>r. r) frs ds \<and> (\<forall>x. r = Some x \<longrightarrow> cresp_usage x = None)"
    by auto
qed

text \<open>The contract of a processor that does not fail on good chunks.\<close>

locale total_processor = delta_processor index text_of reason_of fin choices usage_of process
  for index :: "'c \<Rightarrow> nat" and text_of :: "'c \<Rightarrow> string" and reason_of :: "'c \<Rightarrow> string option"
    and fin :: "string \<Rightarrow> string"
    and choices :: "'r \<Rightarrow> 'c list" and usage_of :: "'r \<Rightarrow> completion_usage option"
    and process :: "string option list \<Rightarrow> callback_output list
      \<Rightarrow> ('s, 'r option \<times> string option list) py" +
  fixes allowed :: "string list" and n :: nat and good :: "callback_output list \<Rightarrow> bool"
  assumes good_chunk: "good ds \<Longrightarrow> chunk_ok n ds"
    and progress: "good ds \<Longrightarrow> reasons_ok allowed n frs \<Longrightarrow>
      \<exists>r frs' s'. process frs ds s = (Inr (r, frs'), s') \<and> reasons_ok allowed n frs'"
begin

lemma run_total:
  assumes "\<forall>ds \<in> set chunks. good ds" and "reasons_ok allowed n frs"
  shows "\<exists>ys frs' s'. gen_loop process frs chunks s = (ys, Inr frs', s') \<and> reasons_ok allowed n frs'"
  using assms
proof (induction chunks arbitrary: frs s)
  case (Cons ds chunks)
  then obtain r frs1 t where p: "process frs ds s = (Inr (r, frs1), t)" "reasons_ok allowed n frs1"
    using progress [of ds frs s] by auto
  with Cons obtain ys frs' s' where "gen_loop process frs1 chunks t = (ys, Inr frs', s')"
    "reasons_ok allowed n frs'" by fastforce
  with p(1) show ?case by (simp split: option.splits)
qed simp

lemma run_good:
  assumes "\<forall>ds \<in> set chunks. good ds" and "i < n"
  shows "\<exists>ys frs' s'. gen_loop process (replicate n None) chunks s = (ys, Inr frs', s')
    \<and> concat (map text_of (choices_at i ys)) = generated_text i chunks
    \<and> first_some (map reason_of (choices_at i ys)) = map_option fin (generated_reason i chunks)
    \<and> frs' ! i = map_option fin (generated_reason i chunks)"
proof -
  have "reasons_ok allowed n (replicate n None)"
    by (auto simp: reasons_ok_def list_all_iff)
  from run_total [OF assms(1) this] obtain ys frs' s' where
    run: "gen_loop process (replicate n None) chunks s = (ys, Inr frs', s')" by blast
  from assms(1) good_chunk have "\<forall>ds \<in> set chunks. chunk_ok n ds" by blast
  from run_at [OF run this _ assms(2)] run assms(2) show ?thesis by auto
qed

end

lemma reasons_ok_update:
  "reasons_ok allowed n frs \<Longrightarrow>
   (case cb_finish_reason d of None \<Rightarrow> True | Some r \<Rightarrow> fin r \<in> set allowed) \<Longrightarrow>
   reasons_ok allowed n (frs[i := next_reason fin (frs ! i) d])"
  by (cases "i < length frs")
    (auto simp: reasons_ok_def list_all_length nth_list_update next_reason_def split: option.splits)

lemma reasons_ok_nth:
  "reasons_ok allowed n frs \<Longrightarrow> i < n \<Longrightarrow> frs ! i = Some r \<Longrightarrow> r \<in> set allowed"
  by (force simp: reasons_ok_def list_all_length)

lemma get_logprobs_progress:
  "list_all (\<lambda>l. \<not> isl (ext_logprob_of_json ext l)) ls \<Longrightarrow> \<exists>l. get_logprobs_from_delta ext ls = Inr l"
proof -
  assume "list_all (\<lambda>l. \<not> isl (ext_logprob_of_json ext l)) ls"
  then have "\<exists>b. res_fold (\<lambda>(token_logprobs, tokens, top_logprobs) s.
       res_bind (ext_logprob_of_json ext s) (\<lambda>content.
         Inr (token_logprobs @ [lp_logprob content], tokens @ [lp_token content],
              top_logprobs @ [foldl (\<lambda>d t. dict_set d (top_token t) (top_logprob t)) []
                                (lp_top_logprobs content)])))
       ([], [], []) ls = Inr b"
    by (intro res_fold_progress) (auto simp: list_all_iff not_isl_Inr dest!: bspec)
  then show ?thesis by (auto simp: get_logprobs_from_delta_def)
qed

lemma chat_step_progress:
  assumes "reasons_ok chat_finish_reasons n frs" and "i < n"
    and "case cb_finish_reason d of None \<Rightarrow> True | Some r \<Rightarrow> chat_reason use_fc r \<in> set chat_finish_reasons"
    and "case cb_delta_logprob_json_strs d of None \<Rightarrow> True
         | Some ls \<Rightarrow> list_all (\<lambda>l. \<not> isl (ext_logprob_of_json ext l)) ls"
  shows "\<exists>cs' frs' t. chat_delta_step ext rid use_fc (cs, frs) (i, d) s = (Inr (cs', frs'), t)
    \<and> reasons_ok chat_finish_reasons n frs'"
proof -
  let ?frs = "frs[i := next_reason (chat_reason use_fc) (frs ! i) d]"
  have len: "i < length frs" using assms(1,2) by (simp add: reasons_ok_def)
  have ok: "reasons_ok chat_finish_reasons n ?frs" by (rule reasons_ok_update [OF assms(1,3)])
  have "\<exists>l. (case cb_delta_logprob_json_strs d of None \<Rightarrow> Inr None
      | Some ls \<Rightarrow> res_bind (res_map (ext_logprob_of_json ext) ls) (\<lambda>l. Inr (Some l))) = Inr l"
    using assms(4) by (auto split: option.splits dest!: res_map_progress)
  moreover have "r \<noteq> None \<longrightarrow> the r \<in> set chat_finish_reasons" if "?frs ! i = r" for r
    using reasons_ok_nth [OF ok assms(2)] that by auto
  ultimately show ?thesis
    using len ok
    by (auto simp: chat_delta_step_def reason_update_Inr [where fin = "chat_reason use_fc", unfolded chat_reason_def]
        py_bind_eq_Inr chat_stream_choice_Inr chat_reason_def [abs_def] simp del: not_None_eq)
qed


lemma completion_step_progress:
  assumes "reasons_ok completion_finish_reasons n frs" and "i < n"
    and "case cb_finish_reason d of None \<Rightarrow> True | Some r \<Rightarrow> r \<in> set completion_finish_reasons"
    and "case cb_delta_logprob_json_strs d of None \<Rightarrow> True
         | Some ls \<Rightarrow> list_all (\<lambda>l. \<not> isl (ext_logprob_of_json ext l)) ls"
  shows "\<exists>cs' frs'. completion_delta_step ext (cs, frs) (i, d) = Inr (cs', frs')
    \<and> reasons_ok completion_finish_reasons n frs'"
proof -
  let ?frs = "frs[i := next_reason (\<lambda>r. r) (frs ! i) d]"
  have len: "i < length frs" using assms(1,2) by (simp add: reasons_ok_def)
  have ok: "reasons_ok completion_finish_reasons n ?frs" by (rule reasons_ok_update [OF assms(1,3)])
  have "\<exists>l. (case cb_delta_logprob_json_strs d of None \<Rightarrow> Inr None
      | Some ls \<Rightarrow> res_bind (get_logprobs_from_delta ext ls) (\<lambda>l. Inr (Some l))) = Inr l"
    using assms(4) by (auto split: option.splits dest!: get_logprobs_progress)
  moreover have "r \<noteq> None \<longrightarrow> the r \<in> set completion_finish_reasons" if "?frs ! i = r" for r
    using reasons_ok_nth [OF ok assms(2)] that by auto
  ultimately show ?thesis
    using len ok
    by (auto simp: completion_delta_step_def reason_update_Inr [where fin = "\<lambda>r. r"]
        res_bind_eq_Inr completion_choice_Inr simp del: not_None_eq)
qed

interpretation chat_total: total_processor sc_index "\<lambda>c. message_text (sc_delta c)" sc_finish_reason
  "chat_reason use_fc" csresp_choices csresp_usage
  "\<lambda>frs ds. process_chat_completion_stream_output ext ds request rid use_fc frs"
  chat_finish_reasons "nat (chat_n request)" "chat_chunk_good ext request use_fc"
  for ext request rid use_fc
proof
  fix ds frs s
  assume good: "chat_chunk_good ext request use_fc ds"
  then show "chunk_ok (nat (chat_n request)) ds"
    by (auto simp: chat_chunk_good_def chunk_ok_def split: if_splits)
  assume ok: "reasons_ok chat_finish_reasons (nat (chat_n request)) frs"
  show "\<exists>r frs' s'. process_chat_completion_stream_output ext ds request rid use_fc frs s
      = (Inr (r, frs'), s') \<and> reasons_ok chat_finish_reasons (nat (chat_n request)) frs'"
  proof (cases "final_chunk ds")
    case True
    with good ok show ?thesis
      by (cases "chat_stream request")
        (auto simp: process_chat_completion_stream_output_def chat_chunk_good_def py_bind_eq_Inr
          final_chunk_def not_isl_Inr hd_conv_nth py_index_def Let_def)
  next
    case False
    then have d: "cb_request_final_usage_json_str (ds ! 0) = None" "ds \<noteq> []"
      using good by (auto simp: final_chunk_def chat_chunk_good_def hd_conv_nth)
    have n: "int (length ds) = chat_n request" using good False by (simp add: chat_chunk_good_def)
    have "\<exists>b t. py_fold (chat_delta_step ext rid use_fc) ([], frs) (enumerate 0 ds) s = (Inr b, t)
        \<and> reasons_ok chat_finish_reasons (nat (chat_n request)) (snd b)"
    proof (rule py_fold_total)
      fix a :: "chat_stream_choice list \<times> _" and t x
      assume a: "reasons_ok chat_finish_reasons (nat (chat_n request)) (snd a)"
        and x: "x \<in> set (enumerate 0 ds)"
      obtain i d where xid: "x = (i, d)" by (cases x)
      with x n have id: "x = (i, d)" "i < nat (chat_n request)" "d \<in> set ds"
        by (auto simp: in_set_enumerate_eq)
      have d: "list_all (\<lambda>d. (case cb_finish_reason d of None \<Rightarrow> True
           | Some r \<Rightarrow> chat_reason use_fc r \<in> set chat_finish_reasons) \<and>
          (case cb_delta_logprob_json_strs d of None \<Rightarrow> True
           | Some ls \<Rightarrow> list_all (\<lambda>l. \<not> isl (ext_logprob_of_json ext l)) ls)) ds"
        using good False by (simp add: chat_chunk_good_def)
      from chat_step_progress [OF a id(2), where d = d] d id(3)
      show "\<exists>b u. (chat_delta_step ext rid use_fc) a x t = (Inr b, u)
          \<and> reasons_ok chat_finish_reasons (nat (chat_n request)) (snd b)"
        by (cases a) (fastforce simp: id(1) list_all_iff)
    qed (simp add: ok)
    then obtain cs frs' t where
      f: "py_fold (chat_delta_step ext rid use_fc) ([], frs) (enumerate 0 ds) s = (Inr (cs, frs'), t)"
      and ok': "reasons_ok chat_finish_reasons (nat (chat_n request)) frs'" by auto
    show ?thesis using d n ok'
      by (cases "cs = []")
        (auto simp: process_chat_completion_stream_output_def py_bind_eq_Inr py_index_0 f)
  qed
qed

interpretation completion_total: total_processor cch_index cch_text cch_finish_reason
  "\<lambda>r. r" cresp_choices cresp_usage
  "\<lambda>frs ds. process_completion_stream_output ext ds request rid frs"
  completion_finish_reasons "nat (creq_n request)" "completion_chunk_good ext request"
  for ext request rid
proof
  fix ds frs s
  assume good: "completion_chunk_good ext request ds"
  then show "chunk_ok (nat (creq_n request)) ds"
    by (auto simp: completion_chunk_good_def chunk_ok_def split: if_splits)
  assume ok: "reasons_ok completion_finish_reasons (nat (creq_n request)) frs"
  show "\<exists>r frs' s'. process_completion_stream_output ext ds request rid frs s
      = (Inr (r, frs'), s') \<and> reasons_ok completion_finish_reasons (nat (creq_n request)) frs'"
  proof (cases "final_chunk ds")
    case True
    with good ok show ?thesis
      by (cases "creq_stream request")
        (auto simp: process_completion_stream_output_def completion_chunk_good_def py_bind_eq_Inr
          final_chunk_def not_isl_Inr hd_conv_nth py_index_def Let_def)
  next
    case False
    then have d: "cb_request_final_usage_json_str (ds ! 0) = None" "ds \<noteq> []"
      using good by (auto simp: final_chunk_def completion_chunk_good_def hd_conv_nth)
    have n: "int (length ds) = creq_n request" using good False by (simp add: completion_chunk_good_def)
    have "\<exists>b t. py_fold (\<lambda>a x. py_lift (completion_delta_step ext a x)) ([], frs) (enumerate 0 ds) s
        = (Inr b, t) \<and> reasons_ok completion_finish_reasons (nat (creq_n request)) (snd b)"
    proof (rule py_fold_total)
      fix a :: "completion_choice list \<times> _" and t x
      assume a: "reasons_ok completion_finish_reasons (nat (creq_n request)) (snd a)"
        and x: "x \<in> set (enumerate 0 ds)"
      obtain i d where xid: "x = (i, d)" by (cases x)
      with x n have id: "x = (i, d)" "i < nat (creq_n request)" "d \<in> set ds"
        by (auto simp: in_set_enumerate_eq)
      have d: "list_all (\<lambda>d. (case cb_finish_reason d of None \<Rightarrow> True
           | Some r \<Rightarrow> r \<in> set completion_finish_reasons) \<and>
          (case cb_delta_logprob_json_strs d of None \<Rightarrow> True
           | Some ls \<Rightarrow> list_all (\<lambda>l. \<not> isl (ext_logprob_of_json ext l)) ls)) ds"
        using good False by (simp add: completion_chunk_good_def)
      from completion_step_progress [OF a id(2), where d = d] d id(3)
      show "\<exists>b u. (\<lambda>a x. py_lift (completion_delta_step ext a x)) a x t = (Inr b, u)
          \<and> reasons_ok completion_finish_reasons (nat (creq_n request)) (snd b)"
        by (cases a) (fastforce simp: id(1) list_all_iff)
    qed (simp add: ok)
    then obtain cs frs' where
      f: "res_fold (completion_delta_step ext) ([], frs) (enumerate 0 ds) = Inr (cs, frs')"
      and ok': "reasons_ok completion_finish_reasons (nat (creq_n request)) frs'"
      by (auto simp: py_lift_res_fold [symmetric])
    show ?thesis using d n ok'
      by (cases "cs = []")
        (auto simp: process_completion_stream_output_def py_bind_eq_Inr py_index_0 f)
  qed
qed

lemma add_messages_Inr:
  "res_fold add_chat_message c ms = Inr c' \<Longrightarrow>
   c' = c\<lparr>system_message := system_content (system_message c) ms, messages := messages c @ chat_turns ms\<rparr>
   \<and> (\<forall>m \<in> set ms. msg_role m = System \<longrightarrow> (\<exists>t. msg_content m = Some (ContentStr t)))"
proof (induction ms arbitrary: c)
  case (Cons m ms)
  then obtain c1 where c1: "add_chat_message c m = Inr c1"
    and rest: "res_fold add_chat_message c1 ms = Inr c'" by (auto simp: res_bind_eq_Inr)
  note IH = Cons.IH [OF rest]
  show ?case
  proof (cases "msg_role m = System")
    case True
    with c1 obtain t where "msg_content m = Some (ContentStr t)" "c1 = c\<lparr>system_message := t\<rparr>"
      by (auto simp: add_chat_message_def split: option.splits chat_content.splits)
    with IH True show ?thesis by (simp add: chat_turns_def)
  next
    case False
    with c1 have "c1 = c\<lparr>messages := messages c @ [(role_name (msg_role m), msg_content m)]\<rparr>"
      by (simp add: add_chat_message_def)
    with IH False show ?thesis by (simp add: chat_turns_def)
  qed
qed (simp add: chat_turns_def)

lemma process_value_of_prompt:
  "process_prompts (value_of_prompt p) tok =
     (if p = PromptTokens [] then Inl invalid_prompt
      else Inr [PTokens (case p of PromptStr t \<Rightarrow> tok t | PromptTokens ts \<Rightarrow> ts)])"
proof (cases p)
  case (PromptTokens ts)
  then show ?thesis by (cases ts) simp_all
qed simp

lemma make_tool_call_names:
  assumes "res_map (make_tool_call ext i) (enumerate k fns) = Inr calls"
  shows "map (\<lambda>c. call_name (tcall_function c)) calls = map fst fns"
proof -
  have "map (\<lambda>c. call_name (tcall_function c)) calls = map (\<lambda>x. fst (snd x)) (enumerate k fns)"
    using assms unfolding res_map_Inr_iff
    by (induction rule: list_all2_induct) (auto simp: make_tool_call_def split: if_splits)
  also have "\<dots> = map fst (map snd (enumerate k fns))" by (simp only: map_map comp_def)
  also have "\<dots> = map fst fns" by (simp only: map_snd_enumerate)
  finally show ?thesis .
qed

lemma call_output_step_law:
  assumes "call_output_step ext (tcl, ts, rs) (i, t) = Inr (tcl', ts', rs')"
    and "i < length ts" "length tcl = length ts" "length rs = length ts" "ts ! i = t" "tcl ! i = []"
  shows "\<exists>calls t' r. call_result ext t calls t' r
    \<and> tcl' = tcl[i := calls] \<and> ts' = ts[i := t'] \<and> rs' = rs[i := r]"
proof (cases "convert_function_str_to_json ext t")
  case (Inl e)
  with assms have "call_result ext t [] t (Some ''error'') \<and> tcl' = tcl[i := []] \<and> ts' = ts[i := t]
      \<and> rs' = rs[i := Some ''error'']"
    by (auto simp: call_output_step_def call_result_def res_bind_eq_Inr split: if_splits)
      (metis list_update_id)+
  then show ?thesis by blast
next
  case (Inr fns)
  with assms(1) obtain calls where
    calls: "res_map (make_tool_call ext i) (enumerate 0 (map the (filter (\<lambda>f. f \<noteq> None) fns))) = Inr calls"
    and rest: "tcl' = tcl[i := calls]"
      "if calls = [] then ts' = ts[i := invalid_call_text] \<and> rs' = rs[i := Some ''error'']
       else ts' = ts \<and> rs' = rs[i := Some ''tool_calls'']"
    by (auto simp: call_output_step_def res_bind_eq_Inr split: if_splits)
  from make_tool_call_names [OF calls] Inr rest
  have "call_result ext t calls (if calls = [] then invalid_call_text else t)
      (if calls = [] then Some ''error'' else Some ''tool_calls'')"
    by (simp add: call_result_def comp_def)
  moreover have "ts' = ts[i := if calls = [] then invalid_call_text else t]"
    "rs' = rs[i := if calls = [] then Some ''error'' else Some ''tool_calls'']"
    using rest(2) assms(5) by (auto split: if_splits)
  ultimately show ?thesis using rest(1) by blast
qed

lemma call_output_fold:
  assumes "res_fold (call_output_step ext) (replicate (length texts) [], texts, rs)
      (enumerate 0 (take k texts)) = Inr (tcl', ts', rs')"
    and "k \<le> length texts" "length rs = length texts"
  shows "length tcl' = length texts \<and> length ts' = length texts \<and> length rs' = length texts
    \<and> (\<forall>i < length texts. if i < k then call_result ext (texts ! i) (tcl' ! i) (ts' ! i) (rs' ! i)
        else tcl' ! i = [] \<and> ts' ! i = texts ! i \<and> rs' ! i = rs ! i)"
  using assms(1,2)
proof (induction k arbitrary: tcl' ts' rs')
  case 0
  then show ?case using assms(3) by auto
next
  case (Suc k)
  from Suc.prems(2) have k: "k < length texts" by simp
  from Suc.prems(1) k obtain tcl1 ts1 rs1 where
    f: "res_fold (call_output_step ext) (replicate (length texts) [], texts, rs)
      (enumerate 0 (take k texts)) = Inr (tcl1, ts1, rs1)"
    and st: "call_output_step ext (tcl1, ts1, rs1) (k, texts ! k) = Inr (tcl', ts', rs')"
    by (auto simp: take_Suc_conv_app_nth enumerate_append_eq res_fold_append res_bind_eq_Inr min_def)
  have IH: "length tcl1 = length texts" "length ts1 = length texts" "length rs1 = length texts"
    "\<And>i. i < length texts \<Longrightarrow> if i < k then call_result ext (texts ! i) (tcl1 ! i) (ts1 ! i) (rs1 ! i)
        else tcl1 ! i = [] \<and> ts1 ! i = texts ! i \<and> rs1 ! i = rs ! i"
    using Suc.IH [OF f less_imp_le [OF k]] by auto
  from call_output_step_law [OF st] IH(1-3) IH(4) [OF k] k obtain calls t' r where
    "call_result ext (texts ! k) calls t' r" "tcl' = tcl1[k := calls]" "ts' = ts1[k := t']"
    "rs' = rs1[k := r]" by auto
  with IH show ?case
    by (simp add: nth_list_update less_Suc_eq)
qed

section \<open>Properties\<close>

text \<open>
  C18: when a chat request is accepted, every message is valid for its position, the prompts are
  the tokenized prompt of the conversation with all messages filled in (and the prefix tokens in
  front), their total length is the returned one and within the limit, the generation
  configuration has the stop tokens and strings of the template, and exactly the three events of
  request processing are recorded for the request.
\<close>

theorem process_chat_completion_request_spec:
  assumes "process_chat_completion_request ext request rid mc limit conv s
     = (Inr (prompts, cfg, use_fc, len, request'), s')"
  shows "(\<forall>i < length (chat_messages request). message_ok i (chat_messages request ! i))
   \<and> (\<exists>conv1 parts toks.
       check_function_call_usage (ext_dump_function ext) (ext_float_repr ext) request conv = Inr conv1
       \<and> as_prompt (ext_load_b64 ext) (ext_load_http ext)
            (filled_conversation conv1 (chat_messages request)) (Some mc) = Inr parts
       \<and> process_prompts (VList (map prompt_value_of parts)) (ext_encode ext) = Inr toks
       \<and> prepend_prefix_tokens (system_prefix_token_ids conv1) toks = Inr prompts
       \<and> get_generation_config (ReqChat request) (Some (stop_token_ids conv1)) (Some (stop_str conv1))
            = (cfg, request')
       \<and> use_fc = use_function_calling conv1)
   \<and> len = int (sum_list (map tok_prompt_len prompts)) \<and> len \<le> limit
   \<and> s' = logged rid request_events s"
proof -
  from assms obtain conv1 conv2 parts toks where
    valid: "check_message_validity request = Inr ()"
    and fc: "check_function_call_usage (ext_dump_function ext) (ext_float_repr ext) request conv = Inr conv1"
    and fold: "res_fold add_chat_message conv1 (chat_messages request) = Inr conv2"
    and parts: "as_prompt (ext_load_b64 ext) (ext_load_http ext)
        (conv2\<lparr>messages := messages conv2 @ [(''assistant'', None)]\<rparr>) (Some mc) = Inr parts"
    and toks: "process_prompts (VList (map prompt_value_of parts)) (ext_encode ext) = Inr toks"
    and pre: "prepend_prefix_tokens (system_prefix_token_ids conv2) toks = Inr prompts"
    and len: "check_and_get_prompts_length prompts limit = Inr len"
    and cfg: "get_generation_config (ReqChat request) (Some (stop_token_ids conv2)) (Some (stop_str conv2))
        = (cfg, request')"
    and rest: "use_fc = use_function_calling conv2" "s' = logged rid request_events s"
    unfolding process_chat_completion_request_def request_events_def
    by (auto simp: py_bind_eq_Inr Let_def case_prod_beta)
  have conv2: "conv2 = conv1\<lparr>system_message := system_content (system_message conv1) (chat_messages request),
      messages := messages conv1 @ chat_turns (chat_messages request)\<rparr>"
    using add_messages_Inr [OF fold] by simp
  have "len = int (sum_list (map tok_prompt_len prompts)) \<and> len \<le> limit"
    using len by (auto simp: check_and_get_prompts_length_def foldl_prompt_len Let_def split: if_splits)
  moreover have "\<forall>i < length (chat_messages request). message_ok i (chat_messages request ! i)"
    using valid by (simp add: check_message_validity_def check_messages_from_Inr)
  ultimately show ?thesis
    using fc parts toks pre cfg rest by (simp add: conv2 filled_conversation_def)
qed

theorem process_chat_completion_request_witness:
  "\<exists>prompts cfg use_fc len r s'.
     process_chat_completion_request sample_externals
       (ChatCompletionRequest [ChatCompletionMessage User (Some (ContentStr ''hi''))]) ''r'' [] 100
       sample_conversation \<lparr>trace_recorder = Some []\<rparr> = (Inr (prompts, cfg, use_fc, len, r), s')
     \<and> len = int (sum_list (map tok_prompt_len prompts)) \<and> len \<le> 100
     \<and> trace_recorder s' = Some (map (Pair ''r'') request_events)"
proof -
  let ?p = "process_chat_completion_request sample_externals
       (ChatCompletionRequest [ChatCompletionMessage User (Some (ContentStr ''hi''))]) ''r'' [] 100
       sample_conversation \<lparr>trace_recorder = Some []\<rparr>"
  have "\<not> isl (fst ?p)" by code_simp
  then obtain prompts cfg use_fc len r s' where p: "?p = (Inr (prompts, cfg, use_fc, len, r), s')"
    by (cases ?p) (auto simp: not_isl_Inr)
  from process_chat_completion_request_spec [OF p] p show ?thesis
    by (auto simp: logged_def)
qed

text \<open>
  A chat request with an invalid message is refused with a \<open>BadRequestError\<close> before
  anything is tokenized; whatever the error of a request is, the recorded events show how far
  its processing got.
\<close>

theorem process_chat_completion_request_error:
  assumes "process_chat_completion_request ext request rid mc limit conv s = (Inl e, s')"
  shows "(\<exists>k \<in> {1, 2, 3}. s' = logged rid (take k request_events) s)
    \<and> ((\<exists>i < length (chat_messages request). \<not> message_ok i (chat_messages request ! i)) \<longrightarrow>
        s' = logged rid [''receive request''] s \<and> (\<exists>t. e = BadRequestError t))"
proof
  show "\<exists>k \<in> {1, 2, 3}. s' = logged rid (take k request_events) s"
    using assms unfolding process_chat_completion_request_def request_events_def
    by (auto simp: py_bind_eq_Inl Let_def case_prod_beta)
  show "(\<exists>i < length (chat_messages request). \<not> message_ok i (chat_messages request ! i)) \<longrightarrow>
        s' = logged rid [''receive request''] s \<and> (\<exists>t. e = BadRequestError t)"
  proof
    assume "\<exists>i < length (chat_messages request). \<not> message_ok i (chat_messages request ! i)"
    then obtain e1 where e1: "check_message_validity request = Inl e1"
      using check_messages_from_Inr [of 0 "chat_messages request"]
      by (cases "check_message_validity request") (auto simp: check_message_validity_def)
    then have "\<exists>t. e1 = BadRequestError t"
      using check_messages_from_Inl [of 0 "chat_messages request" e1]
      by (auto simp: check_message_validity_def check_one_message_def split: if_splits)
    with assms e1 show "s' = logged rid [''receive request''] s \<and> (\<exists>t. e = BadRequestError t)"
      unfolding process_chat_completion_request_def
      by (auto simp: py_bind_eq_Inl check_unsupported_fields_def get_unsupported_fields_def Let_def)
  qed
qed

theorem process_chat_completion_request_error_witness:
  "\<exists>e s'. process_chat_completion_request sample_externals
       (ChatCompletionRequest [ChatCompletionMessage User (Some (ContentStr ''hi'')),
          ChatCompletionMessage System (Some (ContentStr ''s''))]) ''r'' [] 100
       sample_conversation \<lparr>trace_recorder = Some []\<rparr> = (Inl e, s')
     \<and> trace_recorder s' = Some [(''r'', ''receive request'')] \<and> (\<exists>t. e = BadRequestError t)"
proof -
  let ?ms = "[ChatCompletionMessage User (Some (ContentStr ''hi'')),
          ChatCompletionMessage System (Some (ContentStr ''s''))]"
  let ?p = "process_chat_completion_request sample_externals (ChatCompletionRequest ?ms) ''r'' [] 100
       sample_conversation \<lparr>trace_recorder = Some []\<rparr>"
  have "isl (fst ?p)" by code_simp
  then obtain e s' where p: "?p = (Inl e, s')" by (cases ?p) (auto simp: isl_def)
  have "\<not> message_ok 1 (chat_messages (ChatCompletionRequest ?ms) ! 1)
      \<and> 1 < length (chat_messages (ChatCompletionRequest ?ms))" by code_simp
  with process_chat_completion_request_error [OF p] p show ?thesis by (auto simp: logged_def)
qed

text \<open>
  When a completion request is accepted, the prompt is the given token list or the tokens of
  the given text, its length is within the limit, and exactly when \<open>echo\<close> is set there is an
  echo response with the decoded prompt once for every generation.
\<close>

theorem process_completion_request_spec:
  fixes ext :: "'img externals"
  assumes "process_completion_request ext request rid limit conv s
     = (Inr (prompt, cfg, len, echo, request'), s')"
  shows "creq_best_of request = 1
   \<and> prompt = (case creq_prompt request of PromptStr t \<Rightarrow> ext_encode ext t | PromptTokens ts \<Rightarrow> ts)
   \<and> (creq_prompt request \<noteq> PromptTokens [])
   \<and> len = int (length prompt) \<and> len \<le> limit
   \<and> get_generation_config (ReqCompletion request) (Some (stop_token_ids conv)) (Some (stop_str conv))
       = (cfg, request')
   \<and> echo = (if creq_echo request
       then Some \<lparr>cresp_id = rid,
              cresp_choices = map (\<lambda>i. \<lparr>cch_finish_reason = None, cch_index = i, cch_logprobs = None,
                                     cch_text = ext_decode ext prompt\<rparr>) [0..<nat (gc_n cfg)],
              cresp_model = creq_model request, cresp_usage = None\<rparr>
       else None)
   \<and> s' = logged rid request_events s"
proof -
  from assms obtain prompts where
    best: "creq_best_of request = 1"
    and ps: "process_prompts (value_of_prompt (creq_prompt request) :: 'img prompt_value) (ext_encode ext)
        = Inr prompts"
    and len: "check_and_get_prompts_length prompts limit = Inr len"
    and prompt: "the_token_prompt prompts = Inr prompt"
    and cfg: "get_generation_config (ReqCompletion request) (Some (stop_token_ids conv))
        (Some (stop_str conv)) = (cfg, request')"
    and echo: "creq_echo request \<longrightarrow> (\<exists>cs. res_map (\<lambda>i.
          CompletionResponseChoice i None (ext_decode ext prompt) None) [0..<nat (gc_n cfg)] = Inr cs
        \<and> echo = Some \<lparr>cresp_id = rid, cresp_choices = cs, cresp_model = creq_model request,
                       cresp_usage = None\<rparr>)" "\<not> creq_echo request \<longrightarrow> echo = None"
    and s': "s' = logged rid request_events s"
    unfolding process_completion_request_def request_events_def
    by (auto simp: py_bind_eq_Inr Let_def case_prod_beta check_unsupported_fields_def
        get_unsupported_fields_def split: if_splits)
  have one: "prompts = [PTokens prompt]"
    "prompt = (case creq_prompt request of PromptStr t \<Rightarrow> ext_encode ext t | PromptTokens ts \<Rightarrow> ts)"
    "creq_prompt request \<noteq> PromptTokens []"
    using ps prompt by (auto simp: process_value_of_prompt split: if_splits)
  have "len = int (length prompt) \<and> len \<le> limit"
    using len by (auto simp: check_and_get_prompts_length_def Let_def one(1) split: if_splits)
  moreover have "res_map (\<lambda>i. CompletionResponseChoice i None (ext_decode ext prompt) None)
        [0..<nat (gc_n cfg)] = Inr (map (\<lambda>i. \<lparr>cch_finish_reason = None, cch_index = i,
        cch_logprobs = None, cch_text = ext_decode ext prompt\<rparr>) [0..<nat (gc_n cfg)])"
    by (rule res_map_total) (simp add: CompletionResponseChoice_def)
  ultimately show ?thesis using best one cfg echo s' by auto
qed

theorem process_completion_request_witness:
  "\<exists>prompt cfg len echo r s'.
     process_completion_request sample_externals ((CompletionRequest (PromptStr ''hi''))\<lparr>creq_echo := True\<rparr>)
       ''r'' 100 sample_conversation \<lparr>trace_recorder = None\<rparr> = (Inr (prompt, cfg, len, echo, r), s')
     \<and> prompt = [104, 105] \<and> len = 2 \<and> map cch_text (cresp_choices (the echo)) = [''hi'']"
proof -
  let ?r = "(CompletionRequest (PromptStr ''hi''))\<lparr>creq_echo := True\<rparr>"
  let ?p = "process_completion_request sample_externals ?r ''r'' 100 sample_conversation
      \<lparr>trace_recorder = None\<rparr>"
  have "\<not> isl (fst ?p)" by code_simp
  then obtain prompt cfg len echo r s' where p: "?p = (Inr (prompt, cfg, len, echo, r), s')"
    by (cases ?p) (auto simp: not_isl_Inr)
  have "(case ?p of (Inr (prompt, cfg, len, echo, r), s') \<Rightarrow> gc_n cfg) = 1" by code_simp
  then have "gc_n cfg = 1" by (simp add: p)
  moreover have "ext_encode sample_externals ''hi'' = [104, 105]"
    "ext_decode sample_externals [104, 105] = ''hi''" by code_simp+
  ultimately show ?thesis using process_completion_request_spec [OF p] p
    by (auto simp: CompletionRequest_def)
qed

text \<open>
  \<open>process_function_call_output\<close> leaves the answers alone when no generation ended with
  \<open>tool_calls\<close>; otherwise each generation gets the calls its text parses to and keeps the
  reason \<open>tool_calls\<close>, or, when the text has no call, the reason \<open>error\<close> and the fixed error
  text. When parsing fails the reason is \<open>error\<close> too, but the text stays the unparsable one.
\<close>

theorem process_function_call_output_spec:
  assumes "process_function_call_output ext texts reasons = Inr (use_fc, tcl, texts', reasons')"
    and "length reasons = length texts"
  shows "use_fc = (Some ''tool_calls'' \<in> set reasons)
   \<and> (if use_fc
      then length tcl = length texts \<and> length texts' = length texts \<and> length reasons' = length texts
        \<and> (\<forall>i < length texts. call_result ext (texts ! i) (tcl ! i) (texts' ! i) (reasons' ! i))
      else texts' = texts \<and> reasons' = reasons \<and> tcl = replicate (length texts) [])"
proof (cases "list_ex (\<lambda>r. r = Some ''tool_calls'') reasons")
  case True
  with assms(1) have "use_fc" and
    f: "res_fold (call_output_step ext) (replicate (length texts) [], texts, reasons)
      (enumerate 0 (take (length texts) texts)) = Inr (tcl, texts', reasons')"
    by (auto simp: process_function_call_output_def res_bind_eq_Inr)
  with call_output_fold [OF f _ assms(2)] True show ?thesis by (auto simp: list_ex_iff)
next
  case False
  with assms show ?thesis
    by (auto simp: process_function_call_output_def list_ex_iff)
qed

theorem process_function_call_output_witness:
  "process_function_call_output sample_externals [''f()'', ''x'', ''?'']
     [Some ''tool_calls'', Some ''tool_calls'', Some ''tool_calls''] \<noteq> Inl IndexError
   \<and> (\<exists>tcl texts reasons. process_function_call_output sample_externals [''f()'', ''x'', ''?'']
         [Some ''tool_calls'', Some ''tool_calls'', Some ''tool_calls''] = Inr (True, tcl, texts, reasons)
       \<and> reasons ! 0 = Some ''tool_calls'' \<and> texts ! 1 = invalid_call_text \<and> texts ! 2 = ''?'')"
proof -
  let ?p = "process_function_call_output sample_externals [''f()'', ''x'', ''?'']
     [Some ''tool_calls'', Some ''tool_calls'', Some ''tool_calls'']"
  have "\<not> isl ?p" by code_simp
  then obtain u tcl texts reasons where p: "?p = Inr (u, tcl, texts, reasons)"
    by (auto simp: not_isl_Inr)
  have c: "call_result sample_externals ''f()'' a b c \<Longrightarrow> c = Some ''tool_calls''"
    "call_result sample_externals ''x'' a b c \<Longrightarrow> b = invalid_call_text"
    "call_result sample_externals ''?'' a b c \<Longrightarrow> b = ''?''" for a b c
    by (auto simp: call_result_def convert_function_str_to_json_def sample_externals_def py_index_def
        split: if_splits)
  from process_function_call_output_spec [OF p] have "u" 
    "call_result sample_externals ''f()'' (tcl ! 0) (texts ! 0) (reasons ! 0)"
    "call_result sample_externals ''x'' (tcl ! 1) (texts ! 1) (reasons ! 1)"
    "call_result sample_externals ''?'' (tcl ! 2) (texts ! 2) (reasons ! 2)"
    by (force simp: numeral_2_eq_2)+
  with p c show ?thesis by simp
qed

text \<open>
  C9: streaming a chat completion. For every sequence of well-formed chunks the loop runs to its
  end, and for each generation the texts of the chunks it yields are the generated text, no
  delta lost or repeated though empty ones are skipped, and the first finish reason that is
  yielded is the first one the engine reported (\<open>tool_calls\<close> when function calling is used).
\<close>

theorem chat_stream_text:
  assumes "\<forall>ds \<in> set chunks. chat_chunk_good ext request use_fc ds" and "i < nat (chat_n request)"
  shows "\<exists>ys frs s'.
     gen_loop (\<lambda>frs ds. process_chat_completion_stream_output ext ds request rid use_fc frs)
       (replicate (nat (chat_n request)) None) chunks s = (ys, Inr frs, s')
     \<and> concat (map (\<lambda>c. message_text (sc_delta c))
          (filter (\<lambda>c. sc_index c = i) (concat (map csresp_choices ys)))) = generated_text i chunks
     \<and> first_some (map sc_finish_reason (filter (\<lambda>c. sc_index c = i) (concat (map csresp_choices ys))))
         = map_option (chat_reason use_fc) (generated_reason i chunks)"
  using chat_total.run_good [OF assms, where rid = rid and s = s]
  unfolding chat_out.choices_at_def by blast

theorem chat_stream_text_witness:
  "\<exists>ys frs s'.
     gen_loop (\<lambda>frs ds. process_chat_completion_stream_output sample_externals ds
         (ChatCompletionRequest []) ''r'' False frs)
       (replicate (nat (chat_n (ChatCompletionRequest []))) None) sample_chunks
       \<lparr>trace_recorder = None\<rparr> = (ys, Inr frs, s')
     \<and> concat (map (\<lambda>c. message_text (sc_delta c))
          (filter (\<lambda>c. sc_index c = 0) (concat (map csresp_choices ys)))) = ''abc''"
proof -
  have "\<forall>ds \<in> set sample_chunks. chat_chunk_good sample_externals (ChatCompletionRequest []) False ds"
    by code_simp
  moreover have "generated_text 0 sample_chunks = ''abc''" by code_simp
  ultimately show ?thesis
    using chat_stream_text [of sample_chunks sample_externals "ChatCompletionRequest []" False 0 "''r''"
        "\<lparr>trace_recorder = None\<rparr>"]
    by (auto simp: ChatCompletionRequest_def)
qed

text \<open>
  Streaming a completion: the same for the completion API, where the finish reasons are
  passed on as the engine reports them.
\<close>

theorem completion_stream_text:
  assumes "\<forall>ds \<in> set chunks. completion_chunk_good ext request ds" and "i < nat (creq_n request)"
  shows "\<exists>ys frs s'.
     gen_loop (\<lambda>frs ds. process_completion_stream_output ext ds request rid frs)
       (replicate (nat (creq_n request)) None) chunks s = (ys, Inr frs, s')
     \<and> concat (map cch_text
          (filter (\<lambda>c. cch_index c = i) (concat (map cresp_choices ys)))) = generated_text i chunks
     \<and> first_some (map cch_finish_reason (filter (\<lambda>c. cch_index c = i) (concat (map cresp_choices ys))))
         = generated_reason i chunks"
  using completion_total.run_good [OF assms, where rid = rid and s = s]
  unfolding completion_out.choices_at_def by (simp add: option.map_ident) blast

theorem completion_stream_text_witness:
  "\<exists>ys frs s'.
     gen_loop (\<lambda>frs ds. process_completion_stream_output sample_externals ds
         (CompletionRequest (PromptStr ''x'')) ''r'' frs)
       (replicate (nat (creq_n (CompletionRequest (PromptStr ''x'')))) None) sample_chunks
       \<lparr>trace_recorder = None\<rparr> = (ys, Inr frs, s')
     \<and> concat (map cch_text
          (filter (\<lambda>c. cch_index c = 0) (concat (map cresp_choices ys)))) = ''abc''"
proof -
  have "\<forall>ds \<in> set sample_chunks.
      completion_chunk_good sample_externals (CompletionRequest (PromptStr ''x'')) ds"
    by code_simp
  moreover have "generated_text 0 sample_chunks = ''abc''" by code_simp
  ultimately show ?thesis
    using completion_stream_text [of sample_chunks sample_externals
        "CompletionRequest (PromptStr ''x'')" 0 "''r''" "\<lparr>trace_recorder = None\<rparr>"]
    by (auto simp: CompletionRequest_def)
qed

end
