(* ===== verification/Async_Engine.thy ===== *)
theory Async_Engine
  imports Stream_Output
begin

text \<open>
  The asynchronous engine of serve/engine.py below the API protocol: \<open>AsyncRequestStream\<close>,
  \<open>EngineState\<close> with its request stream callback (serve/engine\_base.py), and \<open>_generate\<close> and
  \<open>_abort\<close> of \<open>AsyncMLCEngine\<close>. Streams are objects shared between the table
  \<open>async_streamers\<close> and the generators, so they live in a heap and are named by their address.
  The C++ engine is seen through the calls it gets (\<open>as_ffi\<close>) and the callbacks it makes. The
  coroutines of an event loop only switch at \<open>await\<close> and \<open>yield\<close>: the pieces between these
  points are the steps of the relation \<open>astep\<close>.
\<close>

section \<open>AsyncRequestStream\<close>

datatype stream_item = Outputs "callback_output list" | Exc py_error

record request_stream =
  rs_queue :: "stream_item list"
  rs_finished :: bool

definition AsyncRequestStream :: request_stream where
  "AsyncRequestStream = \<lparr>rs_queue = [], rs_finished = False\<rparr>"

definition already_finished :: py_error where
  "already_finished = RuntimeError ''The request has already finished. The stream is not supposed to accept new items.''"

definition stream_push :: "stream_item \<Rightarrow> request_stream \<Rightarrow> request_stream" where
  "stream_push item s =
     (if rs_finished s then s\<lparr>rs_queue := rs_queue s @ [Exc already_finished]\<rparr>
      else s\<lparr>rs_queue := rs_queue s @ [item]\<rparr>)"

definition stream_finish :: "request_stream \<Rightarrow> request_stream" where
  "stream_finish s = \<lparr>rs_queue = rs_queue s @ [Exc StopIteration], rs_finished = True\<rparr>"

text \<open>\<open>__anext__\<close>; \<open>None\<close> when the queue is empty and the coroutine waits.\<close>

datatype anext_result = Yield "callback_output list" | StopAsyncIteration | Raise py_error

fun item_result :: "stream_item \<Rightarrow> anext_result" where
  "item_result (Outputs os) = Yield os"
| "item_result (Exc e) = (if e = StopIteration then StopAsyncIteration else Raise e)"

definition stream_anext :: "request_stream \<Rightarrow> (anext_result \<times> request_stream) option" where
  "stream_anext s =
     (case rs_queue s of
        [] \<Rightarrow> None
      | item # rest \<Rightarrow> Some (item_result item, s\<lparr>rs_queue := rest\<rparr>))"

section \<open>EngineState\<close>

text \<open>The text streamer of the tokenizer library: its initial state, \<open>put\<close> and \<open>finish\<close>.\<close>

record 'ts streamer_ops =
  ts_new :: 'ts
  ts_put :: "'ts \<Rightarrow> int list \<Rightarrow> string \<times> 'ts"
  ts_finish :: "'ts \<Rightarrow> string \<times> 'ts"

datatype ffi_call = AddRequest string | AbortRequest string

record 'ts async_state = trace_state +
  as_event_loop :: bool
  as_streamers :: "(string \<times> nat \<times> 'ts list) list"
  as_streams :: "request_stream list"
  as_pending :: "raw_stream_output list list"
  as_ffi :: "ffi_call list"

definition async_lazy_init_event_loop :: "('ts async_state, unit) py" where
  "async_lazy_init_event_loop = py_modify (\<lambda>s. s\<lparr>as_event_loop := True\<rparr>)"

text \<open>Schedules the callback in the event loop, which must have been set.\<close>

definition async_request_stream_callback ::
  "raw_stream_output list \<Rightarrow> ('ts async_state, unit) py" where
  "async_request_stream_callback delta_outputs =
     py_bind (py_get as_event_loop) (\<lambda>set_up.
       if set_up then py_modify (\<lambda>s. s\<lparr>as_pending := as_pending s @ [delta_outputs]\<rparr>)
       else py_raise (AttributeError ''call_soon_threadsafe''))"

definition update_stream ::
  "nat \<Rightarrow> (request_stream \<Rightarrow> request_stream) \<Rightarrow> ('ts async_state, unit) py" where
  "update_stream a f = py_modify (\<lambda>s. s\<lparr>as_streams := (as_streams s)[a := f (as_streams s ! a)]\<rparr>)"

text \<open>\<open>dict.pop(key, None)\<close>\<close>

definition dict_pop :: "('k \<times> 'v) list \<Rightarrow> 'k \<Rightarrow> ('k \<times> 'v) list" where
  "dict_pop d k = filter (\<lambda>(k', v). k' \<noteq> k) d"

text \<open>
  The loop over the outputs and the text streamers of a request; the streamers are objects, so
  their new states come back.
\<close>

definition detokenize_one ::
  "'ts streamer_ops \<Rightarrow> single_output \<Rightarrow> 'ts \<Rightarrow> callback_output \<times> 'ts" where
  "detokenize_one ops out t =
     (let (text1, t1) = (if length (so_delta_token_ids out) > 0
                         then ts_put ops t (so_delta_token_ids out) else ([], t));
          (text2, t2) = (if so_finish_reason out \<noteq> None then ts_finish ops t1 else ([], t1))
      in (\<lparr>cb_delta_text = so_extra_prefix_string out @ text1 @ text2,
           cb_delta_logprob_json_strs = so_delta_logprob_json_strs out,
           cb_finish_reason = so_finish_reason out, cb_request_final_usage_json_str = None\<rparr>, t2))"

fun detokenize ::
  "'ts streamer_ops \<Rightarrow> string \<Rightarrow> single_output list \<Rightarrow> 'ts list
     \<Rightarrow> ('s trace_state_scheme, callback_output list \<times> 'ts list) py" where
  "detokenize ops request_id (out # outs) (t # ts) =
     py_bind (record_event request_id ''start detokenization'') (\<lambda>_.
     py_bind (py_return (detokenize_one ops out t)) (\<lambda>(d, t').
     py_bind (record_event request_id ''finish detokenization'') (\<lambda>_.
     py_bind (detokenize ops request_id outs ts) (\<lambda>(ds, ts').
     py_return (d # ds, t' # ts')))))"
| "detokenize ops request_id _ ts = py_return ([], ts)"

definition final_output :: "string option \<Rightarrow> callback_output" where
  "final_output usage =
     \<lparr>cb_delta_text = [], cb_delta_logprob_json_strs = None, cb_finish_reason = None,
      cb_request_final_usage_json_str = usage\<rparr>"

definition async_callback_one :: "'ts streamer_ops \<Rightarrow> raw_stream_output \<Rightarrow> ('ts async_state, unit) py" where
  "async_callback_one ops delta_output =
     py_bind (py_lift (unpack delta_output)) (\<lambda>(request_id, stream_outputs).
     py_bind (py_get (\<lambda>s. map_of (as_streamers s) request_id)) (\<lambda>streamers.
     case streamers of
       None \<Rightarrow> py_return ()
     | Some (stream, text_streamers) \<Rightarrow>
         py_bind (record_event request_id ''start callback'') (\<lambda>_.
         py_bind (py_lift (py_index stream_outputs 0)) (\<lambda>out0.
         if so_request_final_usage_json_str out0 \<noteq> None
         then py_bind (update_stream stream (stream_push
                         (Outputs [final_output (so_request_final_usage_json_str out0)]))) (\<lambda>_.
              py_bind (update_stream stream stream_finish) (\<lambda>_.
              py_modify (\<lambda>s. s\<lparr>as_streamers := dict_pop (as_streamers s) request_id\<rparr>)))
         else py_bind (detokenize ops request_id stream_outputs text_streamers) (\<lambda>(outputs, ts').
              py_bind (py_modify (\<lambda>s. s\<lparr>as_streamers :=
                         dict_set (as_streamers s) request_id (stream, ts')\<rparr>)) (\<lambda>_.
              py_bind (update_stream stream (stream_push (Outputs outputs))) (\<lambda>_.
              record_event request_id ''finish callback'')))))))"

definition async_request_stream_callback_impl ::
  "'ts streamer_ops \<Rightarrow> raw_stream_output list \<Rightarrow> ('ts async_state, unit) py" where
  "async_request_stream_callback_impl ops delta_outputs = py_for delta_outputs (async_callback_one ops)"

section \<open>AsyncMLCEngine: generation\<close>

definition abort :: "string \<Rightarrow> ('ts async_state, unit) py" where
  "abort request_id =
     py_modify (\<lambda>s. s\<lparr>as_streamers := dict_pop (as_streamers s) request_id,
                      as_ffi := as_ffi s @ [AbortRequest request_id]\<rparr>)"

definition duplicate_id :: "string \<Rightarrow> py_error" where
  "duplicate_id request_id =
     RuntimeError (''The request id '' @ [CHR 0x22] @ request_id
       @ '' already exists. Please make sure the request id is unique.'' @ [CHR 0x22])"

text \<open>
  \<open>_generate\<close> up to the loop over the stream; the result is the address of the new stream.
  \<open>create_request\<close> is the C++ function of that name.
\<close>

definition generate_start ::
  "'ts streamer_ops \<Rightarrow> (string \<Rightarrow> 'img engine_data list \<Rightarrow> generation_config \<Rightarrow> unit res) \<Rightarrow> bool
     \<Rightarrow> 'img prompt_value \<Rightarrow> generation_config \<Rightarrow> string \<Rightarrow> ('ts async_state, nat) py" where
  "generate_start ops create_request terminated prompt cfg request_id =
     (if terminated then py_raise (ValueError ''The AsyncThreadedEngine has terminated.'')
      else
        py_bind async_lazy_init_event_loop (\<lambda>_.
        py_bind (py_lift (convert_prompts_to_data prompt)) (\<lambda>input_data.
        py_bind (py_lift (create_request request_id input_data cfg)) (\<lambda>_.
        py_bind (py_get (\<lambda>s. length (as_streams s))) (\<lambda>stream.
        py_bind (py_modify (\<lambda>s. s\<lparr>as_streams := as_streams s @ [AsyncRequestStream]\<rparr>)) (\<lambda>_.
        py_bind (py_get (\<lambda>s. map_of (as_streamers s) request_id)) (\<lambda>known.
        py_bind
          (if known \<noteq> None
           then update_stream stream (stream_push (Exc (duplicate_id request_id)))
           else py_modify (\<lambda>s. s\<lparr>as_streamers := dict_set (as_streamers s) request_id
                    (stream, replicate (nat (gc_n cfg)) (ts_new ops)),
                  as_ffi := as_ffi s @ [AddRequest request_id]\<rparr>))
          (\<lambda>_. py_return stream))))))))"

text \<open>
  One round of the loop over the stream, in the cleanup scope: the state when the next item is
  there, together with what the generator does; and the state when the generator is closed or
  its task cancelled while it is suspended.
\<close>

definition generate_next ::
  "string \<Rightarrow> nat \<Rightarrow> 'ts async_state \<Rightarrow> (callback_output list option res \<times> 'ts async_state) option" where
  "generate_next request_id stream s =
     (case stream_anext (as_streams s ! stream) of
        None \<Rightarrow> None
      | Some (r, st) \<Rightarrow>
          Some (error_cleanup_scope (abort request_id)
            (case r of
               Yield os \<Rightarrow> py_return (Some os)
             | StopAsyncIteration \<Rightarrow> py_return None
             | Raise e \<Rightarrow> py_raise e)
            (s\<lparr>as_streams := (as_streams s)[stream := st]\<rparr>)))"

definition generate_close :: "string \<Rightarrow> py_error \<Rightarrow> 'ts async_state \<Rightarrow> unit res \<times> 'ts async_state" where
  "generate_close request_id e = error_cleanup_scope (abort request_id) (py_raise e)"

section \<open>The engine with its generators\<close>

datatype gen_status = Running | Finished | Failed py_error

record gen =
  g_rid :: string
  g_out :: "callback_output list list"
  g_status :: gen_status

type_synonym 'ts async_system = "'ts async_state \<times> gen list"

text \<open>
  The generator at position \<open>a\<close> reads the stream at address \<open>a\<close>: a start creates both. The
  backend may make any callback once the event loop is known, the engine may be terminated at any
  time, and \<open>abort\<close> of the engine may be called with any id.
\<close>

inductive astep ::
  "'ts streamer_ops \<Rightarrow> (string \<Rightarrow> 'img engine_data list \<Rightarrow> generation_config \<Rightarrow> unit res)
     \<Rightarrow> 'ts async_system \<Rightarrow> 'ts async_system \<Rightarrow> bool"
  for ops create where
  start: "generate_start ops create terminated prompt cfg rid s = (Inr a, s') \<Longrightarrow>
     astep ops create (s, gs) (s', gs @ [\<lparr>g_rid = rid, g_out = [], g_status = Running\<rparr>])"
| start_error: "generate_start ops create terminated prompt cfg rid s = (Inl e, s') \<Longrightarrow>
     astep ops create (s, gs) (s', gs)"
| backend: "async_request_stream_callback ds s = (r, s') \<Longrightarrow>
     astep ops create (s, gs) (s', gs)"
| callback: "as_pending s = ds # rest \<Longrightarrow>
     async_request_stream_callback_impl ops ds (s\<lparr>as_pending := rest\<rparr>) = (r, s') \<Longrightarrow>
     astep ops create (s, gs) (s', gs)"
| yielded: "a < length gs \<Longrightarrow> g_status (gs ! a) = Running \<Longrightarrow>
     generate_next (g_rid (gs ! a)) a s = Some (Inr (Some os), s') \<Longrightarrow>
     astep ops create (s, gs) (s', gs[a := (gs ! a)\<lparr>g_out := g_out (gs ! a) @ [os]\<rparr>])"
| ended: "a < length gs \<Longrightarrow> g_status (gs ! a) = Running \<Longrightarrow>
     generate_next (g_rid (gs ! a)) a s = Some (Inr None, s') \<Longrightarrow>
     astep ops create (s, gs) (s', gs[a := (gs ! a)\<lparr>g_status := Finished\<rparr>])"
| raised: "a < length gs \<Longrightarrow> g_status (gs ! a) = Running \<Longrightarrow>
     generate_next (g_rid (gs ! a)) a s = Some (Inl e, s') \<Longrightarrow>
     astep ops create (s, gs) (s', gs[a := (gs ! a)\<lparr>g_status := Failed e\<rparr>])"
| closed: "a < length gs \<Longrightarrow> g_status (gs ! a) = Running \<Longrightarrow>
     generate_close (g_rid (gs ! a)) e s = (r, s') \<Longrightarrow>
     astep ops create (s, gs) (s', gs[a := (gs ! a)\<lparr>g_status := Failed e\<rparr>])"
| aborted: "abort rid s = (r, s') \<Longrightarrow> astep ops create (s, gs) (s', gs)"

definition async_init :: "bool \<Rightarrow> 'ts async_system" where
  "async_init enable_tracing =
     (\<lparr>trace_recorder = (if enable_tracing then Some [] else None), as_event_loop = False,
       as_streamers = [], as_streams = [], as_pending = [], as_ffi = []\<rparr>, [])"

inductive areach ::
  "'ts streamer_ops \<Rightarrow> (string \<Rightarrow> 'img engine_data list \<Rightarrow> generation_config \<Rightarrow> unit res)
     \<Rightarrow> 'ts async_system \<Rightarrow> bool"
  for ops create where
  init: "areach ops create (async_init tr)"
| step: "areach ops create \<sigma> \<Longrightarrow> astep ops create \<sigma> \<sigma>' \<Longrightarrow>
     areach ops create \<sigma>'"

text \<open>What the loop over the outputs computes, without the events.\<close>

fun detokenized :: "'ts streamer_ops \<Rightarrow> single_output list \<Rightarrow> 'ts list \<Rightarrow> callback_output list \<times> 'ts list" where
  "detokenized ops (out # outs) (t # ts) =
     (let (d, t') = detokenize_one ops out t; (ds, ts') = detokenized ops outs ts
      in (d # ds, t' # ts'))"
| "detokenized ops _ ts = ([], ts)"

text \<open>The effect of one delta output on the table and the streams.\<close>

definition push_final :: "string \<Rightarrow> request_stream \<Rightarrow> request_stream" where
  "push_final u st = stream_finish (stream_push (Outputs [final_output (Some u)]) st)"

text \<open>The output of a generation that ended: normal chunks, then the chunk with the usage.\<close>

definition complete_output :: "callback_output list list \<Rightarrow> bool" where
  "complete_output h \<longleftrightarrow> h \<noteq> [] \<and> final_chunk (last h) \<and> list_all (\<lambda>c. \<not> final_chunk c) (butlast h)"

definition stream_inv :: "request_stream \<Rightarrow> gen \<Rightarrow> bool" where
  "stream_inv st g \<longleftrightarrow>
     (if rs_finished st
      then if g_status g = Finished then rs_queue st = [] \<and> complete_output (g_out g)
           else \<exists>os. rs_queue st = map Outputs os @ [Exc StopIteration] \<and> complete_output (g_out g @ os)
      else g_status g \<noteq> Finished \<and> list_all (\<lambda>c. \<not> final_chunk c) (g_out g) \<and>
        ((\<exists>os. rs_queue st = map Outputs os \<and> list_all (\<lambda>c. \<not> final_chunk c) os)
         \<or> rs_queue st = [Exc (duplicate_id (g_rid g))] \<and> g_out g = []))"

definition entry_inv :: "request_stream list \<Rightarrow> gen list \<Rightarrow> string \<times> nat \<times> 'ts list \<Rightarrow> bool" where
  "entry_inv streams gs = (\<lambda>(rid, a, ts). a < length gs \<and> g_rid (gs ! a) = rid
     \<and> g_status (gs ! a) = Running \<and> \<not> rs_finished (streams ! a)
     \<and> (\<exists>os. rs_queue (streams ! a) = map Outputs os))"

definition async_inv :: "'ts async_system \<Rightarrow> bool" where
  "async_inv = (\<lambda>(s, gs). length (as_streams s) = length gs \<and> distinct (map fst (as_streamers s))
     \<and> list_all (entry_inv (as_streams s) gs) (as_streamers s)
     \<and> (\<forall>a < length gs. stream_inv (as_streams s ! a) (gs ! a)))"

text \<open>A run of the engine with one request, for the witnesses.\<close>

definition sample_ops :: "unit streamer_ops" where
  "sample_ops = \<lparr>ts_new = (), ts_put = (\<lambda>t ids. (map (\<lambda>i. char_of (nat i)) ids, t)), ts_finish = (\<lambda>t. ([], t))\<rparr>"

definition sample_create :: "string \<Rightarrow> unit engine_data list \<Rightarrow> generation_config \<Rightarrow> unit res" where
  "sample_create rid input cfg = Inr ()"

definition sample_cfg :: generation_config where
  "sample_cfg = openai_api_get_generation_config (ReqCompletion (CompletionRequest (PromptStr ''x'')))"

definition sample_raw :: "string \<Rightarrow> int list \<Rightarrow> string option \<Rightarrow> string option \<Rightarrow> raw_stream_output" where
  "sample_raw rid ids reason usage =
     \<lparr>raw_request_id = rid, raw_delta_token_ids = [ids], raw_logprobs = None,
      raw_finish_reasons = [reason], raw_final_usage = usage, raw_extra_prefix = [[]]\<rparr>"

definition sample_outputs :: "raw_stream_output list" where
  "sample_outputs = [sample_raw ''r'' [97] None None, sample_raw ''q'' [98] None None,
     sample_raw ''r'' [99] (Some ''stop'') None, sample_raw ''r'' [] None (Some ''{}'')]"

definition sample_started :: "unit async_state" where
  "sample_started = snd (generate_start sample_ops sample_create False (VList [VInt 1]) sample_cfg ''r''
     (fst (async_init True)))"

definition sample_scheduled :: "unit async_state" where
  "sample_scheduled = snd (async_request_stream_callback sample_outputs sample_started)"

definition sample_called :: "unit async_state" where
  "sample_called = snd (async_request_stream_callback_impl sample_ops sample_outputs
     (sample_scheduled\<lparr>as_pending := []\<rparr>))"

definition sample_gen :: gen where
  "sample_gen = \<lparr>g_rid = ''r'', g_out = [], g_status = Running\<rparr>"

section \<open>Lemmas\<close>

lemma logged_Nil [simp]: "logged r [] s = s"
  by (cases "trace_recorder s") (simp_all add: logged_def)

lemma record_event_eq: "record_event r e s = (Inr (), logged r [e] s)"
  by simp

lemma detokenize_run:
  "detokenize ops rid outs ts s =
     (Inr (detokenized ops outs ts),
      logged rid (concat (replicate (min (length outs) (length ts))
        [''start detokenization'', ''finish detokenization''])) s)"
proof (induction ops rid outs ts arbitrary: s rule: detokenize.induct)
  case (1 ops rid out outs t ts)
  show ?case
    by (cases "detokenize_one ops out t"; cases "detokenized ops outs ts")
      (simp add: py_bind_def "1.IH" record_event_eq py_return_def)
qed (simp_all add: py_return_def)

lemma detokenized_no_usage:
  "list_all (\<lambda>d. cb_request_final_usage_json_str d = None) (fst (detokenized ops outs ts))"
proof (induction ops outs ts rule: detokenized.induct)
  case (1 ops out outs t ts)
  then show ?case
    by (cases "detokenized ops outs ts")
      (auto simp: detokenize_one_def case_prod_beta Let_def)
qed auto

lemma map_of_dict_pop: "map_of (dict_pop d k) = (map_of d)(k := None)"
  by (induction d) (auto simp: dict_pop_def fun_eq_iff)

lemma set_dict_pop: "set (dict_pop d k) = {(k', v) \<in> set d. k' \<noteq> k}"
  by (auto simp: dict_pop_def)

lemma distinct_dict_pop: "distinct (map fst d) \<Longrightarrow> distinct (map fst (dict_pop d k))"
  by (auto simp: dict_pop_def distinct_map_filter)

lemma distinct_dict_set: "distinct (map fst d) \<Longrightarrow> distinct (map fst (dict_set d k v))"
  by (auto simp: dict_set_keys)

lemma logged_fields [simp]:
  "as_streamers (logged r es s) = as_streamers s" "as_streams (logged r es s) = as_streams s"
  "as_pending (logged r es s) = as_pending s" "as_ffi (logged r es s) = as_ffi s"
  "as_event_loop (logged r es s) = as_event_loop s"
  by (simp_all add: logged_def)

lemma unpack_rid: "unpack raw = Inr (rid, outs) \<Longrightarrow> rid = raw_request_id raw"
  by (auto simp: unpack_def res_bind_eq_Inr split: option.splits)

lemma list_update_update_nth: "xs[a := f (xs[a := v] ! a)] = xs[a := f v]"
  by (cases "a < length xs") (simp_all add: list_update_beyond)

lemma callback_one_cases:
  assumes "async_callback_one ops d s = (r, s')"
  obtains (same) "as_streamers s' = as_streamers s" "as_streams s' = as_streams s"
      "as_pending s' = as_pending s"
      "\<not> isl r \<Longrightarrow> map_of (as_streamers s) (raw_request_id d) = None"
  | (final) a ts u where "r = Inr ()" "map_of (as_streamers s) (raw_request_id d) = Some (a, ts)"
      "raw_final_usage d = Some u"
      "as_streamers s' = dict_pop (as_streamers s) (raw_request_id d)"
      "as_streams s' = (as_streams s)[a := push_final u (as_streams s ! a)]"
      "as_pending s' = as_pending s"
  | (normal) a ts outs where "r = Inr ()" "map_of (as_streamers s) (raw_request_id d) = Some (a, ts)"
      "raw_final_usage d = None" "unpack d = Inr (raw_request_id d, outs)" "outs \<noteq> []"
      "as_streamers s' = dict_set (as_streamers s) (raw_request_id d) (a, snd (detokenized ops outs ts))"
      "as_streams s' = (as_streams s)[a := stream_push (Outputs (fst (detokenized ops outs ts))) (as_streams s ! a)]"
      "as_pending s' = as_pending s"
proof (cases "unpack d")
  case (Inl e)
  with assms have "r = Inl e" "s' = s" by (auto simp: async_callback_one_def py_bind_lift)
  then show ?thesis by (intro same) auto
next
  case (Inr p)
  then obtain outs where un: "unpack d = Inr (raw_request_id d, outs)"
    using unpack_rid by (cases p) auto
  show ?thesis
  proof (cases "map_of (as_streamers s) (raw_request_id d)")
    case None
    with assms un have "s' = s" by (auto simp: async_callback_one_def py_bind_def py_get_def py_lift_def)
    with None show ?thesis by (intro same) auto
  next
    case (Some at)
    then obtain a ts where at: "map_of (as_streamers s) (raw_request_id d) = Some (a, ts)"
      by (metis prod.exhaust)
    show ?thesis
    proof (cases outs)
      case Nil
      with assms un at have "s' = logged (raw_request_id d) [''start callback''] s" "r = Inl IndexError"
        by (auto simp: async_callback_one_def py_bind_lift py_bind_def py_get_def record_event_eq
            py_index_def py_lift_def split: sum.splits prod.splits)
      then show ?thesis by (intro same) auto
    next
      case (Cons o0 os)
      show ?thesis
      proof (cases "raw_final_usage d")
        case None
        then have "so_request_final_usage_json_str o0 = None"
          using un Cons by (auto simp: unpack_def res_bind_eq_Inr res_map_Inr_iff list_all2_Cons2
              split: option.splits)
        with assms un at Cons show ?thesis
          by (intro normal [OF _ at None un])
            (auto simp: async_callback_one_def py_bind_def py_lift_def py_get_def record_event_eq
              py_index_def update_stream_def py_modify_def detokenize_run case_prod_beta)
      next
        case (Some u)
        then have "so_request_final_usage_json_str o0 = Some u"
          using un Cons by (auto simp: unpack_def)
        with assms un at Cons Some show ?thesis
          by (intro final [OF _ at Some])
            (auto simp: async_callback_one_def py_bind_def py_lift_def py_get_def record_event_eq
              py_index_def update_stream_def py_modify_def push_final_def list_update_update_nth)
      qed
    qed
  qed
qed

lemma py_for_preserves:
  assumes "py_for xs f s = (r, s')" "P s" and "\<And>x s r s'. P s \<Longrightarrow> f x s = (r, s') \<Longrightarrow> P s'"
  shows "P s'"
  using assms(1,2)
proof (induction xs arbitrary: s)
  case (Cons x xs)
  obtain q t where t: "f x s = (q, t)" by fastforce
  with Cons.prems assms(3) have "P t" by blast
  with Cons t show ?case by (cases q) (auto simp: py_bind_def)
qed simp

lemma entry_at:
  assumes "async_inv (s, gs)" and "map_of (as_streamers s) rid = Some (a, ts)"
  shows "a < length gs" "a < length (as_streams s)" "g_rid (gs ! a) = rid" "g_status (gs ! a) = Running"
    "\<not> rs_finished (as_streams s ! a)" "\<exists>os. rs_queue (as_streams s ! a) = map Outputs os"
  using assms map_of_SomeD [OF assms(2)]
  by (auto simp: async_inv_def entry_inv_def list_all_iff)

lemma other_entry:
  assumes "async_inv (s, gs)" and "map_of (as_streamers s) rid = Some (a, ts)"
    and "(rid', b, ts') \<in> set (as_streamers s)" and "rid' \<noteq> rid"
  shows "b \<noteq> a"
proof -
  have "entry_inv (as_streams s) gs (rid', b, ts')"
    using assms(1,3) by (auto simp: async_inv_def list_all_iff)
  with entry_at(3) [OF assms(1,2)] assms(4) show ?thesis by (auto simp: entry_inv_def)
qed

lemma final_output_chunk [simp]: "final_chunk [final_output (Some u)]"
  by (simp add: final_chunk_def final_output_def)

lemma detokenized_chunk [simp]: "\<not> final_chunk (fst (detokenized ops outs ts))"
  using detokenized_no_usage [of ops outs ts]
  by (cases "fst (detokenized ops outs ts)") (auto simp: final_chunk_def)

lemma entry_inv_update:
  "entry_inv (streams[a := st]) gs (rid, b, ts) = 
     (if b = a \<and> a < length streams
      then b < length gs \<and> g_rid (gs ! b) = rid \<and> g_status (gs ! b) = Running \<and> \<not> rs_finished st
        \<and> (\<exists>os. rs_queue st = map Outputs os)
      else entry_inv streams gs (rid, b, ts))"
  by (cases "a < length streams") (auto simp: entry_inv_def nth_list_update list_update_beyond)

lemma map_Outputs_eq [simp]: "map Outputs xs = map Outputs ys \<longleftrightarrow> xs = ys"
  by (simp add: inj_map_eq_map inj_def)

lemma async_inv_update:
  assumes "async_inv (s, gs)" and "as_streams s' = (as_streams s)[a := st]"
    and "stream_inv st (gs ! a)" and "distinct (map fst (as_streamers s'))"
    and "\<And>e. e \<in> set (as_streamers s') \<Longrightarrow> entry_inv (as_streams s') gs e"
  shows "async_inv (s', gs)"
  using assms
  by (cases "a < length (as_streams s)")
    (auto simp: async_inv_def list_all_iff nth_list_update list_update_beyond)

lemma set_dict_set:
  "distinct (map fst d) \<Longrightarrow> set (dict_set d k v) = {(k', v') \<in> set d. k' \<noteq> k} \<union> {(k, v)}"
proof (induction d k v rule: dict_set.induct)
  case (2 k' v' d k v)
  then show ?case by (auto split: if_splits) force+
qed simp

lemma callback_one_inv:
  assumes inv: "async_inv (s, gs)" and run: "async_callback_one ops d s = (r, s')"
  shows "async_inv (s', gs)"
  using run
proof (cases rule: callback_one_cases)
  case same
  with inv show ?thesis by (simp add: async_inv_def)
next
  case (final a ts u)
  note e = entry_at [OF inv final(2)]
  then obtain os where os: "rs_queue (as_streams s ! a) = map Outputs os" by blast
  have st: "stream_inv (as_streams s ! a) (gs ! a)" using inv e(1) by (auto simp: async_inv_def)
  have push: "push_final u (as_streams s ! a) =
      \<lparr>rs_queue = map Outputs (os @ [[final_output (Some u)]]) @ [Exc StopIteration], rs_finished = True\<rparr>"
    using e(5) os by (simp add: push_final_def stream_push_def stream_finish_def)
  have "stream_inv (push_final u (as_streams s ! a)) (gs ! a)"
    using st e(4,5) os unfolding push stream_inv_def
    by (auto simp: complete_output_def butlast_append intro!: exI [of _ "os @ [[final_output (Some u)]]"])
  then show ?thesis
  proof (rule async_inv_update [OF inv final(5)])
    show "distinct (map fst (as_streamers s'))"
      using inv by (simp add: final(4) async_inv_def distinct_dict_pop)
    fix e assume mem: "e \<in> set (as_streamers s')"
    obtain rid b tb where "e = (rid, b, tb)" by (cases e)
    with mem have eq: "e = (rid, b, tb)" "e \<in> set (as_streamers s)" "rid \<noteq> raw_request_id d"
      by (auto simp: final(4) set_dict_pop)
    then have "entry_inv (as_streams s) gs e" using inv by (auto simp: async_inv_def list_all_iff)
    then show "entry_inv (as_streams s') gs e"
      using other_entry [OF inv final(2)] eq by (auto simp: final(5) entry_inv_update)
  qed
next
  case (normal a ts outs)
  note e = entry_at [OF inv normal(2)]
  then obtain os where os: "rs_queue (as_streams s ! a) = map Outputs os" by blast
  let ?c = "fst (detokenized ops outs ts)"
  have st: "stream_inv (as_streams s ! a) (gs ! a)" using inv e(1) by (auto simp: async_inv_def)
  have push: "stream_push (Outputs ?c) (as_streams s ! a) =
      \<lparr>rs_queue = map Outputs (os @ [?c]), rs_finished = False\<rparr>"
    using e(5) os by (cases "as_streams s ! a") (simp add: stream_push_def)
  have "stream_inv (stream_push (Outputs ?c) (as_streams s ! a)) (gs ! a)"
    using st e(4,5) os unfolding push stream_inv_def
    by (auto intro!: exI [of _ "os @ [?c]"])
  moreover have "\<exists>os. rs_queue (stream_push (Outputs ?c) (as_streams s ! a)) = map Outputs os"
    "\<not> rs_finished (stream_push (Outputs ?c) (as_streams s ! a))"
    unfolding push by (auto intro: exI [of _ "os @ [?c]"])
  moreover have d: "distinct (map fst (as_streamers s))" using inv by (simp add: async_inv_def)
  ultimately show ?thesis
  proof (intro async_inv_update [OF inv normal(7)])
    show "distinct (map fst (as_streamers s'))"
      using d by (simp add: normal(6) distinct_dict_set)
    fix e assume mem: "e \<in> set (as_streamers s')"
    obtain rid b tb where "e = (rid, b, tb)" by (cases e)
    with mem consider "e = (raw_request_id d, a, snd (detokenized ops outs ts))"
      | "e = (rid, b, tb)" "e \<in> set (as_streamers s)" "rid \<noteq> raw_request_id d"
      by (auto simp: normal(6) set_dict_set [OF d])
    then show "entry_inv (as_streams s') gs e"
    proof cases
      case 1
      then show ?thesis using e(1-4) push by (simp add: normal(7) entry_inv_update)
        (metis map_append list.map(1,2))
    next
      case 2
      then have "entry_inv (as_streams s) gs e" using inv by (auto simp: async_inv_def list_all_iff)
      then show ?thesis using other_entry [OF inv normal(2)] 2 by (auto simp: normal(7) entry_inv_update)
    qed
  qed
qed

lemma async_init_inv: "async_inv (async_init tr)"
  by (simp add: async_inv_def async_init_def)

lemma generate_start_cases:
  assumes "generate_start ops create terminated prompt cfg rid s = (r, s')"
  obtains (error) e where "r = Inl e" "as_streamers s' = as_streamers s" "as_streams s' = as_streams s"
  | (duplicate) a ts where "r = Inr (length (as_streams s))"
      "map_of (as_streamers s) rid = Some (a, ts)" "as_streamers s' = as_streamers s"
      "as_streams s' = as_streams s @ [\<lparr>rs_queue = [Exc (duplicate_id rid)], rs_finished = False\<rparr>]"
  | (fresh) "r = Inr (length (as_streams s))" "map_of (as_streamers s) rid = None"
      "as_streamers s' = dict_set (as_streamers s) rid
         (length (as_streams s), replicate (nat (gc_n cfg)) (ts_new ops))"
      "as_streams s' = as_streams s @ [AsyncRequestStream]"
      "as_ffi s' = as_ffi s @ [AddRequest rid]"
proof (cases terminated)
  case True
  then show ?thesis using assms by (intro error) (auto simp: generate_start_def)
next
  case False
  show ?thesis
  proof (cases "res_bind (convert_prompts_to_data prompt) (\<lambda>d. create rid d cfg)")
    case (Inl e)
    then show ?thesis
      using assms False
      by (intro error [of e]) (auto simp: generate_start_def async_lazy_init_event_loop_def
          py_modify_def py_bind_def py_lift_def res_bind_eq_Inl split: sum.splits)
  next
    case (Inr u)
    then obtain d where "convert_prompts_to_data prompt = Inr d" "create rid d cfg = Inr ()"
      by (auto simp: res_bind_eq_Inr)
    with assms False have run: "(r, s') =
      (Inr (length (as_streams s)),
       if map_of (as_streamers s) rid \<noteq> None
       then s\<lparr>as_event_loop := True, as_streams := as_streams s
          @ [stream_push (Exc (duplicate_id rid)) AsyncRequestStream]\<rparr>
       else s\<lparr>as_event_loop := True, as_streams := as_streams s @ [AsyncRequestStream],
          as_streamers := dict_set (as_streamers s) rid
            (length (as_streams s), replicate (nat (gc_n cfg)) (ts_new ops)),
          as_ffi := as_ffi s @ [AddRequest rid]\<rparr>)"
      by (auto simp: generate_start_def async_lazy_init_event_loop_def py_modify_def py_bind_def
          py_lift_def py_get_def update_stream_def py_return_def nth_append)
    show ?thesis
    proof (cases "map_of (as_streamers s) rid")
      case None
      with run show ?thesis by (intro fresh) auto
    next
      case (Some p)
      then show ?thesis using run
        by (intro duplicate [of "fst p" "snd p"]) (auto simp: stream_push_def AsyncRequestStream_def)
    qed
  qed
qed

lemma entry_inv_extend:
  "entry_inv streams gs e \<Longrightarrow> length streams = length gs \<Longrightarrow> entry_inv (streams @ [st]) (gs @ [g]) e"
  by (auto simp: entry_inv_def nth_append)

lemma async_inv_extend:
  assumes "async_inv (s, gs)" and "as_streams s' = as_streams s @ [st]" and "stream_inv st g"
    and "distinct (map fst (as_streamers s'))"
    and "\<And>e. e \<in> set (as_streamers s') \<Longrightarrow> entry_inv (as_streams s') (gs @ [g]) e"
  shows "async_inv (s', gs @ [g])"
  using assms by (auto simp: async_inv_def list_all_iff nth_append)

lemma start_inv:
  assumes "async_inv (s, gs)" and "generate_start ops create terminated prompt cfg rid s = (Inr a, s')"
  shows "async_inv (s', gs @ [\<lparr>g_rid = rid, g_out = [], g_status = Running\<rparr>]) \<and> a = length gs"
proof -
  let ?g = "\<lparr>g_rid = rid, g_out = [], g_status = Running\<rparr>"
  have d: "distinct (map fst (as_streamers s))" and len: "length (as_streams s) = length gs"
    and old: "\<And>e. e \<in> set (as_streamers s) \<Longrightarrow> entry_inv (as_streams s) gs e"
    using assms(1) by (auto simp: async_inv_def list_all_iff)
  from assms(2) show ?thesis
  proof (cases rule: generate_start_cases)
    case (duplicate b ts)
    have "async_inv (s', gs @ [?g])"
      by (rule async_inv_extend [OF assms(1) duplicate(4)])
        (auto simp: duplicate stream_inv_def d intro: entry_inv_extend [OF old len])
    with duplicate len show ?thesis by simp
  next
    case fresh
    have "async_inv (s', gs @ [?g])"
    proof (rule async_inv_extend [OF assms(1) fresh(4)])
      fix e assume "e \<in> set (as_streamers s')"
      then consider "e = (rid, length gs, replicate (nat (gc_n cfg)) (ts_new ops))"
        | "e \<in> set (as_streamers s)"
        by (auto simp: fresh set_dict_set [OF d] len)
      then show "entry_inv (as_streams s') (gs @ [?g]) e"
      proof cases
        case 1
        then show ?thesis by (simp add: entry_inv_def fresh nth_append len AsyncRequestStream_def)
      next
        case 2
        from entry_inv_extend [OF old [OF this] len] show ?thesis by (simp add: fresh)
      qed
    qed (simp_all add: fresh distinct_dict_set d stream_inv_def AsyncRequestStream_def)
    with fresh len show ?thesis by simp
  qed auto
qed

lemma error_cleanup_raise:
  "error_cleanup_scope c (py_raise e) s = (case c s of (Inl e', s') \<Rightarrow> (Inl e', s') | (Inr _, s') \<Rightarrow> (Inl e, s'))"
  by (simp add: error_cleanup_scope_def py_raise_def)

lemma generate_close_run:
  "generate_close rid e s = (Inl e, s\<lparr>as_streamers := dict_pop (as_streamers s) rid,
      as_ffi := as_ffi s @ [AbortRequest rid]\<rparr>)"
  by (simp add: generate_close_def error_cleanup_raise abort_def py_modify_def)

lemma generate_next_run:
  "generate_next rid a s =
     (case rs_queue (as_streams s ! a) of
        [] \<Rightarrow> None
      | item # rest \<Rightarrow>
          let s1 = s\<lparr>as_streams := (as_streams s)[a := (as_streams s ! a)\<lparr>rs_queue := rest\<rparr>]\<rparr> in
          Some (case item_result item of
            Yield os \<Rightarrow> (Inr (Some os), s1)
          | StopAsyncIteration \<Rightarrow> (Inr None, s1)
          | Raise e \<Rightarrow> (Inl e, s1\<lparr>as_streamers := dict_pop (as_streamers s) rid,
                               as_ffi := as_ffi s @ [AbortRequest rid]\<rparr>)))"
  by (auto simp: generate_next_def stream_anext_def error_cleanup_raise abort_def py_modify_def
      Let_def error_cleanup_scope_def py_return_def py_raise_def split: list.splits anext_result.splits)

lemma drop_entry_inv:
  assumes inv: "async_inv (s, gs)" and a: "a < length gs" and rid: "g_rid (gs ! a) = rid"
    and st: "as_streamers s' = dict_pop (as_streamers s) rid" "as_streams s' = (as_streams s)[a := st]"
    and g: "g_rid g = rid" "stream_inv st g"
  shows "async_inv (s', gs[a := g])"
proof -
  have len: "length (as_streams s) = length gs" "distinct (map fst (as_streamers s))"
    using inv by (simp_all add: async_inv_def)
  have "entry_inv (as_streams s') (gs[a := g]) e" if "e \<in> set (as_streamers s')" for e
  proof -
    obtain r b tb where eq: "e = (r, b, tb)" by (cases e)
    with that have mem: "e \<in> set (as_streamers s)" "r \<noteq> rid" by (auto simp: st set_dict_pop)
    then have "entry_inv (as_streams s) gs e" using inv by (auto simp: async_inv_def list_all_iff)
    moreover from this mem(2) rid have "b \<noteq> a" by (auto simp: eq entry_inv_def)
    ultimately show ?thesis by (auto simp: eq entry_inv_def st)
  qed
  with inv len a g show ?thesis
    by (auto simp: async_inv_def list_all_iff st distinct_dict_pop nth_list_update)
qed

lemma yield_stream_inv:
  assumes "stream_inv st g" and "rs_queue st = Outputs os # rest"
  shows "stream_inv (st\<lparr>rs_queue := rest\<rparr>) (g\<lparr>g_out := g_out g @ [os]\<rparr>)"
  using assms by (auto simp: stream_inv_def Cons_eq_map_conv Cons_eq_append_conv split: if_splits)

lemma end_stream_inv:
  assumes "stream_inv st g" and "rs_queue st = Exc StopIteration # rest"
  shows "stream_inv (st\<lparr>rs_queue := rest\<rparr>) (g\<lparr>g_status := Finished\<rparr>)"
  using assms by (auto simp: stream_inv_def Cons_eq_map_conv Cons_eq_append_conv duplicate_id_def split: if_splits)

lemma raise_stream_inv:
  assumes "stream_inv st g" and "rs_queue st = Exc e' # rest" and "e' \<noteq> StopIteration"
  shows "stream_inv (st\<lparr>rs_queue := rest\<rparr>) (g\<lparr>g_status := Failed e\<rparr>) \<and> e' = duplicate_id (g_rid g)"
  using assms by (auto simp: stream_inv_def Cons_eq_map_conv Cons_eq_append_conv split: if_splits)

lemma close_stream_inv:
  assumes "stream_inv st g" and "g_status g = Running"
  shows "stream_inv st (g\<lparr>g_status := Failed e\<rparr>)"
  using assms by (auto simp: stream_inv_def split: if_splits)

text \<open>Reading from a stream keeps the table; the generator's stream is not registered by another.\<close>

lemma read_inv:
  assumes inv: "async_inv (s, gs)" and a: "a < length gs"
    and st: "as_streamers s' = as_streamers s" "as_streams s' = (as_streams s)[a := (as_streams s ! a)\<lparr>rs_queue := rest\<rparr>]"
    and q: "rs_queue (as_streams s ! a) = item # rest"
    and g: "g_rid g = g_rid (gs ! a)" "stream_inv ((as_streams s ! a)\<lparr>rs_queue := rest\<rparr>) g"
    and keep: "g_status g = Running \<or> (\<forall>os. item \<noteq> Outputs os)" "g_status g \<noteq> Running \<Longrightarrow> \<forall>os. item \<noteq> Outputs os"
  shows "async_inv (s', gs[a := g])"
proof -
  have len: "length (as_streams s) = length gs" using inv by (simp add: async_inv_def)
  have "entry_inv (as_streams s') (gs[a := g]) e" if "e \<in> set (as_streamers s)" for e
  proof -
    obtain r b tb where eq: "e = (r, b, tb)" by (cases e)
    have old: "entry_inv (as_streams s) gs e" using inv that by (auto simp: async_inv_def list_all_iff)
    show ?thesis
    proof (cases "b = a")
      case True
      with old q have "\<exists>os. item = Outputs os" "\<exists>os. rest = map Outputs os"
        by (auto simp: entry_inv_def eq Cons_eq_map_conv)
      with keep True old a len g(1) show ?thesis by (auto simp: entry_inv_def eq st)
    next
      case False
      with old a len show ?thesis by (auto simp: entry_inv_def eq st)
    qed
  qed
  with inv a len g show ?thesis
    by (auto simp: async_inv_def list_all_iff st nth_list_update)
qed

lemma item_result_iff [simp]:
  "item_result i = Yield os \<longleftrightarrow> i = Outputs os"
  "item_result i = StopAsyncIteration \<longleftrightarrow> i = Exc StopIteration"
  "item_result i = Raise e \<longleftrightarrow> i = Exc e \<and> e \<noteq> StopIteration"
  by (cases i; auto)+

lemma astep_inv:
  assumes "astep ops create \<sigma> \<sigma>'" and "async_inv \<sigma>"
  shows "async_inv \<sigma>'"
  using assms
proof (induction rule: astep.induct)
  case (start terminated prompt cfg rid s a s' gs)
  then show ?case using start_inv by blast
next
  case (start_error terminated prompt cfg rid s e s' gs)
  from start_error(1) have "as_streamers s' = as_streamers s \<and> as_streams s' = as_streams s"
    by (cases rule: generate_start_cases) auto
  with start_error(2) show ?case by (simp add: async_inv_def)
next
  case (backend ds s r s' gs)
  then have "as_streamers s' = as_streamers s \<and> as_streams s' = as_streams s"
    by (auto simp: async_request_stream_callback_def py_bind_def py_get_def py_modify_def py_raise_def
        split: if_splits)
  with backend(2) show ?case by (simp add: async_inv_def)
next
  case (callback s ds rest r s' gs)
  have "async_inv (s\<lparr>as_pending := rest\<rparr>, gs)" using callback(3) by (simp add: async_inv_def)
  with callback(2) show ?case
    unfolding async_request_stream_callback_impl_def
    by (rule py_for_preserves) (rule callback_one_inv)
next
  case (yielded a gs s os s')
  from yielded(3) obtain rest where q: "rs_queue (as_streams s ! a) = Outputs os # rest"
    and s': "s' = s\<lparr>as_streams := (as_streams s)[a := (as_streams s ! a)\<lparr>rs_queue := rest\<rparr>]\<rparr>"
    by (auto simp: generate_next_run Let_def split: list.splits anext_result.splits)
  show ?case
    by (rule read_inv [OF yielded(4,1) _ _ q])
      (use yielded yield_stream_inv [OF _ q] in \<open>auto simp: s' async_inv_def\<close>)
next
  case (ended a gs s s')
  from ended(3) obtain rest where q: "rs_queue (as_streams s ! a) = Exc StopIteration # rest"
    and s': "s' = s\<lparr>as_streams := (as_streams s)[a := (as_streams s ! a)\<lparr>rs_queue := rest\<rparr>]\<rparr>"
    by (auto simp: generate_next_run Let_def split: list.splits anext_result.splits)
  show ?case
    by (rule read_inv [OF ended(4,1) _ _ q])
      (use ended end_stream_inv [OF _ q] in \<open>auto simp: s' async_inv_def\<close>)
next
  case (raised a gs s e s')
  from raised(3) obtain rest where q: "rs_queue (as_streams s ! a) = Exc e # rest" "e \<noteq> StopIteration"
    and s': "s' = s\<lparr>as_streams := (as_streams s)[a := (as_streams s ! a)\<lparr>rs_queue := rest\<rparr>],
        as_streamers := dict_pop (as_streamers s) (g_rid (gs ! a)),
        as_ffi := as_ffi s @ [AbortRequest (g_rid (gs ! a))]\<rparr>"
    by (auto simp: generate_next_run Let_def split: list.splits anext_result.splits)
  show ?case
    by (rule drop_entry_inv [OF raised(4,1) refl])
      (use raised raise_stream_inv [OF _ q] in \<open>auto simp: s' async_inv_def\<close>)
next
  case (closed a gs e s r s')
  have "async_inv (s', gs[a := (gs ! a)\<lparr>g_status := Failed e\<rparr>])"
    by (rule drop_entry_inv [OF closed(4,1) refl, where st = "as_streams s ! a"])
      (use closed close_stream_inv in \<open>auto simp: generate_close_run async_inv_def\<close>)
  then show ?case .
next
  case (aborted rid s r s' gs)
  then show ?case
    by (auto simp: abort_def py_modify_def async_inv_def list_all_iff set_dict_pop distinct_dict_pop)
qed

lemma areach_inv: "areach ops create \<sigma> \<Longrightarrow> async_inv \<sigma>"
  by (induction rule: areach.induct) (auto intro: async_init_inv astep_inv)

lemma owner:
  assumes "async_inv (s, gs)" and "map_of (as_streamers s) r = Some (b, ts)" and "g_rid (gs ! a) \<noteq> r"
  shows "b \<noteq> a"
  using entry_at(3) [OF assms(1,2)] assms(3) by auto

lemma callback_other:
  assumes inv: "async_inv (s, gs)" and run: "async_callback_one ops d s = (r, s')"
    and "raw_request_id d \<noteq> g_rid (gs ! a)"
  shows "as_streams s' ! a = as_streams s ! a \<and>
    map_of (as_streamers s') (g_rid (gs ! a)) = map_of (as_streamers s) (g_rid (gs ! a))"
  using run
proof (cases rule: callback_one_cases)
  case (final b ts u)
  with owner [OF inv final(2)] assms(3) show ?thesis by (simp add: map_of_dict_pop)
next
  case (normal b ts outs)
  with owner [OF inv normal(2)] assms(3) show ?thesis by (simp add: dict_set_lookup)
qed simp

lemma callback_unregistered:
  assumes "async_callback_one ops d s = (r, s')" and "map_of (as_streamers s) (raw_request_id d) = None"
  shows "as_streams s' = as_streams s \<and> as_streamers s' = as_streamers s"
  using assms by (cases rule: callback_one_cases) auto

text \<open>What a delta does to its request depends on the entry and the stream of the request only.\<close>

lemma callback_local:
  assumes "async_callback_one ops d s1 = (Inr (), t1)"
    and "map_of (as_streamers s1) (raw_request_id d) = map_of (as_streamers s2) (raw_request_id d)"
    and "as_streams s1 ! a = as_streams s2 ! a" "a < length (as_streams s1)" "a < length (as_streams s2)"
    and "\<forall>b ts. map_of (as_streamers s1) (raw_request_id d) = Some (b, ts) \<longrightarrow> b = a"
  shows "\<exists>t2. async_callback_one ops d s2 = (Inr (), t2)
    \<and> map_of (as_streamers t1) (raw_request_id d) = map_of (as_streamers t2) (raw_request_id d)
    \<and> as_streams t1 ! a = as_streams t2 ! a \<and> length (as_streams t1) = length (as_streams s1)
    \<and> length (as_streams t2) = length (as_streams s2)"
proof -
  obtain r t2 where t2: "async_callback_one ops d s2 = (r, t2)" by fastforce
  from assms(1) obtain outs where un: "unpack d = Inr (raw_request_id d, outs)"
    using unpack_rid by (cases "unpack d") (auto simp: async_callback_one_def py_bind_lift)
  have r: "r = Inr ()"
    using assms(1,2) t2 un
    by (auto simp: async_callback_one_def py_bind_def py_lift_def py_get_def record_event_eq
        update_stream_def py_modify_def py_return_def detokenize_run case_prod_beta
        split: option.splits sum.splits if_splits)
  show ?thesis using assms(1)
  proof (cases rule: callback_one_cases)
    case same
    then have "map_of (as_streamers s2) (raw_request_id d) = None" using assms(2) by simp
    with callback_unregistered [OF t2] same assms t2 r show ?thesis by auto
  next
    case (final b ts u)
    have ba: "b = a" using assms(6) final(2) by blast
    with final(2) assms(2) have b: "map_of (as_streamers s2) (raw_request_id d) = Some (a, ts)" "b = a"
      by simp_all
    from t2 show ?thesis
    proof (cases rule: callback_one_cases)
      case same
      then show ?thesis using b r by simp
    next
      case f2: (final b2 ts2 u2)
      then have eq: "b2 = a" "u2 = u" using b final(3) by auto
      show ?thesis using t2 r assms(3-5)
        by (intro exI [of _ t2]) (simp add: final(4,5) f2(4,5) eq b(2) map_of_dict_pop)
    next
      case n2: (normal b2 ts2 outs2)
      then show ?thesis using final(3) by simp
    qed
  next
    case (normal b ts outs)
    have ba: "b = a" using assms(6) normal(2) by blast
    with normal(2) assms(2) have b: "map_of (as_streamers s2) (raw_request_id d) = Some (a, ts)" "b = a"
      by simp_all
    from t2 show ?thesis
    proof (cases rule: callback_one_cases)
      case same
      then show ?thesis using b r by simp
    next
      case f2: (final b2 ts2 u2)
      then show ?thesis using normal(3) by simp
    next
      case n2: (normal b2 ts2 outs2)
      then have eq: "b2 = a" "ts2 = ts" "outs2 = outs" using b normal(4) by auto
      show ?thesis using t2 r assms(3-5)
        by (intro exI [of _ t2]) (simp add: normal(6,7) n2(6,7) eq b(2) dict_set_lookup)
    qed
  qed
qed

lemma callback_isolated:
  assumes "py_for ds (async_callback_one ops) s1 = (Inr (), t1)" and "async_inv (s1, gs)"
    and "map_of (as_streamers s1) (g_rid (gs ! a)) = map_of (as_streamers s2) (g_rid (gs ! a))"
    and "as_streams s1 ! a = as_streams s2 ! a" "a < length (as_streams s1)" "a < length (as_streams s2)"
    and "\<forall>b ts. map_of (as_streamers s1) (g_rid (gs ! a)) = Some (b, ts) \<longrightarrow> b = a"
  shows "\<exists>t2. py_for (filter (\<lambda>d. raw_request_id d = g_rid (gs ! a)) ds) (async_callback_one ops) s2 = (Inr (), t2)
    \<and> map_of (as_streamers t1) (g_rid (gs ! a)) = map_of (as_streamers t2) (g_rid (gs ! a))
    \<and> as_streams t1 ! a = as_streams t2 ! a"
  using assms
proof (induction ds arbitrary: s1 s2)
  case (Cons d ds)
  from Cons.prems(1) obtain u1 where u1: "async_callback_one ops d s1 = (Inr (), u1)"
    and rest: "py_for ds (async_callback_one ops) u1 = (Inr (), t1)" by (auto simp: py_bind_eq_Inr)
  have inv: "async_inv (u1, gs)" by (rule callback_one_inv [OF Cons.prems(2) u1])
  have len: "length (as_streams u1) = length (as_streams s1)"
    using u1 by (cases rule: callback_one_cases) auto
  show ?case
  proof (cases "raw_request_id d = g_rid (gs ! a)")
    case True
    from callback_local [OF u1, of s2 a, unfolded True, OF Cons.prems(3-7)] obtain u2 where
      u2: "async_callback_one ops d s2 = (Inr (), u2)"
      "map_of (as_streamers u1) (g_rid (gs ! a)) = map_of (as_streamers u2) (g_rid (gs ! a))"
      "as_streams u1 ! a = as_streams u2 ! a" "length (as_streams u2) = length (as_streams s2)" by blast
    have own: "b = a" if that: "map_of (as_streamers u1) (g_rid (gs ! a)) = Some (b, ts)" for b ts
      using u1
    proof (cases rule: callback_one_cases)
      case same
      with that Cons.prems(7) show ?thesis by simp
    next
      case (normal c ts outs)
      with that True have "b = c" by (simp add: dict_set_lookup)
      then show ?thesis using Cons.prems(7) normal(2) True by simp
    qed (use that True in \<open>simp add: map_of_dict_pop\<close>)
    from Cons.IH [OF rest inv u2(2,3)] own u2 len Cons.prems(5,6) True show ?thesis
      by (auto simp: py_bind_eq_Inr)
  next
    case False
    from callback_other [OF Cons.prems(2) u1 False] Cons.prems False len show ?thesis
      using Cons.IH [OF rest inv, of s2] by simp
  qed
qed auto

lemma drain:
  assumes "rs_queue (as_streams s ! a) = map Outputs os @ [Exc StopIteration]"
    and "a < length (as_streams s)" "a < length gs" "g_status (gs ! a) = Running"
  shows "\<exists>s'. (astep ops create)\<^sup>*\<^sup>* (s, gs)
     (s', gs[a := (gs ! a)\<lparr>g_out := g_out (gs ! a) @ os, g_status := Finished\<rparr>])"
  using assms
proof (induction os arbitrary: s gs)
  case Nil
  obtain s' where "generate_next (g_rid (gs ! a)) a s = Some (Inr None, s')"
    using Nil.prems(1) by (simp add: generate_next_run)
  from astep.ended [OF Nil.prems(3,4) this, of ops create] show ?case by auto
next
  case (Cons os oss)
  let ?gs = "gs[a := (gs ! a)\<lparr>g_out := g_out (gs ! a) @ [os]\<rparr>]"
  let ?s = "s\<lparr>as_streams := (as_streams s)[a := (as_streams s ! a)\<lparr>rs_queue := map Outputs oss @ [Exc StopIteration]\<rparr>]\<rparr>"
  have "generate_next (g_rid (gs ! a)) a s = Some (Inr (Some os), ?s)"
    using Cons.prems(1) by (simp add: generate_next_run)
  from astep.yielded [OF Cons.prems(3,4) this, of ops create]
  have "astep ops create (s, gs) (?s, ?gs)" .
  moreover from Cons.IH [of ?s ?gs] Cons.prems obtain s' where
    "(astep ops create)\<^sup>*\<^sup>* (?s, ?gs)
      (s', ?gs[a := (?gs ! a)\<lparr>g_out := g_out (?gs ! a) @ oss, g_status := Finished\<rparr>])" by auto
  ultimately show ?case using Cons.prems(3)
    by (intro exI [of _ s']) (auto intro: converse_rtranclp_into_rtranclp)
qed

lemma rtranclp_areach: "(astep ops create)\<^sup>*\<^sup>* \<sigma> \<sigma>' \<Longrightarrow> areach ops create \<sigma> \<Longrightarrow> areach ops create \<sigma>'"
  by (induction rule: rtranclp_induct) (auto intro: areach.step)

lemma unregistered_stream_kept:
  assumes inv: "async_inv (s, gs)" and "map_of (as_streamers s) (g_rid (gs ! a)) = None"
    and run: "async_request_stream_callback_impl ops ds s = (r, s')"
  shows "as_streams s' ! a = as_streams s ! a"
proof -
  let ?P = "\<lambda>t. async_inv (t, gs) \<and> map_of (as_streamers t) (g_rid (gs ! a)) = None
      \<and> as_streams t ! a = as_streams s ! a"
  have "?P s'"
    using run unfolding async_request_stream_callback_impl_def
  proof (rule py_for_preserves)
    show "?P s" using assms by simp
    fix d t q u assume P: "?P t" and one: "async_callback_one ops d t = (q, u)"
    have "async_inv (u, gs)" using P callback_one_inv [OF _ one] by blast
    then show "?P u"
      using P callback_unregistered [OF one] callback_other [of t gs, OF _ one, where a = a]
      by (cases "raw_request_id d = g_rid (gs ! a)") auto
  qed
  then show ?thesis by simp
qed

lemma sample_started_reach: "areach sample_ops sample_create (sample_started, [sample_gen])"
proof -
  have "fst (generate_start sample_ops sample_create False (VList [VInt 1]) sample_cfg ''r''
     (fst (async_init True))) = Inr 0" by code_simp
  then have "generate_start sample_ops sample_create False (VList [VInt 1]) sample_cfg ''r''
     (fst (async_init True)) = (Inr 0, sample_started)"
    by (simp add: sample_started_def prod_eq_iff)
  from areach.step [OF areach.init [of _ _ True], of sample_ops sample_create] astep.start [OF this, of "[]"]
  show ?thesis by (simp add: async_init_def sample_gen_def)
qed

lemma sample_called_reach: "areach sample_ops sample_create (sample_called, [sample_gen])"
proof -
  have sch: "async_request_stream_callback sample_outputs sample_started
      = (fst (async_request_stream_callback sample_outputs sample_started), sample_scheduled)"
    by (simp add: sample_scheduled_def)
  have "areach sample_ops sample_create (sample_scheduled, [sample_gen])"
    by (rule areach.step [OF sample_started_reach astep.backend [OF sch]])
  moreover have "as_pending sample_scheduled = [sample_outputs]" by code_simp
  moreover have "async_request_stream_callback_impl sample_ops sample_outputs (sample_scheduled\<lparr>as_pending := []\<rparr>)
    = (fst (async_request_stream_callback_impl sample_ops sample_outputs (sample_scheduled\<lparr>as_pending := []\<rparr>)),
       sample_called)"
    by (simp add: sample_called_def)
  ultimately show ?thesis by (blast intro: areach.step astep.callback)
qed

section \<open>Properties\<close>

text \<open>
  C1: in every state the asynchronous engine can reach, under any interleaving of requests,
  backend callbacks, reads, cancellations and calls of \<open>abort\<close>: no item is ever pushed to a stream that has
  finished; a generator that ended normally has yielded normal chunks followed by exactly one
  chunk with the usage; and the table maps a request id to a stream that is still open and
  whose generator is running under that id.
\<close>

theorem async_engine_safe:
  assumes "areach ops create (s, gs)" and "a < length gs"
  shows "Exc already_finished \<notin> set (rs_queue (as_streams s ! a))
    \<and> (g_status (gs ! a) = Finished \<longrightarrow> complete_output (g_out (gs ! a)))
    \<and> (\<forall>b ts. map_of (as_streamers s) (g_rid (gs ! a)) = Some (b, ts) \<longrightarrow>
         b < length gs \<and> g_rid (gs ! b) = g_rid (gs ! a) \<and> g_status (gs ! b) = Running
         \<and> \<not> rs_finished (as_streams s ! b))"
proof -
  have inv: "async_inv (s, gs)" using assms(1) by (rule areach_inv)
  then have st: "stream_inv (as_streams s ! a) (gs ! a)" using assms(2) by (auto simp: async_inv_def)
  have "already_finished \<noteq> duplicate_id r" "already_finished \<noteq> StopIteration" for r
    by (simp_all add: already_finished_def duplicate_id_def)
  then have "Exc already_finished \<notin> set (rs_queue (as_streams s ! a))"
    using st by (auto simp: stream_inv_def split: if_splits)
  moreover have "g_status (gs ! a) = Finished \<longrightarrow> complete_output (g_out (gs ! a))"
    using st by (auto simp: stream_inv_def split: if_splits)
  ultimately show ?thesis using entry_at [OF inv] by blast
qed

theorem async_engine_safe_witness:
  "\<exists>b ts. map_of (as_streamers sample_started) ''r'' = Some (b, ts)
     \<and> b < length [sample_gen] \<and> \<not> rs_finished (as_streams sample_started ! b)
     \<and> Exc already_finished \<notin> set (rs_queue (as_streams sample_started ! 0))"
proof -
  have m: "map_of (as_streamers sample_started) ''r'' = Some (0, [()])" by code_simp
  from async_engine_safe [OF sample_started_reach, of 0] m show ?thesis
    by (simp add: sample_gen_def)
qed

text \<open>
  Once the final chunk of a request was pushed, its generator can always run to its normal
  end, and what it yields in total is a complete output: every chunk that was queued, in the
  order it was pushed, the last one being the only one with the usage.
\<close>

theorem async_generator_drains:
  assumes "areach ops create (s, gs)" and "a < length gs" and "g_status (gs ! a) = Running"
    and "rs_finished (as_streams s ! a)"
  shows "\<exists>os s'. rs_queue (as_streams s ! a) = map Outputs os @ [Exc StopIteration]
    \<and> (astep ops create)\<^sup>*\<^sup>* (s, gs)
        (s', gs[a := (gs ! a)\<lparr>g_out := g_out (gs ! a) @ os, g_status := Finished\<rparr>])
    \<and> complete_output (g_out (gs ! a) @ os)"
proof -
  have inv: "async_inv (s, gs)" using assms(1) by (rule areach_inv)
  then have "stream_inv (as_streams s ! a) (gs ! a)" using assms(2) by (auto simp: async_inv_def)
  then obtain os where os: "rs_queue (as_streams s ! a) = map Outputs os @ [Exc StopIteration]"
    "complete_output (g_out (gs ! a) @ os)"
    using assms(3,4) by (auto simp: stream_inv_def)
  have "a < length (as_streams s)" using inv assms(2) by (simp add: async_inv_def)
  from drain [OF os(1) this assms(2,3), of ops create] os show ?thesis by blast
qed

theorem async_generator_drains_witness:
  "\<exists>os s'. (astep sample_ops sample_create)\<^sup>*\<^sup>* (sample_called, [sample_gen])
        (s', [sample_gen\<lparr>g_out := os, g_status := Finished\<rparr>]) \<and> complete_output os
     \<and> map (map cb_delta_text) os = [[''a''], [''c''], [[]]]"
proof -
  have f: "rs_finished (as_streams sample_called ! 0)"
    and q: "map (\<lambda>i. case i of Outputs ds \<Rightarrow> map cb_delta_text ds | Exc e \<Rightarrow> [])
       (rs_queue (as_streams sample_called ! 0)) = [[''a''], [''c''], [[]], []]"
    by code_simp+
  from async_generator_drains [OF sample_called_reach, of 0] f obtain os s' where
    "rs_queue (as_streams sample_called ! 0) = map Outputs os @ [Exc StopIteration]"
    "(astep sample_ops sample_create)\<^sup>*\<^sup>* (sample_called, [sample_gen])
      (s', [sample_gen\<lparr>g_out := os, g_status := Finished\<rparr>])" "complete_output os"
    by (auto simp: sample_gen_def)
  moreover from this(1) q have "map (map cb_delta_text) os = [[''a''], [''c''], [[]]]"
    by (simp add: comp_def append_eq_Cons_conv)
  ultimately show ?thesis by (intro exI [of _ os] exI [of _ s']) simp
qed

text \<open>
  C2: isolation of requests. A successful callback leaves the stream and the table entry of a
  registered request as if only the delta outputs of that request had been delivered, in their
  order.
\<close>

theorem async_callback_isolated:
  assumes "areach ops create (s, gs)" and "map_of (as_streamers s) rid = Some (a, ts)"
    and "async_request_stream_callback_impl ops ds s = (Inr (), s')"
  shows "\<exists>s''. async_request_stream_callback_impl ops (filter (\<lambda>d. raw_request_id d = rid) ds) s = (Inr (), s'')
    \<and> as_streams s' ! a = as_streams s'' ! a
    \<and> map_of (as_streamers s') rid = map_of (as_streamers s'') rid"
proof -
  have inv: "async_inv (s, gs)" using assms(1) by (rule areach_inv)
  note e = entry_at [OF inv assms(2)]
  from callback_isolated [OF assms(3) [unfolded async_request_stream_callback_impl_def] inv, of a s]
  show ?thesis using assms(2) e by (auto simp: async_request_stream_callback_impl_def)
qed

theorem async_callback_isolated_witness:
  "\<exists>s' s''. async_request_stream_callback_impl sample_ops sample_outputs sample_started = (Inr (), s')
     \<and> async_request_stream_callback_impl sample_ops
         (filter (\<lambda>d. raw_request_id d = ''r'') sample_outputs) sample_started = (Inr (), s'')
     \<and> as_streams s' ! 0 = as_streams s'' ! 0"
proof -
  have m: "map_of (as_streamers sample_started) ''r'' = Some (0, [()])" by code_simp
  have "fst (async_request_stream_callback_impl sample_ops sample_outputs sample_started) = Inr ()"
    by code_simp
  then have "async_request_stream_callback_impl sample_ops sample_outputs sample_started
      = (Inr (), snd (async_request_stream_callback_impl sample_ops sample_outputs sample_started))"
    by (simp add: prod_eq_iff)
  from async_callback_isolated [OF sample_started_reach m this] this show ?thesis by blast
qed

text \<open>
  C17: a second request under an id in use does not only fail itself: its cleanup aborts the
  request that owns the id. The table entry is gone and the backend is told to abort, the stream
  of the original request is neither finished nor given an error, and no later callback
  reaches it.
\<close>

theorem duplicate_request_aborts_original:
  assumes "areach ops create (s, gs)" and "map_of (as_streamers s) rid = Some (a, ts)"
    and "convert_prompts_to_data prompt = Inr input" and "create rid input cfg = Inr ()"
  shows "\<exists>b s1 s2. generate_start ops create False prompt cfg rid s = (Inr b, s1)
    \<and> generate_next rid b s1 = Some (Inl (duplicate_id rid), s2)
    \<and> map_of (as_streamers s2) rid = None \<and> as_ffi s2 = as_ffi s @ [AbortRequest rid]
    \<and> as_streams s2 ! a = as_streams s ! a \<and> \<not> rs_finished (as_streams s2 ! a)
    \<and> (\<forall>ds r s3. async_request_stream_callback_impl ops ds s2 = (r, s3) \<longrightarrow>
         as_streams s3 ! a = as_streams s ! a)"
proof -
  have inv: "async_inv (s, gs)" using assms(1) by (rule areach_inv)
  note e = entry_at [OF inv assms(2)]
  let ?n = "length (as_streams s)"
  let ?s1 = "s\<lparr>as_event_loop := True, as_streams := as_streams s
      @ [\<lparr>rs_queue = [Exc (duplicate_id rid)], rs_finished = False\<rparr>]\<rparr>"
  let ?s2 = "?s1\<lparr>as_streams := as_streams s @ [\<lparr>rs_queue = [], rs_finished = False\<rparr>],
      as_streamers := dict_pop (as_streamers s) rid, as_ffi := as_ffi s @ [AbortRequest rid]\<rparr>"
  have start: "generate_start ops create False prompt cfg rid s = (Inr ?n, ?s1)"
    using assms(2-4)
    by (simp add: generate_start_def async_lazy_init_event_loop_def py_modify_def py_bind_def
        py_lift_def py_get_def update_stream_def py_return_def nth_append stream_push_def
        AsyncRequestStream_def)
  have nxt: "generate_next rid ?n ?s1 = Some (Inl (duplicate_id rid), ?s2)"
    by (simp add: generate_next_run duplicate_id_def nth_append)
  let ?g = "\<lparr>g_rid = rid, g_out = [], g_status = Running\<rparr>"
  have "astep ops create (s, gs) (?s1, gs @ [?g])" by (rule astep.start [OF start])
  moreover have "astep ops create (?s1, gs @ [?g]) (?s2, (gs @ [?g])[?n := ?g\<lparr>g_status := Failed (duplicate_id rid)\<rparr>])"
    using astep.raised [of ?n "gs @ [?g]" ?s1 "duplicate_id rid" ?s2 ops create] nxt inv
    by (simp add: async_inv_def nth_append)
  ultimately have inv2: "async_inv (?s2, (gs @ [?g])[?n := ?g\<lparr>g_status := Failed (duplicate_id rid)\<rparr>])"
    using inv astep_inv by blast
  have "g_rid (((gs @ [?g])[?n := ?g\<lparr>g_status := Failed (duplicate_id rid)\<rparr>]) ! a) = rid"
    using e inv by (auto simp: async_inv_def nth_append nth_list_update)
  then have "as_streams s3 ! a = as_streams s ! a"
    if run: "async_request_stream_callback_impl ops ds ?s2 = (r, s3)" for ds r s3
    using unregistered_stream_kept [OF inv2 _ run, of a] e by (simp add: map_of_dict_pop nth_append)
  then show ?thesis using start nxt e
    by (intro exI [of _ ?n] exI [of _ ?s1] exI [of _ ?s2]) (auto simp: map_of_dict_pop nth_append)
qed

theorem duplicate_request_aborts_original_witness:
  "\<exists>b s1 s2. generate_start sample_ops sample_create False (VList [VInt 2]) sample_cfg ''r'' sample_started
      = (Inr b, s1)
    \<and> generate_next ''r'' b s1 = Some (Inl (duplicate_id ''r''), s2)
    \<and> map_of (as_streamers s2) ''r'' = None"
proof -
  have m: "map_of (as_streamers sample_started) ''r'' = Some (0, [()])" by code_simp
  have c: "convert_prompts_to_data (VList [VInt 2] :: unit prompt_value) = Inr [TokenData [2]]" by simp
  from duplicate_request_aborts_original [OF sample_started_reach m c, of sample_cfg] show ?thesis
    by (auto simp: sample_create_def)
qed

end
