(* ===== verification/Sync_Engine.thy ===== *)
theory Sync_Engine
  imports Async_Engine
begin

text \<open>
  Generation in the synchronous engine of serve/engine.py: \<open>_generate\<close>,
  \<open>_request_stream_callback_impl\<close> and \<open>abort\<close> of \<open>MLCEngine\<close>. The engine serves one
  request at a time; the batches that the backend puts into the output queue after the request
  was added are the argument of the generator, whose loop may therefore be left waiting.
\<close>

section \<open>MLCEngine\<close>

record 'ts sync_state = trace_state +
  ss_output_queue :: "raw_stream_output list list"
  ss_text_streamers :: "'ts list"
  ss_ffi :: "ffi_call list"

definition sync_request_stream_callback ::
  "raw_stream_output list \<Rightarrow> ('ts sync_state, unit) py" where
  "sync_request_stream_callback delta_outputs =
     py_modify (\<lambda>s. s\<lparr>ss_output_queue := ss_output_queue s @ [delta_outputs]\<rparr>)"

definition sync_abort :: "string \<Rightarrow> ('ts sync_state, unit) py" where
  "sync_abort request_id = py_modify (\<lambda>s. s\<lparr>ss_ffi := ss_ffi s @ [AbortRequest request_id]\<rparr>)"

text \<open>
  The loop over the delta outputs of a batch; the chunk with the usage ends it and the rest of
  the batch is dropped.
\<close>

fun request_stream_callback_impl ::
  "'ts streamer_ops \<Rightarrow> callback_output list list \<Rightarrow> raw_stream_output list
     \<Rightarrow> ('ts sync_state, callback_output list list \<times> string option) py" where
  "request_stream_callback_impl ops batch_outputs [] = py_return (batch_outputs, None)"
| "request_stream_callback_impl ops batch_outputs (delta_output # rest) =
     py_bind (py_lift (unpack delta_output)) (\<lambda>(request_id, stream_outputs).
     py_bind (record_event request_id ''start callback'') (\<lambda>_.
     py_bind (py_lift (py_index stream_outputs 0)) (\<lambda>out0.
     if so_request_final_usage_json_str out0 \<noteq> None
     then py_return (batch_outputs, so_request_final_usage_json_str out0)
     else py_bind (py_get ss_text_streamers) (\<lambda>text_streamers.
          py_bind (detokenize ops request_id stream_outputs text_streamers) (\<lambda>(outputs, ts').
          py_bind (py_modify (\<lambda>s. s\<lparr>ss_text_streamers := ts'\<rparr>)) (\<lambda>_.
          py_bind (record_event request_id ''finish callback'') (\<lambda>_.
          request_stream_callback_impl ops (batch_outputs @ [outputs]) rest)))))))"

text \<open>
  The loop of the generator: what it yields, how it ends (\<open>None\<close> when it waits for a batch that
  does not come) and the state.
\<close>

fun sync_generate_loop ::
  "'ts streamer_ops \<Rightarrow> string \<Rightarrow> raw_stream_output list list \<Rightarrow> 'ts sync_state
     \<Rightarrow> callback_output list list \<times> unit res option \<times> 'ts sync_state" where
  "sync_generate_loop ops request_id [] s = ([], None, s)"
| "sync_generate_loop ops request_id (delta_outputs # batches) s =
     (case error_cleanup_scope (sync_abort request_id)
             (request_stream_callback_impl ops [] delta_outputs) s of
        (Inl e, s') \<Rightarrow> ([], Some (Inl e), s')
      | (Inr (request_outputs, usage), s') \<Rightarrow>
          if usage \<noteq> None then (request_outputs @ [[final_output usage]], Some (Inr ()), s')
          else (let (ys, r, s'') = sync_generate_loop ops request_id batches s'
                in (request_outputs @ ys, r, s'')))"

definition sync_generate ::
  "'ts streamer_ops \<Rightarrow> (string \<Rightarrow> 'img engine_data list \<Rightarrow> generation_config \<Rightarrow> unit res) \<Rightarrow> bool
     \<Rightarrow> 'img prompt_value \<Rightarrow> generation_config \<Rightarrow> string \<Rightarrow> raw_stream_output list list
     \<Rightarrow> 'ts sync_state \<Rightarrow> callback_output list list \<times> unit res option \<times> 'ts sync_state" where
  "sync_generate ops create_request terminated prompt cfg request_id batches s =
     (if terminated then ([], Some (Inl (ValueError ''The engine has terminated.'')), s)
      else case res_bind (convert_prompts_to_data prompt) (\<lambda>input_data.
                  create_request request_id input_data cfg) of
             Inl e \<Rightarrow> ([], Some (Inl e), s)
           | Inr _ \<Rightarrow> sync_generate_loop ops request_id batches
               (s\<lparr>ss_output_queue := [],
                  ss_text_streamers := replicate (nat (gc_n cfg)) (ts_new ops),
                  ss_ffi := ss_ffi s @ [AddRequest request_id]\<rparr>))"

section \<open>Specifications\<close>

text \<open>
  The chunks a sequence of delta outputs of one request stands for, and whether the last one is
  the final one: the reference for both engines.
\<close>

fun engine_chunks ::
  "'ts streamer_ops \<Rightarrow> 'ts list \<Rightarrow> raw_stream_output list \<Rightarrow> (callback_output list list \<times> bool) res" where
  "engine_chunks ops ts [] = Inr ([], False)"
| "engine_chunks ops ts (d # ds) =
     res_bind (unpack d) (\<lambda>(rid, outs).
       case raw_final_usage d of
         Some u \<Rightarrow> Inr ([[final_output (Some u)]], True)
       | None \<Rightarrow>
           if outs = [] then Inl IndexError
           else (let (c, ts') = detokenized ops outs ts
                 in res_bind (engine_chunks ops ts' ds) (\<lambda>(cs, fin). Inr (c # cs, fin))))"

section \<open>Lemmas\<close>

lemma py_for_append: "py_for (xs @ ys) f = py_bind (py_for xs f) (\<lambda>_. py_for ys f)"
  by (induction xs) (auto simp: py_bind_assoc)

lemma py_for_concat: "py_for xss (\<lambda>xs. py_for xs f) = py_for (concat xss) f"
  by (induction xss) (auto simp: py_for_append)

lemma unpack_out0:
  assumes "unpack d = Inr (rid, out0 # outs)"
  shows "so_request_final_usage_json_str out0 = raw_final_usage d"
  using assms by (auto simp: unpack_def res_bind_eq_Inr res_map_Inr_iff list_all2_Cons2 split: option.splits)

lemma unpack_final: "raw_final_usage d = Some u \<Longrightarrow> \<exists>out0. unpack d = Inr (raw_request_id d, [out0])"
  by (simp add: unpack_def)

lemma ss_text_streamers_logged [simp]: "ss_text_streamers (logged r es s) = ss_text_streamers s"
  by (simp add: logged_def)

lemma sync_callback_chunks:
  assumes "engine_chunks ops (ss_text_streamers s) (ds @ rest) = Inr (cs, fin)"
  shows "\<exists>cs1 u s'. request_stream_callback_impl ops acc ds s = (Inr (acc @ cs1, u), s')
    \<and> (case u of
         Some v \<Rightarrow> cs = cs1 @ [[final_output (Some v)]] \<and> fin
       | None \<Rightarrow> \<exists>cs2. cs = cs1 @ cs2 \<and> engine_chunks ops (ss_text_streamers s') rest = Inr (cs2, fin))"
  using assms
proof (induction ds arbitrary: s acc cs)
  case (Cons d ds)
  from Cons.prems obtain rid outs where un: "unpack d = Inr (rid, outs)"
    by (auto simp: res_bind_eq_Inr)
  show ?case
  proof (cases "raw_final_usage d")
    case (Some u)
    then obtain out0 where "unpack d = Inr (raw_request_id d, [out0])" using unpack_final by blast
    moreover from this have "so_request_final_usage_json_str out0 = Some u"
      using unpack_out0 Some by fastforce
    ultimately show ?thesis using Cons.prems Some
      by (intro exI [of _ "[]"] exI [of _ "Some u"])
        (auto simp: py_bind_def py_lift_def record_event_eq py_index_def py_return_def)
  next
    case None
    with Cons.prems un have "outs \<noteq> []" by (auto split: if_splits)
    then obtain out0 outs' where outs: "outs = out0 # outs'" by (cases outs) auto
    have usage: "so_request_final_usage_json_str out0 = None" using unpack_out0 un outs None by fastforce
    obtain c ts' where det: "detokenized ops outs (ss_text_streamers s) = (c, ts')" by fastforce
    with Cons.prems un None \<open>outs \<noteq> []\<close> obtain cs' where
      ch: "engine_chunks ops ts' (ds @ rest) = Inr (cs', fin)" "cs = c # cs'"
      by (auto simp: res_bind_eq_Inr)
    define t where "t = logged rid [''finish callback'']
      ((logged rid (concat (replicate (min (length outs) (length (ss_text_streamers s)))
          [''start detokenization'', ''finish detokenization'']))
        (logged rid [''start callback''] s))\<lparr>ss_text_streamers := ts'\<rparr>)"
    have run: "request_stream_callback_impl ops acc (d # ds) s = request_stream_callback_impl ops (acc @ [c]) ds t"
      using un outs usage det
      by (simp add: py_bind_def py_lift_def record_event_eq py_index_def py_get_def py_modify_def
          detokenize_run t_def del: logged_logged)
    have "ss_text_streamers t = ts'" by (simp add: t_def)
    with Cons.IH [of t cs' "acc @ [c]"] ch obtain cs1 u s' where
      "request_stream_callback_impl ops (acc @ [c]) ds t = (Inr ((acc @ [c]) @ cs1, u), s')"
      "case u of Some v \<Rightarrow> cs' = cs1 @ [[final_output (Some v)]] \<and> fin
       | None \<Rightarrow> \<exists>cs2. cs' = cs1 @ cs2 \<and> engine_chunks ops (ss_text_streamers s') rest = Inr (cs2, fin)"
      by auto
    then show ?thesis unfolding run ch(2)
      by (intro exI [of _ "c # cs1"] exI [of _ u] exI [of _ s']) (auto split: option.splits)
  qed
qed (auto simp: py_return_def)

lemma sync_loop_chunks:
  assumes "engine_chunks ops (ss_text_streamers s) (concat batches) = Inr (cs, fin)"
  shows "\<exists>s'. sync_generate_loop ops rid batches s = (cs, if fin then Some (Inr ()) else None, s')"
  using assms
proof (induction batches arbitrary: s cs)
  case (Cons b batches)
  then have "engine_chunks ops (ss_text_streamers s) (b @ concat batches) = Inr (cs, fin)" by simp
  from sync_callback_chunks [OF this, of "[]"] obtain cs1 u s1 where
    run: "request_stream_callback_impl ops [] b s = (Inr (cs1, u), s1)"
    and u: "case u of Some v \<Rightarrow> cs = cs1 @ [[final_output (Some v)]] \<and> fin
       | None \<Rightarrow> \<exists>cs2. cs = cs1 @ cs2 \<and> engine_chunks ops (ss_text_streamers s1) (concat batches) = Inr (cs2, fin)"
    by auto
  show ?case
  proof (cases u)
    case None
    with u obtain cs2 where cs2: "cs = cs1 @ cs2"
      "engine_chunks ops (ss_text_streamers s1) (concat batches) = Inr (cs2, fin)" by auto
    from Cons.IH [OF cs2(2)] obtain s' where
      "sync_generate_loop ops rid batches s1 = (cs2, if fin then Some (Inr ()) else None, s')" by blast
    with run None cs2(1) show ?thesis by (simp add: error_cleanup_scope_def)
  next
    case (Some v)
    with run u show ?thesis by (simp add: error_cleanup_scope_def)
  qed
qed simp

lemma unregistered_run:
  assumes "map_of (as_streamers s) rid = None" and "list_all (\<lambda>d. raw_request_id d = rid \<and> \<not> isl (unpack d)) ds"
  shows "py_for ds (async_callback_one ops) s = (Inr (), s)"
  using assms(2)
proof (induction ds)
  case (Cons d ds)
  then obtain outs where "unpack d = Inr (rid, outs)" using unpack_rid by (auto simp: not_isl_Inr)
  then have "async_callback_one ops d s = (Inr (), s)"
    using assms(1) by (simp add: async_callback_one_def py_bind_def py_lift_def py_get_def py_return_def)
  with Cons show ?case by (simp add: py_bind_def)
qed (simp add: py_return_def)

lemma async_stream_chunks:
  assumes "engine_chunks ops ts ds = Inr (cs, fin)"
    and "list_all (\<lambda>d. raw_request_id d = rid \<and> \<not> isl (unpack d)) ds"
    and "map_of (as_streamers s) rid = Some (a, ts)" "a < length (as_streams s)"
    and "\<not> rs_finished (as_streams s ! a)"
  shows "\<exists>s'. py_for ds (async_callback_one ops) s = (Inr (), s')
    \<and> rs_queue (as_streams s' ! a) = rs_queue (as_streams s ! a) @ map Outputs cs
        @ (if fin then [Exc StopIteration] else [])
    \<and> rs_finished (as_streams s' ! a) = fin"
  using assms
proof (induction ds arbitrary: s ts cs)
  case (Cons d ds)
  obtain r t where one: "async_callback_one ops d s = (r, t)" by fastforce
  from Cons.prems(2) have rid: "raw_request_id d = rid" and un: "\<not> isl (unpack d)"
    and rest: "list_all (\<lambda>d. raw_request_id d = rid \<and> \<not> isl (unpack d)) ds" by auto
  from one show ?case
  proof (cases rule: callback_one_cases)
    case same
    have "\<not> isl r"
    proof -
      obtain outs where outs: "unpack d = Inr (rid, outs)" using un rid unpack_rid by (auto simp: not_isl_Inr)
      have "outs \<noteq> []" using Cons.prems(1) outs unpack_final [of d] by (auto split: option.splits if_splits)
      then show ?thesis using one outs Cons.prems(3)
        by (auto simp: async_callback_one_def py_bind_def py_lift_def py_get_def record_event_eq
            py_index_def update_stream_def py_modify_def detokenize_run case_prod_beta split: if_splits)
    qed
    with same Cons.prems(3) rid show ?thesis by simp
  next
    case (final b tb u)
    with Cons.prems(3) rid have b: "b = a" by simp
    have "map_of (as_streamers t) rid = None" using final(4) rid by (simp add: map_of_dict_pop)
    from unregistered_run [OF this rest, of ops] one final(1)
    have "py_for (d # ds) (async_callback_one ops) s = (Inr (), t)" by (simp add: py_bind_def)
    moreover have "cs = [[final_output (Some u)]]" "fin" using Cons.prems(1) final(3) by (auto simp: res_bind_eq_Inr)
    ultimately show ?thesis using Cons.prems(4,5)
      by (simp add: final(5) b push_final_def stream_finish_def stream_push_def)
  next
    case (normal b tb outs)
    with Cons.prems(3) rid have b: "b = a" "tb = ts" by auto
    obtain c ts' where det: "detokenized ops outs ts = (c, ts')" by fastforce
    with Cons.prems(1) normal(3-5) obtain cs' where
      ch: "engine_chunks ops ts' ds = Inr (cs', fin)" "cs = c # cs'"
      by (auto simp: res_bind_eq_Inr)
    have t: "as_streams t = (as_streams s)[a := stream_push (Outputs c) (as_streams s ! a)]"
      "map_of (as_streamers t) rid = Some (a, ts')"
      using normal(6,7) b det rid by (simp_all add: dict_set_lookup)
    from Cons.IH [OF ch(1) rest t(2)] t(1) Cons.prems(4,5) obtain s' where
      "py_for ds (async_callback_one ops) t = (Inr (), s')"
      "rs_queue (as_streams s' ! a) = rs_queue (as_streams t ! a) @ map Outputs cs' @ (if fin then [Exc StopIteration] else [])"
      "rs_finished (as_streams s' ! a) = fin"
      by (auto simp: stream_push_def)
    with one normal(1) t(1) Cons.prems(4,5) show ?thesis
      by (auto simp: py_bind_def ch(2) stream_push_def)
  qed
qed (auto simp: py_return_def)

section \<open>Properties\<close>

text \<open>
  C8: the synchronous and the asynchronous engine produce the same chunks. When the delta
  outputs the backend streams back for a request can be read and end with the final one, the
  synchronous generator yields the chunks of the reference and ends; and the asynchronous
  callbacks, for a request registered with the same streamers, queue exactly these chunks and the
  end mark in its stream. The batching of the delta outputs does not matter.
\<close>

theorem sync_async_agree:
  assumes "engine_chunks ops (replicate (nat (gc_n cfg)) (ts_new ops)) (concat batches) = Inr (cs, True)"
    and "list_all (\<lambda>d. raw_request_id d = rid \<and> \<not> isl (unpack d)) (concat batches)"
    and "convert_prompts_to_data prompt = Inr input" "create rid input cfg = Inr ()"
    and "map_of (as_streamers s) rid = None" "concat batches' = concat batches"
  shows "(\<exists>t. sync_generate ops create False prompt cfg rid batches u = (cs, Some (Inr ()), t))
    \<and> (\<exists>a s1 s2. generate_start ops create False prompt cfg rid s = (Inr a, s1)
        \<and> py_for batches' (async_request_stream_callback_impl ops) s1 = (Inr (), s2)
        \<and> as_streams s2 ! a = \<lparr>rs_queue = map Outputs cs @ [Exc StopIteration], rs_finished = True\<rparr>)"
proof
  show "\<exists>t. sync_generate ops create False prompt cfg rid batches u = (cs, Some (Inr ()), t)"
    using sync_loop_chunks [where s = "u\<lparr>ss_output_queue := [],
        ss_text_streamers := replicate (nat (gc_n cfg)) (ts_new ops), ss_ffi := ss_ffi u @ [AddRequest rid]\<rparr>"
        and ops = ops and batches = batches and cs = cs and fin = True and rid = rid] assms
    by (simp add: sync_generate_def)
  obtain r s1 where start: "generate_start ops create False prompt cfg rid s = (r, s1)" by fastforce
  then show "\<exists>a s1 s2. generate_start ops create False prompt cfg rid s = (Inr a, s1)
        \<and> py_for batches' (async_request_stream_callback_impl ops) s1 = (Inr (), s2)
        \<and> as_streams s2 ! a = \<lparr>rs_queue = map Outputs cs @ [Exc StopIteration], rs_finished = True\<rparr>"
  proof (cases rule: generate_start_cases)
    case (error e)
    then show ?thesis using start assms(3,4)
      by (auto simp: generate_start_def async_lazy_init_event_loop_def py_modify_def py_bind_def
          py_lift_def py_get_def py_return_def update_stream_def split: if_splits)
  next
    case (duplicate b ts)
    then show ?thesis using assms(5) by simp
  next
    case fresh
    let ?a = "length (as_streams s)"
    have "map_of (as_streamers s1) rid = Some (?a, replicate (nat (gc_n cfg)) (ts_new ops))"
      "?a < length (as_streams s1)" "\<not> rs_finished (as_streams s1 ! ?a)" "rs_queue (as_streams s1 ! ?a) = []"
      by (simp_all add: fresh dict_set_lookup AsyncRequestStream_def)
    from async_stream_chunks [OF assms(1,2) this(1-3)] this(4) obtain s2 where
      "py_for (concat batches') (async_callback_one ops) s1 = (Inr (), s2)"
      "rs_queue (as_streams s2 ! ?a) = map Outputs cs @ [Exc StopIteration]"
      "rs_finished (as_streams s2 ! ?a)" using assms(6) by auto
    moreover from this(1) have "py_for batches' (async_request_stream_callback_impl ops) s1 = (Inr (), s2)"
      by (simp add: async_request_stream_callback_impl_def [abs_def] py_for_concat)
    ultimately show ?thesis using start fresh(1)
      by (intro exI [of _ ?a] exI [of _ s1] exI [of _ s2]) (cases "as_streams s2 ! ?a", simp)
  qed
qed

theorem sync_async_agree_witness:
  "\<exists>cs t a s1 s2.
     sync_generate sample_ops sample_create False (VList [VInt 1]) sample_cfg ''q''
       [[sample_raw ''q'' [97] None None], [sample_raw ''q'' [] None (Some ''{}'')]]
       \<lparr>trace_recorder = None, ss_output_queue = [], ss_text_streamers = [], ss_ffi = []\<rparr>
       = (cs, Some (Inr ()), t) \<and> length cs = 2
     \<and> generate_start sample_ops sample_create False (VList [VInt 1]) sample_cfg ''q'' sample_started = (Inr a, s1)
     \<and> py_for [[sample_raw ''q'' [97] None None, sample_raw ''q'' [] None (Some ''{}'')]]
         (async_request_stream_callback_impl sample_ops) s1 = (Inr (), s2)
     \<and> rs_queue (as_streams s2 ! a) = map Outputs cs @ [Exc StopIteration]"
proof -
  let ?r = "[sample_raw ''q'' [97] None None, sample_raw ''q'' [] None (Some ''{}'')]"
  let ?cs = "[[sample_delta ''a'' None], [final_output (Some ''{}'')]]"
  have "engine_chunks sample_ops (replicate (nat (gc_n sample_cfg)) (ts_new sample_ops)) ?r = Inr (?cs, True)"
    "list_all (\<lambda>d. raw_request_id d = ''q'' \<and> \<not> isl (unpack d)) ?r"
    "map_of (as_streamers sample_started) ''q'' = None"
    by code_simp+
  with sync_async_agree [of sample_ops sample_cfg
      "[[sample_raw ''q'' [97] None None], [sample_raw ''q'' [] None (Some ''{}'')]]" ?cs "''q''"
      "VList [VInt 1]" "[TokenData [1]]" sample_create sample_started "[?r]"
      "\<lparr>trace_recorder = None, ss_output_queue = [], ss_text_streamers = [], ss_ffi = []\<rparr>"]
  show ?thesis by (force simp: sample_create_def)
qed

end
