(* ===== verification/Completion_Api.thy ===== *)
theory Completion_Api
  imports Sync_Engine
begin

text \<open>
  The API level of serve/engine.py: the handlers \<open>_handle_chat_completion\<close> and
  \<open>_handle_completion\<close> and the entry points \<open>_chat_completion\<close> and \<open>_completion\<close> of
  \<open>AsyncMLCEngine\<close> and \<open>MLCEngine\<close>. What \<open>_generate\<close> does for given prompts and a given
  configuration, the chunks it yields and the exception it ends with, if any, is the argument
  \<open>gen\<close>; the theories of the two engines say what it is. A handler is a generator: its result
  has what it yields and how it ends.
\<close>

section \<open>Handlers\<close>

text \<open>The attributes of the engine that the handlers read.\<close>

record 'img api_env =
  api_ext :: "'img externals"
  api_model_config :: "(string \<times> json) list"
  api_max_input_sequence_length :: int
  api_conv_template :: conversation

type_synonym 'img generate_fn =
  "'img prompt_value \<Rightarrow> generation_config \<Rightarrow> callback_output list list \<times> py_error option"

definition strip_chat_extra :: "bool \<Rightarrow> chat_stream_response \<Rightarrow> chat_stream_response" where
  "strip_chat_extra include_extra r =
     (case csresp_usage r of
        None \<Rightarrow> r
      | Some u \<Rightarrow> if include_extra then r else r\<lparr>csresp_usage := Some (u\<lparr>usage_extra := None\<rparr>)\<rparr>)"

definition strip_completion_extra :: "bool \<Rightarrow> completion_response \<Rightarrow> completion_response" where
  "strip_completion_extra include_extra r =
     (case cresp_usage r of
        None \<Rightarrow> r
      | Some u \<Rightarrow> if include_extra then r else r\<lparr>cresp_usage := Some (u\<lparr>usage_extra := None\<rparr>)\<rparr>)"

text \<open>How a loop over a generator goes on: its exception, else that of the body, else the rest.\<close>

fun loop_end :: "'a res \<Rightarrow> py_error option \<Rightarrow> 'a res" where
  "loop_end (Inl e) _ = Inl e"
| "loop_end (Inr x) (Some e) = Inl e"
| "loop_end (Inr x) None = Inr x"

definition async_handle_chat_completion ::
  "'img api_env \<Rightarrow> 'img generate_fn \<Rightarrow> chat_request \<Rightarrow> string \<Rightarrow> bool \<Rightarrow> 's trace_state_scheme
     \<Rightarrow> chat_stream_response list \<times> unit res \<times> 's trace_state_scheme" where
  "async_handle_chat_completion env gen request request_id include_extra s =
     (case process_chat_completion_request (api_ext env) request request_id (api_model_config env)
             (api_max_input_sequence_length env) (api_conv_template env) s of
        (Inl e, s1) \<Rightarrow> ([], Inl e, s1)
      | (Inr (prompts, cfg, use_fc, prompt_length, _), s1) \<Rightarrow>
          let s2 = snd (record_event request_id ''invoke generate'' s1);
              (chunks, ending) = gen (VList (map value_of_tok prompts)) cfg;
              (ys, r, s3) = gen_loop (\<lambda>frs ds.
                  py_bind (process_chat_completion_stream_output (api_ext env) ds request request_id
                             use_fc frs)
                    (\<lambda>(response, frs'). py_return (map_option (strip_chat_extra include_extra) response, frs')))
                (replicate (nat (gc_n cfg)) None) chunks s2
          in case loop_end r ending of
               Inl e \<Rightarrow> (ys, Inl e, s3)
             | Inr _ \<Rightarrow> (ys, Inr (), snd (record_event request_id ''finish'' s3)))"

definition async_handle_completion ::
  "'img api_env \<Rightarrow> 'img generate_fn \<Rightarrow> completion_request \<Rightarrow> string \<Rightarrow> bool \<Rightarrow> 's trace_state_scheme
     \<Rightarrow> completion_response list \<times> unit res \<times> 's trace_state_scheme" where
  "async_handle_completion env gen request request_id include_extra s =
     (case process_completion_request (api_ext env) request request_id
             (api_max_input_sequence_length env) (api_conv_template env) s of
        (Inl e, s1) \<Rightarrow> ([], Inl e, s1)
      | (Inr (prompt, cfg, prompt_length, echo_response, _), s1) \<Rightarrow>
          let echo = (case echo_response of None \<Rightarrow> [] | Some r \<Rightarrow> [r]);
              s2 = snd (record_event request_id ''invoke generate'' s1);
              (chunks, ending) = gen (VList (map VInt prompt)) cfg;
              (ys, r, s3) = gen_loop (\<lambda>frs ds.
                  py_bind (process_completion_stream_output (api_ext env) ds request request_id frs)
                    (\<lambda>(response, frs').
                       py_return (map_option (strip_completion_extra include_extra) response, frs')))
                (replicate (nat (gc_n cfg)) None) chunks s2
          in case loop_end r ending of
               Inl e \<Rightarrow> (echo @ ys, Inl e, s3)
             | Inr finish_reasons \<Rightarrow>
                 (case create_completion_suffix_response request request_id finish_reasons of
                    Inl e \<Rightarrow> (echo @ ys, Inl e, s3)
                  | Inr suffix_response \<Rightarrow>
                      (echo @ ys @ (case suffix_response of None \<Rightarrow> [] | Some r \<Rightarrow> [r]), Inr (),
                       snd (record_event request_id ''finish'' s3))))"

definition sync_handle_chat_completion ::
  "'img api_env \<Rightarrow> 'img generate_fn \<Rightarrow> chat_request \<Rightarrow> string \<Rightarrow> 's trace_state_scheme
     \<Rightarrow> chat_stream_response list \<times> unit res \<times> 's trace_state_scheme" where
  "sync_handle_chat_completion env gen request request_id s =
     (case process_chat_completion_request (api_ext env) request request_id (api_model_config env)
             (api_max_input_sequence_length env) (api_conv_template env) s of
        (Inl e, s1) \<Rightarrow> ([], Inl e, s1)
      | (Inr (prompts, cfg, use_fc, prompt_length, _), s1) \<Rightarrow>
          let s2 = snd (record_event request_id ''invoke generate'' s1);
              (chunks, ending) = gen (VList (map value_of_tok prompts)) cfg;
              (ys, r, s3) = gen_loop (\<lambda>frs ds.
                  process_chat_completion_stream_output (api_ext env) ds request request_id use_fc frs)
                (replicate (nat (gc_n cfg)) None) chunks s2
          in case loop_end r ending of
               Inl e \<Rightarrow> (ys, Inl e, s3)
             | Inr _ \<Rightarrow> (ys, Inr (), snd (record_event request_id ''finish'' s3)))"

definition sync_handle_completion ::
  "'img api_env \<Rightarrow> 'img generate_fn \<Rightarrow> completion_request \<Rightarrow> string \<Rightarrow> 's trace_state_scheme
     \<Rightarrow> completion_response list \<times> unit res \<times> 's trace_state_scheme" where
  "sync_handle_completion env gen request request_id s =
     (case process_completion_request (api_ext env) request request_id
             (api_max_input_sequence_length env) (api_conv_template env) s of
        (Inl e, s1) \<Rightarrow> ([], Inl e, s1)
      | (Inr (prompt, cfg, prompt_length, echo_response, _), s1) \<Rightarrow>
          let echo = (case echo_response of None \<Rightarrow> [] | Some r \<Rightarrow> [r]);
              s2 = snd (record_event request_id ''invoke generate'' s1);
              (chunks, ending) = gen (VList (map VInt prompt)) cfg;
              (ys, r, s3) = gen_loop (\<lambda>frs ds.
                  process_completion_stream_output (api_ext env) ds request request_id frs)
                (replicate (nat (gc_n cfg)) None) chunks s2
          in case loop_end r ending of
               Inl e \<Rightarrow> (echo @ ys, Inl e, s3)
             | Inr finish_reasons \<Rightarrow>
                 (case create_completion_suffix_response request request_id finish_reasons of
                    Inl e \<Rightarrow> (echo @ ys, Inl e, s3)
                  | Inr suffix_response \<Rightarrow>
                      (echo @ ys @ (case suffix_response of None \<Rightarrow> [] | Some r \<Rightarrow> [r]), Inr (),
                       snd (record_event request_id ''finish'' s3))))"

section \<open>Collecting a stream into one response\<close>

record chat_acc =
  ca_texts :: "string list"
  ca_reasons :: "string option list"
  ca_logprobs :: "log_probs_content list list option"
  ca_usage :: "completion_usage option"

text \<open>The shared statements of the collecting loops: append a text, keep the first reason.\<close>

definition add_text :: "string list \<Rightarrow> nat \<Rightarrow> string \<Rightarrow> string list res" where
  "add_text texts i t = res_bind (py_index texts (int i)) (\<lambda>old. py_setitem texts i (old @ t))"

definition keep_reason :: "string option list \<Rightarrow> nat \<Rightarrow> string option \<Rightarrow> string option list res" where
  "keep_reason reasons i reason =
     (case reason of
        None \<Rightarrow> Inr reasons
      | Some r \<Rightarrow> res_bind (py_index reasons (int i)) (\<lambda>old.
          if old = None then py_setitem reasons i (Some r) else Inr reasons))"

definition chat_collect_choice :: "chat_acc \<Rightarrow> chat_stream_choice \<Rightarrow> chat_acc res" where
  "chat_collect_choice acc c =
     (case msg_content (sc_delta c) of
        Some (ContentStr t) \<Rightarrow>
          res_bind (add_text (ca_texts acc) (sc_index c) t) (\<lambda>texts.
          res_bind (keep_reason (ca_reasons acc) (sc_index c) (sc_finish_reason c)) (\<lambda>reasons.
          res_bind
            (case sc_logprobs c of
               None \<Rightarrow> Inr (ca_logprobs acc)
             | Some lps \<Rightarrow>
                 (case ca_logprobs acc of
                    None \<Rightarrow> Inl (AssertionError [])
                  | Some ls \<Rightarrow> res_bind (py_index ls (int (sc_index c))) (\<lambda>old.
                      res_bind (py_setitem ls (sc_index c) (old @ lps)) (\<lambda>ls'. Inr (Some ls')))))
            (\<lambda>logprobs. Inr (acc\<lparr>ca_texts := texts, ca_reasons := reasons, ca_logprobs := logprobs\<rparr>))))
      | _ \<Rightarrow> Inl (AssertionError []))"

definition chat_collect_response :: "chat_acc \<Rightarrow> chat_stream_response \<Rightarrow> chat_acc res" where
  "chat_collect_response acc response =
     (case csresp_usage response of
        Some u \<Rightarrow> Inr (acc\<lparr>ca_usage := Some u\<rparr>)
      | None \<Rightarrow> res_fold chat_collect_choice acc (csresp_choices response))"

record completion_acc =
  pa_texts :: "string list"
  pa_reasons :: "string option list"
  pa_logprobs :: "completion_log_probs option list"
  pa_usage :: "completion_usage option"

definition completion_collect_choice :: "completion_acc \<Rightarrow> completion_choice \<Rightarrow> completion_acc res" where
  "completion_collect_choice acc c =
     res_bind (add_text (pa_texts acc) (cch_index c) (cch_text c)) (\<lambda>texts.
     res_bind (keep_reason (pa_reasons acc) (cch_index c) (cch_finish_reason c)) (\<lambda>reasons.
     res_bind (case cch_logprobs c of
                 None \<Rightarrow> Inr (pa_logprobs acc)
               | Some lps \<Rightarrow> py_setitem (pa_logprobs acc) (cch_index c) (Some lps)) (\<lambda>logprobs.
     Inr (acc\<lparr>pa_texts := texts, pa_reasons := reasons, pa_logprobs := logprobs\<rparr>))))"

definition completion_collect_response :: "completion_acc \<Rightarrow> completion_response \<Rightarrow> completion_acc res" where
  "completion_collect_response acc response =
     (case cresp_usage response of
        Some u \<Rightarrow> Inr (acc\<lparr>pa_usage := Some u\<rparr>)
      | None \<Rightarrow> res_fold completion_collect_choice acc (cresp_choices response))"

section \<open>Entry points\<close>

text \<open>
  A streaming call returns the generator, here with everything it does when it is read to the
  end. A call that is not streaming reads it: an exception of the generator comes after the
  responses it yielded were collected.
\<close>

datatype chat_result = ChatStream "chat_stream_response list" "unit res" | ChatFull chat_response

datatype completion_result =
    CompletionStream "completion_response list" "unit res"
  | CompletionFull completion_response

definition chat_full ::
  "'img externals \<Rightarrow> chat_request \<Rightarrow> string \<Rightarrow> chat_stream_response list \<Rightarrow> unit res \<Rightarrow> chat_result res" where
  "chat_full ext request request_id ys ending =
     (let n = nat (chat_n request) in
      res_bind (res_fold chat_collect_response
        \<lparr>ca_texts = replicate n [], ca_reasons = replicate n None,
         ca_logprobs = (if chat_logprobs request then Some (replicate n []) else None),
         ca_usage = None\<rparr> ys) (\<lambda>acc.
      res_bind ending (\<lambda>_.
      res_bind (res_assert (list_all (\<lambda>r. r \<noteq> None) (ca_reasons acc)) []) (\<lambda>_.
      res_bind (process_function_call_output ext (ca_texts acc) (ca_reasons acc))
        (\<lambda>(use_fc, tool_calls_list, texts, reasons).
      res_bind (wrap_chat_completion_response request_id (chat_model request) texts reasons
                  tool_calls_list (ca_logprobs acc) use_fc (ca_usage acc)) (\<lambda>response.
      Inr (ChatFull response)))))))"

definition async_chat_completion ::
  "'img api_env \<Rightarrow> 'img generate_fn \<Rightarrow> string \<Rightarrow> chat_request \<Rightarrow> string option \<Rightarrow> 's trace_state_scheme
     \<Rightarrow> chat_result res" where
  "async_chat_completion env gen uuid request request_id s =
     (let rid = (case request_id of None \<Rightarrow> ''chatcmpl-'' @ uuid | Some i \<Rightarrow> i) in
      res_bind (validate_chat_request request) (\<lambda>request.
      let (ys, ending, _) = async_handle_chat_completion env gen request rid True s in
      if chat_stream request then Inr (ChatStream ys ending)
      else chat_full (api_ext env) request rid ys ending))"

definition sync_chat_completion ::
  "'img api_env \<Rightarrow> 'img generate_fn \<Rightarrow> string \<Rightarrow> chat_request \<Rightarrow> string option \<Rightarrow> 's trace_state_scheme
     \<Rightarrow> chat_result res" where
  "sync_chat_completion env gen uuid request request_id s =
     (let rid = (case request_id of None \<Rightarrow> ''chatcmpl-'' @ uuid | Some i \<Rightarrow> i) in
      res_bind (validate_chat_request request) (\<lambda>request.
      let (ys, ending, _) = sync_handle_chat_completion env gen request rid s in
      if chat_stream request then Inr (ChatStream ys ending)
      else chat_full (api_ext env) request rid ys ending))"

definition completion_full ::
  "completion_request \<Rightarrow> string \<Rightarrow> completion_response list \<Rightarrow> unit res \<Rightarrow> completion_result res" where
  "completion_full request request_id ys ending =
     (let n = nat (creq_n request) in
      res_bind (res_fold completion_collect_response
        \<lparr>pa_texts = replicate n [], pa_reasons = replicate n None, pa_logprobs = replicate n None,
         pa_usage = None\<rparr> ys) (\<lambda>acc.
      res_bind ending (\<lambda>_.
      res_bind (res_assert (list_all (\<lambda>r. r \<noteq> None) (pa_reasons acc)) []) (\<lambda>_.
      res_bind (wrap_completion_response request_id (creq_model request) (pa_texts acc)
                  (pa_reasons acc) (pa_logprobs acc) (pa_usage acc)) (\<lambda>response.
      Inr (CompletionFull response))))))"

definition async_completion ::
  "'img api_env \<Rightarrow> 'img generate_fn \<Rightarrow> string \<Rightarrow> completion_request \<Rightarrow> string option
     \<Rightarrow> 's trace_state_scheme \<Rightarrow> completion_result res" where
  "async_completion env gen uuid request request_id s =
     (let rid = (case request_id of None \<Rightarrow> ''cmpl-'' @ uuid | Some i \<Rightarrow> i) in
      res_bind (validate_completion_request request) (\<lambda>request.
      let (ys, ending, _) = async_handle_completion env gen request rid True s in
      if creq_stream request then Inr (CompletionStream ys ending)
      else completion_full request rid ys ending))"

definition sync_completion ::
  "'img api_env \<Rightarrow> 'img generate_fn \<Rightarrow> string \<Rightarrow> completion_request \<Rightarrow> string option
     \<Rightarrow> 's trace_state_scheme \<Rightarrow> completion_result res" where
  "sync_completion env gen uuid request request_id s =
     (let rid = (case request_id of None \<Rightarrow> ''cmpl-'' @ uuid | Some i \<Rightarrow> i) in
      res_bind (validate_completion_request request) (\<lambda>request.
      let (ys, ending, _) = sync_handle_completion env gen request rid s in
      if creq_stream request then Inr (CompletionStream ys ending)
      else completion_full request rid ys ending))"

definition chat_choice_good :: "bool \<Rightarrow> chat_stream_choice \<Rightarrow> bool" where
  "chat_choice_good lp c \<longleftrightarrow>
     (case msg_content (sc_delta c) of Some (ContentStr _) \<Rightarrow> True | _ \<Rightarrow> False)
     \<and> (sc_logprobs c = None \<or> lp)"

definition chat_acc_inv :: "bool \<Rightarrow> nat \<Rightarrow> chat_acc \<Rightarrow> bool" where
  "chat_acc_inv lp n a \<longleftrightarrow> length (ca_texts a) = n \<and> length (ca_reasons a) = n
     \<and> (case ca_logprobs a of None \<Rightarrow> \<not> lp | Some ls \<Rightarrow> lp \<and> length ls = n)"

definition completion_acc_inv :: "nat \<Rightarrow> completion_acc \<Rightarrow> bool" where
  "completion_acc_inv n a \<longleftrightarrow>
     length (pa_texts a) = n \<and> length (pa_reasons a) = n \<and> length (pa_logprobs a) = n"

text \<open>The text before and after the generated one.\<close>

definition echo_text :: "'img externals \<Rightarrow> completion_request \<Rightarrow> int list \<Rightarrow> string" where
  "echo_text ext request prompt = (if creq_echo request then ext_decode ext prompt else [])"

definition suffix_text :: "completion_request \<Rightarrow> string" where
  "suffix_text request = (case creq_suffix request of None \<Rightarrow> [] | Some t \<Rightarrow> t)"

definition sample_api :: "unit api_env" where
  "sample_api = \<lparr>api_ext = sample_externals, api_model_config = [], api_max_input_sequence_length = 100,
     api_conv_template = sample_conversation\<rparr>"

definition sample_trace :: trace_state where
  "sample_trace = \<lparr>trace_recorder = Some []\<rparr>"

section \<open>Lemmas\<close>

lemma first_some_nested: "first_some (first_some xs # ys) = first_some (xs @ ys)"
  by (cases "first_some xs") (simp_all add: first_some_append)

text \<open>
  The contract of a collecting loop: a good choice is always collected; its text is appended to
  the text of its generation, its reason kept if it is the first. A response with a usage only
  sets the usage.
\<close>

locale collector =
  fixes index :: "'c \<Rightarrow> nat" and text_of :: "'c \<Rightarrow> string" and reason_of :: "'c \<Rightarrow> string option"
    and choices :: "'r \<Rightarrow> 'c list" and usage_of :: "'r \<Rightarrow> completion_usage option"
    and texts :: "'a \<Rightarrow> string list" and reasons :: "'a \<Rightarrow> string option list"
    and acc_usage :: "'a \<Rightarrow> completion_usage option"
    and good :: "'c \<Rightarrow> bool" and inv :: "nat \<Rightarrow> 'a \<Rightarrow> bool"
    and collect :: "'a \<Rightarrow> 'c \<Rightarrow> 'a res" and collect_response :: "'a \<Rightarrow> 'r \<Rightarrow> 'a res"
  assumes inv_length: "inv n a \<Longrightarrow> length (texts a) = n \<and> length (reasons a) = n"
    and collect: "inv n a \<Longrightarrow> good c \<Longrightarrow> index c < n \<Longrightarrow>
      \<exists>a'. collect a c = Inr a' \<and> inv n a' \<and> acc_usage a' = acc_usage a
        \<and> texts a' = (texts a)[index c := texts a ! index c @ text_of c]
        \<and> reasons a' = (reasons a)[index c := first_some [reasons a ! index c, reason_of c]]"
    and response: "usage_of r = None \<Longrightarrow> collect_response a r = res_fold collect a (choices r)"
    and usage: "usage_of r = Some u \<Longrightarrow> inv n a \<Longrightarrow>
      \<exists>a'. collect_response a r = Inr a' \<and> inv n a' \<and> texts a' = texts a \<and> reasons a' = reasons a
        \<and> acc_usage a' = Some u"

begin

definition collected :: "nat \<Rightarrow> 'a \<Rightarrow> 'a \<Rightarrow> 'c list \<Rightarrow> bool" where
  "collected n a a' cs \<longleftrightarrow> (\<forall>i < n.
     texts a' ! i = texts a ! i @ concat (map text_of (filter (\<lambda>c. index c = i) cs))
     \<and> reasons a' ! i = first_some (reasons a ! i # map reason_of (filter (\<lambda>c. index c = i) cs)))"

lemma collect_choices:
  assumes "inv n a" and "\<forall>c \<in> set cs. good c \<and> index c < n"
  shows "\<exists>a'. res_fold collect a cs = Inr a' \<and> inv n a' \<and> acc_usage a' = acc_usage a \<and> collected n a a' cs"
  using assms
proof (induction cs arbitrary: a)
  case Nil
  then show ?case
    by (auto simp: collected_def) (metis first_some.simps option.exhaust)
next
  case (Cons c cs)
  then obtain b where b: "collect a c = Inr b" "inv n b" "acc_usage b = acc_usage a"
    "texts b = (texts a)[index c := texts a ! index c @ text_of c]"
    "reasons b = (reasons a)[index c := first_some [reasons a ! index c, reason_of c]]"
    using collect [of n a c] by auto
  from Cons.IH [OF b(2)] Cons.prems(2) obtain a' where
    a': "res_fold collect b cs = Inr a'" "inv n a'" "acc_usage a' = acc_usage b" "collected n b a' cs" by auto
  have "collected n a a' (c # cs)"
    using a'(4) inv_length [OF Cons.prems(1)]
    by (auto simp: collected_def b(4,5) nth_list_update first_some_nested)
  with a' b show ?case by auto
qed

lemma collect_responses:
  assumes "inv n a" and "\<forall>r \<in> set rs. (usage_of r \<noteq> None \<longrightarrow> choices r = []) \<and> (\<forall>c \<in> set (choices r). good c \<and> index c < n)"
  shows "\<exists>a'. res_fold collect_response a rs = Inr a' \<and> inv n a' \<and> collected n a a' (concat (map choices rs))
    \<and> acc_usage a' = first_some (rev (map usage_of rs) @ [acc_usage a])"
  using assms
proof (induction rs arbitrary: a)
  case Nil
  then show ?case using collect_choices [of n a "[]"] by (cases "acc_usage a") auto
next
  case (Cons r rs)
  have "\<exists>b. collect_response a r = Inr b \<and> inv n b \<and> collected n a b (choices r)
      \<and> acc_usage b = first_some [usage_of r, acc_usage a]"
  proof (cases "usage_of r")
    case None
    with collect_choices [OF Cons.prems(1), of "choices r"] Cons.prems(2) show ?thesis
      by (cases "acc_usage a") (auto simp: response)
  next
    case (Some u)
    with usage [OF Some Cons.prems(1)] Cons.prems collect_choices [of n a "[]"] show ?thesis
      by (fastforce simp: collected_def)
  qed
  then obtain b where b: "collect_response a r = Inr b" "inv n b" "collected n a b (choices r)"
    "acc_usage b = first_some [usage_of r, acc_usage a]" by blast
  from Cons.IH [OF b(2)] Cons.prems(2) obtain a' where a': "res_fold collect_response b rs = Inr a'"
    "inv n a'" "collected n b a' (concat (map choices rs))"
    "acc_usage a' = first_some (rev (map usage_of rs) @ [acc_usage b])" by auto
  have "collected n a a' (concat (map choices (r # rs)))"
    using a'(3) b(3) by (simp add: collected_def first_some_nested)
  moreover have "first_some (rev (map usage_of rs) @ [first_some [usage_of r, acc_usage a]])
      = first_some (rev (map usage_of (r # rs)) @ [acc_usage a])"
    by (cases "usage_of r"; cases "acc_usage a") (auto simp: first_some_append split: option.splits)
  ultimately show ?case using a' b by auto
qed

end

lemma add_text_run: "i < length ts \<Longrightarrow> add_text ts i t = Inr (ts[i := ts ! i @ t])"
  by (simp add: add_text_def py_setitem_def)

lemma keep_reason_run:
  "i < length rs \<Longrightarrow> keep_reason rs i r = Inr (rs[i := first_some [rs ! i, r]])"
  by (cases r; cases "rs ! i") (auto simp: keep_reason_def py_setitem_def, (metis list_update_id)+)

interpretation chat_collector: collector sc_index "\<lambda>c. message_text (sc_delta c)" sc_finish_reason
  csresp_choices csresp_usage ca_texts ca_reasons ca_usage "chat_choice_good lp" "chat_acc_inv lp"
  chat_collect_choice chat_collect_response for lp
proof
  fix n a c
  assume inv: "chat_acc_inv lp n a" and good: "chat_choice_good lp c" and i: "sc_index c < n"
  then obtain t where t: "msg_content (sc_delta c) = Some (ContentStr t)"
    by (auto simp: chat_choice_good_def split: option.splits chat_content.splits)
  show "\<exists>a'. chat_collect_choice a c = Inr a' \<and> chat_acc_inv lp n a' \<and> ca_usage a' = ca_usage a
        \<and> ca_texts a' = (ca_texts a)[sc_index c := ca_texts a ! sc_index c @ message_text (sc_delta c)]
        \<and> ca_reasons a' = (ca_reasons a)[sc_index c := first_some [ca_reasons a ! sc_index c, sc_finish_reason c]]"
    using inv good i t
    by (cases "sc_logprobs c"; cases "ca_logprobs a")
      (auto simp: chat_collect_choice_def chat_acc_inv_def add_text_run keep_reason_run
        py_setitem_def chat_choice_good_def)
qed (auto simp: chat_acc_inv_def chat_collect_response_def)

interpretation completion_collector: collector cch_index cch_text cch_finish_reason
  cresp_choices cresp_usage pa_texts pa_reasons pa_usage "\<lambda>c. True" completion_acc_inv
  completion_collect_choice completion_collect_response
proof
  fix n a and c :: completion_choice
  assume inv: "completion_acc_inv n a" and i: "cch_index c < n"
  show "\<exists>a'. completion_collect_choice a c = Inr a' \<and> completion_acc_inv n a' \<and> pa_usage a' = pa_usage a
        \<and> pa_texts a' = (pa_texts a)[cch_index c := pa_texts a ! cch_index c @ cch_text c]
        \<and> pa_reasons a' = (pa_reasons a)[cch_index c := first_some [pa_reasons a ! cch_index c, cch_finish_reason c]]"
    using inv i
    by (cases "cch_logprobs c")
      (auto simp: completion_collect_choice_def completion_acc_inv_def add_text_run keep_reason_run
        py_setitem_def)
qed (auto simp: completion_acc_inv_def completion_collect_response_def)

lemma gen_loop_yields:
  assumes "gen_loop f a xs s = (ys, r, s')" and "y \<in> set ys"
  shows "\<exists>x b t c u. x \<in> set xs \<and> f b x t = (Inr (Some y, c), u)"
  using assms
proof (induction xs arbitrary: a s ys)
  case (Cons x xs)
  then show ?case
    by (fastforce split: prod.splits sum.splits option.splits)
qed simp

lemma chat_fold_choices_good:
  assumes "py_fold (chat_delta_step ext rid fc) ([], frs) (enumerate 0 ds) s = (Inr (cs, frs'), s')"
    and "\<forall>d \<in> set ds. cb_delta_logprob_json_strs d = None \<or> lp"
  shows "\<forall>c \<in> set cs. chat_choice_good lp c \<and> sc_index c < length ds"
proof -
  have "(\<lambda>a s. \<forall>c \<in> set (fst a). chat_choice_good lp c \<and> sc_index c < length ds) (cs, frs') s'"
  proof (rule py_fold_invariant [OF assms(1)])
    fix a s x b t
    assume a: "\<forall>c \<in> set (fst a). chat_choice_good lp c \<and> sc_index c < length ds"
      and x: "x \<in> set (enumerate 0 ds)" and step: "chat_delta_step ext rid fc a x s = (Inr b, t)"
    obtain cs frs i d where ax: "a = (cs, frs)" "x = (i, d)" by (cases a, cases x)
    have "i < length ds" "d \<in> set ds" using x by (auto simp: ax in_set_enumerate_eq)
    with step a assms(2) show "\<forall>c \<in> set (fst b). chat_choice_good lp c \<and> sc_index c < length ds"
      by (fastforce simp: ax chat_delta_step_def py_bind_eq_Inr chat_stream_choice_Inr chat_choice_good_def
          ChatCompletionMessage_def split: if_splits option.splits prod.splits)
  qed simp
  then show ?thesis by simp
qed

lemma gen_loop_map:
  "gen_loop (\<lambda>a x. py_bind (f a x) (\<lambda>(y, b). py_return (map_option g y, b))) a xs s =
     (let (ys, r, s') = gen_loop f a xs s in (map g ys, r, s'))"
proof (induction xs arbitrary: a s)
  case (Cons x xs)
  obtain q t where q: "f a x s = (q, t)" by fastforce
  show ?case
  proof (cases q)
    case (Inl e)
    with q show ?thesis by (simp add: py_bind_def)
  next
    case (Inr p)
    then obtain y b where "q = Inr (y, b)" by (cases p) auto
    with q Cons [of b t] show ?thesis
      by (cases y) (auto simp: py_bind_def py_return_def Let_def split: prod.splits)
  qed
qed simp

lemma strip_True [simp]: "strip_chat_extra True = id" "strip_completion_extra True = id"
  by (simp_all add: strip_chat_extra_def strip_completion_extra_def fun_eq_iff split: option.splits)

lemma async_handle_chat_eq:
  "async_handle_chat_completion env gen request rid True s = sync_handle_chat_completion env gen request rid s"
  unfolding async_handle_chat_completion_def sync_handle_chat_completion_def gen_loop_map
  by (simp add: Let_def case_prod_beta' cong: sum.case_cong prod.case_cong)

lemma async_handle_completion_eq:
  "async_handle_completion env gen request rid True s = sync_handle_completion env gen request rid s"
  unfolding async_handle_completion_def sync_handle_completion_def gen_loop_map
  by (simp add: Let_def case_prod_beta' cong: sum.case_cong prod.case_cong)

lemma chat_yields_good:
  fixes s :: "'s trace_state_scheme"
  assumes "gen_loop (\<lambda>frs ds. process_chat_completion_stream_output ext ds request rid fc frs) frs chunks s
      = (ys, r, s')"
    and "\<forall>ds \<in> set chunks. chat_chunk_good ext request fc ds"
    and "\<forall>ds \<in> set chunks. \<forall>d \<in> set ds. cb_delta_logprob_json_strs d = None \<or> lp"
    and "y \<in> set ys"
  shows "(csresp_usage y \<noteq> None \<longrightarrow> csresp_choices y = [])
    \<and> (\<forall>c \<in> set (csresp_choices y). chat_choice_good lp c \<and> sc_index c < nat (chat_n request))"
proof -
  from gen_loop_yields [OF assms(1,4)] obtain ds frs1 frs2
    and t u :: "'s trace_state_scheme" where ds: "ds \<in> set chunks"
    and run: "process_chat_completion_stream_output ext ds request rid fc frs1 t = (Inr (Some y, frs2), u)"
    by blast
  note cases = chat_output_cases [OF run]
  show ?thesis
  proof (cases "final_chunk ds")
    case True
    with cases show ?thesis by (auto split: if_splits)
  next
    case False
    with cases obtain cs v where
      f: "py_fold (chat_delta_step ext rid fc) ([], frs1) (enumerate 0 ds) t = (Inr (cs, frs2), v)"
      and y: "csresp_choices y = cs" "csresp_usage y = None" "int (length ds) = chat_n request"
      by (auto split: if_splits)
    from chat_fold_choices_good [OF f, of lp] assms(3) ds y show ?thesis by force
  qed
qed

text \<open>Streaming and collecting: every generation gets its text and its reason.\<close>

lemma chat_collected:
  fixes request :: chat_request
  defines "n \<equiv> nat (chat_n request)"
  defines "acc \<equiv> \<lparr>ca_texts = replicate n [], ca_reasons = replicate n None,
     ca_logprobs = (if chat_logprobs request then Some (replicate n []) else None), ca_usage = None\<rparr>"
  assumes good: "\<forall>ds \<in> set chunks. chat_chunk_good ext request fc ds"
    and lp: "\<forall>ds \<in> set chunks. \<forall>d \<in> set ds. cb_delta_logprob_json_strs d = None \<or> chat_logprobs request"
  shows "\<exists>ys frs s' acc'.
     gen_loop (\<lambda>frs ds. process_chat_completion_stream_output ext ds request rid fc frs)
       (replicate n None) chunks s = (ys, Inr frs, s')
     \<and> res_fold chat_collect_response acc ys = Inr acc'
     \<and> ca_texts acc' = map (\<lambda>i. generated_text i chunks) [0..<n]
     \<and> ca_reasons acc' = map (\<lambda>i. map_option (chat_reason fc) (generated_reason i chunks)) [0..<n]
     \<and> chat_acc_inv (chat_logprobs request) n acc'"
proof -
  have "reasons_ok chat_finish_reasons n (replicate n None)" by (auto simp: reasons_ok_def list_all_iff)
  from chat_total.run_total [OF good this [unfolded n_def]] obtain ys frs s' where
    run: "gen_loop (\<lambda>frs ds. process_chat_completion_stream_output ext ds request rid fc frs)
       (replicate n None) chunks s = (ys, Inr frs, s')"
    unfolding n_def by blast
  have inv: "chat_acc_inv (chat_logprobs request) n acc" by (simp add: acc_def chat_acc_inv_def)
  have "\<forall>y \<in> set ys. (csresp_usage y \<noteq> None \<longrightarrow> csresp_choices y = [])
    \<and> (\<forall>c \<in> set (csresp_choices y). chat_choice_good (chat_logprobs request) c \<and> sc_index c < n)"
    using chat_yields_good [OF run good lp] unfolding n_def by blast
  from chat_collector.collect_responses [OF inv this] obtain acc' where
    acc': "res_fold chat_collect_response acc ys = Inr acc'" "chat_acc_inv (chat_logprobs request) n acc'"
    and col: "chat_collector.collected n acc acc' (concat (map csresp_choices ys))" by blast
  have ok: "\<forall>ds \<in> set chunks. chunk_ok n ds" using good chat_total.good_chunk unfolding n_def by blast
  have at: "ca_texts acc' ! i = generated_text i chunks
      \<and> ca_reasons acc' ! i = map_option (chat_reason fc) (generated_reason i chunks)" if "i < n" for i
    using col [unfolded chat_collector.collected_def] that chat_out.run_at [OF run ok _ that]
    unfolding chat_out.choices_at_def by (simp add: acc_def)
  have "length (ca_texts acc') = n" "length (ca_reasons acc') = n"
    using acc'(2) by (simp_all add: chat_acc_inv_def)
  with at have "ca_texts acc' = map (\<lambda>i. generated_text i chunks) [0..<n]"
    "ca_reasons acc' = map (\<lambda>i. map_option (chat_reason fc) (generated_reason i chunks)) [0..<n]"
    by (auto intro: nth_equalityI)
  with run acc' show ?thesis by blast
qed

lemma no_tool_calls:
  "Some ''tool_calls'' \<notin> set reasons \<Longrightarrow>
   process_function_call_output ext texts reasons = Inr (False, replicate (length texts) [], texts, reasons)"
  by (auto simp: process_function_call_output_def list_ex_iff)

lemma wrap_chat_total:
  assumes "length reasons = length texts" "length tcl = length texts"
    and "\<forall>r \<in> set reasons. case r of None \<Rightarrow> True | Some x \<Rightarrow> x \<in> set chat_finish_reasons"
    and "case lps of None \<Rightarrow> True | Some ls \<Rightarrow> length ls = length texts"
  shows "\<exists>resp. wrap_chat_completion_response rid model texts reasons tcl lps False usage = Inr resp
    \<and> length (ccresp_choices resp) = length texts
    \<and> (\<forall>i < length texts. cc_index (ccresp_choices resp ! i) = i
        \<and> cc_message (ccresp_choices resp ! i) = ChatCompletionMessage Assistant (Some (ContentStr (texts ! i)))
        \<and> cc_finish_reason (ccresp_choices resp ! i) = reasons ! i)
    \<and> ccresp_usage resp = usage \<and> ccresp_id resp = rid"
proof -
  let ?f = "\<lambda>(i, output_text, finish_reason, tool_calls).
       \<lparr>cc_finish_reason = finish_reason, cc_index = i,
        cc_message = ChatCompletionMessage Assistant (Some (ContentStr output_text)),
        cc_logprobs = map_option (\<lambda>ls. ls ! i) lps\<rparr>"
  have "res_map (\<lambda>(i, output_text, finish_reason, tool_calls).
       res_bind (case lps of None \<Rightarrow> Inr None
                 | Some ls \<Rightarrow> res_bind (py_index ls (int i)) (\<lambda>l. Inr (Some l))) (\<lambda>lp.
       ChatCompletionResponseChoice i finish_reason
         (if \<not> False \<or> finish_reason = Some ''error''
          then ChatCompletionMessage Assistant (Some (ContentStr output_text))
          else (ChatCompletionMessage Assistant None)\<lparr>msg_tool_calls := Some tool_calls\<rparr>) lp))
       (enumerate 0 (zip texts (zip reasons tcl))) = Inr (map ?f (enumerate 0 (zip texts (zip reasons tcl))))"
  proof (rule res_map_total)
    fix x assume mem: "x \<in> set (enumerate 0 (zip texts (zip reasons tcl)))"
    obtain i t r tc where "x = (i, t, r, tc)" by (cases x)
    with mem assms(1,2) have x: "x = (i, texts ! i, reasons ! i, tcl ! i)" "i < length texts"
      by (auto simp: in_set_enumerate_eq)
    have "reasons ! i \<in> set reasons" using assms(1) x(2) by simp
    with assms(3) have "reasons ! i \<noteq> None \<longrightarrow> the (reasons ! i) \<in> set chat_finish_reasons" by fastforce
    then show "(case x of (i, output_text, finish_reason, tool_calls) \<Rightarrow>
       res_bind (case lps of None \<Rightarrow> Inr None
                 | Some ls \<Rightarrow> res_bind (py_index ls (int i)) (\<lambda>l. Inr (Some l))) (\<lambda>lp.
       ChatCompletionResponseChoice i finish_reason
         (if \<not> False \<or> finish_reason = Some ''error''
          then ChatCompletionMessage Assistant (Some (ContentStr output_text))
          else (ChatCompletionMessage Assistant None)\<lparr>msg_tool_calls := Some tool_calls\<rparr>) lp)) = Inr (?f x)"
      using assms(4) x by (auto simp: ChatCompletionResponseChoice_def split: option.splits)
  qed
  then show ?thesis using assms(1,2)
    by (simp add: wrap_chat_completion_response_def nth_enumerate_eq)
qed

lemma generated_reason_in:
  "generated_reason i chunks = Some r \<Longrightarrow>
   \<exists>ds \<in> set chunks. \<not> final_chunk ds \<and> cb_finish_reason (ds ! i) = Some r"
  by (induction chunks) (auto split: if_splits)

lemma generated_reason_allowed:
  assumes "\<forall>ds \<in> set chunks. chat_chunk_good ext request fc ds" and "i < nat (chat_n request)"
    and "generated_reason i chunks = Some r"
  shows "chat_reason fc r \<in> set chat_finish_reasons"
proof -
  from generated_reason_in [OF assms(3)] obtain ds where ds: "ds \<in> set chunks" "\<not> final_chunk ds"
    "cb_finish_reason (ds ! i) = Some r" by blast
  with assms(1) have "int (length ds) = chat_n request"
    "list_all (\<lambda>d. case cb_finish_reason d of None \<Rightarrow> True
       | Some r \<Rightarrow> chat_reason fc r \<in> set chat_finish_reasons) ds"
    by (auto simp: chat_chunk_good_def list_all_iff)
  with assms(2) have "case cb_finish_reason (ds ! i) of None \<Rightarrow> True
       | Some r \<Rightarrow> chat_reason fc r \<in> set chat_finish_reasons" by (simp add: list_all_length)
  with ds(3) show ?thesis by simp
qed

lemma request_gc_n:
  assumes "process_chat_completion_request ext request rid mc limit conv s
     = (Inr (prompts, cfg, fc, len, request'), s')"
  shows "gc_n cfg = chat_n request"
  using assms
  by (auto simp: process_chat_completion_request_def py_bind_eq_Inr Let_def case_prod_beta
      get_generation_config_def split: option.splits)

lemma completion_fold_index:
  assumes "res_fold (completion_delta_step ext) ([], frs) (enumerate 0 ds) = Inr (cs, frs')"
  shows "\<forall>c \<in> set cs. cch_index c < length ds"
proof -
  have "(\<lambda>a. \<forall>c \<in> set (fst a). cch_index c < length ds) (cs, frs')"
  proof (rule res_fold_invariant [OF assms])
    fix a x b
    assume a: "\<forall>c \<in> set (fst a). cch_index c < length ds" and x: "x \<in> set (enumerate 0 ds)"
      and step: "completion_delta_step ext a x = Inr b"
    obtain cs frs i d where ax: "a = (cs, frs)" "x = (i, d)" by (cases a, cases x)
    have "i < length ds" using x by (auto simp: ax in_set_enumerate_eq)
    with step a show "\<forall>c \<in> set (fst b). cch_index c < length ds"
      by (fastforce simp: ax completion_delta_step_def res_bind_eq_Inr completion_choice_Inr
          split: if_splits option.splits prod.splits)
  qed simp
  then show ?thesis by simp
qed

lemma completion_yields_good:
  fixes s :: "'s trace_state_scheme"
  assumes "gen_loop (\<lambda>frs ds. process_completion_stream_output ext ds request rid frs) frs chunks s = (ys, r, s')"
    and "y \<in> set ys"
  shows "(cresp_usage y \<noteq> None \<longrightarrow> cresp_choices y = [])
    \<and> (\<forall>c \<in> set (cresp_choices y). True \<and> cch_index c < nat (creq_n request))"
proof -
  from gen_loop_yields [OF assms] obtain ds frs1 frs2 and t u :: "'s trace_state_scheme" where
    run: "process_completion_stream_output ext ds request rid frs1 t = (Inr (Some y, frs2), u)"
    by blast
  note cases = completion_output_cases [OF run]
  show ?thesis
  proof (cases "final_chunk ds")
    case True
    with cases show ?thesis by (auto split: if_splits)
  next
    case False
    with cases obtain cs where
      f: "res_fold (completion_delta_step ext) ([], frs1) (enumerate 0 ds) = Inr (cs, frs2)"
      and y: "cresp_choices y = cs" "cresp_usage y = None" "int (length ds) = creq_n request"
      by (auto split: if_splits)
    from completion_fold_index [OF f] y show ?thesis by force
  qed
qed

lemma completion_collected:
  fixes request :: completion_request
  defines "n \<equiv> nat (creq_n request)"
  defines "acc \<equiv> \<lparr>pa_texts = replicate n [], pa_reasons = replicate n None, pa_logprobs = replicate n None,
      pa_usage = None\<rparr>"
  assumes good: "\<forall>ds \<in> set chunks. completion_chunk_good ext request ds"
    and ended: "\<forall>i < n. generated_reason i chunks \<noteq> None"
    and e: "e = (if creq_echo request then [\<lparr>cresp_id = rid,
        cresp_choices = map (\<lambda>i. \<lparr>cch_finish_reason = None, cch_index = i, cch_logprobs = None,
          cch_text = etext\<rparr>) [0..<n], cresp_model = m, cresp_usage = None\<rparr>] else [])"
  shows "\<exists>ys frs s' x acc'.
     gen_loop (\<lambda>frs ds. process_completion_stream_output ext ds request rid frs)
       (replicate n None) chunks s = (ys, Inr frs, s')
     \<and> create_completion_suffix_response request rid frs = Inr x
     \<and> res_fold completion_collect_response acc (e @ ys @ (case x of None \<Rightarrow> [] | Some r \<Rightarrow> [r])) = Inr acc'
     \<and> pa_texts acc' = map (\<lambda>i. (if creq_echo request then etext else []) @ generated_text i chunks
          @ suffix_text request) [0..<n]
     \<and> pa_reasons acc' = map (\<lambda>i. generated_reason i chunks) [0..<n]
     \<and> completion_acc_inv n acc'
     \<and> (\<forall>i < n. the (generated_reason i chunks) \<in> set completion_finish_reasons)"
proof -
  have ok0: "reasons_ok completion_finish_reasons n (replicate n None)"
    by (auto simp: reasons_ok_def list_all_iff)
  from completion_total.run_total [OF good this [unfolded n_def]] obtain ys frs s' where
    run: "gen_loop (\<lambda>frs ds. process_completion_stream_output ext ds request rid frs)
       (replicate n None) chunks s = (ys, Inr frs, s')"
    and fok: "reasons_ok completion_finish_reasons n frs"
    unfolding n_def by blast
  have ok: "\<forall>ds \<in> set chunks. chunk_ok n ds" using good completion_total.good_chunk unfolding n_def by blast
  have at: "concat (map cch_text (filter (\<lambda>c. cch_index c = i) (concat (map cresp_choices ys)))) = generated_text i chunks"
    "first_some (map cch_finish_reason (filter (\<lambda>c. cch_index c = i) (concat (map cresp_choices ys)))) = generated_reason i chunks"
    "frs ! i = generated_reason i chunks" if "i < n" for i
    using completion_out.run_at [OF run ok _ that] that
    unfolding completion_out.choices_at_def by (simp_all add: option.map_ident)
  have len: "length frs = n" using fok by (simp add: reasons_ok_def)
  have frs: "frs = map (\<lambda>i. generated_reason i chunks) [0..<n]"
    by (rule nth_equalityI) (simp_all add: len at)
  have allowed: "\<forall>i < n. the (generated_reason i chunks) \<in> set completion_finish_reasons"
    using reasons_ok_nth [OF fok] at(3) ended by fastforce
  let ?sc = "\<lambda>t i. \<lparr>cch_finish_reason = generated_reason i chunks, cch_index = i, cch_logprobs = None, cch_text = t\<rparr>"
  define x where "x = map_option (\<lambda>t. \<lparr>cresp_id = rid, cresp_choices = map (?sc t) [0..<n],
      cresp_model = creq_model request, cresp_usage = None\<rparr>) (creq_suffix request)"
  have suffix: "create_completion_suffix_response request rid frs = Inr x"
  proof (cases "creq_suffix request")
    case (Some t)
    have "res_map (\<lambda>(i, reason). CompletionResponseChoice i reason t None) (enumerate 0 frs)
        = Inr (map (\<lambda>(i, reason). ?sc t i) (enumerate 0 frs))"
      using allowed ended by (intro res_map_total)
        (auto simp: in_set_enumerate_eq frs CompletionResponseChoice_def)
    moreover have "map (\<lambda>(i, reason). ?sc t i) (enumerate 0 frs) = map (?sc t) [0..<n]"
      by (rule nth_equalityI) (simp_all add: len nth_enumerate_eq)
    moreover have "list_all (\<lambda>r. r \<noteq> None) frs" using ended by (simp add: frs list_all_iff)
    ultimately show ?thesis
      by (simp add: create_completion_suffix_response_def Some x_def res_assert_def)
  qed (simp add: create_completion_suffix_response_def x_def)
  let ?rs = "e @ ys @ (case x of None \<Rightarrow> [] | Some r \<Rightarrow> [r])"
  have inv: "completion_acc_inv n acc" by (simp add: acc_def completion_acc_inv_def)
  have "\<forall>r \<in> set ?rs. (cresp_usage r \<noteq> None \<longrightarrow> cresp_choices r = [])
      \<and> (\<forall>c \<in> set (cresp_choices r). True \<and> cch_index c < n)"
    using completion_yields_good [OF run] unfolding n_def [symmetric]
    by (auto simp: e x_def split: option.splits if_splits)
  from completion_collector.collect_responses [OF inv this] obtain acc' where
    acc': "res_fold completion_collect_response acc ?rs = Inr acc'" "completion_acc_inv n acc'"
    and col: "completion_collector.collected n acc acc' (concat (map cresp_choices ?rs))" by blast
  have fs: "filter (\<lambda>c. cch_index c = i) (concat (map cresp_choices ?rs)) =
      (if creq_echo request then [\<lparr>cch_finish_reason = None, cch_index = i, cch_logprobs = None, cch_text = etext\<rparr>] else [])
      @ filter (\<lambda>c. cch_index c = i) (concat (map cresp_choices ys))
      @ (case creq_suffix request of None \<Rightarrow> [] | Some t \<Rightarrow> [?sc t i])" if "i < n" for i
    using that by (auto simp: e x_def filter_map comp_def filter_index_upt split: option.splits)
  have "pa_texts acc' ! i = (if creq_echo request then etext else []) @ generated_text i chunks @ suffix_text request
      \<and> pa_reasons acc' ! i = generated_reason i chunks" if i: "i < n" for i
  proof -
    obtain r where r: "generated_reason i chunks = Some r" using ended i by auto
    have "pa_texts acc' ! i = concat (map cch_text (filter (\<lambda>c. cch_index c = i) (concat (map cresp_choices ?rs))))"
      "pa_reasons acc' ! i = first_some (map cch_finish_reason (filter (\<lambda>c. cch_index c = i) (concat (map cresp_choices ?rs))))"
      using col i by (simp_all add: completion_collector.collected_def acc_def)
    then show ?thesis unfolding fs [OF i]
      using at [OF i] r
      by (cases "creq_suffix request") (simp_all add: first_some_append suffix_text_def)
  qed
  moreover have "length (pa_texts acc') = n" "length (pa_reasons acc') = n"
    using acc'(2) by (simp_all add: completion_acc_inv_def)
  ultimately have "pa_texts acc' = map (\<lambda>i. (if creq_echo request then etext else []) @ generated_text i chunks
          @ suffix_text request) [0..<n]"
    "pa_reasons acc' = map (\<lambda>i. generated_reason i chunks) [0..<n]"
    by (auto intro: nth_equalityI)
  with run suffix acc' allowed show ?thesis by blast
qed

lemma wrap_completion_total:
  assumes "length reasons = length texts" "length lps = length texts"
    and "\<forall>r \<in> set reasons. case r of None \<Rightarrow> True | Some x \<Rightarrow> x \<in> set completion_finish_reasons"
  shows "\<exists>resp. wrap_completion_response rid model texts reasons lps usage = Inr resp
    \<and> length (cresp_choices resp) = length texts
    \<and> (\<forall>i < length texts. cch_index (cresp_choices resp ! i) = i \<and> cch_text (cresp_choices resp ! i) = texts ! i
        \<and> cch_finish_reason (cresp_choices resp ! i) = reasons ! i \<and> cch_logprobs (cresp_choices resp ! i) = lps ! i)"
proof -
  let ?f = "\<lambda>(i, output_text, finish_reason).
       \<lparr>cch_finish_reason = finish_reason, cch_index = i, cch_logprobs = lps ! i, cch_text = output_text\<rparr>"
  have "res_map (\<lambda>(i, output_text, finish_reason).
       res_bind (py_index lps (int i)) (\<lambda>lp. CompletionResponseChoice i finish_reason output_text lp))
       (enumerate 0 (zip texts reasons)) = Inr (map ?f (enumerate 0 (zip texts reasons)))"
  proof (rule res_map_total)
    fix x assume mem: "x \<in> set (enumerate 0 (zip texts reasons))"
    obtain i t r where "x = (i, t, r)" by (cases x)
    with mem assms(1,2) have x: "x = (i, texts ! i, reasons ! i)" "i < length texts"
      by (auto simp: in_set_enumerate_eq)
    have "reasons ! i \<in> set reasons" using assms(1) x(2) by simp
    with assms(3) have "reasons ! i \<noteq> None \<longrightarrow> the (reasons ! i) \<in> set completion_finish_reasons" by fastforce
    then show "(case x of (i, output_text, finish_reason) \<Rightarrow>
       res_bind (py_index lps (int i)) (\<lambda>lp. CompletionResponseChoice i finish_reason output_text lp)) = Inr (?f x)"
      using assms(2) x by (auto simp: CompletionResponseChoice_def)
  qed
  then show ?thesis using assms(1,2)
    by (simp add: wrap_completion_response_def nth_enumerate_eq)
qed

lemma completion_request_run:
  fixes ext :: "'img externals"
  assumes "process_completion_request ext request rid limit conv s
     = (Inr (prompt, cfg, len, echo, request'), s')"
  shows "gc_n cfg = creq_n request \<and>
    (case echo of None \<Rightarrow> [] | Some r \<Rightarrow> [r]) = (if creq_echo request then [\<lparr>cresp_id = rid,
        cresp_choices = map (\<lambda>i. \<lparr>cch_finish_reason = None, cch_index = i, cch_logprobs = None,
          cch_text = ext_decode ext prompt\<rparr>) [0..<nat (creq_n request)], cresp_model = creq_model request,
          cresp_usage = None\<rparr>] else [])"
proof -
  have total: "res_map (\<lambda>i. CompletionResponseChoice i None t None) xs =
      Inr (map (\<lambda>i. \<lparr>cch_finish_reason = None, cch_index = i, cch_logprobs = None, cch_text = t\<rparr>) xs)" for t xs
    by (rule res_map_total) (simp add: CompletionResponseChoice_def)
  from assms have "cfg = fst (get_generation_config (ReqCompletion request)
      (Some (stop_token_ids conv)) (Some (stop_str conv)))"
    "(case echo of None \<Rightarrow> [] | Some r \<Rightarrow> [r]) = (if creq_echo request then [\<lparr>cresp_id = rid,
        cresp_choices = map (\<lambda>i. \<lparr>cch_finish_reason = None, cch_index = i, cch_logprobs = None,
          cch_text = ext_decode ext prompt\<rparr>) [0..<nat (gc_n cfg)], cresp_model = creq_model request,
          cresp_usage = None\<rparr>] else [])"
    by (auto simp: process_completion_request_def py_bind_eq_Inr Let_def case_prod_beta total split: if_splits)
  moreover from this(1) have "gc_n cfg = creq_n request"
    by (auto simp: get_generation_config_def Let_def split: option.splits)
  ultimately show ?thesis by simp
qed

section \<open>Properties\<close>

text \<open>
  C6: a chat completion that is not streamed. When the request is accepted without function
  calling and the engine yields well-formed chunks in which every generation gets a finish
  reason, the call returns one choice per generation, in order, whose message is the whole
  generated text and whose finish reason is the first one reported. This composes the request
  processing, the handler, the collecting loop and the wrapping of the response.
\<close>

theorem chat_completion_full:
  assumes "validate_chat_request request = Inr request" and "\<not> chat_stream request"
    and req: "process_chat_completion_request (api_ext env) request rid (api_model_config env)
        (api_max_input_sequence_length env) (api_conv_template env) s
      = (Inr (prompts, cfg, False, len, request'), s1)"
    and gen: "gen (VList (map value_of_tok prompts)) cfg = (chunks, None)"
    and good: "\<forall>ds \<in> set chunks. chat_chunk_good (api_ext env) request False ds"
    and lp: "\<forall>ds \<in> set chunks. \<forall>d \<in> set ds. cb_delta_logprob_json_strs d = None \<or> chat_logprobs request"
    and ended: "\<forall>i < nat (chat_n request).
        generated_reason i chunks \<noteq> None \<and> generated_reason i chunks \<noteq> Some ''tool_calls''"
  shows "\<exists>resp. async_chat_completion env gen uuid request (Some rid) s = Inr (ChatFull resp)
    \<and> length (ccresp_choices resp) = nat (chat_n request)
    \<and> (\<forall>i < nat (chat_n request). cc_index (ccresp_choices resp ! i) = i
        \<and> cc_message (ccresp_choices resp ! i)
            = ChatCompletionMessage Assistant (Some (ContentStr (generated_text i chunks)))
        \<and> cc_finish_reason (ccresp_choices resp ! i) = generated_reason i chunks)"
proof -
  let ?n = "nat (chat_n request)"
  let ?acc = "\<lparr>ca_texts = replicate ?n [], ca_reasons = replicate ?n None,
     ca_logprobs = (if chat_logprobs request then Some (replicate ?n []) else None), ca_usage = None\<rparr>"
  let ?s2 = "snd (record_event rid ''invoke generate'' s1)"
  have id: "map_option (chat_reason False) r = r" for r by (cases r) (simp_all add: chat_reason_def)
  from chat_collected [OF good lp, of rid ?s2] obtain ys frs s3 acc where
    run: "gen_loop (\<lambda>frs ds. process_chat_completion_stream_output (api_ext env) ds request rid False frs)
       (replicate ?n None) chunks ?s2 = (ys, Inr frs, s3)"
    and col: "res_fold chat_collect_response ?acc ys = Inr acc"
    and texts: "ca_texts acc = map (\<lambda>i. generated_text i chunks) [0..<?n]"
    and reasons: "ca_reasons acc = map (\<lambda>i. generated_reason i chunks) [0..<?n]"
    and inv: "chat_acc_inv (chat_logprobs request) ?n acc"
    unfolding id by blast
  have allowed: "\<forall>r \<in> set (ca_reasons acc). case r of None \<Rightarrow> True | Some x \<Rightarrow> x \<in> set chat_finish_reasons"
    using generated_reason_allowed [OF good] by (auto simp: reasons chat_reason_def split: option.splits)
  have handler: "sync_handle_chat_completion env gen request rid s =
      (ys, Inr (), snd (record_event rid ''finish'' s3))"
    using req gen run request_gc_n [OF req] by (simp add: sync_handle_chat_completion_def Let_def)
  have tool: "process_function_call_output (api_ext env) (ca_texts acc) (ca_reasons acc)
      = Inr (False, replicate ?n [], ca_texts acc, ca_reasons acc)"
  proof -
    have "Some ''tool_calls'' \<notin> set (ca_reasons acc)" using ended by (auto simp: reasons)
    then show ?thesis by (simp add: no_tool_calls texts)
  qed
  have "case ca_logprobs acc of None \<Rightarrow> True | Some ls \<Rightarrow> length ls = length (ca_texts acc)"
    using inv by (auto simp: chat_acc_inv_def split: option.splits)
  from wrap_chat_total [OF _ _ allowed this, of "replicate ?n []" rid "chat_model request" "ca_usage acc"]
  obtain resp where resp: "wrap_chat_completion_response rid (chat_model request) (ca_texts acc)
      (ca_reasons acc) (replicate ?n []) (ca_logprobs acc) False (ca_usage acc) = Inr resp"
    "length (ccresp_choices resp) = ?n"
    "\<forall>i < ?n. cc_index (ccresp_choices resp ! i) = i
        \<and> cc_message (ccresp_choices resp ! i) = ChatCompletionMessage Assistant (Some (ContentStr (ca_texts acc ! i)))
        \<and> cc_finish_reason (ccresp_choices resp ! i) = ca_reasons acc ! i"
    by (auto simp: texts reasons)
  have "list_all (\<lambda>r. r \<noteq> None) (ca_reasons acc)"
    using ended by (simp add: reasons list_all_iff)
  then have "async_chat_completion env gen uuid request (Some rid) s = Inr (ChatFull resp)"
    using assms(1,2) handler col tool resp(1)
    by (simp add: async_chat_completion_def async_handle_chat_eq chat_full_def Let_def res_assert_def)
  with resp show ?thesis by (auto simp: texts reasons)
qed

theorem chat_completion_full_witness:
  "\<exists>resp. async_chat_completion sample_api (\<lambda>p c. (sample_chunks, None)) ''u''
      (ChatCompletionRequest [ChatCompletionMessage User (Some (ContentStr ''hi''))]) (Some ''r'') sample_trace
      = Inr (ChatFull resp)
    \<and> length (ccresp_choices resp) = 1
    \<and> cc_message (ccresp_choices resp ! 0) = ChatCompletionMessage Assistant (Some (ContentStr ''abc''))
    \<and> cc_finish_reason (ccresp_choices resp ! 0) = Some ''stop''"
proof -
  let ?r = "ChatCompletionRequest [ChatCompletionMessage User (Some (ContentStr ''hi''))]"
  let ?p = "process_chat_completion_request (api_ext sample_api) ?r ''r'' (api_model_config sample_api)
      (api_max_input_sequence_length sample_api) (api_conv_template sample_api) sample_trace"
  have v: "validate_chat_request ?r = Inr ?r" "\<not> chat_stream ?r" "nat (chat_n ?r) = 1" by code_simp+
  have "\<not> isl (fst ?p)" "(case fst ?p of Inr (prompts, cfg, fc, rest) \<Rightarrow> fc | Inl e \<Rightarrow> True) = False"
    by code_simp+
  then obtain prompts cfg len r s1 where p: "?p = (Inr (prompts, cfg, False, len, r), s1)"
    by (cases ?p) (auto simp: not_isl_Inr)
  have good: "\<forall>ds \<in> set sample_chunks. chat_chunk_good (api_ext sample_api) ?r False ds"
    "\<forall>ds \<in> set sample_chunks. \<forall>d \<in> set ds. cb_delta_logprob_json_strs d = None \<or> chat_logprobs ?r"
    by code_simp+
  have g: "generated_text 0 sample_chunks = ''abc''" "generated_reason 0 sample_chunks = Some ''stop''"
    by code_simp+
  from chat_completion_full [OF v(1,2) p, of "\<lambda>p c. (sample_chunks, None)" sample_chunks "''u''"] good g v(3)
  show ?thesis by auto
qed

text \<open>
  C7: a completion that is not streamed. When the request is accepted and the engine yields
  well-formed chunks in which every generation gets a finish reason, the call returns one choice
  per generation, in order, whose text is the decoded prompt if \<open>echo\<close> is set, then the
  whole generated text, then the suffix, and whose finish reason is the first one reported.
\<close>

theorem completion_full_text:
  assumes "validate_completion_request request = Inr request" and "\<not> creq_stream request"
    and req: "process_completion_request (api_ext env) request rid
        (api_max_input_sequence_length env) (api_conv_template env) s
      = (Inr (prompt, cfg, len, echo, request'), s1)"
    and gen: "gen (VList (map VInt prompt)) cfg = (chunks, None)"
    and good: "\<forall>ds \<in> set chunks. completion_chunk_good (api_ext env) request ds"
    and ended: "\<forall>i < nat (creq_n request). generated_reason i chunks \<noteq> None"
  shows "\<exists>resp. async_completion env gen uuid request (Some rid) s = Inr (CompletionFull resp)
    \<and> length (cresp_choices resp) = nat (creq_n request)
    \<and> (\<forall>i < nat (creq_n request). cch_index (cresp_choices resp ! i) = i
        \<and> cch_text (cresp_choices resp ! i)
            = echo_text (api_ext env) request prompt @ generated_text i chunks @ suffix_text request
        \<and> cch_finish_reason (cresp_choices resp ! i) = generated_reason i chunks)"
proof -
  let ?n = "nat (creq_n request)"
  let ?s2 = "snd (record_event rid ''invoke generate'' s1)"
  from completion_request_run [OF req] have n: "gc_n cfg = creq_n request" and
    echo: "(case echo of None \<Rightarrow> [] | Some r \<Rightarrow> [r]) = (if creq_echo request then [\<lparr>cresp_id = rid,
        cresp_choices = map (\<lambda>i. \<lparr>cch_finish_reason = None, cch_index = i, cch_logprobs = None,
          cch_text = ext_decode (api_ext env) prompt\<rparr>) [0..<?n], cresp_model = creq_model request,
          cresp_usage = None\<rparr>] else [])" by auto
  from completion_collected [OF good ended echo, of ?s2] obtain ys frs s3 x acc where
    run: "gen_loop (\<lambda>frs ds. process_completion_stream_output (api_ext env) ds request rid frs)
       (replicate ?n None) chunks ?s2 = (ys, Inr frs, s3)"
    and suffix: "create_completion_suffix_response request rid frs = Inr x"
    and col: "res_fold completion_collect_response \<lparr>pa_texts = replicate ?n [], pa_reasons = replicate ?n None,
        pa_logprobs = replicate ?n None, pa_usage = None\<rparr>
        ((case echo of None \<Rightarrow> [] | Some r \<Rightarrow> [r]) @ ys @ (case x of None \<Rightarrow> [] | Some r \<Rightarrow> [r])) = Inr acc"
    and texts: "pa_texts acc = map (\<lambda>i. echo_text (api_ext env) request prompt @ generated_text i chunks
          @ suffix_text request) [0..<?n]"
    and reasons: "pa_reasons acc = map (\<lambda>i. generated_reason i chunks) [0..<?n]"
    and inv: "completion_acc_inv ?n acc"
    and allowed: "\<forall>i < ?n. the (generated_reason i chunks) \<in> set completion_finish_reasons"
    unfolding echo_text_def by blast
  have handler: "sync_handle_completion env gen request rid s =
      ((case echo of None \<Rightarrow> [] | Some r \<Rightarrow> [r]) @ ys @ (case x of None \<Rightarrow> [] | Some r \<Rightarrow> [r]), Inr (),
       snd (record_event rid ''finish'' s3))"
    using req gen run n suffix by (simp add: sync_handle_completion_def Let_def)
  have "\<forall>r \<in> set (pa_reasons acc). case r of None \<Rightarrow> True | Some x \<Rightarrow> x \<in> set completion_finish_reasons"
    using allowed ended by (auto simp: reasons split: option.splits)
  from wrap_completion_total [OF _ _ this, of "pa_texts acc" "pa_logprobs acc" rid "creq_model request" "pa_usage acc"]
  obtain resp where resp: "wrap_completion_response rid (creq_model request) (pa_texts acc)
      (pa_reasons acc) (pa_logprobs acc) (pa_usage acc) = Inr resp"
    "length (cresp_choices resp) = ?n"
    "\<forall>i < ?n. cch_index (cresp_choices resp ! i) = i \<and> cch_text (cresp_choices resp ! i) = pa_texts acc ! i
        \<and> cch_finish_reason (cresp_choices resp ! i) = pa_reasons acc ! i"
    using inv by (auto simp: texts reasons completion_acc_inv_def)
  have "list_all (\<lambda>r. r \<noteq> None) (pa_reasons acc)"
    using ended by (simp add: reasons list_all_iff)
  then have "async_completion env gen uuid request (Some rid) s = Inr (CompletionFull resp)"
    using assms(1,2) handler col resp(1)
    by (simp add: async_completion_def async_handle_completion_eq completion_full_def Let_def res_assert_def)
  with resp show ?thesis by (auto simp: texts reasons)
qed

theorem completion_full_text_witness:
  "\<exists>resp. async_completion sample_api (\<lambda>p c. (sample_chunks, None)) ''u''
      ((CompletionRequest (PromptStr ''hi''))\<lparr>creq_echo := True, creq_suffix := Some ''!''\<rparr>) (Some ''r'') sample_trace
      = Inr (CompletionFull resp)
    \<and> length (cresp_choices resp) = 1 \<and> cch_text (cresp_choices resp ! 0) = ''hiabc!''"
proof -
  let ?r = "(CompletionRequest (PromptStr ''hi''))\<lparr>creq_echo := True, creq_suffix := Some ''!''\<rparr>"
  let ?p = "process_completion_request (api_ext sample_api) ?r ''r''
      (api_max_input_sequence_length sample_api) (api_conv_template sample_api) sample_trace"
  have v: "validate_completion_request ?r = Inr ?r" "\<not> creq_stream ?r" "nat (creq_n ?r) = 1" by code_simp+
  have "\<not> isl (fst ?p)" "(case fst ?p of Inr (prompt, rest) \<Rightarrow> prompt | Inl e \<Rightarrow> []) = [104, 105]"
    by code_simp+
  then obtain cfg len echo r s1 where p: "?p = (Inr ([104, 105], cfg, len, echo, r), s1)"
    by (cases ?p) (auto simp: not_isl_Inr)
  have good: "\<forall>ds \<in> set sample_chunks. completion_chunk_good (api_ext sample_api) ?r ds" by code_simp
  have g: "echo_text (api_ext sample_api) ?r [104, 105] @ generated_text 0 sample_chunks @ suffix_text ?r = ''hiabc!''"
    "generated_reason 0 sample_chunks = Some ''stop''"
    by code_simp+
  from completion_full_text [OF v(1,2) p, of "\<lambda>p c. (sample_chunks, None)" sample_chunks "''u''"] good g v(3)
  show ?thesis by auto
qed

text \<open>
  The synchronous and the asynchronous engine answer every request in the same way, streamed or
  not, valid or not, when the generation below yields the same chunks and ends the same way.
\<close>

theorem sync_async_api_agree:
  "sync_chat_completion env gen uuid request rid s = async_chat_completion env gen uuid request rid s
   \<and> sync_completion env gen uuid req rid s = async_completion env gen uuid req rid s"
  by (simp add: sync_chat_completion_def async_chat_completion_def sync_completion_def
      async_completion_def async_handle_chat_eq async_handle_completion_eq)

text \<open>
  The logprobs of a completion that is not streamed are those of the last choice that had
  any, not of the whole generation: the collecting loop replaces them.
\<close>

theorem completion_collect_logprobs:
  assumes "res_fold completion_collect_choice acc cs = Inr acc'"
  shows "pa_logprobs acc' ! i = first_some (rev (map cch_logprobs (filter (\<lambda>c. cch_index c = i) cs)) @ [pa_logprobs acc ! i])"
  using assms
proof (induction cs arbitrary: acc)
  case Nil
  then show ?case by (cases "pa_logprobs acc ! i") auto
next
  case (Cons c cs)
  then obtain b where b: "completion_collect_choice acc c = Inr b"
    and rest: "res_fold completion_collect_choice b cs = Inr acc'" by (auto simp: res_bind_eq_Inr)
  have "pa_logprobs b ! i = (if cch_index c = i then first_some [cch_logprobs c, pa_logprobs acc ! i]
      else pa_logprobs acc ! i)"
    using b by (cases "cch_logprobs c"; cases "pa_logprobs acc ! i")
      (auto simp: completion_collect_choice_def res_bind_eq_Inr nth_list_update)
  then show ?case unfolding Cons.IH [OF rest]
    by (cases "cch_logprobs c"; cases "pa_logprobs acc ! i") (auto simp: first_some_append split: option.splits)
qed

theorem completion_collect_logprobs_witness:
  "let l = (\<lambda>t. \<lparr>clp_text_offset = None, clp_token_logprobs = [], clp_tokens = [t], clp_top_logprobs = []\<rparr>);
       c = (\<lambda>t. \<lparr>cch_finish_reason = None, cch_index = 0, cch_logprobs = Some (l t), cch_text = t\<rparr>);
       acc = \<lparr>pa_texts = [[]], pa_reasons = [None], pa_logprobs = [None], pa_usage = None\<rparr>
   in \<exists>acc'. res_fold completion_collect_choice acc [c ''a'', c ''b''] = Inr acc'
        \<and> pa_logprobs acc' ! 0 = Some (l ''b'') \<and> pa_texts acc' ! 0 = ''ab''"
proof -
  let ?l = "\<lambda>t. \<lparr>clp_text_offset = None, clp_token_logprobs = [], clp_tokens = [t], clp_top_logprobs = []\<rparr>"
  let ?c = "\<lambda>t. \<lparr>cch_finish_reason = None, cch_index = 0, cch_logprobs = Some (?l t), cch_text = t\<rparr>"
  let ?acc = "\<lparr>pa_texts = [[]], pa_reasons = [None], pa_logprobs = [None], pa_usage = None\<rparr>"
  obtain acc' where acc': "res_fold completion_collect_choice ?acc [?c ''a'', ?c ''b''] = Inr acc'"
    "pa_texts acc' ! 0 = ''ab''"
    by (simp add: completion_collect_choice_def add_text_def keep_reason_def py_index_def py_setitem_def)
  from completion_collect_logprobs [OF acc'(1), of 0] acc' show ?thesis by (simp add: Let_def)
qed

end
