(* ===== verification/Server.thy ===== *)
theory Server
  imports Completion_Api
begin

text \<open>
  The HTTP server of MLC LLM: serve/server/server\_context.py, the entry points of
  serve/entrypoints (OpenAI API, microserving, metrics and debug) and the error responses of
  protocol/error\_protocol.py. FastAPI turns the value of an entry point, a streaming response or
  an exception into what is sent; here the entry point returns that value. Whether the client has
  disconnected when the server asks for the \<open>k\<close>-th time is the argument \<open>disc\<close>.
\<close>

section \<open>protocol/error\_protocol.py\<close>

text \<open>What an entry point sends.\<close>

datatype http_result =
    HttpError int string
  | HttpStream "string list" "unit res"
  | HttpCompletion completion_response
  | HttpChat chat_response
  | HttpPrepRecv prep_recv_response
  | HttpModels "string list"
  | HttpText string
  | HttpJson json
  | HttpMetrics "(string \<times> json) list option"
  | HttpNull

definition create_error_response :: "int \<Rightarrow> string \<Rightarrow> http_result" where
  "create_error_response status_code message = HttpError status_code message"

text \<open>The exception handler that the application registers.\<close>

definition bad_request_error_handler :: "http_result res \<Rightarrow> http_result res" where
  "bad_request_error_handler r =
     (case r of Inl (BadRequestError m) \<Rightarrow> Inr (create_error_response 400 m) | _ \<Rightarrow> r)"

section \<open>ServerContext\<close>

text \<open>
  A served engine: what its handlers read, what its generator does for a request id, what it
  streams for a metrics query, and its event recorder with what the recorder dumps.
\<close>

record 'img served_engine =
  se_id :: string
  se_env :: "'img api_env"
  se_generate :: "string \<Rightarrow> 'img generate_fn"
  se_metrics_stream :: "chat_stream_response list"
  se_trace :: trace_state
  se_dump_json :: "json res"

record 'img server_context =
  sc_models :: "(string \<times> 'img served_engine) list"
  sc_enable_debug :: bool

datatype server_event = Terminated string | DebugCall string string | ResetEngine string

text \<open>
  The class variable with the current context, shared with the object that entered it, and the
  calls that reach the engines.
\<close>

record 'img server_state =
  ss_current :: "'img server_context option"
  ss_events :: "server_event list"

definition context_enter :: "('img server_state, unit) py" where
  "context_enter =
     py_bind (py_get ss_current) (\<lambda>c.
     if c \<noteq> None then py_raise (RuntimeError ''Server context already exists.'')
     else py_modify (\<lambda>s. s\<lparr>ss_current := Some \<lparr>sc_models = [], sc_enable_debug = False\<rparr>\<rparr>))"

definition context_exit :: "('img server_state, unit) py" where
  "context_exit = py_modify (\<lambda>s.
     case ss_current s of
       None \<Rightarrow> s
     | Some c \<Rightarrow> s\<lparr>ss_current := Some (c\<lparr>sc_models := []\<rparr>),
                   ss_events := ss_events s @ map (\<lambda>(m, e). Terminated (se_id e)) (sc_models c)\<rparr>)"

definition add_model :: "string \<Rightarrow> 'img served_engine \<Rightarrow> 'img server_context \<Rightarrow> 'img server_context res" where
  "add_model hosted_model engine c =
     (if map_of (sc_models c) hosted_model \<noteq> None
      then Inl (RuntimeError (''Model '' @ hosted_model @ '' already running.''))
      else Inr (c\<lparr>sc_models := dict_set (sc_models c) hosted_model engine\<rparr>))"

definition get_engine :: "'img server_context \<Rightarrow> string option \<Rightarrow> 'img served_engine option" where
  "get_engine c model =
     (case sc_models c of
        [(m, e)] \<Rightarrow> Some e
      | ms \<Rightarrow> (case model of None \<Rightarrow> None | Some m \<Rightarrow> map_of ms m))"

definition get_model_list :: "'img server_context \<Rightarrow> string list" where
  "get_model_list c = map fst (sc_models c)"

section \<open>v1/models, v1/completions\<close>

definition request_models :: "'img server_context \<Rightarrow> http_result" where
  "request_models c = HttpModels (get_model_list c)"

definition not_served :: "string option \<Rightarrow> http_result" where
  "not_served model = create_error_response 400
     (''The requested model '' @ [CHR 0x22] @ (case model of None \<Rightarrow> ''None'' | Some m \<Rightarrow> m)
        @ [CHR 0x22] @ '' is not served.'')"

definition disconnected :: http_result where
  "disconnected = create_error_response 400 ''The request has disconnected''"

definition sse_event :: "string \<Rightarrow> string" where
  "sse_event payload = ''data: '' @ payload @ [CHR 0x0A, CHR 0x0A]"

text \<open>
  A streamed answer: the first response is read before the streaming starts, so that an exception
  before it is that of the entry point; a generator that ends without a response raises
  \<open>StopAsyncIteration\<close> here, which is not caught.
\<close>

definition stop_async_iteration :: py_error where
  "stop_async_iteration = ExternalError ''StopAsyncIteration''"

fun sse_stream :: "('r \<Rightarrow> string) \<Rightarrow> 'r list \<Rightarrow> unit res \<Rightarrow> http_result res" where
  "sse_stream dump [] (Inl e) = Inl e"
| "sse_stream dump [] (Inr _) = Inl stop_async_iteration"
| "sse_stream dump (first # rest) ending =
     Inr (HttpStream (sse_event (dump first) # map (\<lambda>r. sse_event (dump r)) rest
            @ (case ending of Inl e \<Rightarrow> [] | Inr _ \<Rightarrow> [sse_event ''[DONE]''])) ending)"

text \<open>
  The loop over the responses of an answer that is not streamed, with the check for the client
  before each; \<open>None\<close> when it has disconnected.
\<close>

fun collect_loop ::
  "(nat \<Rightarrow> bool) \<Rightarrow> ('a \<Rightarrow> 'r \<Rightarrow> 'a res) \<Rightarrow> nat \<Rightarrow> 'a \<Rightarrow> 'r list \<Rightarrow> 'a option res" where
  "collect_loop disc f k acc [] = Inr (Some acc)"
| "collect_loop disc f k acc (r # rs) =
     (if disc k then Inr None
      else res_bind (f acc r) (\<lambda>acc'. collect_loop disc f (Suc k) acc' rs))"

definition strip_usage :: "bool \<Rightarrow> completion_usage \<Rightarrow> completion_usage" where
  "strip_usage debug u = (if debug then u else u\<lparr>usage_extra := None\<rparr>)"

definition extend_logprobs :: "completion_log_probs \<Rightarrow> completion_log_probs \<Rightarrow> completion_log_probs" where
  "extend_logprobs old new = old\<lparr>clp_token_logprobs := clp_token_logprobs old @ clp_token_logprobs new,
     clp_tokens := clp_tokens old @ clp_tokens new,
     clp_top_logprobs := clp_top_logprobs old @ clp_top_logprobs new\<rparr>"

definition server_collect_choice :: "completion_acc \<Rightarrow> completion_choice \<Rightarrow> completion_acc res" where
  "server_collect_choice acc c =
     res_bind (add_text (pa_texts acc) (cch_index c) (cch_text c)) (\<lambda>texts.
     res_bind (keep_reason (pa_reasons acc) (cch_index c) (cch_finish_reason c)) (\<lambda>reasons.
     res_bind (case cch_logprobs c of
                 None \<Rightarrow> Inr (pa_logprobs acc)
               | Some lps \<Rightarrow>
                   res_bind (py_index (pa_logprobs acc) (int (cch_index c))) (\<lambda>old.
                   py_setitem (pa_logprobs acc) (cch_index c)
                     (Some (case old of None \<Rightarrow> lps | Some l \<Rightarrow> extend_logprobs l lps)))) (\<lambda>logprobs.
     Inr (acc\<lparr>pa_texts := texts, pa_reasons := reasons, pa_logprobs := logprobs\<rparr>))))"

definition server_collect_response :: "bool \<Rightarrow> completion_acc \<Rightarrow> completion_response \<Rightarrow> completion_acc res" where
  "server_collect_response debug acc response =
     (case cresp_usage response of
        Some u \<Rightarrow> Inr (acc\<lparr>pa_usage := Some (strip_usage debug u)\<rparr>)
      | None \<Rightarrow> res_fold server_collect_choice acc (cresp_choices response))"

definition request_completion ::
  "(completion_response \<Rightarrow> string) \<Rightarrow> string \<Rightarrow> (nat \<Rightarrow> bool) \<Rightarrow> 'img server_context \<Rightarrow> completion_request
     \<Rightarrow> http_result res" where
  "request_completion dump uuid disc c request =
     (let debug = sc_enable_debug c;
          request = (if debug then request else request\<lparr>creq_debug_config := None\<rparr>)
      in case get_engine c (creq_model request) of
           None \<Rightarrow> Inr (not_served (creq_model request))
         | Some engine \<Rightarrow>
             let request_id = (case creq_user request of Some u \<Rightarrow> u | None \<Rightarrow> ''cmpl-'' @ uuid);
                 (ys, ending, _) = async_handle_completion (se_env engine) (se_generate engine request_id)
                   request request_id debug (se_trace engine);
                 n = nat (creq_n request)
             in if creq_stream request then sse_stream dump ys ending
                else res_bind (collect_loop disc (server_collect_response debug) 0
                       \<lparr>pa_texts = replicate n [], pa_reasons = replicate n None,
                        pa_logprobs = replicate n None, pa_usage = None\<rparr> ys) (\<lambda>acc.
                     case acc of
                       None \<Rightarrow> Inr disconnected
                     | Some acc \<Rightarrow>
                         res_bind ending (\<lambda>_.
                         res_bind (wrap_completion_response request_id (creq_model request) (pa_texts acc)
                                     (pa_reasons acc) (pa_logprobs acc) (pa_usage acc)) (\<lambda>response.
                         Inr (HttpCompletion response)))))"

section \<open>v1/chat/completions\<close>

definition server_chat_collect :: "bool \<Rightarrow> chat_acc \<Rightarrow> chat_stream_response \<Rightarrow> chat_acc res" where
  "server_chat_collect debug acc response =
     res_fold chat_collect_choice
       (case csresp_usage response of
          None \<Rightarrow> acc
        | Some u \<Rightarrow> acc\<lparr>ca_usage := Some (strip_usage debug u)\<rparr>)
       (csresp_choices response)"

definition request_chat_completion ::
  "(chat_stream_response \<Rightarrow> string) \<Rightarrow> string \<Rightarrow> (nat \<Rightarrow> bool) \<Rightarrow> 'img server_context \<Rightarrow> chat_request
     \<Rightarrow> http_result res" where
  "request_chat_completion dump uuid disc c request =
     (let debug = sc_enable_debug c;
          request = (if debug then request else request\<lparr>chat_debug_config := None\<rparr>)
      in case get_engine c (chat_model request) of
           None \<Rightarrow> Inr (not_served (chat_model request))
         | Some engine \<Rightarrow>
             let request_id = (case chat_user request of Some u \<Rightarrow> u | None \<Rightarrow> ''chatcmpl-'' @ uuid);
                 (ys, ending, _) = async_handle_chat_completion (se_env engine) (se_generate engine request_id)
                   request request_id debug (se_trace engine);
                 n = nat (chat_n request)
             in if chat_stream request then sse_stream dump ys ending
                else res_bind (collect_loop disc (server_chat_collect debug) 0
                       \<lparr>ca_texts = replicate n [], ca_reasons = replicate n None,
                        ca_logprobs = (if chat_logprobs request then Some (replicate n []) else None),
                        ca_usage = None\<rparr> ys) (\<lambda>acc.
                     case acc of
                       None \<Rightarrow> Inr disconnected
                     | Some acc \<Rightarrow>
                         res_bind ending (\<lambda>_.
                         res_bind (res_assert (list_all (\<lambda>r. r \<noteq> None) (ca_reasons acc)) []) (\<lambda>_.
                         res_bind (process_function_call_output (api_ext (se_env engine)) (ca_texts acc) (ca_reasons acc))
                           (\<lambda>(use_fc, tool_calls_list, texts, reasons).
                         res_bind (wrap_chat_completion_response request_id (chat_model request) texts reasons
                                     tool_calls_list (ca_logprobs acc) use_fc (ca_usage acc)) (\<lambda>response.
                         Inr (HttpChat response)))))))"

section \<open>Microserving\<close>

text \<open>Setting the disaggregation config of the request; a request without debug config has none to set.\<close>

definition set_disagg :: "disagg_config \<Rightarrow> completion_request \<Rightarrow> completion_request res" where
  "set_disagg d request =
     (case creq_debug_config request of
        None \<Rightarrow> Inl (AttributeError ''disagg_config'')
      | Some dc \<Rightarrow> Inr (request\<lparr>creq_debug_config := Some (dc\<lparr>disagg := Some d\<rparr>)\<rparr>))"

definition whole_answer :: "completion_request \<Rightarrow> completion_request" where
  "whole_answer request =
     request\<lparr>creq_stream_options := Some \<lparr>include_usage = Some True\<rparr>, creq_stream := False\<rparr>"

definition prep_recv ::
  "(completion_response \<Rightarrow> string) \<Rightarrow> string \<Rightarrow> (nat \<Rightarrow> bool) \<Rightarrow> 'img server_context \<Rightarrow> prep_recv_request
     \<Rightarrow> http_result res" where
  "prep_recv dump uuid disc c request =
     res_bind (set_disagg \<lparr>dis_kind = Some PrepareReceive, dis_kv_append_metadata = None,
                 dis_kv_window_begin = Some 0, dis_kv_window_end = Some (prep_end request),
                 dis_dst_group_offset = None\<rparr> (completion_request.truncate request)) (\<lambda>q.
     res_bind (request_completion dump uuid disc c (whole_answer q)) (\<lambda>response.
     case response of
       HttpCompletion r \<Rightarrow>
         (case cresp_usage r of
            None \<Rightarrow> Inl (AssertionError [])
          | Some u \<Rightarrow>
              (case usage_extra u of
                 None \<Rightarrow> Inl (AssertionError [])
               | Some extra \<Rightarrow>
                   res_bind (res_assert (map_of extra ''prefix_matched_length'' \<noteq> None) []) (\<lambda>_.
                   res_bind (res_assert (map_of extra ''kv_append_metadata'' \<noteq> None) []) (\<lambda>_.
                   (case (map_of extra ''prefix_matched_length'', map_of extra ''kv_append_metadata'') of
                      (Some (JInt p), Some (JStr m)) \<Rightarrow>
                        Inr (HttpPrepRecv \<lparr>prep_kv_append_metadata = m, prep_prefix_matched_length = p\<rparr>)
                    | _ \<Rightarrow> Inl (ValidationError ''PrepRecvResponse''))))))
     | _ \<Rightarrow> Inl (AttributeError ''usage'')))"

definition remote_send ::
  "(completion_response \<Rightarrow> string) \<Rightarrow> string \<Rightarrow> (nat \<Rightarrow> bool) \<Rightarrow> 'img server_context \<Rightarrow> remote_send_request
     \<Rightarrow> http_result res" where
  "remote_send dump uuid disc c request =
     res_bind (set_disagg \<lparr>dis_kind = Some RemoteSend, dis_kv_append_metadata = Some (send_kv_addr_info request),
                 dis_kv_window_begin = Some (send_begin request), dis_kv_window_end = Some (send_end request),
                 dis_dst_group_offset = Some (send_recv_rank request)\<rparr> (completion_request.truncate request)) (\<lambda>q.
     res_bind (request_completion dump uuid disc c (whole_answer q)) (\<lambda>_.
     Inr (HttpJson (JObj []))))"

definition start_generate ::
  "(completion_response \<Rightarrow> string) \<Rightarrow> string \<Rightarrow> (nat \<Rightarrow> bool) \<Rightarrow> 'img server_context \<Rightarrow> start_generate_request
     \<Rightarrow> http_result res" where
  "start_generate dump uuid disc c request =
     res_bind (set_disagg \<lparr>dis_kind = Some StartGeneration, dis_kv_append_metadata = None,
                 dis_kv_window_begin = Some (start_begin request), dis_kv_window_end = None,
                 dis_dst_group_offset = None\<rparr> (completion_request.truncate request)) (\<lambda>q.
     request_completion dump uuid disc c q)"

section \<open>Metrics and debug entry points\<close>

text \<open>The first model of the list; \<open>get_engine\<close> of a listed model.\<close>

definition first_engine :: "'img server_context \<Rightarrow> 'img served_engine option" where
  "first_engine c = (case get_model_list c of [] \<Rightarrow> None | m # _ \<Rightarrow> get_engine c (Some m))"

definition metrics :: "(py_float \<Rightarrow> string) \<Rightarrow> 'img server_context \<Rightarrow> http_result res" where
  "metrics frepr c =
     (case first_engine c of
        None \<Rightarrow> Inr HttpNull
      | Some e \<Rightarrow>
          res_bind (async_query_engine_metrics (se_metrics_stream e)) (\<lambda>m.
          Inr (HttpText (prometheus_text frepr (case m of None \<Rightarrow> JNull | Some kvs \<Rightarrow> JObj kvs)))))"

fun json_contains :: "json \<Rightarrow> string \<Rightarrow> bool res" where
  "json_contains (JObj d) k = Inr (map_of d k \<noteq> None)"
| "json_contains (JList xs) k = Inr (JStr k \<in> set xs)"
| "json_contains (JStr t) k = Inr (sublist k t)"
| "json_contains _ k = Inl (TypeError ''not iterable'')"

definition invalid_request :: "string \<Rightarrow> http_result" where
  "invalid_request body = create_error_response 400 (''Invalid request '' @ body)"

text \<open>
  The body of a debug request and its \<open>model\<close>: the left result is what the entry point returns
  early. \<open>loads\<close> is \<open>json.loads\<close>, \<open>None\<close> for a \<open>JSONDecodeError\<close>.
\<close>

definition debug_model :: "(string \<Rightarrow> json option) \<Rightarrow> string \<Rightarrow> (http_result + json) res" where
  "debug_model loads body =
     (case loads body of
        None \<Rightarrow> Inr (Inl (invalid_request body))
      | Some d \<Rightarrow>
          res_bind (json_contains d ''model'') (\<lambda>b.
          if \<not> b then Inr (Inl (invalid_request body))
          else res_bind (json_getitem d ''model'') (\<lambda>m. Inr (Inr m))))"

text \<open>\<open>get_engine\<close> for a model name that comes from JSON; only a hashable value can be looked up.\<close>

fun get_engine_json :: "'img server_context \<Rightarrow> json \<Rightarrow> 'img served_engine option res" where
  "get_engine_json c (JStr m) = Inr (get_engine c (Some m))"
| "get_engine_json c (JList xs) =
     (if length (sc_models c) = 1 then Inr (get_engine c None) else Inl (TypeError ''unhashable type''))"
| "get_engine_json c (JObj d) =
     (if length (sc_models c) = 1 then Inr (get_engine c None) else Inl (TypeError ''unhashable type''))"
| "get_engine_json c _ = Inr (get_engine c None)"

definition debug_dump_event_trace ::
  "(string \<Rightarrow> json option) \<Rightarrow> (json \<Rightarrow> string) \<Rightarrow> 'img server_context \<Rightarrow> string \<Rightarrow> http_result res" where
  "debug_dump_event_trace loads show c body =
     res_bind (debug_model loads body) (\<lambda>r.
     case r of
       Inl early \<Rightarrow> Inr early
     | Inr model \<Rightarrow>
         res_bind (get_engine_json c model) (\<lambda>engine.
         case engine of
           None \<Rightarrow> Inr (create_error_response 400
             (''The requested model '' @ [CHR 0x22] @ show model @ [CHR 0x22] @ '' is not served.''))
         | Some e \<Rightarrow>
             if trace_recorder (se_trace e) = None
             then Inr (create_error_response 400
               (''The requested model '' @ [CHR 0x22] @ show model @ [CHR 0x22] @ '' does not enable tracing''))
             else res_bind (se_dump_json e) (\<lambda>j. Inr (HttpJson j))))"

definition with_context :: "('img server_context \<Rightarrow> 'a res) \<Rightarrow> ('img server_state, 'a) py" where
  "with_context f =
     py_bind (py_get ss_current) (\<lambda>c.
     case c of None \<Rightarrow> py_raise (AttributeError ''NoneType'') | Some c \<Rightarrow> py_lift (f c))"

definition log_event :: "server_event \<Rightarrow> ('img server_state, unit) py" where
  "log_event e = py_modify (\<lambda>s. s\<lparr>ss_events := ss_events s @ [e]\<rparr>)"

definition debug_cuda_profiler :: "string \<Rightarrow> ('img server_state, http_result) py" where
  "debug_cuda_profiler func_name =
     py_bind (with_context (\<lambda>c. Inr (first_engine c))) (\<lambda>engine.
     case engine of
       None \<Rightarrow> py_return HttpNull
     | Some e \<Rightarrow> py_bind (log_event (DebugCall (se_id e) func_name)) (\<lambda>_. py_return HttpNull))"

definition debug_cuda_profiler_start :: "('img server_state, http_result) py" where
  "debug_cuda_profiler_start = debug_cuda_profiler ''mlc.debug_cuda_profiler_start''"

definition debug_cuda_profiler_stop :: "('img server_state, http_result) py" where
  "debug_cuda_profiler_stop = debug_cuda_profiler ''mlc.debug_cuda_profiler_stop''"

definition debug_dump_engine_metrics ::
  "(string \<Rightarrow> json option) \<Rightarrow> 'img server_context \<Rightarrow> string \<Rightarrow> http_result res" where
  "debug_dump_engine_metrics loads c body =
     (case loads body of
        None \<Rightarrow> Inr (invalid_request body)
      | Some (JObj d) \<Rightarrow>
          res_bind (case map_of d ''model'' of None \<Rightarrow> Inr (get_engine c None) | Some m \<Rightarrow> get_engine_json c m)
            (\<lambda>engine.
          case engine of
            None \<Rightarrow> Inl (AttributeError ''metrics'')
          | Some e \<Rightarrow> res_bind (async_query_engine_metrics (se_metrics_stream e)) (\<lambda>m. Inr (HttpMetrics m)))
      | Some _ \<Rightarrow> Inl (AttributeError ''get''))"

definition debug_reset_engine_stats ::
  "(string \<Rightarrow> json option) \<Rightarrow> string \<Rightarrow> ('img server_state, http_result) py" where
  "debug_reset_engine_stats loads body =
     py_bind (with_context (\<lambda>c. res_bind (debug_model loads body) (\<lambda>r.
       case r of
         Inl early \<Rightarrow> Inr (Inl early)
       | Inr model \<Rightarrow> res_bind (get_engine_json c model) (\<lambda>engine. Inr (Inr engine))))) (\<lambda>r.
     case r of
       Inl early \<Rightarrow> py_return early
     | Inr None \<Rightarrow> py_raise (AttributeError ''reset'')
     | Inr (Some e) \<Rightarrow> py_bind (log_event (ResetEngine (se_id e))) (\<lambda>_. py_return HttpNull))"

section \<open>interface/serve.py\<close>

text \<open>
  The server up to \<open>uvicorn.run\<close>, and which routes the application has. When the run ends the
  context is left.
\<close>

definition serve :: "string \<Rightarrow> 'img served_engine \<Rightarrow> bool \<Rightarrow> ('img server_state, unit) py" where
  "serve model engine enable_debug =
     py_bind context_enter (\<lambda>_.
     py_bind (with_context (add_model model engine)) (\<lambda>c.
     py_modify (\<lambda>s. s\<lparr>ss_current := Some (c\<lparr>sc_enable_debug := enable_debug\<rparr>)\<rparr>)))"

definition openai_routes :: "string list" where
  "openai_routes = [''/v1/models'', ''/v1/completions'', ''/v1/chat/completions'']"

definition metrics_routes :: "string list" where
  "metrics_routes = [''/metrics'']"

definition microserving_routes :: "string list" where
  "microserving_routes = [''/microserving/prep_recv'', ''/microserving/remote_send'', ''/microserving/start_generate'']"

definition debug_routes :: "string list" where
  "debug_routes = [''/debug/dump_event_trace'', ''/debug/cuda_profiler_start'', ''/debug/cuda_profiler_stop'',
     ''/debug/dump_engine_metrics'', ''/debug/reset_engine'']"

definition app_routes :: "bool \<Rightarrow> string list" where
  "app_routes enable_debug =
     openai_routes @ metrics_routes @ microserving_routes @ (if enable_debug then debug_routes else [])"

definition strip_chat_acc :: "bool \<Rightarrow> chat_acc \<Rightarrow> chat_acc" where
  "strip_chat_acc debug a = a\<lparr>ca_usage := map_option (strip_usage debug) (ca_usage a)\<rparr>"

text \<open>The collecting loop of the server keeps the texts and reasons that the one of the API keeps.\<close>

definition same_texts :: "completion_acc \<Rightarrow> completion_acc \<Rightarrow> bool" where
  "same_texts a b \<longleftrightarrow> pa_texts a = pa_texts b \<and> pa_reasons a = pa_reasons b
     \<and> length (pa_logprobs a) = length (pa_logprobs b)"

definition sample_engine :: "unit served_engine" where
  "sample_engine = \<lparr>se_id = ''e'', se_env = sample_api, se_generate = (\<lambda>_ _ _. (sample_chunks, None)),
     se_metrics_stream = [], se_trace = sample_trace, se_dump_json = Inr JNull\<rparr>"

definition sample_server :: "unit server_context" where
  "sample_server = \<lparr>sc_models = [(''m'', sample_engine)], sc_enable_debug = False\<rparr>"

definition sample_disagg :: "unit server_context" where
  "sample_disagg = sample_server\<lparr>sc_enable_debug := True\<rparr>"

text \<open>A generator that only serves the start of a generation at position two.\<close>

definition sample_decoder :: "string \<Rightarrow> unit generate_fn" where
  "sample_decoder rid p cfg = (if gc_debug_config cfg = Some (default_debug_config\<lparr>disagg := Some
      \<lparr>dis_kind = Some StartGeneration, dis_kv_append_metadata = None, dis_kv_window_begin = Some 2,
       dis_kv_window_end = None, dis_dst_group_offset = None\<rparr>\<rparr>) then (sample_chunks, None) else ([], None))"

section \<open>Lemmas\<close>

lemma collect_loop_connected:
  "\<forall>k. \<not> disc k \<Longrightarrow> collect_loop disc f k acc rs = res_bind (res_fold f acc rs) (\<lambda>a. Inr (Some a))"
  by (induction rs arbitrary: k acc) (simp_all add: res_bind_assoc)

lemma async_handle_chat_strip:
  "async_handle_chat_completion env gen request rid debug s =
     (let (ys, r, s') = sync_handle_chat_completion env gen request rid s in (map (strip_chat_extra debug) ys, r, s'))"
  unfolding async_handle_chat_completion_def sync_handle_chat_completion_def gen_loop_map
  by (simp add: Let_def case_prod_beta split: prod.splits sum.splits)

lemma suffix_no_usage:
  "create_completion_suffix_response request rid frs = Inr (Some r) \<Longrightarrow> cresp_usage r = None"
  by (auto simp: create_completion_suffix_response_def res_bind_eq_Inr split: option.splits)

lemma async_handle_completion_strip:
  "async_handle_completion env gen request rid debug s =
     (let (ys, r, s') = sync_handle_completion env gen request rid s in (map (strip_completion_extra debug) ys, r, s'))"
proof -
  obtain q s1 where q: "process_completion_request (api_ext env) request rid
      (api_max_input_sequence_length env) (api_conv_template env) s = (q, s1)" by fastforce
  show ?thesis
  proof (cases q)
    case (Inl e)
    with q show ?thesis by (simp add: async_handle_completion_def sync_handle_completion_def)
  next
    case (Inr p)
    then obtain prompt cfg len echo rq where p: "p = (prompt, cfg, len, echo, rq)" by (cases p) auto
    have echo: "map (strip_completion_extra debug) (case echo of None \<Rightarrow> [] | Some r \<Rightarrow> [r])
        = (case echo of None \<Rightarrow> [] | Some r \<Rightarrow> [r])"
      using completion_request_run [of "api_ext env" request rid _ _ s prompt cfg len echo rq s1] q Inr p
      by (auto simp: strip_completion_extra_def)
    have suffix: "map (strip_completion_extra debug) (case x of None \<Rightarrow> [] | Some r \<Rightarrow> [r])
        = (case x of None \<Rightarrow> [] | Some r \<Rightarrow> [r])"
      if "create_completion_suffix_response request rid frs = Inr x" for x frs
      using suffix_no_usage [of request rid frs] that by (auto simp: strip_completion_extra_def split: option.splits)
    show ?thesis
      unfolding async_handle_completion_def sync_handle_completion_def gen_loop_map
      using q Inr p echo suffix by (auto simp: Let_def case_prod_beta split: prod.splits sum.splits)
  qed
qed

lemma chat_usage_alone:
  fixes s :: "'s trace_state_scheme"
  assumes "sync_handle_chat_completion env gen request rid s = (ys, r, s')" and "y \<in> set ys"
  shows "csresp_usage y \<noteq> None \<longrightarrow> csresp_choices y = []"
proof -
  obtain fc frs chunks and t :: "'s trace_state_scheme" where
    "ys = [] \<or> ys = fst (gen_loop (\<lambda>frs ds. process_chat_completion_stream_output (api_ext env) ds request rid fc frs)
      frs chunks t)"
    using assms(1) by (auto simp: sync_handle_chat_completion_def Let_def case_prod_beta split: prod.splits sum.splits)
  then obtain z u where "gen_loop (\<lambda>frs ds. process_chat_completion_stream_output (api_ext env) ds request rid fc frs)
      frs chunks t = (ys, z, u)" using assms(2) by (metis empty_iff empty_set prod.collapse)
  from gen_loop_yields [OF this assms(2)] obtain ds frs1 frs2 and v w :: "'s trace_state_scheme" where
    "process_chat_completion_stream_output (api_ext env) ds request rid fc frs1 v = (Inr (Some y, frs2), w)" by blast
  from chat_output_cases [OF this] show ?thesis by (auto split: if_splits)
qed

lemma strip_usage_idem [simp]: "strip_usage d (strip_usage d u) = strip_usage d u"
  by (simp add: strip_usage_def)

lemma chat_collect_choice_usage:
  "chat_collect_choice (a\<lparr>ca_usage := u\<rparr>) c = map_sum id (\<lambda>b. b\<lparr>ca_usage := u\<rparr>) (chat_collect_choice a c)"
  by (cases a) (simp add: chat_collect_choice_def map_res_bind split: option.split chat_content.split)

lemma chat_collect_choices_usage:
  "res_fold chat_collect_choice (a\<lparr>ca_usage := u\<rparr>) cs
     = map_sum id (\<lambda>b. b\<lparr>ca_usage := u\<rparr>) (res_fold chat_collect_choice a cs)"
proof (induction cs arbitrary: a)
  case (Cons c cs)
  show ?case by (cases "chat_collect_choice a c") (simp_all add: chat_collect_choice_usage Cons)
qed simp

lemma server_chat_collect_strip:
  assumes "csresp_usage y \<noteq> None \<longrightarrow> csresp_choices y = []"
  shows "server_chat_collect debug (strip_chat_acc debug a) (strip_chat_extra debug y)
    = map_sum id (strip_chat_acc debug) (chat_collect_response a y)"
proof (cases "csresp_usage y")
  case None
  let ?u = "map_option (strip_usage debug) (ca_usage a)"
  have keep: "ca_usage b = ca_usage a" if "res_fold chat_collect_choice a cs = Inr b" for b cs
    using that
  proof (induction cs arbitrary: a)
    case (Cons c cs)
    then show ?case
      by (force simp: res_bind_eq_Inr chat_collect_choice_def split: option.splits chat_content.splits)
  qed simp
  have "res_fold chat_collect_choice (a\<lparr>ca_usage := ?u\<rparr>) (csresp_choices y)
      = map_sum id (strip_chat_acc debug) (res_fold chat_collect_choice a (csresp_choices y))"
    using keep by (cases "res_fold chat_collect_choice a (csresp_choices y)")
      (auto simp: chat_collect_choices_usage strip_chat_acc_def)
  with None show ?thesis
    by (simp add: server_chat_collect_def strip_chat_extra_def chat_collect_response_def strip_chat_acc_def)
next
  case (Some u)
  with assms show ?thesis
    by (auto simp: server_chat_collect_def strip_chat_extra_def chat_collect_response_def strip_chat_acc_def
        strip_usage_def)
qed

lemma server_chat_collects_strip:
  assumes "\<forall>y \<in> set ys. csresp_usage y \<noteq> None \<longrightarrow> csresp_choices y = []"
  shows "res_fold (server_chat_collect debug) (strip_chat_acc debug a) (map (strip_chat_extra debug) ys)
    = map_sum id (strip_chat_acc debug) (res_fold chat_collect_response a ys)"
  using assms
proof (induction ys arbitrary: a)
  case (Cons y ys)
  then show ?case
    by (cases "chat_collect_response a y") (simp_all add: server_chat_collect_strip)
qed simp

lemma wrap_chat_usage:
  "wrap_chat_completion_response rid model texts reasons calls lps fc (map_option f u)
     = map_sum id (\<lambda>r. r\<lparr>ccresp_usage := map_option f (ccresp_usage r)\<rparr>)
         (wrap_chat_completion_response rid model texts reasons calls lps fc u)"
  by (simp add: wrap_chat_completion_response_def map_res_bind)

lemma server_collect_choice_sim:
  assumes "completion_collect_choice a c = Inr a'" and "same_texts a b"
  shows "\<exists>b'. server_collect_choice b c = Inr b' \<and> same_texts a' b'"
  using assms
  by (auto simp: completion_collect_choice_def server_collect_choice_def res_bind_eq_Inr same_texts_def
      py_setitem_def split: option.splits if_splits)

lemma server_collect_choices_sim:
  assumes "res_fold completion_collect_choice a cs = Inr a'" and "same_texts a b"
  shows "\<exists>b'. res_fold server_collect_choice b cs = Inr b' \<and> same_texts a' b'"
  using assms
proof (induction cs arbitrary: a b)
  case (Cons c cs)
  from Cons.prems(1) obtain a1 where a1: "completion_collect_choice a c = Inr a1"
    "res_fold completion_collect_choice a1 cs = Inr a'" by (auto simp: res_bind_eq_Inr)
  from server_collect_choice_sim [OF a1(1) Cons.prems(2)] obtain b1 where
    "server_collect_choice b c = Inr b1" "same_texts a1 b1" by blast
  with Cons.IH [OF a1(2)] show ?case by simp
qed simp

lemma server_collect_responses_sim:
  assumes "res_fold completion_collect_response a ys = Inr a'" and "same_texts a b"
  shows "\<exists>b'. res_fold (server_collect_response debug) b (map (strip_completion_extra debug) ys) = Inr b' \<and> same_texts a' b'"
  using assms
proof (induction ys arbitrary: a b)
  case (Cons y ys)
  from Cons.prems(1) obtain a1 where a1: "completion_collect_response a y = Inr a1"
    "res_fold completion_collect_response a1 ys = Inr a'" by (auto simp: res_bind_eq_Inr)
  have "\<exists>b1. server_collect_response debug b (strip_completion_extra debug y) = Inr b1 \<and> same_texts a1 b1"
  proof (cases "cresp_usage y")
    case None
    with a1(1) server_collect_choices_sim [OF _ Cons.prems(2)] show ?thesis
      by (simp add: completion_collect_response_def server_collect_response_def strip_completion_extra_def)
  next
    case (Some u)
    with a1(1) Cons.prems(2) show ?thesis
      by (auto simp: completion_collect_response_def server_collect_response_def strip_completion_extra_def same_texts_def)
  qed
  then obtain b1 where "server_collect_response debug b (strip_completion_extra debug y) = Inr b1" "same_texts a1 b1"
    by blast
  with Cons.IH [OF a1(2)] show ?case by simp
qed simp

lemma get_engine_several:
  "length (sc_models c) \<noteq> 1 \<Longrightarrow>
     get_engine c name = (case name of None \<Rightarrow> None | Some n \<Rightarrow> map_of (sc_models c) n)"
  by (auto simp: get_engine_def split: list.splits option.splits)

lemma handle_completion_gen_cong:
  assumes "\<And>p cfg. gc_debug_config cfg = creq_debug_config request \<Longrightarrow> g1 p cfg = g2 p cfg"
  shows "async_handle_completion env g1 request rid debug s = async_handle_completion env g2 request rid debug s"
proof -
  obtain q s1 where q: "process_completion_request (api_ext env) request rid
      (api_max_input_sequence_length env) (api_conv_template env) s = (q, s1)" by fastforce
  show ?thesis
  proof (cases q)
    case (Inl e)
    with q show ?thesis by (simp add: async_handle_completion_def)
  next
    case (Inr p)
    then obtain prompt cfg len echo rq where p: "p = (prompt, cfg, len, echo, rq)" by (cases p) auto
    with q Inr have "cfg = fst (get_generation_config (ReqCompletion request)
        (Some (stop_token_ids (api_conv_template env))) (Some (stop_str (api_conv_template env))))"
      by (auto simp: process_completion_request_def py_bind_eq_Inr Let_def case_prod_beta split: if_splits)
    then have "gc_debug_config cfg = creq_debug_config request"
      by (auto simp: get_generation_config_def Let_def split: option.splits)
    from assms [OF this] show ?thesis
      using q Inr p by (simp add: async_handle_completion_def)
  qed
qed

lemma request_completion_gen_cong:
  assumes "get_engine c (creq_model request) = Some e" and "get_engine c' (creq_model request) = Some (e\<lparr>se_generate := g\<rparr>)"
    and "sc_enable_debug c' = sc_enable_debug c"
    and "\<And>rid p cfg. gc_debug_config cfg = (if sc_enable_debug c then creq_debug_config request else None) \<Longrightarrow>
      g rid p cfg = se_generate e rid p cfg"
  shows "request_completion dump uuid disc c request = request_completion dump uuid disc c' request"
proof -
  let ?q = "if sc_enable_debug c then request else request\<lparr>creq_debug_config := None\<rparr>"
  have "async_handle_completion (se_env e) (g rid) ?q rid' debug (se_trace e)
      = async_handle_completion (se_env e) (se_generate e rid) ?q rid' debug (se_trace e)" for rid rid' debug
    by (rule handle_completion_gen_cong) (rule assms(4), simp split: if_splits)
  then show ?thesis
    using assms(1-3) by (cases "sc_enable_debug c") (simp_all add: request_completion_def Let_def)
qed

section \<open>Properties\<close>

text \<open>
  C13: the chat entry point of the server answers as the Python API of the engine does. For a
  request that is not streamed and whose client stays connected, the answer is the response of
  the API call under the same request id, or its exception, for the request without its debug
  config unless the server runs in debug mode, and with the extra usage information removed unless
  it does.
\<close>

theorem server_chat_agrees:
  fixes c :: "'img server_context" and request :: chat_request and uuid :: string
  defines "request' \<equiv> (if sc_enable_debug c then request else request\<lparr>chat_debug_config := None\<rparr>)"
    and "rid \<equiv> (case chat_user request of Some u \<Rightarrow> u | None \<Rightarrow> ''chatcmpl-'' @ uuid)"
  assumes "get_engine c (chat_model request) = Some e" and "\<not> chat_stream request" and "\<forall>k. \<not> disc k"
    and "validate_chat_request request' = Inr request'"
  shows "request_chat_completion dump uuid disc c request =
    res_bind (async_chat_completion (se_env e) (se_generate e rid) uuid request' (Some rid) (se_trace e)) (\<lambda>r.
      case r of
        ChatFull x \<Rightarrow> Inr (HttpChat (x\<lparr>ccresp_usage := map_option (strip_usage (sc_enable_debug c)) (ccresp_usage x)\<rparr>))
      | ChatStream ys ending \<Rightarrow> Inr HttpNull)"
proof -
  let ?d = "sc_enable_debug c" and ?n = "nat (chat_n request')"
  let ?acc = "\<lparr>ca_texts = replicate ?n [], ca_reasons = replicate ?n None,
     ca_logprobs = (if chat_logprobs request' then Some (replicate ?n []) else None), ca_usage = None\<rparr>"
  have q: "chat_model request' = chat_model request" "chat_user request' = chat_user request" "\<not> chat_stream request'"
    using assms(4) by (simp_all add: request'_def)
  obtain ys ending s' where h: "sync_handle_chat_completion (se_env e) (se_generate e rid) request' rid (se_trace e)
      = (ys, ending, s')" by (cases "sync_handle_chat_completion (se_env e) (se_generate e rid) request' rid (se_trace e)")
  have acc: "strip_chat_acc ?d ?acc = ?acc" by (simp add: strip_chat_acc_def)
  have fold: "res_fold (server_chat_collect ?d) ?acc (map (strip_chat_extra ?d) ys)
      = map_sum id (strip_chat_acc ?d) (res_fold chat_collect_response ?acc ys)"
    using server_chat_collects_strip [of ys ?d ?acc] chat_usage_alone [OF h] unfolding acc by blast
  have "request_chat_completion dump uuid disc c request =
     res_bind (map_sum id (strip_chat_acc ?d) (res_fold chat_collect_response ?acc ys)) (\<lambda>acc.
       res_bind ending (\<lambda>_.
       res_bind (res_assert (list_all (\<lambda>r. r \<noteq> None) (ca_reasons acc)) []) (\<lambda>_.
       res_bind (process_function_call_output (api_ext (se_env e)) (ca_texts acc) (ca_reasons acc))
         (\<lambda>(use_fc, tool_calls_list, texts, reasons).
       res_bind (wrap_chat_completion_response rid (chat_model request) texts reasons
                   tool_calls_list (ca_logprobs acc) use_fc (ca_usage acc)) (\<lambda>response.
       Inr (HttpChat response))))))"
    unfolding request_chat_completion_def Let_def request'_def [symmetric] q(1,2) assms(3)
    by (simp add: rid_def [symmetric] async_handle_chat_strip h q fold [symmetric] collect_loop_connected [OF assms(5)]
        res_bind_assoc)
  also have "\<dots> = res_bind (chat_full (api_ext (se_env e)) request' rid ys ending) (\<lambda>r.
      case r of
        ChatFull x \<Rightarrow> Inr (HttpChat (x\<lparr>ccresp_usage := map_option (strip_usage ?d) (ccresp_usage x)\<rparr>))
      | ChatStream ys ending \<Rightarrow> Inr HttpNull)"
    by (cases "res_fold chat_collect_response ?acc ys")
      (simp_all add: chat_full_def Let_def strip_chat_acc_def res_bind_assoc wrap_chat_usage q case_prod_unfold
        res_bind_map)
  finally show ?thesis
    using assms(6) h q by (simp add: async_chat_completion_def async_handle_chat_eq)
qed

theorem server_chat_agrees_witness:
  "\<exists>resp. request_chat_completion (\<lambda>_. []) ''u'' (\<lambda>_. False) sample_server
      (ChatCompletionRequest [ChatCompletionMessage User (Some (ContentStr ''hi''))]) = Inr (HttpChat resp)"
proof -
  let ?r = "ChatCompletionRequest [ChatCompletionMessage User (Some (ContentStr ''hi''))]"
  have r: "(if sc_enable_debug sample_server then ?r else ?r\<lparr>chat_debug_config := None\<rparr>) = ?r"
    by (simp add: sample_server_def ChatCompletionRequest_def)
  have e: "get_engine sample_server (chat_model ?r) = Some sample_engine" by (simp add: get_engine_def sample_server_def)
  have v: "\<not> chat_stream ?r" "validate_chat_request ?r = Inr ?r" by code_simp+
  let ?a = "async_chat_completion (se_env sample_engine) (se_generate sample_engine ''chatcmpl-u'') ''u'' ?r
     (Some ''chatcmpl-u'') (se_trace sample_engine)"
  have "case ?a of Inr (ChatFull x) \<Rightarrow> True | _ \<Rightarrow> False" by code_simp
  then obtain x where x: "?a = Inr (ChatFull x)" by (auto split: sum.splits chat_result.splits)
  have rid: "(case chat_user ?r of Some u \<Rightarrow> u | None \<Rightarrow> ''chatcmpl-'' @ ''u'') = ''chatcmpl-u''"
    by (simp add: ChatCompletionRequest_def)
  from server_chat_agrees [of sample_server ?r sample_engine "\<lambda>_. False" "\<lambda>_. []" "''u''", unfolded r rid, OF e v(1) _ v(2)] x
  show ?thesis by simp
qed

text \<open>
  The completion entry point. When the engine of the model accepts the request and yields
  well-formed chunks in which every generation gets a finish reason, and the client stays
  connected, the answer has one choice per generation, in order, with the decoded prompt if
  \<open>echo\<close> is set, the whole generated text and the suffix, and the first finish reason reported.
\<close>

theorem server_completion_text:
  fixes c :: "'img server_context" and request :: completion_request and uuid :: string
  defines "request' \<equiv> (if sc_enable_debug c then request else request\<lparr>creq_debug_config := None\<rparr>)"
    and "rid \<equiv> (case creq_user request of Some u \<Rightarrow> u | None \<Rightarrow> ''cmpl-'' @ uuid)"
  assumes engine: "get_engine c (creq_model request) = Some e" and "\<not> creq_stream request" and "\<forall>k. \<not> disc k"
    and req: "process_completion_request (api_ext (se_env e)) request' rid
        (api_max_input_sequence_length (se_env e)) (api_conv_template (se_env e)) (se_trace e)
      = (Inr (prompt, cfg, len, echo, request''), s1)"
    and gen: "se_generate e rid (VList (map VInt prompt)) cfg = (chunks, None)"
    and good: "\<forall>ds \<in> set chunks. completion_chunk_good (api_ext (se_env e)) request' ds"
    and ended: "\<forall>i < nat (creq_n request). generated_reason i chunks \<noteq> None"
  shows "\<exists>resp. request_completion dump uuid disc c request = Inr (HttpCompletion resp)
    \<and> length (cresp_choices resp) = nat (creq_n request)
    \<and> (\<forall>i < nat (creq_n request). cch_index (cresp_choices resp ! i) = i
        \<and> cch_text (cresp_choices resp ! i)
            = echo_text (api_ext (se_env e)) request prompt @ generated_text i chunks @ suffix_text request
        \<and> cch_finish_reason (cresp_choices resp ! i) = generated_reason i chunks)"
proof -
  let ?d = "sc_enable_debug c" and ?n = "nat (creq_n request')"
  let ?s2 = "snd (record_event rid ''invoke generate'' s1)"
  let ?acc = "\<lparr>pa_texts = replicate ?n [], pa_reasons = replicate ?n None, pa_logprobs = replicate ?n None, pa_usage = None\<rparr>"
  have q: "creq_model request' = creq_model request" "creq_user request' = creq_user request"
    "creq_n request' = creq_n request" "creq_echo request' = creq_echo request"
    "creq_suffix request' = creq_suffix request" "\<not> creq_stream request'"
    using assms(4) by (simp_all add: request'_def)
  from completion_request_run [OF req] have n: "gc_n cfg = creq_n request'" and
    echo: "(case echo of None \<Rightarrow> [] | Some r \<Rightarrow> [r]) = (if creq_echo request' then [\<lparr>cresp_id = rid,
        cresp_choices = map (\<lambda>i. \<lparr>cch_finish_reason = None, cch_index = i, cch_logprobs = None,
          cch_text = ext_decode (api_ext (se_env e)) prompt\<rparr>) [0..<?n], cresp_model = creq_model request',
          cresp_usage = None\<rparr>] else [])" by auto
  from completion_collected [OF good _ echo, of ?s2] ended obtain ys frs s3 x acc where
    run: "gen_loop (\<lambda>frs ds. process_completion_stream_output (api_ext (se_env e)) ds request' rid frs)
       (replicate ?n None) chunks ?s2 = (ys, Inr frs, s3)"
    and suffix: "create_completion_suffix_response request' rid frs = Inr x"
    and col: "res_fold completion_collect_response ?acc
        ((case echo of None \<Rightarrow> [] | Some r \<Rightarrow> [r]) @ ys @ (case x of None \<Rightarrow> [] | Some r \<Rightarrow> [r])) = Inr acc"
    and texts: "pa_texts acc = map (\<lambda>i. echo_text (api_ext (se_env e)) request' prompt @ generated_text i chunks
          @ suffix_text request') [0..<?n]"
    and reasons: "pa_reasons acc = map (\<lambda>i. generated_reason i chunks) [0..<?n]"
    and inv: "completion_acc_inv ?n acc"
    and allowed: "\<forall>i < ?n. the (generated_reason i chunks) \<in> set completion_finish_reasons"
    unfolding echo_text_def q(3) by auto
  let ?ys = "(case echo of None \<Rightarrow> [] | Some r \<Rightarrow> [r]) @ ys @ (case x of None \<Rightarrow> [] | Some r \<Rightarrow> [r])"
  have handler: "sync_handle_completion (se_env e) (se_generate e rid) request' rid (se_trace e) =
      (?ys, Inr (), snd (record_event rid ''finish'' s3))"
    using req gen run n suffix by (simp add: sync_handle_completion_def Let_def)
  from server_collect_responses_sim [OF col, of ?acc ?d] obtain b where
    b: "res_fold (server_collect_response ?d) ?acc (map (strip_completion_extra ?d) ?ys) = Inr b" "same_texts acc b"
    by (auto simp: same_texts_def)
  then have b': "pa_texts b = pa_texts acc" "pa_reasons b = pa_reasons acc" "length (pa_logprobs b) = ?n"
    using inv by (auto simp: same_texts_def completion_acc_inv_def)
  have "\<forall>r \<in> set (pa_reasons b). case r of None \<Rightarrow> True | Some x \<Rightarrow> x \<in> set completion_finish_reasons"
    using allowed ended by (auto simp: reasons b' q split: option.splits)
  from wrap_completion_total [OF _ _ this, of "pa_texts b" "pa_logprobs b" rid "creq_model request" "pa_usage b"]
  obtain resp where resp: "wrap_completion_response rid (creq_model request) (pa_texts b)
      (pa_reasons b) (pa_logprobs b) (pa_usage b) = Inr resp"
    "length (cresp_choices resp) = ?n"
    "\<forall>i < ?n. cch_index (cresp_choices resp ! i) = i \<and> cch_text (cresp_choices resp ! i) = pa_texts b ! i
        \<and> cch_finish_reason (cresp_choices resp ! i) = pa_reasons b ! i"
    by (auto simp: texts reasons b')
  have "request_completion dump uuid disc c request = Inr (HttpCompletion resp)"
    unfolding request_completion_def Let_def request'_def [symmetric] q(1,2) engine
    using q(6) by (simp add: rid_def [symmetric] async_handle_completion_strip handler
        collect_loop_connected [OF assms(5)] b(1) [simplified] resp(1))
  with resp show ?thesis by (auto simp: texts reasons b' q echo_text_def suffix_text_def)
qed

theorem server_completion_text_witness:
  "\<exists>resp. request_completion (\<lambda>_. []) ''u'' (\<lambda>_. False) sample_server
      ((CompletionRequest (PromptStr ''hi''))\<lparr>creq_echo := True, creq_suffix := Some ''!'', creq_user := Some ''r''\<rparr>)
      = Inr (HttpCompletion resp)
    \<and> length (cresp_choices resp) = 1 \<and> cch_text (cresp_choices resp ! 0) = ''hiabc!''"
proof -
  let ?r = "(CompletionRequest (PromptStr ''hi''))\<lparr>creq_echo := True, creq_suffix := Some ''!'', creq_user := Some ''r''\<rparr>"
  let ?p = "process_completion_request (api_ext (se_env sample_engine)) ?r ''r''
      (api_max_input_sequence_length (se_env sample_engine)) (api_conv_template (se_env sample_engine)) (se_trace sample_engine)"
  have r: "(if sc_enable_debug sample_server then ?r else ?r\<lparr>creq_debug_config := None\<rparr>) = ?r"
    by (simp add: sample_server_def CompletionRequest_def)
  have rid: "(case creq_user ?r of Some u \<Rightarrow> u | None \<Rightarrow> ''cmpl-'' @ ''u'') = ''r''" by simp
  have e: "get_engine sample_server (creq_model ?r) = Some sample_engine" by (simp add: get_engine_def sample_server_def)
  have v: "\<not> creq_stream ?r" "nat (creq_n ?r) = 1" by code_simp+
  have "\<not> isl (fst ?p)" "(case fst ?p of Inr (prompt, rest) \<Rightarrow> prompt | Inl e \<Rightarrow> []) = [104, 105]"
    by code_simp+
  then obtain cfg len echo q s1 where p: "?p = (Inr ([104, 105], cfg, len, echo, q), s1)"
    by (cases ?p) (auto simp: not_isl_Inr)
  have good: "\<forall>ds \<in> set sample_chunks. completion_chunk_good (api_ext (se_env sample_engine)) ?r ds" by code_simp
  have g: "echo_text (api_ext (se_env sample_engine)) ?r [104, 105] @ generated_text 0 sample_chunks @ suffix_text ?r = ''hiabc!''"
    "generated_reason 0 sample_chunks = Some ''stop''"
    by code_simp+
  have gen: "se_generate sample_engine ''r'' (VList (map VInt [104, 105])) cfg = (sample_chunks, None)"
    by (simp add: sample_engine_def)
  from server_completion_text [of sample_server ?r sample_engine "\<lambda>_. False" "''u''", unfolded r rid,
      OF e v(1) _ p gen good] g v(2)
  show ?thesis by auto
qed

text \<open>
  The life of a server context. Once \<open>serve\<close> has set it up, the context is current and
  serves the one model; leaving it terminates the engine, once, and removes the model. But the
  context stays the current one: a second \<open>serve\<close> in the same process is refused.
\<close>

theorem server_context_life:
  assumes "serve model e debug s = (Inr (), s1)"
  shows "ss_current s = None \<and> ss_current s1 = Some \<lparr>sc_models = [(model, e)], sc_enable_debug = debug\<rparr>
    \<and> ss_events (snd (context_exit s1)) = ss_events s @ [Terminated (se_id e)]
    \<and> ss_current (snd (context_exit s1)) = Some \<lparr>sc_models = [], sc_enable_debug = debug\<rparr>
    \<and> serve model' e' debug' (snd (context_exit s1))
        = (Inl (RuntimeError ''Server context already exists.''), snd (context_exit s1))"
  using assms
  by (auto simp: serve_def context_enter_def context_exit_def with_context_def add_model_def py_simps split: if_splits)

theorem server_context_life_witness:
  "ss_current (snd (serve ''m'' sample_engine True \<lparr>ss_current = None, ss_events = []\<rparr>))
     = Some \<lparr>sc_models = [(''m'', sample_engine)], sc_enable_debug = True\<rparr>"
proof -
  let ?p = "serve ''m'' sample_engine True \<lparr>ss_current = None, ss_events = []\<rparr>"
  have "?p = (Inr (), snd ?p)"
    by (simp add: serve_def context_enter_def with_context_def add_model_def py_simps)
  from server_context_life [OF this] show ?thesis by blast
qed

text \<open>
  What is served under which name. A new model is found under its name and the others as
  before, with one exception: a single model answers to every name, also to none. A name in use is
  refused.
\<close>

theorem add_model_get_engine:
  "case add_model m e c of
     Inl err \<Rightarrow> m \<in> set (get_model_list c) \<and> err = RuntimeError (''Model '' @ m @ '' already running.'')
   | Inr c' \<Rightarrow> m \<notin> set (get_model_list c) \<and> get_model_list c' = get_model_list c @ [m]
       \<and> sc_enable_debug c' = sc_enable_debug c
       \<and> (\<forall>name. get_engine c' name =
            (if get_model_list c = [] then Some e
             else case name of None \<Rightarrow> None | Some n \<Rightarrow> if n = m then Some e else map_of (sc_models c) n))"
proof (cases "map_of (sc_models c) m")
  case None
  then have new: "m \<notin> fst ` set (sc_models c)" by (simp add: map_of_eq_None_iff)
  then have c': "add_model m e c = Inr (c\<lparr>sc_models := sc_models c @ [(m, e)]\<rparr>)"
    using None by (simp add: add_model_def dict_set_fresh)
  show ?thesis
  proof (cases "sc_models c = []")
    case True
    then show ?thesis by (simp add: c' get_engine_def get_model_list_def)
  next
    case False
    then have "get_engine (c\<lparr>sc_models := sc_models c @ [(m, e)]\<rparr>) name
        = (case name of None \<Rightarrow> None | Some n \<Rightarrow> map_of (sc_models c @ [(m, e)]) n)" for name
      by (subst get_engine_several) (simp_all split: option.split)
    then show ?thesis using False new None
      by (auto simp: c' get_model_list_def map_add_def split: option.splits)
  qed
next
  case (Some x)
  then show ?thesis by (auto simp: add_model_def get_model_list_def intro: rev_image_eqI dest: map_of_SomeD)
qed

text \<open>
  A microserving request reaches the engine as such only in debug mode. The answer to
  \<open>start_generate\<close> depends on the engine's generator only through its behaviour for
  configurations whose disaggregation config asks to start the generation at the given position of
  the prompt, when the server runs in debug mode, and for configurations without debug config when
  it does not: then the request is an ordinary completion of the whole prompt.
\<close>

theorem microserving_window:
  fixes c c' :: "'img server_context"
  assumes "get_engine c (creq_model request) = Some e"
    and "get_engine c' (creq_model request) = Some (e\<lparr>se_generate := g\<rparr>)" and "sc_enable_debug c' = sc_enable_debug c"
    and "creq_debug_config request = Some dc"
    and "\<And>rid p cfg. gc_debug_config cfg = (if sc_enable_debug c then Some (dc\<lparr>disagg := Some
        \<lparr>dis_kind = Some StartGeneration, dis_kv_append_metadata = None, dis_kv_window_begin = Some b,
         dis_kv_window_end = None, dis_dst_group_offset = None\<rparr>\<rparr>) else None) \<Longrightarrow>
      g rid p cfg = se_generate e rid p cfg"
  shows "start_generate dump uuid disc c (completion_request.extend request (start_generate_request.fields b))
    = start_generate dump uuid disc c' (completion_request.extend request (start_generate_request.fields b))"
  using assms(4)
  by (simp add: start_generate_def set_disagg_def completion_request.defs start_generate_request.defs)
    (rule request_completion_gen_cong [where e = e and g = g], use assms in \<open>simp_all add: completion_request.defs\<close>)

theorem microserving_window_witness:
  "start_generate (\<lambda>_. []) ''u'' (\<lambda>_. False) sample_disagg (completion_request.extend
       ((CompletionRequest (PromptStr ''hi''))\<lparr>creq_debug_config := Some default_debug_config\<rparr>) (start_generate_request.fields 2))
   = start_generate (\<lambda>_. []) ''u'' (\<lambda>_. False) (sample_disagg\<lparr>sc_models := [(''m'', sample_engine\<lparr>se_generate := sample_decoder\<rparr>)]\<rparr>)
       (completion_request.extend
         ((CompletionRequest (PromptStr ''hi''))\<lparr>creq_debug_config := Some default_debug_config\<rparr>) (start_generate_request.fields 2))"
  by (rule microserving_window [where e = sample_engine and g = sample_decoder and dc = default_debug_config])
    (simp_all add: sample_disagg_def sample_server_def get_engine_def sample_decoder_def sample_engine_def)

end
