(* ===== verification/Router_Frontend.thy ===== *)
theory Router_Frontend
  imports Router Server
begin

text \<open>
  The HTTP frontend of the router, \<open>request_completion\<close> of interface/router.py, and the wire
  between router and servers: how a server's answer looks to the HTTP client of the router. The
  lemmas show that the router reads back from a server's event stream the responses the server
  put into it.
\<close>

section \<open>interface/router.py\<close>

definition router_collect_response :: "completion_acc \<Rightarrow> completion_response \<Rightarrow> completion_acc res" where
  "router_collect_response acc response = res_fold completion_collect_choice acc (cresp_choices response)"

text \<open>
  The response at which the collecting loop is left early, because the client has disconnected or
  the response cannot be added.
\<close>

fun collect_stop :: "(nat \<Rightarrow> bool) \<Rightarrow> ('a \<Rightarrow> 'r \<Rightarrow> 'a res) \<Rightarrow> nat \<Rightarrow> 'a \<Rightarrow> 'r list \<Rightarrow> nat option" where
  "collect_stop disc f k acc [] = None"
| "collect_stop disc f k acc (r # rs) =
     (if disc k then Some k
      else case f acc r of Inl _ \<Rightarrow> Some k | Inr acc' \<Rightarrow> collect_stop disc f (Suc k) acc' rs)"

text \<open>
  The router after its consumer has left the generator suspended at the \<open>k\<close>-th response: the
  generator is finalised with \<open>GeneratorExit\<close> there.
\<close>

fun handle_close :: "nat \<Rightarrow> router_env \<Rightarrow> completion_request \<Rightarrow> string \<Rightarrow> nat \<Rightarrow> router \<Rightarrow> router" where
  "handle_close 0 env request request_id k r = r"
| "handle_close (Suc fuel) env request request_id k r =
     (case translate_start env request request_id r of
        (Inl e, r') \<Rightarrow> r'
      | (Inr (endpoint, yields, ending), r') \<Rightarrow>
          (case until_none yields of
             (ys, b) \<Rightarrow>
               if k < length ys then snd (translate_end endpoint (Some GeneratorExit) r')
               else if b then handle_close fuel env request request_id (k - length ys)
                                (snd (translate_end endpoint (Some GeneratorExit) r'))
               else snd (translate_end endpoint ending r')))"

text \<open>
  The result is \<open>None\<close> when the retries of the router do not end within the fuel. The client of a
  streamed answer reads it to the end.
\<close>

definition router_request_completion ::
  "nat \<Rightarrow> router_env \<Rightarrow> (completion_response \<Rightarrow> string) \<Rightarrow> string \<Rightarrow> (nat \<Rightarrow> bool) \<Rightarrow> completion_request
     \<Rightarrow> router \<Rightarrow> (http_result res \<times> router) option" where
  "router_request_completion fuel env dump uuid disc request r =
     (let request_id = ''cmpl-'' @ uuid; n = nat (creq_n request);
          acc0 = \<lparr>pa_texts = replicate n [], pa_reasons = replicate n None,
                   pa_logprobs = replicate n None, pa_usage = None\<rparr> in
      case handle_completion fuel env request request_id r of
        None \<Rightarrow> None
      | Some (ys, ending, r') \<Rightarrow>
          if creq_stream request then Some (sse_stream dump ys ending, r')
          else Some
            (res_bind (collect_loop disc router_collect_response 0 acc0 ys) (\<lambda>acc.
               case acc of
                 None \<Rightarrow> Inr disconnected
               | Some acc \<Rightarrow>
                   res_bind ending (\<lambda>_.
                   res_bind (res_assert (list_all (\<lambda>x. x \<noteq> None) (pa_reasons acc)) []) (\<lambda>_.
                   res_bind (wrap_completion_response request_id (creq_model request) (pa_texts acc)
                               (pa_reasons acc) (pa_logprobs acc) None) (\<lambda>response.
                   Inr (HttpCompletion response))))),
             case collect_stop disc router_collect_response 0 acc0 ys of
               None \<Rightarrow> r'
             | Some k \<Rightarrow> handle_close fuel env (prepare_request env request) request_id k r))"

section \<open>The wire\<close>

text \<open>The lines of a text, each with its line feed, as the HTTP client iterates over them.\<close>

fun content_lines :: "string \<Rightarrow> string list" where
  "content_lines [] = []"
| "content_lines (c # cs) =
     (if c = CHR 0x0A then [c] # content_lines cs
      else case content_lines cs of [] \<Rightarrow> [[c]] | l # ls \<Rightarrow> (c # l) # ls)"

text \<open>
  What the client of the router sees of the answers it asks for; \<open>encode\<close> is the JSON of a
  response. This is the assumption that the development makes about HTTP and the client library,
  neither of which is part of the repository: the body arrives unchanged, iteration yields its
  lines, and no line exceeds the limit on the length of a line that the client library has (a
  longer one would raise there). A stream that breaks off ends with a payload error, an exception of the entry point
  gives a status of 500.
\<close>

fun wire :: "(completion_response \<Rightarrow> json) \<Rightarrow> http_result res \<Rightarrow> http_response" where
  "wire encode (Inr (HttpStream chunks ending)) =
     \<lparr>hr_status = 200, hr_text = concat chunks, hr_json = Inl (ExternalError ''ContentTypeError''),
      hr_content = content_lines (concat chunks),
      hr_error = (case ending of Inl e \<Rightarrow> Some (ExternalError ''ClientPayloadError'') | Inr _ \<Rightarrow> None)\<rparr>"
| "wire encode (Inr (HttpCompletion r)) =
     \<lparr>hr_status = 200, hr_text = [], hr_json = Inr (encode r), hr_content = [], hr_error = None\<rparr>"
| "wire encode (Inr (HttpPrepRecv p)) =
     \<lparr>hr_status = 200, hr_text = [], hr_json = Inr (JObj [(''kv_append_metadata'', JStr (prep_kv_append_metadata p)),
        (''prefix_matched_length'', JInt (prep_prefix_matched_length p))]), hr_content = [], hr_error = None\<rparr>"
| "wire encode (Inr (HttpJson j)) =
     \<lparr>hr_status = 200, hr_text = [], hr_json = Inr j, hr_content = [], hr_error = None\<rparr>"
| "wire encode (Inr (HttpError code m)) =
     \<lparr>hr_status = code, hr_text = m, hr_json = Inl (ExternalError m), hr_content = [], hr_error = None\<rparr>"
| "wire encode r =
     \<lparr>hr_status = 500, hr_text = [], hr_json = Inl (ExternalError []), hr_content = [], hr_error = None\<rparr>"

section \<open>Specifications\<close>

text \<open>What the event stream relies on: the JSON of a response is one line without outer spaces.\<close>

definition payload_ok :: "string \<Rightarrow> bool" where
  "payload_ok p \<longleftrightarrow> p \<noteq> [] \<and> \<not> is_space (hd p) \<and> \<not> is_space (last p) \<and> CHR 0x0A \<notin> set p \<and> p \<noteq> ''[DONE]''"

text \<open>The text of a response can be read back.\<close>

definition reads_back :: "router_env \<Rightarrow> (completion_response \<Rightarrow> string) \<Rightarrow> completion_response \<Rightarrow> bool" where
  "reads_back env dump r \<longleftrightarrow> payload_ok (dump r) \<and> res_bind (net_json_loads env (dump r)) (net_validate env) = Inr r"

definition sample_dump :: "completion_response \<Rightarrow> string" where
  "sample_dump y = (case cresp_choices y of [] \<Rightarrow> ''e''
     | c # _ \<Rightarrow> ''t'' @ cch_text c @ (if cch_finish_reason c = None then ''n'' else ''s''))"

definition sample_stream_request :: completion_request where
  "sample_stream_request = (CompletionRequest (PromptTokens [5, 6]))\<lparr>creq_stream := True, creq_user := Some ''r'',
     creq_response_format := Some \<lparr>format_type = FormatJsonObject, json_schema = Some ''{}''\<rparr>\<rparr>"

definition sample_piece :: "string \<Rightarrow> string option \<Rightarrow> completion_response" where
  "sample_piece text reason = \<lparr>cresp_id = ''r'', cresp_choices =
     [\<lparr>cch_finish_reason = reason, cch_index = 0, cch_logprobs = None, cch_text = text\<rparr>],
     cresp_model = None, cresp_usage = None\<rparr>"

definition sample_wire :: router_env where
  "sample_wire = (sample_net 0)\<lparr>
     net_post := (\<lambda>_. Inr (wire (\<lambda>_. JNull) (request_completion sample_dump ''u'' (\<lambda>_. False) sample_server
       (reread_request (prepare_request (sample_net 0) sample_stream_request))))),
     net_validate := (\<lambda>j. Inr (if j = JStr ''tabn'' then sample_piece ''ab'' None else sample_piece ''c'' (Some ''stop'')))\<rparr>"

section \<open>Lemmas\<close>

lemma content_lines_line:
  "CHR 0x0A \<notin> set t \<Longrightarrow> content_lines (t @ CHR 0x0A # rest) = (t @ [CHR 0x0A]) # content_lines rest"
  by (induction t) auto

lemma py_strip_id:
  assumes "xs \<noteq> []" and "\<not> is_space (hd xs)" and "\<not> is_space (last xs)"
  shows "py_strip xs = xs"
proof -
  have "dropWhile is_space xs = xs" using assms by (cases xs) auto
  moreover have "dropWhile is_space (rev xs) = rev xs" using assms by (cases xs rule: rev_cases) auto
  ultimately show ?thesis by (simp add: py_strip_def)
qed

lemma py_strip_line:
  assumes "xs \<noteq> []" and "\<not> is_space (hd xs)" and "\<not> is_space (last xs)"
  shows "py_strip (xs @ [CHR 0x0A]) = xs"
proof -
  have "dropWhile is_space (xs @ [CHR 0x0A]) = xs @ [CHR 0x0A]" using assms by (cases xs) auto
  moreover have "dropWhile is_space (rev xs) = rev xs" using assms by (cases xs rule: rev_cases) auto
  ultimately show ?thesis by (simp add: py_strip_def is_space_def)
qed

lemma sse_response_payload:
  assumes "p \<noteq> []" and "\<not> is_space (hd p)" and "\<not> is_space (last p)"
  shows "sse_response env (''data: '' @ p @ [CHR 0x0A]) =
    (if p = ''[DONE]'' then Inr None
     else res_bind (net_json_loads env p) (\<lambda>data. res_bind (net_validate env data) (\<lambda>r. Inr (Some r))))"
proof -
  have "py_strip ((''data: '' @ p) @ [CHR 0x0A]) = ''data: '' @ p"
    by (rule py_strip_line) (use assms in \<open>simp_all add: is_space_def\<close>)
  moreover have "py_strip p = p" by (rule py_strip_id [OF assms])
  ultimately show ?thesis by (simp add: sse_response_def Let_def)
qed

lemma sse_response_blank: "sse_response env [CHR 0x0A] = Inr None"
  by (simp add: sse_response_def py_strip_def is_space_def Let_def)

lemma sse_event_lines:
  "CHR 0x0A \<notin> set p \<Longrightarrow>
     content_lines (sse_event p @ rest) = (''data: '' @ p @ [CHR 0x0A]) # [CHR 0x0A] # content_lines rest"
  using content_lines_line [of "''data: '' @ p" "CHR 0x0A # rest"] by (simp add: sse_event_def)

lemma sse_responses_event:
  assumes "reads_back env dump r"
  shows "sse_responses env (content_lines (sse_event (dump r) @ rest)) ending
    = (let (rs, e) = sse_responses env (content_lines rest) ending in (r # rs, e))"
proof -
  have p: "dump r \<noteq> []" "\<not> is_space (hd (dump r))" "\<not> is_space (last (dump r))" "CHR 0x0A \<notin> set (dump r)"
    "dump r \<noteq> ''[DONE]''" "res_bind (net_json_loads env (dump r)) (net_validate env) = Inr r"
    using assms by (auto simp: reads_back_def payload_ok_def)
  from p(6) have "res_bind (net_json_loads env (dump r)) (\<lambda>data. res_bind (net_validate env data) (\<lambda>r. Inr (Some r)))
      = Inr (Some r)"
    by (auto simp: res_bind_eq_Inr)
  with p show ?thesis
    unfolding sse_event_lines [OF p(4)]
    by (simp only: sse_responses.simps sse_response_payload [OF p(1,2,3)] sse_response_blank)
      (simp add: Let_def case_prod_beta)
qed

lemma sse_responses_done:
  "sse_responses env (content_lines (sse_event ''[DONE]'')) ending = ([], ending)"
  using sse_event_lines [of "''[DONE]''" "[]"] sse_response_payload [of "''[DONE]''" env]
  by (simp add: sse_response_blank is_space_def)

lemma sse_responses_stream:
  assumes "\<forall>r \<in> set ys. reads_back env dump r"
  shows "sse_responses env (content_lines (concat (map (\<lambda>r. sse_event (dump r)) ys) @ sse_event ''[DONE]'')) ending
    = (ys, ending)"
  using assms
proof (induction ys)
  case Nil
  show ?case by (simp add: sse_responses_done)
next
  case (Cons y ys)
  then show ?case using sse_responses_event [of env dump y] by simp
qed

lemma until_none_Some [simp]: "until_none (map Some ys) = (ys, False)"
  by (induction ys) auto

lemma yields_of_plain:
  "\<forall>y \<in> set ys. yields_of y = [Some y] \<Longrightarrow> concat (map yields_of ys) = map Some ys"
  by (induction ys) auto

lemma sse_stream_Cons:
  "ys \<noteq> [] \<Longrightarrow> sse_stream dump ys (Inr ()) = Inr (HttpStream (map (\<lambda>y. sse_event (dump y)) ys @ [sse_event ''[DONE]'']) (Inr ()))"
  by (cases ys) auto

lemma read_wire:
  assumes "\<forall>y \<in> set ys. reads_back env dump y"
  shows "read_responses env True (wire encode (Inr (HttpStream (map (\<lambda>y. sse_event (dump y)) ys @ [sse_event ''[DONE]'']) (Inr ()))))
    = (ys, None)"
  using sse_responses_stream [OF assms, of None] by (simp add: read_responses_def)

lemma round_robin_run:
  assumes "router_wf r" and "\<exists>i < ro_num_servers r. ro_num_running_requests r ! i < 10 ^ 9"
    and "\<And>url. net_post env (ro_calls r @ [CallCompletions url (reread_request q)]) = Inr resp" and "hr_status resp = 200"
    and "read_responses env (creq_stream q) resp = (ys, None)" and "\<forall>y \<in> set ys. yields_of y = [Some y]"
  shows "\<exists>r'. run_attempt (round_robin_start env q) round_robin_end r = (ys, Inr True, r')
    \<and> ro_num_running_requests r' = ro_num_running_requests r"
proof -
  have ids: "\<forall>j \<in> set [0..<ro_num_servers r]. j < length (ro_num_running_requests r)"
    using assms(1) by (simp add: router_wf_def)
  from assms(2) have "\<not> (\<forall>j \<in> set [0..<ro_num_servers r]. 10 ^ 9 \<le> ro_num_running_requests r ! j)"
    by (auto simp: not_le Bex_def atLeast0LessThan)
  then obtain e where pick: "pick_endpoint [0..<ro_num_servers r] r = (Inr e, r)"
    using pick_endpoint_run [OF ids] by auto
  from pick_endpoint_InrD [OF this ids] have e: "e < ro_num_servers r" by simp
  then have len: "e < length (ro_num_running_requests r)" "e < length (ro_server_urls r)"
    using assms(1) by (simp_all add: router_wf_def)
  let ?r1 = "r\<lparr>ro_num_running_requests := bump e 1 (ro_num_running_requests r)\<rparr>"
  let ?r2 = "?r1\<lparr>ro_calls := ro_calls r @ [CallCompletions (ro_server_urls r ! e) (reread_request q)]\<rparr>"
  have reserve: "round_robin_reserve r = (Inr e, ?r1)"
    using pick len by (simp add: round_robin_reserve_def py_bind_def add_running_run py_get_def py_return_def)
  have post: "post env (CallCompletions (ro_server_urls r ! e) (reread_request q)) ?r1 = (Inr resp, ?r2)"
    by (simp add: post_Inr assms(3,4))
  have start: "round_robin_start env q r = (Inr (e, map Some ys, None), ?r2)"
    using reserve post len(2) assms(5) yields_of_plain [OF assms(6)]
    by (simp add: round_robin_start_def py_bind_def [of round_robin_reserve] py_bind_def [of "post _ _"])
  have "e < length (ro_num_running_requests ?r2)" using len by simp
  from round_robin.finish_run [OF this, of None] start len show ?thesis
    by (simp add: run_attempt_def)
qed

section \<open>Properties\<close>

text \<open>
  C10: the event stream round trip. What the router reads from the stream of a server that ended
  normally are the responses the server put into it, in order, provided the JSON of each is a
  single line that parses back.
\<close>

theorem sse_roundtrip:
  assumes "\<forall>y \<in> set ys. reads_back env dump y" and "sse_stream dump ys (Inr ()) = Inr res"
  shows "read_responses env True (wire encode (Inr res)) = (ys, None)"
proof -
  have "ys \<noteq> []" using assms(2) by auto
  with assms(2) read_wire [OF assms(1)] show ?thesis by (auto simp: sse_stream_Cons)
qed

theorem sse_roundtrip_witness:
  "read_responses (sample_net 0) True (wire (\<lambda>_. JNull) (Inr (HttpStream [sse_event ''s'', sse_event ''[DONE]''] (Inr ()))))
     = ([sample_reason (Some ''stop'')], None)"
proof (rule sse_roundtrip)
  show "\<forall>y \<in> set [sample_reason (Some ''stop'')]. reads_back (sample_net 0) (\<lambda>_. ''s'') y" by code_simp
  show "sse_stream (\<lambda>_. ''s'') [sample_reason (Some ''stop'')] (Inr ())
      = Inr (HttpStream [sse_event ''s'', sse_event ''[DONE]''] (Inr ()))" by simp
qed

text \<open>
  C5: the router is transparent in round-robin mode, for the request that it posts: the prepared
  request as a server reads it from \<open>model_dump()\<close>, which has lost the JSON schema of its response
  format and nothing else (\<open>reread_request\<close>). When a request is streamed, some endpoint is available
  and the servers answer that request with a complete stream of responses that read back, none of
  them preempted, then the router's own answer is the same event stream, and its counts are as
  before.
\<close>

theorem router_transparent:
  fixes env :: router_env and request :: completion_request and dump :: "completion_response \<Rightarrow> string" and ys :: "completion_response list"
  defines "request' \<equiv> reread_request (prepare_request env request)"
    and "chunks \<equiv> map (\<lambda>y. sse_event (dump y)) ys @ [sse_event ''[DONE]'']"
  assumes "router_wf r" and "ro_router_mode r = ''round-robin''"
    and "\<exists>i < ro_num_servers r. ro_num_running_requests r ! i < 10 ^ 9"
    and "creq_stream request" and "ys \<noteq> []"
    and "request_completion dump uuid' disc' c request' = Inr (HttpStream chunks (Inr ()))"
    and "\<And>url. net_post env (ro_calls r @ [CallCompletions url request'])
        = Inr (wire encode (request_completion dump uuid' disc' c request'))"
    and "\<forall>y \<in> set ys. reads_back env dump y \<and> yields_of y = [Some y]"
  shows "\<exists>r'. router_request_completion (Suc fuel) env dump uuid disc request r
      = Some (Inr (HttpStream chunks (Inr ())), r')
    \<and> ro_num_running_requests r' = ro_num_running_requests r"
proof -
  let ?q = "prepare_request env request"
  have stream: "creq_stream ?q" using assms(6) by (simp add: prepare_request_def)
  have read: "read_responses env (creq_stream ?q) (wire encode (Inr (HttpStream chunks (Inr ())))) = (ys, None)"
    unfolding chunks_def using read_wire assms(10) stream by simp
  have "hr_status (wire encode (Inr (HttpStream chunks (Inr ())))) = 200" by simp
  from round_robin_run [OF assms(3,5) _ this read] assms(8,9,10) obtain r' where
    "run_attempt (round_robin_start env ?q) round_robin_end r = (ys, Inr True, r')"
    and r': "ro_num_running_requests r' = ro_num_running_requests r" by (auto simp: request'_def)
  then have "attempt env ?q (''cmpl-'' @ uuid) r = (ys, Inr True, r')"
    by (simp add: attempt_round_robin [OF assms(3,4)])
  then have "handle_completion (Suc fuel) env request (''cmpl-'' @ uuid) r = Some (ys, Inr (), r')"
    by (simp add: handle_completion_def)
  with r' assms(6) sse_stream_Cons [OF assms(7)] show ?thesis
    by (simp add: router_request_completion_def chunks_def)
qed

theorem router_transparent_witness:
  "\<exists>r'. router_request_completion 1 sample_wire sample_dump ''v'' (\<lambda>_. False) sample_stream_request
       (sample_router\<lparr>ro_router_mode := ''round-robin''\<rparr>)
     = Some (Inr (HttpStream [sse_event ''tabn'', sse_event ''tcs'', sse_event ''[DONE]''] (Inr ())), r')
     \<and> ro_num_running_requests r' = [4, 2, 1]"
proof -
  let ?r = "sample_router\<lparr>ro_router_mode := ''round-robin''\<rparr>"
  let ?q = "reread_request (prepare_request sample_wire sample_stream_request)"
  let ?ys = "[sample_piece ''ab'' None, sample_piece ''c'' (Some ''stop'')]"
  have q: "?q = reread_request (prepare_request (sample_net 0) sample_stream_request)"
    by (simp add: prepare_request_def sample_stream_request_def CompletionRequest_def)
  have answer: "request_completion sample_dump ''u'' (\<lambda>_. False) sample_server ?q
      = Inr (HttpStream (map (\<lambda>y. sse_event (sample_dump y)) ?ys @ [sse_event ''[DONE]'']) (Inr ()))"
    by code_simp
  have post: "net_post sample_wire (ro_calls ?r @ [CallCompletions url ?q])
      = Inr (wire (\<lambda>_. JNull) (request_completion sample_dump ''u'' (\<lambda>_. False) sample_server ?q))" for url
    unfolding q by (simp add: sample_wire_def)
  have read: "\<forall>y \<in> set ?ys. reads_back sample_wire sample_dump y \<and> yields_of y = [Some y]" by code_simp
  have "router_wf ?r" and "ro_router_mode ?r = ''round-robin''" and "creq_stream sample_stream_request"
    by (simp_all add: router_wf_def sample_router_def sample_stream_request_def)
  moreover have "\<exists>i < ro_num_servers ?r. ro_num_running_requests ?r ! i < 10 ^ 9"
    by (rule exI [of _ 0]) (simp add: sample_router_def)
  ultimately show ?thesis
    using router_transparent [OF _ _ _ _ _ answer post read, of 0 "''v''" "\<lambda>_. False"]
    by (simp add: sample_dump_def sample_piece_def sample_router_def)
qed

end
