(* ===== verification/Batch_Engine.thy ===== *)
theory Batch_Engine
  imports Async_Engine
begin

text \<open>
  The engine for whole batches, \<open>SyncMLCEngine\<close> of serve/sync\_engine.py: \<open>generate\<close> adds a request
  per prompt and steps the C++ engine until every generation has reported a finish reason. The
  outputs that a step hands to the callback are an argument of the model, one list per step. The
  theorems show that the requests of a batch do not interfere: the result of each is what its own
  outputs give.
\<close>

section \<open>Arguments\<close>

datatype 'img batch_prompt = BatchText string | BatchTokens "int list" | BatchData "'img engine_data list"

datatype 'img batch_prompts =
    PromptsText string
  | PromptsTexts "string list"
  | PromptsTokens "int list"
  | PromptsTokenLists "int list list"
  | PromptsData "'img engine_data list list"

datatype config_arg = OneConfig generation_config | ConfigList "generation_config list"

fun batch_of :: "'img batch_prompts \<Rightarrow> 'img batch_prompt list" where
  "batch_of (PromptsText t) = [BatchText t]"
| "batch_of (PromptsTexts ts) = map BatchText ts"
| "batch_of (PromptsTokens ids) = (if ids = [] then [] else [BatchTokens ids])"
| "batch_of (PromptsTokenLists idss) = map BatchTokens idss"
| "batch_of (PromptsData ds) = map BatchData ds"

fun configs_of :: "nat \<Rightarrow> config_arg \<Rightarrow> generation_config list" where
  "configs_of n (OneConfig c) = replicate n c"
| "configs_of n (ConfigList cs) = cs"

fun convert_to_data :: "'img batch_prompt \<Rightarrow> 'img engine_data list res" where
  "convert_to_data (BatchText t) = Inr [TextData t]"
| "convert_to_data (BatchTokens ids) = (if ids = [] then Inl IndexError else Inr [TokenData ids])"
| "convert_to_data (BatchData ds) = (if ds = [] then Inl IndexError else Inr ds)"

section \<open>The callback of generate\<close>

record 'ts generate_state =
  gs_texts :: "string list list"
  gs_logprobs :: "string list list option list"
  gs_streamers :: "'ts list list"
  gs_finished :: int

definition generate_init :: "'ts streamer_ops \<Rightarrow> generation_config list \<Rightarrow> 'ts generate_state" where
  "generate_init ops cfgs =
     \<lparr>gs_texts = map (\<lambda>c. replicate (nat (gc_n c)) []) cfgs,
      gs_logprobs = map (\<lambda>c. if gc_logprobs c then Some (replicate (nat (gc_n c)) []) else None) cfgs,
      gs_streamers = map (\<lambda>c. replicate (nat (gc_n c)) (ts_new ops)) cfgs,
      gs_finished = 0\<rparr>"

text \<open>The position an index of a list stands for.\<close>

definition list_pos :: "'a list \<Rightarrow> int \<Rightarrow> nat res" where
  "list_pos xs i =
     (if 0 \<le> i \<and> nat i < length xs then Inr (nat i)
      else if i < 0 \<and> nat (- i) \<le> length xs then Inr (length xs - nat (- i))
      else Inl IndexError)"

text \<open>One output, of the \<open>i\<close>-th generation of the request at position \<open>r\<close>.\<close>

definition add_output ::
  "'ts streamer_ops \<Rightarrow> nat \<Rightarrow> nat \<Rightarrow> single_output \<Rightarrow> 'ts \<Rightarrow> 'ts generate_state \<Rightarrow> 'ts generate_state res" where
  "add_output ops r i out t st =
     res_bind
       (case gs_logprobs st ! r of
          None \<Rightarrow> Inr st
        | Some lps \<Rightarrow>
            (case so_delta_logprob_json_strs out of
               None \<Rightarrow> Inl (AssertionError [])
             | Some l \<Rightarrow> res_bind (py_index lps (int i)) (\<lambda>old.
                 Inr (st\<lparr>gs_logprobs := (gs_logprobs st)[r := Some (lps[i := old @ l])]\<rparr>)))) (\<lambda>st.
     let (d, t') = detokenize_one ops out t in
     res_bind (py_index (gs_texts st ! r) (int i)) (\<lambda>old.
     Inr (st\<lparr>gs_texts := (gs_texts st)[r := (gs_texts st ! r)[i := old @ cb_delta_text d]],
             gs_streamers := (gs_streamers st)[r := (gs_streamers st ! r)[i := t']],
             gs_finished := gs_finished st + (if so_finish_reason out \<noteq> None then 1 else 0)\<rparr>)))"

fun add_outputs ::
  "'ts streamer_ops \<Rightarrow> nat \<Rightarrow> nat \<Rightarrow> single_output list \<Rightarrow> 'ts list \<Rightarrow> 'ts generate_state
     \<Rightarrow> 'ts generate_state res" where
  "add_outputs ops r i (out # outs) (t # ts) st =
     res_bind (add_output ops r i out t st) (add_outputs ops r (Suc i) outs ts)"
| "add_outputs ops r i _ _ st = Inr st"

definition generate_callback_one ::
  "'ts streamer_ops \<Rightarrow> generation_config list \<Rightarrow> 'ts generate_state \<Rightarrow> raw_stream_output
     \<Rightarrow> 'ts generate_state res" where
  "generate_callback_one ops cfgs st delta_output =
     res_bind (unpack delta_output) (\<lambda>(request_id, stream_outputs).
     res_bind (int_of_str request_id) (\<lambda>rid.
     res_bind (list_pos cfgs rid) (\<lambda>r.
     res_bind (res_assert (int (length stream_outputs) = gc_n (cfgs ! r)) []) (\<lambda>_.
     add_outputs ops r 0 stream_outputs (gs_streamers st ! r) st))))"

definition generate_callback ::
  "'ts streamer_ops \<Rightarrow> generation_config list \<Rightarrow> 'ts generate_state \<Rightarrow> raw_stream_output list
     \<Rightarrow> 'ts generate_state res" where
  "generate_callback ops cfgs = res_fold (generate_callback_one ops cfgs)"

section \<open>generate\<close>

text \<open>
  The engine with its current callback and the requests added to it; \<open>None\<close> stands for the
  callback of \<open>generate\<close>.
\<close>

record batch_engine =
  be_callback :: "string option"
  be_requests :: "string list"

text \<open>The loop over the steps; \<open>None\<close> when it goes on after the given ones.\<close>

fun step_loop ::
  "'ts streamer_ops \<Rightarrow> generation_config list \<Rightarrow> int \<Rightarrow> raw_stream_output list list \<Rightarrow> 'ts generate_state
     \<Rightarrow> 'ts generate_state res option" where
  "step_loop ops cfgs num_total steps st =
     (if gs_finished st = num_total then Some (Inr st)
      else case steps of
             [] \<Rightarrow> None
           | step # rest \<Rightarrow>
               (case generate_callback ops cfgs st step of
                  Inl e \<Rightarrow> Some (Inl e)
                | Inr st' \<Rightarrow> step_loop ops cfgs num_total rest st'))"

definition add_batch_request ::
  "(string \<Rightarrow> 'img engine_data list \<Rightarrow> generation_config \<Rightarrow> unit res) \<Rightarrow> nat \<times> 'img batch_prompt \<times> generation_config
     \<Rightarrow> (batch_engine, unit) py" where
  "add_batch_request create_request = (\<lambda>(req_id, prompt, cfg).
     py_bind (py_lift (convert_to_data prompt)) (\<lambda>input_data.
     py_bind (py_lift (create_request (str_of_int (int req_id)) input_data cfg)) (\<lambda>_.
     py_modify (\<lambda>e. e\<lparr>be_requests := be_requests e @ [str_of_int (int req_id)]\<rparr>))))"

definition batch_generate ::
  "'ts streamer_ops \<Rightarrow> (string \<Rightarrow> 'img engine_data list \<Rightarrow> generation_config \<Rightarrow> unit res)
     \<Rightarrow> raw_stream_output list list \<Rightarrow> 'img batch_prompts \<Rightarrow> config_arg \<Rightarrow> batch_engine
     \<Rightarrow> (string list list \<times> string list list option list) res option \<times> batch_engine" where
  "batch_generate ops create_request steps prompts config e =
     (let ps = batch_of prompts; cfgs = configs_of (length ps) config in
      if ps = [] then (Some (Inr ([], [])), e)
      else if length cfgs \<noteq> length ps
      then (Some (Inl (AssertionError ''Number of generation config and number of prompts mismatch'')), e)
      else let original_callback = be_callback e in
           (case py_for (enumerate 0 (zip ps cfgs)) (add_batch_request create_request) (e\<lparr>be_callback := None\<rparr>) of
              (Inl err, e') \<Rightarrow> (Some (Inl err), e')
            | (Inr _, e') \<Rightarrow>
                (case step_loop ops cfgs (sum_list (map gc_n cfgs)) steps (generate_init ops cfgs) of
                   None \<Rightarrow> (None, e')
                 | Some (Inl err) \<Rightarrow> (Some (Inl err), e')
                 | Some (Inr st) \<Rightarrow>
                     (Some (Inr (gs_texts st, gs_logprobs st)), e'\<lparr>be_callback := original_callback\<rparr>))))"

declare step_loop.simps [simp del]

section \<open>Specifications\<close>

definition outputs_of :: "raw_stream_output \<Rightarrow> single_output list" where
  "outputs_of d = (case unpack d of Inl _ \<Rightarrow> [] | Inr (rid, outs) \<Rightarrow> outs)"

definition request_of :: "raw_stream_output \<Rightarrow> nat" where
  "request_of d = (case int_of_str (raw_request_id d) of Inl _ \<Rightarrow> 0 | Inr r \<Rightarrow> nat r)"

text \<open>
  An output the callback accepts: of a request of the batch, with an entry per generation, and with
  log probabilities where they were asked for.
\<close>

definition delta_ok :: "generation_config list \<Rightarrow> raw_stream_output \<Rightarrow> bool" where
  "delta_ok cfgs d \<longleftrightarrow> \<not> isl (unpack d) \<and> raw_request_id d = str_of_int (int (request_of d))
     \<and> request_of d < length cfgs \<and> int (length (outputs_of d)) = gc_n (cfgs ! request_of d)
     \<and> (gc_logprobs (cfgs ! request_of d) \<longrightarrow> list_all (\<lambda>x. so_delta_logprob_json_strs x \<noteq> None) (outputs_of d))"

definition finish_count :: "raw_stream_output list \<Rightarrow> int" where
  "finish_count ds = (\<Sum>d \<leftarrow> ds. int (length (filter (\<lambda>x. so_finish_reason x \<noteq> None) (outputs_of d))))"

text \<open>What an output does to the texts, log probabilities and text streamers of its request.\<close>

definition feed ::
  "'ts streamer_ops \<Rightarrow> string list \<times> string list list option \<times> 'ts list \<Rightarrow> single_output list
     \<Rightarrow> string list \<times> string list list option \<times> 'ts list" where
  "feed ops = (\<lambda>(texts, lps, ts) outs. let (ds, ts') = detokenized ops outs ts in
     (map2 (\<lambda>t d. t @ cb_delta_text d) texts ds,
      map_option (\<lambda>ls. map2 (\<lambda>l x. l @ the (so_delta_logprob_json_strs x)) ls outs) lps, ts'))"

definition request_view ::
  "nat \<Rightarrow> 'ts generate_state \<Rightarrow> string list \<times> string list list option \<times> 'ts list" where
  "request_view r st = (gs_texts st ! r, gs_logprobs st ! r, gs_streamers st ! r)"

definition view_wf :: "generation_config \<Rightarrow> string list \<times> string list list option \<times> 'ts list \<Rightarrow> bool" where
  "view_wf c = (\<lambda>(texts, lps, ts). length texts = nat (gc_n c) \<and> length ts = nat (gc_n c)
     \<and> (lps \<noteq> None) = gc_logprobs c \<and> (\<forall>ls. lps = Some ls \<longrightarrow> length ls = nat (gc_n c)))"

definition generate_wf :: "generation_config list \<Rightarrow> 'ts generate_state \<Rightarrow> bool" where
  "generate_wf cfgs st \<longleftrightarrow> length (gs_texts st) = length cfgs \<and> length (gs_logprobs st) = length cfgs
     \<and> length (gs_streamers st) = length cfgs \<and> (\<forall>r < length cfgs. view_wf (cfgs ! r) (request_view r st))"

text \<open>The state with the view of the request at \<open>r\<close> replaced.\<close>

definition set_view ::
  "nat \<Rightarrow> string list \<times> string list list option \<times> 'ts list \<Rightarrow> int \<Rightarrow> 'ts generate_state \<Rightarrow> 'ts generate_state" where
  "set_view r = (\<lambda>(texts, lps, ts) k st. st\<lparr>gs_texts := (gs_texts st)[r := texts],
     gs_logprobs := (gs_logprobs st)[r := lps], gs_streamers := (gs_streamers st)[r := ts],
     gs_finished := gs_finished st + k\<rparr>)"

definition sample_steps :: "raw_stream_output list list" where
  "sample_steps = [[sample_raw ''0'' [97] None None, sample_raw ''1'' [98] (Some ''stop'') None],
     [sample_raw ''0'' [99] (Some ''stop'') None, sample_raw ''0'' [] None (Some ''{}'')]]"

section \<open>Lemmas\<close>

lemma detokenized_Cons:
  "detokenized ops (out # outs) (t # ts) =
     (fst (detokenize_one ops out t) # fst (detokenized ops outs ts),
      snd (detokenize_one ops out t) # snd (detokenized ops outs ts))"
  by (simp add: case_prod_beta Let_def)

lemma add_output_run:
  assumes "r < length (gs_texts st)" "r < length (gs_logprobs st)" "r < length (gs_streamers st)"
    and "gs_texts st ! r = ta @ tx # tb" and "gs_streamers st ! r = sa @ s # sb"
    and "length ta = i" "length sa = i"
    and "case gs_logprobs st ! r of None \<Rightarrow> la = [] \<and> lb = [] | Some ls \<Rightarrow> ls = la @ l # lb \<and> length la = i
          \<and> so_delta_logprob_json_strs out \<noteq> None"
  shows "add_output ops r i out s st = Inr (set_view r
     (ta @ (tx @ cb_delta_text (fst (detokenize_one ops out s))) # tb,
      map_option (\<lambda>_. la @ (l @ the (so_delta_logprob_json_strs out)) # lb) (gs_logprobs st ! r),
      sa @ snd (detokenize_one ops out s) # sb)
     (if so_finish_reason out \<noteq> None then 1 else 0) st)"
proof -
  have texts: "(gs_texts st ! r) ! i = tx" "(gs_texts st ! r)[i := v] = ta @ v # tb" "i < length (gs_texts st ! r)" for v
    using assms(4,6) by auto
  have streamers: "(gs_streamers st ! r)[i := v] = sa @ v # sb" for v using assms(5,7) by auto
  show ?thesis
  proof (cases "gs_logprobs st ! r")
    case None
    then have "(gs_logprobs st)[r := None] = gs_logprobs st" by (metis list_update_id)
    with None texts streamers show ?thesis
      by (cases st) (simp add: add_output_def set_view_def case_prod_beta Let_def)
  next
    case (Some ls)
    with assms(8) have ls: "ls ! i = l" "ls[i := v] = la @ v # lb" "i < length ls" "so_delta_logprob_json_strs out \<noteq> None" for v
      by auto
    with Some texts streamers show ?thesis
      by (cases st) (auto simp: add_output_def set_view_def case_prod_beta Let_def)
  qed
qed

lemma set_view_again: "set_view r v k (set_view r w k' st) = set_view r v (k' + k) st"
  by (simp add: set_view_def case_prod_beta algebra_simps)

lemma set_view_fields [simp]:
  "gs_texts (set_view r v k st) = (gs_texts st)[r := fst v]"
  "gs_logprobs (set_view r v k st) = (gs_logprobs st)[r := fst (snd v)]"
  "gs_streamers (set_view r v k st) = (gs_streamers st)[r := snd (snd v)]"
  "gs_finished (set_view r v k st) = gs_finished st + k"
  by (simp_all add: set_view_def case_prod_beta)

lemma add_outputs_run:
  assumes "r < length (gs_texts st)" "r < length (gs_logprobs st)" "r < length (gs_streamers st)"
    and "gs_texts st ! r = ta @ txs" and "gs_streamers st ! r = sa @ ss"
    and "length ta = i" "length sa = i" "length txs = length outs" "length ss = length outs"
    and "\<forall>ls. gs_logprobs st ! r = Some ls \<longrightarrow> length ls = i + length outs
          \<and> (\<forall>x \<in> set outs. so_delta_logprob_json_strs x \<noteq> None)"
  shows "add_outputs ops r i outs ss st = Inr (set_view r
     (ta @ map2 (\<lambda>t d. t @ cb_delta_text d) txs (fst (detokenized ops outs ss)),
      map_option (\<lambda>ls. take i ls @ map2 (\<lambda>l x. l @ the (so_delta_logprob_json_strs x)) (drop i ls) outs) (gs_logprobs st ! r),
      sa @ snd (detokenized ops outs ss))
     (int (length (filter (\<lambda>x. so_finish_reason x \<noteq> None) outs))) st)"
  using assms
proof (induction outs arbitrary: i ta txs sa ss st)
  case Nil
  have "map_option (\<lambda>ls. take i ls) (gs_logprobs st ! r) = gs_logprobs st ! r"
    using Nil by (cases "gs_logprobs st ! r") auto
  with Nil show ?case
    by (cases st) (auto simp: set_view_def list_update_same_conv)
next
  case (Cons out outs)
  from Cons.prems(8,9) obtain tx txs' s ss' where eqs: "txs = tx # txs'" "ss = s # ss'"
    by (cases txs; cases ss) auto
  let ?ls = "gs_logprobs st ! r"
  let ?d = "detokenize_one ops out s"
  define la l lb where "la = (case ?ls of None \<Rightarrow> [] | Some ls \<Rightarrow> take i ls)"
    and "l = (case ?ls of None \<Rightarrow> [] | Some ls \<Rightarrow> ls ! i)" and "lb = (case ?ls of None \<Rightarrow> [] | Some ls \<Rightarrow> drop (Suc i) ls)"
  have split: "case ?ls of None \<Rightarrow> la = [] \<and> lb = [] | Some ls \<Rightarrow> ls = la @ l # lb \<and> length la = i
      \<and> so_delta_logprob_json_strs out \<noteq> None"
    using Cons.prems(10) by (auto simp: la_def l_def lb_def id_take_nth_drop split: option.split)
  let ?v = "(ta @ (tx @ cb_delta_text (fst ?d)) # txs',
      map_option (\<lambda>_. la @ (l @ the (so_delta_logprob_json_strs out)) # lb) ?ls, sa @ snd ?d # ss')"
  let ?k = "if so_finish_reason out \<noteq> None then 1 else 0"
  have one: "add_output ops r i out s st = Inr (set_view r ?v ?k st)"
    by (rule add_output_run) (use Cons.prems eqs split in auto)
  have rest: "add_outputs ops r (Suc i) outs ss' (set_view r ?v ?k st) = Inr (set_view r
     ((ta @ [tx @ cb_delta_text (fst ?d)]) @ map2 (\<lambda>t d. t @ cb_delta_text d) txs' (fst (detokenized ops outs ss')),
      map_option (\<lambda>ls. take (Suc i) ls @ map2 (\<lambda>l x. l @ the (so_delta_logprob_json_strs x)) (drop (Suc i) ls) outs)
        (gs_logprobs (set_view r ?v ?k st) ! r),
      (sa @ [snd ?d]) @ snd (detokenized ops outs ss'))
     (int (length (filter (\<lambda>x. so_finish_reason x \<noteq> None) outs))) (set_view r ?v ?k st))"
    by (rule Cons.IH) (use Cons.prems eqs split in \<open>auto split: option.splits\<close>)
  have lps: "map_option (\<lambda>ls. take (Suc i) ls @ map2 (\<lambda>l x. l @ the (so_delta_logprob_json_strs x)) (drop (Suc i) ls) outs)
        (map_option (\<lambda>_. la @ (l @ the (so_delta_logprob_json_strs out)) # lb) ?ls)
      = map_option (\<lambda>ls. take i ls @ map2 (\<lambda>l x. l @ the (so_delta_logprob_json_strs x)) (drop i ls) (out # outs)) ?ls"
    using split by (cases ?ls) auto
  show ?case
    unfolding eqs add_outputs.simps one res_bind.simps rest set_view_again
    using Cons.prems(2) lps by (simp add: detokenized_Cons del: detokenized.simps)
qed

text \<open>The callback for one accepted output changes the view of its request only.\<close>

lemma generate_callback_one_run:
  assumes "generate_wf cfgs st" and "delta_ok cfgs d"
  shows "generate_callback_one ops cfgs st d = Inr (set_view (request_of d)
     (feed ops (request_view (request_of d) st) (outputs_of d)) (finish_count [d]) st)"
proof -
  let ?r = "request_of d" and ?outs = "outputs_of d"
  from assms(2) have un: "unpack d = Inr (raw_request_id d, ?outs)"
    by (auto simp: delta_ok_def outputs_of_def unpack_def res_bind_eq_Inr split: sum.splits option.splits)
  from assms have r: "?r < length cfgs" "raw_request_id d = str_of_int (int ?r)"
    and n: "int (length ?outs) = gc_n (cfgs ! ?r)" and wf: "view_wf (cfgs ! ?r) (request_view ?r st)"
    and len: "?r < length (gs_texts st)" "?r < length (gs_logprobs st)" "?r < length (gs_streamers st)"
    by (auto simp: delta_ok_def generate_wf_def)
  have lp: "\<forall>ls. gs_logprobs st ! ?r = Some ls \<longrightarrow> length ls = 0 + length ?outs
      \<and> (\<forall>x \<in> set ?outs. so_delta_logprob_json_strs x \<noteq> None)"
    using wf n assms(2) by (auto simp: view_wf_def request_view_def delta_ok_def list_all_iff)
  have "length (gs_texts st ! ?r) = length ?outs" "length (gs_streamers st ! ?r) = length ?outs"
    using wf n by (auto simp: view_wf_def request_view_def)
  from add_outputs_run [OF len _ _ _ _ this lp, of "[]" "[]" ops] show ?thesis
    unfolding generate_callback_one_def un
    by (simp add: r list_pos_def n res_assert_def feed_def request_view_def finish_count_def case_prod_beta Let_def)
qed

lemma detokenized_lengths [simp]:
  "length (snd (detokenized ops outs ts)) = length ts"
  "length (fst (detokenized ops outs ts)) = min (length outs) (length ts)"
proof (induction outs arbitrary: ts)
  case (Cons out outs)
  { case 1 show ?case using Cons by (cases ts) (auto simp: case_prod_beta Let_def) }
  { case 2 show ?case using Cons by (cases ts) (auto simp: case_prod_beta Let_def) }
qed simp_all

lemma view_wf_feed:
  assumes "view_wf c v" and "int (length outs) = gc_n c"
  shows "view_wf c (feed ops v outs)"
  using assms by (cases v) (auto simp: view_wf_def feed_def case_prod_beta Let_def)

lemma request_view_set:
  assumes "generate_wf cfgs st" and "r < length cfgs" and "r' < length cfgs"
  shows "request_view r' (set_view r v k st) = (if r' = r then v else request_view r' st)"
  using assms by (auto simp: request_view_def generate_wf_def)

lemma generate_wf_set:
  assumes "generate_wf cfgs st" and "r < length cfgs" and "view_wf (cfgs ! r) v"
  shows "generate_wf cfgs (set_view r v k st)"
  using assms request_view_set [OF assms(1,2)] by (auto simp: generate_wf_def)

lemma finish_count_Cons: "finish_count (d # ds) = finish_count [d] + finish_count ds"
  by (simp add: finish_count_def)

lemma finish_count_append: "finish_count (ds @ es) = finish_count ds + finish_count es"
  by (simp add: finish_count_def)

lemma generate_callback_run:
  assumes "generate_wf cfgs st" and "\<forall>d \<in> set ds. delta_ok cfgs d"
  shows "\<exists>st'. generate_callback ops cfgs st ds = Inr st' \<and> generate_wf cfgs st'
    \<and> gs_finished st' = gs_finished st + finish_count ds
    \<and> (\<forall>r < length cfgs. request_view r st'
        = foldl (feed ops) (request_view r st) (map outputs_of (filter (\<lambda>d. request_of d = r) ds)))"
  using assms
proof (induction ds arbitrary: st)
  case Nil
  then show ?case by (simp add: generate_callback_def finish_count_def)
next
  case (Cons d ds)
  let ?r = "request_of d"
  let ?st = "set_view ?r (feed ops (request_view ?r st) (outputs_of d)) (finish_count [d]) st"
  have r: "?r < length cfgs" and n: "int (length (outputs_of d)) = gc_n (cfgs ! ?r)"
    using Cons.prems(2) by (auto simp: delta_ok_def)
  have wf: "generate_wf cfgs ?st"
    using Cons.prems(1) r n by (intro generate_wf_set view_wf_feed) (auto simp: generate_wf_def)
  have one: "generate_callback_one ops cfgs st d = Inr ?st"
    using Cons.prems by (intro generate_callback_one_run) auto
  from Cons.IH [OF wf] Cons.prems(2) obtain st' where
    "generate_callback ops cfgs ?st ds = Inr st'" "generate_wf cfgs st'"
    "gs_finished st' = gs_finished ?st + finish_count ds"
    "\<forall>r < length cfgs. request_view r st'
        = foldl (feed ops) (request_view r ?st) (map outputs_of (filter (\<lambda>d. request_of d = r) ds))"
    by auto
  then show ?case
    using one r Cons.prems(1) finish_count_Cons [of d ds]
    by (auto simp: generate_callback_def request_view_set)
qed

lemma generate_init_view:
  "r < length cfgs \<Longrightarrow> request_view r (generate_init ops cfgs) = (replicate (nat (gc_n (cfgs ! r))) [],
     if gc_logprobs (cfgs ! r) then Some (replicate (nat (gc_n (cfgs ! r))) []) else None,
     replicate (nat (gc_n (cfgs ! r))) (ts_new ops))"
  by (simp add: request_view_def generate_init_def)

lemma generate_init_wf: "generate_wf cfgs (generate_init ops cfgs)"
  by (auto simp: generate_wf_def generate_init_view view_wf_def) (simp_all add: generate_init_def)

lemma all_le_Suc: "(\<forall>k \<le> Suc n. P k) \<longleftrightarrow> P 0 \<and> (\<forall>k \<le> n. P (Suc k))"
  by (metis Suc_le_mono le0 not0_implies_Suc)

text \<open>The loop stops after the first number of steps that reach the number of generations.\<close>

lemma step_loop_run:
  assumes "generate_wf cfgs st" and "\<forall>ds \<in> set steps. \<forall>d \<in> set ds. delta_ok cfgs d"
  shows "case step_loop ops cfgs n steps st of
      None \<Rightarrow> \<forall>k \<le> length steps. gs_finished st + finish_count (concat (take k steps)) \<noteq> n
    | Some (Inl e) \<Rightarrow> False
    | Some (Inr st') \<Rightarrow> \<exists>k \<le> length steps. gs_finished st + finish_count (concat (take k steps)) = n
        \<and> (\<forall>j < k. gs_finished st + finish_count (concat (take j steps)) \<noteq> n)
        \<and> (\<forall>r < length cfgs. request_view r st' = foldl (feed ops) (request_view r st)
            (map outputs_of (filter (\<lambda>d. request_of d = r) (concat (take k steps)))))"
  using assms
proof (induction steps arbitrary: st)
  case Nil
  then show ?case by (subst step_loop.simps) (simp add: finish_count_def)
next
  case (Cons ds steps)
  show ?case
  proof (cases "gs_finished st = n")
    case True
    then show ?thesis by (subst step_loop.simps) (auto simp: finish_count_def intro: exI [of _ 0])
  next
    case False
    from generate_callback_run [OF Cons.prems(1), of ds ops] Cons.prems(2) obtain st1 where
      run: "generate_callback ops cfgs st ds = Inr st1" "generate_wf cfgs st1"
        "gs_finished st1 = gs_finished st + finish_count ds"
        "\<forall>r < length cfgs. request_view r st1
          = foldl (feed ops) (request_view r st) (map outputs_of (filter (\<lambda>d. request_of d = r) ds))" by auto
    have step: "step_loop ops cfgs n (ds # steps) st = step_loop ops cfgs n steps st1"
      using False run(1) by (subst step_loop.simps) simp
    have shift: "gs_finished st + finish_count (concat (take (Suc k) (ds # steps)))
        = gs_finished st1 + finish_count (concat (take k steps))" for k
      using run(3) by (simp add: finish_count_append)
    have zero: "gs_finished st + finish_count (concat (take 0 (ds # steps))) \<noteq> n"
      using False by (simp add: finish_count_def)
    from Cons.IH [OF run(2)] Cons.prems(2) have ih: "case step_loop ops cfgs n steps st1 of
      None \<Rightarrow> \<forall>k \<le> length steps. gs_finished st1 + finish_count (concat (take k steps)) \<noteq> n
    | Some (Inl e) \<Rightarrow> False
    | Some (Inr st') \<Rightarrow> \<exists>k \<le> length steps. gs_finished st1 + finish_count (concat (take k steps)) = n
        \<and> (\<forall>j < k. gs_finished st1 + finish_count (concat (take j steps)) \<noteq> n)
        \<and> (\<forall>r < length cfgs. request_view r st' = foldl (feed ops) (request_view r st1)
            (map outputs_of (filter (\<lambda>d. request_of d = r) (concat (take k steps)))))" by simp
    show ?thesis
    proof (cases "step_loop ops cfgs n steps st1")
      case None
      with ih have "\<forall>k \<le> length steps. gs_finished st + finish_count (concat (take (Suc k) (ds # steps))) \<noteq> n"
        unfolding shift by simp
      then show ?thesis using None step zero by (simp add: all_le_Suc)
    next
      case (Some res)
      with ih obtain st' k where res: "res = Inr st'" "k \<le> length steps"
        "gs_finished st + finish_count (concat (take (Suc k) (ds # steps))) = n"
        "\<forall>j < k. gs_finished st + finish_count (concat (take (Suc j) (ds # steps))) \<noteq> n"
        "\<forall>r < length cfgs. request_view r st' = foldl (feed ops) (request_view r st1)
            (map outputs_of (filter (\<lambda>d. request_of d = r) (concat (take k steps))))"
        unfolding shift by (auto split: sum.splits)
      then show ?thesis
        using Some step run(4) zero
        by (simp add: All_less_Suc2 exI [of _ "Suc k"])
    qed
  qed
qed

lemma add_batch_requests:
  assumes "\<forall>(p, c) \<in> set pcs. \<not> isl (convert_to_data p)" and "\<And>rid ds c. create rid ds c = Inr ()"
  shows "py_for (enumerate k pcs) (add_batch_request create) e
    = (Inr (), e\<lparr>be_requests := be_requests e @ map (\<lambda>i. str_of_int (int i)) [k..<k + length pcs]\<rparr>)"
  using assms(1)
proof (induction pcs arbitrary: k e)
  case Nil
  then show ?case by (simp add: py_return_def)
next
  case (Cons pc pcs)
  then obtain ds where "convert_to_data (fst pc) = Inr ds" by (cases "convert_to_data (fst pc)") auto
  then have "add_batch_request create (k, pc) e = (Inr (), e\<lparr>be_requests := be_requests e @ [str_of_int (int k)]\<rparr>)"
    by (simp add: add_batch_request_def py_simps assms(2) case_prod_beta)
  moreover have "[k..<k + length (pc # pcs)] = k # [Suc k..<Suc k + length pcs]" by (simp add: upt_conv_Cons del: upt_Suc)
  ultimately show ?case
    using Cons.IH [of "Suc k"] Cons.prems by (simp add: py_bind_def del: upt_Suc)
qed

section \<open>Properties\<close>

text \<open>
  C14: a batch of prompts. When the C++ engine accepts the requests and every output is one the
  callback accepts, \<open>generate\<close> returns after the first step at which as many finish reasons as
  generations were reported, and goes on stepping if there is none. The texts and log probabilities
  of a request are those that its own outputs give, whatever the outputs of the other requests; the
  requests were added under the numbers of the prompts, and the original callback is set again.
\<close>

theorem batch_generate_independent:
  fixes prompts :: "'img batch_prompts" and config :: config_arg
  defines "ps \<equiv> batch_of prompts"
  defines "cfgs \<equiv> configs_of (length ps) config"
  assumes "ps \<noteq> []" and "length cfgs = length ps" and "\<forall>p \<in> set ps. \<not> isl (convert_to_data p)"
    and "\<And>rid ds c. create rid ds c = Inr ()" and "\<forall>ds \<in> set steps. \<forall>d \<in> set ds. delta_ok cfgs d"
  shows "case batch_generate ops create steps prompts config e of
      (None, e') \<Rightarrow> (\<forall>k \<le> length steps. finish_count (concat (take k steps)) \<noteq> sum_list (map gc_n cfgs))
    | (Some (Inl err), e') \<Rightarrow> False
    | (Some (Inr (texts, lps)), e') \<Rightarrow>
        e' = e\<lparr>be_requests := be_requests e @ map (\<lambda>i. str_of_int (int i)) [0..<length ps]\<rparr>
        \<and> (\<exists>k \<le> length steps. finish_count (concat (take k steps)) = sum_list (map gc_n cfgs)
            \<and> (\<forall>j < k. finish_count (concat (take j steps)) \<noteq> sum_list (map gc_n cfgs))
            \<and> (\<forall>r < length ps. \<exists>ts. (texts ! r, lps ! r, ts) = foldl (feed ops)
                 (replicate (nat (gc_n (cfgs ! r))) [],
                  if gc_logprobs (cfgs ! r) then Some (replicate (nat (gc_n (cfgs ! r))) []) else None,
                  replicate (nat (gc_n (cfgs ! r))) (ts_new ops))
                 (map outputs_of (filter (\<lambda>d. request_of d = r) (concat (take k steps))))))"
proof -
  have pcs: "\<forall>(p, c) \<in> set (zip ps cfgs). \<not> isl (convert_to_data p)"
    using assms(5) by (auto dest: set_zip_leftD)
  have fin: "gs_finished (generate_init ops cfgs) = 0" by (simp add: generate_init_def)
  note add = add_batch_requests [where create = create and k = 0 and e = "e\<lparr>be_callback := None\<rparr>", OF pcs assms(6)]
  note run = step_loop_run [where ops = ops and n = "sum_list (map gc_n cfgs)", OF generate_init_wf [of cfgs ops] assms(7), unfolded fin add_0]
  show ?thesis
  proof (cases "step_loop ops cfgs (sum_list (map gc_n cfgs)) steps (generate_init ops cfgs)")
    case None
    with run add assms(3,4) show ?thesis by (simp add: batch_generate_def ps_def [symmetric] cfgs_def [symmetric] Let_def)
  next
    case (Some res)
    with run obtain st k where res: "res = Inr st" "k \<le> length steps"
      "finish_count (concat (take k steps)) = sum_list (map gc_n cfgs)"
      "\<forall>j < k. finish_count (concat (take j steps)) \<noteq> sum_list (map gc_n cfgs)"
      "\<forall>r < length cfgs. request_view r st = foldl (feed ops) (request_view r (generate_init ops cfgs))
            (map outputs_of (filter (\<lambda>d. request_of d = r) (concat (take k steps))))"
      by (auto split: sum.splits)
    have out: "batch_generate ops create steps prompts config e = (Some (Inr (gs_texts st, gs_logprobs st)),
        e\<lparr>be_requests := be_requests e @ map (\<lambda>i. str_of_int (int i)) [0..<length ps]\<rparr>)"
      using Some res(1) add assms(3,4)
      by (cases e) (simp add: batch_generate_def ps_def [symmetric] cfgs_def [symmetric] Let_def)
    have "\<exists>ts. (gs_texts st ! r, gs_logprobs st ! r, ts) = foldl (feed ops)
                 (replicate (nat (gc_n (cfgs ! r))) [],
                  if gc_logprobs (cfgs ! r) then Some (replicate (nat (gc_n (cfgs ! r))) []) else None,
                  replicate (nat (gc_n (cfgs ! r))) (ts_new ops))
            (map outputs_of (filter (\<lambda>d. request_of d = r) (concat (take k steps))))" if "r < length ps" for r
      using res(5) that assms(4) generate_init_view [of r cfgs ops]
      by (intro exI [of _ "gs_streamers st ! r"]) (simp add: request_view_def)
    then show ?thesis
      unfolding out prod.case option.case sum.case using res(2-4) by blast
  qed
qed

theorem batch_generate_independent_witness:
  "\<exists>texts lps e'. batch_generate sample_ops sample_create sample_steps (PromptsTexts [''x'', ''y'']) (OneConfig sample_cfg)
       \<lparr>be_callback = Some ''f'', be_requests = []\<rparr> = (Some (Inr (texts, lps)), e')
     \<and> texts ! 0 = [''ac''] \<and> be_callback e' = Some ''f''"
proof -
  let ?e = "\<lparr>be_callback = Some ''f'', be_requests = []\<rparr>" and ?p = "PromptsTexts [''x'', ''y''] :: unit batch_prompts"
  let ?g = "batch_generate sample_ops sample_create sample_steps ?p (OneConfig sample_cfg) ?e"
  let ?cfgs = "configs_of (length (batch_of ?p)) (OneConfig sample_cfg)"
  have n: "sum_list (map gc_n ?cfgs) = 2" "length sample_steps = 2" by code_simp+
  have counts: "finish_count (concat (take 0 sample_steps)) = 0" "finish_count (concat (take 1 sample_steps)) = 1" by code_simp+
  have view: "foldl (feed sample_ops) (replicate (nat (gc_n (?cfgs ! 0))) [],
      if gc_logprobs (?cfgs ! 0) then Some (replicate (nat (gc_n (?cfgs ! 0))) []) else None,
      replicate (nat (gc_n (?cfgs ! 0))) (ts_new sample_ops))
     (map outputs_of (filter (\<lambda>d. request_of d = 0) (concat (take 2 sample_steps)))) = ([''ac''], None, [()])"
    by code_simp
  have "fst ?g \<noteq> None" by code_simp
  then obtain res e' where g: "?g = (Some res, e')" by (cases ?g) auto
  have "case ?g of
      (None, e') \<Rightarrow> (\<forall>k \<le> length sample_steps. finish_count (concat (take k sample_steps)) \<noteq> sum_list (map gc_n ?cfgs))
    | (Some (Inl err), e') \<Rightarrow> False
    | (Some (Inr (texts, lps)), e') \<Rightarrow>
        e' = ?e\<lparr>be_requests := be_requests ?e @ map (\<lambda>i. str_of_int (int i)) [0..<length (batch_of ?p)]\<rparr>
        \<and> (\<exists>k \<le> length sample_steps. finish_count (concat (take k sample_steps)) = sum_list (map gc_n ?cfgs)
            \<and> (\<forall>j < k. finish_count (concat (take j sample_steps)) \<noteq> sum_list (map gc_n ?cfgs))
            \<and> (\<forall>r < length (batch_of ?p). \<exists>ts. (texts ! r, lps ! r, ts) = foldl (feed sample_ops)
                 (replicate (nat (gc_n (?cfgs ! r))) [],
                  if gc_logprobs (?cfgs ! r) then Some (replicate (nat (gc_n (?cfgs ! r))) []) else None,
                  replicate (nat (gc_n (?cfgs ! r))) (ts_new sample_ops))
                 (map outputs_of (filter (\<lambda>d. request_of d = r) (concat (take k sample_steps))))))"
  proof (rule batch_generate_independent)
    show "\<forall>ds \<in> set sample_steps. \<forall>d \<in> set ds. delta_ok ?cfgs d" by code_simp
  qed (simp_all add: sample_create_def)
  then obtain texts lps k where res: "res = Inr (texts, lps)" "be_callback e' = Some ''f''" and k: "k \<le> 2"
    "finish_count (concat (take k sample_steps)) = 2"
    and all: "\<forall>r < length (batch_of ?p). \<exists>ts. (texts ! r, lps ! r, ts) = foldl (feed sample_ops)
                 (replicate (nat (gc_n (?cfgs ! r))) [],
                  if gc_logprobs (?cfgs ! r) then Some (replicate (nat (gc_n (?cfgs ! r))) []) else None,
                  replicate (nat (gc_n (?cfgs ! r))) (ts_new sample_ops))
                 (map outputs_of (filter (\<lambda>d. request_of d = r) (concat (take k sample_steps))))"
    unfolding g n by (auto split: sum.splits)
  have "k \<noteq> 0" using k(2) counts(1) by (intro notI) simp
  moreover have "k \<noteq> 1" using k(2) counts(2) by (intro notI) simp
  ultimately have "k = 2" using k(1) by linarith
  with all [rule_format, of 0] view have "texts ! 0 = [''ac'']" by simp
  with res g show ?thesis by blast
qed

text \<open>
  The final output of a request is not foreseen by \<open>generate\<close>. When the output with the usage
  of a request comes before all generations have ended, for a request with several generations or
  with log probabilities, the callback fails with an \<open>AssertionError\<close>, which leaves \<open>generate\<close>;
  its callback stays installed in the engine.
\<close>

theorem batch_generate_usage:
  fixes prompts :: "'img batch_prompts" and config :: config_arg
  defines "ps \<equiv> batch_of prompts"
  defines "cfgs \<equiv> configs_of (length ps) config"
  assumes "ps \<noteq> []" and "length cfgs = length ps" and "\<forall>p \<in> set ps. \<not> isl (convert_to_data p)"
    and "\<And>rid ds c. create rid ds c = Inr ()" and "\<forall>d \<in> set ds. delta_ok cfgs d"
    and "raw_request_id d = str_of_int (int r)" and "r < length cfgs" and "raw_final_usage d = Some u"
    and "gc_n (cfgs ! r) \<noteq> 1 \<or> gc_logprobs (cfgs ! r)" and "sum_list (map gc_n cfgs) \<noteq> 0"
  shows "case batch_generate ops create ((ds @ d # rest) # steps) prompts config e of (res, e') \<Rightarrow>
    res = Some (Inl (AssertionError [])) \<and> be_callback e' = None"
proof -
  have pcs: "\<forall>(p, c) \<in> set (zip ps cfgs). \<not> isl (convert_to_data p)"
    using assms(5) by (auto dest: set_zip_leftD)
  have fin: "gs_finished (generate_init ops cfgs) = 0" by (simp add: generate_init_def)
  note add = add_batch_requests [where create = create and k = 0 and e = "e\<lparr>be_callback := None\<rparr>", OF pcs assms(6)]
  from generate_callback_run [OF generate_init_wf [of cfgs ops] assms(7), of ops] obtain st where
    st: "generate_callback ops cfgs (generate_init ops cfgs) ds = Inr st" "generate_wf cfgs st" by blast
  from st(2) assms(9) have wf: "view_wf (cfgs ! r) (request_view r st)" by (simp add: generate_wf_def)
  have one: "generate_callback_one ops cfgs st d = Inl (AssertionError [])"
  proof (cases "gc_n (cfgs ! r) = 1")
    case False
    then show ?thesis
      using assms(8-10) by (simp add: generate_callback_one_def unpack_def list_pos_def res_assert_def)
  next
    case True
    with wf assms(11) obtain ls t where "gs_logprobs st ! r = Some ls" "gs_streamers st ! r = [t]"
      by (auto simp: view_wf_def request_view_def length_Suc_conv)
    then show ?thesis
      using assms(8-10) True
      by (simp add: generate_callback_one_def unpack_def list_pos_def res_assert_def add_output_def)
  qed
  have "generate_callback ops cfgs (generate_init ops cfgs) (ds @ d # rest) = Inl (AssertionError [])"
    using st(1) one by (simp add: generate_callback_def res_fold_append)
  then have "step_loop ops cfgs (sum_list (map gc_n cfgs)) ((ds @ d # rest) # steps) (generate_init ops cfgs)
      = Some (Inl (AssertionError []))"
    using assms(12) fin by (subst step_loop.simps) simp
  then show ?thesis
    using add assms(3,4) by (simp add: batch_generate_def ps_def [symmetric] cfgs_def [symmetric] Let_def)
qed

theorem batch_generate_usage_witness:
  "fst (batch_generate sample_ops sample_create [[sample_raw ''0'' [] None (Some ''{}'')]] (PromptsText ''x'')
     (OneConfig (sample_cfg\<lparr>gc_n := 2\<rparr>)) \<lparr>be_callback = Some ''f'', be_requests = []\<rparr>) = Some (Inl (AssertionError []))"
proof -
  let ?e = "\<lparr>be_callback = Some ''f'', be_requests = []\<rparr>" and ?p = "PromptsText ''x'' :: unit batch_prompts"
  let ?c = "OneConfig (sample_cfg\<lparr>gc_n := 2\<rparr>)"
  have "case batch_generate sample_ops sample_create (([] @ sample_raw ''0'' [] None (Some ''{}'') # []) # []) ?p ?c ?e of
      (res, e') \<Rightarrow> res = Some (Inl (AssertionError [])) \<and> be_callback e' = None"
  proof (rule batch_generate_usage [where r = 0 and u = "''{}''"])
    show "raw_request_id (sample_raw ''0'' [] None (Some ''{}'')) = str_of_int (int 0)" by code_simp
  qed (simp_all add: sample_create_def sample_raw_def)
  then show ?thesis by (simp add: case_prod_beta)
qed

end
