(* ===== verification/Json_Ffi.thy ===== *)
theory Json_Ffi
  imports Engine_Config
begin

text \<open>
  The engine with a JSON interface to C++, json\_ffi/engine.py: \<open>handle_chat_completion\<close> of its
  \<open>EngineState\<close>, \<open>create\<close> of \<open>Completions\<close>, the background loops and the constructor. The strings
  that the C++ engine puts into the queue after a request was submitted are an argument of the
  generator. The theorems say what the generator yields and when the request is aborted.
\<close>

section \<open>EngineState\<close>

datatype json_ffi_call = FfiChatCompletion string string | FfiAbort string | FfiExitBackgroundLoop
  | FfiInitBackgroundEngine | FfiReload engine_config | FfiReset | FfiUnload

record json_ffi_state =
  jf_sync_queue :: "string list"
  jf_calls :: "json_ffi_call list"

definition json_sync_request_stream_callback :: "string \<Rightarrow> (json_ffi_state, unit) py" where
  "json_sync_request_stream_callback t = py_modify (\<lambda>s. s\<lparr>jf_sync_queue := jf_sync_queue s @ [t]\<rparr>)"

text \<open>
  The two Python functions that read the answers: \<open>json.loads\<close>, whose value must be iterable, and
  \<open>ChatCompletionStreamResponse.model_validate\<close>.
\<close>

record json_reader =
  jr_loads :: "string \<Rightarrow> json list res"
  jr_validate :: "json \<Rightarrow> chat_stream_response res"

text \<open>
  The loop over the responses of one string of the queue: what it yields, whether it reached the
  chunk with the usage, or an exception.
\<close>

fun json_responses ::
  "json_reader \<Rightarrow> bool \<Rightarrow> json list \<Rightarrow> chat_stream_response list \<times> bool res" where
  "json_responses rd with_usage [] = ([], Inr False)"
| "json_responses rd with_usage (j # js) =
     (case jr_validate rd j of
        Inl e \<Rightarrow> ([], Inl e)
      | Inr r \<Rightarrow>
          if csresp_usage r \<noteq> None then ((if with_usage then [r] else []), Inr True)
          else (case json_responses rd with_usage js of (ys, b) \<Rightarrow> (r # ys, b)))"

text \<open>The loop over the queue; \<open>None\<close> when it waits for a string that does not come.\<close>

fun json_queue_loop ::
  "json_reader \<Rightarrow> bool \<Rightarrow> string list \<Rightarrow> chat_stream_response list \<times> unit res option \<times> string list" where
  "json_queue_loop rd with_usage [] = ([], None, [])"
| "json_queue_loop rd with_usage (t # queue) =
     (case jr_loads rd t of
        Inl e \<Rightarrow> ([], Some (Inl e), queue)
      | Inr js \<Rightarrow>
          (case json_responses rd with_usage js of
             (ys, Inl e) \<Rightarrow> (ys, Some (Inl e), queue)
           | (ys, Inr True) \<Rightarrow> (ys, Some (Inr ()), queue)
           | (ys, Inr False) \<Rightarrow>
               (case json_queue_loop rd with_usage queue of (zs, r, q) \<Rightarrow> (ys @ zs, r, q))))"

text \<open>
  \<open>except Exception\<close> around the loop: the request is aborted and the exception raised again.
\<close>

definition abort_on_exception ::
  "string \<Rightarrow> unit res option \<Rightarrow> json_ffi_state \<Rightarrow> json_ffi_state" where
  "abort_on_exception request_id r s =
     (case r of
        Some (Inl e) \<Rightarrow> if is_Exception e then s\<lparr>jf_calls := jf_calls s @ [FfiAbort request_id]\<rparr> else s
      | _ \<Rightarrow> s)"

definition json_handle_chat_completion ::
  "json_reader \<Rightarrow> string list \<Rightarrow> string \<Rightarrow> bool \<Rightarrow> string \<Rightarrow> json_ffi_state
     \<Rightarrow> chat_stream_response list \<times> unit res option \<times> json_ffi_state" where
  "json_handle_chat_completion rd answers request_json_str with_usage request_id s =
     (let s = s\<lparr>jf_sync_queue := []\<rparr>;
          s = s\<lparr>jf_calls := jf_calls s @ [FfiChatCompletion request_json_str request_id]\<rparr>;
          s = s\<lparr>jf_sync_queue := answers\<rparr>
      in case json_queue_loop rd with_usage (jf_sync_queue s) of
           (ys, r, queue) \<Rightarrow> (ys, r, abort_on_exception request_id r (s\<lparr>jf_sync_queue := queue\<rparr>)))"

text \<open>The consumer closes the generator while it is suspended at a \<open>yield\<close>.\<close>

definition json_close :: "string \<Rightarrow> json_ffi_state \<Rightarrow> json_ffi_state" where
  "json_close request_id s = abort_on_exception request_id (Some (Inl GeneratorExit)) s"

section \<open>Completions.create\<close>

text \<open>
  \<open>request\<close> has the arguments in its fields and is validated when it is constructed; \<open>dump\<close> is
  \<open>model_dump_json\<close>.
\<close>

definition json_create ::
  "json_reader \<Rightarrow> (chat_request \<Rightarrow> string) \<Rightarrow> string \<Rightarrow> string list \<Rightarrow> chat_request \<Rightarrow> string option
     \<Rightarrow> json_ffi_state \<Rightarrow> chat_stream_response list \<times> unit res option \<times> json_ffi_state" where
  "json_create rd dump uuid answers request request_id s =
     (let request_id = (case request_id of None \<Rightarrow> ''chatcmpl-'' @ uuid | Some i \<Rightarrow> i) in
      if \<not> chat_stream request
      then ([], Some (Inl (ValueError ''JSONFFIEngine only support stream=True'')), s)
      else case validate_chat_request request of
             Inl e \<Rightarrow> ([], Some (Inl e), s)
           | Inr request \<Rightarrow>
               json_handle_chat_completion rd answers (dump request)
                 (case chat_stream_options request of None \<Rightarrow> False | Some so \<Rightarrow> include_usage so = Some True)
                 request_id s)"

section \<open>BackgroundLoops\<close>

record background_loops =
  bl_terminated :: bool
  bl_joined :: nat

definition background_terminate :: "background_loops \<Rightarrow> json_ffi_state \<Rightarrow> background_loops \<times> json_ffi_state" where
  "background_terminate b s =
     (if bl_terminated b then (b, s)
      else (b\<lparr>bl_terminated := True, bl_joined := bl_joined b + 2\<rparr>,
            s\<lparr>jf_calls := jf_calls s @ [FfiExitBackgroundLoop]\<rparr>))"

section \<open>JSONFFIEngine\<close>

definition json_engine_init ::
  "'dev model_env \<Rightarrow> string \<Rightarrow> 'dev \<Rightarrow> string option \<Rightarrow> engine_mode \<Rightarrow> engine_config option
     \<Rightarrow> json_ffi_state \<Rightarrow> (engine_config \<times> background_loops) res \<times> json_ffi_state" where
  "json_engine_init env model device model_lib mode engine_cfg s =
     (let cfg = (case engine_cfg of None \<Rightarrow> EngineConfig | Some c \<Rightarrow> c) in
      case res_bind (check_engine_config model model_lib mode cfg) (\<lambda>_.
             process_model_args env (parse_models model model_lib (ec_additional_models cfg)) device cfg) of
        Inl e \<Rightarrow> (Inl e, s)
      | Inr (model_args, paths, conv) \<Rightarrow>
          let cfg' = cfg\<lparr>ec_model := Some (fst (hd model_args)), ec_model_lib := Some (snd (hd model_args)),
                         ec_additional_models := map (\<lambda>(p, l). ModelWithLib p l) (tl model_args), ec_mode := Some mode\<rparr>
          in (Inr (cfg', \<lparr>bl_terminated = False, bl_joined = 0\<rparr>),
              s\<lparr>jf_calls := jf_calls s @ [FfiInitBackgroundEngine, FfiReload cfg']\<rparr>))"

section \<open>Specifications\<close>

text \<open>The responses before the first one with a usage, and that one.\<close>

definition before_usage :: "chat_stream_response list \<Rightarrow> chat_stream_response list" where
  "before_usage = takeWhile (\<lambda>r. csresp_usage r = None)"

definition usage_chunk :: "chat_stream_response list \<Rightarrow> chat_stream_response option" where
  "usage_chunk rs = List.find (\<lambda>r. csresp_usage r \<noteq> None) rs"

text \<open>The responses of all strings, when they can be read.\<close>

definition read_answers :: "json_reader \<Rightarrow> string list \<Rightarrow> chat_stream_response list res" where
  "read_answers rd answers =
     res_bind (res_map (\<lambda>t. res_bind (jr_loads rd t) (res_map (jr_validate rd))) answers) (\<lambda>rss. Inr (concat rss))"

definition sample_usage :: completion_usage where
  "sample_usage = \<lparr>prompt_tokens = 1, completion_tokens = 1, total_tokens = 2, usage_extra = None\<rparr>"

definition sample_chunk :: "completion_usage option \<Rightarrow> chat_stream_response" where
  "sample_chunk u = \<lparr>csresp_id = ''r'', csresp_choices = [], csresp_model = None, csresp_usage = u\<rparr>"

text \<open>A reader for which \<open>c\<close> is a chunk, \<open>u\<close> a usage chunk and everything else invalid.\<close>

definition sample_reader :: json_reader where
  "sample_reader = \<lparr>jr_loads = (\<lambda>t. Inr (map (\<lambda>c. JStr [c]) t)),
     jr_validate = (\<lambda>j. if j = JStr ''c'' then Inr (sample_chunk None)
       else if j = JStr ''u'' then Inr (sample_chunk (Some sample_usage)) else Inl (ValidationError []))\<rparr>"

section \<open>Lemmas\<close>

lemma json_responses_run:
  assumes "res_map (jr_validate rd) js = Inr rs"
  shows "json_responses rd with_usage js =
    (before_usage rs @ (if with_usage then (case usage_chunk rs of None \<Rightarrow> [] | Some r \<Rightarrow> [r]) else []),
     Inr (usage_chunk rs \<noteq> None))"
  using assms
  by (induction js arbitrary: rs) (auto simp: before_usage_def usage_chunk_def res_bind_eq_Inr)

lemma usage_chunk_None: "usage_chunk rs = None \<longleftrightarrow> (\<forall>r \<in> set rs. csresp_usage r = None)"
  by (auto simp: usage_chunk_def find_None_iff)

lemma before_usage_append:
  "before_usage (rs @ qs) = (if usage_chunk rs = None then rs @ before_usage qs else before_usage rs)"
  by (auto simp: before_usage_def usage_chunk_None takeWhile_append)

lemma usage_chunk_append: "usage_chunk (rs @ qs) = (case usage_chunk rs of None \<Rightarrow> usage_chunk qs | Some r \<Rightarrow> Some r)"
  by (induction rs) (auto simp: usage_chunk_def)

lemma json_queue_loop_run:
  assumes "read_answers rd answers = Inr rs"
  shows "\<exists>q. json_queue_loop rd with_usage answers =
    (before_usage rs @ (if with_usage then (case usage_chunk rs of None \<Rightarrow> [] | Some r \<Rightarrow> [r]) else []),
     (if usage_chunk rs = None then None else Some (Inr ())), q)"
  using assms
proof (induction answers arbitrary: rs)
  case Nil
  then show ?case by (simp add: read_answers_def before_usage_def usage_chunk_def)
next
  case (Cons t answers)
  from Cons.prems obtain js qs ps where p: "jr_loads rd t = Inr js" "res_map (jr_validate rd) js = Inr ps"
    "read_answers rd answers = Inr qs" "rs = ps @ qs"
    by (auto simp: read_answers_def res_bind_eq_Inr)
  have "usage_chunk ps = None \<Longrightarrow> before_usage ps = ps"
    by (auto simp: usage_chunk_None before_usage_def)
  with Cons.IH [OF p(3)] p show ?case
    by (auto simp: json_responses_run [OF p(2)] before_usage_append usage_chunk_append split: option.splits)
qed

lemma json_responses_error:
  "json_responses rd with_usage js = (ys, Inl e) \<Longrightarrow> \<forall>y \<in> set ys. csresp_usage y = None"
  by (induction js arbitrary: ys) (auto split: sum.splits if_splits prod.splits)

lemma json_responses_False:
  "json_responses rd with_usage js = (ys, Inr False) \<Longrightarrow> \<forall>y \<in> set ys. csresp_usage y = None"
  by (induction js arbitrary: ys) (auto split: sum.splits if_splits prod.splits)

lemma json_queue_loop_error:
  "json_queue_loop rd with_usage answers = (ys, Some (Inl e), q) \<Longrightarrow> \<forall>y \<in> set ys. csresp_usage y = None"
  by (induction answers arbitrary: ys)
    (auto split: sum.splits bool.splits prod.splits dest: json_responses_error [THEN bspec] json_responses_False [THEN bspec])

section \<open>Properties\<close>

text \<open>
  C15: the chat completion of the JSON engine. When the strings that the C++ engine sends can be
  read, the generator yields the responses up to the first one with a usage, and that one exactly
  if the usage was asked for; what comes after it is not read. It ends there, waits for more if
  there is none, and the request is not aborted.
\<close>

theorem json_stream_responses:
  assumes "read_answers rd answers = Inr rs"
  shows "case json_handle_chat_completion rd answers req with_usage rid s of (ys, r, s') \<Rightarrow>
    ys = before_usage rs @ (if with_usage then (case usage_chunk rs of None \<Rightarrow> [] | Some u \<Rightarrow> [u]) else [])
    \<and> r = (if usage_chunk rs = None then None else Some (Inr ()))
    \<and> jf_calls s' = jf_calls s @ [FfiChatCompletion req rid]"
  using json_queue_loop_run [OF assms, of with_usage]
  by (auto simp: json_handle_chat_completion_def abort_on_exception_def Let_def)

theorem json_stream_responses_witness:
  "fst (json_handle_chat_completion sample_reader [''c'', ''cuc''] ''q'' False ''r'' \<lparr>jf_sync_queue = [], jf_calls = []\<rparr>)
     = [sample_chunk None, sample_chunk None]"
proof -
  have "read_answers sample_reader [''c'', ''cuc'']
      = Inr [sample_chunk None, sample_chunk None, sample_chunk (Some sample_usage), sample_chunk None]" by code_simp
  from json_stream_responses [OF this, where with_usage = False and req = "''q''" and rid = "''r''"
      and s = "\<lparr>jf_sync_queue = [], jf_calls = []\<rparr>"] show ?thesis
    by (simp add: before_usage_def sample_chunk_def case_prod_beta)
qed

text \<open>
  C19: when an answer cannot be read, the responses before it have been yielded, none of them a
  usage, and the request is aborted once before the exception goes on. A request that ends
  otherwise, and one whose generator is closed early, is not aborted.
\<close>

theorem json_stream_abort:
  "case json_handle_chat_completion rd answers req with_usage rid s of (ys, r, s') \<Rightarrow>
     (case r of
        Some (Inl e) \<Rightarrow> (\<forall>y \<in> set ys. csresp_usage y = None)
          \<and> jf_calls s' = jf_calls s @ FfiChatCompletion req rid # (if is_Exception e then [FfiAbort rid] else [])
      | _ \<Rightarrow> jf_calls s' = jf_calls s @ [FfiChatCompletion req rid])
     \<and> json_close rid s' = s'"
proof -
  obtain ys r q where loop: "json_queue_loop rd with_usage answers = (ys, r, q)"
    by (cases "json_queue_loop rd with_usage answers")
  have "json_close rid t = t" for t by (simp add: json_close_def abort_on_exception_def is_Exception_def)
  with loop json_queue_loop_error [of rd with_usage answers ys _ q] show ?thesis
    by (auto simp: json_handle_chat_completion_def abort_on_exception_def Let_def split: option.splits sum.splits)
qed

theorem json_stream_abort_witness:
  "jf_calls (snd (snd (json_handle_chat_completion sample_reader [''cx''] ''q'' False ''r'' \<lparr>jf_sync_queue = [], jf_calls = []\<rparr>)))
     = [FfiChatCompletion ''q'' ''r'', FfiAbort ''r'']"
proof -
  let ?h = "json_handle_chat_completion sample_reader [''cx''] ''q'' False ''r'' \<lparr>jf_sync_queue = [], jf_calls = []\<rparr>"
  have r: "fst (snd ?h) = Some (Inl (ValidationError []))" by code_simp
  from json_stream_abort [where rd = sample_reader and answers = "[''cx'']" and req = "''q''" and with_usage = False
      and rid = "''r''" and s = "\<lparr>jf_sync_queue = [], jf_calls = []\<rparr>"] r
  show ?thesis by (simp add: case_prod_beta is_Exception_def)
qed

end
