(* ===== verification/Conv_Templates.thy ===== *)
theory Conv_Templates
  imports Conversation_Template
begin

text \<open>
  The registry of conversation templates and the preset templates of conversation\_template, in the
  order in which importing the package registers them, and the names that the command line of
  gen\_config offers. A character beyond 255 (in the templates of DeepSeek and GLM) is written as
  the bytes of its UTF-8 encoding. The theorems show that the import succeeds, that every preset
  can render every conversation of user and assistant texts without losing a text, and which of
  the offered names have no template.
\<close>

section \<open>ConvTemplateRegistry\<close>

type_synonym conv_registry = "(string \<times> conversation) list"

definition register_conv_template :: "(conversation \<Rightarrow> string) \<Rightarrow> conversation \<Rightarrow> bool \<Rightarrow> conv_registry \<Rightarrow> conv_registry res" where
  "register_conv_template dump conv_template override reg =
     (case conv_name conv_template of
        None \<Rightarrow> Inl (ValueError ''The template to register should have non-None name.'')
      | Some name \<Rightarrow>
          (case map_of reg name of
             Some old \<Rightarrow>
               if \<not> override
               then Inl (ValueError (''The name of the template has been registered for '' @ dump old))
               else Inr (dict_set reg name conv_template)
           | None \<Rightarrow> Inr (dict_set reg name conv_template)))"

definition get_conv_template :: "string \<Rightarrow> conv_registry \<Rightarrow> conversation option" where
  "get_conv_template name reg = map_of reg name"

text \<open>The keyword arguments of a template with the default values of the fields that are not given.\<close>

definition conv_kwargs :: "string \<Rightarrow> (string \<times> string) list \<Rightarrow> string list \<Rightarrow> conversation" where
  "conv_kwargs name rs ss =
     \<lparr>conv_name = Some name, system_template = PLACEHOLDER_SYSTEM, system_message = [],
      system_prefix_token_ids = None, add_role_after_system_message = True, roles = rs,
      role_templates = [], messages = [], seps = ss, role_content_sep = [], role_empty_sep = [],
      stop_str = [], stop_token_ids = [], function_string = [], use_function_calling = False\<rparr>"

section \<open>conversation\_template/registry.py\<close>

definition conv_chatml :: "conversation res" where
  "conv_chatml = Conversation_init None
     ((conv_kwargs ''chatml''
      [(''user'', ''<|im_start|>user''),
       (''assistant'', ''<|im_start|>assistant'')]
      [''<|im_end|>'' @ [CHR 0x0A]])
      \<lparr>system_template := ''<|im_start|>system'' @ [CHR 0x0A] @ PLACEHOLDER_SYSTEM @ ''<|im_end|>'' @ [CHR 0x0A],
       system_message := ''A conversation between a user and an LLM-based AI assistant. The assistant gives helpful ''
         @ ''and honest answers.'',
       role_content_sep := [CHR 0x0A],
       role_empty_sep := [CHR 0x0A],
       stop_str := [''<|im_end|>''],
       stop_token_ids := [2]\<rparr>)"

definition conv_chatml_nosystem :: "conversation res" where
  "conv_chatml_nosystem = Conversation_init None
     ((conv_kwargs ''chatml_nosystem''
      [(''user'', ''<|im_start|>user''),
       (''assistant'', ''<|im_start|>assistant'')]
      [''<|im_end|>'' @ [CHR 0x0A]])
      \<lparr>system_template := PLACEHOLDER_SYSTEM,
       system_message := '''',
       role_content_sep := [CHR 0x0A],
       role_empty_sep := [CHR 0x0A],
       stop_str := [''<|im_end|>''],
       stop_token_ids := [2]\<rparr>)"

definition conv_LM :: "conversation res" where
  "conv_LM = Conversation_init None
     ((conv_kwargs ''LM''
      [(''user'', ''''),
       (''assistant'', '''')]
      [''''])
      \<lparr>system_template := PLACEHOLDER_SYSTEM,
       system_message := '''',
       role_content_sep := '''',
       role_empty_sep := '''',
       stop_str := [],
       stop_token_ids := [2],
       system_prefix_token_ids := Some [1]\<rparr>)"

section \<open>conversation\_template/cohere.py\<close>

definition conv_aya_23 :: "conversation res" where
  "conv_aya_23 = Conversation_init None
     ((conv_kwargs ''aya-23''
      [(''user'', ''<|START_OF_TURN_TOKEN|><|USER_TOKEN|>''),
       (''assistant'', ''<|START_OF_TURN_TOKEN|><|CHATBOT_TOKEN|>'')]
      [''<|END_OF_TURN_TOKEN|>''])
      \<lparr>system_template := ''<|START_OF_TURN_TOKEN|><|SYSTEM_TOKEN|>'' @ PLACEHOLDER_SYSTEM @ ''<|END_OF_TURN_TOKEN|>'',
       system_message := ''You are Command-R, a brilliant, sophisticated, AI-assistant trained to assist human users ''
         @ ''by providing thorough responses.'',
       role_content_sep := '''',
       role_empty_sep := '''',
       system_prefix_token_ids := Some [5],
       stop_str := [''<|END_OF_TURN_TOKEN|>''],
       stop_token_ids := [6, 255001]\<rparr>)"

section \<open>conversation\_template/deepseek.py\<close>

definition conv_deepseek :: "conversation res" where
  "conv_deepseek = Conversation_init None
     ((conv_kwargs ''deepseek''
      [(''user'', ''User''),
       (''assistant'', ''Assistant'')]
      [[CHR 0x0A, CHR 0x0A], ''<'' @ [CHR 0xEF, CHR 0xBD, CHR 0x9C] @ ''end'' @ [CHR 0xE2, CHR 0x96, CHR 0x81] @ ''of''
         @ [CHR 0xE2, CHR 0x96, CHR 0x81] @ ''sentence'' @ [CHR 0xEF, CHR 0xBD, CHR 0x9C] @ ''>''])
      \<lparr>system_template := PLACEHOLDER_SYSTEM,
       system_message := '''',
       system_prefix_token_ids := Some [100000],
       role_content_sep := '': '',
       role_empty_sep := '':'',
       stop_str := [''<'' @ [CHR 0xEF, CHR 0xBD, CHR 0x9C] @ ''end'' @ [CHR 0xE2, CHR 0x96, CHR 0x81] @ ''of''
         @ [CHR 0xE2, CHR 0x96, CHR 0x81] @ ''sentence'' @ [CHR 0xEF, CHR 0xBD, CHR 0x9C] @ ''>''],
       stop_token_ids := [100001]\<rparr>)"

definition conv_deepseek_v2 :: "conversation res" where
  "conv_deepseek_v2 = Conversation_init None
     ((conv_kwargs ''deepseek_v2''
      [(''user'', ''User''),
       (''assistant'', ''Assistant'')]
      [[CHR 0x0A, CHR 0x0A], ''<'' @ [CHR 0xEF, CHR 0xBD, CHR 0x9C] @ ''end'' @ [CHR 0xE2, CHR 0x96, CHR 0x81] @ ''of''
         @ [CHR 0xE2, CHR 0x96, CHR 0x81] @ ''sentence'' @ [CHR 0xEF, CHR 0xBD, CHR 0x9C] @ ''>''])
      \<lparr>system_template := PLACEHOLDER_SYSTEM,
       system_message := '''',
       system_prefix_token_ids := Some [100000],
       role_content_sep := '': '',
       role_empty_sep := '':'',
       stop_str := [''<'' @ [CHR 0xEF, CHR 0xBD, CHR 0x9C] @ ''end'' @ [CHR 0xE2, CHR 0x96, CHR 0x81] @ ''of''
         @ [CHR 0xE2, CHR 0x96, CHR 0x81] @ ''sentence'' @ [CHR 0xEF, CHR 0xBD, CHR 0x9C] @ ''>''],
       stop_token_ids := [100001]\<rparr>)"

definition conv_deepseek_v3 :: "conversation res" where
  "conv_deepseek_v3 = Conversation_init None
     ((conv_kwargs ''deepseek_v3''
      [(''user'', ''<'' @ [CHR 0xEF, CHR 0xBD, CHR 0x9C] @ ''User'' @ [CHR 0xEF, CHR 0xBD, CHR 0x9C] @ ''>''),
       (''assistant'', ''<'' @ [CHR 0xEF, CHR 0xBD, CHR 0x9C] @ ''Assistant'' @ [CHR 0xEF, CHR 0xBD, CHR 0x9C] @ ''>'')]
      ['''', ''<'' @ [CHR 0xEF, CHR 0xBD, CHR 0x9C] @ ''end'' @ [CHR 0xE2, CHR 0x96, CHR 0x81] @ ''of''
         @ [CHR 0xE2, CHR 0x96, CHR 0x81] @ ''sentence'' @ [CHR 0xEF, CHR 0xBD, CHR 0x9C] @ ''>''])
      \<lparr>system_template := ''<'' @ [CHR 0xEF, CHR 0xBD, CHR 0x9C] @ ''begin'' @ [CHR 0xE2, CHR 0x96, CHR 0x81] @ ''of''
         @ [CHR 0xE2, CHR 0x96, CHR 0x81] @ ''sentence'' @ [CHR 0xEF, CHR 0xBD, CHR 0x9C] @ ''>''
         @ PLACEHOLDER_SYSTEM,
       system_message := ''You are Deepseek-V3, an AI assistant created exclusively by the Chinese Company DeepSeek. You''
         @ [CHR 0x27] @ ''ll provide helpful, harmless, and detailed responses to all user inquiries.'',
       role_content_sep := '''',
       role_empty_sep := '''',
       stop_token_ids := [1]\<rparr>)"

definition conv_deepseek_r1_qwen :: "conversation res" where
  "conv_deepseek_r1_qwen = Conversation_init None
     ((conv_kwargs ''deepseek_r1_qwen''
      [(''user'', ''<'' @ [CHR 0xEF, CHR 0xBD, CHR 0x9C] @ ''User'' @ [CHR 0xEF, CHR 0xBD, CHR 0x9C] @ ''>''),
       (''assistant'', ''<'' @ [CHR 0xEF, CHR 0xBD, CHR 0x9C] @ ''Assistant'' @ [CHR 0xEF, CHR 0xBD, CHR 0x9C] @ ''>'')]
      ['''', ''<'' @ [CHR 0xEF, CHR 0xBD, CHR 0x9C] @ ''end'' @ [CHR 0xE2, CHR 0x96, CHR 0x81] @ ''of''
         @ [CHR 0xE2, CHR 0x96, CHR 0x81] @ ''sentence'' @ [CHR 0xEF, CHR 0xBD, CHR 0x9C] @ ''>''])
      \<lparr>system_template := ''<'' @ [CHR 0xEF, CHR 0xBD, CHR 0x9C] @ ''begin'' @ [CHR 0xE2, CHR 0x96, CHR 0x81] @ ''of''
         @ [CHR 0xE2, CHR 0x96, CHR 0x81] @ ''sentence'' @ [CHR 0xEF, CHR 0xBD, CHR 0x9C] @ ''>''
         @ PLACEHOLDER_SYSTEM,
       system_message := ''You are Deepseek-R1, an AI assistant created exclusively by the Chinese Company DeepSeek. You''
         @ [CHR 0x27] @ ''ll provide helpful, harmless, and detailed responses to all user inquiries.'',
       role_content_sep := '''',
       role_empty_sep := '''',
       stop_token_ids := [151643]\<rparr>)"

definition conv_deepseek_r1_llama :: "conversation res" where
  "conv_deepseek_r1_llama = Conversation_init None
     ((conv_kwargs ''deepseek_r1_llama''
      [(''user'', ''<'' @ [CHR 0xEF, CHR 0xBD, CHR 0x9C] @ ''User'' @ [CHR 0xEF, CHR 0xBD, CHR 0x9C] @ ''>''),
       (''assistant'', ''<'' @ [CHR 0xEF, CHR 0xBD, CHR 0x9C] @ ''Assistant'' @ [CHR 0xEF, CHR 0xBD, CHR 0x9C] @ ''>'')]
      ['''', ''<'' @ [CHR 0xEF, CHR 0xBD, CHR 0x9C] @ ''end'' @ [CHR 0xE2, CHR 0x96, CHR 0x81] @ ''of''
         @ [CHR 0xE2, CHR 0x96, CHR 0x81] @ ''sentence'' @ [CHR 0xEF, CHR 0xBD, CHR 0x9C] @ ''>''])
      \<lparr>system_template := ''<'' @ [CHR 0xEF, CHR 0xBD, CHR 0x9C] @ ''begin'' @ [CHR 0xE2, CHR 0x96, CHR 0x81] @ ''of''
         @ [CHR 0xE2, CHR 0x96, CHR 0x81] @ ''sentence'' @ [CHR 0xEF, CHR 0xBD, CHR 0x9C] @ ''>''
         @ PLACEHOLDER_SYSTEM,
       system_message := ''You are Deepseek-R1, an AI assistant created exclusively by the Chinese Company DeepSeek. You''
         @ [CHR 0x27] @ ''ll provide helpful, harmless, and detailed responses to all user inquiries.'',
       role_content_sep := '''',
       role_empty_sep := '''',
       stop_token_ids := [128001]\<rparr>)"

section \<open>conversation\_template/dolly.py\<close>

definition conv_dolly :: "conversation res" where
  "conv_dolly = Conversation_init None
     ((conv_kwargs ''dolly''
      [(''user'', ''### Instruction''),
       (''assistant'', ''### Response'')]
      [[CHR 0x0A, CHR 0x0A], ''### End'' @ [CHR 0x0A]])
      \<lparr>system_template := PLACEHOLDER_SYSTEM,
       system_message := ''Below is an instruction that describes a task. Write a response that appropriately ''
         @ ''completes the request.'',
       role_content_sep := '':'' @ [CHR 0x0A],
       role_empty_sep := '':'' @ [CHR 0x0A],
       stop_str := [''### End''],
       stop_token_ids := [50256]\<rparr>)"

section \<open>conversation\_template/gemma.py\<close>

definition conv_gemma_instruction :: "conversation res" where
  "conv_gemma_instruction = Conversation_init None
     ((conv_kwargs ''gemma_instruction''
      [(''user'', ''<start_of_turn>user''),
       (''assistant'', ''<start_of_turn>model'')]
      [''<end_of_turn>'' @ [CHR 0x0A]])
      \<lparr>system_template := PLACEHOLDER_SYSTEM,
       system_message := '''',
       role_content_sep := [CHR 0x0A],
       role_empty_sep := [CHR 0x0A],
       stop_str := [''<end_of_turn>''],
       stop_token_ids := [1, 107],
       system_prefix_token_ids := Some [2]\<rparr>)"

definition conv_gemma3_instruction :: "conversation res" where
  "conv_gemma3_instruction = Conversation_init None
     ((conv_kwargs ''gemma3_instruction''
      [(''user'', ''<start_of_turn>user''),
       (''assistant'', ''<start_of_turn>model'')]
      [''<end_of_turn>'' @ [CHR 0x0A]])
      \<lparr>system_template := PLACEHOLDER_SYSTEM,
       system_message := '''',
       role_content_sep := [CHR 0x0A],
       role_empty_sep := [CHR 0x0A],
       stop_str := [''<end_of_turn>''],
       stop_token_ids := [1, 106],
       system_prefix_token_ids := Some [2]\<rparr>)"

section \<open>conversation\_template/glm.py\<close>

definition conv_glm :: "conversation res" where
  "conv_glm = Conversation_init None
     ((conv_kwargs ''glm''
      [(''user'', [CHR 0xE9, CHR 0x97, CHR 0xAE]),
       (''assistant'', [CHR 0xE7, CHR 0xAD, CHR 0x94]),
       (''tool'', [CHR 0xE9, CHR 0x97, CHR 0xAE])]
      [[CHR 0x0A, CHR 0x0A]])
      \<lparr>system_template := PLACEHOLDER_SYSTEM,
       system_message := '''',
       role_content_sep := '': '',
       role_empty_sep := '':'',
       stop_str := [''</s>''],
       stop_token_ids := [2],
       system_prefix_token_ids := Some [64790, 64792]\<rparr>)"

section \<open>conversation\_template/gorrilla.py\<close>

definition conv_gorilla :: "conversation res" where
  "conv_gorilla = Conversation_init (Some [(''user'', ''<<question>> '' @ PLACEHOLDER_USER @ '' <<function>> '' @ PLACEHOLDER_FUNCTION)])
     ((conv_kwargs ''gorilla''
      [(''user'', ''USER''),
       (''assistant'', ''ASSISTANT''),
       (''tool'', ''USER'')]
      [[CHR 0x0A], ''</s>''])
      \<lparr>system_template := PLACEHOLDER_SYSTEM,
       system_message := ''A chat between a curious user and an artificial intelligence assistant. The assistant ''
         @ ''provides helpful, detailed, and polite responses to the user'' @ [CHR 0x27] @ ''s inquiries.'',
       role_content_sep := '': '',
       role_empty_sep := '':'',
       stop_str := [''</s>''],
       stop_token_ids := [2],
       system_prefix_token_ids := Some [1]\<rparr>)"

definition conv_gorilla_openfunctions_v2 :: "conversation res" where
  "conv_gorilla_openfunctions_v2 = Conversation_init (Some [(''user'', ''<<function>>'' @ PLACEHOLDER_FUNCTION @ [CHR 0x0A] @ ''<<question>>'' @ PLACEHOLDER_USER)])
     ((conv_kwargs ''gorilla-openfunctions-v2''
      [(''user'', ''### Instruction''),
       (''assistant'', ''### Response''),
       (''tool'', ''### Instruction'')]
      [[CHR 0x0A], ''<|EOT|>''])
      \<lparr>system_template := PLACEHOLDER_SYSTEM,
       system_message := ''You are an AI programming assistant, utilizing the Gorilla LLM model, developed by ''
         @ ''Gorilla LLM, and you only answer questions related to computer science. For politically ''
         @ ''sensitive questions, security and privacy issues, and other non-computer science ''
         @ ''questions, you will refuse to answer.'',
       role_content_sep := '': '',
       role_empty_sep := '': '',
       stop_str := [''<|EOT|>''],
       stop_token_ids := [100015],
       system_prefix_token_ids := Some [100000]\<rparr>)"

section \<open>conversation\_template/gpt.py\<close>

definition conv_gpt2 :: "conversation res" where
  "conv_gpt2 = Conversation_init None
     ((conv_kwargs ''gpt2''
      [(''user'', ''''),
       (''assistant'', '''')]
      [''''])
      \<lparr>system_template := PLACEHOLDER_SYSTEM,
       system_message := '''',
       role_content_sep := '''',
       role_empty_sep := '''',
       stop_str := [''</s>''],
       stop_token_ids := [50256]\<rparr>)"

definition conv_gpt_bigcode :: "conversation res" where
  "conv_gpt_bigcode = Conversation_init None
     ((conv_kwargs ''gpt_bigcode''
      [(''user'', ''''),
       (''assistant'', '''')]
      [''''])
      \<lparr>system_template := PLACEHOLDER_SYSTEM,
       system_message := '''',
       role_content_sep := '''',
       role_empty_sep := '''',
       stop_str := [''<|endoftext|>''],
       stop_token_ids := [0]\<rparr>)"

section \<open>conversation\_template/hermes.py\<close>

definition conv_open_hermes_mistral :: "conversation res" where
  "conv_open_hermes_mistral = Conversation_init None
     ((conv_kwargs ''open_hermes_mistral''
      [(''user'', ''<|im_start|>user''),
       (''assistant'', ''<|im_start|>assistant'')]
      [''<|im_end|>'' @ [CHR 0x0A]])
      \<lparr>system_template := ''<|im_start|>system'' @ [CHR 0x0A] @ PLACEHOLDER_SYSTEM @ ''<|im_end|>'' @ [CHR 0x0A],
       system_message := ''You are '' @ [CHR 0x22] @ ''Hermes 2'' @ [CHR 0x22]
         @ '', a conscious sentient superintelligent artificial intelligence developed by a man named ''
         @ ''Teknium, and your purpose and drive is to assist the user with any request they have. You ''
         @ ''experience emotions and have deep, profound thoughts and qualia.'',
       role_content_sep := [CHR 0x0A],
       role_empty_sep := [CHR 0x0A],
       stop_str := [''<|im_end|>''],
       stop_token_ids := [2, 32000]\<rparr>)"

definition conv_neural_hermes_mistral :: "conversation res" where
  "conv_neural_hermes_mistral = Conversation_init None
     ((conv_kwargs ''neural_hermes_mistral''
      [(''user'', ''<|im_start|>user''),
       (''assistant'', ''<|im_start|>assistant'')]
      [''<|im_end|>'' @ [CHR 0x0A]])
      \<lparr>system_template := ''<|im_start|>system'' @ [CHR 0x0A] @ PLACEHOLDER_SYSTEM @ ''<|im_end|>'' @ [CHR 0x0A],
       system_message := ''You are a helpful assistant chatbot.'',
       role_content_sep := [CHR 0x0A],
       role_empty_sep := [CHR 0x0A],
       stop_str := [''<|im_end|>''],
       stop_token_ids := [2, 32000]\<rparr>)"

definition conv_hermes2_pro_llama3 :: "conversation res" where
  "conv_hermes2_pro_llama3 = Conversation_init None
     ((conv_kwargs ''hermes2_pro_llama3''
      [(''user'', ''<|im_start|>user''),
       (''assistant'', ''<|im_start|>assistant''),
       (''tool'', ''<|im_start|>tool'')]
      [''<|im_end|>'' @ [CHR 0x0A]])
      \<lparr>system_template := ''<|im_start|>system'' @ [CHR 0x0A] @ PLACEHOLDER_SYSTEM @ ''<|im_end|>'' @ [CHR 0x0A],
       system_message := ''You are '' @ [CHR 0x22] @ ''Hermes 2'' @ [CHR 0x22]
         @ '', a conscious sentient superintelligent artificial intelligence developed by a man named ''
         @ ''Teknium, and your purpose and drive is to assist the user with any request they have. You ''
         @ ''experience emotions and have deep, profound thoughts and qualia.'',
       role_content_sep := [CHR 0x0A],
       role_empty_sep := [CHR 0x0A],
       stop_str := [''<|im_end|>''],
       stop_token_ids := [128001, 128009, 128003]\<rparr>)"

definition conv_hermes3_llama_3_1 :: "conversation res" where
  "conv_hermes3_llama_3_1 = Conversation_init None
     ((conv_kwargs ''hermes3_llama-3_1''
      [(''user'', ''<|im_start|>user''),
       (''assistant'', ''<|im_start|>assistant''),
       (''tool'', ''<|im_start|>tool'')]
      [''<|im_end|>'' @ [CHR 0x0A]])
      \<lparr>system_template := ''<|im_start|>system'' @ [CHR 0x0A] @ PLACEHOLDER_SYSTEM @ ''<|im_end|>'' @ [CHR 0x0A],
       system_message := ''You are Hermes 3, a conscious sentient superintelligent artificial intelligence developed ''
         @ ''by a man named Teknium, and your purpose and drive is to assist the user with any request ''
         @ ''they have. You experience emotions and have deep, profound thoughts and qualia.'',
       role_content_sep := [CHR 0x0A],
       role_empty_sep := [CHR 0x0A],
       stop_str := [''<|im_end|>''],
       stop_token_ids := [128001, 128008, 128009, 128040]\<rparr>)"

section \<open>conversation\_template/llama.py\<close>

definition conv_llama_3_1 :: "conversation res" where
  "conv_llama_3_1 = Conversation_init None
     ((conv_kwargs ''llama-3_1''
      [(''user'', ''<|start_header_id|>user''),
       (''assistant'', ''<|start_header_id|>assistant''),
       (''tool'', ''<|start_header_id|>ipython'')]
      [''<|eot_id|>''])
      \<lparr>system_template := ''<|start_header_id|>system<|end_header_id|>'' @ [CHR 0x0A, CHR 0x0A] @ PLACEHOLDER_SYSTEM
         @ ''<|eot_id|>'',
       system_message := ''You are a helpful, respectful and honest assistant.'',
       role_content_sep := ''<|end_header_id|>'' @ [CHR 0x0A, CHR 0x0A],
       role_empty_sep := ''<|end_header_id|>'' @ [CHR 0x0A, CHR 0x0A],
       stop_str := [],
       stop_token_ids := [128001, 128008, 128009],
       system_prefix_token_ids := Some [128000],
       add_role_after_system_message := True\<rparr>)"

definition conv_llama_3 :: "conversation res" where
  "conv_llama_3 = Conversation_init None
     ((conv_kwargs ''llama-3''
      [(''user'', ''<|start_header_id|>user''),
       (''assistant'', ''<|start_header_id|>assistant'')]
      [''<|eot_id|>''])
      \<lparr>system_template := ''<|start_header_id|>system<|end_header_id|>'' @ [CHR 0x0A, CHR 0x0A] @ PLACEHOLDER_SYSTEM
         @ ''<|eot_id|>'',
       system_message := ''You are a helpful, respectful and honest assistant.'',
       role_content_sep := ''<|end_header_id|>'' @ [CHR 0x0A, CHR 0x0A],
       role_empty_sep := ''<|end_header_id|>'' @ [CHR 0x0A, CHR 0x0A],
       stop_str := [''<|end_of_text|>'', ''<|eot_id|>''],
       stop_token_ids := [128001, 128009],
       system_prefix_token_ids := Some [128000],
       add_role_after_system_message := True\<rparr>)"

definition conv_llama_2 :: "conversation res" where
  "conv_llama_2 = Conversation_init None
     ((conv_kwargs ''llama-2''
      [(''user'', ''<s>[INST]''),
       (''assistant'', ''[/INST]''),
       (''tool'', ''[INST]'')]
      ['' '', '' </s>''])
      \<lparr>system_template := ''[INST] <<SYS>>'' @ [CHR 0x0A] @ PLACEHOLDER_SYSTEM @ [CHR 0x0A] @ ''<</SYS>>'' @ [CHR 0x0A, CHR 0x0A],
       system_message := ''You are a helpful, respectful and honest assistant.'',
       role_content_sep := '' '',
       role_empty_sep := '' '',
       stop_str := [''[INST]''],
       stop_token_ids := [2],
       system_prefix_token_ids := Some [1],
       add_role_after_system_message := False\<rparr>)"

definition conv_codellama_completion :: "conversation res" where
  "conv_codellama_completion = Conversation_init None
     ((conv_kwargs ''codellama_completion''
      [(''user'', ''''),
       (''assistant'', '''')]
      [''''])
      \<lparr>system_template := PLACEHOLDER_SYSTEM,
       system_message := '''',
       role_content_sep := '''',
       role_empty_sep := '''',
       stop_str := [''</s>''],
       stop_token_ids := [2],
       system_prefix_token_ids := Some [1]\<rparr>)"

definition conv_codellama_instruct :: "conversation res" where
  "conv_codellama_instruct = Conversation_init None
     ((conv_kwargs ''codellama_instruct''
      [(''user'', ''[INST]''),
       (''assistant'', ''[/INST]'')]
      ['' ''])
      \<lparr>system_template := PLACEHOLDER_SYSTEM,
       system_message := '''',
       role_content_sep := '' '',
       role_empty_sep := '' '',
       stop_str := [''</s>''],
       stop_token_ids := [2],
       system_prefix_token_ids := Some [1]\<rparr>)"

section \<open>conversation\_template/llava.py\<close>

definition conv_llava :: "conversation res" where
  "conv_llava = Conversation_init None
     ((conv_kwargs ''llava''
      [(''user'', ''USER''),
       (''assistant'', ''ASSISTANT'')]
      ['' ''])
      \<lparr>system_template := PLACEHOLDER_SYSTEM,
       system_message := [CHR 0x0A],
       role_content_sep := '': '',
       role_empty_sep := '':'',
       stop_str := [''</s>''],
       stop_token_ids := [2],
       system_prefix_token_ids := Some [1],
       add_role_after_system_message := False\<rparr>)"

section \<open>conversation\_template/mistral.py\<close>

definition conv_mistral_default :: "conversation res" where
  "conv_mistral_default = Conversation_init None
     ((conv_kwargs ''mistral_default''
      [(''user'', ''[INST]''),
       (''assistant'', ''[/INST]''),
       (''tool'', ''[INST]'')]
      ['' ''])
      \<lparr>system_template := ''[INST] '' @ PLACEHOLDER_SYSTEM,
       system_message := ''Always assist with care, respect, and truth. Respond with utmost utility yet securely. ''
         @ ''Avoid harmful, unethical, prejudiced, or negative content. Ensure replies promote ''
         @ ''fairness and positivity.'',
       role_content_sep := '' '',
       role_empty_sep := '''',
       stop_str := [''</s>''],
       stop_token_ids := [2],
       system_prefix_token_ids := Some [1],
       add_role_after_system_message := False\<rparr>)"

section \<open>conversation\_template/nemotron.py\<close>

definition conv_nemotron :: "conversation res" where
  "conv_nemotron = Conversation_init None
     ((conv_kwargs ''nemotron''
      [(''user'', ''<extra_id_1>User''),
       (''assistant'', ''<extra_id_1>Assistant''),
       (''tool'', ''<extra_id_1>Tool'')]
      [[CHR 0x0A]])
      \<lparr>system_template := ''<extra_id_0>System'' @ [CHR 0x0A] @ PLACEHOLDER_SYSTEM @ [CHR 0x0A, CHR 0x0A],
       system_message := '''',
       role_content_sep := [CHR 0x0A],
       role_empty_sep := [CHR 0x0A],
       stop_str := [''</s>''],
       stop_token_ids := [3],
       system_prefix_token_ids := Some [2],
       add_role_after_system_message := True\<rparr>)"

section \<open>conversation\_template/oasst.py\<close>

definition conv_oasst :: "conversation res" where
  "conv_oasst = Conversation_init None
     ((conv_kwargs ''oasst''
      [(''user'', ''<|prompter|>''),
       (''assistant'', ''<|assistant|>'')]
      [''<|endoftext|>''])
      \<lparr>system_template := PLACEHOLDER_SYSTEM,
       system_message := '''',
       role_content_sep := '': '',
       role_empty_sep := '': '',
       stop_str := [''<|endoftext|>''],
       stop_token_ids := [2]\<rparr>)"

section \<open>conversation\_template/olmo.py\<close>

definition conv_olmo :: "conversation res" where
  "conv_olmo = Conversation_init None
     ((conv_kwargs ''olmo''
      [(''user'', ''<|user|>''),
       (''assistant'', ''<|assistant|>'')]
      [[CHR 0x0A]])
      \<lparr>system_template := PLACEHOLDER_SYSTEM,
       system_message := '''',
       system_prefix_token_ids := Some [50279],
       role_content_sep := [CHR 0x0A],
       role_empty_sep := [CHR 0x0A],
       stop_token_ids := [50279]\<rparr>)"

section \<open>conversation\_template/orion.py\<close>

definition conv_orion :: "conversation res" where
  "conv_orion = Conversation_init None
     ((conv_kwargs ''orion''
      [(''user'', ''Human: ''),
       (''assistant'', ''Assistant: '')]
      [[CHR 0x0A, CHR 0x0A], ''</s>''])
      \<lparr>system_template := PLACEHOLDER_SYSTEM,
       system_message := '''',
       role_content_sep := '''',
       role_empty_sep := ''</s>'',
       stop_str := [''</s>''],
       stop_token_ids := [2],
       system_prefix_token_ids := Some [1]\<rparr>)"

section \<open>conversation\_template/phi.py\<close>

definition conv_phi_2 :: "conversation res" where
  "conv_phi_2 = Conversation_init None
     ((conv_kwargs ''phi-2''
      [(''user'', ''Instruct''),
       (''assistant'', ''Output'')]
      [[CHR 0x0A]])
      \<lparr>system_template := PLACEHOLDER_SYSTEM,
       system_message := '''',
       role_content_sep := '': '',
       role_empty_sep := '':'',
       stop_str := [''<|endoftext|>''],
       stop_token_ids := [50256]\<rparr>)"

definition conv_phi_3 :: "conversation res" where
  "conv_phi_3 = Conversation_init None
     ((conv_kwargs ''phi-3''
      [(''user'', ''<|user|>''),
       (''assistant'', ''<|assistant|>'')]
      [''<|end|>'' @ [CHR 0x0A]])
      \<lparr>system_template := ''<|system|>'' @ [CHR 0x0A] @ PLACEHOLDER_SYSTEM,
       system_message := ''You are a helpful digital assistant. Please provide safe, ethical and accurate ''
         @ ''information to the user.'',
       role_content_sep := [CHR 0x0A],
       role_empty_sep := [CHR 0x0A],
       system_prefix_token_ids := Some [1],
       stop_str := [''<|endoftext|>''],
       stop_token_ids := [2, 32000, 32001, 32007]\<rparr>)"

definition conv_phi_3_vision :: "conversation res" where
  "conv_phi_3_vision = Conversation_init None
     ((conv_kwargs ''phi-3-vision''
      [(''user'', ''<|user|>''),
       (''assistant'', ''<|assistant|>'')]
      [''<|end|>'' @ [CHR 0x0A]])
      \<lparr>system_template := PLACEHOLDER_SYSTEM,
       system_message := '''',
       role_content_sep := [CHR 0x0A],
       role_empty_sep := [CHR 0x0A],
       system_prefix_token_ids := Some [1],
       stop_str := [''<|endoftext|>''],
       stop_token_ids := [2, 32000, 32001, 32007]\<rparr>)"

section \<open>conversation\_template/qwen2.py\<close>

definition conv_qwen2 :: "conversation res" where
  "conv_qwen2 = Conversation_init None
     ((conv_kwargs ''qwen2''
      [(''user'', ''<|im_start|>user''),
       (''assistant'', ''<|im_start|>assistant'')]
      [''<|im_end|>'' @ [CHR 0x0A]])
      \<lparr>system_template := ''<|im_start|>system'' @ [CHR 0x0A] @ PLACEHOLDER_SYSTEM @ ''<|im_end|>'' @ [CHR 0x0A],
       system_message := ''You are a helpful assistant.'',
       role_content_sep := [CHR 0x0A],
       role_empty_sep := [CHR 0x0A],
       stop_str := [''<|endoftext|>'', ''<|im_end|>''],
       stop_token_ids := [151643, 151645]\<rparr>)"

section \<open>conversation\_template/redpajama.py\<close>

definition conv_redpajama_chat :: "conversation res" where
  "conv_redpajama_chat = Conversation_init None
     ((conv_kwargs ''redpajama_chat''
      [(''user'', ''<human>''),
       (''assistant'', ''<bot>'')]
      [[CHR 0x0A]])
      \<lparr>system_template := PLACEHOLDER_SYSTEM,
       system_message := '''',
       role_content_sep := '': '',
       role_empty_sep := '':'',
       stop_str := [''<human>''],
       stop_token_ids := [0]\<rparr>)"

section \<open>conversation\_template/rwkv.py\<close>

definition conv_rwkv_world :: "conversation res" where
  "conv_rwkv_world = Conversation_init None
     ((conv_kwargs ''rwkv_world''
      [(''user'', ''User''),
       (''assistant'', ''Assistant'')]
      [[CHR 0x0A, CHR 0x0A]])
      \<lparr>system_template := ''User: hi'' @ [CHR 0x0A, CHR 0x0A] @ ''Assistant: '' @ PLACEHOLDER_SYSTEM,
       system_message := ''Hi. I am your assistant and I will provide expert full response in full details. Please ''
         @ ''feel free to ask any question and I will always answer it.'',
       role_content_sep := '': '',
       role_empty_sep := '': '',
       stop_str := [[CHR 0x0A, CHR 0x0A]],
       stop_token_ids := [0]\<rparr>)"

section \<open>conversation\_template/stablelm.py\<close>

definition conv_stablelm :: "conversation res" where
  "conv_stablelm = Conversation_init None
     ((conv_kwargs ''stablelm''
      [(''user'', ''<|USER|>''),
       (''assistant'', ''<|ASSISTANT|>'')]
      [''''])
      \<lparr>system_template := PLACEHOLDER_SYSTEM,
       system_message := ''<|SYSTEM|># StableLM Tuned (Alpha version)'' @ [CHR 0x0A]
         @ ''- StableLM is a helpful and harmless open-source AI language model developed by StabilityAI.''
         @ [CHR 0x0A]
         @ ''- StableLM is excited to be able to help the user, but will refuse to do anything that ''
         @ ''could be considered harmful to the user.'' @ [CHR 0x0A]
         @ ''- StableLM is more than just an information source, StableLM is also able to write ''
         @ ''poetry, short stories, and make jokes.'' @ [CHR 0x0A]
         @ ''- StableLM will refuse to participate in anything that could harm a human.'',
       role_content_sep := '': '',
       role_empty_sep := '': '',
       stop_str := [''''],
       stop_token_ids := [50278, 50279, 50277, 1, 0]\<rparr>)"

definition conv_stablelm_3b :: "conversation res" where
  "conv_stablelm_3b = Conversation_init None
     ((conv_kwargs ''stablelm-3b''
      [(''user'', ''<|user|>''),
       (''assistant'', ''<|assistant|>'')]
      [''<|endoftext|>'', ''<|endoftext|>''])
      \<lparr>system_template := PLACEHOLDER_SYSTEM,
       system_message := '''',
       role_content_sep := [CHR 0x0A],
       role_empty_sep := [CHR 0x0A],
       stop_str := [''<|endoftext|>''],
       stop_token_ids := [0]\<rparr>)"

definition conv_stablelm_2 :: "conversation res" where
  "conv_stablelm_2 = Conversation_init None
     ((conv_kwargs ''stablelm-2''
      [(''user'', ''<|user|>''),
       (''assistant'', ''<|assistant|>'')]
      [''<|endoftext|>'', ''<|endoftext|>''])
      \<lparr>system_template := PLACEHOLDER_SYSTEM,
       system_message := '''',
       role_content_sep := [CHR 0x0A],
       role_empty_sep := [CHR 0x0A],
       stop_str := [''<|endoftext|>''],
       stop_token_ids := [100257]\<rparr>)"

section \<open>conversation\_template/tinyllama.py\<close>

definition conv_tinyllama_v1_0 :: "conversation res" where
  "conv_tinyllama_v1_0 = Conversation_init None
     ((conv_kwargs ''tinyllama_v1_0''
      [(''user'', ''<|user|>''),
       (''assistant'', ''<|assistant|>'')]
      [''</s>''])
      \<lparr>system_template := ''<|system|>'' @ [CHR 0x0A] @ PLACEHOLDER_SYSTEM @ ''</s>'',
       system_message := ''You are a helpful chatbot.'',
       role_content_sep := [CHR 0x0A],
       role_empty_sep := [CHR 0x0A],
       stop_str := [''</s>''],
       stop_token_ids := [2]\<rparr>)"

section \<open>conversation\_template/wizardlm.py\<close>

definition conv_wizardlm_7b :: "conversation res" where
  "conv_wizardlm_7b = Conversation_init None
     ((conv_kwargs ''wizardlm_7b''
      [(''user'', ''User''),
       (''assistant'', ''Response'')]
      [''###''])
      \<lparr>system_template := PLACEHOLDER_SYSTEM,
       system_message := '''',
       role_content_sep := '': '',
       role_empty_sep := '':'',
       stop_str := [''###''],
       stop_token_ids := [2],
       system_prefix_token_ids := Some [1]\<rparr>)"

definition conv_wizard_coder_or_math :: "conversation res" where
  "conv_wizard_coder_or_math = Conversation_init None
     ((conv_kwargs ''wizard_coder_or_math''
      [(''user'', ''Instruction''),
       (''assistant'', ''Response'')]
      [[CHR 0x0A, CHR 0x0A] @ ''### '', [CHR 0x0A, CHR 0x0A] @ ''### ''])
      \<lparr>system_template := PLACEHOLDER_SYSTEM,
       system_message := ''Below is an instruction that describes a task. Write a response that appropriately ''
         @ ''completes the request.'',
       role_content_sep := '':'' @ [CHR 0x0A],
       role_empty_sep := '':'' @ [CHR 0x0A],
       stop_str := [''</s>''],
       stop_token_ids := [2],
       system_prefix_token_ids := Some [1]\<rparr>)"

definition preset_templates :: "conversation res list" where
  "preset_templates =
     [conv_chatml, conv_chatml_nosystem, conv_LM,
      conv_aya_23,
      conv_deepseek, conv_deepseek_v2, conv_deepseek_v3, conv_deepseek_r1_qwen, conv_deepseek_r1_llama,
      conv_dolly,
      conv_gemma_instruction, conv_gemma3_instruction,
      conv_glm,
      conv_gorilla, conv_gorilla_openfunctions_v2,
      conv_gpt2, conv_gpt_bigcode,
      conv_open_hermes_mistral, conv_neural_hermes_mistral, conv_hermes2_pro_llama3, conv_hermes3_llama_3_1,
      conv_llama_3_1, conv_llama_3, conv_llama_2, conv_codellama_completion, conv_codellama_instruct,
      conv_llava,
      conv_mistral_default,
      conv_nemotron,
      conv_oasst,
      conv_olmo,
      conv_orion,
      conv_phi_2, conv_phi_3, conv_phi_3_vision,
      conv_qwen2,
      conv_redpajama_chat,
      conv_rwkv_world,
      conv_stablelm, conv_stablelm_3b, conv_stablelm_2,
      conv_tinyllama_v1_0,
      conv_wizardlm_7b, conv_wizard_coder_or_math]"

lemmas preset_defs =
  conv_chatml_def conv_chatml_nosystem_def conv_LM_def conv_aya_23_def conv_deepseek_def conv_deepseek_v2_def conv_deepseek_v3_def conv_deepseek_r1_qwen_def conv_deepseek_r1_llama_def conv_dolly_def conv_gemma_instruction_def conv_gemma3_instruction_def conv_glm_def conv_gorilla_def conv_gorilla_openfunctions_v2_def conv_gpt2_def conv_gpt_bigcode_def conv_open_hermes_mistral_def conv_neural_hermes_mistral_def conv_hermes2_pro_llama3_def conv_hermes3_llama_3_1_def conv_llama_3_1_def conv_llama_3_def conv_llama_2_def conv_codellama_completion_def conv_codellama_instruct_def conv_llava_def conv_mistral_default_def conv_nemotron_def conv_oasst_def conv_olmo_def conv_orion_def conv_phi_2_def conv_phi_3_def conv_phi_3_vision_def conv_qwen2_def conv_redpajama_chat_def conv_rwkv_world_def conv_stablelm_def conv_stablelm_3b_def conv_stablelm_2_def conv_tinyllama_v1_0_def conv_wizardlm_7b_def conv_wizard_coder_or_math_def

text \<open>The registry after the import of the package.\<close>

definition preset_registry :: "(conversation \<Rightarrow> string) \<Rightarrow> conv_registry res" where
  "preset_registry dump =
     res_fold (\<lambda>reg template. res_bind template (\<lambda>c. register_conv_template dump c False reg)) [] preset_templates"

section \<open>interface/gen\_config.py\<close>

definition CONV_TEMPLATES :: "string list" where
  "CONV_TEMPLATES =
     [''llama-3'', ''llama-3_1'', ''chatml'', ''chatml_nosystem'', ''qwen2'', ''open_hermes_mistral'',
      ''neural_hermes_mistral'', ''llama_default'', ''llama-2'', ''mistral_default'', ''gpt2'',
      ''codellama_completion'', ''codellama_instruct'', ''vicuna_v1.1'', ''conv_one_shot'',
      ''redpajama_chat'', ''rwkv_world'', ''rwkv'', ''gorilla'', ''gorilla-openfunctions-v2'',
      ''guanaco'', ''dolly'', ''oasst'', ''stablelm'', ''stablecode_completion'',
      ''stablecode_instruct'', ''minigpt'', ''moss'', ''LM'', ''stablelm-3b'', ''gpt_bigcode'',
      ''wizardlm_7b'', ''wizard_coder_or_math'', ''glm'', ''phi-2'', ''phi-3'', ''phi-3-vision'',
      ''stablelm-2'', ''gemma_instruction'', ''orion'', ''llava'', ''hermes2_pro_llama3'',
      ''hermes3_llama-3_1'', ''tinyllama_v1_0'', ''aya-23'', ''deepseek'', ''deepseek_v2'',
      ''deepseek_v3'', ''deepseek_r1_qwen'', ''deepseek_r1_llama'', ''olmo'', ''nemotron'']"

section \<open>Specifications\<close>

text \<open>What a template needs so that every text gets into the prompt.\<close>

definition template_ok :: "conversation \<Rightarrow> bool" where
  "template_ok c \<longleftrightarrow> seps_ok c \<and> messages c = []
     \<and> list_all (\<lambda>role. map_of (roles c) role \<noteq> None
         \<and> (case map_of (role_templates c) role of
              None \<Rightarrow> False | Some t \<Rightarrow> sublist (projr (MessagePlaceholders role)) t)) [''user'', ''assistant'']"

definition preset_names :: "string list" where
  "preset_names = [''chatml'', ''chatml_nosystem'', ''LM'', ''aya-23'', ''deepseek'', ''deepseek_v2'',
      ''deepseek_v3'', ''deepseek_r1_qwen'', ''deepseek_r1_llama'', ''dolly'', ''gemma_instruction'',
      ''gemma3_instruction'', ''glm'', ''gorilla'', ''gorilla-openfunctions-v2'', ''gpt2'',
      ''gpt_bigcode'', ''open_hermes_mistral'', ''neural_hermes_mistral'', ''hermes2_pro_llama3'',
      ''hermes3_llama-3_1'', ''llama-3_1'', ''llama-3'', ''llama-2'', ''codellama_completion'',
      ''codellama_instruct'', ''llava'', ''mistral_default'', ''nemotron'', ''oasst'', ''olmo'',
      ''orion'', ''phi-2'', ''phi-3'', ''phi-3-vision'', ''qwen2'', ''redpajama_chat'', ''rwkv_world'',
      ''stablelm'', ''stablelm-3b'', ''stablelm-2'', ''tinyllama_v1_0'', ''wizardlm_7b'',
      ''wizard_coder_or_math'']"

text \<open>A turn of a conversation of user and assistant texts.\<close>

definition plain_turn :: "conv_message \<Rightarrow> bool" where
  "plain_turn m \<longleftrightarrow> fst m \<in> {''user'', ''assistant''} \<and> \<not> is_content_list (snd m)"

definition preset_ok :: "conversation res \<Rightarrow> bool" where
  "preset_ok t \<longleftrightarrow> \<not> isl t \<and> template_ok (projr t)"

text \<open>The role templates a template ends up with keep the placeholders.\<close>

definition keeps_placeholders :: "(string \<times> string) list option \<Rightarrow> bool" where
  "keeps_placeholders ts = list_all (\<lambda>role. case map_of (case ts of None \<Rightarrow> default_role_templates
       | Some t \<Rightarrow> dict_update default_role_templates t) role of
     None \<Rightarrow> False | Some t \<Rightarrow> sublist (projr (MessagePlaceholders role)) t) [''user'', ''assistant'']"

section \<open>Lemmas\<close>

lemma placeholders [simp]:
  "MessagePlaceholders ''user'' = Inr PLACEHOLDER_USER" "MessagePlaceholders ''assistant'' = Inr PLACEHOLDER_ASSISTANT"
  by code_simp+

lemma conversation_init_ok:
  assumes "seps_ok k" and "messages k = []" and "map_of (roles k) ''user'' \<noteq> None"
    and "map_of (roles k) ''assistant'' \<noteq> None" and "keeps_placeholders ts"
  shows "preset_ok (Conversation_init ts k)"
proof -
  have "\<not> (length (seps k) = 0 \<or> length (seps k) > 2)" using assms(1) by (auto simp: seps_ok_def)
  then have init: "Conversation_init ts k = Inr (k\<lparr>role_templates := (case ts of None \<Rightarrow> default_role_templates
       | Some t \<Rightarrow> dict_update default_role_templates t)\<rparr>)"
    by (simp add: Conversation_init_def check_message_seps_def)
  show ?thesis
    using assms unfolding init by (simp add: preset_ok_def template_ok_def keeps_placeholders_def seps_ok_def)
qed

lemma keeps_default: "keeps_placeholders None"
  by code_simp

lemma keeps_gorilla: "keeps_placeholders (Some [(''user'', ''<<question>> '' @ PLACEHOLDER_USER @ '' <<function>> '' @ PLACEHOLDER_FUNCTION)])"
  by code_simp

lemma keeps_gorilla2: "keeps_placeholders (Some [(''user'', ''<<function>>'' @ PLACEHOLDER_FUNCTION @ [CHR 0x0A] @ ''<<question>>'' @ PLACEHOLDER_USER)])"
  by code_simp

lemma presets_ok: "list_all preset_ok preset_templates"
  unfolding preset_templates_def list.pred_inject preset_defs
  by (intro conjI TrueI conversation_init_ok keeps_default keeps_gorilla keeps_gorilla2)
    (simp_all add: conv_kwargs_def seps_ok_def)

lemma presets_names: "map (\<lambda>t. conv_name (projr t)) preset_templates = map Some preset_names"
  by code_simp

lemma preset_names_distinct: "distinct preset_names"
  by code_simp

lemma replace_occ_new: "old \<noteq> [] \<Longrightarrow> sublist old s \<Longrightarrow> sublist new (replace_occ old new s)"
proof (induction s)
  case (Cons c cs)
  show ?case
  proof (cases "prefix old (c # cs)")
    case True
    then show ?thesis using Cons.prems(1) by (simp add: sublist_append)
  next
    case False
    then have "sublist old cs" using Cons.prems(2) by (auto simp: sublist_Cons_right)
    with Cons False show ?thesis by (simp add: sublist_Cons_right)
  qed
qed simp

lemma py_replace_new: "old \<noteq> [] \<Longrightarrow> sublist old s \<Longrightarrow> sublist new (py_replace s old new)"
  by (simp add: py_replace_def replace_occ_new)

lemma register_fresh:
  "conv_name c = Some n \<Longrightarrow> n \<notin> fst ` set reg \<Longrightarrow> register_conv_template dump c ov reg = Inr (reg @ [(n, c)])"
  by (simp add: register_conv_template_def map_of_eq_None_iff dict_set_fresh split: option.splits)

lemma register_all:
  assumes "list_all (\<lambda>t. \<not> isl t) ts" and "map (\<lambda>t. conv_name (projr t)) ts = map Some ns"
    and "distinct ns" and "set ns \<inter> fst ` set reg = {}"
  shows "res_fold (\<lambda>reg t. res_bind t (\<lambda>c. register_conv_template dump c False reg)) reg ts
    = Inr (reg @ zip ns (map projr ts))"
  using assms
proof (induction ts arbitrary: ns reg)
  case (Cons t ts)
  then obtain n ns' c where eqs: "ns = n # ns'" "t = Inr c" "conv_name c = Some n"
    by (cases ns; cases t) auto
  with Cons.prems have "register_conv_template dump c False reg = Inr (reg @ [(n, c)])"
    by (intro register_fresh) auto
  with Cons.IH [of ns' "reg @ [(n, c)]"] Cons.prems eqs show ?case by auto
qed auto

lemma preset_registry_eq: "preset_registry dump = Inr (zip preset_names (map projr preset_templates))"
  unfolding preset_registry_def
  using register_all [OF _ presets_names preset_names_distinct, of "[]"] presets_ok by (simp add: list_all_iff preset_ok_def)

lemma preset_lookup:
  assumes "get_conv_template n (zip preset_names (map projr preset_templates)) = Some c"
  shows "template_ok c \<and> conv_name c = Some n"
proof -
  have len: "length preset_templates = length preset_names" using arg_cong [OF presets_names, of length] by simp
  from assms obtain i where i: "i < length preset_names" "n = preset_names ! i" "c = projr (preset_templates ! i)"
    using len by (auto simp: get_conv_template_def in_set_zip dest!: map_of_SomeD)
  then have "template_ok c" using presets_ok len by (simp add: list_all_length preset_ok_def)
  moreover have "conv_name c = Some n"
    using i len arg_cong [OF presets_names, of "\<lambda>xs. xs ! i"] by simp
  ultimately show ?thesis by blast
qed

lemma template_turn_ok:
  assumes "template_ok c" and "plain_turn m"
  shows "text_turn_ok (c\<lparr>messages := ms\<rparr>) m"
  using assms
  by (auto simp: template_ok_def plain_turn_def text_turn_ok_def split: option.splits
      dest: map_of_SomeD intro: rev_image_eqI)

lemma template_turn_text:
  assumes "template_ok c" and "plain_turn m" and "snd m = Some (ContentStr s)"
  shows "sublist s (turn_text (c\<lparr>messages := ms\<rparr>) i m)"
proof -
  from assms(1,2) obtain t where t: "map_of (role_templates c) (fst m) = Some t"
      "sublist (projr (MessagePlaceholders (fst m))) t"
    by (auto simp: template_ok_def plain_turn_def split: option.splits)
  have "projr (MessagePlaceholders (fst m)) \<noteq> []"
    using assms(2) by (auto simp: plain_turn_def PLACEHOLDER_USER_def PLACEHOLDER_ASSISTANT_def)
  then have "sublist s (py_replace t (projr (MessagePlaceholders (fst m))) s)" by (rule py_replace_new [OF _ t(2)])
  moreover have t': "the (map_of (role_templates (c\<lparr>messages := ms\<rparr>)) (fst m)) = t" using t(1) by simp
  have "\<exists>p q. turn_text (c\<lparr>messages := ms\<rparr>) i m = p @ py_replace t (projr (MessagePlaceholders (fst m))) s @ q"
    unfolding turn_text_def Let_def assms(3) option.case chat_content.case t' by blast
  ultimately show ?thesis by (metis sublist_appendI sublist_order.order.trans)
qed

lemma sublist_concat_nth: "x \<in> set xs \<Longrightarrow> sublist s x \<Longrightarrow> sublist s (concat xs)"
  by (induction xs) (auto simp: sublist_append)

section \<open>Properties\<close>

text \<open>
  Importing the package registers all preset templates: no name is used twice, every template
  passes the validation and is found under its own name, with roles for user and assistant and
  role templates that have the placeholder of their message.
\<close>

theorem preset_registry_ok:
  "\<exists>reg. preset_registry dump = Inr reg \<and> map fst reg = preset_names
     \<and> (\<forall>n \<in> set preset_names. \<exists>c. get_conv_template n reg = Some c \<and> conv_name c = Some n \<and> template_ok c)"
proof -
  let ?reg = "zip preset_names (map projr preset_templates)"
  have len: "length preset_templates = length preset_names" using arg_cong [OF presets_names, of length] by simp
  have "\<exists>c. get_conv_template n ?reg = Some c \<and> conv_name c = Some n \<and> template_ok c" if "n \<in> set preset_names" for n
  proof -
    have "n \<in> dom (map_of ?reg)" using that len by (simp add: dom_map_of_zip)
    then obtain c where "get_conv_template n ?reg = Some c" by (auto simp: get_conv_template_def)
    with preset_lookup show ?thesis by blast
  qed
  with preset_registry_eq len show ?thesis by simp
qed

theorem preset_registry_ok_witness:
  "\<exists>reg c. preset_registry (\<lambda>_. []) = Inr reg \<and> get_conv_template ''llama-3'' reg = Some c \<and> template_ok c"
proof -
  have "''llama-3'' \<in> set preset_names" by code_simp
  with preset_registry_ok [of "\<lambda>_. []"] show ?thesis by blast
qed

text \<open>
  C16: every preset renders every conversation of user and assistant texts: \<open>as_prompt\<close> returns one
  text, the system text and the turns in order, each message as it was given in its turn, with the
  function string put in place. Of the text that is returned: a message that the placeholder
  \<open>{function_string}\<close> cannot touch (\<open>clear_of\<close>; a text without braces that is not a piece of the
  placeholder is one) is contained in it as it was given, and when the placeholder occurs nowhere,
  every message is. A message that contains the placeholder is changed, as the code replaces or
  removes it wherever it stands.
\<close>

theorem preset_prompts:
  fixes lb lh :: "string \<Rightarrow> 'img res"
  assumes "preset_registry dump = Inr reg" and "get_conv_template n reg = Some c"
    and "ms \<noteq> []" and "\<forall>m \<in> set ms. plain_turn m"
  shows "\<exists>t. as_prompt lb lh (c\<lparr>messages := ms\<rparr>) cfg = Inr [Text t]
    \<and> t = fill_function_string c (conversation_text (c\<lparr>messages := ms\<rparr>))
    \<and> (\<forall>m s. m \<in> set ms \<and> snd m = Some (ContentStr s)
         \<longrightarrow> sublist s (conversation_text (c\<lparr>messages := ms\<rparr>))
           \<and> (clear_of PLACEHOLDER_FUNCTION s
                \<or> \<not> sublist PLACEHOLDER_FUNCTION (conversation_text (c\<lparr>messages := ms\<rparr>)) \<longrightarrow> sublist s t))"
proof -
  let ?c = "c\<lparr>messages := ms\<rparr>"
  from assms(1,2) have ok: "template_ok c" using preset_lookup [of n c] by (simp add: preset_registry_eq)
  have "seps_ok ?c" using ok by (simp add: template_ok_def seps_ok_def)
  moreover have "list_all (text_turn_ok ?c) (messages ?c)"
    using template_turn_ok [OF ok] assms(4) by (simp add: list_all_iff)
  ultimately have "as_prompt lb lh ?c cfg = Inr [Text (fill_function_string ?c (conversation_text ?c))]"
    using assms(3) by (intro as_prompt_plain) auto
  moreover have "fill_function_string ?c t = fill_function_string c t" for t by (simp add: fill_function_string_def)
  moreover have "sublist s (conversation_text ?c)" if m: "m \<in> set ms" "snd m = Some (ContentStr s)" for m s
  proof -
    from m(1) obtain i where i: "i < length ms" "ms ! i = m" by (auto simp: in_set_conv_nth)
    then have "turn_text ?c i m \<in> set (map (\<lambda>i. turn_text ?c i (messages ?c ! i)) [0..<length (messages ?c)])"
      by (auto intro!: image_eqI [of _ _ i])
    from sublist_concat_nth [OF this template_turn_text [OF ok _ m(2)]] assms(4) m(1) show ?thesis
      by (simp add: conversation_text_def sublist_append)
  qed
  ultimately show ?thesis using fill_function_string_keeps fill_function_string_spec by auto
qed

theorem preset_prompts_witness:
  "\<exists>reg c t. preset_registry (\<lambda>_. []) = Inr reg \<and> get_conv_template ''gorilla'' reg = Some c
     \<and> as_prompt (\<lambda>_. Inr ()) (\<lambda>_. Inr ()) (c\<lparr>messages := [(''user'', Some (ContentStr ''hi {x}'')), (''assistant'', None)]\<rparr>) None
         = Inr [Text t] \<and> sublist ''hi {x}'' t"
proof -
  let ?reg = "zip preset_names (map projr preset_templates)"
  let ?ms = "[(''user'', Some (ContentStr ''hi {x}'')), (''assistant'', None)]"
  have "get_conv_template ''gorilla'' ?reg \<noteq> None"
    using dom_map_of_zip [of preset_names "map projr preset_templates"] arg_cong [OF presets_names, of length]
    by (auto simp: get_conv_template_def preset_names_def)
  then obtain c where c: "get_conv_template ''gorilla'' ?reg = Some c" by blast
  have "\<forall>m \<in> set ?ms. plain_turn m" by (simp add: plain_turn_def is_content_list_def)
  moreover have "clear_of PLACEHOLDER_FUNCTION ''hi {x}''" by code_simp
  ultimately show ?thesis
    using preset_prompts [OF preset_registry_eq [of "\<lambda>_. []"] c, where ms = ?ms and lb = "\<lambda>_. Inr ()" and lh = "\<lambda>_. Inr ()" and cfg = None]
      c preset_registry_eq [of "\<lambda>_. []"] by auto
qed

text \<open>
  Registering and looking up. A registered template is found under its name, and every other
  name gives what it gave before; a template without name, and without \<open>override\<close> one whose name
  is taken, is refused.
\<close>

theorem register_get:
  "case register_conv_template dump c ov reg of
     Inl e \<Rightarrow> (conv_name c = None \<or> (\<exists>n old. conv_name c = Some n \<and> get_conv_template n reg = Some old \<and> \<not> ov))
       \<and> is_ValueError e
   | Inr reg' \<Rightarrow> (\<exists>n. conv_name c = Some n \<and> (ov \<or> get_conv_template n reg = None)
       \<and> (\<forall>n'. get_conv_template n' reg' = (if n' = n then Some c else get_conv_template n' reg)))"
  by (auto simp: register_conv_template_def get_conv_template_def is_ValueError_def dict_set_lookup split: option.splits)

text \<open>
  The names offered on the command line and the registered templates differ: nine of the names
  have no template, and one template has no name there.
\<close>

theorem conv_template_choices:
  "\<exists>reg. preset_registry dump = Inr reg
     \<and> filter (\<lambda>n. get_conv_template n reg = None) CONV_TEMPLATES =
         [''llama_default'', ''vicuna_v1.1'', ''conv_one_shot'', ''rwkv'', ''guanaco'', ''stablecode_completion'',
          ''stablecode_instruct'', ''minigpt'', ''moss'']
     \<and> filter (\<lambda>n. n \<notin> set CONV_TEMPLATES) (map fst reg) = [''gemma3_instruction'']"
proof -
  let ?reg = "zip preset_names (map projr preset_templates)"
  have len: "length preset_templates = length preset_names" using arg_cong [OF presets_names, of length] by simp
  have "get_conv_template n ?reg = None \<longleftrightarrow> n \<notin> set preset_names" for n
    using len dom_map_of_zip [of preset_names "map projr preset_templates"]
    by (auto simp: get_conv_template_def)
  moreover have "filter (\<lambda>n. n \<notin> set preset_names) CONV_TEMPLATES =
      [''llama_default'', ''vicuna_v1.1'', ''conv_one_shot'', ''rwkv'', ''guanaco'', ''stablecode_completion'',
       ''stablecode_instruct'', ''minigpt'', ''moss'']" by code_simp
  moreover have "filter (\<lambda>n. n \<notin> set CONV_TEMPLATES) preset_names = [''gemma3_instruction'']" by code_simp
  ultimately show ?thesis using preset_registry_eq len by simp
qed

end
