(* ===== verification/Weight_Loader.thy ===== *)
theory Weight_Loader
  imports Py_Float Py_Parse "HOL-Library.Multiset"
begin

text \<open>
  The loader of HuggingFace weights: loader/mapping.py, loader/utils.py, loader/stats.py,
  loader/huggingface\_loader.py. The files are read through a cache that keeps what the current
  parameter needs. The locale \<open>file_cache\<close> says what the loader relies on; its interpretation shows
  that the cache holds the contents of the files and counts its bytes exactly. The theorems say that
  the cache cannot be seen in what the loader yields, which parameters it yields and how often it
  reads a file. The timers of the statistics are left out.
\<close>

section \<open>Tensors, files and mappings\<close>

type_synonym path = string

record 'd tensor =
  t_shape :: "nat list"
  t_dtype :: string
  t_data :: 'd

definition t_size :: "'d tensor \<Rightarrow> nat" where
  "t_size t = prod_list (t_shape t)"

text \<open>
  What numpy, torch, safetensors and the file system provide: the entries of a torch file, the
  tensors of a safetensors file in the order of its keys, the conversion to an array of the host,
  the cast to float32, the bits of a tensor seen as another type, the copy to the target device, the
  size of an element and the index files.
\<close>

record 'd weight_env =
  we_torch :: "path \<Rightarrow> (string \<times> 'd tensor option) list"
  we_safetensor :: "path \<Rightarrow> (string \<times> 'd tensor) list"
  we_numpy :: "'d tensor \<Rightarrow> 'd tensor"
  we_float :: "'d tensor \<Rightarrow> 'd tensor"
  we_view :: "string \<Rightarrow> string \<Rightarrow> 'd tensor \<Rightarrow> 'd tensor"
  we_ndarray :: "'d tensor \<Rightarrow> 'd tensor"
  we_itemsize :: "string \<Rightarrow> nat"
  we_json :: "path \<Rightarrow> json res"
  we_is_file :: "path \<Rightarrow> bool"

definition nbytes :: "'d weight_env \<Rightarrow> 'd tensor \<Rightarrow> nat" where
  "nbytes env t = t_size t * we_itemsize env (t_dtype t)"

text \<open>Paths are in the normal form of pathlib.\<close>

definition path_name :: "path \<Rightarrow> string" where
  "path_name p = (case rfind_split ''/'' p of None \<Rightarrow> p | Some (_, n) \<Rightarrow> n)"

definition path_suffix :: "path \<Rightarrow> string" where
  "path_suffix p =
     (case rfind_split ''.'' (path_name p) of
        None \<Rightarrow> ''''
      | Some (b, a) \<Rightarrow> if b = [] \<or> a = [] then '''' else CHR ''.'' # a)"

definition path_parent :: "path \<Rightarrow> path" where
  "path_parent p =
     (case rfind_split ''/'' p of None \<Rightarrow> ''.'' | Some (d, _) \<Rightarrow> if d = [] then ''/'' else d)"

definition path_join :: "path \<Rightarrow> string \<Rightarrow> path" where
  "path_join d s =
     (if take 1 s = ''/'' then s
      else if d = ''.'' then s else if d = ''/'' then CHR ''/'' # s else d @ CHR ''/'' # s)"

record 'd extern_mapping =
  em_param_map :: "(string \<times> string list) list"
  em_map_func :: "(string \<times> ('d tensor list \<Rightarrow> 'd tensor res)) list"
  em_unused :: "string list"

definition ExternMapping :: "'d extern_mapping" where
  "ExternMapping = \<lparr>em_param_map = [], em_map_func = [], em_unused = []\<rparr>"

definition add_mapping ::
  "string \<Rightarrow> string list \<Rightarrow> ('d tensor list \<Rightarrow> 'd tensor res) \<Rightarrow> 'd extern_mapping \<Rightarrow> 'd extern_mapping" where
  "add_mapping map_from map_to func m =
     m\<lparr>em_param_map := dict_set (em_param_map m) map_from map_to,
       em_map_func := dict_set (em_map_func m) map_from func\<rparr>"

definition add_unused :: "string \<Rightarrow> 'd extern_mapping \<Rightarrow> 'd extern_mapping" where
  "add_unused name m = m\<lparr>em_unused := List.insert name (em_unused m)\<rparr>"

record 'd quantize_mapping =
  qm_param_map :: "(string \<times> string list) list"
  qm_map_func :: "(string \<times> ('d tensor \<Rightarrow> 'd tensor list res)) list"

section \<open>Reading shards and checking names\<close>

definition load_torch_shard :: "'d weight_env \<Rightarrow> path \<Rightarrow> (string \<times> 'd tensor) list" where
  "load_torch_shard env p =
     List.map_filter
       (\<lambda>(name, param). case param of
          None \<Rightarrow> None
        | Some t \<Rightarrow> Some (name, we_numpy env (if t_dtype t = ''torch.bfloat16'' then we_float env t else t)))
       (we_torch env p)"

definition load_safetensor_shard :: "'d weight_env \<Rightarrow> path \<Rightarrow> (string \<times> 'd tensor) list" where
  "load_safetensor_shard env p =
     map (\<lambda>(name, t).
        (name,
         if t_dtype t = ''torch.bfloat16'' then we_view env ''torch.float16'' ''bfloat16'' t
         else if t_dtype t = ''torch.float8_e4m3fn'' then we_view env ''torch.uint8'' ''float8_e4m3fn'' t
         else we_numpy env t))
       (we_safetensor env p)"

definition load_func :: "'d weight_env \<Rightarrow> path \<Rightarrow> (string \<times> 'd tensor) list" where
  "load_func env p =
     (if path_suffix p = ''.safetensors'' then load_safetensor_shard env p else load_torch_shard env p)"

text \<open>\<open>sorted\<close> on strings: the order of the code points.\<close>

fun str_le :: "string \<Rightarrow> string \<Rightarrow> bool" where
  "str_le [] _ = True"
| "str_le (_ # _) [] = False"
| "str_le (a # as) (b # bs) =
     ((of_char a :: nat) < of_char b \<or> (of_char a :: nat) = of_char b \<and> str_le as bs)"

fun str_insort :: "string \<Rightarrow> string list \<Rightarrow> string list" where
  "str_insort x [] = [x]"
| "str_insort x (y # ys) = (if str_le x y then x # y # ys else y # str_insort x ys)"

definition str_sorted :: "string list \<Rightarrow> string list" where
  "str_sorted xs = foldr str_insort xs []"

text \<open>
  \<open>check_parameter_usage\<close>: the names it warns about, or the error that lists the names no file has.
\<close>

definition used_extern_names :: "'d extern_mapping \<Rightarrow> string list" where
  "used_extern_names m = remdups (concat (map snd (em_param_map m)))"

definition check_parameter_usage :: "'d extern_mapping \<Rightarrow> string list \<Rightarrow> string list res" where
  "check_parameter_usage m extern_weights =
     (let used = used_extern_names m;
          unused = filter (\<lambda>n. n \<notin> set used \<and> n \<notin> set (em_unused m)) (remdups extern_weights);
          nonexistent = filter (\<lambda>n. n \<notin> set extern_weights) used
      in if nonexistent \<noteq> []
         then Inl (ValueError (''The following extern parameters do not exist in the weight files:'' @ ''\<newline>  ''
                @ py_join ''\<newline>  '' (str_sorted nonexistent)))
         else Inr (str_sorted unused))"

section \<open>Statistics\<close>

record stats =
  current_memory_gb :: py_float
  total_memory_gb :: py_float
  max_memory_gb :: py_float
  total_param_num :: nat

definition Stats :: stats where
  "Stats = \<lparr>current_memory_gb = Finite 0, total_memory_gb = Finite 0, max_memory_gb = Finite 0,
            total_param_num = 0\<rparr>"

definition mem_gb :: "nat \<Rightarrow> py_float res" where
  "mem_gb n =
     res_bind (float_of_int (int n)) (\<lambda>a. res_bind (float_of_int (1024 ^ 3)) (\<lambda>b. float_div a b))"

definition float_max :: "py_float \<Rightarrow> py_float \<Rightarrow> py_float" where
  "float_max a b = (if float_lt a b then b else a)"

definition mem_add :: "nat \<Rightarrow> stats \<Rightarrow> stats res" where
  "mem_add n s =
     res_bind (mem_gb n) (\<lambda>gb.
       let cur = float_add (current_memory_gb s) gb
       in Inr (s\<lparr>current_memory_gb := cur, total_memory_gb := float_add (total_memory_gb s) gb,
                 max_memory_gb := float_max (max_memory_gb s) cur\<rparr>))"

definition mem_rm :: "nat \<Rightarrow> stats \<Rightarrow> stats res" where
  "mem_rm n s =
     res_bind (mem_gb n) (\<lambda>gb.
       Inr (s\<lparr>current_memory_gb := float_add (current_memory_gb s) (float_neg gb)\<rparr>))"

section \<open>The loader\<close>

datatype load_event = LoadingFile path | UnloadingFile path

record 'd loader =
  ld_stats :: stats
  ld_cached_files :: "(path \<times> (string \<times> 'd tensor) list) list"
  ld_torch_to_path :: "(string \<times> path) list"
  ld_log :: "load_event list"

definition lift_stats :: "(stats \<Rightarrow> stats res) \<Rightarrow> ('d loader, unit) py" where
  "lift_stats f = (\<lambda>s. case f (ld_stats s) of Inl e \<Rightarrow> (Inl e, s) | Inr st \<Rightarrow> (Inr (), s\<lparr>ld_stats := st\<rparr>))"

definition count_params :: "'d extern_mapping \<Rightarrow> string \<Rightarrow> 'd tensor \<Rightarrow> stats \<Rightarrow> stats res" where
  "count_params ext name t s =
     Inr (if name \<in> set (em_unused ext) then s else s\<lparr>total_param_num := total_param_num s + t_size t\<rparr>)"

definition load_entry ::
  "'d weight_env \<Rightarrow> 'd extern_mapping \<Rightarrow> (string \<times> 'd tensor) list \<Rightarrow> string \<times> 'd tensor
     \<Rightarrow> ('d loader, (string \<times> 'd tensor) list) py" where
  "load_entry env ext result = (\<lambda>(name, param).
     py_bind (lift_stats (mem_add (nbytes env param))) (\<lambda>_.
     py_bind (lift_stats (count_params ext name param)) (\<lambda>_.
     py_return (dict_set result name param))))"

definition load_file :: "'d weight_env \<Rightarrow> 'd extern_mapping \<Rightarrow> path \<Rightarrow> ('d loader, unit) py" where
  "load_file env ext p =
     py_bind (py_modify (\<lambda>s. s\<lparr>ld_log := ld_log s @ [LoadingFile p]\<rparr>)) (\<lambda>_.
     py_bind (py_fold (load_entry env ext) [] (load_func env p)) (\<lambda>result.
     py_modify (\<lambda>s. s\<lparr>ld_cached_files := dict_set (ld_cached_files s) p result\<rparr>)))"

definition unload_file :: "'d weight_env \<Rightarrow> path \<Rightarrow> ('d loader, unit) py" where
  "unload_file env p =
     py_bind (py_modify (\<lambda>s. s\<lparr>ld_log := ld_log s @ [UnloadingFile p]\<rparr>)) (\<lambda>_.
     py_bind (py_bind (py_get ld_cached_files) (\<lambda>c. py_lift (dict_get c p))) (\<lambda>params.
     py_bind (py_for params (\<lambda>(_, t). lift_stats (mem_rm (nbytes env t)))) (\<lambda>_.
     py_modify (\<lambda>s. s\<lparr>ld_cached_files := filter (\<lambda>(q, _). q \<noteq> p) (ld_cached_files s)\<rparr>))))"

definition weight_map_entry :: "path \<Rightarrow> string \<times> json \<Rightarrow> (string \<times> path) res" where
  "weight_map_entry p = (\<lambda>(name, v). case v of
     JStr s \<Rightarrow> Inr (name, path_join (path_parent p) s)
   | _ \<Rightarrow> Inl (TypeError ''unsupported operand type(s) for /''))"

definition read_weight_map :: "'d weight_env \<Rightarrow> path \<Rightarrow> (string \<times> path) list res" where
  "read_weight_map env p =
     res_bind (we_json env p) (\<lambda>j. case j of
       JObj d \<Rightarrow> res_bind (dict_get d ''weight_map'') (\<lambda>w. case w of
           JObj m \<Rightarrow> res_bind (res_map (weight_map_entry p) m) (\<lambda>es. Inr (dict_update [] es))
         | _ \<Rightarrow> Inl (AttributeError ''items''))
     | _ \<Rightarrow> Inl (TypeError ''indices must be integers or slices, not str''))"

definition fresh_loader :: "'d loader" where
  "fresh_loader = \<lparr>ld_stats = Stats, ld_cached_files = [], ld_torch_to_path = [], ld_log = []\<rparr>"

definition loader_init :: "'d weight_env \<Rightarrow> 'd extern_mapping \<Rightarrow> path \<Rightarrow> 'd loader res" where
  "loader_init env ext p =
     res_bind (res_assert (we_is_file env p) (''Path '' @ p @ '' is not a file'')) (\<lambda>_.
     res_bind
       (if path_suffix p \<in> {''.bin'', ''.safetensors'', ''.pt''}
        then case load_file env ext p fresh_loader of
               (Inl e, _) \<Rightarrow> Inl e
             | (Inr _, s) \<Rightarrow> res_bind (dict_get (ld_cached_files s) p) (\<lambda>d.
                 Inr (s\<lparr>ld_torch_to_path := map (\<lambda>(n, _). (n, p)) d\<rparr>))
        else if path_suffix p = ''.json''
        then res_bind (read_weight_map env p) (\<lambda>m. Inr (fresh_loader\<lparr>ld_torch_to_path := m\<rparr>))
        else Inl (FileNotFoundError (''Unknown file suffix: '' @ p))) (\<lambda>s.
     res_bind (check_parameter_usage ext (map fst (ld_torch_to_path s))) (\<lambda>_. Inr s)))"

section \<open>The order of loading and the stream of parameters\<close>

text \<open>\<open>d[k].append(v)\<close> on a \<open>defaultdict(list)\<close>.\<close>

definition dict_append :: "('k \<times> 'v list) list \<Rightarrow> 'k \<Rightarrow> 'v \<Rightarrow> ('k \<times> 'v list) list" where
  "dict_append d k v = dict_set d k ((case map_of d k of None \<Rightarrow> [] | Some l \<Rightarrow> l) @ [v])"

definition path_to_torch :: "(string \<times> path) list \<Rightarrow> (path \<times> string list) list" where
  "path_to_torch t2p = foldl (\<lambda>d (torch_name, p). dict_append d p torch_name) [] t2p"

definition torch_to_mlc :: "(string \<times> string list) list \<Rightarrow> (string \<times> string list) list" where
  "torch_to_mlc param_map =
     foldl (\<lambda>d (mlc_name, torch_names). foldl (\<lambda>d torch_name. dict_append d torch_name mlc_name) d torch_names)
       [] param_map"

definition loading_order :: "'d extern_mapping \<Rightarrow> (string \<times> path) list \<Rightarrow> string list" where
  "loading_order ext t2p =
     (let t2m = torch_to_mlc (em_param_map ext)
      in foldl (\<lambda>order (_, torch_names).
           foldl (\<lambda>order torch_name.
             foldl (\<lambda>order mlc_name. if mlc_name \<in> set order then order else order @ [mlc_name])
               order (case map_of t2m torch_name of None \<Rightarrow> [] | Some ms \<Rightarrow> ms))
             order torch_names)
           [] (path_to_torch t2p))"

text \<open>
  The sets of files are iterated in an order that Python does not fix. \<open>ord name xs\<close> is the order in
  which the elements of \<open>xs\<close> come up while the parameter \<open>name\<close> is loaded.
\<close>

definition cached_param :: "string \<Rightarrow> 'd loader \<Rightarrow> 'd tensor res" where
  "cached_param i s =
     res_bind (dict_get (ld_torch_to_path s) i) (\<lambda>p.
     res_bind (dict_get (ld_cached_files s) p) (\<lambda>d. dict_get d i))"

definition load_mlc_param ::
  "'d weight_env \<Rightarrow> 'd extern_mapping \<Rightarrow> (string \<Rightarrow> path list \<Rightarrow> path list) \<Rightarrow> string
     \<Rightarrow> ('d loader, 'd tensor) py" where
  "load_mlc_param env ext ord mlc_name =
     py_bind (py_lift (dict_get (em_param_map ext) mlc_name)) (\<lambda>torch_names.
     py_bind (\<lambda>s. (res_map (dict_get (ld_torch_to_path s)) torch_names, s)) (\<lambda>files_required.
     py_bind (py_get (\<lambda>s. map fst (ld_cached_files s))) (\<lambda>files_existing.
     let files_to_load = ord mlc_name (filter (\<lambda>p. p \<notin> set files_existing) (remdups files_required));
         files_to_unload = ord mlc_name (filter (\<lambda>p. p \<notin> set files_required) files_existing)
     in py_bind (if files_to_load \<noteq> [] then py_for files_to_unload (unload_file env) else py_return ()) (\<lambda>_.
        py_bind (py_for files_to_load (load_file env ext)) (\<lambda>_.
        py_bind (\<lambda>s. (res_map (\<lambda>i. cached_param i s) torch_names, s)) (\<lambda>torch_params.
        py_bind (py_lift (dict_get (em_map_func ext) mlc_name)) (\<lambda>f.
        py_bind (py_lift (f torch_params)) (\<lambda>param.
        py_return (we_ndarray env param)))))))))"

definition load_or_quantize ::
  "'d quantize_mapping option \<Rightarrow> string \<Rightarrow> 'd tensor \<Rightarrow> (string \<times> 'd tensor) list res" where
  "load_or_quantize qmap mlc_name param =
     (case qmap of
        Some q \<Rightarrow>
          (case map_of (qm_param_map q) mlc_name of
             Some q_names \<Rightarrow>
               res_bind (dict_get (qm_map_func q) mlc_name) (\<lambda>f.
               res_bind (f param) (\<lambda>q_params. Inr (zip q_names q_params)))
           | None \<Rightarrow> Inr [(mlc_name, param)])
      | None \<Rightarrow> Inr [(mlc_name, param)])"

definition sharded_param_name :: "string \<Rightarrow> nat \<Rightarrow> string" where
  "sharded_param_name param_name worker_id = param_name @ ''_shard-'' @ str_of_nat worker_id"

type_synonym 'd shard_funcs = "(string \<times> ('d tensor \<Rightarrow> 'd tensor list)) list"

definition preshard_param :: "'d shard_funcs option \<Rightarrow> string \<times> 'd tensor \<Rightarrow> (string \<times> 'd tensor) list" where
  "preshard_param funcs = (\<lambda>(name, param).
     case funcs of
       None \<Rightarrow> [(name, param)]
     | Some fs \<Rightarrow> (case map_of fs name of
           None \<Rightarrow> [(name, param)]
         | Some f \<Rightarrow> map (\<lambda>(i, s). (sharded_param_name name i, s)) (enumerate 0 (f param))))"

text \<open>The generator: what it yields, how it ends, and the state it leaves.\<close>

fun load_loop ::
  "'d weight_env \<Rightarrow> 'd extern_mapping \<Rightarrow> 'd quantize_mapping option \<Rightarrow> 'd shard_funcs option
     \<Rightarrow> (string \<Rightarrow> path list \<Rightarrow> path list) \<Rightarrow> string list \<Rightarrow> 'd loader
     \<Rightarrow> (string \<times> 'd tensor) list \<times> unit res \<times> 'd loader" where
  "load_loop env ext qmap funcs ord [] s = ([], Inr (), s)"
| "load_loop env ext qmap funcs ord (mlc_name # names) s =
     (case load_mlc_param env ext ord mlc_name s of
        (Inl e, s') \<Rightarrow> ([], Inl e, s')
      | (Inr param, s') \<Rightarrow>
          (case load_or_quantize qmap mlc_name param of
             Inl e \<Rightarrow> ([], Inl e, s')
           | Inr ps \<Rightarrow>
               (case load_loop env ext qmap funcs ord names s' of
                  (out, r, s'') \<Rightarrow> (concat (map (preshard_param funcs) ps) @ out, r, s''))))"

definition load ::
  "'d weight_env \<Rightarrow> 'd extern_mapping \<Rightarrow> 'd quantize_mapping option \<Rightarrow> 'd shard_funcs option
     \<Rightarrow> (string \<Rightarrow> path list \<Rightarrow> path list) \<Rightarrow> 'd loader
     \<Rightarrow> (string \<times> 'd tensor) list \<times> unit res \<times> 'd loader" where
  "load env ext qmap funcs ord s =
     (case load_loop env ext qmap funcs ord (loading_order ext (ld_torch_to_path s)) s of
        (out, Inl e, s') \<Rightarrow> (out, Inl e, s')
      | (out, Inr _, s') \<Rightarrow>
          (case py_for (map fst (ld_cached_files s')) (unload_file env) s' of (r, s'') \<Rightarrow> (out, r, s'')))"

section \<open>The reference: parameters read straight from the files\<close>

definition file_param :: "'d weight_env \<Rightarrow> (string \<times> path) list \<Rightarrow> string \<Rightarrow> 'd tensor res" where
  "file_param env t2p i = res_bind (dict_get t2p i) (\<lambda>p. dict_get (load_func env p) i)"

definition param_value :: "'d weight_env \<Rightarrow> 'd extern_mapping \<Rightarrow> (string \<times> path) list \<Rightarrow> string \<Rightarrow> 'd tensor res" where
  "param_value env ext t2p mlc_name =
     res_bind (dict_get (em_param_map ext) mlc_name) (\<lambda>torch_names.
     res_bind (res_map (dict_get t2p) torch_names) (\<lambda>_.
     res_bind (res_map (file_param env t2p) torch_names) (\<lambda>torch_params.
     res_bind (dict_get (em_map_func ext) mlc_name) (\<lambda>f.
     res_bind (f torch_params) (\<lambda>param. Inr (we_ndarray env param))))))"

definition param_stream ::
  "'d weight_env \<Rightarrow> 'd extern_mapping \<Rightarrow> 'd quantize_mapping option \<Rightarrow> 'd shard_funcs option
     \<Rightarrow> (string \<times> path) list \<Rightarrow> string \<Rightarrow> (string \<times> 'd tensor) list res" where
  "param_stream env ext qmap funcs t2p mlc_name =
     res_bind (param_value env ext t2p mlc_name) (\<lambda>param.
     res_bind (load_or_quantize qmap mlc_name param) (\<lambda>ps. Inr (concat (map (preshard_param funcs) ps))))"

fun direct_loop :: "(string \<Rightarrow> (string \<times> 'd tensor) list res) \<Rightarrow> string list \<Rightarrow> (string \<times> 'd tensor) list \<times> unit res" where
  "direct_loop stream [] = ([], Inr ())"
| "direct_loop stream (n # ns) =
     (case stream n of
        Inl e \<Rightarrow> ([], Inl e)
      | Inr ps \<Rightarrow> (case direct_loop stream ns of (out, r) \<Rightarrow> (ps @ out, r)))"

text \<open>Files whose tensors have different names and which together stay below \<open>2 ^ 53\<close> bytes.\<close>

definition file_bytes :: "'d weight_env \<Rightarrow> path \<Rightarrow> nat" where
  "file_bytes env p = sum_list (map (\<lambda>(_, t). nbytes env t) (load_func env p))"

definition files_ok :: "'d weight_env \<Rightarrow> path set \<Rightarrow> bool" where
  "files_ok env P \<longleftrightarrow>
     (\<forall>p \<in> P. distinct (map fst (load_func env p))) \<and> finite P \<and> sum (file_bytes env) P < 2 ^ 53"

definition gb :: "nat \<Rightarrow> py_float" where
  "gb n = Finite (of_nat n * 2 powi (- 30))"

text \<open>The files loaded so far, in the order of the log, and the parameters of a file that count.\<close>

definition loads_of :: "'d loader \<Rightarrow> path list" where
  "loads_of s = List.map_filter (\<lambda>ev. case ev of LoadingFile p \<Rightarrow> Some p | _ \<Rightarrow> None) (ld_log s)"

definition entry_params :: "'d extern_mapping \<Rightarrow> string \<times> 'd tensor \<Rightarrow> nat" where
  "entry_params ext = (\<lambda>(name, t). if name \<in> set (em_unused ext) then 0 else t_size t)"

definition file_params :: "'d weight_env \<Rightarrow> 'd extern_mapping \<Rightarrow> path \<Rightarrow> nat" where
  "file_params env ext p = sum_list (map (entry_params ext) (load_func env p))"

definition loader_inv :: "'d weight_env \<Rightarrow> 'd extern_mapping \<Rightarrow> path set \<Rightarrow> 'd loader \<Rightarrow> bool" where
  "loader_inv env ext P s \<longleftrightarrow>
     files_ok env P \<and> distinct (map fst (ld_cached_files s))
     \<and> (\<forall>(p, d) \<in> set (ld_cached_files s). p \<in> P \<and> d = load_func env p)
     \<and> current_memory_gb (ld_stats s) = gb (sum (file_bytes env) (fst ` set (ld_cached_files s)))
     \<and> total_param_num (ld_stats s) = sum_list (map (file_params env ext) (loads_of s))"

text \<open>Only the statistics of the loader change.\<close>

definition same_files :: "'d loader \<Rightarrow> 'd loader \<Rightarrow> bool" where
  "same_files s s' \<longleftrightarrow>
     ld_cached_files s' = ld_cached_files s \<and> ld_torch_to_path s' = ld_torch_to_path s \<and> ld_log s' = ld_log s"

definition any_order :: "(string \<Rightarrow> path list \<Rightarrow> path list) \<Rightarrow> bool" where
  "any_order ord \<longleftrightarrow> (\<forall>n xs. mset (ord n xs) = mset xs)"

text \<open>The files that are missing for the sources of a parameter, and the cache once they are there.\<close>

definition missing_files :: "(string \<Rightarrow> path list \<Rightarrow> path list) \<Rightarrow> 'd loader \<Rightarrow> string \<Rightarrow> path list \<Rightarrow> path list" where
  "missing_files ord s n req = ord n (filter (\<lambda>p. p \<notin> set (map fst (ld_cached_files s))) (remdups req))"

text \<open>The entries of a dict of lists.\<close>

definition dict_entries :: "('k \<times> 'v list) list \<Rightarrow> 'k \<Rightarrow> 'v list" where
  "dict_entries d k = (case map_of d k of None \<Rightarrow> [] | Some l \<Rightarrow> l)"

definition add_new :: "string list \<Rightarrow> string \<Rightarrow> string list" where
  "add_new order n = (if n \<in> set order then order else order @ [n])"

definition mlc_groups :: "'d extern_mapping \<Rightarrow> (string \<times> path) list \<Rightarrow> string list list" where
  "mlc_groups ext t2p =
     map (\<lambda>(_, ts). concat (map (dict_entries (torch_to_mlc (em_param_map ext))) ts)) (path_to_torch t2p)"

text \<open>The files loaded for a sequence of required files, when one file is kept at a time.\<close>

fun runs :: "'a option \<Rightarrow> 'a list \<Rightarrow> 'a list" where
  "runs c [] = []"
| "runs c (x # xs) = (if c = Some x then runs c xs else x # runs (Some x) xs)"

definition sources_in :: "'d extern_mapping \<Rightarrow> (string \<times> path) list \<Rightarrow> string \<Rightarrow> path \<Rightarrow> bool" where
  "sources_in ext t2p n p \<longleftrightarrow>
     (\<exists>ts. dict_get (em_param_map ext) n = Inr ts \<and> ts \<noteq> [] \<and> (\<forall>t \<in> set ts. map_of t2p t = Some p))"

definition sources_together :: "'d extern_mapping \<Rightarrow> (string \<times> path) list \<Rightarrow> bool" where
  "sources_together ext t2p \<longleftrightarrow>
     distinct (map fst (em_param_map ext)) \<and> distinct (map fst t2p)
     \<and> (\<forall>(m, ts) \<in> set (em_param_map ext). \<forall>t \<in> set ts. \<forall>t' \<in> set ts. map_of t2p t = map_of t2p t')"

definition sample_tensor :: "nat \<Rightarrow> nat list tensor" where
  "sample_tensor k = \<lparr>t_shape = [2], t_dtype = ''float32'', t_data = [k, k + 1]\<rparr>"

definition sample_weights :: "nat list weight_env" where
  "sample_weights = \<lparr>
     we_torch = (\<lambda>p. if p = ''m/a.bin'' then [(''q'', Some (sample_tensor 0)), (''none'', None), (''k'', Some (sample_tensor 2))]
                     else if p = ''m/b.bin'' then [(''g'', Some (sample_tensor 4))] else []),
     we_safetensor = (\<lambda>_. []), we_numpy = id, we_float = id, we_view = (\<lambda>_ _. id), we_ndarray = id,
     we_itemsize = (\<lambda>_. 4),
     we_json = (\<lambda>_. Inr (JObj [(''weight_map'', JObj [(''q'', JStr ''a.bin''), (''g'', JStr ''b.bin''), (''k'', JStr ''a.bin'')])])),
     we_is_file = (\<lambda>_. True)\<rparr>"

definition sample_concat :: "nat list tensor list \<Rightarrow> nat list tensor res" where
  "sample_concat ts = Inr \<lparr>t_shape = [sum_list (map t_size ts)], t_dtype = ''float32'', t_data = concat (map t_data ts)\<rparr>"

definition sample_mapping :: "nat list extern_mapping" where
  "sample_mapping = add_mapping ''mlp'' [''g''] sample_concat (add_mapping ''qk'' [''q'', ''k''] sample_concat ExternMapping)"

definition sample_loader :: "nat list loader" where
  "sample_loader = fresh_loader\<lparr>ld_torch_to_path := [(''q'', ''m/a.bin''), (''g'', ''m/b.bin''), (''k'', ''m/a.bin'')]\<rparr>"

definition sample_stream :: "(string \<times> nat list tensor) list" where
  "sample_stream =
     [(''qk'', \<lparr>t_shape = [4], t_dtype = ''float32'', t_data = [0, 1, 2, 3]\<rparr>),
      (''mlp'', \<lparr>t_shape = [2], t_dtype = ''float32'', t_data = [4, 5]\<rparr>)]"

section \<open>Lemmas\<close>

lemma gb_int: "gb n = Finite (of_int (int n) * 2 powi (- 30))"
  by (simp add: gb_def)

lemma round_float_int: "n < 2 ^ 53 \<Longrightarrow> round_float (of_int (int n)) = Finite (of_int (int n))"
  using round_float_exact [of "int n" 0] by (simp add: power_strict_mono of_nat_less_iff)

lemma mem_gb_exact:
  assumes "n < 2 ^ 53"
  shows "mem_gb n = Inr (gb n)"
proof -
  have k: "float_of_int (1024 ^ 3) = Inr (Finite (2 powi 30))"
    using round_float_int [of "2 ^ 30"] by (simp add: float_of_int_def)
  have "round_float (of_int (int n) * 2 powi (- 30)) = Finite (of_int (int n) * 2 powi (- 30))"
    using assms by (intro round_float_exact) auto
  moreover have "(of_int (int n) / 2 powi 30 :: rat) = of_int (int n) * 2 powi (- 30)"
    by (simp add: power_int_minus field_simps)
  ultimately have "float_div (Finite (of_int (int n))) (Finite (2 powi 30)) = Inr (gb n)"
    by (simp only: float_div_def gb_int prod.case py_float.case) simp
  then show ?thesis
    using round_float_int [OF assms] k by (simp add: mem_gb_def float_of_int_def)
qed

lemma gb_add: "a + b < 2 ^ 53 \<Longrightarrow> float_add (gb a) (gb b) = gb (a + b)"
  using round_float_exact [of "int (a + b)" "- 30"] by (simp add: gb_def add_divide_distrib)

lemma gb_diff: "a < 2 ^ 53 \<Longrightarrow> b \<le> a \<Longrightarrow> float_add (gb a) (float_neg (gb b)) = gb (a - b)"
  using round_float_exact [of "int (a - b)" "- 30"] by (simp add: gb_def diff_divide_distrib of_nat_diff)

lemma mem_add_exact:
  assumes "current_memory_gb s = gb a" and "a + n < 2 ^ 53"
  shows "\<exists>s'. mem_add n s = Inr s' \<and> current_memory_gb s' = gb (a + n)
              \<and> total_param_num s' = total_param_num s"
  using assms by (simp add: mem_add_def mem_gb_exact gb_add Let_def)

lemma mem_rm_exact:
  assumes "current_memory_gb s = gb a" and "n \<le> a" and "a < 2 ^ 53"
  shows "mem_rm n s = Inr (s\<lparr>current_memory_gb := gb (a - n)\<rparr>)"
  using assms by (simp add: mem_rm_def mem_gb_exact gb_diff)

lemma load_entry_exact:
  assumes "current_memory_gb (ld_stats s) = gb a" and "a + nbytes env t < 2 ^ 53"
  shows "\<exists>s'. load_entry env ext result (name, t) s = (Inr (dict_set result name t), s')
     \<and> same_files s s' \<and> current_memory_gb (ld_stats s') = gb (a + nbytes env t)
     \<and> total_param_num (ld_stats s') = total_param_num (ld_stats s) + entry_params ext (name, t)"
  using mem_add_exact [OF assms]
  by (auto simp: load_entry_def lift_stats_def count_params_def py_bind_def py_return_def same_files_def entry_params_def)

lemma load_entries_exact:
  assumes "current_memory_gb (ld_stats s) = gb a"
    and "a + sum_list (map (\<lambda>(_, t). nbytes env t) entries) < 2 ^ 53"
    and "distinct (map fst result @ map fst entries)"
  shows "\<exists>s'. py_fold (load_entry env ext) result entries s = (Inr (result @ entries), s')
     \<and> same_files s s'
     \<and> current_memory_gb (ld_stats s') = gb (a + sum_list (map (\<lambda>(_, t). nbytes env t) entries))
     \<and> total_param_num (ld_stats s') = total_param_num (ld_stats s) + sum_list (map (entry_params ext) entries)"
  using assms
proof (induction entries arbitrary: s a result)
  case Nil
  then show ?case by (simp add: same_files_def)
next
  case (Cons e es)
  obtain n t where e: "e = (n, t)" by fastforce
  from Cons.prems(1,2) e obtain s1 where
    s1: "load_entry env ext result (n, t) s = (Inr (dict_set result n t), s1)" "same_files s s1"
      "current_memory_gb (ld_stats s1) = gb (a + nbytes env t)"
      "total_param_num (ld_stats s1) = total_param_num (ld_stats s) + entry_params ext (n, t)"
    using load_entry_exact [of s a env t ext result n] by auto
  have set: "dict_set result n t = result @ [(n, t)]"
    using Cons.prems(3) e by (intro dict_set_fresh) auto
  have "\<exists>s'. py_fold (load_entry env ext) (result @ [(n, t)]) es s1 = (Inr ((result @ [(n, t)]) @ es), s')
     \<and> same_files s1 s'
     \<and> current_memory_gb (ld_stats s') = gb ((a + nbytes env t) + sum_list (map (\<lambda>(_, t). nbytes env t) es))
     \<and> total_param_num (ld_stats s') = total_param_num (ld_stats s1) + sum_list (map (entry_params ext) es)"
    using Cons.prems e s1 by (intro Cons.IH) (auto simp: add.assoc)
  then show ?case using s1 unfolding e set by (auto simp: py_bind_def same_files_def add.assoc)
qed

lemma unload_entries_exact:
  assumes "current_memory_gb (ld_stats s) = gb a" and "a < 2 ^ 53"
    and "sum_list (map (\<lambda>(_, t). nbytes env t) entries) \<le> a"
  shows "\<exists>s'. py_for entries (\<lambda>(_, t). lift_stats (mem_rm (nbytes env t))) s = (Inr (), s')
     \<and> same_files s s' \<and> total_param_num (ld_stats s') = total_param_num (ld_stats s)
     \<and> current_memory_gb (ld_stats s') = gb (a - sum_list (map (\<lambda>(_, t). nbytes env t) entries))"
  using assms
proof (induction entries arbitrary: s a)
  case Nil
  then show ?case by (simp add: same_files_def)
next
  case (Cons e es)
  obtain n t where e: "e = (n, t)" by fastforce
  let ?s = "s\<lparr>ld_stats := (ld_stats s)\<lparr>current_memory_gb := gb (a - nbytes env t)\<rparr>\<rparr>"
  have r: "lift_stats (mem_rm (nbytes env t)) s = (Inr (), ?s)"
    using Cons.prems e by (simp add: lift_stats_def mem_rm_exact [of _ a])
  have "\<exists>s'. py_for es (\<lambda>(_, t). lift_stats (mem_rm (nbytes env t))) ?s = (Inr (), s')
     \<and> same_files ?s s' \<and> total_param_num (ld_stats s') = total_param_num (ld_stats ?s)
     \<and> current_memory_gb (ld_stats s') = gb (a - nbytes env t - sum_list (map (\<lambda>(_, t). nbytes env t) es))"
    using Cons.prems e by (intro Cons.IH) auto
  then show ?case using r unfolding e by (auto simp: py_bind_def same_files_def diff_diff_eq)
qed

text \<open>What a user of the file cache relies on.\<close>

locale file_cache =
  fixes content :: "'p \<Rightarrow> 'f" and files :: "'p set"
    and cached :: "'s \<Rightarrow> 'p \<Rightarrow> 'f option" and inv :: "'s \<Rightarrow> bool" and frame :: "'s \<Rightarrow> 'k"
    and loads :: "'s \<Rightarrow> 'p list"
    and load_f :: "'p \<Rightarrow> ('s, unit) py" and unload_f :: "'p \<Rightarrow> ('s, unit) py"
  assumes valid: "inv s \<Longrightarrow> cached s p = Some f \<Longrightarrow> p \<in> files \<and> f = content p"
    and load_ok: "inv s \<Longrightarrow> p \<in> files \<Longrightarrow> cached s p = None \<Longrightarrow>
      \<exists>s'. load_f p s = (Inr (), s') \<and> inv s' \<and> frame s' = frame s
        \<and> cached s' = (cached s)(p \<mapsto> content p) \<and> loads s' = loads s @ [p]"
    and unload_ok: "inv s \<Longrightarrow> cached s p \<noteq> None \<Longrightarrow>
      \<exists>s'. unload_f p s = (Inr (), s') \<and> inv s' \<and> frame s' = frame s
        \<and> cached s' = (cached s)(p := None) \<and> loads s' = loads s"
begin

lemma load_all:
  assumes "inv s" and "distinct ps" and "set ps \<subseteq> files" and "\<forall>p \<in> set ps. cached s p = None"
  shows "\<exists>s'. py_for ps load_f s = (Inr (), s') \<and> inv s' \<and> frame s' = frame s
    \<and> cached s' = (\<lambda>p. if p \<in> set ps then Some (content p) else cached s p) \<and> loads s' = loads s @ ps"
  using assms
proof (induction ps arbitrary: s)
  case (Cons p ps)
  then obtain s1 where s1: "load_f p s = (Inr (), s1)" "inv s1" "frame s1 = frame s"
    "cached s1 = (cached s)(p \<mapsto> content p)" "loads s1 = loads s @ [p]"
    using load_ok [of s p] by auto
  have "\<exists>s'. py_for ps load_f s1 = (Inr (), s') \<and> inv s' \<and> frame s' = frame s1
    \<and> cached s' = (\<lambda>q. if q \<in> set ps then Some (content q) else cached s1 q) \<and> loads s' = loads s1 @ ps"
    using Cons.prems s1 by (intro Cons.IH) auto
  then show ?case using s1 by (auto simp: py_bind_def fun_eq_iff)
qed simp

lemma unload_all:
  assumes "inv s" and "distinct ps" and "\<forall>p \<in> set ps. cached s p \<noteq> None"
  shows "\<exists>s'. py_for ps unload_f s = (Inr (), s') \<and> inv s' \<and> frame s' = frame s
    \<and> cached s' = (\<lambda>p. if p \<in> set ps then None else cached s p) \<and> loads s' = loads s"
  using assms
proof (induction ps arbitrary: s)
  case (Cons p ps)
  then obtain s1 where s1: "unload_f p s = (Inr (), s1)" "inv s1" "frame s1 = frame s"
    "cached s1 = (cached s)(p := None)" "loads s1 = loads s"
    using unload_ok [of s p] by auto
  have "\<exists>s'. py_for ps unload_f s1 = (Inr (), s') \<and> inv s' \<and> frame s' = frame s1
    \<and> cached s' = (\<lambda>q. if q \<in> set ps then None else cached s1 q) \<and> loads s' = loads s1"
    using Cons.prems s1 by (intro Cons.IH) auto
  then show ?case using s1 by (auto simp: py_bind_def fun_eq_iff)
qed simp

text \<open>
  Making room and fetching: when something has to be loaded, what is not required goes first. All
  that is required is then there, and what is there is what the files hold.
\<close>

lemma fetch:
  assumes "inv s" and "distinct ls" and "distinct us" and "required \<subseteq> files"
    and "set ls = {p \<in> required. cached s p = None}" and "set us = {p. cached s p \<noteq> None} - required"
  shows "\<exists>s1 s2. (if ls \<noteq> [] then py_for us unload_f else py_return ()) s = (Inr (), s1)
    \<and> py_for ls load_f s1 = (Inr (), s2) \<and> inv s2 \<and> frame s2 = frame s
    \<and> (\<forall>p \<in> required. cached s2 p = Some (content p))
    \<and> cached s2 = (if ls = [] then cached s else (\<lambda>p. if p \<in> required then Some (content p) else None))
    \<and> loads s2 = loads s @ ls"
proof (cases "ls = []")
  case True
  then have "\<forall>p \<in> required. \<exists>f. cached s p = Some f" using assms(5) by auto
  then have "\<forall>p \<in> required. cached s p = Some (content p)" using valid [OF assms(1)] by metis
  then show ?thesis using True assms(1) by simp
next
  case False
  obtain s1 where s1: "py_for us unload_f s = (Inr (), s1)" "inv s1" "frame s1 = frame s"
    "cached s1 = (\<lambda>p. if p \<in> set us then None else cached s p)" "loads s1 = loads s"
    using unload_all [of s us] assms by auto
  have "\<forall>p \<in> set ls. cached s1 p = None" using s1(4) assms(5) by simp
  then obtain s2 where s2: "py_for ls load_f s1 = (Inr (), s2)" "inv s2" "frame s2 = frame s1"
    "cached s2 = (\<lambda>p. if p \<in> set ls then Some (content p) else cached s1 p)" "loads s2 = loads s1 @ ls"
    using load_all [of s1 ls] s1(2) assms(2,4,5) by auto
  have "cached s2 p = (if p \<in> required then Some (content p) else None)" for p
  proof (cases "p \<in> required")
    case True
    then show ?thesis using s1(4) s2(4) assms(5,6) valid [OF assms(1), of p] by (cases "cached s p") auto
  next
    case False
    then show ?thesis using s1(4) s2(4) assms(5,6) by auto
  qed
  then show ?thesis using False s1 s2 by (auto simp: fun_eq_iff)
qed

end

lemma map_of_drop_key: "map_of (filter (\<lambda>(q, _). q \<noteq> p) c) = (map_of c)(p := None)"
  by (induction c) (auto simp: fun_eq_iff)

lemma loader_inv_cached:
  "loader_inv env ext P s \<Longrightarrow> map_of (ld_cached_files s) p = Some d \<Longrightarrow> p \<in> P \<and> d = load_func env p"
  by (auto simp: loader_inv_def dest: map_of_SomeD)

lemma loader_inv_sum:
  assumes "loader_inv env ext P s" and "p \<in> P" and "p \<notin> fst ` set (ld_cached_files s)"
  shows "sum (file_bytes env) (fst ` set (ld_cached_files s)) + file_bytes env p < 2 ^ 53"
proof -
  have "sum (file_bytes env) (insert p (fst ` set (ld_cached_files s))) \<le> sum (file_bytes env) P"
    using assms by (intro sum_mono2) (auto simp: loader_inv_def files_ok_def)
  then show ?thesis using assms by (auto simp: loader_inv_def files_ok_def add.commute)
qed

lemma load_file_ok:
  assumes inv: "loader_inv env ext P s" and p: "p \<in> P" and fresh: "map_of (ld_cached_files s) p = None"
  shows "\<exists>s'. load_file env ext p s = (Inr (), s') \<and> loader_inv env ext P s'
    \<and> ld_torch_to_path s' = ld_torch_to_path s
    \<and> map_of (ld_cached_files s') = (map_of (ld_cached_files s))(p \<mapsto> load_func env p)
    \<and> loads_of s' = loads_of s @ [p]"
proof -
  let ?s = "s\<lparr>ld_log := ld_log s @ [LoadingFile p]\<rparr>"
  let ?a = "sum (file_bytes env) (fst ` set (ld_cached_files s))"
  have new: "p \<notin> fst ` set (ld_cached_files s)" using fresh by (simp add: map_of_eq_None_iff)
  have d: "distinct (map fst (load_func env p))" using inv p by (auto simp: loader_inv_def files_ok_def)
  have "\<exists>s'. py_fold (load_entry env ext) [] (load_func env p) ?s = (Inr ([] @ load_func env p), s')
     \<and> same_files ?s s' \<and> current_memory_gb (ld_stats s') = gb (?a + file_bytes env p)
     \<and> total_param_num (ld_stats s') = total_param_num (ld_stats ?s) + file_params env ext p"
    unfolding file_bytes_def [of env p] file_params_def
    using inv d loader_inv_sum [OF inv p new]
    by (intro load_entries_exact) (auto simp: loader_inv_def file_bytes_def)
  then obtain s1 where s1: "py_fold (load_entry env ext) [] (load_func env p) ?s = (Inr (load_func env p), s1)"
    "same_files ?s s1" "current_memory_gb (ld_stats s1) = gb (?a + file_bytes env p)"
    "total_param_num (ld_stats s1) = total_param_num (ld_stats s) + file_params env ext p" by auto
  have lo: "loads_of s1 = loads_of s @ [p]" using s1(2) by (simp add: same_files_def loads_of_def map_filter_def)
  have c: "ld_cached_files s1 = ld_cached_files s" using s1(2) by (simp add: same_files_def)
  have f: "dict_set (ld_cached_files s1) p (load_func env p) = ld_cached_files s @ [(p, load_func env p)]"
    using new c by (simp add: dict_set_fresh)
  let ?s' = "s1\<lparr>ld_cached_files := ld_cached_files s @ [(p, load_func env p)]\<rparr>"
  have "load_file env ext p s = (Inr (), ?s')"
    using s1(1) f by (simp add: load_file_def py_bind_def py_modify_def)
  moreover have "loader_inv env ext P ?s'"
    using inv new p s1(3,4) lo by (auto simp: loader_inv_def add.commute loads_of_def)
  moreover have "map_of (ld_cached_files ?s') = (map_of (ld_cached_files s))(p \<mapsto> load_func env p)"
    using fresh by (auto simp: fun_eq_iff map_add_def split: option.splits)
  ultimately show ?thesis using s1(2) by (auto simp: same_files_def loads_of_def map_filter_def)
qed

lemma unload_file_ok:
  assumes inv: "loader_inv env ext P s" and p: "map_of (ld_cached_files s) p \<noteq> None"
  shows "\<exists>s'. unload_file env p s = (Inr (), s') \<and> loader_inv env ext P s'
    \<and> ld_torch_to_path s' = ld_torch_to_path s
    \<and> map_of (ld_cached_files s') = (map_of (ld_cached_files s))(p := None)
    \<and> loads_of s' = loads_of s"
proof -
  let ?c = "ld_cached_files s"
  let ?s = "s\<lparr>ld_log := ld_log s @ [UnloadingFile p]\<rparr>" and ?a = "sum (file_bytes env) (fst ` set ?c)"
  have l: "map_of ?c p = Some (load_func env p)" using p loader_inv_cached [OF inv] by fastforce
  then have mem: "p \<in> fst ` set ?c" by (force dest: map_of_SomeD)
  have "?a \<le> sum (file_bytes env) P"
    using inv by (intro sum_mono2) (auto simp: loader_inv_def files_ok_def)
  then have a: "?a < 2 ^ 53" using inv by (auto simp: loader_inv_def files_ok_def)
  have le: "file_bytes env p \<le> ?a" using mem by (intro member_le_sum) auto
  have "\<exists>s'. py_for (load_func env p) (\<lambda>(_, t). lift_stats (mem_rm (nbytes env t))) ?s = (Inr (), s')
     \<and> same_files ?s s' \<and> total_param_num (ld_stats s') = total_param_num (ld_stats ?s)
     \<and> current_memory_gb (ld_stats s') = gb (?a - file_bytes env p)"
    using inv a le unfolding file_bytes_def [of env p] by (intro unload_entries_exact) (auto simp: loader_inv_def)
  then obtain s1 where s1: "py_for (load_func env p) (\<lambda>(_, t). lift_stats (mem_rm (nbytes env t))) ?s = (Inr (), s1)"
    "same_files ?s s1" "current_memory_gb (ld_stats s1) = gb (?a - file_bytes env p)"
    "total_param_num (ld_stats s1) = total_param_num (ld_stats s)" by auto
  have lo: "loads_of s1 = loads_of s" using s1(2) by (simp add: same_files_def loads_of_def map_filter_def)
  let ?c' = "filter (\<lambda>(q, _). q \<noteq> p) ?c"
  have k: "fst ` {x \<in> set ?c. case x of (q, _) \<Rightarrow> q \<noteq> p} = fst ` set ?c - {p}" by force
  have "unload_file env p s = (Inr (), s1\<lparr>ld_cached_files := ?c'\<rparr>)"
    using s1(1,2) l by (simp add: unload_file_def py_bind_def py_modify_def py_get_def py_lift_def dict_get_def same_files_def)
  moreover have "loader_inv env ext P (s1\<lparr>ld_cached_files := ?c'\<rparr>)"
    using inv s1(3,4) mem lo by (auto simp: loader_inv_def k sum_diff1_nat distinct_map_filter loads_of_def)
  moreover have "map_of ?c' = (map_of ?c)(p := None)"
    by (rule map_of_drop_key)
  ultimately show ?thesis using s1(2) by (auto simp: same_files_def loads_of_def map_filter_def)
qed

interpretation wc: file_cache "load_func env" P "\<lambda>s. map_of (ld_cached_files s)" "loader_inv env ext P"
  ld_torch_to_path loads_of "load_file env ext" "unload_file env" for env P ext
  by unfold_locales (use loader_inv_cached load_file_ok unload_file_ok in blast)+

lemma any_order_set: "any_order ord \<Longrightarrow> set (ord n xs) = set xs"
  unfolding any_order_def by (metis set_mset_mset)

lemma any_order_distinct: "any_order ord \<Longrightarrow> distinct (ord n xs) = distinct xs"
  unfolding any_order_def by (metis mset_eq_imp_distinct_iff)

lemma any_order_Nil: "any_order ord \<Longrightarrow> ord n xs = [] \<longleftrightarrow> xs = []"
  using any_order_set by (metis set_empty)

lemma dict_get_Inr: "dict_get d k = Inr v \<longleftrightarrow> map_of d k = Some v"
  by (cases "map_of d k") (auto simp: dict_get_def)

lemma res_map_Inr_set: "res_map f xs = Inr ys \<Longrightarrow> set ys = {y. \<exists>x \<in> set xs. f x = Inr y}"
  by (induction xs arbitrary: ys) (auto simp: res_bind_eq_Inr)

lemma load_fetch:
  fixes n :: string
  assumes inv: "loader_inv env ext P s" and ord: "any_order ord" and P: "set req \<subseteq> P"
  defines "ls \<equiv> ord n (filter (\<lambda>p. p \<notin> set (map fst (ld_cached_files s))) (remdups req))"
  defines "us \<equiv> ord n (filter (\<lambda>p. p \<notin> set req) (map fst (ld_cached_files s)))"
  shows "\<exists>s1 s2. (if ls \<noteq> [] then py_for us (unload_file env) else py_return ()) s = (Inr (), s1)
    \<and> py_for ls (load_file env ext) s1 = (Inr (), s2) \<and> loader_inv env ext P s2
    \<and> ld_torch_to_path s2 = ld_torch_to_path s
    \<and> (\<forall>p \<in> set req. map_of (ld_cached_files s2) p = Some (load_func env p))
    \<and> map_of (ld_cached_files s2) = (if ls = [] then map_of (ld_cached_files s)
         else (\<lambda>p. if p \<in> set req then Some (load_func env p) else None))
    \<and> loads_of s2 = loads_of s @ ls"
proof (rule wc.fetch [OF inv _ _ P])
  have d: "distinct (map fst (ld_cached_files s))" using inv by (simp add: loader_inv_def)
  show "distinct ls" "distinct us"
    using d unfolding ls_def us_def by (simp_all add: any_order_distinct [OF ord])
  show "set ls = {p \<in> set req. map_of (ld_cached_files s) p = None}"
    unfolding ls_def by (auto simp: any_order_set [OF ord] map_of_eq_None_iff)
  show "set us = {p. map_of (ld_cached_files s) p \<noteq> None} - set req"
    unfolding us_def by (auto simp: any_order_set [OF ord] map_of_eq_None_iff)
qed

text \<open>Loading through the cache gives what reading the files gives, errors included.\<close>

lemma load_mlc_param_value:
  assumes inv: "loader_inv env ext P s" and ord: "any_order ord"
    and P: "snd ` set (ld_torch_to_path s) \<subseteq> P"
  shows "\<exists>s'. load_mlc_param env ext ord n s = (param_value env ext (ld_torch_to_path s) n, s')
    \<and> loader_inv env ext P s' \<and> ld_torch_to_path s' = ld_torch_to_path s
    \<and> (\<forall>names req. dict_get (em_param_map ext) n = Inr names
          \<longrightarrow> res_map (dict_get (ld_torch_to_path s)) names = Inr req
          \<longrightarrow> map_of (ld_cached_files s') = (if missing_files ord s n req = [] then map_of (ld_cached_files s)
                else (\<lambda>p. if p \<in> set req then Some (load_func env p) else None))
              \<and> loads_of s' = loads_of s @ missing_files ord s n req)"
proof -
  let ?t = "ld_torch_to_path s"
  consider e where "dict_get (em_param_map ext) n = Inl e"
    | names e where "dict_get (em_param_map ext) n = Inr names" "res_map (dict_get ?t) names = Inl e"
    | names req where "dict_get (em_param_map ext) n = Inr names" "res_map (dict_get ?t) names = Inr req"
    by (metis sum.exhaust)
  then show ?thesis
  proof cases
    case 3
    have req: "set req \<subseteq> P" using res_map_Inr_set [OF 3(2)] P by (force simp: dict_get_Inr dest: map_of_SomeD)
    obtain s1 s2 where s:
      "(if missing_files ord s n req \<noteq> []
        then py_for (ord n (filter (\<lambda>p. p \<notin> set req) (map fst (ld_cached_files s)))) (unload_file env)
        else py_return ()) s = (Inr (), s1)"
      "py_for (missing_files ord s n req) (load_file env ext) s1 = (Inr (), s2)"
      "loader_inv env ext P s2" "ld_torch_to_path s2 = ?t"
      "\<forall>p \<in> set req. map_of (ld_cached_files s2) p = Some (load_func env p)"
      "map_of (ld_cached_files s2) = (if missing_files ord s n req = [] then map_of (ld_cached_files s)
                else (\<lambda>p. if p \<in> set req then Some (load_func env p) else None))"
      "loads_of s2 = loads_of s @ missing_files ord s n req"
      using load_fetch [OF inv ord req, of n] unfolding missing_files_def by blast
    have "cached_param i s2 = file_param env ?t i" if "i \<in> set names" for i
    proof -
      from 3(2) that obtain p where p: "dict_get ?t i = Inr p" "p \<in> set req"
        by (auto simp: res_map_Inr_iff list_all2_conv_all_nth in_set_conv_nth) (metis nth_mem)
      then show ?thesis using s(4,5) by (simp add: cached_param_def file_param_def dict_get_def)
    qed
    then have c: "res_map (\<lambda>i. cached_param i s2) names = res_map (file_param env ?t) names"
      by (intro res_map_cong) auto
    have "load_mlc_param env ext ord n s = (param_value env ext ?t n, s2)"
      using 3 s(1,2) unfolding missing_files_def
      by (auto simp: load_mlc_param_def param_value_def py_bind_def py_lift_def py_get_def py_return_def Let_def c
          split: sum.splits)
    then show ?thesis using 3 s(3-7) by auto
  qed (use inv in \<open>auto simp: load_mlc_param_def param_value_def py_bind_def py_lift_def py_get_def\<close>)
qed

lemma load_loop_direct:
  assumes "loader_inv env ext P s" and "any_order ord" and "snd ` set (ld_torch_to_path s) \<subseteq> P"
  shows "\<exists>out r s'. load_loop env ext qmap funcs ord ns s = (out, r, s')
    \<and> (out, r) = direct_loop (param_stream env ext qmap funcs (ld_torch_to_path s)) ns
    \<and> loader_inv env ext P s' \<and> ld_torch_to_path s' = ld_torch_to_path s"
  using assms
proof (induction ns arbitrary: s)
  case (Cons n ns)
  let ?t = "ld_torch_to_path s"
  obtain s1 where s1: "load_mlc_param env ext ord n s = (param_value env ext ?t n, s1)"
    "loader_inv env ext P s1" "ld_torch_to_path s1 = ?t"
    using load_mlc_param_value [OF Cons.prems] by blast
  obtain out r s2 where s2: "load_loop env ext qmap funcs ord ns s1 = (out, r, s2)"
    "(out, r) = direct_loop (param_stream env ext qmap funcs ?t) ns"
    "loader_inv env ext P s2" "ld_torch_to_path s2 = ?t"
    using Cons.IH [of s1] s1 Cons.prems by auto
  show ?case
  proof (cases "param_value env ext ?t n")
    case (Inl e)
    then have "param_stream env ext qmap funcs ?t n = Inl e" by (simp add: param_stream_def)
    with Inl show ?thesis using s1 by simp
  next
    case (Inr v)
    then have "param_stream env ext qmap funcs ?t n =
      res_bind (load_or_quantize qmap n v) (\<lambda>ps. Inr (concat (map (preshard_param funcs) ps)))"
      by (simp add: param_stream_def)
    with Inr show ?thesis
      using s1 s2 by (cases "load_or_quantize qmap n v") (auto simp flip: s2(2))
  qed
qed simp

lemma load_direct:
  assumes "loader_inv env ext P s" and "any_order ord" and "snd ` set (ld_torch_to_path s) \<subseteq> P"
    and "load env ext qmap funcs ord s = (out, r, s')"
  shows "(out, r) = direct_loop (param_stream env ext qmap funcs (ld_torch_to_path s))
                      (loading_order ext (ld_torch_to_path s))"
    and "r = Inr () \<Longrightarrow> ld_cached_files s' = [] \<and> current_memory_gb (ld_stats s') = Finite 0"
proof -
  obtain out1 r1 s1 where l:
    "load_loop env ext qmap funcs ord (loading_order ext (ld_torch_to_path s)) s = (out1, r1, s1)"
    "(out1, r1) = direct_loop (param_stream env ext qmap funcs (ld_torch_to_path s)) (loading_order ext (ld_torch_to_path s))"
    "loader_inv env ext P s1" using load_loop_direct [OF assms(1-3)] by blast
  have d: "distinct (map fst (ld_cached_files s1))" using l(3) by (simp add: loader_inv_def)
  have "\<exists>s2. py_for (map fst (ld_cached_files s1)) (unload_file env) s1 = (Inr (), s2) \<and> loader_inv env ext P s2
    \<and> ld_torch_to_path s2 = ld_torch_to_path s1
    \<and> map_of (ld_cached_files s2) = (\<lambda>p. if p \<in> set (map fst (ld_cached_files s1)) then None else map_of (ld_cached_files s1) p)
    \<and> loads_of s2 = loads_of s1"
    by (rule wc.unload_all [OF l(3) d]) (simp add: map_of_eq_None_iff)
  then obtain s2 where u: "py_for (map fst (ld_cached_files s1)) (unload_file env) s1 = (Inr (), s2)"
    "loader_inv env ext P s2"
    "map_of (ld_cached_files s2) = (\<lambda>p. if p \<in> set (map fst (ld_cached_files s1)) then None else map_of (ld_cached_files s1) p)"
    by blast
  from u(3) have "map_of (ld_cached_files s2) p = None" for p
    by (cases "p \<in> fst ` set (ld_cached_files s1)") (simp_all add: map_of_eq_None_iff)
  then have e: "ld_cached_files s2 = []" by (cases "ld_cached_files s2") (auto split: if_splits, metis fun_upd_same option.simps(3))
  show "(out, r) = direct_loop (param_stream env ext qmap funcs (ld_torch_to_path s))
                      (loading_order ext (ld_torch_to_path s))"
    using assms(4) l(1,2) u(1) by (cases r1) (simp_all add: load_def)
  show "r = Inr () \<Longrightarrow> ld_cached_files s' = [] \<and> current_memory_gb (ld_stats s') = Finite 0"
    using assms(4) l(1) u(1,2) e by (cases r1) (auto simp: load_def loader_inv_def gb_def)
qed

lemma dict_entries_append:
  "dict_entries (dict_append d k v) k' = dict_entries d k' @ (if k = k' then [v] else [])"
  by (simp add: dict_entries_def dict_append_def dict_set_lookup)

lemma dict_append_keys: "distinct (map fst d) \<Longrightarrow> distinct (map fst (dict_append d k v))"
  by (auto simp: dict_append_def dict_set_keys)

lemma dict_append_fst: "fst ` set (dict_append d k v) = insert k (fst ` set d)"
proof -
  have "set (map fst (dict_append d k v)) = insert k (set (map fst d))"
    by (auto simp: dict_append_def dict_set_keys)
  then show ?thesis by simp
qed

lemma path_to_torch_props:
  "distinct (map fst (path_to_torch t2p)) \<and> fst ` set (path_to_torch t2p) = snd ` set t2p
   \<and> (\<forall>p. dict_entries (path_to_torch t2p) p = map fst (filter (\<lambda>(_, q). q = p) t2p))"
  unfolding path_to_torch_def
proof (induction t2p rule: rev_induct)
  case (snoc x xs)
  then show ?case
    by (cases x) (auto simp: dict_append_keys dict_append_fst dict_entries_append)
qed (simp add: dict_entries_def)

lemma torch_to_mlc_inner:
  "dict_entries (foldl (\<lambda>d t. dict_append d t m) d ts) t' = dict_entries d t' @ replicate (count_list ts t') m"
  by (induction ts arbitrary: d) (simp_all add: dict_entries_append)

lemma torch_to_mlc_set:
  "set (dict_entries (torch_to_mlc pm) t) = {m. \<exists>ts. (m, ts) \<in> set pm \<and> t \<in> set ts}"
  unfolding torch_to_mlc_def
proof (induction pm rule: rev_induct)
  case (snoc x xs)
  obtain m ts where x: "x = (m, ts)" by fastforce
  have "set (replicate (count_list ts t) m) = (if t \<in> set ts then {m} else {})"
    by (auto simp: count_list_0_iff)
  with snoc show ?case by (auto simp: x torch_to_mlc_inner)
qed (simp add: dict_entries_def)

lemma foldl_concat: "foldl f a (concat xss) = foldl (foldl f) a xss"
  by (induction xss arbitrary: a) auto

lemma loading_order_groups: "loading_order ext t2p = foldl add_new [] (concat (mlc_groups ext t2p))"
proof -
  have "foldl (foldl add_new) a (map (\<lambda>(_, ts). concat (map g ts)) ps)
        = foldl (\<lambda>order (_, ts). foldl (\<lambda>order t. foldl add_new order (g t)) order ts) a ps"
    for a g and ps :: "(path \<times> string list) list"
    by (induction ps arbitrary: a) (auto simp: foldl_concat foldl_map)
  then show ?thesis
    unfolding foldl_concat mlc_groups_def loading_order_def Let_def dict_entries_def add_new_def by simp
qed

lemma foldl_add_new: "distinct acc \<Longrightarrow> distinct (foldl add_new acc xs) \<and> set (foldl add_new acc xs) = set acc \<union> set xs"
  by (induction xs arbitrary: acc) (auto simp: add_new_def)

lemma path_to_torch_entry:
  "(p, ts) \<in> set (path_to_torch t2p) \<longleftrightarrow> p \<in> snd ` set t2p \<and> ts = map fst (filter (\<lambda>(_, q). q = p) t2p)"
proof -
  have d: "distinct (map fst (path_to_torch t2p))" and k: "fst ` set (path_to_torch t2p) = snd ` set t2p"
    and e: "dict_entries (path_to_torch t2p) p = map fst (filter (\<lambda>(_, q). q = p) t2p)"
    using path_to_torch_props [of t2p] by blast+
  show ?thesis
  proof
    assume a: "(p, ts) \<in> set (path_to_torch t2p)"
    then have "map_of (path_to_torch t2p) p = Some ts" using d by simp
    with e have "ts = map fst (filter (\<lambda>(_, q). q = p) t2p)" by (simp add: dict_entries_def)
    moreover have "p \<in> snd ` set t2p" using a k by force
    ultimately show "p \<in> snd ` set t2p \<and> ts = map fst (filter (\<lambda>(_, q). q = p) t2p)" by blast
  next
    assume a: "p \<in> snd ` set t2p \<and> ts = map fst (filter (\<lambda>(_, q). q = p) t2p)"
    then obtain ts' where t: "map_of (path_to_torch t2p) p = Some ts'"
      using k by (cases "map_of (path_to_torch t2p) p") (auto simp: map_of_eq_None_iff)
    with a e have "ts' = ts" by (simp add: dict_entries_def)
    with t show "(p, ts) \<in> set (path_to_torch t2p)" by (auto dest: map_of_SomeD)
  qed
qed

lemma path_to_torch_names: "(\<exists>p ts. (p, ts) \<in> set (path_to_torch t2p) \<and> t \<in> set ts) \<longleftrightarrow> t \<in> fst ` set t2p"
proof
  assume "t \<in> fst ` set t2p"
  then obtain p where "(t, p) \<in> set t2p" by force
  then have "(p, map fst (filter (\<lambda>(_, q). q = p) t2p)) \<in> set (path_to_torch t2p)"
    and "t \<in> set (map fst (filter (\<lambda>(_, q). q = p) t2p))"
    unfolding path_to_torch_entry by force+
  then show "\<exists>p ts. (p, ts) \<in> set (path_to_torch t2p) \<and> t \<in> set ts" by blast
qed (auto simp: path_to_torch_entry)

lemma loading_order_props:
  "distinct (loading_order ext t2p)
   \<and> set (loading_order ext t2p) = {m. \<exists>ts. (m, ts) \<in> set (em_param_map ext) \<and> set ts \<inter> fst ` set t2p \<noteq> {}}"
proof -
  have "set (concat (mlc_groups ext t2p)) =
    {m. \<exists>t. (\<exists>p ts. (p, ts) \<in> set (path_to_torch t2p) \<and> t \<in> set ts) \<and> m \<in> set (dict_entries (torch_to_mlc (em_param_map ext)) t)}"
    unfolding mlc_groups_def by force
  also have "\<dots> = {m. \<exists>ts. (m, ts) \<in> set (em_param_map ext) \<and> set ts \<inter> fst ` set t2p \<noteq> {}}"
    unfolding torch_to_mlc_set path_to_torch_names by blast
  finally show ?thesis using foldl_add_new [of "[]"] unfolding loading_order_groups by simp
qed

lemma check_parameter_usage_ok:
  "check_parameter_usage m ws = Inr u \<longleftrightarrow>
   (\<forall>ts \<in> snd ` set (em_param_map m). set ts \<subseteq> set ws)
   \<and> u = str_sorted (filter (\<lambda>n. n \<notin> set (used_extern_names m) \<and> n \<notin> set (em_unused m)) (remdups ws))"
  by (auto simp: check_parameter_usage_def used_extern_names_def Let_def filter_empty_conv)

lemma runs_same: "runs (Some p) (replicate k p @ xs) = runs (Some p) xs"
  by (induction k) auto

lemma runs_blocks:
  "distinct ps \<Longrightarrow> (\<forall>p. c = Some p \<longrightarrow> p \<notin> set ps) \<Longrightarrow>
   runs c (concat (map (\<lambda>p. replicate (k p) p) ps)) = filter (\<lambda>p. 0 < k p) ps"
proof (induction ps arbitrary: c)
  case (Cons p ps)
  show ?case
  proof (cases "k p")
    case 0
    with Cons show ?thesis by auto
  next
    case (Suc j)
    have "runs (Some p) (concat (map (\<lambda>p. replicate (k p) p) ps)) = filter (\<lambda>p. 0 < k p) ps"
      using Cons.prems by (intro Cons.IH) auto
    with Suc Cons.prems show ?thesis by (auto simp: runs_same)
  qed
qed simp

lemma add_new_block:
  assumes "\<forall>n \<in> set g. f n = p"
  shows "\<exists>k. map f (foldl add_new acc g) = map f acc @ replicate k p"
  using assms
proof (induction g arbitrary: acc)
  case (Cons n g)
  have "\<exists>k. map f (foldl add_new (add_new acc n) g) = map f (add_new acc n) @ replicate k p"
    using Cons by auto
  moreover have "map f (add_new acc n) = map f acc \<or> map f (add_new acc n) = map f acc @ replicate 1 p"
    using Cons.prems by (auto simp: add_new_def)
  ultimately show ?case by (metis append.assoc foldl_Cons replicate_add)
qed (metis append.right_neutral foldl_Nil replicate_0)

lemma add_new_blocks:
  assumes "distinct ps" and "\<forall>p \<in> set ps. \<forall>n \<in> set (G p). f n = p"
  shows "\<exists>k. map f (foldl (foldl add_new) acc (map G ps)) = map f acc @ concat (map (\<lambda>p. replicate (k p) p) ps)"
  using assms
proof (induction ps arbitrary: acc)
  case (Cons p ps)
  obtain j where j: "map f (foldl add_new acc (G p)) = map f acc @ replicate j p"
    using add_new_block [of "G p" f p acc] Cons.prems(2) by auto
  obtain k where k: "map f (foldl (foldl add_new) (foldl add_new acc (G p)) (map G ps))
      = map f (foldl add_new acc (G p)) @ concat (map (\<lambda>p. replicate (k p) p) ps)"
    using Cons.IH [of "foldl add_new acc (G p)"] Cons.prems by auto
  have "concat (map (\<lambda>q. replicate ((k(p := j)) q) q) ps) = concat (map (\<lambda>q. replicate (k q) q) ps)"
    using Cons.prems(1) by (intro arg_cong [where f = concat] map_cong) auto
  then have "map f (foldl (foldl add_new) acc (map G (p # ps)))
      = map f acc @ concat (map (\<lambda>q. replicate ((k(p := j)) q) q) (p # ps))"
    using j k by (simp only: list.map concat.simps foldl_Cons) (simp del: fun_upd_apply, simp)
  then show ?case by blast
qed simp

lemma remdups_replicate_one: "remdups (p # replicate k p) = [p]"
  by (induction k) auto

lemma load_mlc_param_reads:
  assumes "loader_inv env ext P s" and "any_order ord" and "snd ` set (ld_torch_to_path s) \<subseteq> P"
    and src: "sources_in ext (ld_torch_to_path s) n p"
    and c: "map_of (ld_cached_files s) = (case c of None \<Rightarrow> Map.empty | Some q \<Rightarrow> [q \<mapsto> load_func env q])"
  shows "\<exists>s'. load_mlc_param env ext ord n s = (param_value env ext (ld_torch_to_path s) n, s')
    \<and> loader_inv env ext P s' \<and> ld_torch_to_path s' = ld_torch_to_path s
    \<and> map_of (ld_cached_files s') = [p \<mapsto> load_func env p] \<and> loads_of s' = loads_of s @ runs c [p]"
proof -
  obtain ts where ts: "dict_get (em_param_map ext) n = Inr ts" "ts \<noteq> []"
    "\<forall>t \<in> set ts. map_of (ld_torch_to_path s) t = Some p" using src by (auto simp: sources_in_def)
  have "res_map (dict_get (ld_torch_to_path s)) ts = Inr (replicate (length ts) p)"
    using ts(3) by (auto simp: res_map_Inr_iff list_all2_conv_all_nth dict_get_Inr)
  moreover obtain k where "length ts = Suc k" using ts(2) by (cases ts) auto
  then have req: "remdups (replicate (length ts) p) = [p]" and set: "set (replicate (length ts) p) = {p}"
    using remdups_replicate_one [of p k] by (simp_all add: set_replicate_conv_if)
  have one: "ord n [p] = [p]" 
    using any_order_set [OF assms(2), of n "[p]"] any_order_distinct [OF assms(2), of n "[p]"]
    by (cases "ord n [p]" rule: remdups_adj.cases) auto
  have none: "ord n [] = []" using assms(2) by (simp add: any_order_Nil)
  have cd: "p \<in> fst ` set (ld_cached_files s) \<longleftrightarrow> c = Some p"
    using c map_of_eq_None_iff [of "ld_cached_files s" p] by (auto split: option.splits if_splits)
  then have "missing_files ord s n (replicate (length ts) p) = runs c [p]"
    unfolding missing_files_def req using one none by auto
  ultimately show ?thesis
    using load_mlc_param_value [OF assms(1-3), of n] ts(1) set c
    by (auto simp: fun_eq_iff split: if_splits option.splits)
qed

lemma load_loop_reads:
  assumes "loader_inv env ext P s" and "any_order ord" and "snd ` set (ld_torch_to_path s) \<subseteq> P"
    and "\<forall>n \<in> set ns. sources_in ext (ld_torch_to_path s) n (f n)"
    and "map_of (ld_cached_files s) = (case c of None \<Rightarrow> Map.empty | Some q \<Rightarrow> [q \<mapsto> load_func env q])"
    and "load_loop env ext qmap funcs ord ns s = (out, Inr (), s')"
  shows "loads_of s' = loads_of s @ runs c (map f ns)"
  using assms
proof (induction ns arbitrary: s c out)
  case (Cons n ns)
  obtain s1 where s1: "load_mlc_param env ext ord n s = (param_value env ext (ld_torch_to_path s) n, s1)"
    "loader_inv env ext P s1" "ld_torch_to_path s1 = ld_torch_to_path s"
    "map_of (ld_cached_files s1) = [f n \<mapsto> load_func env (f n)]" "loads_of s1 = loads_of s @ runs c [f n]"
    using load_mlc_param_reads [OF Cons.prems(1-3) _ Cons.prems(5), of n "f n"] Cons.prems(4) by auto
  from Cons.prems(6) s1(1) obtain out1 where rest: "load_loop env ext qmap funcs ord ns s1 = (out1, Inr (), s')"
    by (auto split: sum.splits prod.splits)
  have "loads_of s' = loads_of s1 @ runs (Some (f n)) (map f ns)"
    using Cons.prems(2-4) s1(2-4) rest by (intro Cons.IH [where out = out1]) auto
  then show ?case using s1(5) by auto
qed simp

lemma load_all_unloads:
  assumes "loader_inv env ext P s"
  shows "\<exists>s'. py_for (map fst (ld_cached_files s)) (unload_file env) s = (Inr (), s') \<and> loader_inv env ext P s'
    \<and> loads_of s' = loads_of s"
proof -
  have "distinct (map fst (ld_cached_files s))" using assms by (simp add: loader_inv_def)
  from wc.unload_all [OF assms this] show ?thesis by (auto simp: map_of_eq_None_iff)
qed

lemma fresh_loader_inv: "files_ok env P \<Longrightarrow> loader_inv env ext P fresh_loader"
  by (simp add: loader_inv_def fresh_loader_def Stats_def gb_def loads_of_def map_filter_def)

lemma loader_inv_t2p [simp]: "loader_inv env ext P (s\<lparr>ld_torch_to_path := m\<rparr>) = loader_inv env ext P s"
  by (simp add: loader_inv_def loads_of_def)

lemma loader_init_inv:
  assumes "loader_init env ext p = Inr s" and "files_ok env P" and "path_suffix p = ''.json'' \<or> p \<in> P"
  shows "loader_inv env ext P s"
    and "check_parameter_usage ext (map fst (ld_torch_to_path s)) \<in> range Inr"
    and "path_suffix p = ''.json'' \<Longrightarrow> ld_cached_files s = [] \<and> loads_of s = []"
proof -
  have "\<exists>s'. load_file env ext p fresh_loader = (Inr (), s') \<and> loader_inv env ext P s'"
    if "path_suffix p \<noteq> ''.json''"
  proof -
    have "p \<in> P" "map_of (ld_cached_files fresh_loader) p = None"
      using that assms(3) by (auto simp: fresh_loader_def)
    from load_file_ok [OF fresh_loader_inv [OF assms(2)] this] show ?thesis by blast
  qed
  then show "loader_inv env ext P s" using assms(1) fresh_loader_inv [OF assms(2)]
    by (auto simp: loader_init_def res_bind_eq_Inr split: if_splits prod.splits sum.splits)
  show "check_parameter_usage ext (map fst (ld_torch_to_path s)) \<in> range Inr"
    using assms(1) by (auto simp: loader_init_def res_bind_eq_Inr)
  show "path_suffix p = ''.json'' \<Longrightarrow> ld_cached_files s = [] \<and> loads_of s = []"
    using assms(1) by (auto simp: loader_init_def res_bind_eq_Inr fresh_loader_def loads_of_def map_filter_def)
qed

lemma check_ok_sources:
  assumes "check_parameter_usage ext (map fst t2p) \<in> range Inr" and "(m, ts) \<in> set (em_param_map ext)" and "t \<in> set ts"
  shows "t \<in> fst ` set t2p"
  using assms by (fastforce simp: check_parameter_usage_ok)

lemma sources_in_together:
  assumes "sources_together ext t2p" and "(n, ts) \<in> set (em_param_map ext)" and "t \<in> set ts"
    and "(t, p) \<in> set t2p"
  shows "sources_in ext t2p n p"
proof -
  have "dict_get (em_param_map ext) n = Inr ts" using assms by (simp add: sources_together_def dict_get_def)
  moreover have "map_of t2p t = Some p" using assms by (simp add: sources_together_def)
  then have "\<forall>t' \<in> set ts. map_of t2p t' = Some p" using assms(1-3) by (fastforce simp: sources_together_def)
  ultimately show ?thesis using assms(3) by (auto simp: sources_in_def)
qed

lemma sources_in_unique: "sources_in ext t2p n p \<Longrightarrow> sources_in ext t2p n q \<Longrightarrow> p = q"
  by (fastforce simp: sources_in_def neq_Nil_conv)

lemma loading_order_runs:
  assumes "sources_together ext t2p" and "\<forall>n \<in> set (loading_order ext t2p). sources_in ext t2p n (f n)"
  shows "runs None (map f (loading_order ext t2p)) =
    filter (\<lambda>p. p \<in> f ` set (loading_order ext t2p)) (map fst (path_to_torch t2p))"
proof -
  let ?pt = "path_to_torch t2p" and ?o = "loading_order ext t2p"
  have d: "distinct (map fst ?pt)" using path_to_torch_props by blast
  define G where "G p = concat (map (dict_entries (torch_to_mlc (em_param_map ext)))
    (map fst (filter (\<lambda>(_, q). q = p) t2p)))" for p
  have gs: "mlc_groups ext t2p = map G (map fst ?pt)"
    unfolding mlc_groups_def G_def map_map by (rule map_cong) (auto simp: path_to_torch_entry)
  have "f n = p" if "n \<in> set (G p)" "p \<in> set (map fst ?pt)" for n p
  proof -
    from that(1) obtain t ts where t: "(t, p) \<in> set t2p" "(n, ts) \<in> set (em_param_map ext)" "t \<in> set ts"
      by (auto simp: G_def torch_to_mlc_set)
    have s: "sources_in ext t2p n p" by (rule sources_in_together [OF assms(1) t(2,3,1)])
    have "n \<in> set ?o" using t loading_order_props [of ext t2p] by force
    with assms(2) s show ?thesis using sources_in_unique by blast
  qed
  then obtain k where "map f (foldl (foldl add_new) [] (map G (map fst ?pt)))
      = map f [] @ concat (map (\<lambda>p. replicate (k p) p) (map fst ?pt))"
    using add_new_blocks [OF d, of G f "[]"] by blast
  then have k: "map f ?o = concat (map (\<lambda>p. replicate (k p) p) (map fst ?pt))"
    unfolding loading_order_groups gs foldl_concat by simp
  have "f ` set ?o = set (map f ?o)" by simp
  also have "\<dots> = {p \<in> set (map fst ?pt). 0 < k p}" unfolding k by (force split: if_splits)
  finally have "p \<in> set (map fst ?pt) \<Longrightarrow> 0 < k p \<longleftrightarrow> p \<in> f ` set ?o" for p by simp
  then show ?thesis unfolding k using runs_blocks [OF d, of None k] by (auto intro: filter_cong)
qed

lemma sample_init: "loader_init sample_weights sample_mapping ''m/index.json'' = Inr sample_loader"
  by code_simp

lemma sample_files:
  "load_func sample_weights ''m/a.bin'' = [(''q'', sample_tensor 0), (''k'', sample_tensor 2)]"
  "load_func sample_weights ''m/b.bin'' = [(''g'', sample_tensor 4)]"
  by code_simp+

lemma sample_itemsize: "we_itemsize sample_weights d = 4"
  by (simp add: sample_weights_def)

lemma sample_files_ok: "files_ok sample_weights {''m/a.bin'', ''m/b.bin''}"
  by (simp add: files_ok_def sample_files file_bytes_def nbytes_def t_size_def sample_tensor_def sample_itemsize)

lemma any_order_rev: "any_order (\<lambda>_. rev)"
  by (simp add: any_order_def)

lemma sample_suffix: "path_suffix ''m/index.json'' = ''.json''"
  by code_simp

lemma sample_t2p: "ld_torch_to_path sample_loader = [(''q'', ''m/a.bin''), (''g'', ''m/b.bin''), (''k'', ''m/a.bin'')]"
  by (simp add: sample_loader_def)

lemma sample_known: "snd ` set (ld_torch_to_path sample_loader) \<subseteq> {''m/a.bin'', ''m/b.bin''}"
  by (simp add: sample_t2p)

lemma sample_direct:
  "direct_loop (param_stream sample_weights sample_mapping None None (ld_torch_to_path sample_loader))
     (loading_order sample_mapping (ld_torch_to_path sample_loader)) = (sample_stream, Inr ())"
  by code_simp

lemma sample_together: "sources_together sample_mapping (ld_torch_to_path sample_loader)"
  by (simp add: sources_together_def sample_t2p sample_mapping_def add_mapping_def ExternMapping_def)

lemma load_reads_once:
  assumes "loader_init env ext p = Inr s" and "path_suffix p = ''.json''" and "files_ok env P"
    and "snd ` set (ld_torch_to_path s) \<subseteq> P" and "any_order ord"
    and "sources_together ext (ld_torch_to_path s)"
    and "load env ext qmap funcs ord s = (out, Inr (), s')"
  shows "loads_of s' = filter (\<lambda>q. \<exists>(m, ts) \<in> set (em_param_map ext). \<exists>t \<in> set ts. (t, q) \<in> set (ld_torch_to_path s))
                        (map fst (path_to_torch (ld_torch_to_path s)))
    \<and> distinct (loads_of s')
    \<and> total_param_num (ld_stats s') = sum_list (map (file_params env ext) (loads_of s'))"
proof -
  let ?t = "ld_torch_to_path s" and ?o = "loading_order ext (ld_torch_to_path s)"
  note i = loader_init_inv [OF assms(1,3)]
  have inv: "loader_inv env ext P s" and e: "ld_cached_files s = []" "loads_of s = []"
    and chk: "check_parameter_usage ext (map fst ?t) \<in> range Inr" using i assms(2) by auto
  define f where "f n = (THE q. sources_in ext ?t n q)" for n
  have f: "sources_in ext ?t n q \<Longrightarrow> f n = q" for n q
    unfolding f_def using sources_in_unique by (intro the_equality) blast+
  have ex: "\<exists>q. sources_in ext ?t n q" if o: "n \<in> set ?o" for n
  proof -
    obtain ts t where "(n, ts) \<in> set (em_param_map ext)" "t \<in> set ts" "t \<in> fst ` set ?t"
      using o loading_order_props [of ext ?t] by blast
    then show ?thesis using sources_in_together [OF assms(6)] by fastforce
  qed
  then have src: "\<forall>n \<in> set ?o. sources_in ext ?t n (f n)" using f by metis
  obtain out1 s1 where l: "load_loop env ext qmap funcs ord ?o s = (out1, Inr (), s1)"
    and u: "\<exists>r. py_for (map fst (ld_cached_files s1)) (unload_file env) s1 = (r, s')"
    using assms(7) by (auto simp: load_def split: prod.splits sum.splits)
  have inv1: "loader_inv env ext P s1" using load_loop_direct [OF inv assms(5,4)] l by (metis prod.inject)
  have "loads_of s1 = loads_of s @ runs None (map f ?o)"
    using load_loop_reads [OF inv assms(5,4) src _ l, of None] e by simp
  then have loads: "loads_of s' = filter (\<lambda>q. q \<in> f ` set ?o) (map fst (path_to_torch ?t))"
    using load_all_unloads [OF inv1] u e loading_order_runs [OF assms(6) src] by auto
  have total: "total_param_num (ld_stats s') = sum_list (map (file_params env ext) (loads_of s'))"
    using load_all_unloads [OF inv1] u by (auto simp: loader_inv_def)
  have "q \<in> f ` set ?o \<longleftrightarrow> (\<exists>(m, ts) \<in> set (em_param_map ext). \<exists>t \<in> set ts. (t, q) \<in> set ?t)" for q
  proof
    assume "q \<in> f ` set ?o"
    then obtain n ts where n: "map_of (em_param_map ext) n = Some ts" "ts \<noteq> []" "\<forall>t \<in> set ts. map_of ?t t = Some q"
      using src by (auto simp: sources_in_def dict_get_Inr)
    then have "hd ts \<in> set ts" "(hd ts, q) \<in> set ?t" by (auto dest: map_of_SomeD)
    with map_of_SomeD [OF n(1)] show "\<exists>(m, ts) \<in> set (em_param_map ext). \<exists>t \<in> set ts. (t, q) \<in> set ?t" by blast
  next
    assume "\<exists>(m, ts) \<in> set (em_param_map ext). \<exists>t \<in> set ts. (t, q) \<in> set ?t"
    then obtain m ts t where m: "(m, ts) \<in> set (em_param_map ext)" "t \<in> set ts" "(t, q) \<in> set ?t" by auto
    then have "m \<in> set ?o" using loading_order_props [of ext ?t] by force
    moreover have "f m = q" using f sources_in_together [OF assms(6) m] by blast
    ultimately show "q \<in> f ` set ?o" by blast
  qed
  then show ?thesis using loads total path_to_torch_props [of ?t] by auto
qed

section \<open>Properties\<close>

text \<open>C22: the loader is transparent. Whatever order the sets of files are iterated in, what it yields,
  and the error it may end with, is what reading every source straight from its file would give, in
  the loading order. When it ends well no file is left in memory and the memory count is exactly
  zero.\<close>

theorem loader_transparent:
  assumes "loader_init env ext p = Inr s" and "files_ok env P" and "path_suffix p = ''.json'' \<or> p \<in> P"
    and "snd ` set (ld_torch_to_path s) \<subseteq> P" and "any_order ord"
    and "load env ext qmap funcs ord s = (out, r, s')"
  shows "(out, r) = direct_loop (param_stream env ext qmap funcs (ld_torch_to_path s))
                      (loading_order ext (ld_torch_to_path s))
    \<and> (r = Inr () \<longrightarrow> ld_cached_files s' = [] \<and> current_memory_gb (ld_stats s') = Finite 0)"
  using load_direct [OF loader_init_inv(1) [OF assms(1-3)] assms(5,4,6)] by blast

theorem loader_transparent_witness:
  "\<exists>s'. load sample_weights sample_mapping None None (\<lambda>_. rev) sample_loader = (sample_stream, Inr (), s')
     \<and> ld_cached_files s' = [] \<and> current_memory_gb (ld_stats s') = Finite 0"
proof -
  obtain out r s' where l: "load sample_weights sample_mapping None None (\<lambda>_. rev) sample_loader = (out, r, s')"
    by (metis prod.exhaust)
  show ?thesis
    using loader_transparent [OF sample_init sample_files_ok _ sample_known any_order_rev l] l
    by (simp add: sample_suffix sample_direct)
qed

text \<open>Once the loader is created every parameter with a source is visited exactly once, and no
  other; a parameter that the mapping gives no source never is.\<close>

theorem loading_order_complete:
  assumes "loader_init env ext p = Inr s"
  shows "distinct (loading_order ext (ld_torch_to_path s))
    \<and> set (loading_order ext (ld_torch_to_path s)) = {m. \<exists>ts. (m, ts) \<in> set (em_param_map ext) \<and> ts \<noteq> []}"
proof -
  have "check_parameter_usage ext (map fst (ld_torch_to_path s)) \<in> range Inr"
    using assms by (auto simp: loader_init_def res_bind_eq_Inr)
  then have "set ts \<inter> fst ` set (ld_torch_to_path s) \<noteq> {} \<longleftrightarrow> ts \<noteq> []" if "(m, ts) \<in> set (em_param_map ext)" for m ts
    using that check_ok_sources [OF _ that] by (cases ts) auto
  then show ?thesis using loading_order_props [of ext "ld_torch_to_path s"] by auto
qed

theorem loading_order_complete_witness:
  "set (loading_order sample_mapping (ld_torch_to_path sample_loader)) = {''qk'', ''mlp''}"
  using loading_order_complete [OF sample_init]
  by (auto simp: sample_mapping_def add_mapping_def ExternMapping_def)

text \<open>C23: when the sources of each parameter are in one file, the loading order makes the loader read
  every file that has a source, each exactly once, in the order of the index, and the number of
  parameters it reports is the number of those in these files.\<close>

theorem files_read_once:
  assumes "loader_init env ext p = Inr s" and "path_suffix p = ''.json''" and "files_ok env P"
    and "snd ` set (ld_torch_to_path s) \<subseteq> P" and "any_order ord"
    and "sources_together ext (ld_torch_to_path s)"
    and "load env ext qmap funcs ord s = (out, Inr (), s')"
  shows "loads_of s' = filter (\<lambda>q. \<exists>(m, ts) \<in> set (em_param_map ext). \<exists>t \<in> set ts. (t, q) \<in> set (ld_torch_to_path s))
                        (map fst (path_to_torch (ld_torch_to_path s)))
    \<and> distinct (loads_of s')
    \<and> total_param_num (ld_stats s') = sum_list (map (file_params env ext) (loads_of s'))"
  using load_reads_once [OF assms] .

theorem files_read_once_witness:
  "\<exists>out s'. load sample_weights sample_mapping None None (\<lambda>_. rev) sample_loader = (out, Inr (), s')
     \<and> loads_of s' = [''m/a.bin'', ''m/b.bin'']"
proof -
  obtain out r s' where l: "load sample_weights sample_mapping None None (\<lambda>_. rev) sample_loader = (out, r, s')"
    by (metis prod.exhaust)
  have inv: "loader_inv sample_weights sample_mapping {''m/a.bin'', ''m/b.bin''} sample_loader"
    using loader_init_inv(1) [OF sample_init sample_files_ok] sample_suffix by blast
  have "(out, r) = (sample_stream, Inr ())"
    using load_direct(1) [OF inv any_order_rev sample_known l] by (simp add: sample_direct)
  then have l': "load sample_weights sample_mapping None None (\<lambda>_. rev) sample_loader = (out, Inr (), s')"
    using l by simp
  have p: "map fst (path_to_torch (ld_torch_to_path sample_loader)) = [''m/a.bin'', ''m/b.bin'']"
    unfolding sample_t2p by code_simp
  show ?thesis
    using files_read_once [OF sample_init sample_suffix sample_files_ok sample_known any_order_rev sample_together l'] l'
    unfolding p by (auto simp: sample_t2p sample_mapping_def add_mapping_def ExternMapping_def)
qed

end
