(* ===== verification/Weight_Convert.thy ===== *)
theory Weight_Convert
  imports Weight_Loader
begin

text \<open>
  The conversion of weights around the loader: support/preshard.py, interface/convert\_weight.py, the
  two mappings of model/llama/llama\_loader.py and the search for the weight files of
  support/auto\_weight.py. The theorems say that a conversion succeeds exactly when the loader yields
  the parameters of the model, what it then writes, and that the mappings cover their model.
\<close>

section \<open>Pre-sharding\<close>

datatype dim = DInt nat | DVar string

record named_param =
  np_shape :: "dim list"
  np_dtype :: string
  np_shard_strategy :: "string option"

text \<open>\<open>range(n)\<close> for an integer.\<close>

definition py_range :: "int \<Rightarrow> nat list" where
  "py_range n = [0..<nat n]"

text \<open>
  \<open>apply_preshard\<close>: \<open>vm\<close> gives the compiled function of a shard strategy, which splits a weight into
  the shards.
\<close>

definition preshard_name ::
  "int \<Rightarrow> (string \<Rightarrow> 'd tensor \<Rightarrow> 'd tensor list) \<Rightarrow> (string \<times> named_param) list \<times> 'd shard_funcs
     \<Rightarrow> string \<times> named_param \<Rightarrow> (string \<times> named_param) list \<times> 'd shard_funcs" where
  "preshard_name shards vm acc np =
     (case np_shard_strategy (snd np) of
        Some strategy \<Rightarrow>
          (foldl (\<lambda>d i. dict_set d (sharded_param_name (fst np) i) (snd np)) (fst acc) (py_range shards),
           dict_set (snd acc) (fst np) (vm strategy))
      | None \<Rightarrow> (dict_set (fst acc) (fst np) (snd np), snd acc))"

definition apply_preshard ::
  "(string \<Rightarrow> 'd tensor \<Rightarrow> 'd tensor list) \<Rightarrow> (string \<times> named_param) list \<Rightarrow> int
     \<Rightarrow> (string \<times> named_param) list \<times> 'd shard_funcs" where
  "apply_preshard vm named_params tensor_parallel_shards =
     foldl (preshard_name tensor_parallel_shards vm) ([], []) named_params"

section \<open>Weight conversion\<close>

fun check_dims :: "nat list \<Rightarrow> dim list \<Rightarrow> bool" where
  "check_dims (a # as) (DInt e # es) = (if a \<noteq> e then False else check_dims as es)"
| "check_dims (a # as) (DVar _ # es) = check_dims as es"
| "check_dims _ _ = True"

definition check_shape :: "nat list \<Rightarrow> dim list \<Rightarrow> bool" where
  "check_shape actual expect = (if length actual \<noteq> length expect then False else check_dims actual expect)"

fun show_dim :: "dim \<Rightarrow> string" where
  "show_dim (DInt n) = str_of_nat n"
| "show_dim (DVar v) = v"

definition show_shape :: "nat list \<Rightarrow> string" where
  "show_shape s = (if length s = 1 then ''('' @ str_of_nat (hd s) @ '',)''
                   else ''('' @ py_join '', '' (map str_of_nat s) @ '')'')"

definition show_dims :: "dim list \<Rightarrow> string" where
  "show_dims s = ''['' @ py_join '', '' (map show_dim s) @ '']''"

record convert_state =
  cs_named_params :: "(string \<times> named_param) list"
  cs_param_names :: "string list"
  cs_total_bytes :: py_float

text \<open>\<open>_check_param\<close>, and the rest of the body of the loop in \<open>_param_generator\<close>.\<close>

definition check_param :: "string \<Rightarrow> 'd tensor \<Rightarrow> convert_state \<Rightarrow> convert_state res" where
  "check_param name param s =
     (case map_of (cs_named_params s) name of
        None \<Rightarrow> Inl (ValueError (''Parameter not found in model: '' @ name))
      | Some np \<Rightarrow>
          if name \<in> set (cs_param_names s)
          then Inl (ValueError (''Duplication: Parameter '' @ name @ '' already computed''))
          else if \<not> check_shape (t_shape param) (np_shape np)
          then Inl (ValueError (''Parameter '' @ name @ '' has shape '' @ show_shape (t_shape param)
                 @ '', but expected '' @ show_dims (np_shape np)))
          else if t_dtype param \<noteq> np_dtype np
          then Inl (ValueError (''Parameter '' @ name @ '' has dtype '' @ t_dtype param
                 @ '', but expected '' @ np_dtype np))
          else Inr (s\<lparr>cs_named_params := filter (\<lambda>(n, _). n \<noteq> name) (cs_named_params s)\<rparr>))"

definition add_bytes :: "'d weight_env \<Rightarrow> 'd tensor \<Rightarrow> convert_state \<Rightarrow> convert_state res" where
  "add_bytes env param s =
     res_bind (float_of_int (int (nbytes env param))) (\<lambda>b.
       Inr (s\<lparr>cs_total_bytes := float_add (cs_total_bytes s) b\<rparr>))"

definition param_step ::
  "'d weight_env \<Rightarrow> ('d tensor \<Rightarrow> 'd tensor) \<Rightarrow> convert_state \<Rightarrow> string \<times> 'd tensor \<Rightarrow> convert_state res" where
  "param_step env copyto s = (\<lambda>(name, param).
     res_bind (check_param name param s) (\<lambda>s.
       add_bytes env (copyto param) (s\<lparr>cs_param_names := cs_param_names s @ [name]\<rparr>)))"

record 'd converted =
  cv_params :: "(string \<times> 'd tensor) list"
  cv_param_size :: nat
  cv_param_bytes :: py_float
  cv_bits_per_param :: py_float

definition bits_per_param :: "py_float \<Rightarrow> nat \<Rightarrow> py_float res" where
  "bits_per_param total_bytes total_params =
     res_bind (float_of_int (int total_params)) (\<lambda>n. float_div (float_mul total_bytes (Finite 8)) n)"

text \<open>
  The arguments of a conversion. \<open>ca_quantize\<close> stands for the construction of the quantized model and
  its export, given the number of shards that replaces the one of the configuration;
  \<open>ca_source\<close> for the mapping of the source format, and \<open>ca_copyto\<close> for the copy to the host.
\<close>

record 'd conversion_args =
  ca_quantization_kind :: string
  ca_tensor_parallel_shards :: "int option"
  ca_quantize :: "int option \<Rightarrow> (string \<times> named_param) list \<times> 'd quantize_mapping"
  ca_source :: "int option \<Rightarrow> 'd extern_mapping res"
  ca_path :: path
  ca_vm :: "string \<Rightarrow> 'd tensor \<Rightarrow> 'd tensor list"
  ca_copyto :: "'d tensor \<Rightarrow> 'd tensor"

definition is_ft_sharded :: "'d conversion_args \<Rightarrow> bool" where
  "is_ft_sharded args \<longleftrightarrow> ca_quantization_kind args = ''ft-quant''
     \<and> (case ca_tensor_parallel_shards args of None \<Rightarrow> False | Some n \<Rightarrow> 1 < n)"

definition sharded_model ::
  "'d conversion_args \<Rightarrow> int option \<Rightarrow> (string \<times> named_param) list \<times> 'd shard_funcs option" where
  "sharded_model args pre =
     (let named_params = dict_update [] (fst (ca_quantize args pre))
      in case pre of
           None \<Rightarrow> (named_params, None)
         | Some n \<Rightarrow> (case apply_preshard (ca_vm args) named_params n of (np, fs) \<Rightarrow> (np, Some fs)))"

definition param_generator ::
  "'d weight_env \<Rightarrow> (string \<Rightarrow> path list \<Rightarrow> path list) \<Rightarrow> 'd conversion_args \<Rightarrow> int option \<Rightarrow> convert_state
     \<Rightarrow> ((string \<times> 'd tensor) list \<times> convert_state \<times> nat) res" where
  "param_generator env ord args pre s =
     res_bind (ca_source args pre) (\<lambda>ext.
     res_bind (loader_init env ext (ca_path args)) (\<lambda>ld.
       case load env ext (Some (snd (ca_quantize args pre))) (snd (sharded_model args pre)) ord ld of (out, r, ld') \<Rightarrow>
         res_bind (res_fold (param_step env (ca_copyto args)) s out) (\<lambda>s'.
         res_bind r (\<lambda>_. Inr (map (\<lambda>(n, t). (n, ca_copyto args t)) out, s', total_param_num (ld_stats ld'))))))"

definition parse_shards :: "string option \<Rightarrow> int option res" where
  "parse_shards pre_shards_num =
     (case pre_shards_num of None \<Rightarrow> Inr None | Some t \<Rightarrow> res_bind (int_of_str t) (\<lambda>n. Inr (Some n)))"

definition convert_args ::
  "'d weight_env \<Rightarrow> (string \<Rightarrow> path list \<Rightarrow> path list) \<Rightarrow> string option \<Rightarrow> 'd conversion_args \<Rightarrow> 'd converted res" where
  "convert_args env ord pre_shards_num args =
     (if is_ft_sharded args then Inl NotImplementedError
      else res_bind (parse_shards pre_shards_num) (\<lambda>pre.
        res_bind (param_generator env ord args pre
          \<lparr>cs_named_params = fst (sharded_model args pre), cs_param_names = [], cs_total_bytes = Finite 0\<rparr>)
          (\<lambda>(params, s, total_params).
        res_bind (bits_per_param (cs_total_bytes s) total_params) (\<lambda>bits.
        if cs_named_params s \<noteq> []
        then Inl (ValueError (''Parameter not found in source: '' @ py_join '', '' (map fst (cs_named_params s))))
        else Inr \<lparr>cv_params = params, cv_param_size = length (cs_param_names s), cv_param_bytes = cs_total_bytes s,
                  cv_bits_per_param = bits\<rparr>))))"

section \<open>The mapping of Llama\<close>

record 'd numpy_ops =
  nd_concatenate :: "nat \<Rightarrow> 'd tensor list \<Rightarrow> 'd tensor res"
  nd_astype :: "string \<Rightarrow> 'd tensor \<Rightarrow> 'd tensor"

definition layer_attn :: "nat \<Rightarrow> string" where
  "layer_attn i = ''model.layers.'' @ str_of_nat i @ ''.self_attn''"

definition layer_mlp :: "nat \<Rightarrow> string" where
  "layer_mlp i = ''model.layers.'' @ str_of_nat i @ ''.mlp''"

definition add_concat ::
  "'d numpy_ops \<Rightarrow> (string \<times> string) list \<Rightarrow> nat \<Rightarrow> string \<Rightarrow> string list \<Rightarrow> 'd extern_mapping \<Rightarrow> 'd extern_mapping res" where
  "add_concat nd named axis mlc_name sources m =
     res_bind (dict_get named mlc_name) (\<lambda>dtype.
       Inr (add_mapping mlc_name sources
              (\<lambda>ts. res_bind (nd_concatenate nd axis ts) (\<lambda>t. Inr (nd_astype nd dtype t))) m))"

definition add_plain :: "'d numpy_ops \<Rightarrow> 'd extern_mapping \<Rightarrow> string \<times> string \<Rightarrow> 'd extern_mapping" where
  "add_plain nd m = (\<lambda>(mlc_name, dtype).
     if mlc_name \<in> fst ` set (em_param_map m) then m
     else add_mapping mlc_name [mlc_name]
            (\<lambda>ts. case ts of [x] \<Rightarrow> Inr (nd_astype nd dtype x) | _ \<Rightarrow> Inl (TypeError ''arguments'')) m)"

definition llama_layer ::
  "'d numpy_ops \<Rightarrow> (string \<times> string) list \<Rightarrow> 'd extern_mapping \<Rightarrow> nat \<Rightarrow> 'd extern_mapping res" where
  "llama_layer nd named m i =
     res_bind (add_concat nd named 0 (layer_attn i @ ''.qkv_proj.weight'')
        [layer_attn i @ ''.q_proj.weight'', layer_attn i @ ''.k_proj.weight'', layer_attn i @ ''.v_proj.weight''] m) (\<lambda>m.
     res_bind (add_concat nd named 0 (layer_mlp i @ ''.gate_up_proj.weight'')
        [layer_mlp i @ ''.gate_proj.weight'', layer_mlp i @ ''.up_proj.weight''] m) (\<lambda>m.
     Inr (add_unused (layer_attn i @ ''.rotary_emb.inv_freq'') m)))"

text \<open>\<open>named\<close>: the names and types of the parameters that the model exports.\<close>

definition llama_huggingface ::
  "'d numpy_ops \<Rightarrow> nat \<Rightarrow> (string \<times> string) list \<Rightarrow> 'd extern_mapping res" where
  "llama_huggingface nd num_hidden_layers named =
     res_bind (res_fold (llama_layer nd named) ExternMapping [0..<num_hidden_layers]) (\<lambda>m.
       Inr (foldl (add_plain nd) m named))"

definition awq_concat ::
  "'d numpy_ops \<Rightarrow> (string \<times> string) list \<Rightarrow> string \<Rightarrow> string list \<Rightarrow> 'd extern_mapping \<Rightarrow> string \<Rightarrow> 'd extern_mapping res" where
  "awq_concat nd named fused parts m quantize_suffix =
     res_bind (res_assert (fused @ quantize_suffix \<in> fst ` set named) []) (\<lambda>_.
       add_concat nd named 1 (fused @ quantize_suffix) (map (\<lambda>p. p @ quantize_suffix) parts) m)"

definition awq_layer ::
  "'d numpy_ops \<Rightarrow> (string \<times> string) list \<Rightarrow> 'd extern_mapping \<Rightarrow> nat \<Rightarrow> 'd extern_mapping res" where
  "awq_layer nd named m i =
     (let suffixes = [''qweight'', ''qzeros'', ''scales'']
      in res_bind (res_fold (awq_concat nd named (layer_attn i @ ''.qkv_proj.'')
             [layer_attn i @ ''.q_proj.'', layer_attn i @ ''.k_proj.'', layer_attn i @ ''.v_proj.'']) m suffixes) (\<lambda>m.
         res_bind (res_fold (awq_concat nd named (layer_mlp i @ ''.gate_up_proj.'')
             [layer_mlp i @ ''.gate_proj.'', layer_mlp i @ ''.up_proj.'']) m suffixes) (\<lambda>m.
         Inr (add_unused (layer_attn i @ ''.rotary_emb.inv_freq'') m))))"

definition llama_awq :: "'d numpy_ops \<Rightarrow> nat \<Rightarrow> (string \<times> string) list \<Rightarrow> 'd extern_mapping res" where
  "llama_awq nd num_hidden_layers named =
     res_bind (res_fold (awq_layer nd named) ExternMapping [0..<num_hidden_layers]) (\<lambda>m.
       Inr (foldl (add_plain nd) m named))"

section \<open>Finding the weights\<close>

text \<open>
  The files that exist, with the JSON ones that the search itself writes; the names in a safetensors
  file are those of \<open>we_safetensor\<close>.
\<close>

record weight_fs =
  fs_exists :: "path \<Rightarrow> bool"
  fs_written :: "(path \<times> json) list"

definition fs_has :: "path \<Rightarrow> weight_fs \<Rightarrow> bool" where
  "fs_has p fs \<longleftrightarrow> fs_exists fs p \<or> p \<in> fst ` set (fs_written fs)"

definition check_pytorch :: "path \<Rightarrow> (weight_fs, path option) py" where
  "check_pytorch weight_path =
     py_get (\<lambda>fs.
       if fs_has (path_join weight_path ''pytorch_model.bin.index.json'') fs
       then Some (path_join weight_path ''pytorch_model.bin.index.json'')
       else if fs_has (path_join weight_path ''pytorch_model.bin'') fs
       then Some (path_join weight_path ''pytorch_model.bin'')
       else None)"

definition check_safetensor :: "'d weight_env \<Rightarrow> path \<Rightarrow> (weight_fs, path option) py" where
  "check_safetensor env weight_path =
     (let safetensor_json_path = path_join weight_path ''model.safetensors.index.json'';
          safetensor_file_path = path_join weight_path ''model.safetensors''
      in py_bind (py_get (fs_has safetensor_json_path)) (\<lambda>has_json.
         if has_json then py_return (Some safetensor_json_path)
         else py_bind (py_get (fs_has safetensor_file_path)) (\<lambda>has_file.
           if has_file
           then py_bind (py_modify (\<lambda>fs. fs\<lparr>fs_written := fs_written fs @
                  [(safetensor_json_path, JObj [(''weight_map'',
                     JObj (map (\<lambda>(k, _). (k, JStr ''model.safetensors'')) (we_safetensor env safetensor_file_path)))])]\<rparr>))
                (\<lambda>_. py_return (Some safetensor_json_path))
           else py_return None)))"

definition CHECK_FORMAT_METHODS :: "'d weight_env \<Rightarrow> (string \<times> (path \<Rightarrow> (weight_fs, path option) py)) list" where
  "CHECK_FORMAT_METHODS env =
     [(''huggingface-torch'', check_pytorch), (''huggingface-safetensor'', check_safetensor env)]"

definition AVAILABLE_WEIGHT_FORMAT :: "string list" where
  "AVAILABLE_WEIGHT_FORMAT = [''huggingface-torch'', ''huggingface-safetensor'', ''awq'']"

definition guess_weight_format :: "'d weight_env \<Rightarrow> path \<Rightarrow> (weight_fs, path \<times> string) py" where
  "guess_weight_format env weight_path =
     py_bind (py_fold (\<lambda>possible (weight_format, check_func).
         py_bind (check_func weight_path) (\<lambda>found.
           py_return (case found of None \<Rightarrow> possible | Some p \<Rightarrow> possible @ [(p, weight_format)])))
       [] (CHECK_FORMAT_METHODS env)) (\<lambda>possible.
     case possible of
       [] \<Rightarrow> py_raise (ValueError (''Fail to detect source weight format. ''
               @ ''Use `--source-format` to explicitly specify the format.''))
     | best # _ \<Rightarrow> py_return best)"

definition existing_weight_path :: "path \<Rightarrow> (weight_fs, path) py" where
  "existing_weight_path p =
     py_bind (py_get (fs_has p)) (\<lambda>b.
       if b then py_return p else py_raise (ValueError (''weight_path doesn't exist: '' @ p)))"

definition config_weight_path :: "(path \<Rightarrow> json res) \<Rightarrow> path \<Rightarrow> (weight_fs, path) py" where
  "config_weight_path read config_json_path =
     py_bind (py_lift (read config_json_path)) (\<lambda>j. case j of
       JObj d \<Rightarrow> (case map_of d ''weight_path'' of
           None \<Rightarrow> py_return (path_parent config_json_path)
         | Some (JStr p) \<Rightarrow> existing_weight_path p
         | Some _ \<Rightarrow> py_raise (TypeError ''expected str, bytes or os.PathLike object''))
     | _ \<Rightarrow> py_raise (TypeError ''argument is not iterable''))"

definition detect_weight ::
  "'d weight_env \<Rightarrow> path option \<Rightarrow> path option \<Rightarrow> string \<Rightarrow> (weight_fs, path \<times> string) py" where
  "detect_weight env weight_path config_json_path weight_format =
     py_bind
       (case weight_path of
          None \<Rightarrow> (case config_json_path of
              None \<Rightarrow> py_raise (AssertionError ''Please provide config.json path.'')
            | Some c \<Rightarrow> py_bind (py_get (fs_has c)) (\<lambda>b.
                py_bind (py_assert b ''Please provide config.json path.'') (\<lambda>_. config_weight_path (we_json env) c)))
        | Some p \<Rightarrow> existing_weight_path p) (\<lambda>weight_path.
     if weight_format = ''auto'' then guess_weight_format env weight_path
     else if weight_format \<notin> set AVAILABLE_WEIGHT_FORMAT
     then py_raise (ValueError (''Available weight format list: ['huggingface-torch', 'huggingface-safetensor', 'awq'], but got ''
       @ weight_format))
     else case map_of (CHECK_FORMAT_METHODS env) weight_format of
            Some check_func \<Rightarrow> py_bind (check_func weight_path) (\<lambda>found. case found of
                None \<Rightarrow> py_raise (ValueError (''The weight is not in '' @ weight_format @ '' format.''))
              | Some p \<Rightarrow> py_return (p, weight_format))
          | None \<Rightarrow> py_return (weight_path, weight_format))"

section \<open>Specifications and samples\<close>

definition fits :: "(string \<times> named_param) list \<Rightarrow> string \<times> 'd tensor \<Rightarrow> bool" where
  "fits named = (\<lambda>(n, t). case map_of named n of
     None \<Rightarrow> False | Some np \<Rightarrow> check_shape (t_shape t) (np_shape np) \<and> t_dtype t = np_dtype np)"

text \<open>A mapping for some of the parameters of a model: each has sources and one function.\<close>

definition mapping_within :: "(string \<times> string) list \<Rightarrow> 'd extern_mapping \<Rightarrow> bool" where
  "mapping_within named m \<longleftrightarrow>
     distinct (map fst (em_param_map m)) \<and> map fst (em_map_func m) = map fst (em_param_map m)
     \<and> fst ` set (em_param_map m) \<subseteq> fst ` set named \<and> [] \<notin> snd ` set (em_param_map m)"

definition shard_names :: "int \<Rightarrow> string \<times> named_param \<Rightarrow> string set" where
  "shard_names n = (\<lambda>(name, np). case np_shard_strategy np of
     None \<Rightarrow> {name} | Some _ \<Rightarrow> sharded_param_name name ` {0..<nat n})"

text \<open>
  The value of a parameter of Llama: the joint projections are the projections of the source, joined in
  this order along the rows, any other parameter is the tensor of the same name, and each is cast to the
  type of the model.
\<close>

definition llama_value ::
  "'d numpy_ops \<Rightarrow> nat \<Rightarrow> (string \<Rightarrow> 'd tensor res) \<Rightarrow> string \<Rightarrow> string \<Rightarrow> 'd tensor \<Rightarrow> bool" where
  "llama_value nd n file name dtype t \<longleftrightarrow>
     (\<exists>i < n. name = layer_attn i @ ''.qkv_proj.weight'' \<and> (\<exists>q k v c. file (layer_attn i @ ''.q_proj.weight'') = Inr q
        \<and> file (layer_attn i @ ''.k_proj.weight'') = Inr k \<and> file (layer_attn i @ ''.v_proj.weight'') = Inr v
        \<and> nd_concatenate nd 0 [q, k, v] = Inr c \<and> t = nd_astype nd dtype c))
     \<or> (\<exists>i < n. name = layer_mlp i @ ''.gate_up_proj.weight'' \<and> (\<exists>g u c. file (layer_mlp i @ ''.gate_proj.weight'') = Inr g
        \<and> file (layer_mlp i @ ''.up_proj.weight'') = Inr u
        \<and> nd_concatenate nd 0 [g, u] = Inr c \<and> t = nd_astype nd dtype c))
     \<or> (\<forall>i < n. name \<noteq> layer_attn i @ ''.qkv_proj.weight'' \<and> name \<noteq> layer_mlp i @ ''.gate_up_proj.weight'')
       \<and> (\<exists>x. file name = Inr x \<and> t = nd_astype nd dtype x)"

text \<open>The entry of a joint projection of one of some layers, and a mapping that has all of these and no other.\<close>

definition fused_entry ::
  "'d numpy_ops \<Rightarrow> (string \<times> string) list \<Rightarrow> nat set \<Rightarrow> string \<Rightarrow> string list \<Rightarrow> ('d tensor list \<Rightarrow> 'd tensor res) \<Rightarrow> bool" where
  "fused_entry nd named S name ts f \<longleftrightarrow>
     (\<exists>i \<in> S. \<exists>dtype. map_of named name = Some dtype
        \<and> f = (\<lambda>ts. res_bind (nd_concatenate nd 0 ts) (\<lambda>t. Inr (nd_astype nd dtype t)))
        \<and> (name = layer_attn i @ ''.qkv_proj.weight'' \<and> ts = [layer_attn i @ ''.q_proj.weight'',
              layer_attn i @ ''.k_proj.weight'', layer_attn i @ ''.v_proj.weight'']
           \<or> name = layer_mlp i @ ''.gate_up_proj.weight'' \<and> ts = [layer_mlp i @ ''.gate_proj.weight'', layer_mlp i @ ''.up_proj.weight'']))"

definition llama_fused :: "'d numpy_ops \<Rightarrow> (string \<times> string) list \<Rightarrow> nat set \<Rightarrow> 'd extern_mapping \<Rightarrow> bool" where
  "llama_fused nd named S m \<longleftrightarrow>
     (\<forall>i \<in> S. layer_attn i @ ''.qkv_proj.weight'' \<in> dom (map_of (em_param_map m))
        \<and> layer_mlp i @ ''.gate_up_proj.weight'' \<in> dom (map_of (em_param_map m)))
     \<and> (\<forall>name ts f. map_of (em_param_map m) name = Some ts \<longrightarrow> map_of (em_map_func m) name = Some f \<longrightarrow> fused_entry nd named S name ts f)"

definition sample_named :: "(string \<times> named_param) list" where
  "sample_named =
     [(''qk'', \<lparr>np_shape = [DInt 4], np_dtype = ''float32'', np_shard_strategy = None\<rparr>),
      (''mlp'', \<lparr>np_shape = [DVar ''n''], np_dtype = ''float32'', np_shard_strategy = Some ''rows''\<rparr>)]"

definition sample_args :: "nat list conversion_args" where
  "sample_args = \<lparr>ca_quantization_kind = ''no-quant'', ca_tensor_parallel_shards = Some 1,
     ca_quantize = (\<lambda>_. (sample_named, \<lparr>qm_param_map = [], qm_map_func = []\<rparr>)),
     ca_source = (\<lambda>_. Inr sample_mapping), ca_path = ''m/index.json'', ca_vm = (\<lambda>_ t. [t, t]), ca_copyto = id\<rparr>"

definition sample_llama_named :: "(string \<times> string) list" where
  "sample_llama_named = [(''model.layers.0.self_attn.qkv_proj.weight'', ''float16''),
     (''model.layers.0.mlp.gate_up_proj.weight'', ''float16''), (''lm_head.weight'', ''float16'')]"

definition sample_numpy :: "nat list numpy_ops" where
  "sample_numpy = \<lparr>nd_concatenate = (\<lambda>_. sample_concat), nd_astype = (\<lambda>d t. t\<lparr>t_dtype := d\<rparr>)\<rparr>"

definition sample_sources :: "string list" where
  "sample_sources = [''model.layers.0.self_attn.q_proj.weight'', ''model.layers.0.self_attn.k_proj.weight'',
      ''model.layers.0.self_attn.v_proj.weight'', ''model.layers.0.mlp.gate_proj.weight'',
      ''model.layers.0.mlp.up_proj.weight'', ''lm_head.weight'']"

definition sample_llama_weights :: "nat list weight_env" where
  "sample_llama_weights = sample_weights\<lparr>
     we_torch := (\<lambda>p. map (\<lambda>(i, n). (n, Some (sample_tensor i))) (enumerate 0 sample_sources)),
     we_json := (\<lambda>_. Inr (JObj [(''weight_map'', JObj (map (\<lambda>n. (n, JStr ''a.bin'')) sample_sources))]))\<rparr>"

section \<open>Lemmas\<close>

lemma check_dims_iff:
  "length as = length es \<Longrightarrow> check_dims as es \<longleftrightarrow> list_all2 (\<lambda>a e. \<forall>k. e = DInt k \<longrightarrow> a = k) as es"
  by (induction as es rule: check_dims.induct) auto

lemma check_shape_iff: "check_shape as es \<longleftrightarrow> list_all2 (\<lambda>a e. \<forall>k. e = DInt k \<longrightarrow> a = k) as es"
  by (auto simp: check_shape_def check_dims_iff dest: list_all2_lengthD)

lemma check_param_Inr:
  "check_param n t s = Inr s' \<longleftrightarrow>
     fits (cs_named_params s) (n, t) \<and> n \<notin> set (cs_param_names s)
     \<and> s' = s\<lparr>cs_named_params := filter (\<lambda>(m, _). m \<noteq> n) (cs_named_params s)\<rparr>"
  by (auto simp: check_param_def fits_def split: option.splits)

lemma param_step_Inr:
  "param_step env cp s (n, t) = Inr s' \<longleftrightarrow>
     fits (cs_named_params s) (n, t) \<and> n \<notin> set (cs_param_names s)
     \<and> (\<exists>b. float_of_int (int (nbytes env (cp t))) = Inr b
          \<and> s' = \<lparr>cs_named_params = filter (\<lambda>(m, _). m \<noteq> n) (cs_named_params s),
                  cs_param_names = cs_param_names s @ [n], cs_total_bytes = float_add (cs_total_bytes s) b\<rparr>)"
  by (cases s) (auto simp: param_step_def add_bytes_def res_bind_eq_Inr check_param_Inr)

lemma fits_filter: "fits (filter (\<lambda>(m, _). m \<noteq> n) named) (k, t) \<longleftrightarrow> k \<noteq> n \<and> fits named (k, t)"
  by (simp add: fits_def map_of_drop_key)

text \<open>The parameters that pass the checks: each fits the model and none comes twice.\<close>

lemma convert_fold_sound:
  assumes "res_fold (param_step env cp) s out = Inr s'"
  shows "distinct (map fst out) \<and> (\<forall>x \<in> set out. fits (cs_named_params s) x)
    \<and> cs_param_names s' = cs_param_names s @ map fst out
    \<and> cs_named_params s' = filter (\<lambda>(m, _). m \<notin> fst ` set out) (cs_named_params s)"
  using assms
proof (induction out arbitrary: s)
  case Nil
  then show ?case by (simp add: filter_True case_prod_unfold)
next
  case (Cons x out)
  obtain n t where x: "x = (n, t)" by fastforce
  from Cons.prems obtain s1 where s1: "param_step env cp s (n, t) = Inr s1" "res_fold (param_step env cp) s1 out = Inr s'"
    by (auto simp: x res_bind_eq_Inr)
  from s1(1) have named: "cs_named_params s1 = filter (\<lambda>(m, _). m \<noteq> n) (cs_named_params s)"
    and names: "cs_param_names s1 = cs_param_names s @ [n]" and fit: "fits (cs_named_params s) (n, t)"
    by (auto simp: param_step_Inr)
  note IH = Cons.IH [OF s1(2)]
  have "\<forall>y \<in> set out. fst y \<noteq> n \<and> fits (cs_named_params s) y" using IH by (auto simp: named fits_filter)
  then show ?case using IH fit by (auto simp: x named names case_prod_unfold)
qed

text \<open>Conversely, such parameters pass, and their bytes are added up exactly.\<close>

lemma convert_fold_complete:
  assumes "distinct (map fst out)" and "\<forall>x \<in> set out. fits (cs_named_params s) x"
    and "set (cs_param_names s) \<inter> fst ` set out = {}"
    and "cs_total_bytes s = Finite (of_nat a)" and "a + sum_list (map (\<lambda>(_, t). nbytes env (cp t)) out) < 2 ^ 53"
  shows "\<exists>s'. res_fold (param_step env cp) s out = Inr s'
    \<and> cs_total_bytes s' = Finite (of_nat (a + sum_list (map (\<lambda>(_, t). nbytes env (cp t)) out)))"
  using assms
proof (induction out arbitrary: s a)
  case (Cons x out)
  obtain n t where x: "x = (n, t)" by fastforce
  let ?b = "nbytes env (cp t)"
  let ?s = "\<lparr>cs_named_params = filter (\<lambda>(m, _). m \<noteq> n) (cs_named_params s),
             cs_param_names = cs_param_names s @ [n], cs_total_bytes = Finite (of_nat (a + ?b))\<rparr>"
  have sm: "?b < 2 ^ 53" "a + ?b < 2 ^ 53" using Cons.prems(5) by (auto simp: x)
  have "float_of_int (int ?b) = Inr (Finite (of_nat ?b))"
    using round_float_int [OF sm(1)] by (simp add: float_of_int_def)
  moreover have "float_add (cs_total_bytes s) (Finite (of_nat ?b)) = Finite (of_nat (a + ?b))"
    using round_float_int [OF sm(2)] Cons.prems(4) by simp
  ultimately have step: "param_step env cp s (n, t) = Inr ?s"
    using Cons.prems(2,3) by (auto simp: param_step_Inr x)
  have "\<exists>s'. res_fold (param_step env cp) ?s out = Inr s'
    \<and> cs_total_bytes s' = Finite (of_nat ((a + ?b) + sum_list (map (\<lambda>(_, t). nbytes env (cp t)) out)))"
  proof (rule Cons.IH)
    show "distinct (map fst out)" using Cons.prems(1) by (simp add: x)
    show "\<forall>y \<in> set out. fits (cs_named_params ?s) y"
      using Cons.prems(1,2) by (force simp: x fits_filter)
    show "set (cs_param_names ?s) \<inter> fst ` set out = {}" using Cons.prems(1,3) by (auto simp: x)
    show "cs_total_bytes ?s = Finite (of_nat (a + ?b))" by simp
    show "(a + ?b) + sum_list (map (\<lambda>(_, t). nbytes env (cp t)) out) < 2 ^ 53"
      using Cons.prems(5) by (simp add: x add.assoc)
  qed
  then show ?case unfolding x by (auto simp: step add.assoc)
qed simp

lemma set_dict_set_subset: "set (dict_set d k v) \<subseteq> insert (k, v) (set d)"
  by (induction d k v rule: dict_set.induct) auto

lemma dict_set_fst: "fst ` set (dict_set d k v) = insert k (fst ` set d)"
proof -
  have "set (map fst (dict_set d k v)) = insert k (set (map fst d))" by (auto simp: dict_set_keys)
  then show ?thesis by simp
qed

lemma add_mapping_within:
  assumes "mapping_within named m" and "n \<in> fst ` set named" and "ts \<noteq> []"
  shows "mapping_within named (add_mapping n ts f m)"
proof -
  have "snd ` set (dict_set (em_param_map m) n ts) \<subseteq> insert ts (snd ` set (em_param_map m))"
    using set_dict_set_subset [of "em_param_map m" n ts] by force
  then have "[] \<notin> snd ` set (dict_set (em_param_map m) n ts)"
    using assms unfolding mapping_within_def by blast
  moreover have "fst ` set (em_map_func m) = fst ` set (em_param_map m)"
    using assms(1) by (metis mapping_within_def set_map)
  ultimately show ?thesis
    using assms unfolding mapping_within_def add_mapping_def by (simp add: dict_set_keys dict_set_fst)
qed

lemma add_unused_within [simp]: "mapping_within named (add_unused n m) = mapping_within named m"
  by (simp add: mapping_within_def add_unused_def)

lemma add_concat_within:
  "add_concat nd named ax n ts m = Inr m' \<Longrightarrow> mapping_within named m \<Longrightarrow> ts \<noteq> [] \<Longrightarrow> mapping_within named m'"
  by (force simp: add_concat_def res_bind_eq_Inr dict_get_Inr dest: map_of_SomeD intro!: add_mapping_within)

lemma add_plain_within: "mapping_within named m \<Longrightarrow> fst x \<in> fst ` set named \<Longrightarrow> mapping_within named (add_plain nd m x)"
  by (cases x) (auto simp: add_plain_def intro: add_mapping_within)

lemma add_plain_key: "fst ` set (em_param_map (add_plain nd m x)) = insert (fst x) (fst ` set (em_param_map m))"
  by (cases x) (simp add: add_plain_def add_mapping_def dict_set_fst insert_absorb)

lemma add_plain_keys:
  "fst ` set (em_param_map (foldl (add_plain nd) m xs)) = fst ` set (em_param_map m) \<union> fst ` set xs"
  by (induction xs arbitrary: m) (simp_all add: add_plain_key)

lemma add_plain_all_within:
  "mapping_within named m \<Longrightarrow> set xs \<subseteq> set named \<Longrightarrow> mapping_within named (foldl (add_plain nd) m xs)"
  by (induction xs arbitrary: m) (auto intro!: add_plain_within)

lemma ExternMapping_within: "mapping_within named ExternMapping"
  by (simp add: mapping_within_def ExternMapping_def)

lemma plain_complete:
  assumes "mapping_within named m"
  shows "mapping_within named (foldl (add_plain nd) m named)
    \<and> fst ` set (em_param_map (foldl (add_plain nd) m named)) = fst ` set named"
  using assms add_plain_all_within [OF assms, of named nd] add_plain_keys [of nd m named]
  by (auto simp: mapping_within_def)

lemma llama_layer_within: "llama_layer nd named m i = Inr m' \<Longrightarrow> mapping_within named m \<Longrightarrow> mapping_within named m'"
  by (auto simp: llama_layer_def res_bind_eq_Inr dest!: add_concat_within)

lemma awq_concat_within:
  "awq_concat nd named fused parts m q = Inr m' \<Longrightarrow> parts \<noteq> [] \<Longrightarrow> mapping_within named m \<Longrightarrow> mapping_within named m'"
  by (auto simp: awq_concat_def res_bind_eq_Inr dest!: add_concat_within)

lemma awq_layer_within: "awq_layer nd named m i = Inr m' \<Longrightarrow> mapping_within named m \<Longrightarrow> mapping_within named m'"
  by (auto simp: awq_layer_def Let_def res_bind_eq_Inr dest!: awq_concat_within)

lemma res_fold_keeps:
  "res_fold f s xs = Inr s' \<Longrightarrow> Q s \<Longrightarrow> (\<And>s x s'. f s x = Inr s' \<Longrightarrow> Q s \<Longrightarrow> Q s') \<Longrightarrow> Q s'"
  by (induction xs arbitrary: s) (auto simp: res_bind_eq_Inr)

lemma llama_mapping_within:
  assumes "llama_huggingface nd n named = Inr m \<or> llama_awq nd n named = Inr m"
  shows "mapping_within named m \<and> fst ` set (em_param_map m) = fst ` set named"
proof -
  obtain m0 where m: "m = foldl (add_plain nd) m0 named" and
    "res_fold (llama_layer nd named) ExternMapping [0..<n] = Inr m0 \<or> res_fold (awq_layer nd named) ExternMapping [0..<n] = Inr m0"
    using assms by (auto simp: llama_huggingface_def llama_awq_def res_bind_eq_Inr)
  then have "mapping_within named m0"
    using res_fold_keeps [where Q = "mapping_within named", OF _ ExternMapping_within] llama_layer_within awq_layer_within
    by metis
  then show ?thesis unfolding m by (rule plain_complete)
qed

lemma foldl_dict_set_fst:
  "fst ` set (foldl (\<lambda>d i. dict_set d (g i) v) d xs) = fst ` set d \<union> g ` set xs"
  by (induction xs arbitrary: d) (auto simp: dict_set_fst)

lemma apply_preshard_names:
  "fst ` set (fst (apply_preshard vm named n)) = (\<Union>x \<in> set named. shard_names n x)"
  unfolding apply_preshard_def
proof (induction named rule: rev_induct)
  case (snoc x xs)
  then show ?case
    by (cases x) (auto simp: preshard_name_def shard_names_def foldl_dict_set_fst dict_set_fst py_range_def split: option.splits)
qed simp

lemma preshard_name_snd:
  "snd (preshard_name n vm acc (k, np)) =
     (case np_shard_strategy np of None \<Rightarrow> snd acc | Some st \<Rightarrow> dict_set (snd acc) k (vm st))"
  by (simp add: preshard_name_def split: option.split)

lemma apply_preshard_funcs:
  "distinct (map fst named) \<Longrightarrow>
   map_of (snd (apply_preshard vm named n)) name =
     (case map_of named name of None \<Rightarrow> None | Some np \<Rightarrow> map_option vm (np_shard_strategy np))"
  unfolding apply_preshard_def
proof (induction named rule: rev_induct)
  case (snoc x xs)
  obtain k np where x: "x = (k, np)" by fastforce
  have k: "map_of xs k = None" using snoc.prems by (simp add: x map_of_eq_None_iff)
  have "map_of (xs @ [x]) name = (if name = k then Some np else map_of xs name)"
    using k by (auto simp: x map_add_def split: option.splits)
  moreover have "map_of (snd (foldl (preshard_name n vm) ([], []) xs)) name =
      (case map_of xs name of None \<Rightarrow> None | Some np \<Rightarrow> map_option vm (np_shard_strategy np))"
    using snoc by simp
  ultimately show ?case
    using k by (cases "np_shard_strategy np") (auto simp: x preshard_name_snd dict_set_lookup)
qed simp

lemma preshard_param_names:
  assumes "distinct (map fst named)" and "(name, np) \<in> set named"
    and "\<And>st t. np_shard_strategy np = Some st \<Longrightarrow> length (vm st t) = nat n"
  shows "fst ` set (preshard_param (Some (snd (apply_preshard vm named n))) (name, t)) = shard_names n (name, np)"
proof -
  have m: "map_of named name = Some np" using assms by simp
  show ?thesis
  proof (cases "np_shard_strategy np")
    case None
    then show ?thesis by (simp add: preshard_param_def apply_preshard_funcs [OF assms(1)] m shard_names_def)
  next
    case (Some st)
    have "fst ` set (enumerate 0 (vm st t)) = {0..<nat n}"
      using assms(3) [OF Some, of t] by (metis atLeastLessThan_upt enumerate_eq_zip list.set_map map_fst_enumerate add_0)
    then have "(\<lambda>x. sharded_param_name name (fst x)) ` set (enumerate 0 (vm st t)) = sharded_param_name name ` {0..<nat n}"
      by (metis image_image)
    with Some show ?thesis
      by (simp add: preshard_param_def apply_preshard_funcs [OF assms(1)] m shard_names_def image_image case_prod_unfold)
  qed
qed

lemma convert_args_steps:
  assumes "convert_args env ord pre_num args = Inr c" and "parse_shards pre_num = Inr pre"
    and "ca_source args pre = Inr ext" and "loader_init env ext (ca_path args) = Inr ld"
  shows "\<exists>out ld' s. load env ext (Some (snd (ca_quantize args pre))) (snd (sharded_model args pre)) ord ld = (out, Inr (), ld')
    \<and> res_fold (param_step env (ca_copyto args)) \<lparr>cs_named_params = fst (sharded_model args pre),
          cs_param_names = [], cs_total_bytes = Finite 0\<rparr> out = Inr s
    \<and> cs_named_params s = [] \<and> cv_params c = map (\<lambda>(n, t). (n, ca_copyto args t)) out
    \<and> cv_param_size c = length (cs_param_names s) \<and> cv_param_bytes c = cs_total_bytes s"
  using assms
  by (auto simp: convert_args_def param_generator_def res_bind_eq_Inr split: if_splits prod.splits)

lemma bits_per_param_total:
  assumes "0 < n" and "n < 2 ^ 53"
  shows "\<exists>b. bits_per_param (Finite (of_nat a)) n = Inr b"
  using assms round_float_int [OF assms(2)] by (simp add: bits_per_param_def float_of_int_def float_div_def split: py_float.split)

lemma convert_args_succeeds:
  assumes "parse_shards pre_num = Inr pre" and "ca_source args pre = Inr ext"
    and "loader_init env ext (ca_path args) = Inr ld"
    and "load env ext (Some (snd (ca_quantize args pre))) (snd (sharded_model args pre)) ord ld = (out, Inr (), ld')"
    and "0 < total_param_num (ld_stats ld')" and "total_param_num (ld_stats ld') < 2 ^ 53"
    and "sum_list (map (\<lambda>(_, t). nbytes env (ca_copyto args t)) out) < 2 ^ 53"
    and R: "\<not> is_ft_sharded args" "distinct (map fst out)" "fst ` set out = fst ` set (fst (sharded_model args pre))"
      "\<forall>x \<in> set out. fits (fst (sharded_model args pre)) x"
  shows "\<exists>c. convert_args env ord pre_num args = Inr c"
proof -
  let ?named = "fst (sharded_model args pre)"
  let ?s = "\<lparr>cs_named_params = ?named, cs_param_names = [], cs_total_bytes = Finite 0\<rparr>"
  have "\<exists>s'. res_fold (param_step env (ca_copyto args)) ?s out = Inr s'
    \<and> cs_total_bytes s' = Finite (of_nat (0 + sum_list (map (\<lambda>(_, t). nbytes env (ca_copyto args t)) out)))"
    using R assms(7) by (intro convert_fold_complete) auto
  then obtain s' where s': "res_fold (param_step env (ca_copyto args)) ?s out = Inr s'"
    "cs_total_bytes s' = Finite (of_nat (sum_list (map (\<lambda>(_, t). nbytes env (ca_copyto args t)) out)))" by auto
  have "cs_named_params s' = filter (\<lambda>(m, _). m \<notin> fst ` set out) ?named"
    using convert_fold_sound [OF s'(1)] by simp
  with R(3) have e: "cs_named_params s' = []" by (force simp: filter_empty_conv)
  obtain b where "bits_per_param (cs_total_bytes s') (total_param_num (ld_stats ld')) = Inr b"
    using bits_per_param_total [OF assms(5,6)] s'(2) by metis
  then show ?thesis using R(1) assms(1-4) s'(1) e by (simp add: convert_args_def param_generator_def)
qed

lemma fits_names: "\<forall>x \<in> set out. fits named x \<Longrightarrow> fst ` set out \<subseteq> fst ` set named"
  by (force simp: fits_def split: option.splits dest: map_of_SomeD)

lemma convert_fold_all:
  assumes "res_fold (param_step env cp) s out = Inr s'" and "cs_named_params s' = []"
  shows "distinct (map fst out)" "\<forall>x \<in> set out. fits (cs_named_params s) x"
    "fst ` set out = fst ` set (cs_named_params s)" "cs_param_names s' = cs_param_names s @ map fst out"
proof -
  note k = convert_fold_sound [OF assms(1)]
  show "distinct (map fst out)" "\<forall>x \<in> set out. fits (cs_named_params s) x"
    "cs_param_names s' = cs_param_names s @ map fst out" using k by blast+
  have "fst ` set (cs_named_params s) \<subseteq> fst ` set out" using k assms(2) by (force simp: filter_empty_conv)
  moreover have "fst ` set out \<subseteq> fst ` set (cs_named_params s)" using k fits_names by blast
  ultimately show "fst ` set out = fst ` set (cs_named_params s)" by blast
qed

lemma sample_args_simps:
  "ca_source sample_args pre = Inr sample_mapping" "ca_path sample_args = ''m/index.json''"
  "ca_copyto sample_args = id" "parse_shards None = Inr None"
  by (simp_all add: sample_args_def parse_shards_def)

lemma sample_sharded_model: "sharded_model sample_args None = (sample_named, None)"
  by (simp add: sharded_model_def sample_args_def sample_named_def dict_update_def Let_def)

lemma sample_convert_init: "loader_init sample_weights sample_mapping (ca_path sample_args) = Inr sample_loader"
  by (simp add: sample_args_simps sample_init)

lemma sample_convert_direct:
  "direct_loop (param_stream sample_weights sample_mapping (Some (snd (ca_quantize sample_args None)))
       (snd (sharded_model sample_args None)) (ld_torch_to_path sample_loader))
     (loading_order sample_mapping (ld_torch_to_path sample_loader)) = (sample_stream, Inr ())"
  by code_simp

lemma sample_convert_load:
  "\<exists>ld'. load sample_weights sample_mapping (Some (snd (ca_quantize sample_args None)))
      (snd (sharded_model sample_args None)) (\<lambda>_. rev) sample_loader = (sample_stream, Inr (), ld')
    \<and> total_param_num (ld_stats ld') = 6"
proof -
  let ?l = "load sample_weights sample_mapping (Some (snd (ca_quantize sample_args None)))
      (snd (sharded_model sample_args None)) (\<lambda>_. rev) sample_loader"
  obtain out r ld' where l: "?l = (out, r, ld')" by (metis prod.exhaust)
  have inv: "loader_inv sample_weights sample_mapping {''m/a.bin'', ''m/b.bin''} sample_loader"
    using loader_init_inv(1) [OF sample_init sample_files_ok] sample_suffix by blast
  have o: "(out, r) = (sample_stream, Inr ())"
    using load_direct(1) [OF inv any_order_rev sample_known l] by (simp add: sample_convert_direct)
  then have l': "?l = (sample_stream, Inr (), ld')" using l by simp
  have p: "map fst (path_to_torch (ld_torch_to_path sample_loader)) = [''m/a.bin'', ''m/b.bin'']"
    unfolding sample_t2p by code_simp
  have "loads_of ld' = [''m/a.bin'', ''m/b.bin'']"
    and "total_param_num (ld_stats ld') = sum_list (map (file_params sample_weights sample_mapping) (loads_of ld'))"
    using load_reads_once [OF sample_init sample_suffix sample_files_ok sample_known any_order_rev sample_together l']
    unfolding p by (auto simp: sample_t2p sample_mapping_def add_mapping_def ExternMapping_def)
  then have "total_param_num (ld_stats ld') = 6"
    by (simp add: file_params_def sample_files entry_params_def t_size_def sample_tensor_def
        sample_mapping_def add_mapping_def ExternMapping_def)
  with l' show ?thesis by blast
qed

lemma sample_stream_fits: "\<forall>x \<in> set sample_stream. fits sample_named x"
  by (simp add: sample_stream_def sample_named_def fits_def check_shape_def)

lemma sample_stream_bytes: "sum_list (map (\<lambda>(_, t). nbytes sample_weights (ca_copyto sample_args t)) sample_stream) = 24"
  by (simp add: sample_stream_def nbytes_def t_size_def sample_itemsize sample_args_simps)

lemma sample_stream_names: "distinct (map fst sample_stream)" "fst ` set sample_stream = fst ` set sample_named"
  by (simp_all add: sample_stream_def sample_named_def)

lemma sample_not_ft: "\<not> is_ft_sharded sample_args"
  by (simp add: is_ft_sharded_def sample_args_def)

lemma sample_converts: "\<exists>c. convert_args sample_weights (\<lambda>_. rev) None sample_args = Inr c"
proof -
  obtain ld' where l: "load sample_weights sample_mapping (Some (snd (ca_quantize sample_args None)))
      (snd (sharded_model sample_args None)) (\<lambda>_. rev) sample_loader = (sample_stream, Inr (), ld')"
    and t: "total_param_num (ld_stats ld') = 6" using sample_convert_load by blast
  show ?thesis
    using convert_args_succeeds [OF sample_args_simps(4,1) sample_convert_init l] t
    by (simp add: sample_stream_bytes sample_stream_fits sample_stream_names sample_sharded_model sample_not_ft)
qed

lemma check_pytorch_found: "check_pytorch wp fs = (Inr (Some p), fs') \<Longrightarrow> fs' = fs \<and> fs_has p fs'"
  by (auto simp: check_pytorch_def py_get_def split: if_splits)

lemma check_safetensor_found: "check_safetensor env wp fs = (Inr (Some p), fs') \<Longrightarrow> fs_has p fs'"
  by (auto simp: check_safetensor_def Let_def py_bind_def py_get_def py_return_def py_modify_def fs_has_def split: if_splits)

lemma check_safetensor_keeps: "check_safetensor env wp fs = (r, fs') \<Longrightarrow> fs_has p fs \<Longrightarrow> fs_has p fs'"
  by (auto simp: check_safetensor_def Let_def py_bind_def py_get_def py_return_def py_modify_def fs_has_def split: if_splits)

lemma check_pytorch_total: "\<exists>r. check_pytorch wp fs = (Inr r, fs)"
  by (simp add: check_pytorch_def py_get_def)

lemma check_safetensor_total: "\<exists>r fs'. check_safetensor env wp fs = (Inr r, fs')"
  by (auto simp: check_safetensor_def Let_def py_bind_def py_get_def py_return_def py_modify_def)

text \<open>PyTorch files come first, safetensors files second.\<close>

lemma guess_weight_format_eq:
  assumes "check_pytorch wp fs = (Inr a, fs)" and "check_safetensor env wp fs = (Inr b, fs')"
  shows "guess_weight_format env wp fs =
    (case a of Some p \<Rightarrow> (Inr (p, ''huggingface-torch''), fs')
     | None \<Rightarrow> (case b of Some p \<Rightarrow> (Inr (p, ''huggingface-safetensor''), fs')
       | None \<Rightarrow> (Inl (ValueError (''Fail to detect source weight format. ''
               @ ''Use `--source-format` to explicitly specify the format.'')), fs')))"
  using assms
  by (auto simp: guess_weight_format_def CHECK_FORMAT_METHODS_def py_bind_def py_return_def py_raise_def split: option.split)

lemma guess_found:
  assumes "guess_weight_format env wp fs = (Inr (p, f), fs')"
  shows "f \<in> {''huggingface-torch'', ''huggingface-safetensor''} \<and> fs_has p fs'"
proof -
  obtain a b fs1 where c: "check_pytorch wp fs = (Inr a, fs)" "check_safetensor env wp fs = (Inr b, fs1)"
    using check_pytorch_total check_safetensor_total by metis
  show ?thesis
    using assms unfolding guess_weight_format_eq [OF c]
    using c check_pytorch_found [of wp fs] check_safetensor_found [of env wp fs] check_safetensor_keeps [OF c(2)]
    by (auto split: option.splits)
qed

text \<open>A loader visits exactly the parameters that its mapping knows, when each of them has a source.\<close>

lemma sourced_loading_order:
  assumes "[] \<notin> snd ` set (em_param_map ext)" and "loader_init env ext p = Inr s"
  shows "distinct (loading_order ext (ld_torch_to_path s))
    \<and> set (loading_order ext (ld_torch_to_path s)) = fst ` set (em_param_map ext)"
proof -
  have chk: "check_parameter_usage ext (map fst (ld_torch_to_path s)) \<in> range Inr"
    using assms(2) by (auto simp: loader_init_def res_bind_eq_Inr)
  have src: "set ts \<inter> fst ` set (ld_torch_to_path s) \<noteq> {}" if a: "(m, ts) \<in> set (em_param_map ext)" for m ts
  proof -
    have "ts \<noteq> []" using a assms(1) by force
    then have h: "hd ts \<in> set ts" by simp
    with check_ok_sources [OF chk a h] show ?thesis by blast
  qed
  have k: "m \<in> fst ` set (em_param_map ext) \<longleftrightarrow> (\<exists>ts. (m, ts) \<in> set (em_param_map ext))" for m by force
  have "{m. \<exists>ts. (m, ts) \<in> set (em_param_map ext) \<and> set ts \<inter> fst ` set (ld_torch_to_path s) \<noteq> {}}
      = fst ` set (em_param_map ext)"
    by (rule set_eqI) (unfold k mem_Collect_eq, metis src)
  then show ?thesis using loading_order_props [of ext "ld_torch_to_path s"] by simp
qed

subsection \<open>The values of Llama\<close>

lemma llama_layer_fused:
  assumes "llama_layer nd named m i = Inr m'" and "llama_fused nd named S m"
  shows "llama_fused nd named (insert i S) m'"
proof -
  from assms(1) obtain d1 d2 where d: "map_of named (layer_attn i @ ''.qkv_proj.weight'') = Some d1"
    "map_of named (layer_mlp i @ ''.gate_up_proj.weight'') = Some d2"
    and m': "m' = add_unused (layer_attn i @ ''.rotary_emb.inv_freq'')
      (add_mapping (layer_mlp i @ ''.gate_up_proj.weight'') [layer_mlp i @ ''.gate_proj.weight'', layer_mlp i @ ''.up_proj.weight'']
        (\<lambda>ts. res_bind (nd_concatenate nd 0 ts) (\<lambda>t. Inr (nd_astype nd d2 t)))
       (add_mapping (layer_attn i @ ''.qkv_proj.weight'') [layer_attn i @ ''.q_proj.weight'',
              layer_attn i @ ''.k_proj.weight'', layer_attn i @ ''.v_proj.weight'']
        (\<lambda>ts. res_bind (nd_concatenate nd 0 ts) (\<lambda>t. Inr (nd_astype nd d1 t))) m))"
    by (auto simp: llama_layer_def add_concat_def res_bind_eq_Inr dict_get_Inr)
  have mono: "fused_entry nd named S name ts f \<Longrightarrow> fused_entry nd named (insert i S) name ts f" for name ts f
    unfolding fused_entry_def by blast
  show ?thesis
    unfolding llama_fused_def
  proof (intro conjI allI impI ballI)
    fix name ts f
    assume a: "map_of (em_param_map m') name = Some ts" "map_of (em_map_func m') name = Some f"
    show "fused_entry nd named (insert i S) name ts f"
    proof (cases "name = layer_attn i @ ''.qkv_proj.weight'' \<or> name = layer_mlp i @ ''.gate_up_proj.weight''")
      case True
      with a d show ?thesis
        by (auto simp: m' add_unused_def add_mapping_def dict_set_lookup fused_entry_def split: if_splits)
    next
      case False
      with a have "map_of (em_param_map m) name = Some ts" "map_of (em_map_func m) name = Some f"
        by (auto simp: m' add_unused_def add_mapping_def dict_set_lookup split: if_splits)
      with assms(2) mono show ?thesis unfolding llama_fused_def by blast
    qed
  qed (use assms(2) in \<open>auto simp: m' add_unused_def add_mapping_def dict_set_lookup llama_fused_def\<close>)
qed

lemma llama_layers_fused:
  "res_fold (llama_layer nd named) m xs = Inr m' \<Longrightarrow> llama_fused nd named S m \<Longrightarrow> llama_fused nd named (S \<union> set xs) m'"
proof (induction xs arbitrary: m S)
  case (Cons x xs)
  then show ?case using llama_layer_fused [of nd named m x] by (fastforce simp: res_bind_eq_Inr)
qed simp

text \<open>What the fallback leaves: an entry of the layers, or the cast of the tensor of the same name.\<close>

lemma add_plain_entries:
  assumes "fst ` set (em_param_map m) = fst ` set (em_map_func m)" and "distinct (map fst xs)"
    and "map_of (em_param_map (foldl (add_plain nd) m xs)) name = Some ts"
    and "map_of (em_map_func (foldl (add_plain nd) m xs)) name = Some f"
  shows "map_of (em_param_map m) name = Some ts \<and> map_of (em_map_func m) name = Some f
    \<or> name \<notin> fst ` set (em_param_map m) \<and> ts = [name]
      \<and> (\<exists>dtype. map_of xs name = Some dtype
         \<and> f = (\<lambda>ts. case ts of [x] \<Rightarrow> Inr (nd_astype nd dtype x) | _ \<Rightarrow> Inl (TypeError ''arguments'')))"
  using assms
proof (induction xs arbitrary: m)
  case (Cons x xs)
  obtain n d where x: "x = (n, d)" by (cases x)
  let ?m = "add_plain nd m x"
  have keys: "fst ` set (em_param_map ?m) = fst ` set (em_map_func ?m)"
    using Cons.prems(1) by (simp add: x add_plain_def add_mapping_def dict_set_fst)
  have IH: "map_of (em_param_map ?m) name = Some ts \<and> map_of (em_map_func ?m) name = Some f
    \<or> name \<notin> fst ` set (em_param_map ?m) \<and> ts = [name]
      \<and> (\<exists>dtype. map_of xs name = Some dtype
         \<and> f = (\<lambda>ts. case ts of [x] \<Rightarrow> Inr (nd_astype nd dtype x) | _ \<Rightarrow> Inl (TypeError ''arguments'')))"
    using Cons.IH [OF keys] Cons.prems by simp
  show ?case
  proof (cases "n \<in> fst ` set (em_param_map m)")
    case True
    then have "?m = m" by (simp add: x add_plain_def)
    moreover have "name \<noteq> n" if "name \<notin> fst ` set (em_param_map m)" using that True by blast
    ultimately show ?thesis using IH by (auto simp: x)
  next
    case False
    then have m: "?m = add_mapping n [n] (\<lambda>ts. case ts of [x] \<Rightarrow> Inr (nd_astype nd d x) | _ \<Rightarrow> Inl (TypeError ''arguments'')) m"
      by (simp add: x add_plain_def)
    show ?thesis
    proof (cases "name = n")
      case True
      then show ?thesis using IH [unfolded m] False by (auto simp: x add_mapping_def dict_set_lookup dict_set_fst)
    next
      case False
      then show ?thesis using IH [unfolded m] by (auto simp: x add_mapping_def dict_set_lookup dict_set_fst)
    qed
  qed
qed simp

lemma fused_value:
  assumes "fused_entry nd named {0..<n} name ts f" and "res_map file ts = Inr xs" and "f xs = Inr t"
  shows "\<exists>dtype. map_of named name = Some dtype \<and> llama_value nd n file name dtype t"
proof -
  from assms(1) obtain i dtype where i: "i < n" "map_of named name = Some dtype"
    and f: "f = (\<lambda>ts. res_bind (nd_concatenate nd 0 ts) (\<lambda>t. Inr (nd_astype nd dtype t)))"
    and c: "name = layer_attn i @ ''.qkv_proj.weight'' \<and> ts = [layer_attn i @ ''.q_proj.weight'',
              layer_attn i @ ''.k_proj.weight'', layer_attn i @ ''.v_proj.weight'']
       \<or> name = layer_mlp i @ ''.gate_up_proj.weight'' \<and> ts = [layer_mlp i @ ''.gate_proj.weight'', layer_mlp i @ ''.up_proj.weight'']"
    unfolding fused_entry_def by auto
  from assms(3) obtain r where r: "nd_concatenate nd 0 xs = Inr r" "t = nd_astype nd dtype r"
    by (auto simp: f res_bind_eq_Inr)
  from c show ?thesis
  proof (elim disjE conjE)
    assume n: "name = layer_attn i @ ''.qkv_proj.weight''"
      and "ts = [layer_attn i @ ''.q_proj.weight'', layer_attn i @ ''.k_proj.weight'', layer_attn i @ ''.v_proj.weight'']"
    with assms(2) obtain q k v where "file (layer_attn i @ ''.q_proj.weight'') = Inr q"
      "file (layer_attn i @ ''.k_proj.weight'') = Inr k" "file (layer_attn i @ ''.v_proj.weight'') = Inr v" "xs = [q, k, v]"
      by (auto simp: res_bind_eq_Inr)
    with n i r show ?thesis unfolding llama_value_def by blast
  next
    assume n: "name = layer_mlp i @ ''.gate_up_proj.weight''"
      and "ts = [layer_mlp i @ ''.gate_proj.weight'', layer_mlp i @ ''.up_proj.weight'']"
    with assms(2) obtain g u where "file (layer_mlp i @ ''.gate_proj.weight'') = Inr g"
      "file (layer_mlp i @ ''.up_proj.weight'') = Inr u" "xs = [g, u]"
      by (auto simp: res_bind_eq_Inr)
    with n i r show ?thesis unfolding llama_value_def by blast
  qed
qed

lemma llama_param_value:
  assumes "llama_huggingface nd n named = Inr ext" and "distinct (map fst named)"
    and "param_value env ext t2p name = Inr t"
  shows "\<exists>dtype t'. map_of named name = Some dtype \<and> llama_value nd n (file_param env t2p) name dtype t' \<and> t = we_ndarray env t'"
proof -
  from assms(1) obtain m0 where m0: "res_fold (llama_layer nd named) ExternMapping [0..<n] = Inr m0"
    and ext: "ext = foldl (add_plain nd) m0 named" by (auto simp: llama_huggingface_def res_bind_eq_Inr)
  have fused: "llama_fused nd named {0..<n} m0"
    using llama_layers_fused [OF m0, of "{}"] by (simp add: llama_fused_def ExternMapping_def)
  have "mapping_within named m0"
    using res_fold_keeps [where Q = "mapping_within named", OF m0 ExternMapping_within] llama_layer_within by metis
  then have keys: "fst ` set (em_param_map m0) = fst ` set (em_map_func m0)"
    unfolding mapping_within_def by (metis set_map)
  from assms(3) obtain ts xs f t' where e: "map_of (em_param_map ext) name = Some ts" "map_of (em_map_func ext) name = Some f"
    and v: "res_map (file_param env t2p) ts = Inr xs" "f xs = Inr t'" "t = we_ndarray env t'"
    by (auto simp: param_value_def res_bind_eq_Inr dict_get_Inr)
  from add_plain_entries [OF keys assms(2) e [unfolded ext]] show ?thesis
  proof (elim disjE conjE exE)
    assume "map_of (em_param_map m0) name = Some ts" "map_of (em_map_func m0) name = Some f"
    with fused have "fused_entry nd named {0..<n} name ts f" unfolding llama_fused_def by blast
    from fused_value [OF this v(1,2)] v(3) show ?thesis by blast
  next
    fix dtype
    assume a: "name \<notin> fst ` set (em_param_map m0)" "ts = [name]" "map_of named name = Some dtype"
      "f = (\<lambda>ts. case ts of [x] \<Rightarrow> Inr (nd_astype nd dtype x) | _ \<Rightarrow> Inl (TypeError ''arguments''))"
    have "\<forall>i < n. name \<noteq> layer_attn i @ ''.qkv_proj.weight'' \<and> name \<noteq> layer_mlp i @ ''.gate_up_proj.weight''"
      using a(1) fused unfolding llama_fused_def dom_map_of_conv_image_fst by fastforce
    with a v show ?thesis unfolding llama_value_def by (auto simp: res_bind_eq_Inr)
  qed
qed

lemma direct_plain:
  "direct_loop (param_stream env ext None None t2p) ns = (out, Inr ()) \<Longrightarrow>
     map fst out = ns \<and> (\<forall>(m, t) \<in> set out. param_value env ext t2p m = Inr t)"
proof (induction ns arbitrary: out)
  case (Cons n ns)
  then show ?case
    by (force simp: param_stream_def load_or_quantize_def preshard_param_def res_bind_eq_Inr split: sum.splits prod.splits)
qed simp

lemma sample_llama:
  "\<exists>ext s out s'. llama_huggingface sample_numpy 1 sample_llama_named = Inr ext
     \<and> loader_init sample_llama_weights ext ''m/index.json'' = Inr s
     \<and> files_ok sample_llama_weights {''m/a.bin''} \<and> snd ` set (ld_torch_to_path s) \<subseteq> {''m/a.bin''}
     \<and> load sample_llama_weights ext None None (\<lambda>_. rev) s = (out, Inr (), s')"
proof -
  have "res_bind (llama_huggingface sample_numpy 1 sample_llama_named) (\<lambda>ext.
     res_bind (loader_init sample_llama_weights ext ''m/index.json'') (\<lambda>s.
       Inr (snd (direct_loop (param_stream sample_llama_weights ext None None (ld_torch_to_path s))
                  (loading_order ext (ld_torch_to_path s))), list_all (\<lambda>x. snd x = ''m/a.bin'') (ld_torch_to_path s))))
     = Inr (Inr (), True)" by code_simp
  then obtain ext s where e: "llama_huggingface sample_numpy 1 sample_llama_named = Inr ext"
    "loader_init sample_llama_weights ext ''m/index.json'' = Inr s"
    "snd (direct_loop (param_stream sample_llama_weights ext None None (ld_torch_to_path s)) (loading_order ext (ld_torch_to_path s)))
       = Inr ()" "snd ` set (ld_torch_to_path s) \<subseteq> {''m/a.bin''}"
    by (auto simp: res_bind_eq_Inr list_all_iff)
  have "distinct (map fst (load_func sample_llama_weights ''m/a.bin''))" "file_bytes sample_llama_weights ''m/a.bin'' = 48"
    by code_simp+
  then have ok: "files_ok sample_llama_weights {''m/a.bin''}" by (simp add: files_ok_def)
  obtain out r s' where l: "load sample_llama_weights ext None None (\<lambda>_. rev) s = (out, r, s')" by (metis prod.exhaust)
  from load_direct(1) [OF loader_init_inv(1) [OF e(2) ok] any_order_rev e(4) l] e(3) sample_suffix
  have "r = Inr ()" by (metis snd_conv)
  with e ok l show ?thesis by blast
qed

section \<open>Properties\<close>

text \<open>A conversion that succeeds writes every parameter of the model exactly once and nothing
  else; each has the shape and the type of the model, and the value that its sources give when they
  are read straight from the files.\<close>

theorem convert_complete:
  assumes "convert_args env ord pre_num args = Inr c" and "parse_shards pre_num = Inr pre"
    and "ca_source args pre = Inr ext" and "loader_init env ext (ca_path args) = Inr ld"
    and "files_ok env P" and "path_suffix (ca_path args) = ''.json'' \<or> ca_path args \<in> P"
    and "snd ` set (ld_torch_to_path ld) \<subseteq> P" and "any_order ord"
  shows "\<exists>out. (out, Inr ()) = direct_loop
        (param_stream env ext (Some (snd (ca_quantize args pre))) (snd (sharded_model args pre)) (ld_torch_to_path ld))
        (loading_order ext (ld_torch_to_path ld))
    \<and> cv_params c = map (\<lambda>(n, t). (n, ca_copyto args t)) out
    \<and> distinct (map fst out) \<and> fst ` set out = fst ` set (fst (sharded_model args pre))
    \<and> (\<forall>x \<in> set out. fits (fst (sharded_model args pre)) x) \<and> cv_param_size c = length out"
proof -
  let ?named = "fst (sharded_model args pre)"
  obtain out ld' s where l: "load env ext (Some (snd (ca_quantize args pre))) (snd (sharded_model args pre)) ord ld = (out, Inr (), ld')"
    and f: "res_fold (param_step env (ca_copyto args)) \<lparr>cs_named_params = ?named,
          cs_param_names = [], cs_total_bytes = Finite 0\<rparr> out = Inr s"
    and c: "cs_named_params s = []" "cv_params c = map (\<lambda>(n, t). (n, ca_copyto args t)) out"
      "cv_param_size c = length (cs_param_names s)"
    using convert_args_steps [OF assms(1-4)] by blast
  have inv: "loader_inv env ext P ld" using loader_init_inv(1) [OF assms(4-6)] .
  have d: "(out, Inr ()) = direct_loop
        (param_stream env ext (Some (snd (ca_quantize args pre))) (snd (sharded_model args pre)) (ld_torch_to_path ld))
        (loading_order ext (ld_torch_to_path ld))" by (rule load_direct(1) [OF inv assms(8,7) l])
  from d c(2,3) convert_fold_all [OF f c(1)] show ?thesis by auto
qed

theorem convert_complete_witness:
  "\<exists>c. convert_args sample_weights (\<lambda>_. rev) None sample_args = Inr c \<and> cv_params c = sample_stream \<and> cv_param_size c = 2"
proof -
  obtain c where c: "convert_args sample_weights (\<lambda>_. rev) None sample_args = Inr c" using sample_converts by blast
  have suffix: "path_suffix (ca_path sample_args) = ''.json'' \<or> ca_path sample_args \<in> {''m/a.bin'', ''m/b.bin''}"
    by (simp add: sample_args_simps sample_suffix)
  show ?thesis
    using convert_complete [OF c sample_args_simps(4,1) sample_convert_init sample_files_ok suffix sample_known any_order_rev] c
    by (auto simp: sample_convert_direct sample_args_simps sample_stream_def)
qed

text \<open>C24: a conversion succeeds exactly when it should. The parameters that the loader yields must be
  those of the model, each once and with its shape and type; anything else is an error, and nothing
  else is.\<close>

theorem convert_succeeds_iff:
  assumes "parse_shards pre_num = Inr pre" and "ca_source args pre = Inr ext"
    and "loader_init env ext (ca_path args) = Inr ld"
    and "load env ext (Some (snd (ca_quantize args pre))) (snd (sharded_model args pre)) ord ld = (out, Inr (), ld')"
    and "0 < total_param_num (ld_stats ld')" and "total_param_num (ld_stats ld') < 2 ^ 53"
    and "sum_list (map (\<lambda>(_, t). nbytes env (ca_copyto args t)) out) < 2 ^ 53"
  shows "(\<exists>c. convert_args env ord pre_num args = Inr c) \<longleftrightarrow>
    \<not> is_ft_sharded args \<and> distinct (map fst out) \<and> fst ` set out = fst ` set (fst (sharded_model args pre))
    \<and> (\<forall>x \<in> set out. fits (fst (sharded_model args pre)) x)" 
proof
  let ?s = "\<lparr>cs_named_params = fst (sharded_model args pre), cs_param_names = [], cs_total_bytes = Finite 0\<rparr>"
  assume "\<exists>c. convert_args env ord pre_num args = Inr c"
  then obtain c where c: "convert_args env ord pre_num args = Inr c" by blast
  from convert_args_steps [OF c assms(1-3)] assms(4) obtain s where
    f: "res_fold (param_step env (ca_copyto args)) ?s out = Inr s" and e: "cs_named_params s = []" by auto
  have "\<not> is_ft_sharded args" using c by (auto simp: convert_args_def)
  with convert_fold_all [OF f e] show "\<not> is_ft_sharded args \<and> distinct (map fst out)
    \<and> fst ` set out = fst ` set (fst (sharded_model args pre)) \<and> (\<forall>x \<in> set out. fits (fst (sharded_model args pre)) x)"
    by simp
qed (use convert_args_succeeds [OF assms] in blast)

theorem convert_succeeds_iff_witness:
  "\<exists>c. convert_args sample_weights (\<lambda>_. rev) None sample_args = Inr c"
proof -
  obtain ld' where l: "load sample_weights sample_mapping (Some (snd (ca_quantize sample_args None)))
      (snd (sharded_model sample_args None)) (\<lambda>_. rev) sample_loader = (sample_stream, Inr (), ld')"
    and t: "total_param_num (ld_stats ld') = 6" using sample_convert_load by blast
  show ?thesis
    using convert_succeeds_iff [OF sample_args_simps(4,1) sample_convert_init l] t
    by (simp add: sample_stream_bytes sample_stream_fits sample_stream_names sample_sharded_model sample_not_ft)
qed

text \<open>Pre-sharding renames alike on both sides. When every shard function makes as many shards as
  asked for, the names that the loader yields for the parameters of a model are the names of the
  pre-sharded model.\<close>

theorem preshard_names_agree:
  assumes "distinct (map fst named)" and "apply_preshard vm named n = (named', funcs)"
    and "\<forall>(name, np) \<in> set named. \<forall>st t. np_shard_strategy np = Some st \<longrightarrow> length (vm st t) = nat n"
    and "fst ` set ps = fst ` set named"
  shows "fst ` set (concat (map (preshard_param (Some funcs)) ps)) = fst ` set named'"
proof -
  have f: "funcs = snd (apply_preshard vm named n)" and n: "named' = fst (apply_preshard vm named n)"
    using assms(2) by simp_all
  have each: "fst ` set (preshard_param (Some funcs) (name, t)) = shard_names n (name, np)"
    if "(name, np) \<in> set named" for name np t
    unfolding f using that assms(1,3) by (intro preshard_param_names) auto
  have "fst ` set (concat (map (preshard_param (Some funcs)) ps)) = (\<Union>x \<in> set ps. fst ` set (preshard_param (Some funcs) x))"
    by auto
  also have "\<dots> = (\<Union>x \<in> set named. shard_names n x)"
  proof (rule set_eqI, rule iffI)
    fix y assume "y \<in> (\<Union>x \<in> set ps. fst ` set (preshard_param (Some funcs) x))"
    then obtain name t where x: "(name, t) \<in> set ps" "y \<in> fst ` set (preshard_param (Some funcs) (name, t))" by auto
    have "name \<in> fst ` set named" using x(1) assms(4) by force
    then obtain np where "(name, np) \<in> set named" by auto
    moreover have "y \<in> shard_names n (name, np)" using x(2) unfolding each [OF calculation] .
    ultimately show "y \<in> (\<Union>x \<in> set named. shard_names n x)" by (rule UN_I)
  next
    fix y assume "y \<in> (\<Union>x \<in> set named. shard_names n x)"
    then obtain name np where x: "(name, np) \<in> set named" "y \<in> shard_names n (name, np)" by auto
    have "name \<in> fst ` set ps" using x(1) assms(4) by force
    then obtain t where "(name, t) \<in> set ps" by auto
    moreover have "y \<in> fst ` set (preshard_param (Some funcs) (name, t))" using x(2) unfolding each [OF x(1)] .
    ultimately show "y \<in> (\<Union>x \<in> set ps. fst ` set (preshard_param (Some funcs) x))" by (rule UN_I)
  qed
  finally show ?thesis unfolding n by (simp add: apply_preshard_names)
qed

theorem preshard_names_agree_witness:
  "fst ` set (concat (map (preshard_param (Some (snd (apply_preshard (ca_vm sample_args) sample_named 2)))) sample_stream))
     = fst ` set (fst (apply_preshard (ca_vm sample_args) sample_named 2))"
proof (rule preshard_names_agree [of sample_named _ 2])
  show "distinct (map fst sample_named)" "fst ` set sample_stream = fst ` set sample_named"
    by (simp_all add: sample_named_def sample_stream_def)
  show "apply_preshard (ca_vm sample_args) sample_named 2
     = (fst (apply_preshard (ca_vm sample_args) sample_named 2), snd (apply_preshard (ca_vm sample_args) sample_named 2))" by simp
qed (simp add: sample_args_def)

text \<open>C25: what loading the weights of a Llama checkpoint yields, without quantization. Whenever the
  loader ends well with the mapping of Llama, it has yielded every parameter of the model once and
  nothing else, and each with its value: the joint projection of queries, keys and values of a layer is
  the three projections of the checkpoint joined in this order along the rows, the joint projection of
  gate and up likewise, every other parameter is the tensor of its name, each cast to the type that the
  model has for it.\<close>

theorem llama_loads_model:
  assumes "llama_huggingface nd n named = Inr ext" and "distinct (map fst named)"
    and "loader_init env ext p = Inr s" and "files_ok env P" and "path_suffix p = ''.json'' \<or> p \<in> P"
    and "snd ` set (ld_torch_to_path s) \<subseteq> P" and "any_order ord"
    and "load env ext None None ord s = (out, Inr (), s')"
  shows "distinct (map fst out) \<and> fst ` set out = fst ` set named
    \<and> (\<forall>(name, t) \<in> set out. \<exists>dtype t'. map_of named name = Some dtype
         \<and> llama_value nd n (file_param env (ld_torch_to_path s)) name dtype t' \<and> t = we_ndarray env t')"
proof -
  have w: "mapping_within named ext" "fst ` set (em_param_map ext) = fst ` set named"
    using llama_mapping_within assms(1) by blast+
  have order: "distinct (loading_order ext (ld_torch_to_path s))" "set (loading_order ext (ld_torch_to_path s)) = fst ` set named"
    using sourced_loading_order [OF _ assms(3)] w by (auto simp: mapping_within_def)
  have "direct_loop (param_stream env ext None None (ld_torch_to_path s)) (loading_order ext (ld_torch_to_path s)) = (out, Inr ())"
    using load_direct(1) [OF loader_init_inv(1) [OF assms(3-5)] assms(7,6,8)] by simp
  note d = direct_plain [OF this]
  have "fst ` set out = set (map fst out)" by simp
  moreover have "\<exists>dtype t'. map_of named name = Some dtype
      \<and> llama_value nd n (file_param env (ld_torch_to_path s)) name dtype t' \<and> t = we_ndarray env t'"
    if "(name, t) \<in> set out" for name t
    using d that by (intro llama_param_value [OF assms(1,2)]) blast
  ultimately show ?thesis using d order by auto
qed

theorem llama_loads_model_witness:
  "\<exists>ext s out s'. llama_huggingface sample_numpy 1 sample_llama_named = Inr ext
     \<and> loader_init sample_llama_weights ext ''m/index.json'' = Inr s
     \<and> load sample_llama_weights ext None None (\<lambda>_. rev) s = (out, Inr (), s')
     \<and> distinct (map fst out) \<and> fst ` set out = fst ` set sample_llama_named
     \<and> (\<forall>(name, t) \<in> set out. \<exists>dtype t'. map_of sample_llama_named name = Some dtype
          \<and> llama_value sample_numpy 1 (file_param sample_llama_weights (ld_torch_to_path s)) name dtype t'
          \<and> t = we_ndarray sample_llama_weights t')"
proof -
  obtain ext s out s' where e: "llama_huggingface sample_numpy 1 sample_llama_named = Inr ext"
    "loader_init sample_llama_weights ext ''m/index.json'' = Inr s" "files_ok sample_llama_weights {''m/a.bin''}"
    "snd ` set (ld_torch_to_path s) \<subseteq> {''m/a.bin''}" "load sample_llama_weights ext None None (\<lambda>_. rev) s = (out, Inr (), s')"
    using sample_llama by blast
  have d: "distinct (map fst sample_llama_named)" by (simp add: sample_llama_named_def)
  show ?thesis
    using llama_loads_model [OF e(1) d e(2,3) _ e(4) any_order_rev e(5)] sample_suffix e(1,2,5) by blast
qed

text \<open>Whatever weights are found are in one of the formats, the one asked for if any, and the file
  that describes them exists, except that the directory of AWQ weights is taken as it is.\<close>

theorem detect_weight_found:
  assumes "detect_weight env weight_path config_json_path weight_format fs = (Inr (p, f), fs')"
  shows "f \<in> set AVAILABLE_WEIGHT_FORMAT \<and> (weight_format \<noteq> ''auto'' \<longrightarrow> f = weight_format)
    \<and> (f \<noteq> ''awq'' \<longrightarrow> fs_has p fs')"
proof -
  obtain wp fs1 where
    "(if weight_format = ''auto'' then guess_weight_format env wp
     else if weight_format \<notin> set AVAILABLE_WEIGHT_FORMAT
     then py_raise (ValueError (''Available weight format list: ['huggingface-torch', 'huggingface-safetensor', 'awq'], but got ''
       @ weight_format))
     else case map_of (CHECK_FORMAT_METHODS env) weight_format of
            Some check_func \<Rightarrow> py_bind (check_func wp) (\<lambda>found. case found of
                None \<Rightarrow> py_raise (ValueError (''The weight is not in '' @ weight_format @ '' format.''))
              | Some p \<Rightarrow> py_return (p, weight_format))
          | None \<Rightarrow> py_return (wp, weight_format)) fs1 = (Inr (p, f), fs')"
    using assms unfolding detect_weight_def py_bind_eq_Inr by blast
  then show ?thesis
    by (auto simp: CHECK_FORMAT_METHODS_def AVAILABLE_WEIGHT_FORMAT_def py_bind_eq_Inr
        dest: guess_found check_pytorch_found check_safetensor_found split: if_splits option.splits)
qed

theorem detect_weight_found_witness:
  "\<exists>fs'. detect_weight sample_weights (Some ''m'') None ''auto''
       \<lparr>fs_exists = (\<lambda>p. p \<in> {''m'', ''m/model.safetensors''}), fs_written = []\<rparr>
     = (Inr (''m/model.safetensors.index.json'', ''huggingface-safetensor''), fs')
     \<and> fs_has ''m/model.safetensors.index.json'' fs'"
proof -
  let ?fs = "\<lparr>fs_exists = (\<lambda>p. p \<in> {''m'', ''m/model.safetensors''}), fs_written = []\<rparr>"
  obtain r fs' where d: "detect_weight sample_weights (Some ''m'') None ''auto'' ?fs = (r, fs')" by fastforce
  have "fst (detect_weight sample_weights (Some ''m'') None ''auto'' ?fs)
      = Inr (''m/model.safetensors.index.json'', ''huggingface-safetensor'')" by code_simp
  with d have e: "detect_weight sample_weights (Some ''m'') None ''auto'' ?fs
      = (Inr (''m/model.safetensors.index.json'', ''huggingface-safetensor''), fs')" by simp
  show ?thesis using detect_weight_found [OF e] e by auto
qed

end
