(* ===== verification/Tensor_Expr.thy ===== *)
theory Tensor_Expr
  imports Py_Parse "HOL-Library.Word"
begin

text \<open>
  Tensor expressions as the repository writes them, a shape with a function of the index, and the two
  rearrangements of weights built on them: packing of sub-byte fields into storage words
  (quantization/utils.py) and the split of a weight over the workers (support/tensor\_parallel.py). The
  theorems say that unpacking reads back what was packed and that the shards partition the weight.
\<close>

unbundle bit_operations_syntax

section \<open>Tensor expressions\<close>

record 'a te =
  te_shape :: "nat list"
  te_at :: "nat list \<Rightarrow> 'a"

definition te_compute :: "nat list \<Rightarrow> (nat list \<Rightarrow> 'a) \<Rightarrow> 'a te" where
  "te_compute shape f = \<lparr>te_shape = shape, te_at = f\<rparr>"

definition te_transpose :: "'a te \<Rightarrow> 'a te" where
  "te_transpose t = te_compute (rev (te_shape t)) (\<lambda>idx. te_at t (rev idx))"

definition norm_axis :: "int \<Rightarrow> nat list \<Rightarrow> nat" where
  "norm_axis axis shape = nat (if axis \<ge> 0 then axis else int (length shape) + axis)"

text \<open>\<open>(*idx[:axis], e, *idx[axis + 1:])\<close>, for indices and for shapes.\<close>

definition idx_set :: "nat \<Rightarrow> 'a \<Rightarrow> 'a list \<Rightarrow> 'a list" where
  "idx_set axis e idx = take axis idx @ e # drop (axis + 1) idx"

definition ceildiv :: "nat \<Rightarrow> nat \<Rightarrow> nat" where
  "ceildiv a b = (a + b - 1) div b"

section \<open>Packing\<close>

definition pack_weight ::
  "'w::len word te \<Rightarrow> int \<Rightarrow> nat \<Rightarrow> nat \<Rightarrow> nat list option \<Rightarrow> 'w word te" where
  "pack_weight weight ax num_elem_per_storage bits out_shape =
     (let shape = te_shape weight;
          axis = norm_axis ax shape;
          k = shape ! axis;
          out = (case out_shape of None \<Rightarrow> idx_set axis (ceildiv k num_elem_per_storage) shape
                 | Some s \<Rightarrow> s)
      in te_compute out (\<lambda>idx.
           sum_list (map (\<lambda>r.
             if idx ! axis * num_elem_per_storage + r < k
             then push_bit (r * bits) (te_at weight (idx_set axis (idx ! axis * num_elem_per_storage + r) idx))
             else 0) [0..<num_elem_per_storage])))"

definition ft_position :: "nat \<Rightarrow> nat" where
  "ft_position p = p mod 2 * 4 + p div 2"

text \<open>The output shape is an argument: every caller of \<open>convert_uint_to_float\<close> gives one.\<close>

definition unpack_uint ::
  "'w::len word te \<Rightarrow> nat \<Rightarrow> nat \<Rightarrow> int \<Rightarrow> nat list \<Rightarrow> bool \<Rightarrow> 'w word te" where
  "unpack_uint weight bits num_elem_per_storage ax out_shape ft_reorder =
     (let axis = norm_axis ax out_shape
      in te_compute out_shape (\<lambda>idx.
           drop_bit ((if ft_reorder then ft_position (idx ! axis mod num_elem_per_storage)
                      else idx ! axis mod num_elem_per_storage) * bits)
             (te_at weight (idx_set axis (idx ! axis div num_elem_per_storage) idx))
           AND mask bits))"

section \<open>Tensor-parallel shards\<close>

text \<open>The \<open>topi\<close> operations of \<open>gen_tir\<close>: a reshape that splits an axis in two, a transposition that moves
  an axis to the front, and a concatenation.\<close>

definition split_axis :: "nat \<Rightarrow> nat \<Rightarrow> nat \<Rightarrow> 'a te \<Rightarrow> 'a te" where
  "split_axis ax a b t =
     te_compute (take ax (te_shape t) @ a # b # drop (ax + 1) (te_shape t)) (\<lambda>idx.
       te_at t (take ax idx @ (idx ! ax * b + idx ! (ax + 1)) # drop (ax + 2) idx))"

definition axis_to_front :: "nat \<Rightarrow> 'a te \<Rightarrow> 'a te" where
  "axis_to_front ax t =
     te_compute (te_shape t ! ax # take ax (te_shape t) @ drop (ax + 1) (te_shape t)) (\<lambda>idx.
       te_at t (take ax (tl idx) @ hd idx # drop ax (tl idx)))"

fun concat_at :: "nat \<Rightarrow> 'a te \<Rightarrow> 'a te list \<Rightarrow> nat list \<Rightarrow> 'a" where
  "concat_at axis t [] idx = te_at t idx"
| "concat_at axis t (u # us) idx =
     (if idx ! axis < te_shape t ! axis then te_at t idx
      else concat_at axis u us (idx_set axis (idx ! axis - te_shape t ! axis) idx))"

definition te_concatenate :: "nat \<Rightarrow> 'a te list \<Rightarrow> 'a te res" where
  "te_concatenate axis ts =
     (case ts of
        [] \<Rightarrow> Inl (ValueError ''concatenate'')
      | t # us \<Rightarrow> Inr (te_compute (idx_set axis (sum_list (map (\<lambda>u. te_shape u ! axis) ts)) (te_shape t)) (concat_at axis t us)))"

definition compute_in_shape :: "nat \<Rightarrow> nat \<Rightarrow> nat list \<Rightarrow> nat list" where
  "compute_in_shape ax shards shape = idx_set ax (shape ! ax * shards) shape"

definition strategy_segs :: "nat list option \<Rightarrow> nat \<Rightarrow> nat list" where
  "strategy_segs segs n = (case segs of None \<Rightarrow> [n] | Some s \<Rightarrow> if s = [] then [n] else s)"

definition segment_piece :: "nat \<Rightarrow> nat \<Rightarrow> nat list \<Rightarrow> 'a te \<Rightarrow> nat \<Rightarrow> nat \<Rightarrow> 'a te" where
  "segment_piece ax shards shape w offset sub_seg =
     axis_to_front ax (split_axis ax shards sub_seg
       (te_compute (idx_set ax (sub_seg * shards) shape) (\<lambda>idx. te_at w (idx_set ax (idx ! ax + offset) idx))))"

fun segment_pieces :: "nat \<Rightarrow> nat \<Rightarrow> nat list \<Rightarrow> 'a te \<Rightarrow> nat \<Rightarrow> nat list \<Rightarrow> 'a te list" where
  "segment_pieces ax shards shape w offset [] = []"
| "segment_pieces ax shards shape w offset (sub_seg # segs) =
     segment_piece ax shards shape w offset sub_seg
       # segment_pieces ax shards shape w (offset + sub_seg * shards) segs"

text \<open>\<open>shape\<close> is the shape of one shard; the result is the function from the full weight to the shards.\<close>

definition gen_tir :: "nat \<Rightarrow> nat list option \<Rightarrow> nat \<Rightarrow> nat list \<Rightarrow> 'a te \<Rightarrow> 'a te res" where
  "gen_tir ax segs0 shards shape w =
     (let segs = strategy_segs segs0 (shape ! ax)
      in res_bind (res_assert (sum_list segs = shape ! ax) ''sum(segs) == shape[self.ax]'') (\<lambda>_.
         te_concatenate (1 + ax) (segment_pieces ax shards shape w 0 segs)))"

record shard_info =
  si_func_name :: string
  si_in_shape :: "nat list"
  si_out_shape :: "nat list"
  si_out_dtype :: string

definition gen_shard_info :: "string \<Rightarrow> nat \<Rightarrow> nat \<Rightarrow> nat list \<Rightarrow> string \<Rightarrow> shard_info" where
  "gen_shard_info name ax shards shape dtype =
     \<lparr>si_func_name = name, si_in_shape = compute_in_shape ax shards shape,
      si_out_shape = shards # shape, si_out_dtype = dtype\<rparr>"

section \<open>Specification\<close>

definition valid_idx :: "nat list \<Rightarrow> nat list \<Rightarrow> bool" where
  "valid_idx shape idx = list_all2 (<) idx shape"

text \<open>The sum of shifted fields of \<open>bits\<close> bits is their concatenation.\<close>

definition fields_fit :: "nat \<Rightarrow> nat \<Rightarrow> (nat \<Rightarrow> 'w::len word) \<Rightarrow> bool" where
  "fields_fit bits n f = (\<forall>r < n. take_bit bits (f r) = f r)"

fun shard_src :: "nat \<Rightarrow> nat \<Rightarrow> nat list \<Rightarrow> nat \<Rightarrow> nat \<Rightarrow> nat" where
  "shard_src shards offset [] s i = offset"
| "shard_src shards offset (seg # segs) s i =
     (if i < seg then s * seg + i + offset else shard_src shards (offset + seg * shards) segs s (i - seg))"

definition shard_index :: "nat \<Rightarrow> nat \<Rightarrow> nat list \<Rightarrow> nat list \<Rightarrow> nat list" where
  "shard_index ax shards segs idx = idx_set ax (shard_src shards 0 segs (hd idx) (tl idx ! ax)) (tl idx)"

definition sample_words :: "32 word te" where
  "sample_words = te_compute [2, 5] (\<lambda>idx. of_nat (idx ! 0 * 5 + idx ! 1))"

section \<open>Lemmas\<close>

subsection \<open>Indices\<close>

lemma idx_set_update: "axis < length idx \<Longrightarrow> idx_set axis e idx = idx[axis := e]"
  by (simp add: idx_set_def upd_conv_take_nth_drop)

lemma length_idx_set [simp]: "axis < length idx \<Longrightarrow> length (idx_set axis e idx) = length idx"
  by (simp add: idx_set_update)

lemma nth_idx_set [simp]: "axis < length idx \<Longrightarrow> idx_set axis e idx ! axis = e"
  by (simp add: idx_set_update)

lemma idx_set_idx_set [simp]:
  "axis < length idx \<Longrightarrow> idx_set axis e (idx_set axis d idx) = idx_set axis e idx"
  by (simp add: idx_set_update)

lemma idx_set_same [simp]: "axis < length idx \<Longrightarrow> idx_set axis (idx ! axis) idx = idx"
  by (simp add: idx_set_update)

lemma valid_idxD:
  assumes "valid_idx shape idx" "axis < length shape"
  shows "length idx = length shape" "axis < length idx" "idx ! axis < shape ! axis"
  using assms by (auto simp: valid_idx_def list_all2_conv_all_nth)

lemma valid_idx_set:
  assumes "valid_idx shape idx" "axis < length shape" "e < shape ! axis"
  shows "valid_idx shape (idx_set axis e idx)"
proof -
  note v = valid_idxD [OF assms(1,2)]
  show ?thesis using assms v
    by (simp add: idx_set_update valid_idx_def list_all2_conv_all_nth nth_list_update)
qed

lemma te_compute_sel [simp]:
  "te_shape (te_compute s f) = s" "te_at (te_compute s f) = f"
  by (simp_all add: te_compute_def)

lemma te_transpose_sel [simp]:
  "te_shape (te_transpose t) = rev (te_shape t)" "te_at (te_transpose t) idx = te_at t (rev idx)"
  by (simp_all add: te_transpose_def)

lemma norm_axis_int [simp]: "norm_axis (int n) shape = n"
  by (simp add: norm_axis_def)

subsection \<open>Packed fields\<close>

lemma bit_packed:
  fixes f :: "nat \<Rightarrow> 'w::len word"
  assumes "fields_fit bits n f" "n * bits \<le> LENGTH('w)" "0 < bits"
  shows "bit (sum_list (map (\<lambda>r. push_bit (r * bits) (f r)) [0..<n])) i
         \<longleftrightarrow> i < n * bits \<and> bit (f (i div bits)) (i mod bits)"
  using assms(1,2)
proof (induction n arbitrary: i)
  case 0
  then show ?case by simp
next
  case (Suc n)
  let ?S = "sum_list (map (\<lambda>r. push_bit (r * bits) (f r)) [0..<n])"
  let ?P = "push_bit (n * bits) (f n)"
  have fit: "fields_fit bits n f" and le: "n * bits \<le> LENGTH('w)"
    using Suc.prems by (auto simp: fields_fit_def)
  note IH = Suc.IH [OF fit le]
  have top: "bit (f n) j \<Longrightarrow> j < bits" for j
    using Suc.prems(1) by (metis bit_take_bit_iff fields_fit_def lessI)
  have bP: "bit ?P j \<longleftrightarrow> j < LENGTH('w) \<and> n * bits \<le> j \<and> bit (f n) (j - n * bits)" for j
    by (auto simp: bit_simps)
  have "?S AND ?P = 0"
    by (rule bit_word_eqI) (auto simp: bit_and_iff IH bP)
  then have sum: "?S + ?P = ?S OR ?P"
    by (rule disjunctive_add_eq_or)
  have high: "i div bits = n" "i mod bits = i - n * bits"
    if "n * bits \<le> i" "i < Suc n * bits"
  proof -
    show d: "i div bits = n"
      using that assms(3) by (intro div_nat_eqI) (auto simp: algebra_simps)
    show "i mod bits = i - n * bits"
      using d by (metis minus_mult_div_eq_mod mult.commute)
  qed
  have lim: "n * bits + bits \<le> LENGTH('w)"
    using Suc.prems(2) by (simp add: algebra_simps)
  have "bit (?S + ?P) i \<longleftrightarrow> (i < n * bits \<and> bit (f (i div bits)) (i mod bits)) \<or>
      (n * bits \<le> i \<and> i < LENGTH('w) \<and> bit (f n) (i - n * bits))"
    by (auto simp: sum bit_or_iff IH bP)
  also have "\<dots> \<longleftrightarrow> i < Suc n * bits \<and> bit (f (i div bits)) (i mod bits)"
  proof (cases "n * bits \<le> i")
    case True
    then show ?thesis using high [OF True] top [of "i - n * bits"] lim by auto
  next
    case False
    then show ?thesis by auto
  qed
  finally show ?case by simp
qed

lemma packed_field:
  fixes f :: "nat \<Rightarrow> 'w::len word"
  assumes "fields_fit bits n f" "n * bits \<le> LENGTH('w)" "0 < bits" "p < n"
  shows "drop_bit (p * bits) (sum_list (map (\<lambda>r. push_bit (r * bits) (f r)) [0..<n])) AND mask bits = f p"
proof (rule bit_word_eqI)
  fix i assume i: "i < LENGTH('w)"
  have fp: "bit (f p) i \<Longrightarrow> i < bits"
    using assms(1,4) by (metis bit_take_bit_iff fields_fit_def)
  have pos: "(p * bits + i) div bits = p" "(p * bits + i) mod bits = i" "p * bits + i < n * bits"
    if "i < bits"
  proof -
    show "(p * bits + i) div bits = p" "(p * bits + i) mod bits = i" using that by auto
    have "p * bits + i < Suc p * bits" using that by simp
    also have "\<dots> \<le> n * bits" using assms(4) by (intro mult_right_mono) auto
    finally show "p * bits + i < n * bits" .
  qed
  show "bit (drop_bit (p * bits) (sum_list (map (\<lambda>r. push_bit (r * bits) (f r)) [0..<n])) AND mask bits) i = bit (f p) i"
    using pos fp i
    by (auto simp: bit_and_iff bit_drop_bit_eq bit_mask_iff bit_packed [OF assms(1-3)])
qed

lemma unpack_pack:
  fixes w :: "'w::len word te"
  assumes idx: "valid_idx (te_shape w) idx" and ax: "axis < length (te_shape w)"
    and n: "0 < n" "n * bits \<le> LENGTH('w)" "0 < bits"
    and fit: "\<And>j. j < te_shape w ! axis \<Longrightarrow> j div n = idx ! axis div n
        \<Longrightarrow> take_bit bits (te_at w (idx_set axis j idx)) = te_at w (idx_set axis j idx)"
  shows "te_at (unpack_uint (pack_weight w (int axis) n bits sh) bits n (int axis) out False) idx = te_at w idx"
proof -
  let ?k = "te_shape w ! axis" and ?q = "idx ! axis div n" and ?p = "idx ! axis mod n"
  let ?f = "\<lambda>r. if ?q * n + r < ?k then te_at w (idx_set axis (?q * n + r) idx) else 0"
  note v = valid_idxD [OF idx ax]
  have fits: "fields_fit bits n ?f"
    by (auto simp: fields_fit_def fit)
  have sum: "te_at (pack_weight w (int axis) n bits sh) (idx_set axis ?q idx)
      = sum_list (map (\<lambda>r. push_bit (r * bits) (?f r)) [0..<n])"
    using v(2) by (simp add: pack_weight_def Let_def if_distrib cong: if_cong)
  have "drop_bit (?p * bits) (sum_list (map (\<lambda>r. push_bit (r * bits) (?f r)) [0..<n])) AND mask bits = ?f ?p"
    by (rule packed_field [OF fits n(2,3)]) (use n(1) in simp)
  also have "?f ?p = te_at w idx" using v by simp
  finally show ?thesis
    by (simp add: unpack_uint_def Let_def sum del: if_distrib)
qed

lemma word_field:
  assumes "n < 2 ^ bits"
  shows "take_bit bits (of_nat n :: 'w::len word) = of_nat n"
proof -
  have "take_bit bits (of_nat n :: 'w word) = of_nat (take_bit bits n)"
    by (rule bit_word_eqI) (auto simp: bit_simps)
  then show ?thesis using assms by (simp add: take_bit_nat_eq_self)
qed

lemma pack_weight_shape [simp]: "te_shape (pack_weight w ax n bits (Some s)) = s"
  by (simp add: pack_weight_def Let_def)

text \<open>Reading a transposed weight along its first axis is reading the weight along its last.\<close>

lemma unpack_transpose:
  "te_at (unpack_uint (te_transpose q) bits n 0 out False) [i, j] = te_at (unpack_uint q bits n (- 1) [a, b] False) [j, i]"
  by (simp add: unpack_uint_def Let_def norm_axis_def idx_set_def)

lemma unpack_norm_axis:
  "unpack_uint q bits n (int (norm_axis ax out)) out r = unpack_uint q bits n ax out r"
  by (simp add: unpack_uint_def)

lemma norm_axis_last: "norm_axis (- 1) [a, b] = 1" "norm_axis (- 1) [a, b, c] = 2"
  by (simp_all add: norm_axis_def)

lemma idx_set_pair: "idx_set 1 e [a, b] = [a, e]" "idx_set 0 e [a, b] = [e, b]"
  by (simp_all add: idx_set_def)

lemma idx_set_triple: "idx_set 2 e [a, b, c] = [a, b, e]"
  by (simp add: idx_set_def numeral_2_eq_2)

subsection \<open>Shards\<close>

lemma segment_piece_shape:
  "ax < length shape \<Longrightarrow> te_shape (segment_piece ax shards shape w offset seg) = shards # idx_set ax seg shape"
  by (simp add: segment_piece_def axis_to_front_def split_axis_def idx_set_def nth_append min_def)

lemma segment_piece_at:
  assumes "ax < length idx"
  shows "te_at (segment_piece ax shards shape w offset seg) (s # idx)
         = te_at w (idx_set ax (s * seg + idx ! ax + offset) idx)"
proof -
  have len: "length (take ax idx) = ax" using assms by simp
  have d: "drop ax idx = idx ! ax # drop (Suc ax) idx" using assms by (rule Cons_nth_drop_Suc [symmetric])
  show ?thesis
    unfolding segment_piece_def axis_to_front_def split_axis_def idx_set_def te_compute_sel list.sel
    using assms by (simp add: d nth_append len)
qed

lemma concat_pieces_at:
  assumes "ax < length shape" "ax < length idx" "idx ! ax < seg + sum_list segs"
  shows "concat_at (1 + ax) (segment_piece ax shards shape w offset seg)
           (segment_pieces ax shards shape w (offset + seg * shards) segs) (s # idx)
         = te_at w (idx_set ax (shard_src shards offset (seg # segs) s (idx ! ax)) idx)"
  using assms
proof (induction segs arbitrary: offset seg idx)
  case Nil
  then show ?case by (simp add: segment_piece_at)
next
  case (Cons seg' segs)
  show ?case
  proof (cases "idx ! ax < seg")
    case True
    then show ?thesis using Cons.prems by (simp add: segment_piece_shape segment_piece_at)
  next
    case False
    have step: "idx_set (1 + ax) e (s # idx) = s # idx_set ax e idx" for e
      by (simp add: idx_set_def)
    show ?thesis
      using False Cons.prems Cons.IH [of "idx_set ax (idx ! ax - seg) idx" seg' "offset + seg * shards"]
      by (simp add: segment_piece_shape step [unfolded plus_1_eq_Suc])
  qed
qed

lemma range_split_bij:
  "bij_betw (\<lambda>(s, i). s * seg + i + offset) ({..<shards} \<times> {..<seg}) {offset..<offset + seg * (shards::nat)}"
proof (rule bij_betw_byWitness [where f' = "\<lambda>p. ((p - offset) div seg, (p - offset) mod seg)"])
  show "(\<lambda>(s, i). s * seg + i + offset) ` ({..<shards} \<times> {..<seg}) \<subseteq> {offset..<offset + seg * shards}"
  proof clarsimp
    fix s i assume "s < shards" "i < seg"
    then have "s * seg + i < Suc s * seg" "Suc s * seg \<le> shards * seg" by (simp, intro mult_le_mono1) simp
    then show "s * seg + i < seg * shards" by (metis mult.commute order_less_le_trans)
  qed
  show "(\<lambda>p. ((p - offset) div seg, (p - offset) mod seg)) ` {offset..<offset + seg * shards} \<subseteq> {..<shards} \<times> {..<seg}"
  proof clarsimp
    fix p assume "offset \<le> p" "p < offset + seg * shards"
    then have lt: "p - offset < seg * shards" by linarith
    then have "0 < seg" by (cases seg) auto
    then show "(p - offset) div seg < shards \<and> (p - offset) mod seg < seg"
      using lt by (simp add: less_mult_imp_div_less mult.commute)
  qed
qed auto

lemma shard_src_bij:
  "bij_betw (\<lambda>(s, i). shard_src shards offset segs s i) ({..<shards} \<times> {..<sum_list segs})
     {offset..<offset + sum_list segs * shards}"
proof (induction segs arbitrary: offset)
  case Nil
  then show ?case by (simp add: bij_betw_def)
next
  case (Cons seg segs)
  let ?f = "\<lambda>(s, i). shard_src shards offset (seg # segs) s i"
  let ?A = "{..<shards} \<times> {..<seg}" and ?B = "{..<shards} \<times> {seg..<seg + sum_list segs}"
  let ?P = "{offset..<offset + seg * shards}"
    and ?Q = "{offset + seg * shards..<offset + seg * shards + sum_list segs * shards}"
  have a: "bij_betw ?f ?A ?P"
    by (rule bij_betw_cong [THEN iffD1, OF _ range_split_bij]) auto
  have sh: "bij_betw (\<lambda>(s, i). (s, i - seg)) ?B ({..<shards} \<times> {..<sum_list segs})"
    by (rule bij_betw_byWitness [where f' = "\<lambda>(s, i). (s, i + seg)"]) auto
  have b: "bij_betw ?f ?B ?Q"
    by (rule bij_betw_cong [THEN iffD1, OF _ bij_betw_trans [OF sh Cons.IH [of "offset + seg * shards"]]]) auto
  have "bij_betw ?f (?A \<union> ?B) (?P \<union> ?Q)"
    by (rule bij_betw_combine [OF a b]) auto
  moreover have "?A \<union> ?B = {..<shards} \<times> {..<sum_list (seg # segs)}" by auto
  moreover have "?P \<union> ?Q = {offset..<offset + sum_list (seg # segs) * shards}"
    by (auto simp: algebra_simps)
  ultimately show ?case by simp
qed

lemma valid_idx_Cons: "valid_idx (n # shape) idx \<longleftrightarrow> (\<exists>s is. idx = s # is \<and> s < n \<and> valid_idx shape is)"
  by (cases idx) (auto simp: valid_idx_def)

lemma valid_idx_axis:
  assumes "ax < length shape" "e < n" "valid_idx shape is"
  shows "valid_idx (idx_set ax n shape) (idx_set ax e is)"
  using assms by (auto simp: valid_idx_def list_all2_conv_all_nth idx_set_update nth_list_update)

lemma shard_index_bij:
  assumes ax: "ax < length shape" and segs: "sum_list segs = shape ! ax"
  shows "bij_betw (shard_index ax shards segs) {idx. valid_idx (shards # shape) idx}
           {idx. valid_idx (compute_in_shape ax shards shape) idx}"
proof -
  let ?src = "\<lambda>(s, i). shard_src shards 0 segs s i"
  have bij: "bij_betw ?src ({..<shards} \<times> {..<shape ! ax}) {..<shape ! ax * shards}"
    using shard_src_bij [of shards 0 segs] segs by (simp add: lessThan_atLeast0)
  show ?thesis
  proof (rule bij_betw_imageI)
    show "inj_on (shard_index ax shards segs) {idx. valid_idx (shards # shape) idx}"
    proof (rule inj_onI; clarsimp simp: valid_idx_Cons)
      fix s "is" s' is'
      assume eq: "shard_index ax shards segs (s # is) = shard_index ax shards segs (s' # is')"
        and s: "s < shards" "s' < shards" and v: "valid_idx shape is" "valid_idx shape is'"
      note d = valid_idxD [OF v(1) ax] and d' = valid_idxD [OF v(2) ax]
      have set_eq: "idx_set ax (?src (s, is ! ax)) is = idx_set ax (?src (s', is' ! ax)) is'"
        using eq by (simp add: shard_index_def)
      have "?src (s, is ! ax) = ?src (s', is' ! ax)"
        using arg_cong [OF set_eq, where f = "\<lambda>x. x ! ax"] d d' by simp
      then have si: "(s, is ! ax) = (s', is' ! ax)"
        using s d d' by (intro inj_onD [OF bij_betw_imp_inj_on [OF bij]]) auto
      have "idx_set ax (is ! ax) is = idx_set ax (is' ! ax) is'"
        using arg_cong [OF set_eq, where f = "idx_set ax (is ! ax)"] d d' si by simp
      then show "s = s' \<and> is = is'" using si d d' by simp
    qed
    show "shard_index ax shards segs ` {idx. valid_idx (shards # shape) idx}
        = {idx. valid_idx (compute_in_shape ax shards shape) idx}"
    proof (intro equalityI subsetI; clarsimp simp: valid_idx_Cons)
      fix s "is" assume s: "s < shards" and v: "valid_idx shape is"
      have "?src (s, is ! ax) \<in> {..<shape ! ax * shards}"
        using s valid_idxD [OF v ax] by (intro bij_betw_apply [OF bij]) auto
      then show "valid_idx (compute_in_shape ax shards shape) (shard_index ax shards segs (s # is))"
        using valid_idx_axis [OF ax _ v] by (simp add: shard_index_def compute_in_shape_def)
    next
      fix idx assume v: "valid_idx (compute_in_shape ax shards shape) idx"
      have ax': "ax < length (compute_in_shape ax shards shape)" using ax by (simp add: compute_in_shape_def)
      note d = valid_idxD [OF v ax']
      have "idx ! ax \<in> ?src ` ({..<shards} \<times> {..<shape ! ax})"
        unfolding bij_betw_imp_surj_on [OF bij] using d(3) ax by (simp add: compute_in_shape_def)
      then obtain s i where si: "s < shards" "i < shape ! ax" "shard_src shards 0 segs s i = idx ! ax"
        by (auto simp: image_iff)
      have "valid_idx (idx_set ax (shape ! ax) (compute_in_shape ax shards shape)) (idx_set ax i idx)"
        by (rule valid_idx_axis [OF ax' si(2) v])
      then have "valid_idx shape (idx_set ax i idx)" using ax by (simp add: compute_in_shape_def)
      moreover have "shard_index ax shards segs (s # idx_set ax i idx) = idx"
        using si d by (simp add: shard_index_def)
      ultimately show "idx \<in> shard_index ax shards segs ` {idx. \<exists>s is. idx = s # is \<and> s < shards \<and> valid_idx shape is}"
        using si(1) by (intro image_eqI [where x = "s # idx_set ax i idx"]) auto
    qed
  qed
qed

lemma gen_tir_at:
  assumes ax: "ax < length shape" and segs: "segs = strategy_segs segs0 (shape ! ax)" "sum_list segs = shape ! ax"
  obtains t where "gen_tir ax segs0 shards shape w = Inr t" "te_shape t = shards # shape"
    "\<forall>idx. valid_idx (shards # shape) idx \<longrightarrow> te_at t idx = te_at w (shard_index ax shards segs idx)"
proof -
  obtain seg segs' where sg: "segs = seg # segs'"
    using segs(1) by (cases segs) (auto simp: strategy_segs_def split: option.splits if_splits)
  have shapes: "sum_list (map (\<lambda>u. te_shape u ! (1 + ax)) (segment_pieces ax shards shape w off ss)) = sum_list ss" for off ss
    using ax by (induction ss arbitrary: off) (simp_all add: segment_piece_shape)
  define t where "t = te_compute (idx_set (1 + ax) (shape ! ax) (shards # idx_set ax seg shape))
      (concat_at (1 + ax) (segment_piece ax shards shape w 0 seg) (segment_pieces ax shards shape w (0 + seg * shards) segs'))"
  have "gen_tir ax segs0 shards shape w = te_concatenate (1 + ax) (segment_pieces ax shards shape w 0 segs)"
    using segs by (simp add: gen_tir_def Let_def res_assert_def)
  also have "\<dots> = Inr t"
    using shapes [of 0 segs] segs(2) ax
    by (simp add: te_concatenate_def sg t_def segment_piece_shape)
  finally have "gen_tir ax segs0 shards shape w = Inr t" .
  moreover have "te_shape t = shards # shape"
    using ax by (simp add: t_def idx_set_def id_take_nth_drop [symmetric])
  moreover have "te_at t idx = te_at w (shard_index ax shards segs idx)" if v: "valid_idx (shards # shape) idx" for idx
  proof -
    obtain s "is" where i: "idx = s # is" "valid_idx shape is" using v [unfolded valid_idx_Cons] by blast
    note d = valid_idxD [OF i(2) ax]
    have "is ! ax < seg + sum_list segs'" using d(3) segs(2) sg by simp
    then show ?thesis
      unfolding t_def i(1) shard_index_def sg te_compute_sel list.sel by (rule concat_pieces_at [OF ax d(2)])
  qed
  ultimately show ?thesis using that by blast
qed

section \<open>Properties\<close>

text \<open>
  C33: packing fields of \<open>bits\<close> bits along an axis and unpacking them along the same axis gives the tensor back
  at every index, for every storage word the fields fit in and a last word that may be partly filled.
\<close>

theorem pack_roundtrip:
  fixes w :: "'w::len word te"
  assumes "valid_idx (te_shape w) idx" "axis < length (te_shape w)"
    and "0 < n" "0 < bits" "n * bits \<le> LENGTH('w)"
    and "\<And>i. valid_idx (te_shape w) i \<Longrightarrow> unat (te_at w i) < 2 ^ bits"
  shows "te_at (unpack_uint (pack_weight w (int axis) n bits out) bits n (int axis) (te_shape w) False) idx = te_at w idx"
proof (rule unpack_pack [OF assms(1,2,3,5,4)])
  fix j assume "j < te_shape w ! axis"
  then have "unat (te_at w (idx_set axis j idx)) < 2 ^ bits"
    by (intro assms(6) valid_idx_set assms(1,2))
  then show "take_bit bits (te_at w (idx_set axis j idx)) = te_at w (idx_set axis j idx)"
    using word_field [of "unat (te_at w (idx_set axis j idx))" bits, where 'w = 'w] by simp
qed

theorem pack_roundtrip_witness:
  "te_at (unpack_uint (pack_weight sample_words 1 8 4 None) 4 8 1 [2, 5] False) [1, 3] = (8 :: 32 word)"
proof -
  have small: "unat (te_at sample_words i) < 2 ^ 4" if v: "valid_idx (te_shape sample_words) i" for i
  proof -
    obtain a b where "i = [a, b]" "a < 2" "b < 5"
      using v by (auto simp: sample_words_def valid_idx_def list_all2_Cons2)
    moreover from this have "a * 5 + b < 16" by simp
    ultimately show ?thesis
      by (simp add: sample_words_def unsigned_of_nat take_bit_nat_eq_self del: of_nat_add of_nat_mult)
  qed
  have "te_at (unpack_uint (pack_weight sample_words (int 1) 8 4 None) 4 8 (int 1) (te_shape sample_words) False) [1, 3]
      = te_at sample_words [1, 3]"
    by (rule pack_roundtrip [OF _ _ _ _ _ small]) (simp_all add: sample_words_def valid_idx_def)
  then show ?thesis by (simp add: sample_words_def)
qed

text \<open>
  C30: when the segments of a sharding strategy add up to the sharded dimension, the function it generates
  moves every element of the full weight to exactly one place of exactly one shard, whatever the weight.
\<close>

theorem shards_partition_weight:
  assumes "ax < length shape" "sum_list (strategy_segs segs0 (shape ! ax)) = shape ! ax"
  shows "\<exists>src. bij_betw src {idx. valid_idx (shards # shape) idx} {idx. valid_idx (compute_in_shape ax shards shape) idx} \<and>
    (\<forall>w :: 'a te. \<exists>t. gen_tir ax segs0 shards shape w = Inr t \<and> te_shape t = shards # shape \<and>
       (\<forall>idx. valid_idx (shards # shape) idx \<longrightarrow> te_at t idx = te_at w (src idx)))"
proof (intro exI [of _ "shard_index ax shards (strategy_segs segs0 (shape ! ax))"] conjI allI)
  show "bij_betw (shard_index ax shards (strategy_segs segs0 (shape ! ax))) {idx. valid_idx (shards # shape) idx}
      {idx. valid_idx (compute_in_shape ax shards shape) idx}"
    by (rule shard_index_bij [OF assms])
  fix w :: "'a te"
  show "\<exists>t. gen_tir ax segs0 shards shape w = Inr t \<and> te_shape t = shards # shape \<and>
      (\<forall>idx. valid_idx (shards # shape) idx \<longrightarrow>
         te_at t idx = te_at w (shard_index ax shards (strategy_segs segs0 (shape ! ax)) idx))"
    by (rule gen_tir_at [OF assms(1) refl assms(2), of shards w]) blast
qed

theorem shards_partition_weight_witness:
  "\<exists>src. bij_betw src {idx. valid_idx [2, 4, 3] idx} {idx. valid_idx [8, 3] idx} \<and>
    (\<forall>w :: nat te. \<exists>t. gen_tir 0 (Some [1, 3]) 2 [4, 3] w = Inr t \<and> te_shape t = [2, 4, 3] \<and>
       (\<forall>idx. valid_idx [2, 4, 3] idx \<longrightarrow> te_at t idx = te_at w (src idx)))"
  using shards_partition_weight [of 0 "[4, 3]" "Some [1, 3]" 2, where 'a = nat]
  by (simp add: strategy_segs_def compute_in_shape_def idx_set_def)

end
