(* ===== verification/Tir_Float.thy ===== *)
theory Tir_Float
  imports Py_Float
begin

text \<open>
  Binary floating-point formats of any precision, for the arithmetic of the compiled tensor expressions
  (float16, bfloat16 and float32): a finite value is its rational number, and the result of an operation
  is rounded to the nearest value of the format with ties to even. The lemmas give the standard bound on
  the error of rounding, relative for normal and absolute for subnormal results, and that small integers
  are exact.
\<close>

section \<open>Formats\<close>

text \<open>
  A format has \<open>p\<close> significant bits, and \<open>2 powi emin\<close> is its smallest subnormal value. The exponent is
  that of the last bit of the value next to a positive number.
\<close>

definition fmt_exponent :: "nat \<Rightarrow> int \<Rightarrow> rat \<Rightarrow> int" where
  "fmt_exponent p emin x =
     (let (n, d) = quotient_of x; k = bitlen n - bitlen d
      in max ((if 2 powi k \<le> x then k else k - 1) - (int p - 1)) emin)"

text \<open>Overflow is left to the client: the exponent is not bounded from above.\<close>

definition fmt_round :: "nat \<Rightarrow> int \<Rightarrow> rat \<Rightarrow> rat" where
  "fmt_round p emin x =
     (if x = 0 then 0
      else let q = 2 powi fmt_exponent p emin \<bar>x\<bar> in sgn x * (of_int (round_even (\<bar>x\<bar> / q)) * q))"

section \<open>Lemmas\<close>

lemma round_even_near: "\<bar>of_int (round_even y) - y\<bar> \<le> 1 / 2"
proof -
  have "0 \<le> y - of_int \<lfloor>y\<rfloor>" "y - of_int \<lfloor>y\<rfloor> < 1" by linarith+
  then show ?thesis by (auto simp: round_even_def Let_def abs_le_iff)
qed

text \<open>The exponent is that of the leading bit: the power of two below the number.\<close>

lemma leading_bit:
  assumes "0 < x" and "quotient_of x = (n, d)"
  defines "k \<equiv> bitlen n - bitlen d"
  shows "2 powi (if 2 powi k \<le> x then k else k - 1) \<le> x"
proof -
  from assms have d: "0 < d" and x: "x = of_int n / of_int d"
    by (auto simp: quotient_of_denom_pos quotient_of_div)
  with assms(1) have n: "0 < n" by (simp add: zero_less_divide_iff)
  have nb: "2 ^ nat (bitlen n - 1) \<le> n" and db: "d < 2 ^ nat (bitlen d)"
    using bitlen_bounds [OF n] bitlen_bounds [OF d] by auto
  have bn: "0 < bitlen n" "0 < bitlen d"
    using bitlen_eq_zero_iff [of n] bitlen_eq_zero_iff [of d] bitlen_nonneg [of n]
      bitlen_nonneg [of d] n d by linarith+
  have "2 powi (k - 1) = (2 powi (bitlen n - 1) :: rat) / 2 powi (bitlen d)"
    by (simp add: k_def power_int_diff power_int_add field_simps)
  also have "\<dots> \<le> x"
    unfolding x using n d nb db bn by (intro frac_le) (simp_all add: power_int_def)
  finally show ?thesis by simp
qed

lemma fmt_exponent_lead:
  assumes "0 < x"
  obtains j where "2 powi j \<le> x" "fmt_exponent p emin x = max (j - (int p - 1)) emin"
proof -
  obtain n d where q: "quotient_of x = (n, d)" by fastforce
  show ?thesis using leading_bit [OF assms q] by (intro that) (auto simp: fmt_exponent_def q Let_def)
qed

lemma fmt_round_error:
  "\<bar>fmt_round p emin x - x\<bar> \<le> max (\<bar>x\<bar> / 2 ^ p) (2 powi (emin - 1))"
proof (cases "x = 0")
  case False
  then have x: "0 < \<bar>x\<bar>" by simp
  obtain j where j: "2 powi j \<le> \<bar>x\<bar>" "fmt_exponent p emin \<bar>x\<bar> = max (j - (int p - 1)) emin"
    by (rule fmt_exponent_lead [OF x])
  define q :: rat where "q = 2 powi fmt_exponent p emin \<bar>x\<bar>"
  have q: "0 < q" by (simp add: q_def)
  have "x = sgn x * \<bar>x\<bar>" by (simp add: mult_sgn_abs)
  then have "fmt_round p emin x - x = sgn x * (of_int (round_even (\<bar>x\<bar> / q)) * q - \<bar>x\<bar>)"
    using False by (simp add: fmt_round_def Let_def q_def [symmetric] right_diff_distrib)
  then have "\<bar>fmt_round p emin x - x\<bar> = \<bar>of_int (round_even (\<bar>x\<bar> / q)) * q - \<bar>x\<bar>\<bar>"
    using False by (simp add: abs_mult)
  also have "of_int (round_even (\<bar>x\<bar> / q)) * q - \<bar>x\<bar> = (of_int (round_even (\<bar>x\<bar> / q)) - \<bar>x\<bar> / q) * q"
    using q by (simp add: field_simps)
  also have "\<bar>\<dots>\<bar> \<le> 1 / 2 * q"
    unfolding abs_mult using q round_even_near by (intro mult_mono) auto
  also have "\<dots> \<le> max (\<bar>x\<bar> / 2 ^ p) (2 powi (emin - 1))"
  proof (cases "j - (int p - 1) \<le> emin")
    case True
    then have "1 / 2 * q = 2 powi (emin - 1)" by (simp add: q_def j(2) power_int_diff)
    then show ?thesis by simp
  next
    case False
    then have "1 / 2 * q = 2 powi j / 2 ^ p"
      by (simp add: q_def j(2) power_int_diff power_int_add field_simps)
    also have "\<dots> \<le> \<bar>x\<bar> / 2 ^ p" using j(1) by (intro divide_right_mono) auto
    finally show ?thesis by (rule max.coboundedI1)
  qed
  finally show ?thesis .
qed (simp add: fmt_round_def)

lemma fmt_round_int:
  assumes "\<bar>i\<bar> < 2 ^ p" and "emin \<le> 0"
  shows "fmt_round p emin (of_int i) = of_int i"
proof (cases "i = 0")
  case False
  let ?x = "\<bar>of_int i\<bar> :: rat"
  from False have x: "0 < ?x" by simp
  obtain j where j: "2 powi j \<le> ?x" "fmt_exponent p emin ?x = max (j - (int p - 1)) emin"
    by (rule fmt_exponent_lead [OF x])
  have "?x < 2 powi int p"
    using assms(1) by (metis of_int_abs of_int_less_iff of_int_numeral of_int_power power_int_of_nat)
  with j(1) have "(2::rat) powi j < 2 powi int p" by linarith
  then have "j < int p" by (metis not_less power_int_increasing one_le_numeral)
  define e where "e = fmt_exponent p emin ?x"
  have e: "e \<le> 0" using \<open>j < int p\<close> assms(2) by (simp add: e_def j(2))
  have "2 powi e = (1::rat) / 2 ^ nat (- e)" using e by (simp add: power_int_def inverse_eq_divide power_one_over)
  then have q: "?x / 2 powi e = of_int (\<bar>i\<bar> * 2 ^ nat (- e))" by simp
  have "fmt_round p emin (of_int i) = sgn (of_int i) * (of_int (round_even (?x / 2 powi e)) * 2 powi e)"
    using False by (simp add: fmt_round_def Let_def e_def)
  also have "of_int (round_even (?x / 2 powi e)) = ?x / 2 powi e" unfolding q by (simp only: round_even_int)
  also have "sgn (of_int i) * (?x / 2 powi e * 2 powi e) = of_int i" by (simp add: sgn_mult_abs)
  finally show ?thesis .
qed (simp add: fmt_round_def)

end
