(* ===== verification/Group_Quantize.thy ===== *)
theory Group_Quantize
  imports Weight_Convert Tensor_Expr Tir_Float
begin

text \<open>
  Group quantization (quantization/group\_quantization.py): the configuration and its checks, the
  quantization and dequantization of a weight as tensor expressions over a parameter arithmetic, the
  quantized layers and the cache of compiled functions. The theorems bound the error of a layer's weight
  in exact arithmetic and say that the cache is transparent.
\<close>

unbundle bit_operations_syntax

section \<open>Data types and arithmetic\<close>

datatype type_code = TInt | TUInt | TFloat | TBFloat | TFloat8E4M3FN | TFloat8E5M2

text \<open>
  \<open>DataType(s)\<close> of TVM and \<open>tir.max_value\<close> are parameters: the code and the width of a type name, and
  the integral part of the largest value of a floating-point type.
\<close>

record tvm_types =
  tt_dtype :: "string \<Rightarrow> (type_code \<times> nat) res"
  tt_max_value :: "string \<Rightarrow> nat"

text \<open>
  The scalar operations of the model's floating-point type that the tensor expressions use; the
  conversions are those to and from the 32-bit storage and to the signed 8-bit one.
\<close>

record 'f tir_float =
  tf_const :: "nat \<Rightarrow> 'f"
  tf_min_value :: 'f
  tf_abs :: "'f \<Rightarrow> 'f"
  tf_neg :: "'f \<Rightarrow> 'f"
  tf_round :: "'f \<Rightarrow> 'f"
  tf_max :: "'f \<Rightarrow> 'f \<Rightarrow> 'f"
  tf_min :: "'f \<Rightarrow> 'f \<Rightarrow> 'f"
  tf_add :: "'f \<Rightarrow> 'f \<Rightarrow> 'f"
  tf_sub :: "'f \<Rightarrow> 'f \<Rightarrow> 'f"
  tf_mul :: "'f \<Rightarrow> 'f \<Rightarrow> 'f"
  tf_div :: "'f \<Rightarrow> 'f \<Rightarrow> 'f"
  tf_of_uint :: "32 word \<Rightarrow> 'f"
  tf_to_uint :: "'f \<Rightarrow> 32 word"
  tf_to_int8 :: "'f \<Rightarrow> 8 word"

definition convert_uint_to_float ::
  "'f tir_float \<Rightarrow> 32 word te \<Rightarrow> nat \<Rightarrow> nat \<Rightarrow> int \<Rightarrow> nat list \<Rightarrow> bool \<Rightarrow> 'f te" where
  "convert_uint_to_float fl weight bits num_elem_per_storage ax out_shape ft_reorder =
     te_compute out_shape (\<lambda>idx.
       tf_of_uint fl (te_at (unpack_uint weight bits num_elem_per_storage ax out_shape ft_reorder) idx))"

definition is_final_fc :: "string \<Rightarrow> bool" where
  "is_final_fc name = (name \<in> set [''head'', ''lm_head'', ''lm_head.linear'', ''embed_out''])"

section \<open>The configuration\<close>

record group_quantize =
  gq_name :: string
  gq_kind :: string
  gq_group_size :: nat
  gq_quantize_dtype :: string
  gq_storage_dtype :: string
  gq_model_dtype :: string
  gq_layout :: string
  gq_embedding :: bool
  gq_final_fc :: bool
  gq_elems :: nat
  gq_storages :: nat
  gq_max_int :: nat
  gq_shards :: nat
  gq_axis :: nat

text \<open>\<open>__post_init__\<close>; the new object's function cache is empty.\<close>

definition group_post_init :: "tvm_types \<Rightarrow> group_quantize \<Rightarrow> group_quantize res" where
  "group_post_init tt c =
     res_bind (res_assert (gq_kind c = ''group-quant'') ''kind'') (\<lambda>_.
     res_bind (tt_dtype tt (gq_quantize_dtype c)) (\<lambda>quantize_dtype.
     res_bind (tt_dtype tt (gq_storage_dtype c)) (\<lambda>storage_dtype.
     res_bind (tt_dtype tt (gq_model_dtype c)) (\<lambda>model_dtype.
     res_bind (res_assert (fst quantize_dtype = TInt) ''quantize_dtype'') (\<lambda>_.
     res_bind (res_assert (fst storage_dtype = TUInt) ''storage_dtype'') (\<lambda>_.
     res_bind (res_assert (fst model_dtype \<in> {TFloat, TBFloat}) ''model_dtype'') (\<lambda>_.
     if snd storage_dtype < snd quantize_dtype
     then Inl (ValueError ''Storage unit should be greater or equal to quantized element'')
     else
       let elems = snd storage_dtype div snd quantize_dtype
       in if gq_group_size c mod elems \<noteq> 0
          then Inl (ValueError ''Group size should be divisible by numbers of elements per storage'')
          else Inr (c\<lparr>gq_elems := elems,
                      gq_storages := gq_group_size c div elems,
                      gq_max_int := 2 ^ (snd quantize_dtype - 1) - 1,
                      gq_axis := (if gq_layout c = ''KN'' then 0 else 1)\<rparr>))))))))"

definition GroupQuantize ::
  "tvm_types \<Rightarrow> string \<Rightarrow> string \<Rightarrow> nat \<Rightarrow> string \<Rightarrow> string \<Rightarrow> string \<Rightarrow> string \<Rightarrow> bool \<Rightarrow> bool
     \<Rightarrow> group_quantize res" where
  "GroupQuantize tt name kind group_size quantize_dtype storage_dtype model_dtype layout embedding final_fc =
     group_post_init tt \<lparr>gq_name = name, gq_kind = kind, gq_group_size = group_size,
       gq_quantize_dtype = quantize_dtype, gq_storage_dtype = storage_dtype, gq_model_dtype = model_dtype,
       gq_layout = layout, gq_embedding = embedding, gq_final_fc = final_fc,
       gq_elems = 0, gq_storages = 0, gq_max_int = 0, gq_shards = 0, gq_axis = 0\<rparr>"

section \<open>Quantization and dequantization of a weight\<close>

text \<open>\<open>DataType(self.quantize_dtype).bits\<close>\<close>

definition quant_bits :: "tvm_types \<Rightarrow> group_quantize \<Rightarrow> nat res" where
  "quant_bits tt c = res_bind (tt_dtype tt (gq_quantize_dtype c)) (\<lambda>d. Inr (snd d))"

definition max_abs_value :: "group_quantize \<Rightarrow> 'f tir_float \<Rightarrow> 'f te \<Rightarrow> nat \<Rightarrow> 'f te" where
  "max_abs_value c fl weight axis =
     (let shape = te_shape weight; k = shape ! axis
      in te_compute (idx_set axis (ceildiv k (gq_group_size c)) shape) (\<lambda>idx.
           fold (\<lambda>r m. tf_max fl m
               (if idx ! axis * gq_group_size c + r < k
                then tf_abs fl (te_at weight (idx_set axis (idx ! axis * gq_group_size c + r) idx))
                else tf_min_value fl))
             [0..<gq_group_size c] (tf_min_value fl)))"

definition group_scale :: "group_quantize \<Rightarrow> 'f tir_float \<Rightarrow> 'f te \<Rightarrow> nat \<Rightarrow> 'f te" where
  "group_scale c fl weight axis =
     te_compute (te_shape (max_abs_value c fl weight axis)) (\<lambda>idx.
       tf_div fl (te_at (max_abs_value c fl weight axis) idx) (tf_const fl (gq_max_int c)))"

definition scaled_weight :: "group_quantize \<Rightarrow> 'f tir_float \<Rightarrow> 'f te \<Rightarrow> nat \<Rightarrow> 32 word te" where
  "scaled_weight c fl weight axis =
     te_compute (te_shape weight) (\<lambda>idx.
       tf_to_uint fl
         (tf_min fl
           (tf_max fl
             (tf_round fl
               (tf_add fl
                 (tf_div fl (te_at weight idx)
                   (te_at (group_scale c fl weight axis) (idx_set axis (idx ! axis div gq_group_size c) idx)))
                 (tf_const fl (gq_max_int c))))
             (tf_const fl 0))
           (tf_mul fl (tf_const fl (gq_max_int c)) (tf_const fl 2))))"

definition quantize_te ::
  "tvm_types \<Rightarrow> group_quantize \<Rightarrow> 'f tir_float \<Rightarrow> 'f te \<Rightarrow> int \<Rightarrow> bool \<Rightarrow> (32 word te \<times> 'f te) res" where
  "quantize_te tt c fl weight ax output_transpose =
     (let shape = te_shape weight;
          axis = norm_axis ax shape;
          scale = group_scale c fl weight axis;
          num_storage = gq_storages c * ceildiv (shape ! axis) (gq_group_size c)
      in res_bind (quant_bits tt c) (\<lambda>bits.
         let quantized = pack_weight (scaled_weight c fl weight axis) (int axis) (gq_elems c) bits
                           (Some (idx_set axis num_storage shape))
         in if output_transpose
            then if length (te_shape quantized) \<noteq> 2 \<or> length (te_shape scale) \<noteq> 2
                 then Inl (ValueError ''Does not support transpose output quantized weight with ndim != 2'')
                 else Inr (te_transpose quantized, te_transpose scale)
            else Inr (quantized, scale)))"

definition dequantize_te ::
  "tvm_types \<Rightarrow> group_quantize \<Rightarrow> 'f tir_float \<Rightarrow> 32 word te \<Rightarrow> 'f te \<Rightarrow> int \<Rightarrow> nat list \<Rightarrow> 'f te res" where
  "dequantize_te tt c fl weight scale ax out_shape =
     res_bind (quant_bits tt c) (\<lambda>bits.
       let float_weight = convert_uint_to_float fl weight bits (gq_elems c) ax out_shape False;
           axis = norm_axis ax out_shape
       in Inr (te_compute out_shape (\<lambda>idx.
            tf_mul fl (tf_sub fl (te_at float_weight idx) (tf_const fl (gq_max_int c)))
              (te_at scale (idx_set axis (idx ! axis div gq_group_size c) idx)))))"

section \<open>Quantized layers\<close>

datatype shard_strategy = ShardSingleDim (shard_name: string) nat "nat list option" | OtherStrategy (shard_name: string)

record nn_param =
  pm_shape :: "dim list"
  pm_dtype :: string
  pm_shard :: "shard_strategy option"

definition new_param :: "dim list \<Rightarrow> string \<Rightarrow> nn_param" where
  "new_param shape dtype = \<lparr>pm_shape = shape, pm_dtype = dtype, pm_shard = None\<rparr>"

fun apply_sharding :: "shard_strategy \<Rightarrow> string \<Rightarrow> nn_param \<Rightarrow> nn_param res" where
  "apply_sharding (ShardSingleDim _ d segs) name weight = Inr (weight\<lparr>pm_shard := Some (ShardSingleDim name d segs)\<rparr>)"
| "apply_sharding (OtherStrategy _) name weight = Inl NotImplementedError"

text \<open>The modules before quantization: a linear layer of shape \<open>(out, in)\<close>, an embedding, the experts.\<close>

record nn_linear =
  ln_out :: dim
  ln_in :: nat
  ln_bias :: "nn_param option"
  ln_out_dtype :: "string option"
  ln_shard :: "shard_strategy option"

record nn_embedding =
  em_num :: dim
  em_dim :: nat

record nn_experts =
  ex_num :: nat
  ex_in :: nat
  ex_out :: nat
  ex_shard :: "shard_strategy option"

definition is_moe_gate :: "string \<Rightarrow> nn_linear \<Rightarrow> bool" where
  "is_moe_gate name node =
     (suffix ''gate'' name \<and> (case ln_out node of DInt n \<Rightarrow> n \<le> 256 | DVar _ \<Rightarrow> False))"

record quant_linear =
  ql_in :: nat
  ql_out :: dim
  ql_out_dtype :: "string option"
  ql_q_weight :: nn_param
  ql_q_scale :: nn_param
  ql_bias :: "nn_param option"

definition bias_param :: "bool \<Rightarrow> dim \<Rightarrow> string \<Rightarrow> string option \<Rightarrow> nn_param option" where
  "bias_param bias out_features model_dtype out_dtype =
     (if bias then Some (new_param [out_features] (case out_dtype of None \<Rightarrow> model_dtype | Some d \<Rightarrow> d))
      else None)"

definition GroupQuantizeLinear ::
  "nat \<Rightarrow> dim \<Rightarrow> group_quantize \<Rightarrow> bool \<Rightarrow> string option \<Rightarrow> quant_linear res" where
  "GroupQuantizeLinear in_features out_features c bias out_dtype =
     (let num_group = ceildiv in_features (gq_group_size c);
          num_shards = gq_shards c
      in if num_shards > 1 \<and> (in_features * num_shards div gq_group_size c) mod num_shards \<noteq> 0
         then Inl (ValueError ''The groups cannot be evenly distributed'')
         else
           let KN = gq_layout c = ''KN'';
               stored = DInt (gq_storages c * num_group);
               groups = DInt num_group
           in Inr \<lparr>ql_in = in_features, ql_out = out_features, ql_out_dtype = out_dtype,
                   ql_q_weight = new_param (if KN then [stored, out_features] else [out_features, stored]) (gq_storage_dtype c),
                   ql_q_scale = new_param (if KN then [groups, out_features] else [out_features, groups]) (gq_model_dtype c),
                   ql_bias = bias_param bias out_features (gq_model_dtype c) out_dtype\<rparr>)"

definition copy_bias_attrs :: "nn_param option \<Rightarrow> quant_linear \<Rightarrow> quant_linear" where
  "copy_bias_attrs src_bias q =
     (case (ql_bias q, src_bias) of
        (Some b, Some b0) \<Rightarrow> q\<lparr>ql_bias := Some (b\<lparr>pm_shard := pm_shard b0\<rparr>)\<rparr>
      | _ \<Rightarrow> q)"

definition group_from_linear :: "nn_linear \<Rightarrow> group_quantize \<Rightarrow> quant_linear res" where
  "group_from_linear src c =
     res_bind (GroupQuantizeLinear (ln_in src) (ln_out src) c (ln_bias src \<noteq> None) (ln_out_dtype src)) (\<lambda>q0.
     let q = copy_bias_attrs (ln_bias src) q0
     in case ln_shard src of
          Some shard \<Rightarrow>
            res_bind (apply_sharding shard (shard_name shard @ ''_q_weight'') (ql_q_weight q)) (\<lambda>w.
            res_bind (apply_sharding shard (shard_name shard @ ''_q_scale'') (ql_q_scale q)) (\<lambda>s.
            Inr (q\<lparr>ql_q_weight := w, ql_q_scale := s\<rparr>)))
        | None \<Rightarrow> Inr q)"

text \<open>
  The weight matrix that \<open>forward\<close> multiplies by: dequantized in the layout of the storage, transposed
  back for \<open>NK\<close>. A symbolic dimension takes its value from the stored weight.
\<close>

definition dim_or :: "dim \<Rightarrow> nat \<Rightarrow> nat" where
  "dim_or d n = (case d of DInt m \<Rightarrow> m | DVar _ \<Rightarrow> n)"

definition group_linear_weight ::
  "tvm_types \<Rightarrow> group_quantize \<Rightarrow> 'f tir_float \<Rightarrow> quant_linear \<Rightarrow> 32 word te \<Rightarrow> 'f te \<Rightarrow> 'f te res" where
  "group_linear_weight tt c fl layer q_weight q_scale =
     res_bind
       (dequantize_te tt c fl q_weight q_scale (int (gq_axis c))
         (if gq_layout c = ''NK'' then [dim_or (ql_out layer) (te_shape q_weight ! 0), ql_in layer]
          else [ql_in layer, dim_or (ql_out layer) (te_shape q_weight ! 1)])) (\<lambda>w.
     Inr (if gq_layout c = ''NK'' then te_transpose w else w))"

text \<open>\<open>forward\<close>, with the matrix product and the addition of the bias as arguments.\<close>

definition group_linear_forward ::
  "tvm_types \<Rightarrow> group_quantize \<Rightarrow> 'f tir_float \<Rightarrow> ('x \<Rightarrow> 'f te \<Rightarrow> string option \<Rightarrow> 'x) \<Rightarrow> ('x \<Rightarrow> 'f te \<Rightarrow> 'x)
     \<Rightarrow> quant_linear \<Rightarrow> 32 word te \<Rightarrow> 'f te \<Rightarrow> 'f te option \<Rightarrow> 'x \<Rightarrow> 'x res" where
  "group_linear_forward tt c fl matmul plus_bias layer q_weight q_scale bias x =
     res_bind (group_linear_weight tt c fl layer q_weight q_scale) (\<lambda>w.
     let y = matmul x w (ql_out_dtype layer)
     in Inr (case bias of Some b \<Rightarrow> plus_bias y b | None \<Rightarrow> y))"

record quant_embedding =
  qe_num :: dim
  qe_dim :: nat
  qe_q_weight :: nn_param
  qe_q_scale :: nn_param

definition group_from_embedding :: "nn_embedding \<Rightarrow> group_quantize \<Rightarrow> quant_embedding" where
  "group_from_embedding embedding c =
     (let num_group = ceildiv (em_dim embedding) (gq_group_size c)
      in \<lparr>qe_num = em_num embedding, qe_dim = em_dim embedding,
          qe_q_weight = new_param [em_num embedding, DInt (gq_storages c * num_group)] (gq_storage_dtype c),
          qe_q_scale = new_param [em_num embedding, DInt num_group] (gq_model_dtype c)\<rparr>)"

definition group_embedding_weight ::
  "tvm_types \<Rightarrow> group_quantize \<Rightarrow> 'f tir_float \<Rightarrow> quant_embedding \<Rightarrow> 32 word te \<Rightarrow> 'f te \<Rightarrow> 'f te res" where
  "group_embedding_weight tt c fl layer q_weight q_scale =
     dequantize_te tt c fl q_weight q_scale (- 1) [dim_or (qe_num layer) (te_shape q_weight ! 0), qe_dim layer]"

record quant_experts =
  qx_q_weight :: nn_param
  qx_q_scale :: nn_param

definition group_from_experts :: "nn_experts \<Rightarrow> group_quantize \<Rightarrow> quant_experts res" where
  "group_from_experts src c =
     (let num_group = ceildiv (ex_in src) (gq_group_size c);
          w = new_param [DInt (ex_num src), DInt (ex_out src), DInt (gq_storages c * num_group)] (gq_storage_dtype c);
          s = new_param [DInt (ex_num src), DInt (ex_out src), DInt num_group] (gq_model_dtype c)
      in if gq_layout c = ''KN'' then Inl NotImplementedError
         else case ex_shard src of
           Some shard \<Rightarrow>
             res_bind (apply_sharding shard (shard_name shard @ ''_q_weight'') w) (\<lambda>w'.
             res_bind (apply_sharding shard (shard_name shard @ ''_q_scale'') s) (\<lambda>s'.
             Inr \<lparr>qx_q_weight = w', qx_q_scale = s'\<rparr>))
         | None \<Rightarrow> Inr \<lparr>qx_q_weight = w, qx_q_scale = s\<rparr>)"

section \<open>Compiled quantization functions\<close>

text \<open>
  \<open>quantize_weight\<close> compiles a function for a weight and keeps it under a printed key. The module it
  compiles depends on the shape and the type of the weight, the axis and the orientation; the compiled
  function depends also on the device of the weight, on which the virtual machine is set up, and for a
  GPU on \<open>Target.current()\<close>, the target in whose scope the call is made. What TVM does is a parameter:
  \<open>tb_from_device\<close> is \<open>Target.from_device\<close>, \<open>tb_build\<close> the scheduling and \<open>relax.build\<close>, and \<open>tb_vm\<close> the
  main function of the virtual machine, which returns or raises when it is called.
\<close>

record tvm_device =
  dev_type :: string
  dev_id :: nat

record 'd device_array =
  da_shape :: "nat list"
  da_dtype :: string
  da_device :: tvm_device
  da_data :: 'd

record quant_kernel =
  qk_shape :: "nat list"
  qk_dtype :: string
  qk_device :: tvm_device
  qk_axis :: int
  qk_transpose :: bool

datatype build_mode = GpuSchedule | LegalizedOps

record ('t, 'ex, 'fn) tvm_build =
  tb_from_device :: "tvm_device \<Rightarrow> 't res"
  tb_llvm :: 't
  tb_build :: "build_mode \<Rightarrow> 't \<Rightarrow> quant_kernel \<Rightarrow> 'ex res"
  tb_vm :: "'ex \<Rightarrow> tvm_device \<Rightarrow> 'fn res"

definition compile_quantize_func ::
  "('t, 'ex, 'fn) tvm_build \<Rightarrow> 't option \<Rightarrow> quant_kernel \<Rightarrow> 'fn res" where
  "compile_quantize_func tvm current_target k =
     (let device = qk_device k; device_type = dev_type device
      in res_bind
           (if device_type \<in> set [''cuda'', ''rocm'', ''metal'', ''vulkan'', ''opencl'']
            then res_bind (case current_target of None \<Rightarrow> tb_from_device tvm device | Some t \<Rightarrow> Inr t) (\<lambda>target.
                 tb_build tvm GpuSchedule target k)
            else if device_type = ''cpu'' then tb_build tvm LegalizedOps (tb_llvm tvm) k
            else Inl NotImplementedError) (\<lambda>ex.
         tb_vm tvm ex device))"

definition str_of_bool :: "bool \<Rightarrow> string" where
  "str_of_bool b = (if b then ''True'' else ''False'')"

definition quantize_key :: "quant_kernel \<Rightarrow> string" where
  "quantize_key k =
     ''('' @ show_shape (qk_shape k) @ '', '' @ qk_dtype k @ '', '' @ dev_type (qk_device k) @ '', axis='' @ str_of_int (qk_axis k)
       @ '', output_transpose='' @ str_of_bool (qk_transpose k) @ '')''"

definition kernel_for :: "'d device_array \<Rightarrow> int \<Rightarrow> bool \<Rightarrow> quant_kernel" where
  "kernel_for weight axis output_transpose =
     \<lparr>qk_shape = da_shape weight, qk_dtype = da_dtype weight, qk_device = da_device weight,
      qk_axis = (if axis \<ge> 0 then axis else int (length (da_shape weight)) + axis),
      qk_transpose = output_transpose\<rparr>"

definition quantize_weight ::
  "('t, 'ex, 'fn) tvm_build \<Rightarrow> ('fn \<Rightarrow> 'd device_array \<Rightarrow> 'r res) \<Rightarrow> 't option \<Rightarrow> 'd device_array \<Rightarrow> int \<Rightarrow> bool
     \<Rightarrow> ((string \<times> 'fn) list, 'r) py" where
  "quantize_weight tvm run current_target weight axis output_transpose =
     (let k = kernel_for weight axis output_transpose; key = quantize_key k
      in py_bind (py_get (\<lambda>cache. map_of cache key)) (\<lambda>cached.
         case cached of
           Some quantize_func \<Rightarrow> py_lift (run quantize_func weight)
         | None \<Rightarrow>
             py_bind (py_lift (compile_quantize_func tvm current_target k)) (\<lambda>quantize_func.
             py_bind (py_modify (\<lambda>cache. dict_set cache key quantize_func)) (\<lambda>_.
             py_lift (run quantize_func weight)))))"

section \<open>Specification\<close>

definition group_abs :: "nat \<Rightarrow> rat te \<Rightarrow> nat \<Rightarrow> nat list \<Rightarrow> rat set" where
  "group_abs g w axis idx =
     (\<lambda>j. \<bar>te_at w (idx_set axis j idx)\<bar>) ` {j. j < te_shape w ! axis \<and> j div g = idx ! axis div g}"

definition group_ok :: "tvm_types \<Rightarrow> group_quantize \<Rightarrow> nat \<Rightarrow> bool" where
  "group_ok tt c bits =
     (quant_bits tt c = Inr bits \<and> 2 \<le> bits \<and> 0 < gq_elems c \<and> gq_elems c * bits \<le> 32 \<and>
      gq_group_size c = gq_storages c * gq_elems c \<and> 0 < gq_group_size c \<and>
      gq_max_int c = 2 ^ (bits - 1) - 1 \<and> gq_axis c = (if gq_layout c = ''KN'' then 0 else 1))"

definition plain_name :: "string \<Rightarrow> bool" where
  "plain_name s = (CHR '','' \<notin> set s)"

definition kernel_plain :: "quant_kernel \<Rightarrow> bool" where
  "kernel_plain k = (plain_name (qk_dtype k) \<and> plain_name (dev_type (qk_device k)))"

definition join_tail :: "nat list \<Rightarrow> string" where
  "join_tail xs = concat (map (\<lambda>n. '', '' @ str_of_nat n) xs)"

text \<open>What follows the opening parenthesis of a printed shape, up to the closing one.\<close>

definition shape_body :: "nat list \<Rightarrow> string" where
  "shape_body s = (case s of [] \<Rightarrow> [] | [x] \<Rightarrow> str_of_nat x @ '','' | x # xs \<Rightarrow> str_of_nat x @ join_tail xs)"

text \<open>
  A call with the target in whose scope it is made, and a history of calls on one configuration.
\<close>

type_synonym ('t, 'd) quantize_call = "'t option \<times> 'd device_array \<times> int \<times> bool"

fun call_kernel :: "('t, 'd) quantize_call \<Rightarrow> quant_kernel" where
  "call_kernel (tgt, w, ax, t) = kernel_for w ax t"

fun quantize_calls ::
  "('t, 'ex, 'fn) tvm_build \<Rightarrow> ('fn \<Rightarrow> 'd device_array \<Rightarrow> 'r res) \<Rightarrow> ('t, 'd) quantize_call list
     \<Rightarrow> (string \<times> 'fn) list \<Rightarrow> (string \<times> 'fn) list" where
  "quantize_calls tvm run [] cache = cache"
| "quantize_calls tvm run ((tgt, w, ax, t) # calls) cache =
     quantize_calls tvm run calls (snd (quantize_weight tvm run tgt w ax t cache))"

text \<open>Kernels that differ at most in the number of the device.\<close>

definition same_kernel :: "quant_kernel \<Rightarrow> quant_kernel \<Rightarrow> bool" where
  "same_kernel k k' \<longleftrightarrow> qk_shape k = qk_shape k' \<and> qk_dtype k = qk_dtype k'
     \<and> dev_type (qk_device k) = dev_type (qk_device k') \<and> qk_axis k = qk_axis k' \<and> qk_transpose k = qk_transpose k'"

text \<open>
  The function that was compiled first, if any, by a history of calls for kernels like the given one.
\<close>

fun first_compiled ::
  "('t, 'ex, 'fn) tvm_build \<Rightarrow> ('t, 'd) quantize_call list \<Rightarrow> quant_kernel \<Rightarrow> 'fn option" where
  "first_compiled tvm [] k = None"
| "first_compiled tvm (c # calls) k =
     (case if same_kernel (call_kernel c) k then compile_quantize_func tvm (fst c) (call_kernel c)
           else Inl NotImplementedError of
        Inl _ \<Rightarrow> first_compiled tvm calls k
      | Inr fn \<Rightarrow> Some fn)"

text \<open>
  The operations of a format with the largest finite value \<open>omega\<close>, and the three formats that the
  quantization presets name as model types.
\<close>

definition fmt_float :: "nat \<Rightarrow> int \<Rightarrow> rat \<Rightarrow> rat tir_float" where
  "fmt_float p emin omega =
     (let rnd = fmt_round p emin
      in \<lparr>tf_const = (\<lambda>n. rnd (of_nat n)), tf_min_value = - omega, tf_abs = abs, tf_neg = uminus,
          tf_round = (\<lambda>x. of_int (round_even x)), tf_max = max, tf_min = min, tf_add = (\<lambda>x y. rnd (x + y)),
          tf_sub = (\<lambda>x y. rnd (x - y)), tf_mul = (\<lambda>x y. rnd (x * y)), tf_div = (\<lambda>x y. rnd (x / y)),
          tf_of_uint = (\<lambda>w. rnd (of_nat (unat w))), tf_to_uint = (\<lambda>x. of_int \<lfloor>x\<rfloor>),
          tf_to_int8 = (\<lambda>x. of_int \<lfloor>x\<rfloor>)\<rparr>)"

definition tir_float16 :: "rat tir_float" where
  "tir_float16 = fmt_float 11 (- 24) 65504"

definition tir_bfloat16 :: "rat tir_float" where
  "tir_bfloat16 = fmt_float 8 (- 133) (2 ^ 128 - 2 ^ 120)"

definition tir_float32 :: "rat tir_float" where
  "tir_float32 = fmt_float 24 (- 149) (2 ^ 128 - 2 ^ 104)"

text \<open>
  The largest value \<open>m\<close> of a group is away from overflow, and its scale \<open>m / M\<close> is zero or not subnormal.
\<close>

definition scale_fair :: "rat \<Rightarrow> rat \<Rightarrow> rat \<Rightarrow> nat \<Rightarrow> rat \<Rightarrow> bool" where
  "scale_fair u eta omega M m \<longleftrightarrow> 2 * m \<le> omega \<and> (m = 0 \<or> eta * of_nat M \<le> u * m)"

definition dtype_facts :: "(string \<times> type_code \<times> nat) list" where
  "dtype_facts =
     [(''int3'', TInt, 3), (''int4'', TInt, 4), (''int8'', TInt, 8), (''uint32'', TUInt, 32),
      (''float16'', TFloat, 16), (''float32'', TFloat, 32), (''bfloat16'', TBFloat, 16),
      (''float8_e4m3fn'', TFloat8E4M3FN, 8), (''float8_e5m2'', TFloat8E5M2, 8)]"

definition documented_dtypes :: "tvm_types \<Rightarrow> bool" where
  "documented_dtypes tt = list_all (\<lambda>(n, d). tt_dtype tt n = Inr d) dtype_facts"

definition sample_types :: tvm_types where
  "sample_types =
     \<lparr>tt_dtype = (\<lambda>s. res_of_option (ValueError s) (map_of dtype_facts s)),
      tt_max_value = (\<lambda>s. if s = ''float8_e4m3fn'' then 448 else 57344)\<rparr>"

definition sample_group :: group_quantize where
  "sample_group =
     \<lparr>gq_name = ''q4f16_0'', gq_kind = ''group-quant'', gq_group_size = 32, gq_quantize_dtype = ''int4'',
      gq_storage_dtype = ''uint32'', gq_model_dtype = ''float16'', gq_layout = ''KN'', gq_embedding = True,
      gq_final_fc = True, gq_elems = 8, gq_storages = 4, gq_max_int = 7, gq_shards = 0, gq_axis = 0\<rparr>"

definition sample_matrix :: "rat te" where
  "sample_matrix = te_compute [2, 40] (\<lambda>idx. of_nat (idx ! 0 + idx ! 1))"

definition sample_linear :: nn_linear where
  "sample_linear = \<lparr>ln_out = DInt 2, ln_in = 40, ln_bias = None, ln_out_dtype = None, ln_shard = None\<rparr>"

definition sample_array :: "nat \<Rightarrow> nat list \<Rightarrow> unit device_array" where
  "sample_array i shape = \<lparr>da_shape = shape, da_dtype = ''float16'',
     da_device = \<lparr>dev_type = ''cuda'', dev_id = i\<rparr>, da_data = ()\<rparr>"

text \<open>A compiler whose functions are what they were compiled for.\<close>

definition sample_build ::
  "(string, build_mode \<times> string \<times> quant_kernel, (build_mode \<times> string \<times> quant_kernel) \<times> tvm_device) tvm_build" where
  "sample_build = \<lparr>tb_from_device = (\<lambda>d. Inr (dev_type d)), tb_llvm = ''llvm'', tb_build = (\<lambda>m t k. Inr (m, t, k)),
     tb_vm = (\<lambda>ex d. Inr (ex, d))\<rparr>"

section \<open>Rounded arithmetic\<close>

text \<open>What the scheme relies on of the operations that do not round.\<close>

locale float_order =
  fixes fl :: "rat tir_float"
  assumes min_value: "tf_min_value fl \<le> 0"
    and abs: "tf_abs fl x = \<bar>x\<bar>"
    and neg: "tf_neg fl x = - x"
    and max: "tf_max fl x y = max x y"
    and min: "tf_min fl x y = min x y"

text \<open>
  The standard model of rounded arithmetic: as long as the exact result is within the range, the result of
  an operation is \<open>rnd\<close> of it, which is off by at most the unit roundoff \<open>u\<close> relative to it or, where it is
  subnormal, by at most \<open>eta\<close>. Integers below 256 are values of the format, \<open>round\<close> gives a nearest
  integer and the conversions are exact on such integers. Nothing is said of a division by zero or of
  overflow.
\<close>

locale rounded_float = float_order +
  fixes rnd :: "rat \<Rightarrow> rat" and u eta omega :: rat
  assumes unit: "0 \<le> u" "u \<le> 1 / 64" and tiny: "0 \<le> eta" "eta \<le> u" and range: "1024 \<le> omega"
    and rnd: "\<bar>z\<bar> \<le> omega \<Longrightarrow> \<bar>rnd z - z\<bar> \<le> max (u * \<bar>z\<bar>) eta"
    and rnd_int: "\<bar>i\<bar> < 256 \<Longrightarrow> rnd (of_int i) = of_int i"
    and const: "n < 256 \<Longrightarrow> tf_const fl n = of_nat n"
    and add: "\<bar>x + y\<bar> \<le> omega \<Longrightarrow> tf_add fl x y = rnd (x + y)"
    and sub: "\<bar>x - y\<bar> \<le> omega \<Longrightarrow> tf_sub fl x y = rnd (x - y)"
    and mul: "\<bar>x * y\<bar> \<le> omega \<Longrightarrow> tf_mul fl x y = rnd (x * y)"
    and div: "y \<noteq> 0 \<Longrightarrow> \<bar>x / y\<bar> \<le> omega \<Longrightarrow> tf_div fl x y = rnd (x / y)"
    and round: "\<exists>i. tf_round fl x = of_int i \<and> \<bar>of_int i - x\<bar> \<le> 1 / 2"
    and of_uint: "unat w < 256 \<Longrightarrow> tf_of_uint fl w = of_nat (unat w)"
    and to_uint: "n < 256 \<Longrightarrow> tf_to_uint fl (of_nat n) = of_nat n"
    and to_int8: "- 128 \<le> i \<Longrightarrow> i < 128 \<Longrightarrow> tf_to_int8 fl (of_int i) = of_int i"
begin

lemma rnd_0 [simp]: "rnd 0 = 0"
  using rnd_int [of 0] by simp

text \<open>The scale of a group that is neither zero nor subnormal.\<close>

lemma scale_bounds:
  assumes "1 \<le> M" and "0 < m" and "2 * m \<le> omega" and "eta * M \<le> u * m"
  shows "(1 - u) * m \<le> rnd (m / M) * M" "rnd (m / M) * M \<le> (1 + u) * m" "0 < rnd (m / M)"
proof -
  have q: "0 < m / M" "m / M \<le> m" using assms(1,2) by (simp_all add: field_simps)
  then have "\<bar>rnd (m / M) - m / M\<bar> \<le> max (u * (m / M)) eta"
    using rnd [of "m / M"] assms(2,3) unfolding abs_of_pos [OF q(1)] by linarith
  moreover have "eta \<le> u * (m / M)" using assms(1,4) by (simp add: field_simps)
  ultimately have e: "\<bar>rnd (m / M) - m / M\<bar> \<le> u * (m / M)" by simp
  then have "\<bar>rnd (m / M) - m / M\<bar> * M \<le> u * (m / M) * M" using assms(1) by (intro mult_right_mono) auto
  moreover have "\<bar>rnd (m / M) - m / M\<bar> * M = \<bar>(rnd (m / M) - m / M) * M\<bar>"
    using assms(1) by (simp add: abs_mult)
  ultimately have "\<bar>rnd (m / M) * M - m\<bar> \<le> u * m"
    using assms(1) by (simp add: left_diff_distrib)
  then show "(1 - u) * m \<le> rnd (m / M) * M" "rnd (m / M) * M \<le> (1 + u) * m"
    by (simp_all add: algebra_simps abs_le_iff)
  have "u * (m / M) < 1 * (m / M)" using q(1) unit by (intro mult_strict_right_mono) auto
  with e show "0 < rnd (m / M)" by linarith
qed

lemma scaled_bound:
  assumes "0 < s" and "(1 - u) * m \<le> s * M" and "\<bar>x\<bar> \<le> m"
  shows "\<bar>x / s\<bar> \<le> M / (1 - u)"
proof -
  have "(1 - u) * \<bar>x\<bar> \<le> s * M" using assms(2,3) unit mult_left_mono [of "\<bar>x\<bar>" m "1 - u"] by linarith
  then show ?thesis using assms(1) unit by (simp add: abs_divide field_simps)
qed

lemma unit_D: "1 \<le> M \<Longrightarrow> 1 \<le> M / (1 - u)" "1 \<le> M \<Longrightarrow> eta \<le> u * (M / (1 - u))"
proof -
  show D: "1 \<le> M / (1 - u)" if "1 \<le> M" using that unit by (simp add: field_simps)
  show "eta \<le> u * (M / (1 - u))" if "1 \<le> M"
    using mult_left_mono [OF D [OF that] unit(1)] tiny(2) by simp
qed

lemma rnd_scaled:
  assumes "1 \<le> M" "M \<le> 127" "\<bar>a\<bar> \<le> M / (1 - u)"
  shows "\<bar>rnd a - a\<bar> \<le> u * (M / (1 - u))" "\<bar>a\<bar> \<le> 130" "M = M / (1 - u) - u * (M / (1 - u))" "0 \<le> u * (M / (1 - u))"
proof -
  let ?D = "M / (1 - u)"
  have "?D \<le> 130" using assms unit by (simp add: field_simps)
  with assms(3) show le: "\<bar>a\<bar> \<le> 130" by linarith
  then have "\<bar>rnd a - a\<bar> \<le> max (u * \<bar>a\<bar>) eta" using range by (intro rnd) linarith
  also have "\<dots> \<le> u * ?D" using unit_D(2) [OF assms(1)] assms(3) unit by (intro max.boundedI mult_left_mono) auto
  finally show "\<bar>rnd a - a\<bar> \<le> u * ?D" .
  have "M = ?D * (1 - u)" using unit by simp
  then show "M = ?D - u * ?D" unfolding right_diff_distrib by (simp only: mult_1_right mult.commute)
  show "0 \<le> u * ?D" using unit assms(1) by simp
qed

text \<open>Rounding, shift and clamp of a scaled weight.\<close>

lemma clamp_error:
  assumes M: "1 \<le> M" "M \<le> 127" and a: "\<bar>a\<bar> \<le> of_nat M / (1 - u)"
    and i: "tf_round fl (rnd (rnd a + of_nat M)) = of_int i"
    and near: "\<bar>of_int i - rnd (rnd a + of_nat M)\<bar> \<le> 1 / 2"
  defines "n \<equiv> nat (min (max i 0) (2 * int M))"
  shows "\<bar>of_nat n - (a + of_nat M)\<bar> \<le> 1 / 2 + 4 * u * (of_nat M / (1 - u))"
    and "\<bar>rnd a\<bar> \<le> 256" "\<bar>rnd a + of_nat M\<bar> \<le> 512"
proof -
  let ?M = "of_nat M :: rat" and ?D = "of_nat M / (1 - u)"
  have M': "1 \<le> ?M" "?M \<le> 127" using M by simp_all
  note D = unit_D [OF M'(1)] and rs = rnd_scaled [OF M' a]
  have D2: "?D \<le> 130" using M' unit by (simp add: field_simps)
  have "u * ?D \<le> 1 / 64 * 130" using unit D(1) D2 by (intro mult_mono) linarith+
  then have uD: "u * ?D \<le> 3" by linarith
  note y1 = rs(1) and MD = rs(3) and uD0 = rs(4)
  have le: "\<bar>rnd a + ?M\<bar> \<le> 2 * ?D" using y1 a MD by linarith
  have "\<bar>rnd (rnd a + ?M) - (rnd a + ?M)\<bar> \<le> max (u * \<bar>rnd a + ?M\<bar>) eta"
    using le D2 range by (intro rnd) linarith
  also have "\<dots> \<le> 2 * (u * ?D)"
  proof (intro max.boundedI)
    show "u * \<bar>rnd a + ?M\<bar> \<le> 2 * (u * ?D)" using mult_left_mono [OF le unit(1)] by (simp add: ac_simps)
    show "eta \<le> 2 * (u * ?D)" using D(2) uD0 by linarith
  qed
  finally have "\<bar>rnd (rnd a + ?M) - (rnd a + ?M)\<bar> \<le> 2 * (u * ?D)" .
  with y1 near have r: "\<bar>of_int i - (a + ?M)\<bar> \<le> 1 / 2 + 3 * (u * ?D)" by linarith
  have n: "of_nat n = min (max (of_int i) 0) (2 * ?M)"
  proof -
    have "of_nat n = (of_int (min (max i 0) (2 * int M)) :: rat)" by (simp add: n_def)
    also have "\<dots> = min (max (of_int i) 0) (2 * ?M)"
      by (simp add: of_int_min of_int_max)
    finally show ?thesis .
  qed
  have "\<bar>of_nat n - (a + ?M)\<bar> \<le> 1 / 2 + 4 * (u * ?D)"
    unfolding n using r a MD uD0 by (auto simp: min_def max_def abs_le_iff)
  then show "\<bar>of_nat n - (a + ?M)\<bar> \<le> 1 / 2 + 4 * u * ?D" by (simp add: ac_simps)
  show "\<bar>rnd a\<bar> \<le> 256" "\<bar>rnd a + ?M\<bar> \<le> 512" using y1 a D2 uD le by linarith+
qed

text \<open>The sum of the errors, in units of the largest value of the group.\<close>

lemma total_error:
  assumes "1 \<le> M" "0 < m" "0 < s" "s * M \<le> (1 + u) * m"
  shows "s * (1 / 2 + 4 * u * (M / (1 - u))) + u * ((1 + u) * m) \<le> m / (2 * M) + 6 * u * m"
proof -
  have s: "s \<le> (1 + u) * m / M" using assms by (simp add: field_simps)
  have "m / M \<le> m" using assms by (simp add: field_simps)
  then have "u * (m / M) \<le> u * m" using unit by (intro mult_left_mono)
  then have "m / (2 * M) + u * (m / M) / 2 \<le> m / (2 * M) + u * m / 2"
    by (intro add_left_mono divide_right_mono) auto
  moreover have "s / 2 \<le> m / (2 * M) + u * (m / M) / 2" using s assms(1) by (simp add: field_simps)
  ultimately have 1: "s / 2 \<le> m / (2 * M) + u * m / 2" by (rule order_trans [rotated])
  have "s * M / (1 - u) \<le> (1 + u) * m / (1 - u)" using assms(4) unit by (intro divide_right_mono) auto
  also have "\<dots> \<le> 21 / 20 * m"
  proof -
    have "(1 + u) * m \<le> 21 / 20 * m * (1 - u)"
      using assms(2) unit mult_right_mono [of "1 + u" "21 / 20 * (1 - u)" m] by (simp add: ac_simps)
    then show ?thesis using unit by (simp add: field_simps)
  qed
  finally have "4 * u * (s * M / (1 - u)) \<le> 4 * u * (21 / 20 * m)" using unit by (intro mult_left_mono) auto
  moreover have "u * ((1 + u) * m) \<le> u * (21 / 20 * m)"
    using unit assms(2) by (intro mult_left_mono mult_right_mono) auto
  moreover have "0 \<le> u * m" using unit assms(2) by simp
  ultimately show ?thesis using 1 by (simp add: algebra_simps)
qed

end

lemma fmt_rounded:
  assumes "8 \<le> p" and "emin \<le> - int p"  and "1024 \<le> omega"
  shows "rounded_float (fmt_float p emin omega) (fmt_round p emin) (1 / 2 ^ p) (2 powi (emin - 1)) omega"
proof
  have p: "(2::rat) ^ 8 \<le> 2 ^ p" "(2::int) ^ 8 \<le> 2 ^ p" using assms(1) by (intro power_increasing; simp)+
  then show "(1::rat) / 2 ^ p \<le> 1 / 64" by (simp add: field_simps)
  have "(2::rat) powi (emin - 1) \<le> 2 powi (- int p)" using assms(2) by (intro power_int_increasing) auto
  then show "(2::rat) powi (emin - 1) \<le> 1 / 2 ^ p" by (simp add: power_int_minus divide_inverse)
  show "\<bar>fmt_round p emin z - z\<bar> \<le> max (1 / 2 ^ p * \<bar>z\<bar>) (2 powi (emin - 1))" for z
    using fmt_round_error by simp
  show int: "fmt_round p emin (of_int i) = of_int i" if "\<bar>i\<bar> < 256" for i
    using that p(2) assms by (intro fmt_round_int) auto
  have nat: "fmt_round p emin (of_nat n) = of_nat n" if "n < 256" for n
    using int [of "int n"] that by simp
  then show "n < 256 \<Longrightarrow> tf_const (fmt_float p emin omega) n = of_nat n" for n
    by (simp add: fmt_float_def Let_def)
  show "unat w < 256 \<Longrightarrow> tf_of_uint (fmt_float p emin omega) w = of_nat (unat w)" for w
    using nat [of "unat w"] by (simp add: fmt_float_def Let_def)
  show "\<exists>i. tf_round (fmt_float p emin omega) x = of_int i \<and> \<bar>of_int i - x\<bar> \<le> 1 / 2" for x
    using round_even_near [of x] by (auto simp: fmt_float_def Let_def)
qed (use assms in \<open>simp_all add: fmt_float_def Let_def\<close>)

interpretation f16: rounded_float tir_float16 "fmt_round 11 (- 24)" "1 / 2 ^ 11" "2 powi (- 24 - 1)" 65504
  unfolding tir_float16_def by (rule fmt_rounded) simp_all

interpretation bf16: rounded_float tir_bfloat16 "fmt_round 8 (- 133)" "1 / 2 ^ 8" "2 powi (- 133 - 1)" "2 ^ 128 - 2 ^ 120"
  unfolding tir_bfloat16_def by (rule fmt_rounded) simp_all

interpretation f32: rounded_float tir_float32 "fmt_round 24 (- 149)" "1 / 2 ^ 24" "2 powi (- 149 - 1)" "2 ^ 128 - 2 ^ 104"
  unfolding tir_float32_def by (rule fmt_rounded) simp_all

section \<open>Lemmas\<close>

subsection \<open>Groups and scales\<close>

lemma finite_group_abs [simp]: "finite (group_abs g w axis idx)"
  by (simp add: group_abs_def)

lemma group_abs_self:
  assumes "valid_idx (te_shape w) idx" "axis < length (te_shape w)"
  shows "\<bar>te_at w idx\<bar> \<in> group_abs g w axis idx"
  using valid_idxD [OF assms]
  by (auto simp: group_abs_def intro!: image_eqI [where x = "idx ! axis"])

lemma group_abs_shift:
  assumes "axis < length idx" "j div g = idx ! axis div g"
  shows "group_abs g w axis (idx_set axis j idx) = group_abs g w axis idx"
  using assms by (simp add: group_abs_def)

lemma div_eq_mult_add:
  assumes "0 < (g::nat)"
  shows "{j. j < k \<and> j div g = q} = (\<lambda>r. q * g + r) ` {r. r < g \<and> q * g + r < k}"
proof
  show "{j. j < k \<and> j div g = q} \<subseteq> (\<lambda>r. q * g + r) ` {r. r < g \<and> q * g + r < k}"
  proof
    fix j assume "j \<in> {j. j < k \<and> j div g = q}"
    then have "j < k" "q = j div g" by auto
    then show "j \<in> (\<lambda>r. q * g + r) ` {r. r < g \<and> q * g + r < k}"
      using assms by (intro image_eqI [where x = "j mod g"]) auto
  qed
qed auto

context float_order
begin

lemma fold_tf_max: "fold (\<lambda>r m. tf_max fl m (f r)) rs a = Max (insert a (f ` set rs))"
proof (induction rs arbitrary: a)
  case Nil
  then show ?case by simp
next
  case (Cons r rs)
  have "fold (\<lambda>r m. tf_max fl m (f r)) (r # rs) a = Max (insert (max a (f r)) (f ` set rs))"
    using Cons by (simp add: max)
  also have "\<dots> = Max (insert a (insert (f r) (f ` set rs)))"
    by (cases "rs = []") (simp_all add: Max_insert max.assoc)
  finally show ?case by (simp add: insert_commute)
qed

lemma group_max_fold:
  assumes idx: "valid_idx (te_shape w) idx" and ax: "axis < length (te_shape w)" and g: "0 < g"
  shows "fold (\<lambda>r m. tf_max fl m
            (if idx ! axis div g * g + r < te_shape w ! axis
             then tf_abs fl (te_at w (idx_set axis (idx ! axis div g * g + r) idx)) else tf_min_value fl))
          [0..<g] (tf_min_value fl) = Max (group_abs g w axis idx)"
proof -
  let ?k = "te_shape w ! axis" and ?q = "idx ! axis div g"
  let ?f = "\<lambda>r. if ?q * g + r < ?k then tf_abs fl (te_at w (idx_set axis (?q * g + r) idx)) else tf_min_value fl"
  let ?A = "group_abs g w axis idx"
  have A: "?A = ?f ` {r. r < g \<and> ?q * g + r < ?k}"
    by (simp add: group_abs_def div_eq_mult_add [OF g] image_image abs)
  have in_A: "\<bar>te_at w idx\<bar> \<in> ?A" by (rule group_abs_self [OF idx ax])
  have "fold (\<lambda>r m. tf_max fl m (?f r)) [0..<g] (tf_min_value fl) = Max (insert (tf_min_value fl) (?f ` {0..<g}))"
    by (simp only: fold_tf_max set_upt)
  also have "insert (tf_min_value fl) (?f ` {0..<g}) = insert (tf_min_value fl) ?A"
    unfolding A by (auto split: if_splits)
  also have "Max \<dots> = max (tf_min_value fl) (Max ?A)"
    using in_A by (subst Max_insert) auto
  also have "\<dots> = Max ?A"
    using in_A min_value by (intro max_absorb2) (meson Max_ge abs_ge_zero finite_group_abs order_trans)
  finally show ?thesis .
qed

lemma max_abs_at:
  assumes idx: "valid_idx (te_shape w) idx" and ax: "axis < length (te_shape w)"
    and g: "0 < gq_group_size c"
  shows "te_at (max_abs_value c fl w axis) (idx_set axis (idx ! axis div gq_group_size c) idx)
         = Max (group_abs (gq_group_size c) w axis idx)"
  using valid_idxD(2) [OF idx ax] group_max_fold [OF idx ax g]
  by (simp add: max_abs_value_def Let_def cong: if_cong)

end

subsection \<open>Configurations\<close>

lemma group_post_init_ok:
  assumes "group_post_init tt c0 = Inr c"
    and "tt_dtype tt (gq_quantize_dtype c0) = Inr (code, bits)" "2 \<le> bits"
    and "tt_dtype tt (gq_storage_dtype c0) = Inr (scode, 32)" "0 < gq_group_size c0"
  shows "group_ok tt c bits"
proof -
  obtain mc mb where m: "tt_dtype tt (gq_model_dtype c0) = Inr (mc, mb)"
    using assms by (cases "tt_dtype tt (gq_model_dtype c0)") (auto simp: group_post_init_def res_assert_def split: if_splits)
  have le: "bits \<le> 32" and dvd: "gq_group_size c0 mod (32 div bits) = 0"
    and c: "c = c0\<lparr>gq_elems := 32 div bits, gq_storages := gq_group_size c0 div (32 div bits),
      gq_max_int := 2 ^ (bits - 1) - 1, gq_axis := (if gq_layout c0 = ''KN'' then 0 else 1)\<rparr>"
    using assms(1) by (auto simp: group_post_init_def assms m res_assert_def Let_def split: if_splits)
  have "0 < 32 div bits" using le assms(3) by (simp add: div_greater_zero_iff)
  moreover have "32 div bits * bits \<le> 32" by (rule div_times_less_eq_dividend)
  moreover have "gq_group_size c0 = gq_group_size c0 div (32 div bits) * (32 div bits)"
    using dvd by auto
  ultimately show ?thesis
    using assms(2,3,5) unfolding c group_ok_def quant_bits_def by simp
qed

lemma max_int_bounds:
  assumes "group_ok tt c bits"
  shows "0 < gq_max_int c" "2 * gq_max_int c < 2 ^ bits" "(2::nat) ^ bits \<le> 2 ^ 32"
proof -
  define b where "b = bits - 2"
  have "2 \<le> bits" using assms by (simp add: group_ok_def)
  then have b: "bits = Suc (Suc b)" unfolding b_def by linarith
  have m: "gq_max_int c = 2 * 2 ^ b - 1" using assms by (simp add: group_ok_def b)
  have "(1::nat) \<le> 2 ^ b" by simp
  then show "0 < gq_max_int c" "2 * gq_max_int c < 2 ^ bits"
    unfolding m b power_Suc by linarith+
  have "bits \<le> gq_elems c * bits" using assms by (simp add: group_ok_def)
  also have "\<dots> \<le> 32" using assms by (simp add: group_ok_def)
  finally show "(2::nat) ^ bits \<le> 2 ^ 32" by (rule power_increasing) simp
qed

lemma same_group:
  assumes "j div n = i div n" "g = m * n"
  shows "j div g = i div (g::nat)"
  using assms by (metis div_mult2_eq mult.commute)

lemma GroupQuantize_ok:
  assumes "GroupQuantize tt name kind g qd sd md layout e f = Inr c"
    and "tt_dtype tt qd = Inr (code, bits)" "2 \<le> bits" "tt_dtype tt sd = Inr (scode, 32)" "0 < g"
  shows "group_ok tt c bits" "gq_layout c = layout" "gq_group_size c = g" "gq_max_int c = 2 ^ (bits - 1) - 1"
proof -
  show ok: "group_ok tt c bits"
    using assms unfolding GroupQuantize_def by (elim group_post_init_ok) simp_all
  show "gq_layout c = layout" "gq_group_size c = g"
    using assms(1) unfolding GroupQuantize_def group_post_init_def res_bind_eq_Inr
    by (auto simp: Let_def split: if_splits)
  show "gq_max_int c = 2 ^ (bits - 1) - 1" using ok by (simp add: group_ok_def)
qed

subsection \<open>Error of a weight\<close>

lemma quantize_te_plain:
  assumes "quant_bits tt c = Inr bits"
  shows "quantize_te tt c fl w ax False =
    Inr (pack_weight (scaled_weight c fl w (norm_axis ax (te_shape w))) (int (norm_axis ax (te_shape w))) (gq_elems c) bits
           (Some (idx_set (norm_axis ax (te_shape w))
              (gq_storages c * ceildiv (te_shape w ! norm_axis ax (te_shape w)) (gq_group_size c)) (te_shape w))),
         group_scale c fl w (norm_axis ax (te_shape w)))"
  using assms by (simp add: quantize_te_def Let_def)

lemma group_scale_shape [simp]:
  "te_shape (group_scale c fl w axis) = idx_set axis (ceildiv (te_shape w ! axis) (gq_group_size c)) (te_shape w)"
  by (simp add: group_scale_def max_abs_value_def Let_def)

lemma quantize_te_shapes:
  assumes "quant_bits tt c = Inr bits" "quantize_te tt c fl w ax False = Inr (q, s)"
  shows "te_shape q = idx_set (norm_axis ax (te_shape w))
           (gq_storages c * ceildiv (te_shape w ! norm_axis ax (te_shape w)) (gq_group_size c)) (te_shape w)"
    and "te_shape s = idx_set (norm_axis ax (te_shape w))
           (ceildiv (te_shape w ! norm_axis ax (te_shape w)) (gq_group_size c)) (te_shape w)"
  using assms by (auto simp: quantize_te_plain)

lemma quantize_te_transposed:
  assumes "quant_bits tt c = Inr bits" "te_shape w = [a, b]"
  shows "quantize_te tt c fl w (- 1) True =
    (case quantize_te tt c fl w (- 1) False of Inr (q, s) \<Rightarrow> Inr (te_transpose q, te_transpose s) | Inl e \<Rightarrow> Inl e)"
  using assms by (simp add: quantize_te_def Let_def norm_axis_def idx_set_def numeral_2_eq_2)

lemma dequantize_te_at:
  assumes "quant_bits tt c = Inr bits"
  shows "dequantize_te tt c fl q s ax out =
    Inr (te_compute out (\<lambda>idx. tf_mul fl (tf_sub fl
           (tf_of_uint fl (te_at (unpack_uint q bits (gq_elems c) ax out False) idx)) (tf_const fl (gq_max_int c)))
           (te_at s (idx_set (norm_axis ax out) (idx ! norm_axis ax out div gq_group_size c) idx))))"
  using assms by (simp add: dequantize_te_def convert_uint_to_float_def Let_def)

subsection \<open>Layers\<close>

lemma group_from_linear_sel:
  assumes "group_from_linear l c = Inr layer"
  shows "ql_in layer = ln_in l" "ql_out layer = ln_out l"
    "pm_shape (ql_q_weight layer) =
       (let stored = DInt (gq_storages c * ceildiv (ln_in l) (gq_group_size c))
        in if gq_layout c = ''KN'' then [stored, ln_out l] else [ln_out l, stored])"
    "pm_shape (ql_q_scale layer) =
       (let groups = DInt (ceildiv (ln_in l) (gq_group_size c))
        in if gq_layout c = ''KN'' then [groups, ln_out l] else [ln_out l, groups])"
proof -
  obtain q0 where q0: "GroupQuantizeLinear (ln_in l) (ln_out l) c (ln_bias l \<noteq> None) (ln_out_dtype l) = Inr q0"
    using assms by (auto simp: group_from_linear_def res_bind_eq_Inr)
  have shard: "pm_shape p' = pm_shape p" if "apply_sharding sh n p = Inr p'" for sh n p p'
    using that by (cases sh) auto
  define q where "q = copy_bias_attrs (ln_bias l) q0"
  have q: "ql_in q = ql_in q0" "ql_out q = ql_out q0" "ql_q_weight q = ql_q_weight q0" "ql_q_scale q = ql_q_scale q0"
    by (auto simp: q_def copy_bias_attrs_def split: option.splits)
  have layer: "ql_in layer = ql_in q" "ql_out layer = ql_out q" "pm_shape (ql_q_weight layer) = pm_shape (ql_q_weight q)"
      "pm_shape (ql_q_scale layer) = pm_shape (ql_q_scale q)"
    using assms q0
    by (auto simp: group_from_linear_def q_def Let_def res_bind_eq_Inr dest: shard split: option.splits)
  show "ql_in layer = ln_in l" "ql_out layer = ln_out l"
    "pm_shape (ql_q_weight layer) =
       (let stored = DInt (gq_storages c * ceildiv (ln_in l) (gq_group_size c))
        in if gq_layout c = ''KN'' then [stored, ln_out l] else [ln_out l, stored])"
    "pm_shape (ql_q_scale layer) =
       (let groups = DInt (ceildiv (ln_in l) (gq_group_size c))
        in if gq_layout c = ''KN'' then [groups, ln_out l] else [ln_out l, groups])"
    using q0 unfolding layer q
    by (auto simp: GroupQuantizeLinear_def new_param_def Let_def split: if_splits)
qed

lemma quantized_matrix:
  assumes ok: "group_ok tt c bits" and w: "te_shape w = [out, inp]"
  obtains q s where "quantize_te tt c fl w (- 1) False = Inr (q, s)"
    "te_shape q = [out, gq_storages c * ceildiv inp (gq_group_size c)]"
    "te_shape s = [out, ceildiv inp (gq_group_size c)]"
    "quantize_te tt c fl w (- 1) True = Inr (te_transpose q, te_transpose s)"
proof -
  have bits: "quant_bits tt c = Inr bits" using ok by (simp add: group_ok_def)
  obtain q s where qs: "quantize_te tt c fl w (- 1) False = Inr (q, s)"
    using quantize_te_plain [OF bits] by blast
  show ?thesis
    using that [OF qs] quantize_te_shapes [OF bits qs] quantize_te_transposed [OF bits w, of fl] qs
    by (simp add: w norm_axis_last idx_set_pair [unfolded One_nat_def])
qed

text \<open>In both layouts the layer's matrix is the transpose of the dequantized weight.\<close>

lemma group_linear_weight_at:
  assumes ok: "group_ok tt c bits" and layout: "gq_layout c = ''KN'' \<or> gq_layout c = ''NK''"
    and w: "te_shape w = [out, inp]" and l: "group_from_linear l c = Inr layer"
    and dims: "check_shape (te_shape w) [ln_out l, DInt (ln_in l)]"
    and q: "quantize_te tt c fl w (- 1) (gq_layout c = ''KN'') = Inr (q, s)"
  obtains q0 s0 d0 d where "quantize_te tt c fl w (- 1) False = Inr (q0, s0)"
    "dequantize_te tt c fl q0 s0 (- 1) (te_shape w) = Inr d0"
    "group_linear_weight tt c fl layer q s = Inr d" "te_shape d = [inp, out]"
    "\<forall>i j. te_at d [i, j] = te_at d0 [j, i]"
proof -
  have bits: "quant_bits tt c = Inr bits" using ok by (simp add: group_ok_def)
  obtain q0 s0 where q0: "quantize_te tt c fl w (- 1) False = Inr (q0, s0)" "te_shape q0 = [out, gq_storages c * ceildiv inp (gq_group_size c)]"
    "te_shape s0 = [out, ceildiv inp (gq_group_size c)]"
    "quantize_te tt c fl w (- 1) True = Inr (te_transpose q0, te_transpose s0)"
    by (rule quantized_matrix [OF ok w])
  obtain d0 where d0: "dequantize_te tt c fl q0 s0 (- 1) (te_shape w) = Inr d0"
    using dequantize_te_at [OF bits] by blast
  have inp: "ln_in l = inp" and out: "dim_or (ln_out l) out = out"
    using dims by (cases "ln_out l"; auto simp: w check_shape_def dim_or_def split: if_splits)+
  note sel = group_from_linear_sel [OF l]
  show ?thesis
  proof (cases "gq_layout c = ''KN''")
    case True
    have axis: "gq_axis c = 0" using ok True by (simp add: group_ok_def)
    have qs: "q = te_transpose q0" "s = te_transpose s0" using q q0(4) True by auto
    have d: "group_linear_weight tt c fl layer q s = dequantize_te tt c fl q s 0 [inp, out]"
      using True by (simp add: group_linear_weight_def axis sel inp qs q0(2) out dequantize_te_at [OF bits])
    obtain d' where "dequantize_te tt c fl q s 0 [inp, out] = Inr d'"
      using dequantize_te_at [OF bits] by blast
    with d have d': "group_linear_weight tt c fl layer q s = Inr d'" by simp
    have "te_at d' [i, j] = te_at d0 [j, i]" for i j
      using d' d0 unfolding d
      by (auto simp: dequantize_te_at [OF bits] qs w unpack_transpose [where a = out and b = inp]
          norm_axis_def idx_set_def)
    moreover have "te_shape d' = [inp, out]"
      using d' d by (auto simp: dequantize_te_at [OF bits])
    ultimately show ?thesis using that q0(1) d0 d' by blast
  next
    case False
    then have NK: "gq_layout c = ''NK''" using layout by blast
    have axis: "gq_axis c = 1" using ok False by (simp add: group_ok_def)
    have qs: "q = q0" "s = s0" using q q0(1) False by auto
    have un: "unpack_uint q0 bits n 1 [out, inp] False = unpack_uint q0 bits n (- 1) [out, inp] False" for n
      by (simp add: unpack_uint_def norm_axis_def)
    have "group_linear_weight tt c fl layer q s = Inr (te_transpose d0)"
      using NK d0 by (auto simp: group_linear_weight_def axis sel inp qs q0(2) out w dequantize_te_at [OF bits] un norm_axis_def)
    moreover have "te_shape d0 = [out, inp]" using d0 by (auto simp: dequantize_te_at [OF bits] w)
    ultimately show ?thesis using that q0(1) d0 by simp
  qed
qed

context rounded_float
begin

lemma D_le: "M \<le> 127 \<Longrightarrow> M / (1 - u) \<le> 130"
  using unit by (simp add: field_simps)

lemma group_scale_at:
  assumes "valid_idx (te_shape w) idx" "axis < length (te_shape w)" "0 < gq_group_size c"
    and "0 < gq_max_int c" "gq_max_int c \<le> 127" "2 * Max (group_abs (gq_group_size c) w axis idx) \<le> omega"
  shows "te_at (group_scale c fl w axis) (idx_set axis (idx ! axis div gq_group_size c) idx)
         = rnd (Max (group_abs (gq_group_size c) w axis idx) / of_nat (gq_max_int c))"
proof -
  let ?m = "Max (group_abs (gq_group_size c) w axis idx)"
  have "\<bar>te_at w idx\<bar> \<le> ?m" by (intro Max_ge group_abs_self assms) simp
  then have m: "0 \<le> ?m" by (meson abs_ge_zero order_trans)
  have "?m / of_nat (gq_max_int c) \<le> ?m / 1" using m assms(4) by (intro divide_left_mono) auto
  then have "\<bar>?m / of_nat (gq_max_int c)\<bar> \<le> omega" using m assms(6) by simp
  with assms show ?thesis by (simp add: group_scale_def max_abs_at const div)
qed

lemma scaled_weight_at:
  assumes idx: "valid_idx (te_shape w) idx" and ax: "axis < length (te_shape w)"
    and g: "0 < gq_group_size c" and M: "0 < gq_max_int c" "gq_max_int c \<le> 127"
    and m: "m = Max (group_abs (gq_group_size c) w axis idx)" "0 < m" "scale_fair u eta omega (gq_max_int c) m"
    and s: "s = rnd (m / of_nat (gq_max_int c))"
  obtains n where "n \<le> 2 * gq_max_int c" "te_at (scaled_weight c fl w axis) idx = of_nat n"
    "\<bar>(of_nat n - of_nat (gq_max_int c)) * s - te_at w idx\<bar>
       \<le> s * (1 / 2 + 4 * u * (of_nat (gq_max_int c) / (1 - u)))"
proof -
  let ?M = "of_nat (gq_max_int c) :: rat" and ?x = "te_at w idx"
  have M': "1 \<le> ?M" "?M \<le> 127" "1 \<le> gq_max_int c" using M by simp_all
  have fair: "2 * m \<le> omega" "eta * ?M \<le> u * m" using m(2,3) by (auto simp: scale_fair_def)
  note sb = scale_bounds [OF M'(1) m(2) fair, folded s]
  have "\<bar>?x\<bar> \<le> m" unfolding m(1) by (intro Max_ge group_abs_self idx ax) simp
  then have a: "\<bar>?x / s\<bar> \<le> ?M / (1 - u)" by (rule scaled_bound [OF sb(3,1)])
  have om: "\<bar>?x / s\<bar> \<le> omega" using a D_le [OF M'(2)] range by linarith
  obtain i where i: "tf_round fl (rnd (rnd (?x / s) + ?M)) = of_int i"
    "\<bar>of_int i - rnd (rnd (?x / s) + ?M)\<bar> \<le> 1 / 2" using round by blast
  note ce = clamp_error [OF M'(3) M(2) a i]
  define n where "n = nat (min (max i 0) (2 * int (gq_max_int c)))"
  have n: "n \<le> 2 * gq_max_int c" by (auto simp: n_def)
  have "rnd (?M * 2) = ?M * 2" using rnd_int [of "2 * int (gq_max_int c)"] M(2) by (simp add: mult.commute)
  then have two: "tf_mul fl ?M 2 = 2 * ?M"
    using M M' range by (simp add: const mul mult.commute)
  have nn: "min (max (of_int i) 0) (2 * ?M) = of_nat n"
  proof -
    have "of_nat n = (of_int (min (max i 0) (2 * int (gq_max_int c))) :: rat)" by (simp add: n_def)
    then show ?thesis by (simp add: of_int_min of_int_max)
  qed
  have sum: "tf_add fl (rnd (?x / s)) ?M = rnd (rnd (?x / s) + ?M)" using ce(3) range by (intro add) linarith
  have "te_at (scaled_weight c fl w axis) idx = of_nat n"
    using n M sb(3) nn
    by (simp add: scaled_weight_def group_scale_at [OF idx ax g M, folded m(1), OF fair(1), folded s]
        const div [OF _ om] max min two sum i(1) to_uint)
  moreover have "\<bar>(of_nat n - ?M) * s - ?x\<bar> \<le> s * (1 / 2 + 4 * u * (?M / (1 - u)))"
  proof -
    have "(of_nat n - ?M) * s - ?x = (of_nat n - (?x / s + ?M)) * s"
      using sb(3) by (simp add: field_simps)
    also have "\<bar>\<dots>\<bar> = s * \<bar>of_nat n - (?x / s + ?M)\<bar>" using sb(3) by (simp add: abs_mult)
    also have "\<dots> \<le> s * (1 / 2 + 4 * u * (?M / (1 - u)))"
      using ce(1) [folded n_def] sb(3) by (intro mult_left_mono) auto
    finally show ?thesis .
  qed
  ultimately show ?thesis using that n by blast
qed

text \<open>The dequantized value of an element, read back from the packed storage.\<close>

lemma dequantize_pack:
  assumes ok: "group_ok tt c bits" and bits: "bits \<le> 8" and idx: "valid_idx (te_shape w) idx" and ax: "axis < length (te_shape w)"
    and m: "m = Max (group_abs (gq_group_size c) w axis idx)" "scale_fair u eta omega (gq_max_int c) m"
    and s: "s = te_at (group_scale c fl w axis) (idx_set axis (idx ! axis div gq_group_size c) idx)"
  shows "\<bar>tf_mul fl (tf_sub fl (tf_of_uint fl
            (te_at (unpack_uint (pack_weight (scaled_weight c fl w axis) (int axis) (gq_elems c) bits sh)
              bits (gq_elems c) (int axis) out False) idx)) (tf_const fl (gq_max_int c))) s - te_at w idx\<bar>
         \<le> m / (2 * of_nat (gq_max_int c)) + 6 * u * m"
proof -
  let ?g = "gq_group_size c" and ?sw = "scaled_weight c fl w axis" and ?M = "of_nat (gq_max_int c) :: rat"
  have g: "0 < ?g" and g_eq: "?g = gq_storages c * gq_elems c" and e: "0 < gq_elems c" "gq_elems c * bits \<le> 32" "0 < bits"
    using ok by (auto simp: group_ok_def)
  note Mb = max_int_bounds [OF ok]
  have "(2::nat) ^ bits \<le> 2 ^ 8" using bits by (intro power_increasing) auto
  then have M: "0 < gq_max_int c" "gq_max_int c \<le> 127" using Mb by auto
  have M': "1 \<le> ?M" "?M \<le> 127" using M by simp_all
  have fair: "2 * m \<le> omega" using m(2) by (simp add: scale_fair_def)
  have le: "\<bar>te_at w idx\<bar> \<le> m" unfolding m(1) by (intro Max_ge group_abs_self idx ax) simp
  have s_eq: "s = rnd (m / ?M)"
    unfolding s m(1) by (rule group_scale_at [OF idx ax g M fair [unfolded m(1)]])
  note v = valid_idxD [OF idx ax]
  show ?thesis
  proof (cases "m = 0")
    case True
    then have "s = 0" "te_at w idx = 0" using s_eq le by simp_all
    then show ?thesis using True range by (simp add: mul)
  next
    case False
    then have pos: "0 < m" using le by linarith
    have eta: "eta * ?M \<le> u * m" using m(2) False by (simp add: scale_fair_def)
    note sb = scale_bounds [OF M'(1) pos fair eta, folded s_eq]
    have fit: "take_bit bits (te_at ?sw (idx_set axis j idx)) = te_at ?sw (idx_set axis j idx)"
      if j: "j < te_shape ?sw ! axis" "j div gq_elems c = idx ! axis div gq_elems c" for j
    proof -
      have jg: "j div ?g = idx ! axis div ?g" by (rule same_group [OF j(2) g_eq])
      have vj: "valid_idx (te_shape w) (idx_set axis j idx)"
        using j(1) by (intro valid_idx_set idx ax) (simp add: scaled_weight_def)
      have "m = Max (group_abs ?g w axis (idx_set axis j idx))" unfolding m(1) group_abs_shift [OF v(2) jg] ..
      from scaled_weight_at [OF vj ax g M this pos m(2) refl]
      obtain n where n: "n \<le> 2 * gq_max_int c" "te_at ?sw (idx_set axis j idx) = of_nat n" by metis
      have "n < 2 ^ bits" using n(1) Mb(2) by linarith
      then show ?thesis using n(2) by (simp add: word_field)
    qed
    obtain n where n: "n \<le> 2 * gq_max_int c" "te_at ?sw idx = of_nat n"
      and err: "\<bar>(of_nat n - ?M) * s - te_at w idx\<bar> \<le> s * (1 / 2 + 4 * u * (?M / (1 - u)))"
      using scaled_weight_at [OF idx ax g M m(1) pos m(2) s_eq] by metis
    have sw_shape: "te_shape ?sw = te_shape w" by (simp add: scaled_weight_def)
    have un: "te_at (unpack_uint (pack_weight ?sw (int axis) (gq_elems c) bits sh) bits (gq_elems c) (int axis) out False) idx
        = of_nat n"
      unfolding n(2) [symmetric] using e by (intro unpack_pack) (simp_all add: sw_shape idx ax fit)
    have "unat (of_nat n :: 32 word) = n"
      using n(1) M by (simp add: unsigned_of_nat take_bit_nat_eq_self)
    then have "tf_of_uint fl (of_nat n) = of_nat n" using n(1) M by (simp add: of_uint)
    moreover have "rnd (of_nat n - ?M) = of_nat n - ?M"
      using rnd_int [of "int n - int (gq_max_int c)"] n(1) M by simp
    moreover have nM: "\<bar>of_nat n - ?M\<bar> \<le> ?M" using n(1) by (simp add: abs_le_iff)
    ultimately have diff: "tf_sub fl (tf_of_uint fl (of_nat n)) (tf_const fl (gq_max_int c)) = of_nat n - ?M"
      using M M' range by (simp add: const sub)
    have "\<bar>(of_nat n - ?M) * s\<bar> \<le> ?M * s" unfolding abs_mult using nM sb(3) by (intro mult_mono) auto
    also have "\<dots> \<le> (1 + u) * m" using sb(2) by (simp add: mult.commute)
    finally have z: "\<bar>(of_nat n - ?M) * s\<bar> \<le> (1 + u) * m" .
    moreover have "(1 + u) * m \<le> 2 * m" using pos unit by (intro mult_right_mono) auto
    ultimately have om: "\<bar>(of_nat n - ?M) * s\<bar> \<le> omega" using fair by linarith
    have "eta * 1 \<le> eta * ?M" using M' tiny by (intro mult_left_mono) auto
    moreover have "u * m \<le> u * ((1 + u) * m)" using unit pos by (intro mult_left_mono) (auto simp: field_simps)
    ultimately have "eta \<le> u * ((1 + u) * m)" using eta by linarith
    moreover have "u * \<bar>(of_nat n - ?M) * s\<bar> \<le> u * ((1 + u) * m)" using z unit by (intro mult_left_mono)
    ultimately have "\<bar>rnd ((of_nat n - ?M) * s) - (of_nat n - ?M) * s\<bar> \<le> u * ((1 + u) * m)"
      using rnd [OF om] by linarith
    with err have "\<bar>rnd ((of_nat n - ?M) * s) - te_at w idx\<bar>
        \<le> s * (1 / 2 + 4 * u * (?M / (1 - u))) + u * ((1 + u) * m)" by linarith
    also have "\<dots> \<le> m / (2 * ?M) + 6 * u * m" by (rule total_error [OF M'(1) pos sb(3,2)])
    finally show ?thesis by (simp add: un diff mul [OF om])
  qed
qed

lemma quantize_dequantize:
  assumes ok: "group_ok tt c bits" "bits \<le> 8" and idx: "valid_idx (te_shape w) idx"
    and ax: "norm_axis ax (te_shape w) < length (te_shape w)"
    and q: "quantize_te tt c fl w ax False = Inr (q, s)"
    and d: "dequantize_te tt c fl q s ax (te_shape w) = Inr d"
    and m: "m = Max (group_abs (gq_group_size c) w (norm_axis ax (te_shape w)) idx)" "scale_fair u eta omega (gq_max_int c) m"
  shows "\<bar>te_at d idx - te_at w idx\<bar> \<le> m / (2 * of_nat (gq_max_int c)) + 6 * u * m"
proof -
  have bits: "quant_bits tt c = Inr bits" using ok by (simp add: group_ok_def)
  let ?axis = "norm_axis ax (te_shape w)"
  have "te_at d idx = tf_mul fl (tf_sub fl (tf_of_uint fl
          (te_at (unpack_uint (pack_weight (scaled_weight c fl w ?axis) (int ?axis) (gq_elems c) bits
             (Some (idx_set ?axis (gq_storages c * ceildiv (te_shape w ! ?axis) (gq_group_size c)) (te_shape w))))
           bits (gq_elems c) (int ?axis) (te_shape w) False) idx)) (tf_const fl (gq_max_int c)))
         (te_at (group_scale c fl w ?axis) (idx_set ?axis (idx ! ?axis div gq_group_size c) idx))"
    using d q by (auto simp: dequantize_te_at [OF bits] quantize_te_plain [OF bits] unpack_norm_axis)
  then show ?thesis using dequantize_pack [OF ok idx ax m refl] by (simp only:)
qed

lemma linear_layer_error:
  assumes ok: "group_ok tt c bits" "bits \<le> 8" and layout: "gq_layout c = ''KN'' \<or> gq_layout c = ''NK''"
    and w: "te_shape w = [out, inp]" and l: "group_from_linear l c = Inr layer"
    and dims: "check_shape (te_shape w) [ln_out l, DInt (ln_in l)]"
    and q: "quantize_te tt c fl w (- 1) (gq_layout c = ''KN'') = Inr (q, s)"
  shows "\<exists>d. group_linear_weight tt c fl layer q s = Inr d \<and> te_shape d = [inp, out] \<and>
    (\<forall>i < inp. \<forall>j < out. let m = Max (group_abs (gq_group_size c) w 1 [j, i]) in scale_fair u eta omega (gq_max_int c) m \<longrightarrow>
       \<bar>te_at d [i, j] - te_at w [j, i]\<bar> \<le> m / (2 * of_nat (gq_max_int c)) + 6 * u * m)"
proof -
  obtain q0 s0 d0 d where q0: "quantize_te tt c fl w (- 1) False = Inr (q0, s0)"
    and d0: "dequantize_te tt c fl q0 s0 (- 1) (te_shape w) = Inr d0"
    and d: "group_linear_weight tt c fl layer q s = Inr d" "te_shape d = [inp, out]"
    and at: "\<forall>i j. te_at d [i, j] = te_at d0 [j, i]"
    by (rule group_linear_weight_at [OF ok(1) layout w l dims q])
  have "\<bar>te_at d [i, j] - te_at w [j, i]\<bar> \<le> m / (2 * of_nat (gq_max_int c)) + 6 * u * m"
    if "i < inp" "j < out" "m = Max (group_abs (gq_group_size c) w 1 [j, i])" "scale_fair u eta omega (gq_max_int c) m" for i j m
    unfolding at [rule_format]
    using quantize_dequantize [OF ok _ _ q0 d0 _ that(4), of "[j, i]"] that
    by (simp add: valid_idx_def w norm_axis_last)
  then show ?thesis using d by (simp add: Let_def)
qed

end

subsection \<open>Keys and the cache\<close>

lemma split_unique:
  assumes "xs @ c # ys = xs' @ c # ys'" "c \<notin> set xs" "c \<notin> set xs'"
  shows "xs = xs'" "ys = ys'"
proof -
  have "xs = xs' \<and> ys = ys'" using assms
    by (induction xs arbitrary: xs') (auto simp: Cons_eq_append_conv append_eq_Cons_conv)
  then show "xs = xs'" "ys = ys'" by auto
qed

lemma str_of_nat_chars:
  "c \<in> set (str_of_nat n) \<Longrightarrow> c \<noteq> CHR '','' \<and> c \<noteq> CHR '')'' \<and> c \<noteq> CHR '' ''"
  using digits_of_nat_chars [of c n] by (auto simp: str_of_nat_def digit_val_def)

lemma str_of_nat_inj [simp]: "str_of_nat m = str_of_nat n \<longleftrightarrow> m = n"
  by (metis digits_value_digits option.inject str_of_nat_def)

lemma str_of_int_inj [simp]: "str_of_int i = str_of_int j \<longleftrightarrow> i = j"
  by (metis int_of_str_of_int sum.inject(2))

lemma str_of_int_no_comma: "CHR '','' \<notin> set (str_of_int i)"
  using str_of_nat_chars [of "CHR '',''"] by (auto simp: str_of_int_def str_of_nat_def)

lemma py_join_tail: "py_join '', '' (map str_of_nat (x # xs)) = str_of_nat x @ join_tail xs"
  by (induction xs arbitrary: x) (simp_all add: join_tail_def)

lemma number_no_comma: "CHR '','' \<notin> set (str_of_nat n)"
  using str_of_nat_chars by blast

lemma join_tail_inj: "join_tail xs = join_tail ys \<Longrightarrow> xs = ys"
proof (induction xs arbitrary: ys)
  case Nil
  then show ?case by (cases ys) (simp_all add: join_tail_def)
next
  case (Cons x xs)
  then obtain y zs where ys: "ys = y # zs" by (cases ys) (auto simp: join_tail_def)
  have step: "join_tail (a # as) = '', '' @ str_of_nat a @ join_tail as" for a as
    by (simp add: join_tail_def)
  have eq: "str_of_nat x @ join_tail xs = str_of_nat y @ join_tail zs"
    using Cons.prems by (simp add: ys step)
  have tw: "takeWhile (\<lambda>c. c \<noteq> CHR '','') (str_of_nat a @ join_tail as) = str_of_nat a" for a as
    using str_of_nat_chars by (subst takeWhile_append2) (blast, cases as, simp_all add: join_tail_def)
  have "str_of_nat x = str_of_nat y" using tw [of x xs] tw [of y zs] eq by simp
  then show ?case using eq Cons.IH [of zs] ys by simp
qed

lemma show_shape_body: "show_shape s = ''('' @ shape_body s @ '')''"
  using py_join_tail by (auto simp: show_shape_def shape_body_def split: list.splits)

lemma shape_body_no_paren: "CHR '')'' \<notin> set (shape_body s)"
  using str_of_nat_chars [of "CHR '')''"] by (auto simp: shape_body_def join_tail_def split: list.splits)

lemma shape_body_inj: "shape_body s = shape_body s' \<Longrightarrow> s = s'"
proof -
  assume eq: "shape_body s = shape_body s'"
  have body: "shape_body (x # xs) = str_of_nat x @ CHR '','' # (case xs of [] \<Rightarrow> [] | y # ys \<Rightarrow> '' '' @ str_of_nat y @ join_tail ys)" for x xs
    by (cases xs) (simp_all add: shape_body_def join_tail_def)
  show "s = s'"
  proof (cases s)
    case Nil
    then show ?thesis using eq body by (cases s') (auto simp: shape_body_def [of "[]"])
  next
    case (Cons x xs)
    then obtain y ys where s': "s' = y # ys" using eq body by (cases s') (auto simp: shape_body_def [of "[]"])
    note u = split_unique [OF eq [unfolded Cons s' body] number_no_comma number_no_comma]
    have "join_tail xs = join_tail ys"
      using u(2) by (cases xs; cases ys) (auto simp: join_tail_def)
    then show ?thesis using u(1) join_tail_inj Cons s' by simp
  qed
qed

lemma quantize_key_inj:
  assumes "quantize_key k = quantize_key k'" "kernel_plain k" "kernel_plain k'"
  shows "same_kernel k k'"
proof -
  let ?axis = "\<lambda>k. str_of_int (qk_axis k) @ CHR '','' # '' output_transpose='' @ str_of_bool (qk_transpose k) @ '')''"
  let ?dev = "\<lambda>k. dev_type (qk_device k) @ CHR '','' # '' axis='' @ ?axis k"
  let ?ty = "\<lambda>k. qk_dtype k @ CHR '','' # '' '' @ ?dev k"
  have key: "quantize_key k = ''(('' @ shape_body (qk_shape k) @ CHR '')'' # '', '' @ ?ty k" for k
    by (simp add: quantize_key_def show_shape_body)
  have eq: "shape_body (qk_shape k) @ CHR '')'' # '', '' @ ?ty k = shape_body (qk_shape k') @ CHR '')'' # '', '' @ ?ty k'"
    using assms(1) by (simp add: key)
  note s1 = split_unique [OF eq shape_body_no_paren shape_body_no_paren]
  have ty: "?ty k = ?ty k'" using s1(2) by simp
  note s2 = split_unique [OF ty]
  have dev: "?dev k = ?dev k'" using s2(2) assms(2,3) by (simp add: kernel_plain_def plain_name_def)
  note s3 = split_unique [OF dev]
  have axis: "?axis k = ?axis k'" using s3(2) assms(2,3) by (simp add: kernel_plain_def plain_name_def)
  note s4 = split_unique [OF axis str_of_int_no_comma str_of_int_no_comma]
  have "qk_transpose k = qk_transpose k'" using s4(2) by (simp add: str_of_bool_def split: if_splits)
  then show ?thesis
    using shape_body_inj [OF s1(1)] s2(1) s3(1) s4(1) assms(2,3)
    by (simp add: same_kernel_def kernel_plain_def plain_name_def)
qed

lemma same_kernel_key: "same_kernel k k' \<Longrightarrow> quantize_key k = quantize_key k'"
  by (simp add: same_kernel_def quantize_key_def)


lemma quantize_weight_run:
  "quantize_weight tvm run tgt w ax t cache =
     (let k = kernel_for w ax t
      in case map_of cache (quantize_key k) of
           Some fn \<Rightarrow> (run fn w, cache)
         | None \<Rightarrow> (case compile_quantize_func tvm tgt k of
                      Inl e \<Rightarrow> (Inl e, cache)
                    | Inr fn \<Rightarrow> (run fn w, dict_set cache (quantize_key k) fn)))"
  by (auto simp: quantize_weight_def Let_def py_bind_def py_get_def py_lift_def py_modify_def
      split: option.split sum.split)

text \<open>What a history leaves under a key: what was there, else the first function compiled for it.\<close>

lemma quantize_calls_lookup:
  assumes "list_all (\<lambda>c. kernel_plain (call_kernel c)) calls" "kernel_plain k"
  shows "map_of (quantize_calls tvm run calls cache) (quantize_key k)
    = (case map_of cache (quantize_key k) of Some fn \<Rightarrow> Some fn | None \<Rightarrow> first_compiled tvm calls k)"
  using assms(1)
proof (induction calls arbitrary: cache)
  case Nil
  then show ?case by (simp split: option.split)
next
  case (Cons c calls)
  obtain tgt w ax t where c: "c = (tgt, w, ax, t)" by (cases c) auto
  let ?k = "kernel_for w ax t"
  have key: "quantize_key ?k = quantize_key k \<longleftrightarrow> same_kernel ?k k"
    using quantize_key_inj [of ?k k] same_kernel_key [of ?k k] Cons.prems assms(2) c by auto
  have IH: "map_of (quantize_calls tvm run calls cache') (quantize_key k)
      = (case map_of cache' (quantize_key k) of Some fn \<Rightarrow> Some fn | None \<Rightarrow> first_compiled tvm calls k)" for cache'
    using Cons by simp
  show ?case
    using key unfolding c quantize_calls.simps IH
    by (auto simp: quantize_weight_run Let_def dict_set_lookup
        split: option.splits sum.splits)
qed

lemma first_compiled_Some:
  assumes "first_compiled tvm calls k = Some fn"
  obtains c where "c \<in> set calls" "same_kernel (call_kernel c) k"
    "compile_quantize_func tvm (fst c) (call_kernel c) = Inr fn"
  using assms by (induction calls) (auto split: if_splits sum.splits)

section \<open>Properties\<close>

lemma dtype_lookup:
  assumes "documented_dtypes tt"
  shows "tt_dtype tt ''int3'' = Inr (TInt, 3)" "tt_dtype tt ''int4'' = Inr (TInt, 4)"
    "tt_dtype tt ''int8'' = Inr (TInt, 8)" "tt_dtype tt ''uint32'' = Inr (TUInt, 32)"
    "tt_dtype tt ''float16'' = Inr (TFloat, 16)" "tt_dtype tt ''float32'' = Inr (TFloat, 32)"
    "tt_dtype tt ''bfloat16'' = Inr (TBFloat, 16)" "tt_dtype tt ''float8_e4m3fn'' = Inr (TFloat8E4M3FN, 8)"
    "tt_dtype tt ''float8_e5m2'' = Inr (TFloat8E5M2, 8)"
  using assms by (simp_all add: documented_dtypes_def dtype_facts_def)

lemma sample_types_documented: "documented_dtypes sample_types"
  by (simp add: documented_dtypes_def dtype_facts_def sample_types_def)

lemma sample_group_built:
  "GroupQuantize sample_types ''q4f16_0'' ''group-quant'' 32 ''int4'' ''uint32'' ''float16'' ''KN'' True True
     = Inr sample_group"
  by (simp add: GroupQuantize_def group_post_init_def dtype_lookup [OF sample_types_documented] res_assert_def
      Let_def sample_group_def)

lemma sample_linear_quantized: "\<exists>layer. group_from_linear sample_linear sample_group = Inr layer"
  by (simp add: group_from_linear_def GroupQuantizeLinear_def sample_linear_def sample_group_def Let_def)

text \<open>
  C29: the weight matrix that a group-quantized linear layer multiplies by, dequantized from what the
  quantization of the weight stored, is the transposed weight up to half a step, the largest absolute
  value of the group over twice the largest quantized integer, and six times the unit roundoff relative
  to that value. All operations are rounded: this holds for any arithmetic of the standard model, among
  them float16, bfloat16 and float32, in both layouts, for quantized integers of two to eight bits, for an
  input dimension that the group size does not divide and for groups of zeros. It is stated for groups
  whose scale does not become subnormal and whose values are below half the largest finite one.
\<close>

theorem group_quantize_error:
  assumes "rounded_float fl rnd u eta omega" "GroupQuantize tt name kind g qd sd md layout e f = Inr c" "0 < g"
    and "tt_dtype tt qd = Inr (TInt, bits)" "2 \<le> bits" "tt_dtype tt sd = Inr (TUInt, 32)"
    and "layout = ''KN'' \<or> layout = ''NK''"
    and "te_shape w = [out, inp]" "check_shape (te_shape w) [ln_out l, DInt (ln_in l)]"
    and "group_from_linear l c = Inr layer" "bits \<le> 8"
  shows "\<exists>q s d. quantize_te tt c fl w (- 1) (layout = ''KN'') = Inr (q, s) \<and>
    group_linear_weight tt c fl layer q s = Inr d \<and> te_shape d = [inp, out] \<and>
    (\<forall>i < inp. \<forall>j < out. let m = Max (group_abs g w 1 [j, i]); M = 2 ^ (bits - 1) - 1 in
       scale_fair u eta omega M m \<longrightarrow> \<bar>te_at d [i, j] - te_at w [j, i]\<bar> \<le> m / (2 * of_nat M) + 6 * u * m)"
proof -
  note c = GroupQuantize_ok [OF assms(2,4,5,6,3)]
  obtain q0 s0 where q0: "quantize_te tt c fl w (- 1) False = Inr (q0, s0)"
    "te_shape q0 = [out, gq_storages c * ceildiv inp (gq_group_size c)]"
    "te_shape s0 = [out, ceildiv inp (gq_group_size c)]"
    "quantize_te tt c fl w (- 1) True = Inr (te_transpose q0, te_transpose s0)"
    by (rule quantized_matrix [OF c(1) assms(8)])
  obtain q s where q: "quantize_te tt c fl w (- 1) (gq_layout c = ''KN'') = Inr (q, s)"
    using q0(1,4) by (cases "gq_layout c = ''KN''") auto
  show ?thesis
    using rounded_float.linear_layer_error [OF assms(1) c(1) assms(11) _ assms(8,10,9) q] q assms(7)
    unfolding c(2-4) Let_def by blast
qed

theorem group_quantize_error_witness:
  "\<exists>layer q s d. group_from_linear sample_linear sample_group = Inr layer \<and>
    quantize_te sample_types sample_group tir_float16 sample_matrix (- 1) True = Inr (q, s) \<and>
    group_linear_weight sample_types sample_group tir_float16 layer q s = Inr d \<and> te_shape d = [40, 2] \<and>
    \<bar>te_at d [33, 1] - 34\<bar> \<le> 40 / 14 + 6 / 2 ^ 11 * 40"
proof -
  obtain layer where layer: "group_from_linear sample_linear sample_group = Inr layer"
    using sample_linear_quantized by blast
  have int4: "tt_dtype sample_types ''int4'' = Inr (TInt, 4)" and uint32: "tt_dtype sample_types ''uint32'' = Inr (TUInt, 32)"
    using dtype_lookup [OF sample_types_documented] by blast+
  have "\<exists>q s d. quantize_te sample_types sample_group tir_float16 sample_matrix (- 1) (''KN'' = ''KN'') = Inr (q, s) \<and>
    group_linear_weight sample_types sample_group tir_float16 layer q s = Inr d \<and> te_shape d = [40, 2] \<and>
    (\<forall>i < 40. \<forall>j < 2. let m = Max (group_abs 32 sample_matrix 1 [j, i]); M = 2 ^ (4 - 1) - 1 in
       scale_fair (1 / 2 ^ 11) (2 powi (- 24 - 1)) 65504 M m \<longrightarrow>
       \<bar>te_at d [i, j] - te_at sample_matrix [j, i]\<bar> \<le> m / (2 * of_nat M) + 6 * (1 / 2 ^ 11) * m)"
    by (rule group_quantize_error [OF f16.rounded_float_axioms sample_group_built _ int4 _ uint32 _ _ _ layer])
      (simp_all add: sample_matrix_def sample_linear_def check_shape_def)
  then obtain q s d where qsd: "quantize_te sample_types sample_group tir_float16 sample_matrix (- 1) True = Inr (q, s)"
    "group_linear_weight sample_types sample_group tir_float16 layer q s = Inr d" "te_shape d = [40, 2]"
    and err: "\<forall>i < 40. \<forall>j < 2. let m = Max (group_abs 32 sample_matrix 1 [j, i]); M = 2 ^ (4 - 1) - 1 in
       scale_fair (1 / 2 ^ 11) (2 powi (- 24 - 1)) 65504 M m \<longrightarrow>
       \<bar>te_at d [i, j] - te_at sample_matrix [j, i]\<bar> \<le> m / (2 * of_nat M) + 6 * (1 / 2 ^ 11) * m" by auto
  have max: "Max (group_abs 32 sample_matrix 1 [1, 33]) = 40"
  proof -
    have "j div 32 = 1 \<longleftrightarrow> 32 \<le> j" if "j < 40" for j :: nat
      using that div_nat_eqI [of 32 1 j] div_less [of j 32] by (cases "j < 32") auto
    then have "{j. j < 40 \<and> j div 32 = (1::nat)} = set [32..<40]" by auto
    then have "group_abs 32 sample_matrix 1 [1, 33] = set [33, 34, 35, 36, 37, 38, 39, 40]"
      by (simp add: group_abs_def sample_matrix_def idx_set_def upt_rec)
    then show ?thesis by simp
  qed
  have at: "te_at sample_matrix [1, 33] = 34" by (simp add: sample_matrix_def)
  have "\<bar>te_at d [33, 1] - 34\<bar> \<le> 40 / 14 + 6 / 2 ^ 11 * 40"
    using err [rule_format, of 33 1] unfolding max at Let_def by (simp add: scale_fair_def power_int_minus)
  with qsd layer show ?thesis by blast
qed

text \<open>
  C32: what the cache of compiled functions does, exactly. After any history of calls \<open>quantize_weight\<close>
  runs the function that the first successful compilation among the earlier calls made for a weight of
  the same shape, type and device type, the same axis and orientation, and only when there is none
  compiles its own: weights that differ in any of these never share a function, while the number of the
  device and the current target make no difference.
\<close>

theorem quantize_cache_exact:
  assumes "list_all (\<lambda>c. kernel_plain (call_kernel c)) calls" "kernel_plain (kernel_for w ax t)"
  shows "fst (quantize_weight tvm run tgt w ax t (quantize_calls tvm run calls []))
    = (case first_compiled tvm calls (kernel_for w ax t) of
         Some fn \<Rightarrow> run fn w
       | None \<Rightarrow> res_bind (compile_quantize_func tvm tgt (kernel_for w ax t)) (\<lambda>fn. run fn w))"
  using quantize_calls_lookup [OF assms, of tvm run "[]"]
  by (auto simp: quantize_weight_run Let_def split: option.split sum.split)

theorem quantize_cache_exact_witness:
  "fst (quantize_weight sample_build (\<lambda>f w. Inr (snd f)) None (sample_array 1 [4, 8]) (- 1) True
     (quantize_calls sample_build (\<lambda>f w. Inr (snd f))
        [(None, sample_array 1 [2, 8], - 1, True), (None, sample_array 0 [4, 8], 1, True)] []))
   = Inr \<lparr>dev_type = ''cuda'', dev_id = 0\<rparr>"
  by (subst quantize_cache_exact)
    (simp_all add: kernel_plain_def plain_name_def kernel_for_def sample_array_def same_kernel_def compile_quantize_func_def sample_build_def Let_def)

text \<open>
  The cache cannot be seen as long as the calls for one type of device are made for one device and
  under one target: \<open>quantize_weight\<close> then returns the same with the functions kept from any earlier
  calls as with an empty cache.
\<close>

theorem quantize_cache_transparent:
  assumes "list_all (\<lambda>c. kernel_plain (call_kernel c)) calls" "kernel_plain (kernel_for w ax t)"
    and "list_all (\<lambda>(tgt', w', _). dev_type (da_device w') = dev_type (da_device w)
           \<longrightarrow> da_device w' = da_device w \<and> tgt' = tgt) calls"
  shows "fst (quantize_weight tvm run tgt w ax t (quantize_calls tvm run calls []))
       = fst (quantize_weight tvm run tgt w ax t [])"
proof -
  have "compile_quantize_func tvm tgt (kernel_for w ax t) = Inr fn"
    if "first_compiled tvm calls (kernel_for w ax t) = Some fn" for fn
  proof -
    from that obtain c where c: "c \<in> set calls" "same_kernel (call_kernel c) (kernel_for w ax t)"
      "compile_quantize_func tvm (fst c) (call_kernel c) = Inr fn"
      by (rule first_compiled_Some)
    obtain tgt' w' ax' t' where c': "c = (tgt', w', ax', t')" by (cases c) auto
    have "da_device w' = da_device w \<and> tgt' = tgt"
      using c(1,2) assms(3) by (fastforce simp: c' list_all_iff same_kernel_def kernel_for_def)
    with c show ?thesis by (simp add: c' same_kernel_def kernel_for_def)
  qed
  then show ?thesis
    using quantize_calls_lookup [OF assms(1,2), of tvm run "[]"]
    by (auto simp: quantize_weight_run Let_def split: option.split sum.split)
qed

theorem quantize_cache_transparent_witness:
  "fst (quantize_weight sample_build (\<lambda>f w. Inr f) (Some ''cuda'') (sample_array 0 [4, 8]) (- 1) True
     (quantize_calls sample_build (\<lambda>f w. Inr f)
        [(Some ''cuda'', sample_array 0 [2, 8], - 1, True), (Some ''cuda'', sample_array 0 [4, 8], 1, True)] []))
   = fst (quantize_weight sample_build (\<lambda>f w. Inr f) (Some ''cuda'') (sample_array 0 [4, 8]) (- 1) True [])"
  by (rule quantize_cache_transparent)
    (simp_all add: kernel_plain_def plain_name_def kernel_for_def sample_array_def)

end
