(* ===== verification/Quant_Models.thy ===== *)
theory Quant_Models
  imports Group_Quantize
begin

text \<open>
  The quantization of whole models: FasterTransformer, AWQ and the other configurations of
  quantization/, the visitors that replace the modules of a model and fill the quantization map, and the
  registry of presets. The theorems say that the presets are well formed and that the map agrees with
  the parameters of the quantized model.
\<close>

unbundle bit_operations_syntax

section \<open>FasterTransformer quantization\<close>

record ft_quantize =
  fq_name :: string
  fq_kind :: string
  fq_quantize_dtype :: string
  fq_storage_dtype :: string
  fq_model_dtype :: string
  fq_group_size :: "nat option"
  fq_elems :: nat
  fq_max_int :: nat

definition ft_post_init :: "tvm_types \<Rightarrow> ft_quantize \<Rightarrow> ft_quantize res" where
  "ft_post_init tt c =
     res_bind (res_assert (fq_kind c = ''ft-quant'') ''kind'') (\<lambda>_.
     res_bind (tt_dtype tt (fq_quantize_dtype c)) (\<lambda>quantize_dtype.
     res_bind (tt_dtype tt (fq_storage_dtype c)) (\<lambda>storage_dtype.
     res_bind (res_assert (fq_quantize_dtype c \<in> {''int4'', ''int8''}) ''quantize_dtype'') (\<lambda>_.
     res_bind (res_assert (fst storage_dtype = TInt) ''storage_dtype'') (\<lambda>_.
     res_bind (res_assert (fq_model_dtype c = ''float16'') ''model_dtype'') (\<lambda>_.
     res_bind (res_assert (fq_group_size c \<in> {None, Some 64, Some 128}) ''group_size'') (\<lambda>_.
     if snd storage_dtype < snd quantize_dtype
     then Inl (ValueError ''Storage unit should be greater or equal to quantized element'')
     else Inr (c\<lparr>fq_elems := snd storage_dtype div snd quantize_dtype,
                 fq_max_int := 2 ^ (snd quantize_dtype - 1) - 1\<rparr>))))))))"

definition FTQuantize ::
  "tvm_types \<Rightarrow> string \<Rightarrow> string \<Rightarrow> string \<Rightarrow> string \<Rightarrow> string \<Rightarrow> nat option \<Rightarrow> ft_quantize res" where
  "FTQuantize tt name kind quantize_dtype storage_dtype model_dtype group_size =
     ft_post_init tt \<lparr>fq_name = name, fq_kind = kind, fq_quantize_dtype = quantize_dtype,
       fq_storage_dtype = storage_dtype, fq_model_dtype = model_dtype, fq_group_size = group_size,
       fq_elems = 0, fq_max_int = 0\<rparr>"

definition fallback_group_quantize :: "tvm_types \<Rightarrow> ft_quantize \<Rightarrow> group_quantize res" where
  "fallback_group_quantize tt c =
     GroupQuantize tt (fq_name c) ''group-quant'' 32 (fq_quantize_dtype c) ''uint32'' (fq_model_dtype c) ''NK'' True True"

text \<open>\<open>k if not self.group_size else self.group_size\<close>\<close>

definition cur_group_size :: "ft_quantize \<Rightarrow> nat \<Rightarrow> nat" where
  "cur_group_size c k = (case fq_group_size c of None \<Rightarrow> k | Some g \<Rightarrow> if g = 0 then k else g)"

definition ft_max_abs :: "ft_quantize \<Rightarrow> 'f tir_float \<Rightarrow> 'f te \<Rightarrow> 'f te" where
  "ft_max_abs c fl weight =
     (let n = te_shape weight ! 0; k = te_shape weight ! 1; g = cur_group_size c k
      in te_compute [ceildiv k g, n] (\<lambda>idx.
           fold (\<lambda>r m. tf_max fl m
               (if idx ! 0 * g + r < k then tf_abs fl (te_at weight [idx ! 1, idx ! 0 * g + r])
                else tf_min_value fl))
             [0..<g] (tf_min_value fl)))"

definition ft_scale :: "ft_quantize \<Rightarrow> 'f tir_float \<Rightarrow> 'f te \<Rightarrow> 'f te" where
  "ft_scale c fl weight =
     te_compute (te_shape (ft_max_abs c fl weight)) (\<lambda>idx.
       tf_div fl (te_at (ft_max_abs c fl weight) idx) (tf_const fl (fq_max_int c)))"

definition ft_scaled_weight :: "ft_quantize \<Rightarrow> nat \<Rightarrow> 'f tir_float \<Rightarrow> 'f te \<Rightarrow> 8 word te" where
  "ft_scaled_weight c bits fl weight =
     te_compute (te_shape weight) (\<lambda>idx.
       tf_to_int8 fl
         (tf_min fl
           (tf_max fl
             (tf_round fl
               (tf_div fl (te_at weight idx)
                 (te_at (ft_scale c fl weight) [idx ! 1 div cur_group_size c (te_shape weight ! 1), idx ! 0])))
             (tf_sub fl (tf_neg fl (tf_const fl (fq_max_int c))) (tf_const fl 1)))
           (tf_const fl (fq_max_int c)))
       AND mask bits)"

definition ft_quantize_te ::
  "tvm_types \<Rightarrow> ft_quantize \<Rightarrow> 'f tir_float \<Rightarrow> 'f te \<Rightarrow> (8 word te \<times> 'f te) res" where
  "ft_quantize_te tt c fl weight =
     res_bind (res_assert (length (te_shape weight) = 2) ''len(weight.shape) == 2'') (\<lambda>_.
     res_bind (tt_dtype tt (fq_quantize_dtype c)) (\<lambda>quantize_dtype.
     let n = te_shape weight ! 0; k = te_shape weight ! 1; bits = snd quantize_dtype; e = fq_elems c;
         quantized = te_compute [k, ceildiv n e] (\<lambda>idx.
           sum_list (map (\<lambda>r.
             if idx ! 1 * e + r < n
             then push_bit (r * bits) (te_at (ft_scaled_weight c bits fl weight) [idx ! 1 * e + r, idx ! 0])
             else 0) [0..<e]))
     in Inr (quantized, ft_scale c fl weight)))"

text \<open>Reached with an integral number of output features only: \<open>ft_falls_back\<close> below.\<close>

definition FTQuantizeLinear :: "nat \<Rightarrow> nat \<Rightarrow> ft_quantize \<Rightarrow> bool \<Rightarrow> string option \<Rightarrow> quant_linear" where
  "FTQuantizeLinear in_features out_features c bias out_dtype =
     (let g = cur_group_size c in_features
      in \<lparr>ql_in = in_features, ql_out = DInt out_features, ql_out_dtype = out_dtype,
          ql_q_weight = new_param [DInt in_features, DInt (ceildiv out_features (fq_elems c))] (fq_storage_dtype c),
          ql_q_scale = new_param [DInt (ceildiv in_features g), DInt out_features] (fq_model_dtype c),
          ql_bias = bias_param bias (DInt out_features) (fq_model_dtype c) out_dtype\<rparr>)"

definition ft_from_linear :: "nn_linear \<Rightarrow> nat \<Rightarrow> ft_quantize \<Rightarrow> quant_linear" where
  "ft_from_linear src out_features c =
     copy_bias_attrs (ln_bias src)
       (FTQuantizeLinear (ln_in src) out_features c (ln_bias src \<noteq> None) (ln_out_dtype src))"

section \<open>Quantization of a model\<close>

text \<open>
  The functions of the quantization map are kept as data: \<open>quantize_weight\<close> of a configuration, with
  or without \<open>output_transpose\<close>.
\<close>

datatype quant_func = GroupQuantizeWeight group_quantize bool | FTQuantizeWeight ft_quantize

record quant_map =
  qp_param_map :: "(string \<times> string list) list"
  qp_map_func :: "(string \<times> quant_func) list"

datatype 'm nn_module = NLinear nn_linear | NEmbedding nn_embedding | NExperts nn_experts | NOther 'm

record 'm nn_node =
  nd_no_quantization :: bool
  nd_module :: "'m nn_module"

datatype 'm quant_module =
    Unquantized "'m nn_node"
  | QLinear quant_linear
  | QEmbedding quant_embedding
  | QExperts quant_experts

definition map_weight :: "string \<Rightarrow> quant_func \<Rightarrow> quant_map \<Rightarrow> quant_map" where
  "map_weight name f qm =
     qm\<lparr>qp_param_map := dict_set (qp_param_map qm) (name @ ''.weight'') [name @ ''.q_weight'', name @ ''.q_scale''],
        qp_map_func := dict_set (qp_map_func qm) (name @ ''.weight'') f\<rparr>"

text \<open>\<open>visit\<close> is the traversal of \<open>nn.Mutator\<close>, which calls \<open>visit_module\<close> on the children of a node.\<close>

definition group_visit_module ::
  "(string \<Rightarrow> 'm nn_node \<Rightarrow> quant_map \<Rightarrow> ('m quant_module \<times> quant_map) res) \<Rightarrow> group_quantize
     \<Rightarrow> string \<Rightarrow> 'm nn_node \<Rightarrow> quant_map \<Rightarrow> ('m quant_module \<times> quant_map) res" where
  "group_visit_module visit c name node qm =
     (if nd_no_quantization node then Inr (Unquantized node, qm)
      else case nd_module node of
        NLinear l \<Rightarrow>
          if (\<not> is_final_fc name \<or> gq_final_fc c) \<and> \<not> is_moe_gate name l
          then res_bind (group_from_linear l c) (\<lambda>q.
               Inr (QLinear q, map_weight name (GroupQuantizeWeight c (gq_layout c = ''KN'')) qm))
          else visit name node qm
      | NEmbedding e \<Rightarrow>
          if gq_embedding c
          then Inr (QEmbedding (group_from_embedding e c), map_weight name (GroupQuantizeWeight c False) qm)
          else visit name node qm
      | NExperts x \<Rightarrow>
          res_bind (group_from_experts x c) (\<lambda>q.
          Inr (QExperts q, map_weight name (GroupQuantizeWeight c False) qm))
      | NOther _ \<Rightarrow> visit name node qm)"

text \<open>
  A symbolic \<open>out_features\<close> is a string, on which \<open>% 8\<close> raises. \<open>param_map\<close> is written before the
  test for a gate, \<open>map_func\<close> after it.
\<close>

definition ft_misaligned :: "ft_quantize \<Rightarrow> nat \<Rightarrow> bool" where
  "ft_misaligned c out =
     (fq_quantize_dtype c = ''int4'' \<and> out mod 8 \<noteq> 0 \<or> fq_quantize_dtype c = ''int8'' \<and> out mod 4 \<noteq> 0)"

definition ft_falls_back :: "ft_quantize \<Rightarrow> string \<Rightarrow> nn_linear \<Rightarrow> bool res" where
  "ft_falls_back c name l =
     (if is_final_fc name \<or> ln_out_dtype l = Some ''float32'' then Inr True
      else case ln_out l of
        DInt out \<Rightarrow> Inr (ft_misaligned c out)
      | DVar _ \<Rightarrow> if fq_quantize_dtype c \<in> {''int4'', ''int8''}
                   then Inl (TypeError ''not all arguments converted during string formatting'')
                   else Inr False)"

definition map_names :: "string \<Rightarrow> quant_map \<Rightarrow> quant_map" where
  "map_names name qm =
     qm\<lparr>qp_param_map := dict_set (qp_param_map qm) (name @ ''.weight'') [name @ ''.q_weight'', name @ ''.q_scale'']\<rparr>"

definition ft_visit_module ::
  "(string \<Rightarrow> 'm nn_node \<Rightarrow> quant_map \<Rightarrow> ('m quant_module \<times> quant_map) res) \<Rightarrow> tvm_types \<Rightarrow> ft_quantize
     \<Rightarrow> string \<Rightarrow> 'm nn_node \<Rightarrow> quant_map \<Rightarrow> ('m quant_module \<times> quant_map) res" where
  "ft_visit_module visit tt c name node qm =
     (case nd_module node of
        NLinear l \<Rightarrow>
          res_bind (ft_falls_back c name l) (\<lambda>fallback.
          if fallback
          then res_bind (fallback_group_quantize tt c) (\<lambda>g.
               res_bind (group_from_linear l g) (\<lambda>q.
               Inr (QLinear q, map_weight name (GroupQuantizeWeight g False) qm)))
          else if is_moe_gate name l then visit name node (map_names name qm)
          else Inr (QLinear (ft_from_linear l (dim_or (ln_out l) 0) c), map_weight name (FTQuantizeWeight c) qm))
      | NEmbedding e \<Rightarrow>
          res_bind (fallback_group_quantize tt c) (\<lambda>g.
          Inr (QEmbedding (group_from_embedding e g), map_weight name (GroupQuantizeWeight g False) qm))
      | _ \<Rightarrow> visit name node qm)"

section \<open>The other quantizations and the registry\<close>

record awq_quantize =
  aq_name :: string
  aq_kind :: string
  aq_group_size :: nat
  aq_quantize_dtype :: string
  aq_storage_dtype :: string
  aq_model_dtype :: string
  aq_elems :: nat
  aq_storages :: nat
  aq_max_int :: nat

definition awq_post_init :: "tvm_types \<Rightarrow> awq_quantize \<Rightarrow> awq_quantize res" where
  "awq_post_init tt c =
     res_bind (res_assert (aq_kind c = ''awq'') ''kind'') (\<lambda>_.
     res_bind (tt_dtype tt (aq_quantize_dtype c)) (\<lambda>quantize_dtype.
     res_bind (tt_dtype tt (aq_storage_dtype c)) (\<lambda>storage_dtype.
     res_bind (tt_dtype tt (aq_model_dtype c)) (\<lambda>model_dtype.
     res_bind (res_assert (fst quantize_dtype = TInt) ''quantize_dtype'') (\<lambda>_.
     res_bind (res_assert (fst storage_dtype = TUInt) ''storage_dtype'') (\<lambda>_.
     res_bind (res_assert (fst model_dtype = TFloat) ''model_dtype'') (\<lambda>_.
     if snd storage_dtype < snd quantize_dtype
     then Inl (ValueError ''Storage unit should be greater or equal to quantized element'')
     else
       let elems = snd storage_dtype div snd quantize_dtype
       in if aq_group_size c mod elems \<noteq> 0
          then Inl (ValueError ''Group size should be divisible by numbers of elements per storage'')
          else Inr (c\<lparr>aq_elems := elems, aq_storages := aq_group_size c div elems,
                      aq_max_int := 2 ^ (snd quantize_dtype - 1) - 1\<rparr>))))))))"

definition AWQQuantize ::
  "tvm_types \<Rightarrow> string \<Rightarrow> string \<Rightarrow> nat \<Rightarrow> string \<Rightarrow> string \<Rightarrow> string \<Rightarrow> awq_quantize res" where
  "AWQQuantize tt name kind group_size quantize_dtype storage_dtype model_dtype =
     awq_post_init tt \<lparr>aq_name = name, aq_kind = kind, aq_group_size = group_size,
       aq_quantize_dtype = quantize_dtype, aq_storage_dtype = storage_dtype, aq_model_dtype = model_dtype,
       aq_elems = 0, aq_storages = 0, aq_max_int = 0\<rparr>"

definition awq_dequantize ::
  "tvm_types \<Rightarrow> awq_quantize \<Rightarrow> 'f tir_float \<Rightarrow> 32 word te \<Rightarrow> 32 word te \<Rightarrow> 'f te \<Rightarrow> nat list option \<Rightarrow> 'f te res" where
  "awq_dequantize tt c fl weight zeros scale out_shape =
     res_bind (tt_dtype tt (aq_quantize_dtype c)) (\<lambda>d.
       let wide = (\<lambda>t. [te_shape t ! 0, te_shape t ! 1 * aq_elems c]);
           float_weight = te_transpose (convert_uint_to_float fl weight (snd d) (aq_elems c) (- 1) (wide weight) True);
           float_zeros = te_transpose (convert_uint_to_float fl zeros (snd d) (aq_elems c) (- 1) (wide zeros) True);
           scale_t = te_transpose scale
       in Inr (te_compute (case out_shape of None \<Rightarrow> wide weight | Some s \<Rightarrow> s) (\<lambda>idx.
            tf_mul fl
              (tf_sub fl (te_at float_weight [idx ! 0, idx ! 1])
                (te_at float_zeros [idx ! 0, idx ! 1 div aq_group_size c]))
              (te_at scale_t [idx ! 0, idx ! 1 div aq_group_size c]))))"

record awq_linear =
  al_in :: nat
  al_out :: nat
  al_qweight :: nn_param
  al_qzeros :: nn_param
  al_scales :: nn_param
  al_bias :: "nn_param option"

definition AWQQuantizeLinear :: "nat \<Rightarrow> nat \<Rightarrow> awq_quantize \<Rightarrow> bool \<Rightarrow> string option \<Rightarrow> awq_linear" where
  "AWQQuantizeLinear in_features out_features c bias out_dtype =
     \<lparr>al_in = in_features, al_out = out_features,
      al_qweight = new_param [DInt in_features, DInt (out_features div aq_elems c)] (aq_storage_dtype c),
      al_qzeros = new_param [DInt (in_features div aq_group_size c), DInt (out_features div aq_elems c)] (aq_storage_dtype c),
      al_scales = new_param [DInt (in_features div aq_group_size c), DInt out_features] (aq_model_dtype c),
      al_bias = bias_param bias (DInt out_features) (aq_model_dtype c) out_dtype\<rparr>"

definition awq_linear_weight ::
  "tvm_types \<Rightarrow> awq_quantize \<Rightarrow> 'f tir_float \<Rightarrow> awq_linear \<Rightarrow> 32 word te \<Rightarrow> 32 word te \<Rightarrow> 'f te \<Rightarrow> 'f te res" where
  "awq_linear_weight tt c fl layer qweight qzeros scales =
     res_bind (awq_dequantize tt c fl qweight qzeros scales (Some [al_out layer, al_in layer])) (\<lambda>w.
     Inr (te_transpose w))"

record no_quantize =
  nq_name :: string
  nq_kind :: string
  nq_model_dtype :: string

definition NoQuantize :: "string \<Rightarrow> string \<Rightarrow> string \<Rightarrow> no_quantize res" where
  "NoQuantize name kind model_dtype =
     res_bind (res_assert (kind = ''no-quant'') ''kind'') (\<lambda>_.
     Inr \<lparr>nq_name = name, nq_kind = kind, nq_model_dtype = model_dtype\<rparr>)"

record per_tensor_quantize =
  tq_name :: string
  tq_kind :: string
  tq_activation_dtype :: string
  tq_weight_dtype :: string
  tq_storage_dtype :: string
  tq_model_dtype :: string
  tq_embedding :: bool
  tq_final_fc :: bool
  tq_linear :: bool
  tq_elems :: nat
  tq_max_int :: nat
  tq_use_scale :: bool
  tq_calibration_mode :: string
  tq_shards :: nat

definition per_tensor_post_init :: "tvm_types \<Rightarrow> per_tensor_quantize \<Rightarrow> per_tensor_quantize res" where
  "per_tensor_post_init tt c =
     res_bind (res_assert (tq_kind c = ''per-tensor-quant'') ''kind'') (\<lambda>_.
     res_bind (tt_dtype tt (tq_storage_dtype c)) (\<lambda>storage_dtype.
     res_bind (tt_dtype tt (tq_weight_dtype c)) (\<lambda>weight_dtype.
     Inr (c\<lparr>tq_elems := snd storage_dtype div snd weight_dtype, tq_max_int := tt_max_value tt (tq_weight_dtype c)\<rparr>))))"

definition PerTensorQuantize ::
  "tvm_types \<Rightarrow> string \<Rightarrow> string \<Rightarrow> string \<Rightarrow> string \<Rightarrow> string \<Rightarrow> string \<Rightarrow> bool \<Rightarrow> bool \<Rightarrow> bool \<Rightarrow> bool \<Rightarrow> string
     \<Rightarrow> per_tensor_quantize res" where
  "PerTensorQuantize tt name kind activation weight storage model embedding final_fc do_linear use_scale mode =
     per_tensor_post_init tt \<lparr>tq_name = name, tq_kind = kind, tq_activation_dtype = activation,
       tq_weight_dtype = weight, tq_storage_dtype = storage, tq_model_dtype = model, tq_embedding = embedding,
       tq_final_fc = final_fc, tq_linear = do_linear, tq_elems = 0, tq_max_int = 0, tq_use_scale = use_scale,
       tq_calibration_mode = mode, tq_shards = 1\<rparr>"

record block_scale_quantize =
  bq_name :: string
  bq_kind :: string
  bq_weight_dtype :: string
  bq_model_dtype :: string
  bq_linear :: bool
  bq_block_size :: "(nat \<times> nat) option"

definition BlockScaleQuantize ::
  "tvm_types \<Rightarrow> string \<Rightarrow> string \<Rightarrow> string \<Rightarrow> string \<Rightarrow> bool \<Rightarrow> (nat \<times> nat) option \<Rightarrow> block_scale_quantize res" where
  "BlockScaleQuantize tt name kind weight_dtype model_dtype do_linear block_size =
     res_bind (res_assert (kind = ''block-scale-quant'') ''kind'') (\<lambda>_.
     res_bind (tt_dtype tt weight_dtype) (\<lambda>w.
     res_bind (tt_dtype tt model_dtype) (\<lambda>m.
     res_bind (res_assert (fst w \<in> {TFloat8E4M3FN, TFloat8E5M2}) ''weight_dtype'') (\<lambda>_.
     res_bind (res_assert (fst m \<in> {TFloat, TBFloat}) ''model_dtype'') (\<lambda>_.
     Inr \<lparr>bq_name = name, bq_kind = kind, bq_weight_dtype = weight_dtype, bq_model_dtype = model_dtype,
          bq_linear = do_linear, bq_block_size = block_size\<rparr>)))))"

text \<open>The defaults of the dataclass.\<close>

definition BlockScaleQuantize_default :: "tvm_types \<Rightarrow> string \<Rightarrow> block_scale_quantize res" where
  "BlockScaleQuantize_default tt name =
     BlockScaleQuantize tt name ''block-scale'' ''float8_e4m3fn'' ''bfloat16'' True None"

datatype quantization =
    NoQuant no_quantize
  | GroupQuant group_quantize
  | AWQQuant awq_quantize
  | FTQuant ft_quantize
  | PerTensorQuant per_tensor_quantize
  | BlockScaleQuant block_scale_quantize

definition res_inj :: "('a \<Rightarrow> quantization) \<Rightarrow> 'a res \<Rightarrow> quantization res" where
  "res_inj f r = res_bind r (\<lambda>x. Inr (f x))"

definition QUANTIZATION :: "tvm_types \<Rightarrow> (string \<times> quantization res) list" where
  "QUANTIZATION tt =
     [(''q0f16'', res_inj NoQuant (NoQuantize ''q0f16'' ''no-quant'' ''float16'')),
      (''q0bf16'', res_inj NoQuant (NoQuantize ''q0bf16'' ''no-quant'' ''bfloat16'')),
      (''q0f32'', res_inj NoQuant (NoQuantize ''q0f32'' ''no-quant'' ''float32'')),
      (''q3f16_0'', res_inj GroupQuant
         (GroupQuantize tt ''q3f16_0'' ''group-quant'' 40 ''int3'' ''uint32'' ''float16'' ''KN'' True True)),
      (''q3f16_1'', res_inj GroupQuant
         (GroupQuantize tt ''q3f16_1'' ''group-quant'' 40 ''int3'' ''uint32'' ''float16'' ''NK'' True True)),
      (''q4f16_0'', res_inj GroupQuant
         (GroupQuantize tt ''q4f16_0'' ''group-quant'' 32 ''int4'' ''uint32'' ''float16'' ''KN'' True True)),
      (''q4f16_1'', res_inj GroupQuant
         (GroupQuantize tt ''q4f16_1'' ''group-quant'' 32 ''int4'' ''uint32'' ''float16'' ''NK'' True True)),
      (''q4bf16_0'', res_inj GroupQuant
         (GroupQuantize tt ''q4bf16_0'' ''group-quant'' 32 ''int4'' ''uint32'' ''bfloat16'' ''KN'' True True)),
      (''q4bf16_1'', res_inj GroupQuant
         (GroupQuantize tt ''q4bf16_1'' ''group-quant'' 32 ''int4'' ''uint32'' ''bfloat16'' ''NK'' True True)),
      (''q4f32_1'', res_inj GroupQuant
         (GroupQuantize tt ''q4f32_1'' ''group-quant'' 32 ''int4'' ''uint32'' ''float32'' ''NK'' True True)),
      (''q4f16_2'', res_inj GroupQuant
         (GroupQuantize tt ''q4f16_2'' ''group-quant'' 32 ''int4'' ''uint32'' ''float16'' ''NK'' False False)),
      (''q4f16_autoawq'', res_inj AWQQuant
         (AWQQuantize tt ''q4f16_autoawq'' ''awq'' 128 ''int4'' ''uint32'' ''float16'')),
      (''q4f16_ft'', res_inj FTQuant
         (FTQuantize tt ''q4f16_ft'' ''ft-quant'' ''int4'' ''int8'' ''float16'' None)),
      (''e5m2_e5m2_f16'', res_inj PerTensorQuant
         (PerTensorQuantize tt ''e5m2_e5m2_f16'' ''per-tensor-quant'' ''float8_e5m2'' ''float8_e5m2'' ''float8_e5m2''
            ''float16'' False False True False ''inference'')),
      (''e4m3_e4m3_f16'', res_inj PerTensorQuant
         (PerTensorQuantize tt ''e4m3_e4m3_f16'' ''per-tensor-quant'' ''float8_e4m3fn'' ''float8_e4m3fn'' ''float8_e4m3fn''
            ''float16'' False False True True ''inference'')),
      (''e4m3_e4m3_f16_max_calibrate'', res_inj PerTensorQuant
         (PerTensorQuantize tt ''e4m3_e4m3_f16_max_calibrate'' ''per-tensor-quant'' ''float8_e4m3fn'' ''float8_e4m3fn''
            ''float8_e4m3fn'' ''float16'' False False True True ''max'')),
      (''fp8_e4m3fn_bf16_block_scale'', res_inj BlockScaleQuant
         (BlockScaleQuantize tt ''fp8_e4m3fn_bf16_block_scale'' ''block-scale-quant'' ''float8_e4m3fn'' ''bfloat16'' True None))]"

section \<open>Specification\<close>

fun quantization_name :: "quantization \<Rightarrow> string" where
  "quantization_name (NoQuant c) = nq_name c"
| "quantization_name (GroupQuant c) = gq_name c"
| "quantization_name (AWQQuant c) = aq_name c"
| "quantization_name (FTQuant c) = fq_name c"
| "quantization_name (PerTensorQuant c) = tq_name c"
| "quantization_name (BlockScaleQuant c) = bq_name c"

text \<open>What the packing code needs of a configuration.\<close>

definition packable :: "tvm_types \<Rightarrow> quantization \<Rightarrow> bool" where
  "packable tt q =
     (case q of
        GroupQuant c \<Rightarrow> (\<exists>bits \<in> {3, 4, 8}. group_ok tt c bits)
      | AWQQuant c \<Rightarrow> aq_elems c * 4 = 32 \<and> aq_group_size c = aq_storages c * aq_elems c
      | FTQuant c \<Rightarrow> fq_elems c * 4 = 8 \<and> fq_max_int c = 7
      | PerTensorQuant c \<Rightarrow> tq_elems c = 1
      | _ \<Rightarrow> True)"

definition quant_preset_ok :: "tvm_types \<Rightarrow> string \<times> quantization res \<Rightarrow> bool" where
  "quant_preset_ok tt p = (\<exists>q. snd p = Inr q \<and> quantization_name q = fst p \<and> packable tt q)"

text \<open>
  The shapes that the function of the quantization map produces from a weight, the shape of the weight
  of a module, and the parameters of the module that replaces it.
\<close>

definition quantized_shapes :: "tvm_types \<Rightarrow> 'f tir_float \<Rightarrow> quant_func \<Rightarrow> 'f te \<Rightarrow> nat list list res" where
  "quantized_shapes tt fl f w =
     (case f of
        GroupQuantizeWeight c t \<Rightarrow> res_bind (quantize_te tt c fl w (- 1) t) (\<lambda>(q, s). Inr [te_shape q, te_shape s])
      | FTQuantizeWeight c \<Rightarrow> res_bind (ft_quantize_te tt c fl w) (\<lambda>(q, s). Inr [te_shape q, te_shape s]))"

fun module_weight :: "'m nn_module \<Rightarrow> dim list option" where
  "module_weight (NLinear l) = Some [ln_out l, DInt (ln_in l)]"
| "module_weight (NEmbedding e) = Some [em_num e, DInt (em_dim e)]"
| "module_weight (NExperts x) = Some [DInt (ex_num x), DInt (ex_out x), DInt (ex_in x)]"
| "module_weight (NOther _) = None"

fun quant_params :: "'m quant_module \<Rightarrow> nn_param list" where
  "quant_params (QLinear q) = [ql_q_weight q, ql_q_scale q]"
| "quant_params (QEmbedding q) = [qe_q_weight q, qe_q_scale q]"
| "quant_params (QExperts q) = [qx_q_weight q, qx_q_scale q]"
| "quant_params (Unquantized _) = []"

text \<open>\<open>nn.Mutator.visit\<close> leaves a module without submodules as it is.\<close>

definition keeps_leaves :: "(string \<Rightarrow> 'm nn_node \<Rightarrow> quant_map \<Rightarrow> ('m quant_module \<times> quant_map) res) \<Rightarrow> bool" where
  "keeps_leaves visit =
     (\<forall>name node qm. module_weight (nd_module node) \<noteq> None \<longrightarrow> visit name node qm = Inr (Unquantized node, qm))"

definition params_fit :: "tvm_types \<Rightarrow> 'f tir_float \<Rightarrow> string \<Rightarrow> 'f te \<Rightarrow> 'm quant_module \<Rightarrow> quant_map \<Rightarrow> bool" where
  "params_fit tt fl name w m qm =
     (map_of (qp_param_map qm) (name @ ''.weight'') = Some [name @ ''.q_weight'', name @ ''.q_scale''] \<and>
      (\<exists>f shapes. map_of (qp_map_func qm) (name @ ''.weight'') = Some f \<and>
         quantized_shapes tt fl f w = Inr shapes \<and> list_all2 check_shape shapes (map pm_shape (quant_params m))))"

text \<open>The quantization map as the loader reads it.\<close>

definition loader_map :: "(quant_func \<Rightarrow> 'd tensor \<Rightarrow> 'd tensor list res) \<Rightarrow> quant_map \<Rightarrow> 'd quantize_mapping" where
  "loader_map run qm =
     \<lparr>qm_param_map = qp_param_map qm, qm_map_func = map (\<lambda>(k, f). (k, run f)) (qp_map_func qm)\<rparr>"

definition keep_visit :: "string \<Rightarrow> unit nn_node \<Rightarrow> quant_map \<Rightarrow> (unit quant_module \<times> quant_map) res" where
  "keep_visit name node qm = Inr (Unquantized node, qm)"

definition sample_node :: "dim \<Rightarrow> unit nn_node" where
  "sample_node out = \<lparr>nd_no_quantization = False, nd_module = NLinear (sample_linear\<lparr>ln_out := out\<rparr>)\<rparr>"

definition empty_map :: quant_map where
  "empty_map = \<lparr>qp_param_map = [], qp_map_func = []\<rparr>"

definition sample_ft :: ft_quantize where
  "sample_ft = \<lparr>fq_name = ''q4f16_ft'', fq_kind = ''ft-quant'', fq_quantize_dtype = ''int4'', fq_storage_dtype = ''int8'',
     fq_model_dtype = ''float16'', fq_group_size = None, fq_elems = 2, fq_max_int = 7\<rparr>"

section \<open>Lemmas\<close>

subsection \<open>Parameters of quantized modules\<close>

lemma map_weight_lookup:
  "map_of (qp_param_map (map_weight name f qm)) (name @ ''.weight'') = Some [name @ ''.q_weight'', name @ ''.q_scale'']"
  "map_of (qp_map_func (map_weight name f qm)) (name @ ''.weight'') = Some f"
  by (simp_all add: map_weight_def dict_set_lookup)

lemma linear_params_fit:
  assumes ok: "group_ok tt c bits" and l: "group_from_linear l c = Inr q"
    and w: "check_shape (te_shape w) [ln_out l, DInt (ln_in l)]"
  shows "params_fit tt fl name w (QLinear q) (map_weight name (GroupQuantizeWeight c (gq_layout c = ''KN'')) qm)"
proof -
  obtain out where sh: "te_shape w = [out, ln_in l]" and out: "check_shape [out] [ln_out l]"
    using w by (cases "te_shape w" rule: list.exhaust; cases "ln_out l")
      (auto simp: check_shape_def length_Suc_conv split: if_splits)
  obtain q0 s0 where q0: "quantize_te tt c fl w (- 1) False = Inr (q0, s0)"
    "te_shape q0 = [out, gq_storages c * ceildiv (ln_in l) (gq_group_size c)]"
    "te_shape s0 = [out, ceildiv (ln_in l) (gq_group_size c)]"
    "quantize_te tt c fl w (- 1) True = Inr (te_transpose q0, te_transpose s0)"
    by (rule quantized_matrix [OF ok sh])
  note sel = group_from_linear_sel [OF l]
  have "\<exists>shapes. quantized_shapes tt fl (GroupQuantizeWeight c (gq_layout c = ''KN'')) w = Inr shapes \<and>
      list_all2 check_shape shapes (map pm_shape (quant_params (QLinear q)))"
    using out by (cases "gq_layout c = ''KN''"; cases "ln_out l")
      (simp_all add: quantized_shapes_def q0 sel Let_def check_shape_def split: if_splits)
  then show ?thesis unfolding params_fit_def map_weight_lookup by blast
qed

lemma embedding_params_fit:
  assumes ok: "group_ok tt c bits" and w: "check_shape (te_shape w) [em_num e, DInt (em_dim e)]"
  shows "params_fit tt fl name w (QEmbedding (group_from_embedding e c)) (map_weight name (GroupQuantizeWeight c False) qm)"
proof -
  obtain num where sh: "te_shape w = [num, em_dim e]" and num: "check_shape [num] [em_num e]"
    using w by (cases "te_shape w" rule: list.exhaust; cases "em_num e")
      (auto simp: check_shape_def length_Suc_conv split: if_splits)
  obtain q0 s0 where q0: "quantize_te tt c fl w (- 1) False = Inr (q0, s0)"
    "te_shape q0 = [num, gq_storages c * ceildiv (em_dim e) (gq_group_size c)]"
    "te_shape s0 = [num, ceildiv (em_dim e) (gq_group_size c)]"
    "quantize_te tt c fl w (- 1) True = Inr (te_transpose q0, te_transpose s0)"
    by (rule quantized_matrix [OF ok sh])
  have "\<exists>shapes. quantized_shapes tt fl (GroupQuantizeWeight c False) w = Inr shapes \<and>
      list_all2 check_shape shapes (map pm_shape (quant_params (QEmbedding (group_from_embedding e c))))"
    using num by (cases "em_num e")
      (simp_all add: quantized_shapes_def q0 group_from_embedding_def new_param_def Let_def check_shape_def split: if_splits)
  then show ?thesis unfolding params_fit_def map_weight_lookup by blast
qed

lemma group_from_experts_sel:
  assumes "group_from_experts x c = Inr q"
  shows "pm_shape (qx_q_weight q) = [DInt (ex_num x), DInt (ex_out x), DInt (gq_storages c * ceildiv (ex_in x) (gq_group_size c))]"
    "pm_shape (qx_q_scale q) = [DInt (ex_num x), DInt (ex_out x), DInt (ceildiv (ex_in x) (gq_group_size c))]"
proof -
  have shard: "pm_shape p' = pm_shape p" if "apply_sharding sh n p = Inr p'" for sh n p p'
    using that by (cases sh) auto
  show "pm_shape (qx_q_weight q) = [DInt (ex_num x), DInt (ex_out x), DInt (gq_storages c * ceildiv (ex_in x) (gq_group_size c))]"
    "pm_shape (qx_q_scale q) = [DInt (ex_num x), DInt (ex_out x), DInt (ceildiv (ex_in x) (gq_group_size c))]"
    using assms
    by (auto simp: group_from_experts_def new_param_def Let_def res_bind_eq_Inr dest!: shard split: option.splits if_splits)
qed

lemma experts_params_fit:
  assumes ok: "group_ok tt c bits" and x: "group_from_experts x c = Inr q"
    and w: "check_shape (te_shape w) [DInt (ex_num x), DInt (ex_out x), DInt (ex_in x)]"
  shows "params_fit tt fl name w (QExperts q) (map_weight name (GroupQuantizeWeight c False) qm)"
proof -
  have bits: "quant_bits tt c = Inr bits" using ok by (simp add: group_ok_def)
  have sh: "te_shape w = [ex_num x, ex_out x, ex_in x]"
    using w by (cases "te_shape w" rule: list.exhaust)
      (auto simp: check_shape_def length_Suc_conv numeral_3_eq_3 split: if_splits)
  have "\<exists>shapes. quantized_shapes tt fl (GroupQuantizeWeight c False) w = Inr shapes \<and>
      list_all2 check_shape shapes (map pm_shape (quant_params (QExperts q)))"
    by (simp add: quantized_shapes_def quantize_te_plain [OF bits] sh norm_axis_last idx_set_triple
        group_from_experts_sel [OF x] check_shape_def)
  then show ?thesis unfolding params_fit_def map_weight_lookup by blast
qed

lemma group_visit_fits:
  assumes ok: "group_ok tt c bits" and keep: "keeps_leaves visit"
    and dims: "module_weight (nd_module node) = Some dims" and w: "check_shape (te_shape w) dims"
    and v: "group_visit_module visit c name node qm = Inr (m, qm')"
  shows "m = Unquantized node \<and> qm' = qm \<or> params_fit tt fl name w m qm'"
proof -
  have leaf: "visit name node qm = Inr (Unquantized node, qm)"
    using keep dims by (simp add: keeps_leaves_def)
  show ?thesis
  proof (cases "nd_module node")
    case (NLinear l)
    then show ?thesis using v leaf dims w
      by (auto intro: linear_params_fit [OF ok] simp: group_visit_module_def res_bind_eq_Inr split: if_splits)
  next
    case (NEmbedding e)
    then show ?thesis using v leaf dims w
      by (auto intro: embedding_params_fit [OF ok] simp: group_visit_module_def split: if_splits)
  next
    case (NExperts x)
    then show ?thesis using v leaf dims w
      by (auto intro: experts_params_fit [OF ok] simp: group_visit_module_def res_bind_eq_Inr split: if_splits)
  next
    case (NOther o)
    then show ?thesis using dims by simp
  qed
qed

subsection \<open>Presets\<close>

lemmas preset_simps = quant_preset_ok_def packable_def res_inj_def res_assert_def group_ok_def quant_bits_def Let_def
  GroupQuantize_def group_post_init_def AWQQuantize_def awq_post_init_def FTQuantize_def ft_post_init_def
  PerTensorQuantize_def per_tensor_post_init_def BlockScaleQuantize_def NoQuantize_def

lemma block_scale_default_fails: "BlockScaleQuantize_default tt name = Inl (AssertionError ''kind'')"
  by (simp add: BlockScaleQuantize_default_def BlockScaleQuantize_def res_assert_def)

lemma awq_order:
  assumes "bits \<in> {3, 4, 8 :: nat}"
  shows "bij_betw ft_position {..<32 div bits} {..<32 div bits} \<longleftrightarrow> bits = 4"
proof -
  have "ft_position ` {..<8} = {..<8}"
    by (simp add: lessThan_nat_numeral lessThan_Suc ft_position_def insert_commute) (simp add: numeral_2_eq_2)
  then have "bij_betw ft_position {..<8} {..<8}" by (simp add: bij_betw_def eq_card_imp_inj_on)
  moreover have "\<not> bij_betw ft_position {..<4} {..<4}"
  proof
    assume "bij_betw ft_position {..<4} {..<4}"
    then have "ft_position 1 \<in> {..<4}" by (auto simp: bij_betw_def)
    then show False by (simp add: ft_position_def)
  qed
  moreover have "\<not> bij_betw ft_position {..<10} {..<10}"
  proof
    assume "bij_betw ft_position {..<10} {..<10}"
    then have "inj_on ft_position {..<10}" by (rule bij_betw_imp_inj_on)
    then have "(1::nat) = 8" by (rule inj_onD) (simp_all add: ft_position_def)
    then show False by simp
  qed
  ultimately show ?thesis using assms by auto
qed

lemma keep_visit_leaves: "keeps_leaves keep_visit"
  by (simp add: keeps_leaves_def keep_visit_def)

subsection \<open>FasterTransformer\<close>

lemma ft_post_init_sel:
  assumes "ft_post_init tt c0 = Inr c"
  shows "fq_quantize_dtype c = fq_quantize_dtype c0" "fq_quantize_dtype c = ''int4'' \<or> fq_quantize_dtype c = ''int8''"
    "\<exists>d. tt_dtype tt (fq_quantize_dtype c) = Inr d \<and> fq_max_int c = 2 ^ (snd d - 1) - 1"
  using assms
  by (auto simp: ft_post_init_def res_bind_eq_Inr res_assert_def Let_def split: if_splits)

lemma ft_quantize_te_shapes:
  assumes "tt_dtype tt (fq_quantize_dtype c) = Inr d" "te_shape w = [n, k]"
  obtains q s where "ft_quantize_te tt c fl w = Inr (q, s)" "te_shape q = [k, ceildiv n (fq_elems c)]"
    "te_shape s = [ceildiv k (cur_group_size c k), n]"
  using assms by (simp add: ft_quantize_te_def res_assert_def ft_scale_def ft_max_abs_def Let_def)

lemma ft_linear_params_fit:
  assumes d: "tt_dtype tt (fq_quantize_dtype c) = Inr d" and out: "ln_out l = DInt out"
    and w: "check_shape (te_shape w) [ln_out l, DInt (ln_in l)]"
  shows "params_fit tt fl name w (QLinear (ft_from_linear l out c)) (map_weight name (FTQuantizeWeight c) qm)"
proof -
  have sh: "te_shape w = [out, ln_in l]"
    using w out by (cases "te_shape w" rule: list.exhaust)
      (auto simp: check_shape_def length_Suc_conv split: if_splits)
  have sel: "ql_q_weight (copy_bias_attrs b q) = ql_q_weight q" "ql_q_scale (copy_bias_attrs b q) = ql_q_scale q" for b q
    by (auto simp: copy_bias_attrs_def split: option.splits)
  obtain q s where "ft_quantize_te tt c fl w = Inr (q, s)" "te_shape q = [ln_in l, ceildiv out (fq_elems c)]"
    "te_shape s = [ceildiv (ln_in l) (cur_group_size c (ln_in l)), out]"
    by (rule ft_quantize_te_shapes [OF d sh])
  then have "\<exists>shapes. quantized_shapes tt fl (FTQuantizeWeight c) w = Inr shapes \<and>
      list_all2 check_shape shapes (map pm_shape (quant_params (QLinear (ft_from_linear l out c))))"
    by (simp add: quantized_shapes_def ft_from_linear_def sel FTQuantizeLinear_def new_param_def Let_def check_shape_def)
  then show ?thesis unfolding params_fit_def map_weight_lookup by blast
qed

lemma fallback_ok:
  assumes "fallback_group_quantize tt c = Inr g" "documented_dtypes tt"
    "fq_quantize_dtype c = ''int4'' \<or> fq_quantize_dtype c = ''int8''"
  obtains bits where "group_ok tt g bits" "gq_layout g = ''NK''"
proof -
  obtain bits where b: "tt_dtype tt (fq_quantize_dtype c) = Inr (TInt, bits)" "2 \<le> bits"
    using assms(3) dtype_lookup [OF assms(2)] by fastforce
  show ?thesis
    using that GroupQuantize_ok(1,2) [OF assms(1) [unfolded fallback_group_quantize_def] b dtype_lookup(4) [OF assms(2)]]
    by simp
qed

text \<open>
  What the quantization map needs for a leaf: either nothing was recorded, or the recorded function
  gives the parameters of the new module.
\<close>

lemma ft_visit_fits:
  assumes c: "ft_post_init tt c0 = Inr c" and tt: "documented_dtypes tt" and keep: "keeps_leaves visit"
    and dims: "module_weight (nd_module node) = Some dims" and w: "check_shape (te_shape w) dims"
    and gate: "\<And>l. nd_module node = NLinear l \<Longrightarrow> \<not> is_moe_gate name l"
    and v: "ft_visit_module visit tt c name node qm = Inr (m, qm')"
  shows "m = Unquantized node \<and> qm' = qm \<or> params_fit tt fl name w m qm'"
proof -
  note sel = ft_post_init_sel [OF c]
  obtain d where d: "tt_dtype tt (fq_quantize_dtype c) = Inr d" using sel(3) by blast
  have leaf: "visit name node qm = Inr (Unquantized node, qm)"
    using keep dims by (simp add: keeps_leaves_def)
  show ?thesis
  proof (cases "nd_module node")
    case (NLinear l)
    have g: "\<not> is_moe_gate name l" by (rule gate [OF NLinear])
    have w': "check_shape (te_shape w) [ln_out l, DInt (ln_in l)]" using dims w NLinear by simp
    obtain fb where fb: "ft_falls_back c name l = Inr fb"
      using v NLinear by (auto simp: ft_visit_module_def res_bind_eq_Inr)
    show ?thesis
    proof (cases fb)
      case True
      then obtain gq q where gq: "fallback_group_quantize tt c = Inr gq" and q: "group_from_linear l gq = Inr q"
        and m: "m = QLinear q" "qm' = map_weight name (GroupQuantizeWeight gq False) qm"
        using v NLinear fb by (auto simp: ft_visit_module_def res_bind_eq_Inr)
      obtain bits where ok: "group_ok tt gq bits" "gq_layout gq = ''NK''"
        by (rule fallback_ok [OF gq tt sel(2)])
      show ?thesis using linear_params_fit [OF ok(1) q w', of fl name qm] ok(2) m by simp
    next
      case False
      have m: "m = QLinear (ft_from_linear l (dim_or (ln_out l) 0) c)" "qm' = map_weight name (FTQuantizeWeight c) qm"
        using v NLinear fb False g by (auto simp: ft_visit_module_def)
      obtain out where out: "ln_out l = DInt out"
        using fb False sel(2) by (cases "ln_out l") (auto simp: ft_falls_back_def split: if_splits)
      show ?thesis using ft_linear_params_fit [OF d out w', of fl name qm] m out by (simp add: dim_or_def)
    qed
  next
    case (NEmbedding e)
    then obtain gq where gq: "fallback_group_quantize tt c = Inr gq"
      and m: "m = QEmbedding (group_from_embedding e gq)" "qm' = map_weight name (GroupQuantizeWeight gq False) qm"
      using v by (auto simp: ft_visit_module_def res_bind_eq_Inr)
    obtain bits where ok: "group_ok tt gq bits" "gq_layout gq = ''NK''"
      by (rule fallback_ok [OF gq tt sel(2)])
    have "check_shape (te_shape w) [em_num e, DInt (em_dim e)]" using dims w NEmbedding by simp
    from embedding_params_fit [OF ok(1) this] show ?thesis using m by simp
  next
    case (NExperts x)
    then show ?thesis using v leaf by (simp add: ft_visit_module_def)
  next
    case (NOther o)
    then show ?thesis using dims by simp
  qed
qed

lemma map_of_run: "map_of (map (\<lambda>(k, f). (k, run f)) d) key = map_option run (map_of d key)"
  by (induction d) auto

lemma signed_field:
  assumes "- (2 ^ b) \<le> v" "v < 2 ^ b" "b < 8"
  shows "sint (signed_take_bit b (take_bit (Suc b) (of_int v :: 8 word))) = v"
proof -
  have st: "signed_take_bit b v = v" using assms(1,2) by (simp add: signed_take_bit_int_eq_self)
  have "signed_take_bit b (take_bit (Suc b) (of_int v :: 8 word)) = (of_int (signed_take_bit b v) :: 8 word)"
    using assms(3) by (intro bit_word_eqI) (auto simp: bit_simps min_def)
  then have "sint (signed_take_bit b (take_bit (Suc b) (of_int v :: 8 word))) = signed_take_bit 7 (signed_take_bit b v)"
    by (simp add: sint_sbintrunc')
  also have "\<dots> = v"
  proof -
    have "(2::int) ^ b \<le> 2 ^ 7" using assms(3) by (intro power_increasing) auto
    then show ?thesis using assms st by (simp add: signed_take_bit_int_eq_self)
  qed
  finally show ?thesis .
qed

lemma ft_fields:
  assumes "ft_quantize_te tt c fl w = Inr (q, s)" "tt_dtype tt (fq_quantize_dtype c) = Inr (code, bits)"
    "0 < fq_elems c" "fq_elems c * bits \<le> 8" "0 < bits" "i < te_shape w ! 0"
  shows "drop_bit (i mod fq_elems c * bits) (te_at q [j, i div fq_elems c]) AND mask bits
         = te_at (ft_scaled_weight c bits fl w) [i, j]"
    and "s = ft_scale c fl w"
proof -
  let ?e = "fq_elems c" and ?n = "te_shape w ! 0"
  let ?f = "\<lambda>r. if i div ?e * ?e + r < ?n then te_at (ft_scaled_weight c bits fl w) [i div ?e * ?e + r, j] else 0"
  have fits: "fields_fit bits ?e ?f"
    by (auto simp: fields_fit_def ft_scaled_weight_def take_bit_eq_mask and.assoc)
  have q: "te_at q [j, i div ?e] = sum_list (map (\<lambda>r. push_bit (r * bits) (?f r)) [0..<?e])"
    using assms(1,2)
    by (auto simp: ft_quantize_te_def res_bind_eq_Inr res_assert_def Let_def if_distrib cong: if_cong split: if_splits)
  have "drop_bit (i mod ?e * bits) (te_at q [j, i div ?e]) AND mask bits = ?f (i mod ?e)"
    unfolding q using assms by (intro packed_field [OF fits]) simp_all
  then show "drop_bit (i mod ?e * bits) (te_at q [j, i div ?e]) AND mask bits
      = te_at (ft_scaled_weight c bits fl w) [i, j]"
    using assms(6) by simp
  show "s = ft_scale c fl w"
    using assms(1,2) by (auto simp: ft_quantize_te_def res_bind_eq_Inr Let_def)
qed

lemma clamp_near:
  fixes k :: rat
  assumes "\<bar>k - y\<bar> \<le> 1 / 2" "\<bar>y - a\<bar> \<le> e" "\<bar>a\<bar> \<le> D" "M = D - e" "0 \<le> e" "0 \<le> M"
  shows "\<bar>min (max k (- M - 1)) M - a\<bar> \<le> 1 / 2 + 4 * e"
  using assms unfolding min_def max_def by (simp only: split: if_split) linarith

context rounded_float
begin

lemma ft_scale_at:
  assumes idx: "valid_idx (te_shape w) [i, j]" and g: "g = cur_group_size c (te_shape w ! 1)" "0 < g"
    and M: "0 < fq_max_int c" "fq_max_int c < 128"
    and m: "m = Max (group_abs g w 1 [i, j])" "2 * m \<le> omega"
  shows "te_at (ft_scale c fl w) [j div g, i] = rnd (m / of_nat (fq_max_int c))"
proof -
  have len: "1 < length (te_shape w)" using idx by (auto simp: valid_idx_def list_all2_conv_all_nth)
  have at: "te_at (ft_max_abs c fl w) [j div g, i] = m"
    unfolding m(1) group_max_fold [OF idx len g(2), symmetric]
    by (simp add: ft_max_abs_def Let_def g(1) [symmetric] idx_set_pair cong: if_cong del: One_nat_def)
  have "\<bar>te_at w [i, j]\<bar> \<le> m" unfolding m(1) by (intro Max_ge group_abs_self idx len) simp
  then have m0: "0 \<le> m" by (meson abs_ge_zero order_trans)
  have "m / of_nat (fq_max_int c) \<le> m / 1" using m0 M by (intro divide_left_mono) auto
  then have "\<bar>m / of_nat (fq_max_int c)\<bar> \<le> omega" using m0 m(2) by simp
  then show ?thesis using M by (simp add: ft_scale_def const div at)
qed

lemma ft_scaled_at:
  assumes idx: "valid_idx (te_shape w) [i, j]" and g: "g = cur_group_size c (te_shape w ! 1)" "0 < g"
    and M: "0 < fq_max_int c" "fq_max_int c < 128"
    and m: "m = Max (group_abs g w 1 [i, j])" "0 < m" "scale_fair u eta omega (fq_max_int c) m"
    and s: "s = rnd (m / of_nat (fq_max_int c))"
  obtains v where "- int (fq_max_int c) - 1 \<le> v" "v \<le> int (fq_max_int c)"
    "te_at (ft_scaled_weight c bits fl w) [i, j] = of_int v AND mask bits"
    "\<bar>of_int v * s - te_at w [i, j]\<bar> \<le> m / (2 * of_nat (fq_max_int c)) + 6 * u * m"
proof -
  let ?M = "of_nat (fq_max_int c) :: rat" and ?x = "te_at w [i, j]" and ?n = "int (fq_max_int c)"
  have len: "1 < length (te_shape w)" using idx by (auto simp: valid_idx_def list_all2_conv_all_nth)
  have M': "1 \<le> ?M" "?M \<le> 127" using M by simp_all
  have fair: "2 * m \<le> omega" "eta * ?M \<le> u * m" using m(2,3) by (auto simp: scale_fair_def)
  note sb = scale_bounds [OF M'(1) m(2) fair, folded s]
  have "\<bar>?x\<bar> \<le> m" unfolding m(1) by (intro Max_ge group_abs_self idx len) simp
  then have a: "\<bar>?x / s\<bar> \<le> ?M / (1 - u)" by (rule scaled_bound [OF sb(3,1)])
  note rs = rnd_scaled [OF M' a]
  obtain k where k: "tf_round fl (rnd (?x / s)) = of_int k" "\<bar>of_int k - rnd (?x / s)\<bar> \<le> 1 / 2"
    using round by blast
  define v where "v = min (max k (- ?n - 1)) ?n"
  have v: "of_int v = min (max (of_int k) (- ?M - 1)) ?M" by (simp add: v_def of_int_min of_int_max)
  have "rnd (- ?M - 1) = - ?M - 1" using rnd_int [of "- ?n - 1"] M(2) by simp
  then have lo: "tf_sub fl (- ?M) 1 = - ?M - 1" using M' range by (simp add: sub)
  have om: "\<bar>?x / s\<bar> \<le> omega" using rs(2) range by linarith
  have v8: "tf_to_int8 fl (min (max (of_int k) (- ?M - 1)) ?M) = of_int v"
    unfolding v [symmetric] using M by (intro to_int8) (auto simp: v_def)
  have "te_at (ft_scaled_weight c bits fl w) [i, j] = of_int v AND mask bits"
    using M sb(3)
    by (simp add: ft_scaled_weight_def g(1) [symmetric] ft_scale_at [OF idx g M m(1) fair(1), folded s] const lo neg
        div [OF _ om] max min k(1) v8 del: One_nat_def)
  moreover have "\<bar>of_int v * s - ?x\<bar> \<le> m / (2 * ?M) + 6 * u * m"
  proof -
    have "\<bar>of_int v - ?x / s\<bar> \<le> 1 / 2 + 4 * (u * (?M / (1 - u)))"
      unfolding v by (rule clamp_near [OF k(2) rs(1) a rs(3,4)]) simp
    then have "s * \<bar>of_int v - ?x / s\<bar> \<le> s * (1 / 2 + 4 * u * (?M / (1 - u)))"
      using sb(3) by (intro mult_left_mono) (simp_all add: ac_simps)
    moreover have "of_int v * s - ?x = s * (of_int v - ?x / s)" using sb(3) by (simp add: field_simps)
    ultimately have "\<bar>of_int v * s - ?x\<bar> \<le> s * (1 / 2 + 4 * u * (?M / (1 - u)))"
      using sb(3) by (simp add: abs_mult)
    moreover have "0 \<le> u * ((1 + u) * m)" using unit m(2) by simp
    ultimately show ?thesis using total_error [OF M'(1) m(2) sb(3,2)] by linarith
  qed
  moreover have "- ?n - 1 \<le> v" "v \<le> ?n" by (auto simp: v_def)
  ultimately show ?thesis using that by blast
qed

lemma ft_quantize_error:
  assumes q: "ft_quantize_te tt c fl w = Inr (q, s)" and d: "tt_dtype tt (fq_quantize_dtype c) = Inr (code, Suc b)"
    and e: "0 < fq_elems c" "fq_elems c * Suc b \<le> 8" and b: "0 < b" and M: "fq_max_int c = 2 ^ b - 1"
    and idx: "valid_idx (te_shape w) [i, j]" and g: "g = cur_group_size c (te_shape w ! 1)" "0 < g"
    and m: "m = Max (group_abs g w 1 [i, j])" "scale_fair u eta omega (fq_max_int c) m"
  shows "\<bar>of_int (sint (signed_take_bit b (drop_bit (i mod fq_elems c * Suc b) (te_at q [j, i div fq_elems c]) AND mask (Suc b))))
            * te_at s [j div g, i] - te_at w [i, j]\<bar>
         \<le> m / (2 * of_nat (fq_max_int c)) + 6 * u * m"
proof -
  have sh: "i < te_shape w ! 0" "1 < length (te_shape w)"
    using idx by (auto simp: valid_idx_def list_all2_conv_all_nth)
  note f = ft_fields(1) [OF q d e zero_less_Suc sh(1), of j] ft_fields(2) [OF q d e zero_less_Suc sh(1)]
  have "1 * Suc b \<le> fq_elems c * Suc b" using e(1) by (intro mult_le_mono1) simp
  then have "1 * Suc b \<le> 8" using e(2) by (rule order_trans)
  then have b8: "b < 8" by simp
  have "(2::nat) ^ 1 \<le> 2 ^ b" using b by (intro power_increasing) auto
  then have m0: "0 < fq_max_int c" using M by simp
  have "(2::nat) ^ b \<le> 2 ^ 7" using b8 by (intro power_increasing) auto
  then have m1: "fq_max_int c < 128" using M by simp
  have fair: "2 * m \<le> omega" using m(2) by (simp add: scale_fair_def)
  have s: "te_at s [j div g, i] = rnd (m / of_nat (fq_max_int c))"
    using f(2) ft_scale_at [OF idx g m0 m1 m(1) fair] by simp
  have le: "\<bar>te_at w [i, j]\<bar> \<le> m" unfolding m(1) by (intro Max_ge group_abs_self idx sh(2)) simp
  show ?thesis
  proof (cases "m = 0")
    case True
    then show ?thesis using le s by simp
  next
    case False
    then have pos: "0 < m" using le by linarith
    obtain v where v: "- int (fq_max_int c) - 1 \<le> v" "v \<le> int (fq_max_int c)"
      and sw: "te_at (ft_scaled_weight c (Suc b) fl w) [i, j] = of_int v AND mask (Suc b)"
      and err: "\<bar>of_int v * rnd (m / of_nat (fq_max_int c)) - te_at w [i, j]\<bar>
        \<le> m / (2 * of_nat (fq_max_int c)) + 6 * u * m"
      by (rule ft_scaled_at [OF idx g m0 m1 m(1) pos m(2) refl])
    have "int (fq_max_int c) = 2 ^ b - 1" unfolding M by (simp add: of_nat_diff)
    then have "- (2 ^ b) \<le> v" "v < 2 ^ b" using v by linarith+
    from signed_field [OF this b8]
    have "sint (signed_take_bit b (drop_bit (i mod fq_elems c * Suc b) (te_at q [j, i div fq_elems c]) AND mask (Suc b))) = v"
      using f(1) sw by (simp add: take_bit_eq_mask)
    then show ?thesis using err s by simp
  qed
qed

end

section \<open>Properties\<close>

text \<open>
  Every preset of the registry builds without an error under its own name, no two presets share a name,
  and the numbers derived from the data types are those the packing needs: the fields fit the storage
  unit, a group is a whole number of storage units and the clamped values fit a field.
\<close>

theorem quantization_presets:
  assumes "documented_dtypes tt"
  shows "list_all (quant_preset_ok tt) (QUANTIZATION tt) \<and> distinct (map fst (QUANTIZATION tt))"
proof
  show "list_all (quant_preset_ok tt) (QUANTIZATION tt)"
    unfolding QUANTIZATION_def list.pred_inject
    by (intro conjI; simp add: preset_simps dtype_lookup [OF assms])
  show "distinct (map fst (QUANTIZATION tt))"
    by (simp add: QUANTIZATION_def)
qed

theorem quantization_presets_witness:
  "documented_dtypes sample_types \<and> list_all (quant_preset_ok sample_types) (QUANTIZATION sample_types)"
  using quantization_presets [OF sample_types_documented] sample_types_documented by blast

text \<open>
  C31: group quantization of a linear layer, an embedding or a set of experts either leaves the module and
  the quantization map alone, or maps its weight to the two parameters of the new module with a function
  whose results, on any weight of the module's shape, have the shapes of these parameters.
\<close>

theorem group_params_fit:
  assumes "GroupQuantize tt qname kind g qd sd md layout e f = Inr c" "0 < g"
    and "tt_dtype tt qd = Inr (TInt, bits)" "2 \<le> bits" "tt_dtype tt sd = Inr (TUInt, 32)"
    and "keeps_leaves visit" "module_weight (nd_module node) = Some dims" "check_shape (te_shape w) dims"
    and "group_visit_module visit c name node qm = Inr (m, qm')"
  shows "m = Unquantized node \<and> qm' = qm \<or> params_fit tt fl name w m qm'"
  by (rule group_visit_fits [OF GroupQuantize_ok(1) [OF assms(1,3,4,5,2)] assms(6-9)])

theorem group_params_fit_witness:
  "\<exists>m qm. group_visit_module keep_visit sample_group ''h'' (sample_node (DInt 2)) empty_map = Inr (m, qm) \<and>
     (m = Unquantized (sample_node (DInt 2)) \<and> qm = empty_map \<or>
      params_fit sample_types tir_float16 ''h'' sample_matrix m qm)"
proof -
  have int4: "tt_dtype sample_types ''int4'' = Inr (TInt, 4)" and uint32: "tt_dtype sample_types ''uint32'' = Inr (TUInt, 32)"
    using dtype_lookup [OF sample_types_documented] by blast+
  obtain m qm where v: "group_visit_module keep_visit sample_group ''h'' (sample_node (DInt 2)) empty_map = Inr (m, qm)"
    by (simp add: group_visit_module_def sample_node_def sample_linear_def sample_group_def is_final_fc_def is_moe_gate_def
        suffix_to_prefix group_from_linear_def GroupQuantizeLinear_def Let_def)
  have "m = Unquantized (sample_node (DInt 2)) \<and> qm = empty_map \<or>
      params_fit sample_types tir_float16 ''h'' sample_matrix m qm"
    by (rule group_params_fit [OF sample_group_built _ int4 _ uint32 keep_visit_leaves _ _ v, where dims = "[DInt 2, DInt 40]"])
      (simp_all add: sample_node_def sample_linear_def sample_matrix_def check_shape_def)
  then show ?thesis using v by blast
qed

text \<open>
  C34: how the weight of a mixture-of-experts gate loads after FasterTransformer quantization. A gate that
  falls back to group quantization, because its output type is float32 or its number of experts is not a
  multiple of eight for int4 or of four for int8, as with the 60 experts of the Qwen2-MoE preset for int4
  or the gates of DeepSeek-V2, is quantized by the group quantization; on any other gate the loader raises
  a \<open>KeyError\<close>, since the new parameter names are recorded for it but neither a function nor a new
  module.
\<close>

theorem ft_gate_loading:
  assumes "keeps_leaves visit" "nd_module node = NLinear l" "is_moe_gate name l" "ln_out l = DInt experts"
    and "map_of (qp_map_func qm) (name @ ''.weight'') = None"
    and "ft_visit_module visit tt c name node qm = Inr (m, qm')"
  shows "let r = load_or_quantize (Some (loader_map run qm')) (name @ ''.weight'') param
    in if ln_out_dtype l = Some ''float32'' \<or> fq_quantize_dtype c = ''int4'' \<and> experts mod 8 \<noteq> 0
          \<or> fq_quantize_dtype c = ''int8'' \<and> experts mod 4 \<noteq> 0
       then \<exists>g. fallback_group_quantize tt c = Inr g \<and> r = res_bind (run (GroupQuantizeWeight g False) param)
              (\<lambda>ps. Inr (zip [name @ ''.q_weight'', name @ ''.q_scale''] ps))
       else m = Unquantized node \<and> r = Inl (KeyError (name @ ''.weight''))"
proof -
  have "\<not> is_final_fc name" using assms(3) by (auto simp: is_moe_gate_def is_final_fc_def suffix_to_prefix)
  then have fb: "ft_falls_back c name l = Inr (ln_out_dtype l = Some ''float32'' \<or> ft_misaligned c experts)"
    using assms(4) by (simp add: ft_falls_back_def)
  show ?thesis
  proof (cases "ln_out_dtype l = Some ''float32'' \<or> ft_misaligned c experts")
    case True
    then obtain g where "fallback_group_quantize tt c = Inr g" "qm' = map_weight name (GroupQuantizeWeight g False) qm"
      using assms(2,6) fb by (auto simp: ft_visit_module_def res_bind_eq_Inr)
    with True show ?thesis
      by (auto simp: Let_def ft_misaligned_def load_or_quantize_def loader_map_def map_weight_def dict_set_lookup dict_get_def map_of_run)
  next
    case False
    then have "m = Unquantized node" "qm' = map_names name qm"
      using assms(1,2,3,6) fb by (auto simp: ft_visit_module_def keeps_leaves_def)
    with False assms(5) show ?thesis
      by (auto simp: Let_def ft_misaligned_def load_or_quantize_def loader_map_def map_names_def dict_set_lookup dict_get_def map_of_run)
  qed
qed

theorem ft_gate_loading_witness:
  "\<exists>qm'. ft_visit_module keep_visit sample_types sample_ft ''mlp.gate'' (sample_node (DInt 8)) empty_map
      = Inr (Unquantized (sample_node (DInt 8)), qm') \<and>
    load_or_quantize (Some (loader_map (\<lambda>f t. Inr [t]) qm')) ''mlp.gate.weight'' (sample_tensor 0)
      = Inl (KeyError ''mlp.gate.weight'')"
proof -
  have v: "ft_visit_module keep_visit sample_types sample_ft ''mlp.gate'' (sample_node (DInt 8)) empty_map
      = Inr (Unquantized (sample_node (DInt 8)), map_names ''mlp.gate'' empty_map)"
    by (simp add: ft_visit_module_def sample_node_def sample_linear_def sample_ft_def is_moe_gate_def ft_falls_back_def
        is_final_fc_def ft_misaligned_def suffix_to_prefix keep_visit_def)
  from ft_gate_loading [OF keep_visit_leaves _ _ _ _ v, of "sample_linear\<lparr>ln_out := DInt 8\<rparr>" 8 "\<lambda>f t. Inr [t]" "sample_tensor 0"] v
  show ?thesis
    by (simp add: sample_node_def sample_linear_def sample_ft_def empty_map_def is_moe_gate_def suffix_to_prefix)
qed

text \<open>
  FasterTransformer quantization stores, in the field of an element, a signed integer whose product with
  the scale of the group differs from the weight by at most half a step and six times the unit roundoff
  relative to the largest value of the group, for any arithmetic of the standard model.
\<close>

theorem ft_error_bound:
  assumes "rounded_float fl rnd u eta omega" "ft_quantize_te tt c fl w = Inr (q, s)" "ft_post_init tt c0 = Inr c"
    and "documented_dtypes tt" "fq_quantize_dtype c = ''int4''" "fq_elems c = 2"
    and "valid_idx (te_shape w) [i, j]" "0 < cur_group_size c (te_shape w ! 1)"
    and "m = Max (group_abs (cur_group_size c (te_shape w ! 1)) w 1 [i, j])" "scale_fair u eta omega 7 m"
  shows "\<bar>of_int (sint (signed_take_bit 3 (drop_bit (i mod 2 * 4) (te_at q [j, i div 2]) AND mask 4)))
            * te_at s [j div cur_group_size c (te_shape w ! 1), i] - te_at w [i, j]\<bar> \<le> m / 14 + 6 * u * m"
proof -
  have d: "tt_dtype tt (fq_quantize_dtype c) = Inr (TInt, Suc 3)"
    using dtype_lookup(2) [OF assms(4)] assms(5) by simp
  have M: "fq_max_int c = 2 ^ 3 - 1" using ft_post_init_sel(3) [OF assms(3)] d by auto
  show ?thesis
    using rounded_float.ft_quantize_error [OF assms(1,2) d _ _ _ M assms(7) refl assms(8,9)] assms(6,10) M by simp
qed

end
