(* ===== verification/Model_Loaders.thy ===== *)
theory Model_Loaders
  imports Quant_Models
begin

text \<open>
  The parameter mappings of the model families (model/*/*\_loader.py). A loader is a program of a few
  statements, given as data, so that what holds of every such program is shown once and the loaders
  themselves read like their source. The theorems say that the values a loader gives have the types of
  the parameters, and which of the loaders for AWQ weights join the parts of a layer along the wrong axis.
\<close>

section \<open>Loader programs\<close>

text \<open>
  The functions of numpy that the loaders use beside \<open>concatenate\<close> and \<open>astype\<close>; \<open>nf_swap_last\<close> is
  \<open>transpose(0, 2, 1)\<close>, and a dimension of \<open>-1\<close> in a reshape is the one that numpy computes.
\<close>

record 'd numpy_fns = "'d numpy_ops" +
  nf_stack :: "nat \<Rightarrow> 'd tensor list \<Rightarrow> 'd tensor res"
  nf_transpose :: "'d tensor \<Rightarrow> 'd tensor"
  nf_swap_last :: "'d tensor \<Rightarrow> 'd tensor"
  nf_plus_one :: "'d tensor \<Rightarrow> 'd tensor"
  nf_exp_neg_exp :: "'d tensor \<Rightarrow> 'd tensor"
  nf_div :: "'d tensor \<Rightarrow> nat \<Rightarrow> 'd tensor"
  nf_reshape :: "int list \<Rightarrow> 'd tensor \<Rightarrow> 'd tensor res"
  nf_split :: "nat list \<Rightarrow> nat \<Rightarrow> 'd tensor \<Rightarrow> 'd tensor list res"
  nf_split_even :: "nat \<Rightarrow> nat \<Rightarrow> 'd tensor \<Rightarrow> 'd tensor list res"

text \<open>What a loader does with the source tensors of a parameter, before the cast to its type.\<close>

datatype map_op =
    Cast
  | Concat nat
  | PlusOne
  | Transpose
  | Stack
  | StackPairs
  | ExpNegExp
  | Rescale nat
  | SplitHeads nat nat
  | SplitGroups nat nat nat
  | SplitUK "nat list" nat
  | SplitUV "nat list" nat

fun concat_pairs :: "'d numpy_fns \<Rightarrow> 'd tensor list \<Rightarrow> 'd tensor list res" where
  "concat_pairs nd [] = Inr []"
| "concat_pairs nd [x] = Inl IndexError"
| "concat_pairs nd (x # y # ts) =
     res_bind (nd_concatenate nd 0 [x, y]) (\<lambda>t. res_bind (concat_pairs nd ts) (\<lambda>us. Inr (t # us)))"

definition split_heads :: "'d numpy_fns \<Rightarrow> nat \<Rightarrow> nat \<Rightarrow> 'd tensor \<Rightarrow> 'd tensor res" where
  "split_heads nd num_attention_heads head_dim w =
     res_bind (nf_reshape nd [int num_attention_heads, 3 * int head_dim, - 1] w) (\<lambda>w1.
     res_bind (nf_split_even nd 3 1 w1) (\<lambda>qkv.
     res_bind (nd_concatenate nd 0 qkv) (\<lambda>w2.
     nf_reshape nd (map int (t_shape w)) w2)))"

definition last_dim :: "'d tensor \<Rightarrow> int res" where
  "last_dim t = (if t_shape t = [] then Inl IndexError else Inr (int (last (t_shape t))))"

definition flatten_rows :: "'d numpy_fns \<Rightarrow> 'd tensor \<Rightarrow> 'd tensor res" where
  "flatten_rows nd t = res_bind (last_dim t) (\<lambda>d. nf_reshape nd [- 1, d] t)"

definition split_groups :: "'d numpy_fns \<Rightarrow> nat \<Rightarrow> nat \<Rightarrow> nat \<Rightarrow> 'd tensor \<Rightarrow> 'd tensor res" where
  "split_groups nd num_attention_heads num_key_value_heads hidden_size wqkv =
     (let kv_groups = num_attention_heads div num_key_value_heads;
          head_dim = hidden_size div num_attention_heads
      in res_bind (last_dim wqkv) (\<lambda>d.
         res_bind (nf_reshape nd [- 1, 2 + int kv_groups, int head_dim, d] wqkv) (\<lambda>w.
         res_bind (nf_split nd [kv_groups, kv_groups + 1] 1 w) (\<lambda>parts.
         res_bind (res_map (flatten_rows nd) parts) (\<lambda>flat.
         nd_concatenate nd 0 flat)))))"

text \<open>\<open>np.split(kv_b_proj.reshape(dims), [k], axis=1)[part]\<close>\<close>

definition split_kv :: "'d numpy_fns \<Rightarrow> nat list \<Rightarrow> nat \<Rightarrow> nat \<Rightarrow> 'd tensor \<Rightarrow> 'd tensor res" where
  "split_kv nd dims k part kv_b_proj =
     res_bind (nf_reshape nd (map int dims) kv_b_proj) (\<lambda>w.
     res_bind (nf_split nd [k] 1 w) (\<lambda>parts.
     if part < length parts then Inr (parts ! part) else Inl IndexError))"

fun one_arg :: "'d tensor list \<Rightarrow> 'd tensor res" where
  "one_arg [x] = Inr x"
| "one_arg _ = Inl (TypeError ''arguments'')"

fun run_op :: "'d numpy_fns \<Rightarrow> map_op \<Rightarrow> string \<Rightarrow> 'd tensor list \<Rightarrow> 'd tensor res" where
  "run_op nd Cast dtype ts = res_bind (one_arg ts) (\<lambda>x. Inr (nd_astype nd dtype x))"
| "run_op nd (Concat axis) dtype ts = res_bind (nd_concatenate nd axis ts) (\<lambda>x. Inr (nd_astype nd dtype x))"
| "run_op nd PlusOne dtype ts = res_bind (one_arg ts) (\<lambda>x. Inr (nd_astype nd dtype (nf_plus_one nd x)))"
| "run_op nd Transpose dtype ts = res_bind (one_arg ts) (\<lambda>x. Inr (nd_astype nd dtype (nf_transpose nd x)))"
| "run_op nd Stack dtype ts = res_bind (nf_stack nd 0 ts) (\<lambda>x. Inr (nd_astype nd dtype x))"
| "run_op nd StackPairs dtype ts =
     res_bind (concat_pairs nd ts) (\<lambda>us. res_bind (nf_stack nd 0 us) (\<lambda>x. Inr (nd_astype nd dtype x)))"
| "run_op nd ExpNegExp dtype ts = res_bind (one_arg ts) (\<lambda>x. Inr (nf_exp_neg_exp nd (nd_astype nd dtype x)))"
| "run_op nd (Rescale t) dtype ts = res_bind (one_arg ts) (\<lambda>x. Inr (nf_div nd (nd_astype nd dtype x) (2 ^ t)))"
| "run_op nd (SplitHeads heads head_dim) dtype ts =
     res_bind (one_arg ts) (\<lambda>x. res_bind (split_heads nd heads head_dim x) (\<lambda>y. Inr (nd_astype nd dtype y)))"
| "run_op nd (SplitGroups heads kv_heads hidden) dtype ts =
     res_bind (one_arg ts) (\<lambda>x. res_bind (split_groups nd heads kv_heads hidden x) (\<lambda>y. Inr (nd_astype nd dtype y)))"
| "run_op nd (SplitUK dims k) dtype ts =
     res_bind (one_arg ts) (\<lambda>x. res_bind (split_kv nd dims k 0 x) (\<lambda>y. Inr (nd_astype nd dtype (nf_swap_last nd y))))"
| "run_op nd (SplitUV dims k) dtype ts =
     res_bind (one_arg ts) (\<lambda>x. res_bind (split_kv nd dims k 1 x) (\<lambda>y. Inr (nd_astype nd dtype y)))"

text \<open>
  The statements of a loader: \<open>mlc_param = named_parameters[name]\<close>; \<open>mapping.add_mapping\<close> with a name,
  the sources, the operation and the parameter whose type it takes; \<open>mapping.add_unused\<close>; an assertion
  that a parameter exists; the test of a type; \<open>functools.reduce\<close> over one list per expert, which raises
  without experts; and an error.
\<close>

datatype loader_action =
    Lookup string
  | AddMapping string "string list" map_op string
  | AddUnused string
  | AssertParam string
  | RequireDtype string string
  | NonEmpty nat
  | RaiseValueError string

fun run_action ::
  "'d numpy_fns \<Rightarrow> (string \<times> string) list \<Rightarrow> 'd extern_mapping \<Rightarrow> loader_action \<Rightarrow> 'd extern_mapping res" where
  "run_action nd named m (Lookup name) = res_bind (dict_get named name) (\<lambda>_. Inr m)"
| "run_action nd named m (AddMapping name sources mop typed) =
     res_bind (dict_get named typed) (\<lambda>dtype. Inr (add_mapping name sources (run_op nd mop dtype) m))"
| "run_action nd named m (AddUnused name) = Inr (add_unused name m)"
| "run_action nd named m (AssertParam name) =
     res_bind (res_assert (name \<in> fst ` set named) []) (\<lambda>_. Inr m)"
| "run_action nd named m (RequireDtype name dtype) =
     res_bind (dict_get named name) (\<lambda>d.
     if d \<noteq> dtype then Inl (ValueError (''RWKV5 time_decay should be '' @ dtype @ '', got '' @ d)) else Inr m)"
| "run_action nd named m (NonEmpty n) =
     (if n = 0 then Inl (TypeError ''reduce() of empty iterable with no initial value'') else Inr m)"
| "run_action nd named m (RaiseValueError msg) = Inl (ValueError msg)"

text \<open>
  The loop over \<open>named_parameters.items()\<close>: from the name and the type of a parameter that is not yet
  mapped, its source and the type to cast to, or nothing when the loop skips it.
\<close>

type_synonym fallback = "string \<times> string \<Rightarrow> (string \<times> string) option res"

record loader_program =
  lp_actions :: "loader_action list"
  lp_fallback :: "fallback option"
  lp_after :: "loader_action list"

definition fallback_step ::
  "'d numpy_fns \<Rightarrow> fallback \<Rightarrow> 'd extern_mapping \<Rightarrow> string \<times> string \<Rightarrow> 'd extern_mapping res" where
  "fallback_step nd f m np =
     (if fst np \<in> fst ` set (em_param_map m) then Inr m
      else res_bind (f np) (\<lambda>r.
        case r of
          None \<Rightarrow> Inr m
        | Some (source, dtype) \<Rightarrow> Inr (add_mapping (fst np) [source] (run_op nd Cast dtype) m)))"

definition run_program ::
  "'d numpy_fns \<Rightarrow> (string \<times> string) list \<Rightarrow> loader_program \<Rightarrow> 'd extern_mapping res" where
  "run_program nd named p =
     res_bind (res_fold (run_action nd named) ExternMapping (lp_actions p)) (\<lambda>m.
     res_bind (case lp_fallback p of None \<Rightarrow> Inr m | Some f \<Rightarrow> res_fold (fallback_step nd f) m named) (\<lambda>m.
     res_fold (run_action nd named) m (lp_after p)))"

definition same_name :: fallback where
  "same_name = (\<lambda>(mlc_name, dtype). Inr (Some (mlc_name, dtype)))"

text \<open>\<open>mlc_name.split(".", 1)[1]\<close>\<close>

definition gpt2_fallback :: fallback where
  "gpt2_fallback = (\<lambda>(mlc_name, dtype).
     case dropWhile (\<lambda>c. c \<noteq> CHR ''.'') mlc_name of
       [] \<Rightarrow> Inl IndexError
     | _ # source_name \<Rightarrow> Inr (Some (source_name, dtype)))"

definition rwkv_fallback :: fallback where
  "rwkv_fallback = (\<lambda>(mlc_name, dtype). Inr (Some (py_replace mlc_name ''model'' ''rwkv'', dtype)))"

definition gemma3_fallback :: "string \<Rightarrow> fallback" where
  "gemma3_fallback hf_prefix = (\<lambda>(mlc_name, dtype).
     Inr (Some (hf_prefix @ drop (length ''language_model.'') mlc_name, dtype)))"

definition gpt_neox_fallback :: "string \<Rightarrow> fallback" where
  "gpt_neox_fallback ffn_out_dtype = (\<lambda>(mlc_name, dtype).
     Inr (Some (mlc_name,
       if sublist ''.dense_h_to_4h.bias'' mlc_name \<or> sublist ''.dense_4h_to_h.bias'' mlc_name
       then ffn_out_dtype else dtype)))"

definition minicpm_fallback :: "bool \<Rightarrow> fallback" where
  "minicpm_fallback tie_word_embeddings = (\<lambda>(mlc_name, dtype).
     if mlc_name = ''lm_head.weight'' \<and> tie_word_embeddings then Inr None else Inr (Some (mlc_name, dtype)))"

text \<open>
  The two forms in which a parameter is mapped: the look-up followed by \<open>add_mapping\<close>, and the function
  \<open>_add\<close> of some loaders.
\<close>

definition map_param :: "string \<Rightarrow> string list \<Rightarrow> map_op \<Rightarrow> loader_action list" where
  "map_param mlc_name sources mop = [Lookup mlc_name, AddMapping mlc_name sources mop mlc_name]"

definition add_cast :: "string \<Rightarrow> string \<Rightarrow> loader_action list" where
  "add_cast mlc_name hf_name = [AddMapping mlc_name [hf_name] Cast mlc_name]"

section \<open>The loaders\<close>

text \<open>
  \<open>named_parameters\<close> is what the model exports; \<open>present\<close> tells whether it has a name, where a loader asks.
  The numbers are those of the model's configuration, in which \<open>moe_layer_freq\<close> is positive.
\<close>

definition baichuan_layer :: "nat \<Rightarrow> loader_action list" where
  "baichuan_layer i =
     (let mlp = ''model.layers.'' @ str_of_nat i @ ''.mlp''
      in
       map_param (mlp @ ''.gate_up_proj.weight'') [mlp @ ''.gate_proj.weight'', mlp @
         ''.up_proj.weight''] (Concat 0))"

definition baichuan_loader :: "nat \<Rightarrow> loader_program" where
  "baichuan_loader num_hidden_layers =
     \<lparr>lp_actions =
         concat (map baichuan_layer [0..<num_hidden_layers]),
      lp_fallback = Some same_name, lp_after = []\<rparr>"

definition bert_layer :: "nat \<Rightarrow> loader_action list" where
  "bert_layer i =
     (let attn = ''encoder.layer.'' @ str_of_nat i @ ''.attention.self''
      in
       map_param (attn @ ''.qkv.weight'') [attn @ ''.query.weight'', attn @ ''.key.weight'', attn @
         ''.value.weight''] (Concat 0) @
       map_param (attn @ ''.qkv.bias'') [attn @ ''.query.bias'', attn @ ''.key.bias'', attn @
         ''.value.bias''] (Concat 0))"

definition bert_loader :: "nat \<Rightarrow> loader_program" where
  "bert_loader num_hidden_layers =
     \<lparr>lp_actions =
         concat (map bert_layer [0..<num_hidden_layers]),
      lp_fallback = Some same_name, lp_after = []\<rparr>"

definition chatglm3_loader :: "loader_program" where
  "chatglm3_loader =
     \<lparr>lp_actions =
         map_param ''transformer.embedding.weight'' [''transformer.embedding.word_embeddings.weight'']
           Cast,
      lp_fallback = Some same_name, lp_after = []\<rparr>"

definition cohere_layer :: "nat \<Rightarrow> loader_action list" where
  "cohere_layer i =
     (let attn = ''model.layers.'' @ str_of_nat i @ ''.self_attn'';
          mlp = ''model.layers.'' @ str_of_nat i @ ''.mlp''
      in
       [Lookup (attn @ ''.qkv_proj.weight'')] @
       add_cast (attn @ ''.out_proj.weight'') (attn @ ''.o_proj.weight'') @
       [AddMapping (attn @ ''.qkv_proj.weight'') [attn @ ''.q_proj.weight'', attn @ ''.k_proj.weight'',
         attn @ ''.v_proj.weight''] (Concat 0) (attn @ ''.qkv_proj.weight'')] @
       add_cast (mlp @ ''.up_proj.weight'') (mlp @ ''.up_proj.weight'') @
       add_cast (mlp @ ''.gate_proj.weight'') (mlp @ ''.gate_proj.weight'') @
       add_cast (mlp @ ''.down_proj.weight'') (mlp @ ''.down_proj.weight''))"

definition cohere_loader :: "nat \<Rightarrow> loader_program" where
  "cohere_loader num_hidden_layers =
     \<lparr>lp_actions =
         concat (map cohere_layer [0..<num_hidden_layers]),
      lp_fallback = Some same_name, lp_after = []\<rparr>"

definition cohere_awq_layer :: "nat \<Rightarrow> loader_action list" where
  "cohere_awq_layer i =
     (let attn = ''model.layers.'' @ str_of_nat i @ ''.self_attn'';
          mlp = ''model.layers.'' @ str_of_nat i @ ''.mlp''
      in
       concat (map (\<lambda>quantize_suffix. [AssertParam (attn @ ''.qkv_proj.'' @ quantize_suffix)] @
       map_param (attn @ ''.qkv_proj.'' @ quantize_suffix) [attn @ ''.q_proj.'' @ quantize_suffix, attn
         @ ''.k_proj.'' @ quantize_suffix, attn @ ''.v_proj.'' @ quantize_suffix] (Concat 1) @
       add_cast (attn @ ''.out_proj.'' @ quantize_suffix) (attn @ ''.o_proj.'' @ quantize_suffix))
         [''qweight'', ''qzeros'', ''scales'']) @
       concat (map (\<lambda>quantize_suffix. add_cast (mlp @ ''.up_proj.'' @ quantize_suffix) (mlp @
         ''.up_proj.'' @ quantize_suffix) @
       add_cast (mlp @ ''.gate_proj.'' @ quantize_suffix) (mlp @ ''.gate_proj.'' @ quantize_suffix) @
       add_cast (mlp @ ''.down_proj.'' @ quantize_suffix) (mlp @ ''.down_proj.'' @ quantize_suffix))
         [''qweight'', ''qzeros'', ''scales'']))"

definition cohere_awq_loader :: "nat \<Rightarrow> loader_program" where
  "cohere_awq_loader num_hidden_layers =
     \<lparr>lp_actions =
         concat (map cohere_awq_layer [0..<num_hidden_layers]),
      lp_fallback = Some same_name, lp_after = []\<rparr>"

definition deepseek_layer :: "nat \<Rightarrow> loader_action list" where
  "deepseek_layer i =
     (let attn = ''model.layers.'' @ str_of_nat i @ ''.self_attn''
      in
       concat (map (\<lambda>weight_type. map_param (attn @ ''.wqkv_pack.'' @ weight_type) [attn @
         ''.q_proj.'' @ weight_type, attn @ ''.k_proj.'' @ weight_type, attn @ ''.v_proj.'' @
         weight_type] (Concat 0)) [''weight'']))"

definition deepseek_layer2 :: "nat \<Rightarrow> nat \<Rightarrow> nat \<Rightarrow> nat \<Rightarrow> loader_action list" where
  "deepseek_layer2 first_k_dense_replace moe_layer_freq n_routed_experts i =
     (let mlp = ''model.layers.'' @ str_of_nat i @ ''.mlp'';
          shared_expert = mlp @ ''.shared_experts''
      in
       (if i \<ge> first_k_dense_replace \<and> i mod moe_layer_freq = 0 then map_param (shared_expert @
         ''.gate_up_proj.weight'') [shared_expert @ ''.gate_proj.weight'', shared_expert @
         ''.up_proj.weight''] (Concat 0) @
       [NonEmpty n_routed_experts,
       AddMapping (mlp @ ''.moe_gate_up_proj.weight'') (concat (map (\<lambda>expert_id. [mlp @
         ''.experts.'' @ str_of_nat expert_id @ ''.gate_proj.weight'', mlp @ ''.experts.'' @ str_of_nat
         expert_id @ ''.up_proj.weight'']) [0..<n_routed_experts])) StackPairs (shared_expert @
         ''.gate_up_proj.weight'')] @
       map_param (mlp @ ''.moe_down_proj.weight'') (map (\<lambda>expert_id. mlp @ ''.experts.'' @
         str_of_nat expert_id @ ''.down_proj.weight'') [0..<n_routed_experts]) Stack
       else map_param (mlp @ ''.gate_up_proj.weight'') [mlp @ ''.gate_proj.weight'', mlp @
         ''.up_proj.weight''] (Concat 0)))"

definition deepseek_loader :: "nat \<Rightarrow> nat \<Rightarrow> nat \<Rightarrow> nat \<Rightarrow> loader_program" where
  "deepseek_loader num_hidden_layers first_k_dense_replace moe_layer_freq n_routed_experts =
     \<lparr>lp_actions =
         concat (map deepseek_layer [0..<num_hidden_layers]) @ concat (map (deepseek_layer2
           first_k_dense_replace moe_layer_freq n_routed_experts) [0..<num_hidden_layers]),
      lp_fallback = Some same_name, lp_after = []\<rparr>"

definition eagle_layer :: "nat \<Rightarrow> loader_action list" where
  "eagle_layer i =
     (let attn = ''layers.'' @ str_of_nat i @ ''.self_attn'';
          mlp = ''layers.'' @ str_of_nat i @ ''.mlp''
      in
       map_param (attn @ ''.qkv_proj.weight'') [attn @ ''.q_proj.weight'', attn @ ''.k_proj.weight'',
         attn @ ''.v_proj.weight''] (Concat 0) @
       map_param (mlp @ ''.gate_up_proj.weight'') [mlp @ ''.gate_proj.weight'', mlp @
         ''.up_proj.weight''] (Concat 0) @
       [AddUnused (attn @ ''.rotary_emb.inv_freq'')])"

definition eagle_loader :: "nat \<Rightarrow> loader_program" where
  "eagle_loader num_hidden_layers =
     \<lparr>lp_actions =
         concat (map eagle_layer [0..<num_hidden_layers]),
      lp_fallback = Some same_name, lp_after = []\<rparr>"

definition eagle_awq_layer :: "nat \<Rightarrow> loader_action list" where
  "eagle_awq_layer i =
     (let attn = ''layers.'' @ str_of_nat i @ ''.self_attn'';
          mlp = ''layers.'' @ str_of_nat i @ ''.mlp''
      in
       concat (map (\<lambda>quantize_suffix. [AssertParam (attn @ ''.qkv_proj.'' @ quantize_suffix)] @
       map_param (attn @ ''.qkv_proj.'' @ quantize_suffix) [attn @ ''.q_proj.'' @ quantize_suffix, attn
         @ ''.k_proj.'' @ quantize_suffix, attn @ ''.v_proj.'' @ quantize_suffix] (Concat 1))
         [''qweight'', ''qzeros'', ''scales'']) @
       concat (map (\<lambda>quantize_suffix. [AssertParam (mlp @ ''.gate_up_proj.'' @ quantize_suffix)]
         @
       map_param (mlp @ ''.gate_up_proj.'' @ quantize_suffix) [mlp @ ''.gate_proj.'' @ quantize_suffix,
         mlp @ ''.up_proj.'' @ quantize_suffix] (Concat 1)) [''qweight'', ''qzeros'', ''scales'']) @
       [AddUnused (attn @ ''.rotary_emb.inv_freq'')])"

definition eagle_awq_loader :: "nat \<Rightarrow> loader_program" where
  "eagle_awq_loader num_hidden_layers =
     \<lparr>lp_actions =
         concat (map eagle_awq_layer [0..<num_hidden_layers]),
      lp_fallback = Some same_name, lp_after = []\<rparr>"

definition gemma_layer :: "nat \<Rightarrow> loader_action list" where
  "gemma_layer i =
     (let attn = ''model.layers.'' @ str_of_nat i @ ''.self_attn'';
          mlp = ''model.layers.'' @ str_of_nat i @ ''.mlp''
      in
       map_param (attn @ ''.qkv_proj.weight'') [attn @ ''.q_proj.weight'', attn @ ''.k_proj.weight'',
         attn @ ''.v_proj.weight''] (Concat 0) @
       map_param (mlp @ ''.gate_up_proj.weight'') [mlp @ ''.gate_proj.weight'', mlp @
         ''.up_proj.weight''] (Concat 0) @
       map_param (''model.layers.'' @ str_of_nat i @ ''.input_layernorm.weight'') [''model.layers.'' @
         str_of_nat i @ ''.input_layernorm.weight''] PlusOne @
       map_param (''model.layers.'' @ str_of_nat i @ ''.post_attention_layernorm.weight'')
         [''model.layers.'' @ str_of_nat i @ ''.post_attention_layernorm.weight''] PlusOne)"

definition gemma_loader :: "nat \<Rightarrow> loader_program" where
  "gemma_loader num_hidden_layers =
     \<lparr>lp_actions =
         concat (map gemma_layer [0..<num_hidden_layers]) @ map_param ''model.norm.weight''
           [''model.norm.weight''] PlusOne,
      lp_fallback = Some same_name, lp_after = []\<rparr>"

definition gemma2_layer :: "nat \<Rightarrow> loader_action list" where
  "gemma2_layer i =
     (let attn = ''model.layers.'' @ str_of_nat i @ ''.self_attn'';
          mlp = ''model.layers.'' @ str_of_nat i @ ''.mlp''
      in
       map_param (attn @ ''.qkv_proj.weight'') [attn @ ''.q_proj.weight'', attn @ ''.k_proj.weight'',
         attn @ ''.v_proj.weight''] (Concat 0) @
       map_param (mlp @ ''.gate_up_proj.weight'') [mlp @ ''.gate_proj.weight'', mlp @
         ''.up_proj.weight''] (Concat 0) @
       map_param (''model.layers.'' @ str_of_nat i @ ''.input_layernorm.weight'') [''model.layers.'' @
         str_of_nat i @ ''.input_layernorm.weight''] PlusOne @
       map_param (''model.layers.'' @ str_of_nat i @ ''.post_attention_layernorm.weight'')
         [''model.layers.'' @ str_of_nat i @ ''.post_attention_layernorm.weight''] PlusOne @
       map_param (''model.layers.'' @ str_of_nat i @ ''.pre_feedforward_layernorm.weight'')
         [''model.layers.'' @ str_of_nat i @ ''.pre_feedforward_layernorm.weight''] PlusOne @
       map_param (''model.layers.'' @ str_of_nat i @ ''.post_feedforward_layernorm.weight'')
         [''model.layers.'' @ str_of_nat i @ ''.post_feedforward_layernorm.weight''] PlusOne)"

definition gemma2_loader :: "nat \<Rightarrow> loader_program" where
  "gemma2_loader num_hidden_layers =
     \<lparr>lp_actions =
         concat (map gemma2_layer [0..<num_hidden_layers]) @ map_param ''model.norm.weight''
           [''model.norm.weight''] PlusOne,
      lp_fallback = Some same_name, lp_after = []\<rparr>"

definition gemma3_layer :: "string \<Rightarrow> string \<Rightarrow> nat \<Rightarrow> loader_action list" where
  "gemma3_layer mlc_prefix hf_prefix i =
     (let mlp = ''model.layers.'' @ str_of_nat i @ ''.mlp''
      in
       map_param (mlc_prefix @ mlp @ ''.gate_up_proj.weight'') [hf_prefix @ mlp @ ''.gate_proj.weight'',
         hf_prefix @ mlp @ ''.up_proj.weight''] (Concat 0) @
       map_param (mlc_prefix @ ''model.layers.'' @ str_of_nat i @ ''.input_layernorm.weight'')
         [hf_prefix @ ''model.layers.'' @ str_of_nat i @ ''.input_layernorm.weight''] PlusOne @
       map_param (mlc_prefix @ ''model.layers.'' @ str_of_nat i @ ''.post_attention_layernorm.weight'')
         [hf_prefix @ ''model.layers.'' @ str_of_nat i @ ''.post_attention_layernorm.weight''] PlusOne @
       map_param (mlc_prefix @ ''model.layers.'' @ str_of_nat i @ ''.pre_feedforward_layernorm.weight'')
         [hf_prefix @ ''model.layers.'' @ str_of_nat i @ ''.pre_feedforward_layernorm.weight''] PlusOne
         @
       map_param (mlc_prefix @ ''model.layers.'' @ str_of_nat i @
         ''.post_feedforward_layernorm.weight'') [hf_prefix @ ''model.layers.'' @ str_of_nat i @
         ''.post_feedforward_layernorm.weight''] PlusOne @
       map_param (mlc_prefix @ ''model.layers.'' @ str_of_nat i @ ''.self_attn.k_norm.weight'')
         [hf_prefix @ ''model.layers.'' @ str_of_nat i @ ''.self_attn.k_norm.weight''] PlusOne @
       map_param (mlc_prefix @ ''model.layers.'' @ str_of_nat i @ ''.self_attn.q_norm.weight'')
         [hf_prefix @ ''model.layers.'' @ str_of_nat i @ ''.self_attn.q_norm.weight''] PlusOne)"

definition gemma3_loader :: "bool \<Rightarrow> nat \<Rightarrow> loader_program" where
  "gemma3_loader is_text_model text_num_hidden_layers =
     (let mlc_prefix = ''language_model.'';
          hf_prefix = (if \<not> is_text_model then ''language_model.'' else '''')
      in \<lparr>lp_actions =
         concat (map (gemma3_layer mlc_prefix hf_prefix) [0..<text_num_hidden_layers]) @ map_param
           (mlc_prefix @ ''model.norm.weight'') [hf_prefix @ ''model.norm.weight''] PlusOne,
      lp_fallback = Some (gemma3_fallback hf_prefix), lp_after = []\<rparr>)"

definition gpt2_layer :: "nat \<Rightarrow> loader_action list" where
  "gpt2_layer i =
     [AddUnused (''h.'' @ str_of_nat i @ ''.attn.bias'')] @
     concat (map (\<lambda>conv1d_weight_name. [AddMapping (''transformer.'' @ ''h.'' @ str_of_nat i @
       ''.'' @ conv1d_weight_name @ ''.weight'') [''h.'' @ str_of_nat i @ ''.'' @ conv1d_weight_name @
       ''.weight''] Transpose (''transformer.'' @ ''h.'' @ str_of_nat i @ ''.'' @ conv1d_weight_name @
       ''.weight'')]) [''attn.c_attn'', ''attn.c_proj'', ''mlp.c_proj'', ''mlp.c_fc''])"

definition gpt2_loader :: "nat \<Rightarrow> loader_program" where
  "gpt2_loader n_layer =
     \<lparr>lp_actions =
         [AddMapping ''lm_head.weight'' [''wte.weight''] Cast ''transformer.wte.weight''] @ concat (map
           (gpt2_layer) [0..<n_layer]),
      lp_fallback = Some gpt2_fallback, lp_after = []\<rparr>"

definition gpt_bigcode_loader :: "loader_program" where
  "gpt_bigcode_loader =
     \<lparr>lp_actions =
         [],
      lp_fallback = Some same_name, lp_after = []\<rparr>"

definition gpt_j_layer :: "nat \<Rightarrow> loader_action list" where
  "gpt_j_layer i =
     (let attn = ''transformer.h.'' @ str_of_nat i @ ''.attn''
      in
       map_param (attn @ ''.c_attn.weight'') [attn @ ''.q_proj.weight'', attn @ ''.k_proj.weight'', attn
         @ ''.v_proj.weight''] (Concat 0))"

definition gpt_j_loader :: "nat \<Rightarrow> loader_program" where
  "gpt_j_loader n_layer =
     \<lparr>lp_actions =
         concat (map gpt_j_layer [0..<n_layer]),
      lp_fallback = Some same_name, lp_after = []\<rparr>"

definition gpt_neox_layer :: "nat \<Rightarrow> nat \<Rightarrow> nat \<Rightarrow> loader_action list" where
  "gpt_neox_layer num_attention_heads head_dim i =
     (let attn = ''gpt_neox.layers.'' @ str_of_nat i @ ''.attention'';
          qkv_proj = attn @ ''.query_key_value''
      in
       [AddUnused (attn @ ''.rotary_emb.inv_freq''),
       AddUnused (attn @ ''.masked_bias''),
       AddUnused (attn @ ''.bias'')] @
       concat (map (\<lambda>param_name. map_param (qkv_proj @ ''.'' @ param_name) [qkv_proj @ ''.'' @
         param_name] (SplitHeads num_attention_heads head_dim)) [''weight'', ''bias'']))"

definition gpt_neox_loader :: "nat \<Rightarrow> nat \<Rightarrow> nat \<Rightarrow> string \<Rightarrow> loader_program" where
  "gpt_neox_loader num_hidden_layers num_attention_heads head_dim ffn_out_dtype =
     \<lparr>lp_actions =
         concat (map (gpt_neox_layer num_attention_heads head_dim) [0..<num_hidden_layers]),
      lp_fallback = Some (gpt_neox_fallback ffn_out_dtype), lp_after = []\<rparr>"

definition internlm_layer :: "(string \<Rightarrow> bool) \<Rightarrow> nat \<Rightarrow> loader_action list" where
  "internlm_layer present i =
     (let attn = ''model.layers.'' @ str_of_nat i @ ''.self_attn'';
          mlp = ''model.layers.'' @ str_of_nat i @ ''.mlp''
      in
       map_param (attn @ ''.wqkv_pack.weight'') [attn @ ''.q_proj.weight'', attn @ ''.k_proj.weight'',
         attn @ ''.v_proj.weight''] (Concat 0) @
       (if present (attn @ ''.wqkv_pack.bias'') then map_param (attn @ ''.wqkv_pack.bias'') [attn @
         ''.q_proj.bias'', attn @ ''.k_proj.bias'', attn @ ''.v_proj.bias''] (Concat 0)
       else []) @
       map_param (mlp @ ''.gate_up_proj.weight'') [mlp @ ''.gate_proj.weight'', mlp @
         ''.up_proj.weight''] (Concat 0))"

definition internlm_loader :: "(string \<Rightarrow> bool) \<Rightarrow> nat \<Rightarrow> loader_program" where
  "internlm_loader present num_hidden_layers =
     \<lparr>lp_actions =
         concat (map (internlm_layer present) [0..<num_hidden_layers]),
      lp_fallback = Some same_name, lp_after = []\<rparr>"

definition internlm2_layer :: "nat \<Rightarrow> nat \<Rightarrow> nat \<Rightarrow> nat \<Rightarrow> loader_action list" where
  "internlm2_layer num_attention_heads num_key_value_heads hidden_size i =
     (let mlp = ''model.layers.'' @ str_of_nat i @ ''.feed_forward''
      in
       map_param (mlp @ ''.gate_up_proj.weight'') [mlp @ ''.w1.weight'', mlp @ ''.w3.weight''] (Concat
         0) @
       map_param (''model.layers.'' @ str_of_nat i @ ''.attention.wqkv.weight'') [''model.layers.'' @
         str_of_nat i @ ''.attention.wqkv.weight''] (SplitGroups num_attention_heads num_key_value_heads
         hidden_size))"

definition internlm2_loader :: "nat \<Rightarrow> nat \<Rightarrow> nat \<Rightarrow> nat \<Rightarrow> loader_program" where
  "internlm2_loader num_hidden_layers num_attention_heads num_key_value_heads hidden_size =
     \<lparr>lp_actions =
         concat (map (internlm2_layer num_attention_heads num_key_value_heads hidden_size)
           [0..<num_hidden_layers]),
      lp_fallback = Some same_name, lp_after = []\<rparr>"

definition llava_layer :: "nat \<Rightarrow> loader_action list" where
  "llava_layer i =
     (let attn = ''language_model.model.layers.'' @ str_of_nat i @ ''.self_attn'';
          mlp = ''language_model.model.layers.'' @ str_of_nat i @ ''.mlp''
      in
       map_param (attn @ ''.qkv_proj.weight'') [attn @ ''.q_proj.weight'', attn @ ''.k_proj.weight'',
         attn @ ''.v_proj.weight''] (Concat 0) @
       map_param (mlp @ ''.gate_up_proj.weight'') [mlp @ ''.gate_proj.weight'', mlp @
         ''.up_proj.weight''] (Concat 0) @
       [AddUnused (attn @ ''.rotary_emb.inv_freq'')])"

definition llava_loader :: "nat \<Rightarrow> loader_program" where
  "llava_loader text_num_hidden_layers =
     \<lparr>lp_actions =
         concat (map llava_layer [0..<text_num_hidden_layers]),
      lp_fallback = Some same_name, lp_after = []\<rparr>"

definition llava_awq_layer :: "nat \<Rightarrow> loader_action list" where
  "llava_awq_layer i =
     (let attn = ''language_model.model.layers.'' @ str_of_nat i @ ''.self_attn'';
          mlp = ''language_model.model.layers.'' @ str_of_nat i @ ''.mlp''
      in
       concat (map (\<lambda>quantize_suffix. [AssertParam (attn @ ''.qkv_proj.'' @ quantize_suffix)] @
       map_param (attn @ ''.qkv_proj.'' @ quantize_suffix) [attn @ ''.q_proj.'' @ quantize_suffix, attn
         @ ''.k_proj.'' @ quantize_suffix, attn @ ''.v_proj.'' @ quantize_suffix] (Concat 0))
         [''qweight'', ''qzeros'', ''scales'']) @
       concat (map (\<lambda>quantize_suffix. [AssertParam (mlp @ ''.gate_up_proj.'' @ quantize_suffix)]
         @
       map_param (mlp @ ''.gate_up_proj.'' @ quantize_suffix) [mlp @ ''.gate_proj.'' @ quantize_suffix,
         mlp @ ''.up_proj.'' @ quantize_suffix] (Concat 0)) [''qweight'', ''qzeros'', ''scales'']) @
       [AddUnused (attn @ ''.rotary_emb.inv_freq'')])"

definition llava_awq_loader :: "nat \<Rightarrow> loader_program" where
  "llava_awq_loader text_num_hidden_layers =
     \<lparr>lp_actions =
         concat (map llava_awq_layer [0..<text_num_hidden_layers]),
      lp_fallback = Some same_name, lp_after = []\<rparr>"

definition medusa_loader :: "loader_program" where
  "medusa_loader =
     \<lparr>lp_actions =
         [],
      lp_fallback = Some same_name, lp_after = []\<rparr>"

definition minicpm_layer :: "nat \<Rightarrow> loader_action list" where
  "minicpm_layer i =
     (let attn = ''model.layers.'' @ str_of_nat i @ ''.self_attn''
      in
       concat (map (\<lambda>weight_type. map_param (attn @ ''.wqkv_pack.'' @ weight_type) [attn @
         ''.q_proj.'' @ weight_type, attn @ ''.k_proj.'' @ weight_type, attn @ ''.v_proj.'' @
         weight_type] (Concat 0)) [''weight'']))"

definition minicpm_layer2 :: "nat \<Rightarrow> loader_action list" where
  "minicpm_layer2 i =
     (let mlp = ''model.layers.'' @ str_of_nat i @ ''.mlp''
      in
       map_param (mlp @ ''.gate_up_proj.weight'') [mlp @ ''.gate_proj.weight'', mlp @
         ''.up_proj.weight''] (Concat 0))"

definition minicpm_layer3 :: "nat \<Rightarrow> nat \<Rightarrow> loader_action list" where
  "minicpm_layer3 num_experts i =
     (let mlp = ''model.layers.'' @ str_of_nat i @ ''.mlp'';
          mlc_mlp = ''model.layers.'' @ str_of_nat i @ ''.mlp''
      in
       [Lookup (mlc_mlp @ ''.e1_e3.weight''),
       NonEmpty num_experts,
       AddMapping (mlc_mlp @ ''.e1_e3.weight'') (concat (map (\<lambda>expert_id. [mlp @ ''.experts.'' @
         str_of_nat expert_id @ ''.w1.weight'', mlp @ ''.experts.'' @ str_of_nat expert_id @
         ''.w3.weight'']) [0..<num_experts])) StackPairs (mlc_mlp @ ''.e1_e3.weight'')] @
       map_param (mlc_mlp @ ''.e2.weight'') (map (\<lambda>expert_id. mlp @ ''.experts.'' @ str_of_nat
         expert_id @ ''.w2.weight'') [0..<num_experts]) Stack @
       map_param (mlc_mlp @ ''.gate.weight'') [mlp @ ''.gate.weight''] Cast)"

definition minicpm_loader :: "nat \<Rightarrow> nat \<Rightarrow> bool \<Rightarrow> loader_program" where
  "minicpm_loader num_hidden_layers num_experts tie_word_embeddings =
     \<lparr>lp_actions =
         concat (map minicpm_layer [0..<num_hidden_layers]) @ (if num_experts = 0 then concat (map
           (minicpm_layer2) [0..<num_hidden_layers]) else concat (map (minicpm_layer3 num_experts)
           [0..<num_hidden_layers])),
      lp_fallback = Some (minicpm_fallback tie_word_embeddings), lp_after = []\<rparr>"

definition mistral_layer :: "nat \<Rightarrow> loader_action list" where
  "mistral_layer i =
     (let attn = ''model.layers.'' @ str_of_nat i @ ''.self_attn'';
          mlp = ''model.layers.'' @ str_of_nat i @ ''.mlp''
      in
       map_param (attn @ ''.qkv_proj.weight'') [attn @ ''.q_proj.weight'', attn @ ''.k_proj.weight'',
         attn @ ''.v_proj.weight''] (Concat 0) @
       map_param (mlp @ ''.gate_up_proj.weight'') [mlp @ ''.gate_proj.weight'', mlp @
         ''.up_proj.weight''] (Concat 0) @
       [AddUnused (attn @ ''.rotary_emb.inv_freq'')])"

definition mistral_loader :: "nat \<Rightarrow> loader_program" where
  "mistral_loader num_hidden_layers =
     \<lparr>lp_actions =
         concat (map mistral_layer [0..<num_hidden_layers]),
      lp_fallback = Some same_name, lp_after = []\<rparr>"

definition mistral_awq_layer :: "nat \<Rightarrow> loader_action list" where
  "mistral_awq_layer i =
     (let attn = ''model.layers.'' @ str_of_nat i @ ''.self_attn'';
          mlp = ''model.layers.'' @ str_of_nat i @ ''.mlp''
      in
       concat (map (\<lambda>quantize_suffix. [AssertParam (attn @ ''.qkv_proj.'' @ quantize_suffix)] @
       map_param (attn @ ''.qkv_proj.'' @ quantize_suffix) [attn @ ''.q_proj.'' @ quantize_suffix, attn
         @ ''.k_proj.'' @ quantize_suffix, attn @ ''.v_proj.'' @ quantize_suffix] (Concat 0))
         [''qweight'', ''qzeros'', ''scales'']) @
       concat (map (\<lambda>quantize_suffix. [AssertParam (mlp @ ''.gate_up_proj.'' @ quantize_suffix)]
         @
       map_param (mlp @ ''.gate_up_proj.'' @ quantize_suffix) [mlp @ ''.gate_proj.'' @ quantize_suffix,
         mlp @ ''.up_proj.'' @ quantize_suffix] (Concat 0)) [''qweight'', ''qzeros'', ''scales'']) @
       [AddUnused (attn @ ''.rotary_emb.inv_freq'')])"

definition mistral_awq_loader :: "nat \<Rightarrow> loader_program" where
  "mistral_awq_loader num_hidden_layers =
     \<lparr>lp_actions =
         concat (map mistral_awq_layer [0..<num_hidden_layers]),
      lp_fallback = Some same_name, lp_after = []\<rparr>"

definition mixtral_layer :: "nat \<Rightarrow> nat \<Rightarrow> loader_action list" where
  "mixtral_layer num_local_experts i =
     (let attn = ''model.layers.'' @ str_of_nat i @ ''.self_attn'';
          mlp = ''model.layers.'' @ str_of_nat i @ ''.block_sparse_moe'';
          mlc_mlp = ''model.layers.'' @ str_of_nat i @ ''.moe''
      in
       map_param (attn @ ''.qkv_proj.weight'') [attn @ ''.q_proj.weight'', attn @ ''.k_proj.weight'',
         attn @ ''.v_proj.weight''] (Concat 0) @
       [Lookup (mlc_mlp @ ''.e1_e3.weight''),
       NonEmpty num_local_experts,
       AddMapping (mlc_mlp @ ''.e1_e3.weight'') (concat (map (\<lambda>expert_id. [mlp @ ''.experts.'' @
         str_of_nat expert_id @ ''.w1.weight'', mlp @ ''.experts.'' @ str_of_nat expert_id @
         ''.w3.weight'']) [0..<num_local_experts])) StackPairs (mlc_mlp @ ''.e1_e3.weight'')] @
       map_param (mlc_mlp @ ''.e2.weight'') (map (\<lambda>expert_id. mlp @ ''.experts.'' @ str_of_nat
         expert_id @ ''.w2.weight'') [0..<num_local_experts]) Stack @
       map_param (mlc_mlp @ ''.gate.weight'') [mlp @ ''.gate.weight''] Cast @
       [AddUnused (attn @ ''.rotary_emb.inv_freq'')])"

definition mixtral_loader :: "nat \<Rightarrow> nat \<Rightarrow> loader_program" where
  "mixtral_loader num_hidden_layers num_local_experts =
     \<lparr>lp_actions =
         concat (map (mixtral_layer num_local_experts) [0..<num_hidden_layers]),
      lp_fallback = Some same_name, lp_after = []\<rparr>"

definition nemotron_layer :: "nat \<Rightarrow> loader_action list" where
  "nemotron_layer i =
     (let attn = ''model.layers.'' @ str_of_nat i @ ''.self_attn''
      in
       map_param (attn @ ''.qkv_proj.weight'') [attn @ ''.q_proj.weight'', attn @ ''.k_proj.weight'',
         attn @ ''.v_proj.weight''] (Concat 0) @
       [AddUnused (attn @ ''.rotary_emb.inv_freq'')])"

definition nemotron_loader :: "nat \<Rightarrow> loader_program" where
  "nemotron_loader num_hidden_layers =
     \<lparr>lp_actions =
         concat (map nemotron_layer [0..<num_hidden_layers]),
      lp_fallback = Some same_name, lp_after = []\<rparr>"

definition olmo_layer :: "nat \<Rightarrow> loader_action list" where
  "olmo_layer i =
     (let attn = ''model.layers.'' @ str_of_nat i @ ''.self_attn'';
          mlp = ''model.layers.'' @ str_of_nat i @ ''.mlp''
      in
       map_param (attn @ ''.qkv_proj.weight'') [attn @ ''.q_proj.weight'', attn @ ''.k_proj.weight'',
         attn @ ''.v_proj.weight''] (Concat 0) @
       map_param (mlp @ ''.gate_up_proj.weight'') [mlp @ ''.gate_proj.weight'', mlp @
         ''.up_proj.weight''] (Concat 0) @
       [AddUnused (attn @ ''.rotary_emb.inv_freq'')])"

definition olmo_loader :: "nat \<Rightarrow> loader_program" where
  "olmo_loader num_hidden_layers =
     \<lparr>lp_actions =
         concat (map olmo_layer [0..<num_hidden_layers]),
      lp_fallback = Some same_name, lp_after = []\<rparr>"

definition olmo_awq_layer :: "nat \<Rightarrow> loader_action list" where
  "olmo_awq_layer i =
     (let attn = ''model.layers.'' @ str_of_nat i @ ''.self_attn'';
          mlp = ''model.layers.'' @ str_of_nat i @ ''.mlp''
      in
       concat (map (\<lambda>quantize_suffix. [AssertParam (attn @ ''.qkv_proj.'' @ quantize_suffix)] @
       map_param (attn @ ''.qkv_proj.'' @ quantize_suffix) [attn @ ''.q_proj.'' @ quantize_suffix, attn
         @ ''.k_proj.'' @ quantize_suffix, attn @ ''.v_proj.'' @ quantize_suffix] (Concat 1))
         [''qweight'', ''qzeros'', ''scales'']) @
       concat (map (\<lambda>quantize_suffix. [AssertParam (mlp @ ''.gate_up_proj.'' @ quantize_suffix)]
         @
       map_param (mlp @ ''.gate_up_proj.'' @ quantize_suffix) [mlp @ ''.gate_proj.'' @ quantize_suffix,
         mlp @ ''.up_proj.'' @ quantize_suffix] (Concat 1)) [''qweight'', ''qzeros'', ''scales'']) @
       [AddUnused (attn @ ''.rotary_emb.inv_freq'')])"

definition olmo_awq_loader :: "nat \<Rightarrow> loader_program" where
  "olmo_awq_loader num_hidden_layers =
     \<lparr>lp_actions =
         concat (map olmo_awq_layer [0..<num_hidden_layers]),
      lp_fallback = Some same_name, lp_after = []\<rparr>"

definition orion_layer :: "nat \<Rightarrow> loader_action list" where
  "orion_layer i =
     (let attn = ''model.layers.'' @ str_of_nat i @ ''.self_attn'';
          mlp = ''model.layers.'' @ str_of_nat i @ ''.mlp''
      in
       map_param (attn @ ''.qkv_proj.weight'') [attn @ ''.q_proj.weight'', attn @ ''.k_proj.weight'',
         attn @ ''.v_proj.weight''] (Concat 0) @
       map_param (mlp @ ''.gate_up_proj.weight'') [mlp @ ''.gate_proj.weight'', mlp @
         ''.up_proj.weight''] (Concat 0) @
       [AddUnused (attn @ ''.rotary_emb.inv_freq'')])"

definition orion_loader :: "nat \<Rightarrow> loader_program" where
  "orion_loader num_hidden_layers =
     \<lparr>lp_actions =
         concat (map orion_layer [0..<num_hidden_layers]),
      lp_fallback = Some same_name, lp_after = []\<rparr>"

definition phi1_layer :: "nat \<Rightarrow> loader_action list" where
  "phi1_layer i =
     (let prefix = ''transformer.h'';
          hf_prefix = ''model.layers''
      in
       add_cast (prefix @ ''.'' @ str_of_nat i @ ''.ln.weight'') (hf_prefix @ ''.'' @ str_of_nat i @
         ''.input_layernorm.weight'') @
       add_cast (prefix @ ''.'' @ str_of_nat i @ ''.ln.bias'') (hf_prefix @ ''.'' @ str_of_nat i @
         ''.input_layernorm.bias'') @
       [AddMapping (prefix @ ''.'' @ str_of_nat i @ ''.mixer.Wqkv.weight'') [hf_prefix @ ''.'' @
         str_of_nat i @ ''.self_attn.q_proj.weight'', hf_prefix @ ''.'' @ str_of_nat i @
         ''.self_attn.k_proj.weight'', hf_prefix @ ''.'' @ str_of_nat i @ ''.self_attn.v_proj.weight'']
         (Concat 0) (prefix @ ''.'' @ str_of_nat i @ ''.mixer.Wqkv.weight''),
       AddMapping (prefix @ ''.'' @ str_of_nat i @ ''.mixer.Wqkv.bias'') [hf_prefix @ ''.'' @ str_of_nat
         i @ ''.self_attn.q_proj.bias'', hf_prefix @ ''.'' @ str_of_nat i @ ''.self_attn.k_proj.bias'',
         hf_prefix @ ''.'' @ str_of_nat i @ ''.self_attn.v_proj.bias''] (Concat 0) (prefix @ ''.'' @
         str_of_nat i @ ''.mixer.Wqkv.bias'')] @
       add_cast (prefix @ ''.'' @ str_of_nat i @ ''.mixer.out_proj.weight'') (hf_prefix @ ''.'' @
         str_of_nat i @ ''.self_attn.dense.weight'') @
       add_cast (prefix @ ''.'' @ str_of_nat i @ ''.mixer.out_proj.bias'') (hf_prefix @ ''.'' @
         str_of_nat i @ ''.self_attn.dense.bias'') @
       add_cast (prefix @ ''.'' @ str_of_nat i @ ''.mlp.fc1.weight'') (hf_prefix @ ''.'' @ str_of_nat i
         @ ''.mlp.fc1.weight'') @
       add_cast (prefix @ ''.'' @ str_of_nat i @ ''.mlp.fc1.bias'') (hf_prefix @ ''.'' @ str_of_nat i @
         ''.mlp.fc1.bias'') @
       add_cast (prefix @ ''.'' @ str_of_nat i @ ''.mlp.fc2.weight'') (hf_prefix @ ''.'' @ str_of_nat i
         @ ''.mlp.fc2.weight'') @
       add_cast (prefix @ ''.'' @ str_of_nat i @ ''.mlp.fc2.bias'') (hf_prefix @ ''.'' @ str_of_nat i @
         ''.mlp.fc2.bias'') @
       [AddUnused (hf_prefix @ ''.'' @ str_of_nat i @ ''.mixer.rotary_emb.inv_freq'')])"

definition phi1_loader :: "nat \<Rightarrow> loader_program" where
  "phi1_loader num_hidden_layers =
     \<lparr>lp_actions =
         add_cast ''lm_head.linear.weight'' ''lm_head.weight'' @ add_cast ''lm_head.linear.bias''
           ''lm_head.bias'' @ add_cast ''lm_head.ln.weight'' ''model.final_layernorm.weight'' @ add_cast
           ''lm_head.ln.bias'' ''model.final_layernorm.bias'' @ add_cast ''transformer.embd.weight''
           ''model.embed_tokens.weight'' @ concat (map phi1_layer [0..<num_hidden_layers]),
      lp_fallback = None, lp_after = []\<rparr>"

definition phi3_layer :: "nat \<Rightarrow> loader_action list" where
  "phi3_layer i =
     (let prefix = ''transformer.h'';
          hf_prefix = ''model.layers''
      in
       add_cast (prefix @ ''.'' @ str_of_nat i @ ''.ln.weight'') (hf_prefix @ ''.'' @ str_of_nat i @
         ''.input_layernorm.weight'') @
       add_cast (prefix @ ''.'' @ str_of_nat i @ ''.mlp.down_proj.weight'') (hf_prefix @ ''.'' @
         str_of_nat i @ ''.mlp.down_proj.weight'') @
       add_cast (prefix @ ''.'' @ str_of_nat i @ ''.mlp.gate_up_proj.weight'') (hf_prefix @ ''.'' @
         str_of_nat i @ ''.mlp.gate_up_proj.weight'') @
       add_cast (prefix @ ''.'' @ str_of_nat i @ ''.post_attention_layernorm.weight'') (hf_prefix @
         ''.'' @ str_of_nat i @ ''.post_attention_layernorm.weight'') @
       add_cast (prefix @ ''.'' @ str_of_nat i @ ''.mixer.out_proj.weight'') (hf_prefix @ ''.'' @
         str_of_nat i @ ''.self_attn.o_proj.weight'') @
       add_cast (prefix @ ''.'' @ str_of_nat i @ ''.mixer.qkv_proj.weight'') (hf_prefix @ ''.'' @
         str_of_nat i @ ''.self_attn.qkv_proj.weight''))"

definition phi3_loader :: "nat \<Rightarrow> loader_program" where
  "phi3_loader num_hidden_layers =
     \<lparr>lp_actions =
         add_cast ''lm_head.weight'' ''lm_head.weight'' @ add_cast ''transformer.norm.weight''
           ''model.norm.weight'' @ add_cast ''transformer.embd.weight'' ''model.embed_tokens.weight'' @
           concat (map phi3_layer [0..<num_hidden_layers]),
      lp_fallback = None, lp_after = []\<rparr>"

definition phi3v_layer :: "nat \<Rightarrow> loader_action list" where
  "phi3v_layer i =
     (let prefix = ''model.h'';
          hf_prefix = ''model.layers''
      in
       add_cast (prefix @ ''.'' @ str_of_nat i @ ''.ln.weight'') (hf_prefix @ ''.'' @ str_of_nat i @
         ''.input_layernorm.weight'') @
       add_cast (prefix @ ''.'' @ str_of_nat i @ ''.mlp.down_proj.weight'') (hf_prefix @ ''.'' @
         str_of_nat i @ ''.mlp.down_proj.weight'') @
       add_cast (prefix @ ''.'' @ str_of_nat i @ ''.mlp.gate_up_proj.weight'') (hf_prefix @ ''.'' @
         str_of_nat i @ ''.mlp.gate_up_proj.weight'') @
       add_cast (prefix @ ''.'' @ str_of_nat i @ ''.post_attention_layernorm.weight'') (hf_prefix @
         ''.'' @ str_of_nat i @ ''.post_attention_layernorm.weight'') @
       add_cast (prefix @ ''.'' @ str_of_nat i @ ''.mixer.out_proj.weight'') (hf_prefix @ ''.'' @
         str_of_nat i @ ''.self_attn.o_proj.weight'') @
       add_cast (prefix @ ''.'' @ str_of_nat i @ ''.mixer.qkv_proj.weight'') (hf_prefix @ ''.'' @
         str_of_nat i @ ''.self_attn.qkv_proj.weight''))"

definition phi3v_layer2 :: "nat \<Rightarrow> loader_action list" where
  "phi3v_layer2 i =
     (let prefix = ''vision_embed_tokens.img_processor.vision_model.encoder.layers''
      in
       add_cast (prefix @ ''.'' @ str_of_nat i @ ''.layer_norm1.bias'') (''model.'' @ prefix @ ''.'' @
         str_of_nat i @ ''.layer_norm1.bias'') @
       add_cast (prefix @ ''.'' @ str_of_nat i @ ''.layer_norm1.weight'') (''model.'' @ prefix @ ''.'' @
         str_of_nat i @ ''.layer_norm1.weight'') @
       add_cast (prefix @ ''.'' @ str_of_nat i @ ''.layer_norm2.bias'') (''model.'' @ prefix @ ''.'' @
         str_of_nat i @ ''.layer_norm2.bias'') @
       add_cast (prefix @ ''.'' @ str_of_nat i @ ''.layer_norm2.weight'') (''model.'' @ prefix @ ''.'' @
         str_of_nat i @ ''.layer_norm2.weight'') @
       add_cast (prefix @ ''.'' @ str_of_nat i @ ''.mlp.fc1.bias'') (''model.'' @ prefix @ ''.'' @
         str_of_nat i @ ''.mlp.fc1.bias'') @
       add_cast (prefix @ ''.'' @ str_of_nat i @ ''.mlp.fc1.weight'') (''model.'' @ prefix @ ''.'' @
         str_of_nat i @ ''.mlp.fc1.weight'') @
       add_cast (prefix @ ''.'' @ str_of_nat i @ ''.mlp.fc2.bias'') (''model.'' @ prefix @ ''.'' @
         str_of_nat i @ ''.mlp.fc2.bias'') @
       add_cast (prefix @ ''.'' @ str_of_nat i @ ''.mlp.fc2.weight'') (''model.'' @ prefix @ ''.'' @
         str_of_nat i @ ''.mlp.fc2.weight'') @
       add_cast (prefix @ ''.'' @ str_of_nat i @ ''.self_attn.k_proj.bias'') (''model.'' @ prefix @
         ''.'' @ str_of_nat i @ ''.self_attn.k_proj.bias'') @
       add_cast (prefix @ ''.'' @ str_of_nat i @ ''.self_attn.k_proj.weight'') (''model.'' @ prefix @
         ''.'' @ str_of_nat i @ ''.self_attn.k_proj.weight'') @
       add_cast (prefix @ ''.'' @ str_of_nat i @ ''.self_attn.out_proj.bias'') (''model.'' @ prefix @
         ''.'' @ str_of_nat i @ ''.self_attn.out_proj.bias'') @
       add_cast (prefix @ ''.'' @ str_of_nat i @ ''.self_attn.out_proj.weight'') (''model.'' @ prefix @
         ''.'' @ str_of_nat i @ ''.self_attn.out_proj.weight'') @
       add_cast (prefix @ ''.'' @ str_of_nat i @ ''.self_attn.q_proj.bias'') (''model.'' @ prefix @
         ''.'' @ str_of_nat i @ ''.self_attn.q_proj.bias'') @
       add_cast (prefix @ ''.'' @ str_of_nat i @ ''.self_attn.q_proj.weight'') (''model.'' @ prefix @
         ''.'' @ str_of_nat i @ ''.self_attn.q_proj.weight'') @
       add_cast (prefix @ ''.'' @ str_of_nat i @ ''.self_attn.v_proj.bias'') (''model.'' @ prefix @
         ''.'' @ str_of_nat i @ ''.self_attn.v_proj.bias'') @
       add_cast (prefix @ ''.'' @ str_of_nat i @ ''.self_attn.v_proj.weight'') (''model.'' @ prefix @
         ''.'' @ str_of_nat i @ ''.self_attn.v_proj.weight''))"

definition phi3v_loader :: "nat \<Rightarrow> nat \<Rightarrow> loader_program" where
  "phi3v_loader num_hidden_layers vision_num_hidden_layers =
     \<lparr>lp_actions =
         add_cast ''model.embd.weight'' ''model.embed_tokens.weight'' @ concat (map (phi3v_layer)
           [0..<num_hidden_layers]) @ concat (map phi3v_layer2 [0..<vision_num_hidden_layers]) @
           add_cast ''vision_embed_tokens.sub_GN'' (''model.'' @ ''vision_embed_tokens.sub_GN'') @
           add_cast ''vision_embed_tokens.glb_GN'' (''model.'' @ ''vision_embed_tokens.glb_GN'') @
           add_cast ''vision_embed_tokens.img_processor.vision_model.embeddings.class_embedding''
           (''model.'' @ ''vision_embed_tokens.img_processor.vision_model.embeddings.class_embedding'')
           @ add_cast
           ''vision_embed_tokens.img_processor.vision_model.embeddings.patch_embedding.weight''
           (''model.'' @
           ''vision_embed_tokens.img_processor.vision_model.embeddings.patch_embedding.weight'') @
           add_cast
           ''vision_embed_tokens.img_processor.vision_model.embeddings.position_embedding.weight''
           (''model.'' @
           ''vision_embed_tokens.img_processor.vision_model.embeddings.position_embedding.weight'') @
           add_cast ''vision_embed_tokens.img_processor.vision_model.post_layernorm.bias'' (''model.'' @
           ''vision_embed_tokens.img_processor.vision_model.post_layernorm.bias'') @ add_cast
           ''vision_embed_tokens.img_processor.vision_model.post_layernorm.weight'' (''model.'' @
           ''vision_embed_tokens.img_processor.vision_model.post_layernorm.weight'') @ add_cast
           ''vision_embed_tokens.img_processor.vision_model.pre_layrnorm.bias'' (''model.'' @
           ''vision_embed_tokens.img_processor.vision_model.pre_layrnorm.bias'') @ add_cast
           ''vision_embed_tokens.img_processor.vision_model.pre_layrnorm.weight'' (''model.'' @
           ''vision_embed_tokens.img_processor.vision_model.pre_layrnorm.weight'') @ add_cast
           (''vision_embed_tokens.img_projection'' @ ''.linear_1.bias'') (''model.'' @
           ''vision_embed_tokens.img_projection'' @ ''.0.bias'') @ add_cast
           (''vision_embed_tokens.img_projection'' @ ''.linear_1.weight'') (''model.'' @
           ''vision_embed_tokens.img_projection'' @ ''.0.weight'') @ add_cast
           (''vision_embed_tokens.img_projection'' @ ''.linear_2.bias'') (''model.'' @
           ''vision_embed_tokens.img_projection'' @ ''.2.bias'') @ add_cast
           (''vision_embed_tokens.img_projection'' @ ''.linear_2.weight'') (''model.'' @
           ''vision_embed_tokens.img_projection'' @ ''.2.weight''),
      lp_fallback = Some same_name, lp_after = [AddUnused ''model.embed_tokens.weight'']\<rparr>"

definition qwen_layer :: "nat \<Rightarrow> loader_action list" where
  "qwen_layer i =
     (let mlp = ''transformer.h.'' @ str_of_nat i @ ''.mlp''
      in
       map_param (mlp @ ''.gate_up_proj.weight'') [mlp @ ''.w1.weight'', mlp @ ''.w2.weight''] (Concat
         0))"

definition qwen_loader :: "nat \<Rightarrow> loader_program" where
  "qwen_loader num_hidden_layers =
     \<lparr>lp_actions =
         concat (map qwen_layer [0..<num_hidden_layers]),
      lp_fallback = Some same_name, lp_after = []\<rparr>"

definition qwen2_layer :: "nat \<Rightarrow> loader_action list" where
  "qwen2_layer i =
     (let attn = ''model.layers.'' @ str_of_nat i @ ''.self_attn'';
          mlp = ''model.layers.'' @ str_of_nat i @ ''.mlp''
      in
       concat (map (\<lambda>weight_type. map_param (attn @ ''.c_attn.'' @ weight_type) [attn @
         ''.q_proj.'' @ weight_type, attn @ ''.k_proj.'' @ weight_type, attn @ ''.v_proj.'' @
         weight_type] (Concat 0)) [''weight'', ''bias'']) @
       map_param (mlp @ ''.gate_up_proj.weight'') [mlp @ ''.gate_proj.weight'', mlp @
         ''.up_proj.weight''] (Concat 0))"

definition qwen2_loader :: "nat \<Rightarrow> loader_program" where
  "qwen2_loader num_hidden_layers =
     \<lparr>lp_actions =
         concat (map qwen2_layer [0..<num_hidden_layers]),
      lp_fallback = Some same_name, lp_after = []\<rparr>"

definition qwen2_moe_layer :: "nat \<Rightarrow> nat \<Rightarrow> loader_action list" where
  "qwen2_moe_layer num_experts i =
     (let attn = ''model.layers.'' @ str_of_nat i @ ''.self_attn'';
          mlp = ''model.layers.'' @ str_of_nat i @ ''.mlp'';
          shared_expert = mlp @ ''.shared_expert''
      in
       concat (map (\<lambda>weight_type. map_param (attn @ ''.c_attn.'' @ weight_type) [attn @
         ''.q_proj.'' @ weight_type, attn @ ''.k_proj.'' @ weight_type, attn @ ''.v_proj.'' @
         weight_type] (Concat 0)) [''weight'', ''bias'']) @
       map_param (shared_expert @ ''.gate_up_proj.weight'') [shared_expert @ ''.gate_proj.weight'',
         shared_expert @ ''.up_proj.weight''] (Concat 0) @
       [NonEmpty num_experts,
       AddMapping (mlp @ ''.moe_gate_up_proj.weight'') (concat (map (\<lambda>expert_id. [mlp @
         ''.experts.'' @ str_of_nat expert_id @ ''.gate_proj.weight'', mlp @ ''.experts.'' @ str_of_nat
         expert_id @ ''.up_proj.weight'']) [0..<num_experts])) StackPairs (shared_expert @
         ''.gate_up_proj.weight'')] @
       map_param (mlp @ ''.moe_down_proj.weight'') (map (\<lambda>expert_id. mlp @ ''.experts.'' @
         str_of_nat expert_id @ ''.down_proj.weight'') [0..<num_experts]) Stack)"

definition qwen2_moe_loader :: "nat \<Rightarrow> nat \<Rightarrow> loader_program" where
  "qwen2_moe_loader num_hidden_layers num_experts =
     \<lparr>lp_actions =
         concat (map (qwen2_moe_layer num_experts) [0..<num_hidden_layers]),
      lp_fallback = Some same_name, lp_after = []\<rparr>"

definition rwkv5_layer :: "nat \<Rightarrow> nat \<Rightarrow> loader_action list" where
  "rwkv5_layer rescale_every i =
     [Lookup (''model.blocks.'' @ str_of_nat i @ ''.attention.time_decay''),
     RequireDtype (''model.blocks.'' @ str_of_nat i @ ''.attention.time_decay'') ''float32'',
     AddMapping (''model.blocks.'' @ str_of_nat i @ ''.attention.time_decay'') [''rwkv.blocks.'' @
       str_of_nat i @ ''.attention.time_decay''] ExpNegExp (''model.blocks.'' @ str_of_nat i @
       ''.attention.time_decay'')] @
     (if rescale_every > 0 then concat (map (\<lambda>name. map_param (''model.blocks.'' @ str_of_nat i
       @ ''.'' @ name) [''rwkv.blocks.'' @ str_of_nat i @ ''.'' @ name] (Rescale (i div rescale_every)))
       [''feed_forward.value.weight'', ''attention.output.weight''])
     else [])"

definition rwkv5_loader :: "nat \<Rightarrow> nat \<Rightarrow> loader_program" where
  "rwkv5_loader num_hidden_layers rescale_every =
     \<lparr>lp_actions =
         concat (map (rwkv5_layer rescale_every) [0..<num_hidden_layers]),
      lp_fallback = Some rwkv_fallback, lp_after = []\<rparr>"

definition rwkv6_layer :: "nat \<Rightarrow> nat \<Rightarrow> loader_action list" where
  "rwkv6_layer rescale_every i =
     (if rescale_every > 0 then concat (map (\<lambda>name. map_param (''model.blocks.'' @ str_of_nat i
       @ ''.'' @ name) [''rwkv.blocks.'' @ str_of_nat i @ ''.'' @ name] (Rescale (i div rescale_every)))
       [''feed_forward.value.weight'', ''attention.output.weight''])
     else [])"

definition rwkv6_loader :: "nat \<Rightarrow> nat \<Rightarrow> loader_program" where
  "rwkv6_loader num_hidden_layers rescale_every =
     \<lparr>lp_actions =
         concat (map (rwkv6_layer rescale_every) [0..<num_hidden_layers]),
      lp_fallback = Some rwkv_fallback, lp_after = []\<rparr>"

definition stable_lm_layer :: "(string \<Rightarrow> bool) \<Rightarrow> nat \<Rightarrow> loader_action list" where
  "stable_lm_layer present i =
     (let attn = ''model.layers.'' @ str_of_nat i @ ''.self_attn'';
          mlp = ''model.layers.'' @ str_of_nat i @ ''.mlp''
      in
       map_param (attn @ ''.qkv_proj.weight'') [attn @ ''.q_proj.weight'', attn @ ''.k_proj.weight'',
         attn @ ''.v_proj.weight''] (Concat 0) @
       (if present (attn @ ''.qkv_proj.bias'') then map_param (attn @ ''.qkv_proj.bias'') [attn @
         ''.q_proj.bias'', attn @ ''.k_proj.bias'', attn @ ''.v_proj.bias''] (Concat 0)
       else []) @
       map_param (mlp @ ''.gate_up_proj.weight'') [mlp @ ''.gate_proj.weight'', mlp @
         ''.up_proj.weight''] (Concat 0))"

definition stable_lm_loader :: "(string \<Rightarrow> bool) \<Rightarrow> nat \<Rightarrow> loader_program" where
  "stable_lm_loader present num_hidden_layers =
     \<lparr>lp_actions =
         concat (map (stable_lm_layer present) [0..<num_hidden_layers]),
      lp_fallback = Some same_name, lp_after = []\<rparr>"

definition starcoder2_layer :: "(string \<Rightarrow> bool) \<Rightarrow> nat \<Rightarrow> loader_action list" where
  "starcoder2_layer present i =
     (let attn = ''model.layers.'' @ str_of_nat i @ ''.self_attn''
      in
       map_param (attn @ ''.wqkv_pack.weight'') [attn @ ''.q_proj.weight'', attn @ ''.k_proj.weight'',
         attn @ ''.v_proj.weight''] (Concat 0) @
       (if present (attn @ ''.wqkv_pack.bias'') then map_param (attn @ ''.wqkv_pack.bias'') [attn @
         ''.q_proj.bias'', attn @ ''.k_proj.bias'', attn @ ''.v_proj.bias''] (Concat 0)
       else []))"

definition starcoder2_loader :: "(string \<Rightarrow> bool) \<Rightarrow> nat \<Rightarrow> loader_program" where
  "starcoder2_loader present num_hidden_layers =
     \<lparr>lp_actions =
         map_param ''lm_head.weight'' [''model.embed_tokens.weight''] Cast @ concat (map
           (starcoder2_layer present) [0..<num_hidden_layers]),
      lp_fallback = Some same_name, lp_after = []\<rparr>"

definition phi_layer :: "nat \<Rightarrow> loader_action list" where
  "phi_layer i =
     (let prefix = ''transformer.h'';
          layer = ''layers.'' @ str_of_nat (i + 1)
      in
       add_cast (prefix @ ''.'' @ str_of_nat i @ ''.ln.weight'') (layer @ ''.ln.weight'') @
       add_cast (prefix @ ''.'' @ str_of_nat i @ ''.ln.bias'') (layer @ ''.ln.bias'') @
       add_cast (prefix @ ''.'' @ str_of_nat i @ ''.mixer.Wqkv.weight'') (layer @ ''.mixer.Wqkv.weight'') @
       add_cast (prefix @ ''.'' @ str_of_nat i @ ''.mixer.Wqkv.bias'') (layer @ ''.mixer.Wqkv.bias'') @
       add_cast (prefix @ ''.'' @ str_of_nat i @ ''.mixer.out_proj.weight'') (layer @ ''.mixer.out_proj.weight'') @
       add_cast (prefix @ ''.'' @ str_of_nat i @ ''.mixer.out_proj.bias'') (layer @ ''.mixer.out_proj.bias'') @
       add_cast (prefix @ ''.'' @ str_of_nat i @ ''.mlp.fc1.weight'') (layer @ ''.mlp.fc1.weight'') @
       add_cast (prefix @ ''.'' @ str_of_nat i @ ''.mlp.fc1.bias'') (layer @ ''.mlp.fc1.bias'') @
       add_cast (prefix @ ''.'' @ str_of_nat i @ ''.mlp.fc2.weight'') (layer @ ''.mlp.fc2.weight'') @
       add_cast (prefix @ ''.'' @ str_of_nat i @ ''.mlp.fc2.bias'') (layer @ ''.mlp.fc2.bias'') @
       [AddUnused (layer @ ''.mixer.rotary_emb.inv_freq'')])"

definition phi_loader :: "string \<Rightarrow> nat \<Rightarrow> loader_program" where
  "phi_loader model_type n_layer =
     (if model_type = ''mixformer-sequential''
      then let prefix = ''layers.'' @ str_of_nat (n_layer + 1)
           in \<lparr>lp_actions =
                 add_cast ''transformer.embd.weight'' ''layers.0.wte.weight'' @
                 concat (map phi_layer [0..<n_layer]) @
                 add_cast ''lm_head.ln.weight'' (prefix @ ''.ln.weight'') @
                 add_cast ''lm_head.ln.bias'' (prefix @ ''.ln.bias'') @
                 add_cast ''lm_head.linear.weight'' (prefix @ ''.linear.weight'') @
                 add_cast ''lm_head.linear.bias'' (prefix @ ''.linear.bias''),
               lp_fallback = None, lp_after = []\<rparr>
      else if model_type = ''phi-msft''
      then \<lparr>lp_actions = add_cast ''transformer.embd.weight'' ''transformer.embd.wte.weight'',
             lp_fallback = Some same_name, lp_after = []\<rparr>
      else \<lparr>lp_actions = [], lp_fallback = None, lp_after = []\<rparr>)"

text \<open>
  The loaders that also read weights in blocks of fp8: \<open>block\<close> is the block size of a
  \<open>BlockScaleQuantize\<close>, if that is the quantization, and \<open>fp8\<close> tells whether the configuration has a
  \<open>weight_block_size\<close>. They refuse one without the other.
\<close>

definition check_block_scale :: "string \<Rightarrow> (nat \<times> nat) option \<Rightarrow> bool \<Rightarrow> loader_action list" where
  "check_block_scale model block fp8 =
     (if block \<noteq> None \<and> \<not> fp8
      then [RaiseValueError (''The input '' @ model @ '' model is not fp8 block quantized. ''
              @ ''Thus BlockScaleQuantize is not supported.'')]
      else if block = None \<and> fp8
      then [RaiseValueError (''The input '' @ model @ '' model is fp8 block quantized. ''
              @ ''Please use BlockScaleQuantize for the model.'')]
      else [])"

definition add_weight_and_scale_mapping ::
  "(string \<Rightarrow> bool) \<Rightarrow> (nat \<times> nat) option \<Rightarrow> string \<Rightarrow> string list \<Rightarrow> map_op \<Rightarrow> loader_action list" where
  "add_weight_and_scale_mapping present block weight_mlc_name weight_hf_names weight_transform_func =
     map_param weight_mlc_name weight_hf_names weight_transform_func @
     (if block \<noteq> None
      then (if present (weight_mlc_name @ ''_scale_inv'')
            then map_param (weight_mlc_name @ ''_scale_inv'') (map (\<lambda>name. name @ ''_scale_inv'') weight_hf_names)
                   weight_transform_func
            else [])
      else [])"

definition qwen3_attention :: "(string \<Rightarrow> bool) \<Rightarrow> (nat \<times> nat) option \<Rightarrow> bool \<Rightarrow> nat \<Rightarrow> loader_action list" where
  "qwen3_attention present block attention_bias i =
     (let attn = ''model.layers.'' @ str_of_nat i @ ''.self_attn''
      in
       add_weight_and_scale_mapping present block (attn @ ''.c_attn.weight'')
         [attn @ ''.q_proj.weight'', attn @ ''.k_proj.weight'', attn @ ''.v_proj.weight''] (Concat 0) @
       (if attention_bias
        then map_param (attn @ ''.c_attn.bias'') [attn @ ''.q_proj.bias'', attn @ ''.k_proj.bias'', attn @ ''.v_proj.bias'']
               (Concat 0)
        else []))"

definition qwen3_layer :: "(string \<Rightarrow> bool) \<Rightarrow> (nat \<times> nat) option \<Rightarrow> bool \<Rightarrow> nat \<Rightarrow> loader_action list" where
  "qwen3_layer present block attention_bias i =
     (let mlp = ''model.layers.'' @ str_of_nat i @ ''.mlp''
      in
       qwen3_attention present block attention_bias i @
       add_weight_and_scale_mapping present block (mlp @ ''.gate_up_proj.weight'')
         [mlp @ ''.gate_proj.weight'', mlp @ ''.up_proj.weight''] (Concat 0))"

definition qwen3_loader :: "(string \<Rightarrow> bool) \<Rightarrow> nat \<Rightarrow> (nat \<times> nat) option \<Rightarrow> bool \<Rightarrow> bool \<Rightarrow> loader_program" where
  "qwen3_loader present num_hidden_layers block fp8 attention_bias =
     \<lparr>lp_actions =
         check_block_scale ''Qwen3'' block fp8 @
         concat (map (qwen3_layer present block attention_bias) [0..<num_hidden_layers]),
      lp_fallback = Some same_name, lp_after = []\<rparr>"

definition moe_experts :: "(string \<Rightarrow> bool) \<Rightarrow> (nat \<times> nat) option \<Rightarrow> string \<Rightarrow> nat \<Rightarrow> loader_action list" where
  "moe_experts present block mlp num_experts =
     [NonEmpty num_experts] @
     add_weight_and_scale_mapping present block (mlp @ ''.moe_gate_up_proj.weight'')
       (concat (map (\<lambda>expert_id. [mlp @ ''.experts.'' @ str_of_nat expert_id @ ''.gate_proj.weight'',
          mlp @ ''.experts.'' @ str_of_nat expert_id @ ''.up_proj.weight'']) [0..<num_experts])) StackPairs @
     add_weight_and_scale_mapping present block (mlp @ ''.moe_down_proj.weight'')
       (map (\<lambda>expert_id. mlp @ ''.experts.'' @ str_of_nat expert_id @ ''.down_proj.weight'') [0..<num_experts]) Stack"

definition qwen3_moe_layer ::
  "(string \<Rightarrow> bool) \<Rightarrow> (nat \<times> nat) option \<Rightarrow> bool \<Rightarrow> nat \<Rightarrow> nat \<Rightarrow> loader_action list" where
  "qwen3_moe_layer present block attention_bias num_experts i =
     qwen3_attention present block attention_bias i @
     moe_experts present block (''model.layers.'' @ str_of_nat i @ ''.mlp'') num_experts"

definition qwen3_moe_loader ::
  "(string \<Rightarrow> bool) \<Rightarrow> nat \<Rightarrow> (nat \<times> nat) option \<Rightarrow> bool \<Rightarrow> bool \<Rightarrow> nat \<Rightarrow> loader_program" where
  "qwen3_moe_loader present num_hidden_layers block fp8 attention_bias num_experts =
     \<lparr>lp_actions =
         check_block_scale ''Qwen3'' block fp8 @
         concat (map (qwen3_moe_layer present block attention_bias num_experts) [0..<num_hidden_layers]),
      lp_fallback = Some same_name, lp_after = []\<rparr>"

text \<open>The dimensions of the attention of DeepSeek-V2.\<close>

record mla_dims =
  num_key_value_heads :: nat
  qk_nope_head_dim :: nat
  v_head_dim :: nat
  kv_lora_rank :: nat

definition deepseek_v2_mlp ::
  "(string \<Rightarrow> bool) \<Rightarrow> (nat \<times> nat) option \<Rightarrow> nat \<Rightarrow> nat \<Rightarrow> nat \<Rightarrow> bool \<Rightarrow> nat \<Rightarrow> loader_action list" where
  "deepseek_v2_mlp present block first_k_dense_replace moe_layer_freq n_routed_experts noaux_tc i =
     (let mlp = ''model.layers.'' @ str_of_nat i @ ''.mlp'';
          shared_expert = mlp @ ''.shared_experts''
      in if i \<ge> first_k_dense_replace \<and> i mod moe_layer_freq = 0
         then
           add_weight_and_scale_mapping present block (shared_expert @ ''.gate_up_proj.weight'')
             [shared_expert @ ''.gate_proj.weight'', shared_expert @ ''.up_proj.weight''] (Concat 0) @
           moe_experts present block mlp n_routed_experts @
           (if noaux_tc
            then map_param (mlp @ ''.e_score_correction_bias'') [mlp @ ''.gate.e_score_correction_bias''] Cast
            else [])
         else
           add_weight_and_scale_mapping present block (mlp @ ''.gate_up_proj.weight'')
             [mlp @ ''.gate_proj.weight'', mlp @ ''.up_proj.weight''] (Concat 0))"

definition deepseek_v2_attention :: "(nat \<times> nat) option \<Rightarrow> mla_dims \<Rightarrow> nat \<Rightarrow> loader_action list" where
  "deepseek_v2_attention block d i =
     (let attn = ''model.layers.'' @ str_of_nat i @ ''.self_attn'';
          dims = [num_key_value_heads d, qk_nope_head_dim d + v_head_dim d, kv_lora_rank d];
          scale_dims = (\<lambda>(b0, b1). [num_key_value_heads d, (qk_nope_head_dim d + v_head_dim d) div b0, kv_lora_rank d div b1])
      in
       map_param (attn @ ''.w_uk'') [attn @ ''.kv_b_proj.weight''] (SplitUK dims (qk_nope_head_dim d)) @
       (case block of
          None \<Rightarrow> []
        | Some b \<Rightarrow> map_param (attn @ ''.w_uk_scale_inv'') [attn @ ''.kv_b_proj.weight_scale_inv'']
                      (SplitUK (scale_dims b) (qk_nope_head_dim d div fst b))) @
       map_param (attn @ ''.w_uv'') [attn @ ''.kv_b_proj.weight''] (SplitUV dims (qk_nope_head_dim d)) @
       (case block of
          None \<Rightarrow> []
        | Some b \<Rightarrow> map_param (attn @ ''.w_uv_scale_inv'') [attn @ ''.kv_b_proj.weight_scale_inv'']
                      (SplitUV (scale_dims b) (qk_nope_head_dim d div fst b))))"

definition deepseek_v2_loader ::
  "(string \<Rightarrow> bool) \<Rightarrow> nat \<Rightarrow> (nat \<times> nat) option \<Rightarrow> bool \<Rightarrow> nat \<Rightarrow> nat \<Rightarrow> nat \<Rightarrow> bool \<Rightarrow> mla_dims \<Rightarrow> loader_program" where
  "deepseek_v2_loader present num_hidden_layers block fp8 first_k_dense_replace moe_layer_freq n_routed_experts noaux_tc d =
     \<lparr>lp_actions =
         check_block_scale ''DeepSeek'' block fp8 @
         concat (map (\<lambda>i.
           deepseek_v2_mlp present block first_k_dense_replace moe_layer_freq n_routed_experts noaux_tc i @
           deepseek_v2_attention block d i) [0..<num_hidden_layers]),
      lp_fallback = Some same_name, lp_after = []\<rparr>"

text \<open>The configuration values that the loaders read.\<close>

record loader_config =
  lc_layers :: nat
  lc_vision_layers :: nat
  lc_experts :: nat
  lc_first_dense :: nat
  lc_moe_freq :: nat
  lc_rescale_every :: nat
  lc_heads :: nat
  lc_kv_heads :: nat
  lc_head_dim :: nat
  lc_hidden_size :: nat
  lc_is_text_model :: bool
  lc_tie_embeddings :: bool
  lc_ffn_out_dtype :: string
  lc_model_type :: string
  lc_attention_bias :: bool
  lc_block_scale :: "(nat \<times> nat) option"
  lc_fp8 :: bool
  lc_noaux_tc :: bool
  lc_mla_dims :: mla_dims

definition MODEL_LOADERS :: "(string \<Rightarrow> bool) \<Rightarrow> loader_config \<Rightarrow> (string \<times> loader_program) list" where
  "MODEL_LOADERS present c =
     [(''baichuan'', baichuan_loader (lc_layers c)),
      (''bert'', bert_loader (lc_layers c)),
      (''chatglm3'', chatglm3_loader),
      (''cohere'', cohere_loader (lc_layers c)),
      (''cohere_awq'', cohere_awq_loader (lc_layers c)),
      (''deepseek'', deepseek_loader (lc_layers c) (lc_first_dense c) (lc_moe_freq c) (lc_experts c)),
      (''eagle'', eagle_loader (lc_layers c)),
      (''eagle_awq'', eagle_awq_loader (lc_layers c)),
      (''gemma'', gemma_loader (lc_layers c)),
      (''gemma2'', gemma2_loader (lc_layers c)),
      (''gemma3'', gemma3_loader (lc_is_text_model c) (lc_layers c)),
      (''gpt2'', gpt2_loader (lc_layers c)),
      (''gpt_bigcode'', gpt_bigcode_loader),
      (''gpt_j'', gpt_j_loader (lc_layers c)),
      (''gpt_neox'', gpt_neox_loader (lc_layers c) (lc_heads c) (lc_head_dim c) (lc_ffn_out_dtype c)),
      (''internlm'', internlm_loader present (lc_layers c)),
      (''internlm2'', internlm2_loader (lc_layers c) (lc_heads c) (lc_kv_heads c) (lc_hidden_size c)),
      (''llava'', llava_loader (lc_layers c)),
      (''llava_awq'', llava_awq_loader (lc_layers c)),
      (''medusa'', medusa_loader),
      (''minicpm'', minicpm_loader (lc_layers c) (lc_experts c) (lc_tie_embeddings c)),
      (''mistral'', mistral_loader (lc_layers c)),
      (''mistral_awq'', mistral_awq_loader (lc_layers c)),
      (''mixtral'', mixtral_loader (lc_layers c) (lc_experts c)),
      (''nemotron'', nemotron_loader (lc_layers c)),
      (''olmo'', olmo_loader (lc_layers c)),
      (''olmo_awq'', olmo_awq_loader (lc_layers c)),
      (''orion'', orion_loader (lc_layers c)),
      (''phi1'', phi1_loader (lc_layers c)),
      (''phi3'', phi3_loader (lc_layers c)),
      (''phi3v'', phi3v_loader (lc_layers c) (lc_vision_layers c)),
      (''qwen'', qwen_loader (lc_layers c)),
      (''qwen2'', qwen2_loader (lc_layers c)),
      (''qwen2_moe'', qwen2_moe_loader (lc_layers c) (lc_experts c)),
      (''rwkv5'', rwkv5_loader (lc_layers c) (lc_rescale_every c)),
      (''rwkv6'', rwkv6_loader (lc_layers c) (lc_rescale_every c)),
      (''stable_lm'', stable_lm_loader present (lc_layers c)),
      (''starcoder2'', starcoder2_loader present (lc_layers c)),
      (''phi'', phi_loader (lc_model_type c) (lc_layers c)),
      (''qwen3'', qwen3_loader present (lc_layers c) (lc_block_scale c) (lc_fp8 c) (lc_attention_bias c)),
      (''qwen3_moe'', qwen3_moe_loader present (lc_layers c) (lc_block_scale c) (lc_fp8 c) (lc_attention_bias c) (lc_experts c)),
      (''deepseek_v2'', deepseek_v2_loader present (lc_layers c) (lc_block_scale c) (lc_fp8 c) (lc_first_dense c) (lc_moe_freq c)
         (lc_experts c) (lc_noaux_tc c) (lc_mla_dims c))]"

section \<open>Specifications and samples\<close>

text \<open>
  A mapping takes the type of the parameter it maps; it has a source; parts are joined along an axis.
\<close>

fun action_typed :: "loader_action \<Rightarrow> bool" where
  "action_typed (AddMapping name _ _ typed) = (name = typed)"
| "action_typed _ = True"

fun action_sourced :: "loader_action \<Rightarrow> bool" where
  "action_sourced (AddMapping _ sources _ _) = (sources \<noteq> [])"
| "action_sourced _ = True"

fun joins_along :: "nat \<Rightarrow> loader_action \<Rightarrow> bool" where
  "joins_along axis (AddMapping _ sources mop _) = (1 < length sources \<longrightarrow> mop = Concat axis)"
| "joins_along axis _ = True"

fun keeps_dtype :: "loader_action \<Rightarrow> bool" where
  "keeps_dtype (AddMapping _ _ mop _) = (case mop of ExpNegExp \<Rightarrow> False | Rescale _ \<Rightarrow> False | _ \<Rightarrow> True)"
| "keeps_dtype _ = True"

definition every_action :: "(loader_action \<Rightarrow> bool) \<Rightarrow> loader_program \<Rightarrow> bool" where
  "every_action Q p \<longleftrightarrow> list_all Q (lp_actions p) \<and> list_all Q (lp_after p)"

definition fallback_total :: "loader_program \<Rightarrow> bool" where
  "fallback_total p \<longleftrightarrow> (case lp_fallback p of None \<Rightarrow> False | Some f \<Rightarrow> \<forall>np. f np \<noteq> Inr None)"

definition same_dtype :: "fallback \<Rightarrow> bool" where
  "same_dtype f \<longleftrightarrow> (\<forall>k d src d'. f (k, d) = Inr (Some (src, d')) \<longrightarrow> d' = d)"

definition fallback_typed :: "loader_program \<Rightarrow> bool" where
  "fallback_typed p \<longleftrightarrow> (case lp_fallback p of None \<Rightarrow> True | Some f \<Rightarrow> same_dtype f)"

text \<open>The sources and the function of a parameter come from a statement of the loader or from its loop.\<close>

definition from_action ::
  "'d numpy_fns \<Rightarrow> (string \<times> string) list \<Rightarrow> loader_program \<Rightarrow> string \<Rightarrow> string list
     \<Rightarrow> ('d tensor list \<Rightarrow> 'd tensor res) \<Rightarrow> bool" where
  "from_action nd named p k ts f \<longleftrightarrow>
     (\<exists>mop typed dt. AddMapping k ts mop typed \<in> set (lp_actions p) \<union> set (lp_after p)
        \<and> map_of named typed = Some dt \<and> f = run_op nd mop dt)"

definition from_fallback ::
  "'d numpy_fns \<Rightarrow> (string \<times> string) list \<Rightarrow> loader_program \<Rightarrow> string \<Rightarrow> string list
     \<Rightarrow> ('d tensor list \<Rightarrow> 'd tensor res) \<Rightarrow> bool" where
  "from_fallback nd named p k ts f \<longleftrightarrow>
     (\<exists>fb dt src dt'. lp_fallback p = Some fb \<and> (k, dt) \<in> set named \<and> fb (k, dt) = Inr (Some (src, dt'))
        \<and> ts = [src] \<and> f = run_op nd Cast dt')"

definition mapping_from ::
  "'d numpy_fns \<Rightarrow> (string \<times> string) list \<Rightarrow> loader_program \<Rightarrow> 'd extern_mapping \<Rightarrow> bool" where
  "mapping_from nd named p m \<longleftrightarrow>
     distinct (map fst (em_param_map m)) \<and> dom (map_of (em_map_func m)) = dom (map_of (em_param_map m))
     \<and> (\<forall>k ts f. map_of (em_param_map m) k = Some ts \<longrightarrow> map_of (em_map_func m) k = Some f
          \<longrightarrow> from_action nd named p k ts f \<or> from_fallback nd named p k ts f)"

definition mapped_names :: "'d extern_mapping \<Rightarrow> string set" where
  "mapped_names m = fst ` set (em_param_map m)"

text \<open>What numpy documents of the types and shapes of its results.\<close>

definition float_dtypes :: "string list" where
  "float_dtypes = [''float16'', ''bfloat16'', ''float32'', ''float64'']"

definition numpy_types :: "'d numpy_fns \<Rightarrow> bool" where
  "numpy_types nd \<longleftrightarrow>
     (\<forall>d t. t_dtype (nd_astype nd d t) = d)
     \<and> (\<forall>t. t_dtype t \<in> set float_dtypes \<longrightarrow> t_dtype (nf_exp_neg_exp nd t) = t_dtype t)
     \<and> (\<forall>t n. t_dtype t \<in> set float_dtypes \<longrightarrow> t_dtype (nf_div nd t n) = t_dtype t)"

definition numpy_shapes :: "'d numpy_fns \<Rightarrow> bool" where
  "numpy_shapes nd \<longleftrightarrow>
     (\<forall>d t. t_shape (nd_astype nd d t) = t_shape t)
     \<and> (\<forall>axis ts t. nd_concatenate nd axis ts = Inr t \<longrightarrow>
          t_shape t = (t_shape (hd ts))[axis := sum_list (map (\<lambda>u. t_shape u ! axis) ts)])"

definition sample_fns :: "nat list numpy_fns" where
  "sample_fns = \<lparr>
     nd_concatenate = (\<lambda>axis ts.
       if ts \<noteq> [] \<and> list_all (\<lambda>u. axis < length (t_shape u)
            \<and> (t_shape u)[axis := 0] = (t_shape (hd ts))[axis := 0]) ts
       then Inr \<lparr>t_shape = (t_shape (hd ts))[axis := sum_list (map (\<lambda>u. t_shape u ! axis) ts)],
                 t_dtype = t_dtype (hd ts), t_data = concat (map t_data ts)\<rparr>
       else Inl (ValueError ''all the input array dimensions except for the concatenation axis must match exactly'')),
     nd_astype = (\<lambda>d t. t\<lparr>t_dtype := d\<rparr>),
     nf_stack = (\<lambda>_ _. Inl NotImplementedError), nf_transpose = (\<lambda>t. t\<lparr>t_shape := rev (t_shape t)\<rparr>), nf_swap_last = id,
     nf_plus_one = (\<lambda>t. t\<lparr>t_data := map Suc (t_data t)\<rparr>), nf_exp_neg_exp = id,
     nf_div = (\<lambda>t n. t\<lparr>t_data := map (\<lambda>x. x div n) (t_data t)\<rparr>),
     nf_reshape = (\<lambda>_ t. Inr t), nf_split = (\<lambda>_ _ t. Inr [t]), nf_split_even = (\<lambda>_ _ t. Inr [t])\<rparr>"

definition sample_config :: loader_config where
  "sample_config = \<lparr>lc_layers = 1, lc_vision_layers = 1, lc_experts = 2, lc_first_dense = 0, lc_moe_freq = 1,
     lc_rescale_every = 6, lc_heads = 4, lc_kv_heads = 2, lc_head_dim = 2, lc_hidden_size = 8, lc_is_text_model = True,
     lc_tie_embeddings = False, lc_ffn_out_dtype = ''float32'', lc_model_type = ''phi-msft'', lc_attention_bias = False,
     lc_block_scale = None, lc_fp8 = False, lc_noaux_tc = False,
     lc_mla_dims = \<lparr>num_key_value_heads = 1, qk_nope_head_dim = 1, v_head_dim = 1, kv_lora_rank = 1\<rparr>\<rparr>"

definition sample_head_weights :: "nat list weight_env" where
  "sample_head_weights = sample_weights\<lparr>we_torch := (\<lambda>_. [(''lm_head.weight'', Some (sample_tensor 0))])\<rparr>"

definition sample_awq_named :: "(string \<times> string) list" where
  "sample_awq_named =
     map (\<lambda>q. (''model.layers.0.self_attn.qkv_proj.'' @ q, ''uint32'')) [''qweight'', ''qzeros'', ''scales'']
     @ map (\<lambda>q. (''model.layers.0.mlp.gate_up_proj.'' @ q, ''uint32'')) [''qweight'', ''qzeros'', ''scales'']"

definition sample_awq :: awq_quantize where
  "sample_awq = \<lparr>aq_name = ''q4f16_autoawq'', aq_kind = ''awq'', aq_group_size = 128, aq_quantize_dtype = ''int4'',
     aq_storage_dtype = ''uint32'', aq_model_dtype = ''float16'', aq_elems = 8, aq_storages = 16, aq_max_int = 7\<rparr>"

section \<open>Lemmas\<close>

lemmas loader_fold_simps = res_bind_eq_Inr dict_get_Inr

lemma mapped_names_simps [simp]:
  "mapped_names (add_mapping k ts f m) = insert k (mapped_names m)"
  "mapped_names (add_unused n m) = mapped_names m"
  by (simp_all add: mapped_names_def add_mapping_def add_unused_def dict_set_fst)

lemma run_action_keys: "run_action nd named m a = Inr m' \<Longrightarrow> mapped_names m \<subseteq> mapped_names m'"
  by (cases a) (auto simp: loader_fold_simps split: if_splits)

lemma fallback_step_cases:
  assumes "fallback_step nd f m np = Inr m'"
  obtains (kept) "fst np \<in> mapped_names m \<or> f np = Inr None" "m' = m"
    | (added) src dt where "f np = Inr (Some (src, dt))" "m' = add_mapping (fst np) [src] (run_op nd Cast dt) m"
  using assms by (cases "f np") (auto simp: fallback_step_def mapped_names_def split: if_splits option.splits)

lemma fallback_step_keys: "fallback_step nd f m np = Inr m' \<Longrightarrow> mapped_names m \<subseteq> mapped_names m'"
  by (erule fallback_step_cases) auto

lemma res_fold_keys:
  assumes "res_fold g m xs = Inr m'" and "\<And>m x m'. g m x = Inr m' \<Longrightarrow> mapped_names m \<subseteq> mapped_names m'"
  shows "mapped_names m \<subseteq> mapped_names m'"
  using assms(1)
proof (induction xs arbitrary: m)
  case (Cons x xs)
  then obtain m1 where "g m x = Inr m1" "res_fold g m1 xs = Inr m'" by (auto simp: res_bind_eq_Inr)
  with assms(2) Cons.IH show ?case by blast
qed simp

lemma fallback_step_covers:
  assumes "fallback_step nd f m np = Inr m'" and "\<forall>np. f np \<noteq> Inr None"
  shows "fst np \<in> mapped_names m'"
  using assms(1) by (cases rule: fallback_step_cases) (use assms(2) in \<open>metis, simp\<close>)

lemma fallback_covers:
  assumes "res_fold (fallback_step nd f) m xs = Inr m'" and "\<forall>np. f np \<noteq> Inr None"
  shows "fst ` set xs \<subseteq> mapped_names m'"
  using assms(1)
proof (induction xs arbitrary: m)
  case (Cons x xs)
  then obtain m1 where m1: "fallback_step nd f m x = Inr m1" "res_fold (fallback_step nd f) m1 xs = Inr m'"
    by (auto simp: res_bind_eq_Inr)
  have "mapped_names m1 \<subseteq> mapped_names m'" by (rule res_fold_keys [OF m1(2)]) (rule fallback_step_keys)
  with fallback_step_covers [OF m1(1) assms(2)] Cons.IH [OF m1(2)] show ?case by auto
qed simp

lemma add_mapping_from:
  assumes "mapping_from nd named p m" and "from_action nd named p k ts f \<or> from_fallback nd named p k ts f"
  shows "mapping_from nd named p (add_mapping k ts f m)"
  using assms unfolding mapping_from_def
  by (simp add: add_mapping_def dict_set_lookup dict_set_keys)

lemma add_unused_from [simp]: "mapping_from nd named p (add_unused n m) = mapping_from nd named p m"
  by (simp add: mapping_from_def add_unused_def)

lemma run_action_from:
  assumes "run_action nd named m a = Inr m'" and "mapping_from nd named p m" and "a \<in> set (lp_actions p) \<union> set (lp_after p)"
  shows "mapping_from nd named p m'"
proof (cases a)
  case (AddMapping k ts mop typed)
  then obtain dt where "map_of named typed = Some dt" "m' = add_mapping k ts (run_op nd mop dt) m"
    using assms(1) by (auto simp: loader_fold_simps)
  moreover have "from_action nd named p k ts (run_op nd mop dt)"
    using assms(3) AddMapping calculation(1) unfolding from_action_def by blast
  ultimately show ?thesis using assms(2) by (simp add: add_mapping_from)
qed (use assms in \<open>auto simp: loader_fold_simps split: if_splits\<close>)

lemma fallback_step_from:
  assumes "fallback_step nd f m np = Inr m'" and "mapping_from nd named p m"
    and "np \<in> set named" and "lp_fallback p = Some f"
  shows "mapping_from nd named p m'"
  using assms(1)
proof (cases rule: fallback_step_cases)
  case (added src dt)
  have "from_fallback nd named p (fst np) [src] (run_op nd Cast dt)"
    using added(1) assms(3,4) unfolding from_fallback_def by (metis prod.collapse)
  with added(2) assms(2) show ?thesis by (simp add: add_mapping_from)
qed (use assms(2) in simp)

lemma res_fold_keeps_in:
  "res_fold f s xs = Inr s' \<Longrightarrow> Q s \<Longrightarrow> (\<And>s x s'. x \<in> set xs \<Longrightarrow> f s x = Inr s' \<Longrightarrow> Q s \<Longrightarrow> Q s') \<Longrightarrow> Q s'"
  by (induction xs arbitrary: s) (auto simp: res_bind_eq_Inr)

lemma run_program_steps:
  assumes "run_program nd named p = Inr m"
  obtains m1 m2 where "res_fold (run_action nd named) ExternMapping (lp_actions p) = Inr m1"
    and "(case lp_fallback p of None \<Rightarrow> Inr m1 | Some f \<Rightarrow> res_fold (fallback_step nd f) m1 named) = Inr m2"
    and "res_fold (run_action nd named) m2 (lp_after p) = Inr m"
  using assms by (auto simp: run_program_def res_bind_eq_Inr)

lemma run_program_from:
  assumes "run_program nd named p = Inr m"
  shows "mapping_from nd named p m"
proof -
  obtain m1 m2 where s: "res_fold (run_action nd named) ExternMapping (lp_actions p) = Inr m1"
    "(case lp_fallback p of None \<Rightarrow> Inr m1 | Some f \<Rightarrow> res_fold (fallback_step nd f) m1 named) = Inr m2"
    "res_fold (run_action nd named) m2 (lp_after p) = Inr m" using assms by (rule run_program_steps)
  have "mapping_from nd named p ExternMapping" by (simp add: mapping_from_def ExternMapping_def)
  then have m1: "mapping_from nd named p m1"
    using res_fold_keeps_in [OF s(1), of "mapping_from nd named p"] run_action_from by blast
  have "mapping_from nd named p m2"
  proof (cases "lp_fallback p")
    case (Some f)
    with s(2) have "res_fold (fallback_step nd f) m1 named = Inr m2" by simp
    from res_fold_keeps_in [OF this, of "mapping_from nd named p", OF m1] fallback_step_from Some show ?thesis by blast
  qed (use m1 s(2) in simp)
  then show ?thesis using res_fold_keeps_in [OF s(3), of "mapping_from nd named p"] run_action_from by blast
qed

lemma run_program_covers:
  assumes "run_program nd named p = Inr m" and "fallback_total p"
  shows "fst ` set named \<subseteq> mapped_names m"
proof -
  obtain m1 m2 where s: "(case lp_fallback p of None \<Rightarrow> Inr m1 | Some f \<Rightarrow> res_fold (fallback_step nd f) m1 named) = Inr m2"
    "res_fold (run_action nd named) m2 (lp_after p) = Inr m" using assms(1) by (rule run_program_steps)
  obtain f where "lp_fallback p = Some f" "\<forall>np. f np \<noteq> Inr None"
    using assms(2) by (auto simp: fallback_total_def split: option.splits)
  with s(1) fallback_covers [of nd f m1 named m2] have "fst ` set named \<subseteq> mapped_names m2" by simp
  moreover have "mapped_names m2 \<subseteq> mapped_names m" by (rule res_fold_keys [OF s(2)]) (rule run_action_keys)
  ultimately show ?thesis by blast
qed

text \<open>What the loaders of the registry have in common, and which of them are exceptions.\<close>

lemma list_all_concat: "list_all Q (concat xss) \<longleftrightarrow> list_all (list_all Q) xss"
  by (induction xss) auto

lemma list_all_map: "list_all Q (map g xs) \<longleftrightarrow> list_all (\<lambda>x. Q (g x)) xs"
  by (simp add: list.pred_map comp_def)

lemma list_all_if: "list_all Q (if b then xs else ys) \<longleftrightarrow> (b \<longrightarrow> list_all Q xs) \<and> (\<not> b \<longrightarrow> list_all Q ys)"
  by simp

lemma program_if:
  "lp_actions (if b then p else p') = (if b then lp_actions p else lp_actions p')"
  "lp_after (if b then p else p') = (if b then lp_after p else lp_after p')"
  "fallback_typed (if b then p else p') = (if b then fallback_typed p else fallback_typed p')"
  by simp_all

lemma list_all_option:
  "list_all Q (case x of None \<Rightarrow> ys | Some z \<Rightarrow> f z) \<longleftrightarrow> (x = None \<longrightarrow> list_all Q ys) \<and> (\<forall>z. x = Some z \<longrightarrow> list_all Q (f z))"
  by (simp split: option.split)

lemma experts_sourced:
  "0 < n \<Longrightarrow> ([0..<n] = []) = False" "0 < n \<Longrightarrow> (concat (map (\<lambda>e. x e # xs e) [0..<n]) = []) = False"
  by (auto simp: upt_rec)

lemma not_joined: "(1 < length [x]) = False"
  by simp

lemmas loader_defs =
  baichuan_layer_def baichuan_loader_def bert_layer_def bert_loader_def chatglm3_loader_def
  cohere_layer_def cohere_loader_def cohere_awq_layer_def cohere_awq_loader_def deepseek_layer_def
  deepseek_layer2_def deepseek_loader_def eagle_layer_def eagle_loader_def eagle_awq_layer_def
  eagle_awq_loader_def gemma_layer_def gemma_loader_def gemma2_layer_def gemma2_loader_def
  gemma3_layer_def gemma3_loader_def gpt2_layer_def gpt2_loader_def gpt_bigcode_loader_def
  gpt_j_layer_def gpt_j_loader_def gpt_neox_layer_def gpt_neox_loader_def internlm_layer_def
  internlm_loader_def internlm2_layer_def internlm2_loader_def llava_layer_def llava_loader_def
  llava_awq_layer_def llava_awq_loader_def medusa_loader_def minicpm_layer_def minicpm_layer2_def
  minicpm_layer3_def minicpm_loader_def mistral_layer_def mistral_loader_def mistral_awq_layer_def
  mistral_awq_loader_def mixtral_layer_def mixtral_loader_def nemotron_layer_def nemotron_loader_def
  olmo_layer_def olmo_loader_def olmo_awq_layer_def olmo_awq_loader_def orion_layer_def
  orion_loader_def phi1_layer_def phi1_loader_def phi3_layer_def phi3_loader_def phi3v_layer_def
  phi3v_layer2_def phi3v_loader_def qwen_layer_def qwen_loader_def qwen2_layer_def qwen2_loader_def
  qwen2_moe_layer_def qwen2_moe_loader_def rwkv5_layer_def rwkv5_loader_def rwkv6_layer_def
  rwkv6_loader_def stable_lm_layer_def stable_lm_loader_def starcoder2_layer_def
  starcoder2_loader_def
  phi_layer_def phi_loader_def check_block_scale_def add_weight_and_scale_mapping_def qwen3_attention_def
  qwen3_layer_def qwen3_loader_def moe_experts_def qwen3_moe_layer_def qwen3_moe_loader_def deepseek_v2_mlp_def
  deepseek_v2_attention_def deepseek_v2_loader_def

lemmas loader_eval = every_action_def map_param_def add_cast_def Let_def loader_program.simps list.pred_inject list_all_append
  list_all_concat list_all_map list_all_if program_if list.pred_True list_all_option simp_thms list.distinct not_joined map_op.case if_cancel

lemmas program_defs = baichuan_loader_def bert_loader_def chatglm3_loader_def cohere_loader_def cohere_awq_loader_def
  deepseek_loader_def eagle_loader_def eagle_awq_loader_def gemma_loader_def gemma2_loader_def
  gemma3_loader_def gpt2_loader_def gpt_bigcode_loader_def gpt_j_loader_def gpt_neox_loader_def
  internlm_loader_def internlm2_loader_def llava_loader_def llava_awq_loader_def medusa_loader_def
  minicpm_loader_def mistral_loader_def mistral_awq_loader_def mixtral_loader_def
  nemotron_loader_def olmo_loader_def olmo_awq_loader_def orion_loader_def phi1_loader_def
  phi3_loader_def phi3v_loader_def qwen_loader_def qwen2_loader_def qwen2_moe_loader_def
  rwkv5_loader_def rwkv6_loader_def stable_lm_loader_def starcoder2_loader_def phi_loader_def
  qwen3_loader_def qwen3_moe_loader_def deepseek_v2_loader_def

lemma loaders_typed:
  "list_all (\<lambda>(name, p). name \<in> {''gpt2'', ''qwen2_moe'', ''deepseek''} \<or> every_action action_typed p)
     (MODEL_LOADERS present c)"
  by (simp only: MODEL_LOADERS_def loader_defs loader_eval action_typed.simps prod.case insert_iff)

lemma loaders_sourced:
  assumes "0 < lc_experts c"
  shows "list_all (\<lambda>(name, p). every_action action_sourced p) (MODEL_LOADERS present c)"
  by (simp only: MODEL_LOADERS_def loader_defs loader_eval action_sourced.simps prod.case experts_sourced assms map_is_Nil_conv)

lemma loaders_keep_dtype:
  "list_all (\<lambda>(name, p). name \<in> {''rwkv5'', ''rwkv6''} \<or> every_action keeps_dtype p) (MODEL_LOADERS present c)"
  by (simp only: MODEL_LOADERS_def loader_defs loader_eval keeps_dtype.simps prod.case insert_iff)

lemma awq_join_outputs:
  "every_action (joins_along 1) (cohere_awq_loader n)"
  "every_action (joins_along 1) (eagle_awq_loader n)"
  "every_action (joins_along 1) (olmo_awq_loader n)"
  by (simp_all only: loader_defs loader_eval joins_along.simps)

lemma awq_join_inputs:
  "every_action (joins_along 0) (mistral_awq_loader n)"
  "every_action (joins_along 0) (llava_awq_loader n)"
  by (simp_all only: loader_defs loader_eval joins_along.simps)

lemma loaders_join_outputs:
  "list_all (\<lambda>(name, p). name \<in> {''cohere_awq'', ''eagle_awq'', ''olmo_awq''} \<longrightarrow> every_action (joins_along 1) p)
     (MODEL_LOADERS present c)"
  by (simp add: MODEL_LOADERS_def awq_join_outputs [unfolded One_nat_def])

lemma loaders_join_inputs:
  "list_all (\<lambda>(name, p). name \<in> {''mistral_awq'', ''llava_awq''} \<longrightarrow> every_action (joins_along 0) p)
     (MODEL_LOADERS present c)"
  by (simp add: MODEL_LOADERS_def awq_join_inputs)

lemma fallback_never_none [simp]:
  "same_name np \<noteq> Inr None" "gpt2_fallback np \<noteq> Inr None" "rwkv_fallback np \<noteq> Inr None"
  "gemma3_fallback pre np \<noteq> Inr None" "gpt_neox_fallback d np \<noteq> Inr None"
  "\<not> tied \<Longrightarrow> minicpm_fallback tied np \<noteq> Inr None"
  by (cases np; simp add: same_name_def gpt2_fallback_def rwkv_fallback_def gemma3_fallback_def gpt_neox_fallback_def
      minicpm_fallback_def split: list.split)+

lemma fallback_same_dtype [simp]:
  "same_dtype same_name" "same_dtype gpt2_fallback" "same_dtype rwkv_fallback" "same_dtype (gemma3_fallback pre)"
  "same_dtype (minicpm_fallback tied)"
  by (simp_all add: same_dtype_def same_name_def gpt2_fallback_def rwkv_fallback_def gemma3_fallback_def
      minicpm_fallback_def split: list.split)

lemma loaders_total:
  "list_all (\<lambda>(name, p). name \<in> {''phi'', ''phi1'', ''phi3''} \<or> name = ''minicpm'' \<and> lc_tie_embeddings c \<or> fallback_total p)
     (MODEL_LOADERS present c)"
  by (cases "lc_tie_embeddings c")
    (simp_all only: MODEL_LOADERS_def program_defs fallback_total_def loader_program.simps option.case prod.case
      fallback_never_none list.pred_inject insert_iff simp_thms Let_def)

lemma loaders_fallback_typed:
  "list_all (\<lambda>(name, p). name = ''gpt_neox'' \<or> fallback_typed p) (MODEL_LOADERS present c)"
  by (simp only: MODEL_LOADERS_def program_defs list.pred_inject prod.case Let_def program_if)
    (simp only: fallback_typed_def loader_program.simps option.case prod.case list.pred_inject simp_thms Let_def
      fallback_same_dtype if_cancel)

lemma in_loaders: "list_all Q xs \<Longrightarrow> (name, p) \<in> set xs \<Longrightarrow> Q (name, p)"
  by (simp add: list_all_iff)

lemmas typed_loader = in_loaders [OF loaders_typed, unfolded prod.case]
lemmas sourced_loader = in_loaders [OF loaders_sourced, unfolded prod.case]
lemmas joins_outputs_loader = in_loaders [OF loaders_join_outputs, unfolded prod.case]
lemmas joins_inputs_loader = in_loaders [OF loaders_join_inputs, unfolded prod.case]
lemmas dtype_loader = in_loaders [OF loaders_keep_dtype, unfolded prod.case]
lemmas total_loader = in_loaders [OF loaders_total, unfolded prod.case]
lemmas fallback_loader = in_loaders [OF loaders_fallback_typed, unfolded prod.case]

lemma every_action_in: "every_action Q p \<Longrightarrow> a \<in> set (lp_actions p) \<union> set (lp_after p) \<Longrightarrow> Q a"
  by (auto simp: every_action_def list_all_iff)

text \<open>The parameters that a program maps, their sources and the types of their values.\<close>

lemma run_program_entry:
  assumes "run_program nd named p = Inr m" and "map_of (em_map_func m) k = Some f"
  obtains ts where "map_of (em_param_map m) k = Some ts"
    and "from_action nd named p k ts f \<or> from_fallback nd named p k ts f"
proof -
  have m: "mapping_from nd named p m" by (rule run_program_from [OF assms(1)])
  then have "k \<in> dom (map_of (em_param_map m))" using assms(2) unfolding mapping_from_def by blast
  then obtain ts where "map_of (em_param_map m) k = Some ts" by blast
  with m assms(2) that show ?thesis unfolding mapping_from_def by blast
qed

lemma run_program_sources:
  assumes "run_program nd named p = Inr m" and "(k, ts) \<in> set (em_param_map m)"
  obtains f where "from_action nd named p k ts f \<or> from_fallback nd named p k ts f"
proof -
  have m: "mapping_from nd named p m" by (rule run_program_from [OF assms(1)])
  then have k: "map_of (em_param_map m) k = Some ts" using assms(2) by (simp add: mapping_from_def)
  with m obtain f where "map_of (em_map_func m) k = Some f" unfolding mapping_from_def by blast
  with m k that show ?thesis unfolding mapping_from_def by blast
qed

lemma program_sourced:
  assumes "run_program nd named p = Inr m" and "every_action action_sourced p"
  shows "[] \<notin> snd ` set (em_param_map m)"
proof
  assume "[] \<in> snd ` set (em_param_map m)"
  then obtain k where k: "(k, []) \<in> set (em_param_map m)" by auto
  show False by (rule run_program_sources [OF assms(1) k])
    (use every_action_in [OF assms(2)] in \<open>fastforce simp: from_action_def from_fallback_def\<close>)
qed

lemma program_within:
  assumes "run_program nd named p = Inr m" and "every_action action_typed p"
  shows "mapped_names m \<subseteq> fst ` set named"
proof
  fix k assume "k \<in> mapped_names m"
  then obtain ts where k: "(k, ts) \<in> set (em_param_map m)" by (auto simp: mapped_names_def)
  show "k \<in> fst ` set named"
  proof (rule run_program_sources [OF assms(1) k], elim disjE)
    fix f assume "from_action nd named p k ts f"
    then obtain mop dt where "map_of named k = Some dt"
      using every_action_in [OF assms(2)] unfolding from_action_def by fastforce
    then show ?thesis by (force dest: map_of_SomeD)
  qed (force simp: from_fallback_def)
qed

lemma run_op_dtype:
  assumes "run_op nd mop dt ts = Inr t" and "numpy_types nd"
    and "keeps_dtype (AddMapping k ss mop typed) \<or> dt \<in> set float_dtypes"
  shows "t_dtype t = dt"
  using assms by (cases mop) (auto simp: res_bind_eq_Inr numpy_types_def)

lemma program_dtype:
  assumes "run_program nd named p = Inr m" and "every_action action_typed p" and "fallback_typed p"
    and "every_action keeps_dtype p \<or> snd ` set named \<subseteq> set float_dtypes" and "distinct (map fst named)"
    and "numpy_types nd" and "map_of (em_map_func m) k = Some f" and "f ts = Inr t"
  shows "map_of named k = Some (t_dtype t)"
proof (rule run_program_entry [OF assms(1,7)], elim disjE)
  fix ss assume "from_action nd named p k ss f"
  then obtain mop typed dt where a: "AddMapping k ss mop typed \<in> set (lp_actions p) \<union> set (lp_after p)"
    "map_of named typed = Some dt" "f = run_op nd mop dt" unfolding from_action_def by blast
  have "typed = k" using every_action_in [OF assms(2) a(1)] by simp
  moreover have "keeps_dtype (AddMapping k ss mop typed) \<or> dt \<in> set float_dtypes"
    using assms(4) every_action_in [OF _ a(1)] map_of_SomeD [OF a(2)] by force
  then have "t_dtype t = dt" using run_op_dtype assms(6,8) a(3) by blast
  ultimately show ?thesis using a(2) by simp
next
  fix ss assume "from_fallback nd named p k ss f"
  then obtain fb dt src dt' where b: "lp_fallback p = Some fb" "(k, dt) \<in> set named" "fb (k, dt) = Inr (Some (src, dt'))"
    "f = run_op nd Cast dt'" unfolding from_fallback_def by blast
  have "dt' = dt" using assms(3) b(1,3) by (auto simp: fallback_typed_def same_dtype_def)
  moreover have "t_dtype t = dt'" using assms(6,8) b(4) by (auto simp: res_bind_eq_Inr numpy_types_def)
  ultimately show ?thesis using b(2) assms(5) by simp
qed

lemma program_joins:
  assumes "run_program nd named p = Inr m" and "every_action (joins_along axis) p"
    and "map_of (em_param_map m) k = Some ss" and "1 < length ss" and "map_of (em_map_func m) k = Some f"
  obtains dt where "f = run_op nd (Concat axis) dt"
proof (rule run_program_entry [OF assms(1,5)], elim disjE)
  fix ts assume ts: "map_of (em_param_map m) k = Some ts" "from_action nd named p k ts f"
  then obtain mop typed dt where a: "AddMapping k ss mop typed \<in> set (lp_actions p) \<union> set (lp_after p)"
    "f = run_op nd mop dt" using assms(3) unfolding from_action_def by auto
  from every_action_in [OF assms(2) a(1)] assms(4) a(2) that show thesis by simp
next
  fix ts assume "map_of (em_param_map m) k = Some ts" "from_fallback nd named p k ts f"
  then show thesis using assms(3,4) by (auto simp: from_fallback_def)
qed

text \<open>The shapes of joined AWQ weights.\<close>

lemma awq_qweight_shape [simp]:
  "pm_shape (al_qweight (AWQQuantizeLinear n m q b d)) = [DInt n, DInt (m div aq_elems q)]"
  by (simp add: AWQQuantizeLinear_def new_param_def)

lemma map_DInt_eq: "map DInt xs = map DInt ys \<longleftrightarrow> xs = ys"
  by (simp add: inj_map_eq_map inj_def)

lemma qweight_parts:
  assumes "map (\<lambda>u. map DInt (t_shape u)) ts = map (\<lambda>m. pm_shape (al_qweight (AWQQuantizeLinear n m q b d))) outs"
  shows "map t_shape ts = map (\<lambda>m. [n, m div aq_elems q]) outs"
proof -
  have "map (map DInt) (map t_shape ts) = map (map DInt) (map (\<lambda>m. [n, m div aq_elems q]) outs)"
    using assms by (simp add: comp_def)
  then show ?thesis by (rule map_injective) (simp add: inj_def map_DInt_eq)
qed

lemma joined_shape:
  assumes "numpy_shapes nd" and "run_op nd (Concat axis) dt ts = Inr t" and "outs \<noteq> []"
    and "map t_shape ts = map (\<lambda>m. [n, m div e]) outs"
  shows "t_shape t = [n, hd outs div e][axis := sum_list (map (\<lambda>m. [n, m div e] ! axis) outs)]"
proof -
  have "ts \<noteq> []" using assms(3,4) by auto
  then have "t_shape (hd ts) = [n, hd outs div e]" using assms(3) arg_cong [OF assms(4), of hd] by (simp add: hd_map)
  moreover have "map (\<lambda>u. t_shape u ! axis) ts = map (\<lambda>m. [n, m div e] ! axis) outs"
    using arg_cong [OF assms(4), of "map (\<lambda>s. s ! axis)"] by (simp add: comp_def)
  ultimately show ?thesis using assms(1,2) by (auto simp: res_bind_eq_Inr numpy_shapes_def)
qed

lemma sum_list_div: "\<forall>m \<in> set outs. e dvd (m :: nat) \<Longrightarrow> (\<Sum>m\<leftarrow>outs. m div e) = sum_list outs div e"
  by (induction outs) (simp_all add: div_plus_div_distrib_dvd_left)

lemma joined_inputs:
  assumes "numpy_shapes nd" and "run_op nd (Concat 0) dt ts = Inr t"
    and "map (\<lambda>u. map DInt (t_shape u)) ts = map (\<lambda>m. pm_shape (al_qweight (AWQQuantizeLinear n m q False None))) outs"
    and "0 < n" and "1 < length outs"
  shows "\<not> check_shape (t_shape t) (pm_shape (al_qweight (AWQQuantizeLinear n k q False None)))"
proof -
  have "t_shape t = [n, hd outs div aq_elems q][0 := sum_list (map (\<lambda>m. [n, m div aq_elems q] ! 0) outs)]"
    by (rule joined_shape [OF assms(1,2) _ qweight_parts [OF assms(3)]]) (use assms(5) in auto)
  then have "t_shape t = [length outs * n, hd outs div aq_elems q]" by (simp add: map_replicate_const sum_list_replicate)
  moreover have "length outs * n \<noteq> n" using assms(4,5) by simp
  ultimately show ?thesis by (simp add: check_shape_def)
qed

lemma joined_outputs:
  assumes "numpy_shapes nd" and "run_op nd (Concat 1) dt ts = Inr t"
    and "map (\<lambda>u. map DInt (t_shape u)) ts = map (\<lambda>m. pm_shape (al_qweight (AWQQuantizeLinear n m q False None))) outs"
    and "\<forall>m \<in> set outs. aq_elems q dvd m" and "1 < length outs"
  shows "check_shape (t_shape t) (pm_shape (al_qweight (AWQQuantizeLinear n (sum_list outs) q False None)))"
proof -
  have "t_shape t = [n, hd outs div aq_elems q][1 := sum_list (map (\<lambda>m. [n, m div aq_elems q] ! 1) outs)]"
    by (rule joined_shape [OF assms(1,2) _ qweight_parts [OF assms(3)]]) (use assms(5) in auto)
  then have "t_shape t = [n, sum_list outs div aq_elems q]" by (simp add: sum_list_div [OF assms(4)])
  then show ?thesis by (simp add: check_shape_def)
qed

text \<open>The samples of the witnesses.\<close>

lemma sample_loaders:
  "(''stable_lm'', stable_lm_loader (\<lambda>_. False) 1) \<in> set (MODEL_LOADERS (\<lambda>_. False) sample_config)"
  "(''mistral_awq'', mistral_awq_loader 1) \<in> set (MODEL_LOADERS (\<lambda>_. False) sample_config)"
  by (simp_all add: MODEL_LOADERS_def sample_config_def)

lemma sample_fns_laws: "numpy_types sample_fns" "numpy_shapes sample_fns"
  by (simp_all add: numpy_types_def numpy_shapes_def sample_fns_def)

section \<open>Properties\<close>

text \<open>The names that the loaders visit, whatever they do with the values. A loader that is created with the
  mapping of a family visits each parameter once; only parameters of the model, except for three families
  that take a type from elsewhere; and all of them, except for those of Phi that only map what they name,
  and for the tied output layer of MiniCPM. The number of experts is positive, since with none the
  stacked experts of a mixture would be mapped from no source; this leaves out MiniCPM without experts.\<close>

lemma model_loaders_cover:
  assumes "(name, p) \<in> set (MODEL_LOADERS present c)" and "0 < lc_experts c"
    and "run_program nd named p = Inr ext" and "loader_init env ext path = Inr s"
  shows "distinct (loading_order ext (ld_torch_to_path s))
    \<and> (name \<notin> {''gpt2'', ''qwen2_moe'', ''deepseek''} \<longrightarrow> set (loading_order ext (ld_torch_to_path s)) \<subseteq> fst ` set named)
    \<and> (name \<notin> {''phi'', ''phi1'', ''phi3''} \<and> \<not> (name = ''minicpm'' \<and> lc_tie_embeddings c)
        \<longrightarrow> fst ` set named \<subseteq> set (loading_order ext (ld_torch_to_path s)))"
proof -
  have "every_action action_sourced p" by (rule sourced_loader [OF assms(2,1)])
  then have o: "distinct (loading_order ext (ld_torch_to_path s))"
    "set (loading_order ext (ld_torch_to_path s)) = mapped_names ext"
    using sourced_loading_order [OF program_sourced [OF assms(3)] assms(4)] by (simp_all only: mapped_names_def)
  have "name \<notin> {''gpt2'', ''qwen2_moe'', ''deepseek''} \<longrightarrow> mapped_names ext \<subseteq> fst ` set named"
    using typed_loader [OF assms(1)] program_within [OF assms(3)] by iprover
  moreover have "name \<notin> {''phi'', ''phi1'', ''phi3''} \<and> \<not> (name = ''minicpm'' \<and> lc_tie_embeddings c) \<longrightarrow> fst ` set named \<subseteq> mapped_names ext"
    using total_loader [OF assms(1)] run_program_covers [OF assms(3)] by iprover
  ultimately show ?thesis using o by (simp only: simp_thms)
qed

text \<open>C27: values have the type of their parameter. Whatever value, before quantization, the mapping of a
  family gives for a name, the name is that of a parameter of the model and the value has its type. This is
  stated for all families but four: GPT-2, Qwen2-MoE and DeepSeek take the type of one parameter from
  another, and GPT-NeoX has a type of its own for some layers. For RWKV 5 and 6, which compute with a value
  after its cast, the types of the model are floating-point types.\<close>

theorem model_loaders_typed:
  assumes "(name, p) \<in> set (MODEL_LOADERS present c)" and "name \<notin> {''gpt2'', ''qwen2_moe'', ''deepseek'', ''gpt_neox''}"
    and "name \<in> {''rwkv5'', ''rwkv6''} \<longrightarrow> snd ` set named \<subseteq> set float_dtypes" and "distinct (map fst named)"
    and "numpy_types nd" and "\<forall>t. t_dtype (we_ndarray env t) = t_dtype t"
    and "run_program nd named p = Inr ext" and "param_value env ext t2p k = Inr t"
  shows "map_of named k = Some (t_dtype t)"
proof -
  obtain f ts u where f: "map_of (em_map_func ext) k = Some f" "f ts = Inr u" "t = we_ndarray env u"
    using assms(8) by (auto simp: param_value_def res_bind_eq_Inr dict_get_Inr)
  have "every_action action_typed p" using typed_loader [OF assms(1)] assms(2) by (simp only: insert_iff) iprover
  moreover have "fallback_typed p" using fallback_loader [OF assms(1)] assms(2) by (simp only: insert_iff) iprover
  moreover have "every_action keeps_dtype p \<or> snd ` set named \<subseteq> set float_dtypes"
    using dtype_loader [OF assms(1)] assms(3) by iprover
  ultimately have "map_of named k = Some (t_dtype u)" using program_dtype [OF assms(7) _ _ _ assms(4,5) f(1,2)] by iprover
  with f(3) assms(6) show ?thesis by simp
qed

theorem model_loaders_typed_witness:
  "\<exists>ext t. run_program sample_fns sample_llama_named (stable_lm_loader (\<lambda>_. False) 1) = Inr ext
     \<and> param_value sample_head_weights ext [(''lm_head.weight'', ''a.bin'')] ''lm_head.weight'' = Inr t
     \<and> map_of sample_llama_named ''lm_head.weight'' = Some (t_dtype t)"
proof -
  have "\<not> isl (res_bind (run_program sample_fns sample_llama_named (stable_lm_loader (\<lambda>_. False) 1))
     (\<lambda>ext. param_value sample_head_weights ext [(''lm_head.weight'', ''a.bin'')] ''lm_head.weight''))" by code_simp
  then obtain ext t where e: "run_program sample_fns sample_llama_named (stable_lm_loader (\<lambda>_. False) 1) = Inr ext"
    "param_value sample_head_weights ext [(''lm_head.weight'', ''a.bin'')] ''lm_head.weight'' = Inr t"
    by (auto simp: not_isl_Inr res_bind_eq_Inr)
  have d: "distinct (map fst sample_llama_named)" by (simp add: sample_llama_named_def)
  have w: "\<forall>t. t_dtype (we_ndarray sample_head_weights t) = t_dtype t" by (simp add: sample_head_weights_def sample_weights_def)
  have n: "''stable_lm'' \<notin> {''gpt2'', ''qwen2_moe'', ''deepseek'', ''gpt_neox''}"
    "''stable_lm'' \<in> {''rwkv5'', ''rwkv6''} \<longrightarrow> snd ` set sample_llama_named \<subseteq> set float_dtypes" by simp_all
  from model_loaders_typed [OF sample_loaders(1) n d sample_fns_laws(1) w e] e show ?thesis by blast
qed

text \<open>C28: AWQ weights are joined along the axis of the outputs in three families and along that of the
  inputs in Mistral and LLaVA. The parts of a fused layer have the shapes of quantized layers with the
  same inputs; joined, they have the shape that the fused layer expects in the former families and
  never in the latter.\<close>

theorem awq_fused_shape:
  assumes "(name, p) \<in> set (MODEL_LOADERS present c)"
    and "name \<in> {''cohere_awq'', ''eagle_awq'', ''olmo_awq'', ''mistral_awq'', ''llava_awq''}"
    and "numpy_shapes nd" and "run_program nd named p = Inr ext"
    and "map_of (em_param_map ext) k = Some srcs" and "1 < length srcs" and "map_of (em_map_func ext) k = Some f"
    and "length outs = length srcs" and "0 < n" and "\<forall>out_features \<in> set outs. aq_elems q dvd out_features"
    and "map (\<lambda>u. map DInt (t_shape u)) ts = map (\<lambda>m. pm_shape (al_qweight (AWQQuantizeLinear n m q False None))) outs"
    and "f ts = Inr t"
  shows "check_shape (t_shape t) (pm_shape (al_qweight (AWQQuantizeLinear n (sum_list outs) q False None)))
    \<longleftrightarrow> name \<notin> {''mistral_awq'', ''llava_awq''}"
proof (cases "name \<in> {''mistral_awq'', ''llava_awq''}")
  case True
  have "every_action (joins_along 0) p" by (rule joins_inputs_loader [OF assms(1), rule_format, OF True])
  from program_joins [OF assms(4) this assms(5-7)] obtain dt where f: "f = run_op nd (Concat 0) dt" .
  have "\<not> check_shape (t_shape t) (pm_shape (al_qweight (AWQQuantizeLinear n (sum_list outs) q False None)))"
    by (rule joined_inputs [OF assms(3) _ assms(11,9)]) (use assms(6,8,12) f in simp_all)
  with True show ?thesis by iprover
next
  case False
  with assms(2) have "name \<in> {''cohere_awq'', ''eagle_awq'', ''olmo_awq''}" by (simp only: insert_iff empty_iff simp_thms)
  then have "every_action (joins_along 1) p" by (rule joins_outputs_loader [OF assms(1), rule_format])
  from program_joins [OF assms(4) this assms(5-7)] obtain dt where f: "f = run_op nd (Concat 1) dt" .
  have "check_shape (t_shape t) (pm_shape (al_qweight (AWQQuantizeLinear n (sum_list outs) q False None)))"
    by (rule joined_outputs [OF assms(3) _ assms(11,10)]) (use assms(6,8,12) f in simp_all)
  with False show ?thesis by iprover
qed

theorem awq_fused_shape_witness:
  "\<exists>ext f t. run_program sample_fns sample_awq_named (mistral_awq_loader 1) = Inr ext
     \<and> map_of (em_map_func ext) ''model.layers.0.self_attn.qkv_proj.qweight'' = Some f
     \<and> f (replicate 3 \<lparr>t_shape = [4, 1], t_dtype = ''uint32'', t_data = [1, 2, 3, 4]\<rparr>) = Inr t
     \<and> \<not> check_shape (t_shape t) (pm_shape (al_qweight (AWQQuantizeLinear 4 24 sample_awq False None)))"
proof -
  let ?k = "''model.layers.0.self_attn.qkv_proj.qweight''"
  let ?ts = "replicate 3 \<lparr>t_shape = [4, 1], t_dtype = ''uint32'', t_data = [1, 2, 3, 4 :: nat]\<rparr>"
  have "(case run_program sample_fns sample_awq_named (mistral_awq_loader 1) of
     Inl _ \<Rightarrow> None
   | Inr ext \<Rightarrow> Some (map_option length (map_of (em_param_map ext) ?k),
       map_option (\<lambda>f. isl (f ?ts)) (map_of (em_map_func ext) ?k))) = Some (Some 3, Some False)" by code_simp
  then obtain ext f t srcs where e: "run_program sample_fns sample_awq_named (mistral_awq_loader 1) = Inr ext"
    "map_of (em_map_func ext) ?k = Some f" "f ?ts = Inr t"
    and srcs: "map_of (em_param_map ext) ?k = Some srcs" "length srcs = 3"
    by (auto simp: not_isl_Inr split: sum.splits)
  have "check_shape (t_shape t) (pm_shape (al_qweight (AWQQuantizeLinear 4 (sum_list [8, 8, 8]) sample_awq False None)))
    \<longleftrightarrow> ''mistral_awq'' \<notin> {''mistral_awq'', ''llava_awq''}"
    by (rule awq_fused_shape [OF sample_loaders(2) _ sample_fns_laws(2) e(1) srcs(1) _ e(2) _ _ _ _ e(3)])
      (simp_all add: srcs(2) sample_awq_def numeral_3_eq_3)
  with e show ?thesis by auto
qed

end
