(* ===== verification/Tokenizer_Convert.thy ===== *)
theory Tokenizer_Convert
  imports Py_Parse "HOL-Library.Word"
begin

text \<open>
  The conversion of tiktoken vocabularies, support/convert\_tiktoken.py: byte pair encoding and the
  vocabulary and merges that are written for the tokenizers library. The theorems say what the
  encoding returns and that every merge rule can be built from the rules before it.
\<close>

section \<open>Byte pair encoding\<close>

type_synonym bytes = "8 word list"

text \<open>
  One pass over the neighbours: the first pair of least rank. \<open>i\<close> is the index of the head of the list.
\<close>

fun min_pair :: "(bytes \<times> int) list \<Rightarrow> nat \<Rightarrow> bytes list \<Rightarrow> (nat \<times> int) option \<Rightarrow> (nat \<times> int) option" where
  "min_pair ranks i (a # b # parts) acc =
     min_pair ranks (Suc i) (b # parts)
       (case map_of ranks (a @ b) of
          None \<Rightarrow> acc
        | Some rank \<Rightarrow> (case acc of
              None \<Rightarrow> Some (i, rank)
            | Some (_, min_rank) \<Rightarrow> if rank < min_rank then Some (i, rank) else acc))"
| "min_pair ranks i _ acc = acc"

definition merge_at :: "nat \<Rightarrow> bytes list \<Rightarrow> bytes list" where
  "merge_at i parts = take i parts @ [parts ! i @ parts ! (i + 1)] @ drop (i + 2) parts"

lemma min_pair_index:
  "min_pair ranks i parts acc = Some (j, r) \<Longrightarrow> (\<forall>k s. acc = Some (k, s) \<longrightarrow> k < i) \<Longrightarrow>
   acc = Some (j, r) \<or> (i \<le> j \<and> Suc (j - i) < length parts \<and> map_of ranks (parts ! (j - i) @ parts ! Suc (j - i)) = Some r)"
proof (induction ranks i parts acc rule: min_pair.induct)
  case (1 ranks i a b parts acc)
  let ?acc = "case map_of ranks (a @ b) of None \<Rightarrow> acc
      | Some rank \<Rightarrow> (case acc of None \<Rightarrow> Some (i, rank)
          | Some (_, min_rank) \<Rightarrow> if rank < min_rank then Some (i, rank) else acc)"
  have a: "?acc = acc \<or> (\<exists>rank. map_of ranks (a @ b) = Some rank \<and> ?acc = Some (i, rank))"
    by (auto split: option.splits)
  then have "\<forall>k s. ?acc = Some (k, s) \<longrightarrow> k < Suc i" using "1.prems"(2) by (auto simp: less_Suc_eq)
  from "1.IH" [OF _ this] "1.prems"(1)
  consider "?acc = Some (j, r)" | "Suc i \<le> j" "Suc (j - Suc i) < length (b # parts)"
      "map_of ranks ((b # parts) ! (j - Suc i) @ (b # parts) ! Suc (j - Suc i)) = Some r" by auto
  then show ?case
  proof cases
    case 1
    with a show ?thesis by auto
  next
    case 2
    then obtain d where "j = Suc (i + d)" by (metis add_Suc le_Suc_ex)
    with 2 show ?thesis by auto
  qed
qed auto

lemma min_pair_first:
  "min_pair ranks 0 parts None = Some (j, r) \<Longrightarrow> Suc j < length parts \<and> map_of ranks (parts ! j @ parts ! Suc j) = Some r"
  using min_pair_index [of ranks 0 parts None j r] by simp

text \<open>The loop of \<open>bpe\<close>: every round merges two neighbours, so it ends.\<close>

function bpe_loop :: "(bytes \<times> int) list \<Rightarrow> int option \<Rightarrow> bytes list \<Rightarrow> bytes list" where
  "bpe_loop ranks max_rank parts =
     (case min_pair ranks 0 parts None of
        None \<Rightarrow> parts
      | Some (min_idx, min_rank) \<Rightarrow>
          if (case max_rank of None \<Rightarrow> False | Some m \<Rightarrow> m \<le> min_rank) then parts
          else bpe_loop ranks max_rank (merge_at min_idx parts))"
  by pat_completeness auto
termination
  by (relation "measure (\<lambda>(_, _, parts). length parts)") (auto simp: merge_at_def dest!: min_pair_first)

declare bpe_loop.simps [simp del]

definition bpe :: "(bytes \<times> int) list \<Rightarrow> bytes \<Rightarrow> int option \<Rightarrow> bytes list" where
  "bpe ranks token max_rank = bpe_loop ranks max_rank (map (\<lambda>b. [b]) token)"

section \<open>Vocabulary and merges\<close>

text \<open>
  \<open>byte_encoder\<close> is the table of transformers that gives each byte a printable character.
\<close>

definition token_bytes_to_string :: "(8 word \<Rightarrow> string) \<Rightarrow> bytes \<Rightarrow> string" where
  "token_bytes_to_string byte_encoder b = concat (map byte_encoder b)"

definition vocab_step ::
  "(8 word \<Rightarrow> string) \<Rightarrow> (bytes \<times> int) list \<Rightarrow> (string \<times> int) list \<times> string list \<Rightarrow> bytes \<times> int
     \<Rightarrow> ((string \<times> int) list \<times> string list) res" where
  "vocab_step enc ranks = (\<lambda>(vocab, merges) (token, rank).
     let vocab = dict_set vocab (token_bytes_to_string enc token) rank
     in if length token = 1 then Inr (vocab, merges)
        else let merged = bpe ranks token (Some rank)
             in res_bind (res_assert (length merged = 2) []) (\<lambda>_.
                  Inr (vocab, merges @ [py_join '' '' (map (token_bytes_to_string enc) merged)])))"

definition generate_vocab_and_merges ::
  "(8 word \<Rightarrow> string) \<Rightarrow> (string \<times> int) list \<Rightarrow> (bytes \<times> int) list \<Rightarrow> ((string \<times> int) list \<times> string list) res" where
  "generate_vocab_and_merges enc special_tokens mergeable_ranks =
     res_bind (res_fold (vocab_step enc mergeable_ranks) ([], []) mergeable_ranks) (\<lambda>(vocab, merges).
       Inr (dict_update vocab special_tokens, merges))"

text \<open>The parts that may come out: no neighbours could still be merged.\<close>

definition settled :: "(bytes \<times> int) list \<Rightarrow> int option \<Rightarrow> bytes list \<Rightarrow> bool" where
  "settled ranks max_rank =
     successively (\<lambda>a b. \<forall>s. map_of ranks (a @ b) = Some s \<longrightarrow> (\<exists>m. max_rank = Some m \<and> m \<le> s))"

text \<open>A single byte, or a token of lower rank.\<close>

definition known_part :: "(bytes \<times> int) list \<Rightarrow> int option \<Rightarrow> bytes \<Rightarrow> bool" where
  "known_part ranks max_rank p \<longleftrightarrow>
     length p = 1 \<or> (\<exists>s. map_of ranks p = Some s \<and> (\<forall>m. max_rank = Some m \<longrightarrow> s < m))"

definition sample_ranks :: "(bytes \<times> int) list" where
  "sample_ranks = [([97], 0), ([98], 1), ([99], 2), ([97, 98], 3), ([97, 98, 99], 4)]"

section \<open>Lemmas\<close>

lemma min_pair_least:
  "case min_pair ranks i parts acc of
      None \<Rightarrow> acc = None \<and> successively (\<lambda>a b. map_of ranks (a @ b) = None) parts
    | Some (_, r) \<Rightarrow> (\<forall>j s. acc = Some (j, s) \<longrightarrow> r \<le> s)
        \<and> successively (\<lambda>a b. \<forall>s. map_of ranks (a @ b) = Some s \<longrightarrow> r \<le> s) parts"
proof (induction ranks i parts acc rule: min_pair.induct)
  case (1 ranks i a b parts acc)
  then show ?case by (force split: option.splits prod.splits if_splits)
qed (auto split: option.split)

lemma concat_merge_at: "Suc i < length parts \<Longrightarrow> concat (merge_at i parts) = concat parts"
proof -
  assume i: "Suc i < length parts"
  then have "parts = take i parts @ parts ! i # parts ! Suc i # drop (i + 2) parts"
    by (metis Cons_nth_drop_Suc Suc_lessD add_2_eq_Suc' append_take_drop_id)
  then have "concat parts = concat (take i parts @ parts ! i # parts ! Suc i # drop (i + 2) parts)" by simp
  then show ?thesis by (simp add: merge_at_def)
qed

lemma set_merge_at: "Suc i < length parts \<Longrightarrow> set (merge_at i parts) \<subseteq> insert (parts ! i @ parts ! Suc i) (set parts)"
  by (auto simp: merge_at_def dest: in_set_takeD in_set_dropD)

lemma bpe_loop_correct:
  "concat (bpe_loop ranks max_rank parts) = concat parts \<and> settled ranks max_rank (bpe_loop ranks max_rank parts)
   \<and> ((\<forall>p \<in> set parts. known_part ranks max_rank p) \<longrightarrow> (\<forall>p \<in> set (bpe_loop ranks max_rank parts). known_part ranks max_rank p))"
proof (induction ranks max_rank parts rule: bpe_loop.induct)
  case (1 ranks max_rank parts)
  note least = min_pair_least [where ranks = ranks and i = 0 and parts = parts and acc = None]
  show ?case
  proof (cases "min_pair ranks 0 parts None")
    case None
    then have "successively (\<lambda>a b. map_of ranks (a @ b) = None) parts" using least by simp
    then have "settled ranks max_rank parts" unfolding settled_def by (rule successively_mono) simp
    with None show ?thesis by (simp add: bpe_loop.simps [of ranks max_rank parts])
  next
    case (Some x)
    obtain j r where x: "x = (j, r)" by fastforce
    have j: "Suc j < length parts" "map_of ranks (parts ! j @ parts ! Suc j) = Some r"
      using min_pair_first Some x by blast+
    have s: "successively (\<lambda>a b. \<forall>s. map_of ranks (a @ b) = Some s \<longrightarrow> r \<le> s) parts" using least Some x by simp
    show ?thesis
    proof (cases "case max_rank of None \<Rightarrow> False | Some m \<Rightarrow> m \<le> r")
      case True
      then obtain m where m: "max_rank = Some m" "m \<le> r" by (auto split: option.splits)
      have "settled ranks max_rank parts" unfolding settled_def
        using s by (rule successively_mono) (use m in fastforce)
      with True Some x show ?thesis by (simp add: bpe_loop.simps [of ranks max_rank parts])
    next
      case False
      then have k: "known_part ranks max_rank (parts ! j @ parts ! Suc j)"
        using j(2) by (auto simp: known_part_def split: option.splits)
      have l: "bpe_loop ranks max_rank parts = bpe_loop ranks max_rank (merge_at j parts)"
        using False Some x by (simp add: bpe_loop.simps [of ranks max_rank parts])
      show ?thesis
        using 1 [OF Some x [symmetric] False] k set_merge_at [OF j(1)] concat_merge_at [OF j(1)] unfolding l by auto
    qed
  qed
qed

lemma bpe_parts: "p \<in> set (bpe ranks token max_rank) \<Longrightarrow> known_part ranks max_rank p"
  using bpe_loop_correct [of ranks max_rank "map (\<lambda>b. [b]) token"] by (auto simp: bpe_def known_part_def)

lemma concat_bytes: "concat (map (\<lambda>b. [b]) token) = token"
  by (induction token) auto

lemma vocab_fold_merges:
  assumes "res_fold (vocab_step enc ranks) (vocab, merges) items = Inr (vocab', merges')"
  shows "\<exists>new. merges' = merges @ new
    \<and> list_all2 (\<lambda>(token, rank) m. \<exists>a b. token = a @ b
         \<and> m = token_bytes_to_string enc a @ '' '' @ token_bytes_to_string enc b
         \<and> known_part ranks (Some rank) a \<and> known_part ranks (Some rank) b)
        (filter (\<lambda>(token, _). length token \<noteq> 1) items) new"
  using assms
proof (induction items arbitrary: vocab merges)
  case (Cons x items)
  obtain token rank where x: "x = (token, rank)" by fastforce
  show ?case
  proof (cases "length token = 1")
    case True
    with Cons show ?thesis by (simp add: x vocab_step_def Let_def)
  next
    case False
    from Cons.prems False obtain a b where m: "bpe ranks token (Some rank) = [a, b]"
      and r: "res_fold (vocab_step enc ranks)
        (dict_set vocab (token_bytes_to_string enc token) rank,
         merges @ [token_bytes_to_string enc a @ '' '' @ token_bytes_to_string enc b]) items = Inr (vocab', merges')"
      by (auto simp: x vocab_step_def Let_def res_bind_eq_Inr length_Suc_conv numeral_2_eq_2)
    have "token = a @ b"
      using bpe_loop_correct [of ranks "Some rank" "map (\<lambda>b. [b]) token"] m by (simp add: bpe_def concat_bytes)
    moreover have "known_part ranks (Some rank) a" "known_part ranks (Some rank) b" 
      using bpe_parts [of _ ranks token "Some rank"] m by simp_all
    ultimately show ?thesis using Cons.IH [OF r] False by (auto simp: x)
  qed
qed simp

lemma sample_ranks_merges:
  "generate_vocab_and_merges (\<lambda>b. [char_of (unat b)]) [(''<eos>'', 5)] sample_ranks
     = Inr ([(''a'', 0), (''b'', 1), (''c'', 2), (''ab'', 3), (''abc'', 4), (''<eos>'', 5)], [''a b'', ''ab c''])"
  by code_simp

section \<open>Properties\<close>

text \<open>C35: byte pair encoding splits a token into parts that join to it again, each a single byte or a
  token of the vocabulary below the rank limit, and stops only when no two neighbours form a token
  below the limit.\<close>

theorem bpe_correct:
  "concat (bpe ranks token max_rank) = token \<and> settled ranks max_rank (bpe ranks token max_rank)
   \<and> list_all (known_part ranks max_rank) (bpe ranks token max_rank)"
  using bpe_loop_correct [of ranks max_rank "map (\<lambda>b. [b]) token"] bpe_parts [of _ ranks token max_rank]
  by (simp add: bpe_def concat_bytes list_all_iff)

text \<open>C36: the merges file has one rule for every token of more than one byte, in the order of the
  ranks: two parts that join to the token, each a single byte or a token of lower rank, so that every
  rule can apply once those before it have.\<close>

theorem merges_buildable:
  assumes "generate_vocab_and_merges enc special_tokens ranks = Inr (vocab, merges)"
  shows "list_all2 (\<lambda>(token, rank) m. \<exists>a b. token = a @ b
         \<and> m = token_bytes_to_string enc a @ '' '' @ token_bytes_to_string enc b
         \<and> known_part ranks (Some rank) a \<and> known_part ranks (Some rank) b)
        (filter (\<lambda>(token, _). length token \<noteq> 1) ranks) merges"
  using assms vocab_fold_merges [of enc ranks "[]" "[]" ranks]
  by (auto simp: generate_vocab_and_merges_def res_bind_eq_Inr)

theorem merges_buildable_witness:
  "length (filter (\<lambda>(token, _). length token \<noteq> 1) sample_ranks) = length [''a b'', ''ab c'']"
  using merges_buildable [OF sample_ranks_merges] by (rule list_all2_lengthD)

end
