(* ===== verification/Gen_Config.thy ===== *)
theory Gen_Config
  imports Weight_Loader Tokenizer_Convert Conv_Templates Engine_Config
begin

text \<open>
  Configurations and their overrides, support/config.py, and the generator of mlc-chat-config.json,
  interface/gen\_config.py. The file system, the transformers library and the detection of the
  tokenizer are fields of \<open>gen_env\<close>. The theorems say where the value of every optional field comes
  from and what an override changes.
\<close>

section \<open>support/config.py\<close>

text \<open>
  A configuration object: its class, the values of its fields but \<open>kwargs\<close>, and \<open>kwargs\<close>. A class is
  its name, the names of its fields and its constructor, which runs \<open>__post_init__\<close>.
\<close>

record config =
  cfg_fields :: "(string \<times> json) list"
  cfg_kwargs :: "(string \<times> json) list"

record config_class =
  cls_name :: string
  cls_field_names :: "string list"
  cls_new :: "(string \<times> json) list \<Rightarrow> (string \<times> json) list \<Rightarrow> config res"

definition from_dict :: "config_class \<Rightarrow> (string \<times> json) list \<Rightarrow> config res" where
  "from_dict cls source =
     (let fields = filter (\<lambda>(k, _). k \<in> set (cls_field_names cls)) source;
          kwargs = filter (\<lambda>(k, _). k \<notin> set (cls_field_names cls)) source
      in if ''kwargs'' \<in> fst ` set fields
         then Inl (TypeError (cls_name cls @ ''() got multiple values for keyword argument '' @ [CHR 0x27] @ ''kwargs'' @ [CHR 0x27]))
         else cls_new cls fields kwargs)"

definition asdict :: "config \<Rightarrow> (string \<times> json) list" where
  "asdict c = cfg_fields c"

text \<open>An override: the values of its fields in their order; \<open>None\<close> leaves a field as it is.\<close>

type_synonym config_override = "(string \<times> json option) list"

definition override_step :: "(string \<times> json) list \<Rightarrow> string \<times> json option \<Rightarrow> (string \<times> json) list" where
  "override_step updated = (\<lambda>(key, value). case value of
     None \<Rightarrow> updated
   | Some v \<Rightarrow> if key \<notin> fst ` set updated then updated else dict_set updated key v)"

definition apply_override :: "config_override \<Rightarrow> config_class \<Rightarrow> config \<Rightarrow> config res" where
  "apply_override override cls c = from_dict cls (foldl override_step (asdict c) override)"

section \<open>interface/gen\_config.py\<close>

text \<open>\<open>setattr\<close> of the fields that may be missing.\<close>

definition chat_config_setattr :: "string \<Rightarrow> json option \<Rightarrow> mlc_chat_config \<Rightarrow> mlc_chat_config" where
  "chat_config_setattr key v c =
     (if key = ''pad_token_id'' then c\<lparr>mcc_pad_token_id := v\<rparr>
      else if key = ''bos_token_id'' then c\<lparr>mcc_bos_token_id := v\<rparr>
      else if key = ''eos_token_id'' then c\<lparr>mcc_eos_token_id := v\<rparr>
      else if key = ''temperature'' then c\<lparr>mcc_temperature := v\<rparr>
      else if key = ''presence_penalty'' then c\<lparr>mcc_presence_penalty := v\<rparr>
      else if key = ''frequency_penalty'' then c\<lparr>mcc_frequency_penalty := v\<rparr>
      else if key = ''repetition_penalty'' then c\<lparr>mcc_repetition_penalty := v\<rparr>
      else if key = ''top_p'' then c\<lparr>mcc_top_p := v\<rparr>
      else c)"

definition apply_system_defaults_for_missing_fields :: "mlc_chat_config \<Rightarrow> mlc_chat_config" where
  "apply_system_defaults_for_missing_fields c =
     foldl (\<lambda>c (key, value). chat_config_setattr key (Some value) c) c (get_system_defaults_for_missing_fields c)"

definition TOKENIZER_FILES :: "string list" where
  "TOKENIZER_FILES =
     [''tokenizer.model'', ''tokenizer.json'', ''vocab.json'', ''merges.txt'', ''added_tokens.json'',
      ''tokenizer_config.json'']"

text \<open>
  \<open>check_string\<close>. Python raises \<open>IndexError\<close> when nothing is left to look at.
\<close>

fun unescaped_free :: "char \<Rightarrow> string \<Rightarrow> bool" where
  "unescaped_free d (p # c # s) = (if s = [] then True
     else if c = d \<and> p \<noteq> CHR 0x5C then False else unescaped_free d (c # s))"
| "unescaped_free d _ = True"

definition check_string :: "string \<Rightarrow> bool res" where
  "check_string s =
     (case s of
        [] \<Rightarrow> Inl IndexError
      | c # cs \<Rightarrow>
          (case (if c = CHR ''b'' then cs else s) of
             [] \<Rightarrow> Inl IndexError
           | d # ds \<Rightarrow>
               Inr (if last (d # ds) \<noteq> d \<or> d \<notin> {CHR 0x27, CHR 0x22} then False
                    else unescaped_free d (d # ds))))"

text \<open>
  The lines of a vocabulary of RWKV: the index, the literal, which \<open>eval\<close> reads, and its length in
  bytes. \<open>eval_bytes\<close> gives the bytes of the literal, encoded when it is a text.
\<close>

definition index_space :: "string \<Rightarrow> (string \<times> string) res" where
  "index_space l = (case split_once CHR '' '' l of
     (a, Some b) \<Rightarrow> Inr (a, CHR '' '' # b) | (_, None) \<Rightarrow> Inl (ValueError ''substring not found''))"

definition rwkv_line ::
  "(string \<Rightarrow> bytes res) \<Rightarrow> (int \<times> bytes) list \<Rightarrow> string \<Rightarrow> (int \<times> bytes) list res" where
  "rwkv_line eval_bytes idx2token l =
     res_bind (index_space l) (\<lambda>(front, rest).
     res_bind (int_of_str front) (\<lambda>idx.
       case rfind_split '' '' rest of
         None \<Rightarrow> Inl (ValueError ''substring not found'')
       | Some (middle, len) \<Rightarrow>
           res_bind (check_string (str_strip middle)) (\<lambda>ok.
             if ok
             then res_bind (eval_bytes (str_strip middle)) (\<lambda>x.
                  res_bind (int_of_str (CHR '' '' # len)) (\<lambda>n.
                  res_bind (res_assert (int (length x) = n) []) (\<lambda>_. Inr (dict_set idx2token idx x))))
             else Inl (ValueError ''Unsupported vocab dictionary''))))"

definition txt2rwkv_tokenizer :: "(string \<Rightarrow> bytes res) \<Rightarrow> string list \<Rightarrow> (int \<times> bytes) list res" where
  "txt2rwkv_tokenizer eval_bytes lines = res_fold (rwkv_line eval_bytes) [] lines"

definition str_bytes :: "string \<Rightarrow> bytes" where
  "str_bytes s = map of_char s"

definition json2rwkv_tokenizer :: "(json \<Rightarrow> int res) \<Rightarrow> (string \<times> json) list \<Rightarrow> (int \<times> bytes) list res" where
  "json2rwkv_tokenizer to_int data =
     res_fold (\<lambda>idx2token (key, value). res_bind (to_int value) (\<lambda>i. Inr (dict_set idx2token i (str_bytes key)))) [] data"

text \<open>The conversions of pydantic to an integer field.\<close>

fun pydantic_int :: "json \<Rightarrow> int res" where
  "pydantic_int (JInt i) = Inr i"
| "pydantic_int (JBool b) = Inr (if b then 1 else 0)"
| "pydantic_int (JFloat (Finite r)) =
     (if r = of_int \<lfloor>r\<rfloor> then Inr \<lfloor>r\<rfloor> else Inl (ValidationError ''int_from_float''))"
| "pydantic_int (JStr s) = (case int_of_str s of Inr i \<Rightarrow> Inr i | Inl _ \<Rightarrow> Inl (ValidationError ''int_parsing''))"
| "pydantic_int _ = Inl (ValidationError ''int_type'')"

definition config_attr :: "config \<Rightarrow> string \<Rightarrow> json res" where
  "config_attr c name = res_of_option (AttributeError name) (map_of (cfg_fields c) name)"

definition config_attr_or :: "config \<Rightarrow> string \<Rightarrow> json \<Rightarrow> json" where
  "config_attr_or c name d = (case map_of (cfg_fields c) name of Some v \<Rightarrow> v | None \<Rightarrow> d)"

text \<open>
  What the generator finds around it: the JSON value of the file that it is given as \<open>config\<close>, which need
  not be called \<open>config.json\<close>, the files in the directory of that file and their JSON values, the files
  in the order of \<open>iterdir\<close> that \<open>rwkv_vocab\<close> may match, whether the two conversions with transformers
  succeed, and what the tokenizer library detects in the output directory.
\<close>

record gen_env =
  ge_config :: "json res"
  ge_exists :: "string \<Rightarrow> bool"
  ge_json :: "string \<Rightarrow> json res"
  ge_iterdir :: "string list"
  ge_lines :: "string \<Rightarrow> string list"
  ge_eval :: "string \<Rightarrow> bytes res"
  ge_int :: "json \<Rightarrow> int res"
  ge_hf_converts :: bool
  ge_has_tiktoken :: bool
  ge_tiktoken_converts :: bool
  ge_tokenizer_info :: "(string \<times> json) list"

definition json_items :: "json \<Rightarrow> (string \<times> json) list res" where
  "json_items j = (case j of JObj d \<Rightarrow> Inr d | _ \<Rightarrow> Inl (AttributeError ''items''))"

definition json_opt :: "json \<Rightarrow> json option" where
  "json_opt v = (if v = JNull then None else Some v)"

definition has_none_attr :: "mlc_chat_config \<Rightarrow> string \<Rightarrow> bool" where
  "has_none_attr c key \<longleftrightarrow> key \<in> fst ` set MLC_CHAT_SYSTEM_DEFAULT \<and> chat_config_attr c key = None"

definition merge_generation_config :: "mlc_chat_config \<Rightarrow> (string \<times> json) list \<Rightarrow> mlc_chat_config" where
  "merge_generation_config c items =
     foldl (\<lambda>c (key, value). if has_none_attr c key then chat_config_setattr key (json_opt value) c else c) c items"

definition load_generation_config :: "gen_env \<Rightarrow> mlc_chat_config \<Rightarrow> string \<Rightarrow> mlc_chat_config res" where
  "load_generation_config env c filename =
     (if ge_exists env filename
      then res_bind (ge_json env filename) (\<lambda>j. res_bind (json_items j) (\<lambda>items. Inr (merge_generation_config c items)))
      else Inr c)"

definition rwkv_match :: "string \<Rightarrow> bool" where
  "rwkv_match name \<longleftrightarrow>
     take 12 name = ''rwkv_vocab_v'' \<and> length (take 8 (drop 12 name)) = 8
     \<and> list_all (\<lambda>c. digit_val c \<noteq> None) (take 8 (drop 12 name))
     \<and> (take 5 (drop 20 name) = ''.json'' \<or> take 4 (drop 20 name) = ''.txt'')"

definition ends_with :: "string \<Rightarrow> string \<Rightarrow> bool" where
  "ends_with s e \<longleftrightarrow> length e \<le> length s \<and> drop (length s - length e) s = e"

definition rwkv_tokenizer :: "gen_env \<Rightarrow> string \<Rightarrow> (int \<times> bytes) list res" where
  "rwkv_tokenizer env name =
     (if ends_with name ''.txt'' then txt2rwkv_tokenizer (ge_eval env) (ge_lines env name)
      else res_bind (ge_json env name) (\<lambda>j. res_bind (json_items j) (json2rwkv_tokenizer (ge_int env))))"

text \<open>The error of the check for added tokens that occur twice.\<close>

definition duplicated_vocab :: py_error where
  "duplicated_vocab = ValueError ''Duplicated vocab in tokenizer.json''"

definition added_content :: "json \<Rightarrow> string res" where
  "added_content t = (case t of
     JObj d \<Rightarrow> (case map_of d ''content'' of
         Some (JStr s) \<Rightarrow> Inr s
       | Some _ \<Rightarrow> Inl (TypeError ''unhashable type'')
       | None \<Rightarrow> Inl (KeyError ''content''))
   | _ \<Rightarrow> Inl (TypeError ''indices must be integers''))"

fun check_added_tokens :: "string list \<Rightarrow> json list \<Rightarrow> unit res" where
  "check_added_tokens appeared [] = Inr ()"
| "check_added_tokens appeared (t # ts) =
     res_bind (added_content t) (\<lambda>content.
       if content \<in> set appeared then Inl duplicated_vocab else check_added_tokens (content # appeared) ts)"

definition check_tokenizer_json :: "gen_env \<Rightarrow> unit res" where
  "check_tokenizer_json env =
     (if ge_exists env ''tokenizer.json''
      then res_bind (ge_json env ''tokenizer.json'') (\<lambda>j. case j of
             JObj d \<Rightarrow> (case map_of d ''added_tokens'' of
                 None \<Rightarrow> Inr ()
               | Some (JList ts) \<Rightarrow> check_added_tokens [] ts
               | Some _ \<Rightarrow> Inl (TypeError ''object is not iterable''))
           | JList ts \<Rightarrow> if JStr ''added_tokens'' \<in> set ts then Inl (TypeError ''list indices must be integers'') else Inr ()
           | JStr s \<Rightarrow> if sublist ''added_tokens'' s then Inl (TypeError ''string indices must be integers'') else Inr ()
           | _ \<Rightarrow> Inl (TypeError ''argument is not iterable''))
      else Inr ())"

definition tokenizer_files :: "gen_env \<Rightarrow> string list" where
  "tokenizer_files env =
     filter (ge_exists env) TOKENIZER_FILES
     @ (if ge_exists env ''tokenizer.model'' \<and> \<not> ge_exists env ''tokenizer.json'' \<and> ge_hf_converts env
        then [''tokenizer.json''] else [])
     @ (if \<not> ge_exists env ''tokenizer.json'' \<and> ge_has_tiktoken env \<and> ge_tiktoken_converts env
        then [''tokenizer.json'', ''vocab.json'', ''merges.txt'', ''special_tokens_map.json''] else [])"

text \<open>
  The template by its name. A name that is not registered is warned about and passed on as a text,
  which the field does not accept.
\<close>

definition config_template :: "conv_registry \<Rightarrow> string \<Rightarrow> conversation res" where
  "config_template reg name =
     (case get_conv_template name reg of
        None \<Rightarrow> Inl (ValidationError ''conv_template'')
      | Some c \<Rightarrow> Conversation_init (Some (role_templates c)) c)"

definition model_config_override ::
  "int option \<Rightarrow> int option \<Rightarrow> int option \<Rightarrow> int option \<Rightarrow> int option \<Rightarrow> int option \<Rightarrow> int option \<Rightarrow> bool option
     \<Rightarrow> config_override" where
  "model_config_override context_window_size sliding_window_size prefill_chunk_size attention_sink_size
       max_batch_size tensor_parallel_shards pipeline_parallel_stages disaggregation =
     [(''context_window_size'', map_option JInt context_window_size),
      (''sliding_window_size'', map_option JInt sliding_window_size),
      (''prefill_chunk_size'', map_option JInt prefill_chunk_size),
      (''attention_sink_size'', map_option JInt attention_sink_size),
      (''max_batch_size'', map_option JInt max_batch_size),
      (''tensor_parallel_shards'', map_option JInt tensor_parallel_shards),
      (''pipeline_parallel_stages'', map_option JInt pipeline_parallel_stages),
      (''disaggregation'', map_option JBool disaggregation)]"

definition initial_chat_config :: "string \<Rightarrow> string \<Rightarrow> config \<Rightarrow> conv_registry \<Rightarrow> string \<Rightarrow> mlc_chat_config res" where
  "initial_chat_config model_name quantization mc reg conv_template =
     res_bind (config_attr mc ''vocab_size'') (\<lambda>vocab_size.
     res_bind (config_attr mc ''prefill_chunk_size'') (\<lambda>prefill_chunk_size.
     res_bind (config_attr mc ''tensor_parallel_shards'') (\<lambda>tensor_parallel_shards.
     res_bind (pydantic_int vocab_size) (\<lambda>vocab.
     res_bind (pydantic_int (config_attr_or mc ''context_window_size'' (JInt (- 1)))) (\<lambda>ctx.
     res_bind (pydantic_int (config_attr_or mc ''sliding_window_size'' (JInt (- 1)))) (\<lambda>sliding.
     res_bind (pydantic_int prefill_chunk_size) (\<lambda>chunk.
     res_bind (pydantic_int (config_attr_or mc ''attention_sink_size'' (JInt (- 1)))) (\<lambda>sink.
     res_bind (pydantic_int tensor_parallel_shards) (\<lambda>shards.
     res_bind (pydantic_int (config_attr_or mc ''pipeline_parallel_stages'' (JInt 1))) (\<lambda>stages.
     res_bind (config_template reg conv_template) (\<lambda>conv.
     Inr \<lparr>mcc_version = ''0.1.0'', mcc_model_type = model_name, mcc_quantization = quantization,
          mcc_model_config = asdict mc, mcc_vocab_size = vocab, mcc_context_window_size = ctx,
          mcc_sliding_window_size = sliding, mcc_prefill_chunk_size = chunk, mcc_attention_sink_size = sink,
          mcc_tensor_parallel_shards = shards, mcc_pipeline_parallel_stages = stages,
          mcc_temperature = None, mcc_presence_penalty = None, mcc_frequency_penalty = None,
          mcc_repetition_penalty = None, mcc_top_p = None, mcc_tokenizer_files = [], mcc_tokenizer_info = [],
          mcc_conv_template = conv, mcc_pad_token_id = None, mcc_bos_token_id = None, mcc_eos_token_id = None\<rparr>)))))))))))"

definition gen_config ::
  "gen_env \<Rightarrow> config_class \<Rightarrow> string \<Rightarrow> string \<Rightarrow> conv_registry \<Rightarrow> string \<Rightarrow> config_override \<Rightarrow> mlc_chat_config res" where
  "gen_config env cls model_name quantization reg conv_template override =
     res_bind (ge_config env) (\<lambda>j.
     res_bind (json_items j) (\<lambda>source.
     res_bind (from_dict cls source) (\<lambda>base.
     res_bind (apply_override override cls base) (\<lambda>mc.
     res_bind (initial_chat_config model_name quantization mc reg conv_template) (\<lambda>c.
     res_bind (load_generation_config env c ''generation_config.json'') (\<lambda>c.
     res_bind (load_generation_config env c ''config.json'') (\<lambda>c.
     res_bind (res_map (rwkv_tokenizer env) (filter rwkv_match (ge_iterdir env))) (\<lambda>_.
     res_bind (check_tokenizer_json env) (\<lambda>_.
     Inr (apply_system_defaults_for_missing_fields
            (c\<lparr>mcc_tokenizer_files := tokenizer_files env, mcc_tokenizer_info := ge_tokenizer_info env\<rparr>)))))))))))"

section \<open>Specifications and samples\<close>

definition first_set :: "string \<Rightarrow> (string \<times> json) list \<Rightarrow> json option" where
  "first_set key items = map_option snd (List.find (\<lambda>(k, v). k = key \<and> v \<noteq> JNull) items)"

definition file_value :: "gen_env \<Rightarrow> string \<Rightarrow> string \<Rightarrow> json option" where
  "file_value env filename key =
     (if ge_exists env filename
      then (case ge_json env filename of Inr (JObj items) \<Rightarrow> first_set key items | _ \<Rightarrow> None) else None)"

fun first_given :: "'a option list \<Rightarrow> 'a option" where
  "first_given [] = None"
| "first_given (x # xs) = (case x of None \<Rightarrow> first_given xs | Some v \<Rightarrow> Some v)"

abbreviation default_keys :: "string set" where
  "default_keys \<equiv> fst ` set MLC_CHAT_SYSTEM_DEFAULT"

definition sample_class :: config_class where
  "sample_class = \<lparr>cls_name = ''SampleConfig'',
     cls_field_names = [''vocab_size'', ''prefill_chunk_size'', ''tensor_parallel_shards'', ''context_window_size'', ''kwargs''],
     cls_new = (\<lambda>fields kwargs. Inr \<lparr>cfg_fields = fields, cfg_kwargs = kwargs\<rparr>)\<rparr>"

definition sample_gen_source :: json where
  "sample_gen_source = JObj [(''vocab_size'', JInt 100), (''prefill_chunk_size'', JInt 8), (''tensor_parallel_shards'', JInt 1),
     (''context_window_size'', JInt 64), (''eos_token_id'', JInt 7), (''top_p'', JInt 5)]"

definition sample_gen_env :: gen_env where
  "sample_gen_env = \<lparr>ge_config = Inr sample_gen_source,
     ge_exists = (\<lambda>f. f \<in> {''generation_config.json'', ''config.json'', ''tokenizer.json''}),
     ge_json = (\<lambda>f. if f = ''config.json'' then Inr sample_gen_source
        else if f = ''generation_config.json'' then Inr (JObj [(''eos_token_id'', JNull), (''top_p'', JInt 3)])
        else Inr (JObj [(''added_tokens'', JList [JObj [(''content'', JStr ''a'')], JObj [(''content'', JStr ''b'')]])])),
     ge_iterdir = [], ge_lines = (\<lambda>_. []), ge_eval = (\<lambda>_. Inr []), ge_int = (\<lambda>_. Inr 0), ge_hf_converts = False,
     ge_has_tiktoken = False, ge_tiktoken_converts = False, ge_tokenizer_info = []\<rparr>"

definition sample_template :: conversation where
  "sample_template = (conv_kwargs ''s'' [(''user'', ''U''), (''assistant'', ''A'')] [''|''])\<lparr>role_templates := default_role_templates\<rparr>"

definition sample_override :: config_override where
  "sample_override = model_config_override (Some 32) None None None (Some 4) None None None"

section \<open>Lemmas\<close>

lemma setattr_attr:
  "k' \<in> default_keys \<Longrightarrow> chat_config_attr (chat_config_setattr k v c) k' = (if k = k' then v else chat_config_attr c k')"
  by (auto simp: MLC_CHAT_SYSTEM_DEFAULT_def chat_config_attr_def chat_config_setattr_def)

lemma merge_attr:
  assumes "key \<in> default_keys"
  shows "chat_config_attr (merge_generation_config c items) key = first_given [chat_config_attr c key, first_set key items]"
  unfolding merge_generation_config_def
proof (induction items arbitrary: c)
  case Nil
  then show ?case by (simp add: first_set_def split: option.split)
next
  case (Cons x items)
  obtain k v where x: "x = (k, v)" by fastforce
  define c1 where "c1 = (if has_none_attr c k then chat_config_setattr k (json_opt v) c else c)"
  have step: "chat_config_attr c1 key =
      (if k = key \<and> chat_config_attr c key = None then json_opt v else chat_config_attr c key)"
    using assms by (simp add: c1_def has_none_attr_def setattr_attr)
  have "foldl (\<lambda>c (key, value). if has_none_attr c key then chat_config_setattr key (json_opt value) c else c) c (x # items)
      = foldl (\<lambda>c (key, value). if has_none_attr c key then chat_config_setattr key (json_opt value) c else c) c1 items"
    by (simp add: x c1_def)
  then show ?case
    by (cases "k = key"; cases "chat_config_attr c key"; cases "v = JNull")
      (simp_all only: Cons.IH step, simp_all add: x first_set_def json_opt_def split: option.split)
qed

lemma load_generation_attr:
  assumes "load_generation_config env c filename = Inr c'" and "key \<in> default_keys"
  shows "chat_config_attr c' key = first_given [chat_config_attr c key, file_value env filename key]"
proof (cases "ge_exists env filename")
  case True
  then obtain j items where "ge_json env filename = Inr j" "json_items j = Inr items" "c' = merge_generation_config c items"
    using assms(1) by (auto simp: load_generation_config_def res_bind_eq_Inr)
  moreover from this(2) have "j = JObj items" by (cases j) (simp_all add: json_items_def)
  ultimately have "ge_json env filename = Inr (JObj items)" "c' = merge_generation_config c items" by simp_all
  with True show ?thesis by (simp add: file_value_def merge_attr [OF assms(2)])
next
  case False
  with assms(1) show ?thesis by (simp add: load_generation_config_def file_value_def split: option.split)
qed

lemma foldl_setattr:
  "key \<in> default_keys \<Longrightarrow> distinct (map fst kvs) \<Longrightarrow>
   chat_config_attr (foldl (\<lambda>c (k, v). chat_config_setattr k (Some v) c) c kvs) key =
     (case map_of kvs key of Some v \<Rightarrow> Some v | None \<Rightarrow> chat_config_attr c key)"
proof (induction kvs arbitrary: c)
  case (Cons x kvs)
  obtain k v where x: "x = (k, v)" by fastforce
  have "k = key \<Longrightarrow> map_of kvs key = None" using Cons.prems(2) by (auto simp: x map_of_eq_None_iff)
  then show ?case using Cons by (cases "k = key") (simp_all add: x setattr_attr split: option.split)
qed simp

lemma system_defaults_distinct: "distinct (map fst (get_system_defaults_for_missing_fields c))"
proof -
  have "distinct (map fst (foldl (\<lambda>res (key, value). if P key then dict_set res key value else res) d kvs))"
    if "distinct (map fst d)" for d P and kvs :: "(string \<times> json) list"
    using that by (induction kvs arbitrary: d) (auto simp: dict_set_keys)
  then show ?thesis by (simp add: get_system_defaults_for_missing_fields_def)
qed

lemma apply_defaults_attr:
  assumes "key \<in> default_keys"
  shows "chat_config_attr (apply_system_defaults_for_missing_fields c) key
    = first_given [chat_config_attr c key, map_of MLC_CHAT_SYSTEM_DEFAULT key]"
  unfolding apply_system_defaults_for_missing_fields_def foldl_setattr [OF assms system_defaults_distinct]
  by (simp add: get_system_defaults_spec split: option.split)

lemma override_step_keys: "map fst (override_step d x) = map fst d"
  by (cases x) (auto simp: override_step_def dict_set_keys split: option.split)

lemma override_keys: "map fst (foldl override_step d ov) = map fst d"
  by (induction ov arbitrary: d) (simp_all add: override_step_keys)

lemma override_lookup:
  assumes "distinct (map fst ov)"
  shows "map_of (foldl override_step d ov) k =
    (case map_of d k of None \<Rightarrow> None | Some v \<Rightarrow> (case map_of ov k of Some (Some w) \<Rightarrow> Some w | _ \<Rightarrow> Some v))"
  using assms
proof (induction ov arbitrary: d)
  case (Cons x ov)
  obtain key w where x: "x = (key, w)" by fastforce
  have new: "map_of ov key = None" using Cons.prems by (simp add: x map_of_eq_None_iff)
  have step: "map_of (override_step d (key, w)) k =
      (if k = key \<and> w \<noteq> None \<and> map_of d k \<noteq> None then w else map_of d k)"
    by (auto simp: override_step_def dict_set_lookup map_of_eq_None_iff split: option.splits)
  show ?case
    using Cons new step by (cases "k = key"; cases w; cases "map_of d k") (simp_all add: x)
qed (simp split: option.split)

lemma check_added_tokens_ok:
  "check_added_tokens appeared ts = Inr () \<longleftrightarrow>
     (\<exists>cs. res_map added_content ts = Inr cs \<and> distinct cs \<and> set cs \<inter> set appeared = {})"
proof (induction ts arbitrary: appeared)
  case (Cons t ts)
  show ?case
    using Cons [of "projr (added_content t) # appeared"]
    by (cases "added_content t") (auto simp: res_bind_eq_Inr duplicated_vocab_def)
qed simp

lemma sample_gen_config:
  "\<exists>c. gen_config sample_gen_env sample_class ''llama'' ''q4f16_1'' [(''s'', sample_template)] ''s'' sample_override = Inr c"
proof -
  have "\<not> isl (gen_config sample_gen_env sample_class ''llama'' ''q4f16_1'' [(''s'', sample_template)] ''s'' sample_override)"
    by code_simp
  then show ?thesis by (simp add: not_isl_Inr)
qed

section \<open>Properties\<close>

text \<open>C37: every optional field of a generated configuration has a value: the one of
  generation\_config.json if it has one that is not null, else the one of config.json, else the
  system default. The tokenizer files are listed in a fixed order, and a tokenizer.json that exists
  has no added token twice.\<close>

theorem gen_config_values:
  assumes "gen_config env cls model_name quantization reg conv_template override = Inr c"
  shows "(\<forall>key \<in> default_keys. chat_config_attr c key =
      first_given [file_value env ''generation_config.json'' key, file_value env ''config.json'' key,
                  map_of MLC_CHAT_SYSTEM_DEFAULT key] \<and> chat_config_attr c key \<noteq> None)
    \<and> (\<forall>d ts. ge_exists env ''tokenizer.json'' \<longrightarrow> ge_json env ''tokenizer.json'' = Inr (JObj d)
         \<longrightarrow> map_of d ''added_tokens'' = Some (JList ts) \<longrightarrow> (\<exists>cs. res_map added_content ts = Inr cs \<and> distinct cs))"
proof -
  obtain mc c0 c1 c2 u where
    c0: "initial_chat_config model_name quantization mc reg conv_template = Inr c0"
    and c1: "load_generation_config env c0 ''generation_config.json'' = Inr c1"
    and c2: "load_generation_config env c1 ''config.json'' = Inr c2"
    and tok: "check_tokenizer_json env = Inr u"
    and c: "apply_system_defaults_for_missing_fields
      (c2\<lparr>mcc_tokenizer_files := tokenizer_files env, mcc_tokenizer_info := ge_tokenizer_info env\<rparr>) = c"
    using assms unfolding gen_config_def res_bind_eq_Inr sum.inject(2) by blast
  have "chat_config_attr c0 key = None" for key
    using c0 unfolding initial_chat_config_def res_bind_eq_Inr sum.inject(2)
    by (elim exE conjE, hypsubst) (simp add: chat_config_attr_def)
  moreover have "chat_config_attr (c2\<lparr>mcc_tokenizer_files := a, mcc_tokenizer_info := b\<rparr>) key = chat_config_attr c2 key" for a b key
    by (simp add: chat_config_attr_def)
  ultimately have v: "chat_config_attr c key = first_given [file_value env ''generation_config.json'' key,
      file_value env ''config.json'' key, map_of MLC_CHAT_SYSTEM_DEFAULT key]" if "key \<in> default_keys" for key
    using that load_generation_attr [OF c1 that] load_generation_attr [OF c2 that]
    by (simp add: c [symmetric] apply_defaults_attr split: option.split)
  have n: "chat_config_attr c key \<noteq> None" if k: "key \<in> default_keys" for key
  proof -
    obtain y where "map_of MLC_CHAT_SYSTEM_DEFAULT key = Some y"
      using k by (cases "map_of MLC_CHAT_SYSTEM_DEFAULT key") (auto simp: map_of_eq_None_iff)
    then show ?thesis unfolding v [OF k] by (simp split: option.split)
  qed
  from v n have "\<forall>key \<in> default_keys. chat_config_attr c key =
      first_given [file_value env ''generation_config.json'' key, file_value env ''config.json'' key,
                  map_of MLC_CHAT_SYSTEM_DEFAULT key] \<and> chat_config_attr c key \<noteq> None" by blast
  moreover have "\<exists>cs. res_map added_content ts = Inr cs \<and> distinct cs"
    if "ge_exists env ''tokenizer.json''" "ge_json env ''tokenizer.json'' = Inr (JObj d)"
      "map_of d ''added_tokens'' = Some (JList ts)" for d ts
    using tok that by (auto simp: check_tokenizer_json_def check_added_tokens_ok)
  ultimately show ?thesis by blast
qed

theorem gen_config_values_witness:
  "\<exists>c. gen_config sample_gen_env sample_class ''llama'' ''q4f16_1'' [(''s'', sample_template)] ''s'' sample_override = Inr c
     \<and> mcc_eos_token_id c = Some (JInt 7) \<and> mcc_top_p c = Some (JInt 3) \<and> mcc_temperature c = Some (JFloat (Finite 1))"
proof -
  obtain c where c: "gen_config sample_gen_env sample_class ''llama'' ''q4f16_1'' [(''s'', sample_template)] ''s'' sample_override = Inr c"
    using sample_gen_config by blast
  then show ?thesis
    using gen_config_values [OF c]
    by (simp add: MLC_CHAT_SYSTEM_DEFAULT_def chat_config_attr_def file_value_def first_set_def sample_gen_env_def sample_gen_source_def)
qed

text \<open>Applying an override to a configuration builds a new one in which exactly the fields that
  the override gives and the class has are replaced. The fields that the class does not know, kept
  aside when the configuration was read, are dropped.\<close>

theorem override_apply:
  assumes "distinct (map fst override)" and "set (map fst (cfg_fields c)) \<subseteq> set (cls_field_names cls) - {''kwargs''}"
  shows "\<exists>fields. apply_override override cls c = cls_new cls fields []
    \<and> map fst fields = map fst (cfg_fields c)
    \<and> (\<forall>k. map_of fields k = (case map_of (cfg_fields c) k of None \<Rightarrow> None
          | Some v \<Rightarrow> (case map_of override k of Some (Some w) \<Rightarrow> Some w | _ \<Rightarrow> Some v)))"
proof -
  let ?f = "foldl override_step (asdict c) override"
  have keys: "map fst ?f = map fst (cfg_fields c)" by (simp add: override_keys asdict_def)
  have sub: "fst ` set ?f \<subseteq> set (cls_field_names cls) - {''kwargs''}" using keys assms(2) by (metis set_map)
  have "filter (\<lambda>(k, _). k \<in> set (cls_field_names cls)) ?f = ?f" "filter (\<lambda>(k, _). k \<notin> set (cls_field_names cls)) ?f = []"
    using sub by (auto simp: filter_id_conv filter_empty_conv)
  then have "apply_override override cls c = cls_new cls ?f []"
    using sub by (auto simp: apply_override_def from_dict_def Let_def)
  then show ?thesis using keys override_lookup [OF assms(1), of "asdict c"] by (auto simp: asdict_def)
qed

theorem override_apply_witness:
  "\<exists>c. apply_override sample_override sample_class
       \<lparr>cfg_fields = [(''vocab_size'', JInt 100), (''context_window_size'', JInt 64)], cfg_kwargs = [(''use_cache'', JBool True)]\<rparr> = Inr c
     \<and> map_of (cfg_fields c) ''context_window_size'' = Some (JInt 32)
     \<and> map_of (cfg_fields c) ''vocab_size'' = Some (JInt 100) \<and> cfg_kwargs c = []"
proof -
  let ?c = "\<lparr>cfg_fields = [(''vocab_size'', JInt 100), (''context_window_size'', JInt 64)], cfg_kwargs = [(''use_cache'', JBool True)]\<rparr>"
  have "distinct (map fst sample_override)" by (simp add: sample_override_def model_config_override_def)
  moreover have "set (map fst (cfg_fields ?c)) \<subseteq> set (cls_field_names sample_class) - {''kwargs''}" by (simp add: sample_class_def)
  ultimately obtain fields where f: "apply_override sample_override sample_class ?c = cls_new sample_class fields []"
    and m: "\<forall>k. map_of fields k = (case map_of (cfg_fields ?c) k of None \<Rightarrow> None
          | Some v \<Rightarrow> (case map_of sample_override k of Some (Some w) \<Rightarrow> Some w | _ \<Rightarrow> Some v))"
    using override_apply [of sample_override ?c sample_class] by auto
  have "map_of fields ''context_window_size'' = Some (JInt 32)" "map_of fields ''vocab_size'' = Some (JInt 100)"
    unfolding m [THEN spec] by (simp_all add: sample_override_def model_config_override_def)
  then show ?thesis unfolding f by (simp add: sample_class_def)
qed

end
