(* ===== verification/Model_Configs.thy ===== *)
theory Model_Configs
  imports Gen_Config
begin

text \<open>
  The configuration classes of the models (model/*/*\_model.py): their fields with the default values and
  their \<open>__post_init__\<close>, as instances of the classes that support/config.py works with. A
  \<open>__post_init__\<close> is a list of statements, each of which recurs in many classes; the fields that a
  statement reads and writes are functions of it. The theorems say that the configuration that is written
  into mlc-chat-config.json reads back as it was, and which sizes a configuration may have.
\<close>

section \<open>Values\<close>

text \<open>
  Sizes are integers. Where a class declares an integer, a float, a text or a container ends in a
  TypeError here; Python goes on with a float.
\<close>

fun as_int :: "json \<Rightarrow> int res" where
  "as_int (JInt i) = Inr i"
| "as_int (JBool b) = Inr (of_bool b)"
| "as_int _ = Inl (TypeError ''unsupported operand type'')"

fun json_is :: "json \<Rightarrow> int \<Rightarrow> bool" where
  "json_is (JInt i) n = (i = n)"
| "json_is (JBool b) n = (of_bool b = n)"
| "json_is (JFloat f) n = (f = Finite (of_int n))"
| "json_is _ n = False"

definition json_gt :: "json \<Rightarrow> json \<Rightarrow> bool res" where
  "json_gt a b = res_bind (as_int a) (\<lambda>x. res_bind (as_int b) (\<lambda>y. Inr (y < x)))"

definition json_min :: "json \<Rightarrow> json \<Rightarrow> json res" where
  "json_min a b = res_bind (json_gt a b) (\<lambda>g. Inr (if g then b else a))"

definition json_max :: "json \<Rightarrow> json \<Rightarrow> json res" where
  "json_max a b = res_bind (json_gt b a) (\<lambda>g. Inr (if g then b else a))"

definition json_floordiv :: "json \<Rightarrow> json \<Rightarrow> json res" where
  "json_floordiv a b = res_bind (as_int a) (\<lambda>x. res_bind (as_int b) (\<lambda>y.
     if y = 0 then Inl (ZeroDivisionError ''integer division or modulo by zero'') else Inr (JInt (x div y))))"

definition json_mod :: "json \<Rightarrow> json \<Rightarrow> int res" where
  "json_mod a b = res_bind (as_int a) (\<lambda>x. res_bind (as_int b) (\<lambda>y.
     if y = 0 then Inl (ZeroDivisionError ''integer division or modulo by zero'') else Inr (x mod y)))"

definition json_times :: "json \<Rightarrow> json \<Rightarrow> int res" where
  "json_times a b = res_bind (as_int a) (\<lambda>x. res_bind (as_int b) (\<lambda>y. Inr (x * y)))"

text \<open>\<open>int(factor * size)\<close>, where the factor may be a float.\<close>

definition json_scaled :: "json \<Rightarrow> json \<Rightarrow> int res" where
  "json_scaled factor n =
     (case factor of
        JFloat f \<Rightarrow> res_bind (as_int n) (\<lambda>i. res_bind (float_of_int i) (\<lambda>x. int_of_float (float_mul f x)))
      | _ \<Rightarrow> json_times factor n)"

fun json_true :: "json \<Rightarrow> bool" where
  "json_true JNull = False"
| "json_true (JBool b) = b"
| "json_true (JInt i) = (i \<noteq> 0)"
| "json_true (JFloat f) = (f \<noteq> Finite 0)"
| "json_true (JStr s) = (s \<noteq> [])"
| "json_true (JList xs) = (xs \<noteq> [])"
| "json_true (JObj d) = (d \<noteq> [])"

text \<open>\<open>key in v\<close>\<close>

fun json_in :: "string \<Rightarrow> json \<Rightarrow> bool res" where
  "json_in k (JObj d) = Inr (k \<in> fst ` set d)"
| "json_in k (JList xs) = Inr (JStr k \<in> set xs)"
| "json_in k (JStr s) = Inr (sublist k s)"
| "json_in k _ = Inl (TypeError ''argument is not iterable'')"

fun show_size :: "json \<Rightarrow> string" where
  "show_size (JBool b) = (if b then ''True'' else ''False'')"
| "show_size (JInt i) = str_of_int i"
| "show_size _ = ''?''"

section \<open>The statements of \<open>__post_init__\<close>\<close>

definition set_field :: "string \<Rightarrow> json \<Rightarrow> config \<Rightarrow> config" where
  "set_field k v c = c\<lparr>cfg_fields := dict_set (cfg_fields c) k v\<rparr>"

definition pop_kwarg :: "string \<Rightarrow> config \<Rightarrow> config" where
  "pop_kwarg k c = c\<lparr>cfg_kwargs := filter (\<lambda>(n, _). n \<noteq> k) (cfg_kwargs c)\<rparr>"

text \<open>The loop over the names under which HuggingFace keeps a value: the first that is there is taken out.\<close>

fun take_kwarg :: "string list \<Rightarrow> config \<Rightarrow> (json \<times> config) option" where
  "take_kwarg [] c = None"
| "take_kwarg (name # names) c =
     (case map_of (cfg_kwargs c) name of
        Some v \<Rightarrow> Some (v, pop_kwarg name c)
      | None \<Rightarrow> take_kwarg names c)"

definition context_missing :: string where
  "context_missing = ''Unable to determine the maximum sequence length, because none of ''
     @ ''`context_window_size`, `max_position_embeddings` or `max_sequence_length` is ''
     @ ''provided in `config.json`.''"

datatype config_step =
    RopeBase
  | RopeTheta
  | ContextFrom "string list" string
  | ContextMaybe "string list"
  | ContextField string
  | ContextOrField "string list" string
  | ContextPositive string string
  | ContextAtLeast int
  | ContextSliding
  | PrefillChunk int
  | PrefillWhole
  | PrefillPhi
  | HeadDim string string
  | AssertHeads string string string
  | AssertGroups string string string
  | DefaultField string string
  | DefaultMissing string string
  | FourTimes string int string
  | BlockQuantConfig
  | HiddenActivation
  | CheckActivation
  | RejectBias
  | LlamaRopeScaling
  | Phi3RopeScaling
  | PipelineStages string
  | RwkvIntermediate
  | RwkvHeads
  | RwkvCheckHeads
  | SingleDevice
  | ModelVersion string
  | PaddedVocab
  | SlidingWindow
  | MistralContext
  | AssertSink
  | MistralPrefill
  | RotaryDim
  | CheckClip

definition rope_theta :: "config \<Rightarrow> json \<times> config" where
  "rope_theta c = (case take_kwarg [''rope_theta''] c of Some r \<Rightarrow> r | None \<Rightarrow> (JInt 10000, c))"

text \<open>The sizes of the chunks that Mistral allows: \<open>min(*candidates, 8192)\<close>.\<close>

definition mistral_prefill :: "json \<Rightarrow> json \<Rightarrow> json res" where
  "mistral_prefill sliding context =
     (case (if json_is sliding (- 1) then [] else [sliding]) @ (if json_is context (- 1) then [] else [context]) of
        [] \<Rightarrow> Inl (TypeError ''int object is not iterable'')
      | x # xs \<Rightarrow> res_fold json_min x (xs @ [JInt 8192]))"

text \<open>The block size of a checkpoint in fp8.\<close>

definition fp8_block_size :: "json \<Rightarrow> json res" where
  "fp8_block_size q =
     (case q of
        JObj d \<Rightarrow>
          (if map_of d ''activation_scheme'' = Some (JStr ''dynamic'') \<and> map_of d ''fmt'' = Some (JStr ''e4m3'')
              \<and> map_of d ''quant_method'' = Some (JStr ''fp8'')
           then (case map_of d ''weight_block_size'' of
                   Some (JList [a, b]) \<Rightarrow> Inr (JList [a, b])
                 | Some _ \<Rightarrow> Inl (ValueError ''weight_block_size must be a tuple of two integers'')
                 | None \<Rightarrow> Inl (ValueError ''unrecognized quantization config''))
           else Inl (ValueError ''unrecognized quantization config''))
      | _ \<Rightarrow> Inl (ValueError ''unrecognized quantization config''))"

text \<open>
  The RoPE scaling of Llama, and that of Phi-3. The message of the assertion of Phi-3 reads another key
  than the assertion.
\<close>

definition llama_rope_scaling :: "json \<Rightarrow> json res" where
  "llama_rope_scaling r =
     (if r = JNull then Inr r
      else res_bind (json_in ''rope_type'' r) (\<lambda>has.
        if \<not> has then Inr JNull
        else res_bind (json_getitem r ''rope_type'') (\<lambda>t.
          if t = JStr ''llama3'' then Inr r else Inl (AssertionError ''Unsupported RoPE scaling type''))))"

fun json_setitem :: "json \<Rightarrow> string \<Rightarrow> json \<Rightarrow> json res" where
  "json_setitem (JObj d) k v = Inr (JObj (dict_set d k v))"
| "json_setitem _ k v = Inl (TypeError ''object does not support item assignment'')"

definition phi3_rope_scaling :: "json \<Rightarrow> json \<Rightarrow> json \<Rightarrow> json res" where
  "phi3_rope_scaling r max_position original =
     (if r = JNull then Inr r
      else res_bind (json_in ''type'' r) (\<lambda>has.
        if \<not> has then Inr JNull
        else res_bind (json_getitem r ''type'') (\<lambda>t.
          res_bind (if t = JStr ''su'' then json_setitem r ''type'' (JStr ''longrope'') else Inr r) (\<lambda>r.
          res_bind (json_getitem r ''type'') (\<lambda>t.
          res_bind (if t = JStr ''longrope'' then Inr ()
                    else res_bind (json_getitem r ''rope_type'') (\<lambda>_. Inl (AssertionError ''Unsupported RoPE scaling type''))) (\<lambda>_.
          res_bind (json_setitem r ''rope_type'' t) (\<lambda>r.
          res_bind (json_setitem r ''max_position_embeddings'' max_position) (\<lambda>r.
          json_setitem r ''original_max_position_embeddings'' original))))))))"

text \<open>
  \<open>RotaryDim\<close> computes an attribute that is not a field of its class, so that it is not among the fields that
  \<open>asdict\<close> gives.
\<close>

fun clip_positive :: "json \<Rightarrow> bool res" where
  "clip_positive JNull = Inr True"
| "clip_positive (JFloat f) = Inr (\<not> (float_lt f (Finite 0) \<or> f = Finite 0))"
| "clip_positive q = json_gt q (JInt 0)"

fun run_step :: "config_step \<Rightarrow> config \<Rightarrow> config res" where
  "run_step RopeBase c =
     res_bind (config_attr c ''position_embedding_base'') (\<lambda>b.
       if json_is b 0 then (case rope_theta c of (v, c') \<Rightarrow> Inr (set_field ''position_embedding_base'' v c')) else Inr c)"
| "run_step RopeTheta c =
     Inr (set_field ''position_embedding_base''
       (case map_of (cfg_kwargs c) ''rope_theta'' of Some v \<Rightarrow> v | None \<Rightarrow> JInt 10000) c)"
| "run_step (ContextFrom names msg) c =
     res_bind (config_attr c ''context_window_size'') (\<lambda>w.
       if json_is w 0
       then (case take_kwarg names c of
               Some (v, c') \<Rightarrow> Inr (set_field ''context_window_size'' v c')
             | None \<Rightarrow> Inl (ValueError msg))
       else Inr c)"
| "run_step (ContextMaybe names) c =
     res_bind (config_attr c ''context_window_size'') (\<lambda>w.
       if json_is w 0
       then (case take_kwarg names c of Some (v, c') \<Rightarrow> Inr (set_field ''context_window_size'' v c') | None \<Rightarrow> Inr c)
       else Inr c)"
| "run_step (ContextField k) c =
     res_bind (config_attr c ''context_window_size'') (\<lambda>w.
       if json_is w 0 then res_bind (config_attr c k) (\<lambda>v. Inr (set_field ''context_window_size'' v c)) else Inr c)"
| "run_step (ContextOrField names k) c =
     res_bind (config_attr c ''context_window_size'') (\<lambda>w.
       if json_is w 0
       then (case take_kwarg names c of
               Some (v, c') \<Rightarrow> Inr (set_field ''context_window_size'' v c')
             | None \<Rightarrow> res_bind (config_attr c k) (\<lambda>v. Inr (set_field ''context_window_size'' v c)))
       else Inr c)"
| "run_step (ContextPositive k msg) c =
     res_bind (config_attr c ''context_window_size'') (\<lambda>w.
       if json_is w 0
       then res_bind (config_attr c k) (\<lambda>n. res_bind (json_gt n (JInt 0)) (\<lambda>pos.
         if pos then Inr (set_field ''context_window_size'' n c) else Inl (ValueError msg)))
       else Inr c)"
| "run_step (ContextAtLeast n) c =
     res_bind (config_attr c ''sliding_window'') (\<lambda>w. res_bind (json_max w (JInt n)) (\<lambda>v.
       Inr (set_field ''context_window_size'' v c)))"
| "run_step ContextSliding c =
     res_bind (config_attr c ''sliding_window'') (\<lambda>w. Inr (set_field ''context_window_size'' w c))"
| "run_step (PrefillChunk n) c =
     res_bind (config_attr c ''prefill_chunk_size'') (\<lambda>p. res_bind (config_attr c ''context_window_size'') (\<lambda>w.
       if json_is p 0
       then res_bind (json_min w (JInt n)) (\<lambda>v. Inr (set_field ''prefill_chunk_size'' v c))
       else res_bind (json_gt p w) (\<lambda>g.
         if g then res_bind (json_min w (JInt n)) (\<lambda>v. Inr (set_field ''prefill_chunk_size'' v c)) else Inr c)))"
| "run_step PrefillWhole c =
     res_bind (config_attr c ''prefill_chunk_size'') (\<lambda>p. res_bind (config_attr c ''context_window_size'') (\<lambda>w.
       if json_is p 0 then Inr (set_field ''prefill_chunk_size'' w c)
       else res_bind (json_gt p w) (\<lambda>g. if g then Inr (set_field ''prefill_chunk_size'' w c) else Inr c)))"
| "run_step PrefillPhi c =
     res_bind (config_attr c ''prefill_chunk_size'') (\<lambda>p. res_bind (config_attr c ''context_window_size'') (\<lambda>w.
       res_bind (json_min (if json_is p 0 then w else p) w) (\<lambda>v. Inr (set_field ''prefill_chunk_size'' v c))))"
| "run_step (HeadDim hidden heads) c =
     res_bind (config_attr c ''head_dim'') (\<lambda>d. res_bind (config_attr c hidden) (\<lambda>h. res_bind (config_attr c heads) (\<lambda>n.
       if json_is d 0 then res_bind (json_floordiv h n) (\<lambda>v. Inr (set_field ''head_dim'' v c)) else Inr c)))"
| "run_step (AssertHeads heads hidden msg) c =
     res_bind (config_attr c ''head_dim'') (\<lambda>d. res_bind (config_attr c heads) (\<lambda>n. res_bind (config_attr c hidden) (\<lambda>h.
       res_bind (json_times d n) (\<lambda>m. res_bind (res_assert (json_is h m) msg) (\<lambda>_. Inr c)))))"
| "run_step (AssertGroups heads kv_heads msg) c =
     res_bind (config_attr c heads) (\<lambda>n. res_bind (config_attr c kv_heads) (\<lambda>k.
       res_bind (json_mod n k) (\<lambda>m. res_bind (res_assert (m = 0) msg) (\<lambda>_. Inr c))))"
| "run_step (DefaultField k k') c =
     res_bind (config_attr c k) (\<lambda>v. res_bind (config_attr c k') (\<lambda>v'.
       Inr (if json_is v 0 then set_field k v' c else c)))"
| "run_step (DefaultMissing k k') c =
     res_bind (config_attr c k) (\<lambda>v. res_bind (config_attr c k') (\<lambda>v'.
       Inr (if json_is v 0 \<or> v = JNull then set_field k v' c else c)))"
| "run_step (FourTimes k n k') c =
     res_bind (config_attr c k) (\<lambda>v. res_bind (config_attr c k') (\<lambda>v'.
       if v = JNull \<or> json_is v n then res_bind (json_times (JInt 4) v') (\<lambda>m. Inr (set_field k (JInt m) c)) else Inr c))"
| "run_step BlockQuantConfig c =
     (case map_of (cfg_kwargs c) ''quantization_config'' of
        None \<Rightarrow> Inr c
      | Some q \<Rightarrow> res_bind (fp8_block_size q) (\<lambda>b. Inr (set_field ''weight_block_size'' b c)))"
| "run_step HiddenActivation c =
     res_bind (config_attr c ''hidden_activation'') (\<lambda>a.
       Inr (if a = JNull
            then set_field ''hidden_activation'' (case map_of (cfg_kwargs c) ''hidden_act'' of Some v \<Rightarrow> v | None \<Rightarrow> JNull) c
            else c))"
| "run_step CheckActivation c =
     res_bind (config_attr c ''hidden_activation'') (\<lambda>a.
       if a \<in> {JStr ''gelu'', JStr ''gelu_pytorch_tanh''} then Inr c
       else Inl (ValueError ''Only GeLU is supported as the activation for gemma.''))"
| "run_step RejectBias c =
     res_bind (config_attr c ''attention_bias'') (\<lambda>b.
       if json_true b
       then Inl (ValueError (''Only '' @ [CHR 0x22] @ ''False'' @ [CHR 0x22] @ '' attention_bias is supported for gemma''))
       else Inr c)"
| "run_step LlamaRopeScaling c =
     res_bind (config_attr c ''rope_scaling'') (\<lambda>r. res_bind (llama_rope_scaling r) (\<lambda>r'.
       Inr (set_field ''rope_scaling'' r' c)))"
| "run_step Phi3RopeScaling c =
     res_bind (config_attr c ''rope_scaling'') (\<lambda>r. res_bind (config_attr c ''max_position_embeddings'') (\<lambda>m.
       res_bind (config_attr c ''original_max_position_embeddings'') (\<lambda>original.
       res_bind (phi3_rope_scaling r m original) (\<lambda>r'. Inr (set_field ''rope_scaling'' r' c)))))"
| "run_step (PipelineStages sep) c =
     res_bind (config_attr c ''pipeline_parallel_stages'') (\<lambda>p. res_bind (config_attr c ''num_hidden_layers'') (\<lambda>n.
       res_bind (json_gt p (JInt 0)) (\<lambda>pos. res_bind (if pos then json_gt p n else Inr True) (\<lambda>bad.
         if bad then Inl (ValueError (''Invalid '' @ [CHR 0x22] @ ''pipeline_parallel_stages'' @ [CHR 0x22] @ '' value'' @ sep
                @ show_size p @ ''). ''))
         else Inr c))))"
| "run_step RwkvIntermediate c =
     res_bind (config_attr c ''intermediate_size'') (\<lambda>i. res_bind (config_attr c ''hidden_size'') (\<lambda>h.
       if json_true i then Inr c
       else res_bind (json_scaled (JFloat (Finite (7 / 2))) h) (\<lambda>n. Inr (set_field ''intermediate_size'' (JInt (n div 32 * 32)) c))))"
| "run_step RwkvHeads c =
     res_bind (config_attr c ''num_heads'') (\<lambda>n. res_bind (config_attr c ''hidden_size'') (\<lambda>h. res_bind (config_attr c ''head_size'') (\<lambda>d.
       if json_is n 0 then res_bind (json_floordiv h d) (\<lambda>v. Inr (set_field ''num_heads'' v c)) else Inr c)))"
| "run_step RwkvCheckHeads c =
     res_bind (config_attr c ''num_heads'') (\<lambda>n. res_bind (config_attr c ''head_size'') (\<lambda>d. res_bind (config_attr c ''hidden_size'') (\<lambda>h.
       res_bind (json_times n d) (\<lambda>m.
         if json_is h m then Inr c
         else Inl (ValueError (''hidden_size ('' @ show_size h @ '') must be divisible by head_size ('' @ show_size d @ '')''))))))"
| "run_step SingleDevice c =
     res_bind (config_attr c ''tensor_parallel_shards'') (\<lambda>n.
       if json_is n 1 then Inr c else Inl (ValueError ''Only support single device at this moment.''))"
| "run_step (ModelVersion v) c =
     res_bind (config_attr c ''model_version'') (\<lambda>m.
       if m = JStr v then Inr c
       else Inl (ValueError (''Only support RWKV v'' @ v @ '', got '' @ show_json_name m @ ''.'')))"
| "run_step PaddedVocab c =
     res_bind (config_attr c ''vocab_size'') (\<lambda>n.
       Inr (if json_is n 0
            then (case take_kwarg [''padded_vocab_size''] c of Some (v, c') \<Rightarrow> set_field ''vocab_size'' v c' | None \<Rightarrow> c)
            else c))"
| "run_step SlidingWindow c =
     res_bind (config_attr c ''sliding_window_size'') (\<lambda>s.
       case (if json_is s 0
             then (case take_kwarg [''sliding_window''] c of Some r \<Rightarrow> r | None \<Rightarrow> (JInt (- 1), c)) else (s, c)) of
         (v, c') \<Rightarrow> Inr (set_field ''sliding_window_size'' (if v = JNull then JInt (- 1) else v) c'))"
| "run_step MistralContext c =
     res_bind (config_attr c ''context_window_size'') (\<lambda>w. res_bind (config_attr c ''sliding_window_size'') (\<lambda>s.
       if json_is w 0
       then if json_is s (- 1)
            then (case take_kwarg [''max_position_embeddings'', ''max_sequence_length''] c of
                    Some (v, c') \<Rightarrow> Inr (set_field ''context_window_size'' v c')
                  | None \<Rightarrow> Inl (ValueError context_missing))
            else Inr (set_field ''context_window_size'' (JInt (- 1)) c)
       else Inr c))"
| "run_step AssertSink c =
     res_bind (config_attr c ''attention_sink_size'') (\<lambda>n. res_bind (json_gt (JInt 0) n) (\<lambda>neg.
       res_bind (res_assert (\<not> neg) []) (\<lambda>_. Inr c)))"
| "run_step MistralPrefill c =
     res_bind (config_attr c ''prefill_chunk_size'') (\<lambda>p. res_bind (config_attr c ''sliding_window_size'') (\<lambda>s.
       res_bind (config_attr c ''context_window_size'') (\<lambda>w.
         if json_is p 0 then res_bind (mistral_prefill s w) (\<lambda>v. Inr (set_field ''prefill_chunk_size'' v c)) else Inr c)))"
| "run_step RotaryDim c =
     res_bind (config_attr c ''partial_rotary_factor'') (\<lambda>f. res_bind (config_attr c ''head_dim'') (\<lambda>d.
       res_bind (json_scaled f d) (\<lambda>_. Inr c)))"
| "run_step CheckClip c =
     res_bind (config_attr c ''clip_qkv'') (\<lambda>q. res_bind (clip_positive q) (\<lambda>pos.
       if pos then Inr c else Inl (ValueError ''clip_qkv should be non-negative'')))"

definition run_steps :: "config_step list \<Rightarrow> config \<Rightarrow> config res" where
  "run_steps ss c = res_fold (\<lambda>c s. run_step s c) c ss"

text \<open>A class: its fields with their default values and the statements, all of them under a condition in Cohere.\<close>

record config_spec =
  sp_name :: string
  sp_fields :: "(string \<times> json option) list"
  sp_when_zero :: "string option"
  sp_steps :: "config_step list"

definition post_init :: "config_spec \<Rightarrow> config \<Rightarrow> config res" where
  "post_init sp c =
     (case sp_when_zero sp of
        None \<Rightarrow> run_steps (sp_steps sp) c
      | Some k \<Rightarrow> res_bind (config_attr c k) (\<lambda>v. if json_is v 0 then run_steps (sp_steps sp) c else Inr c))"

text \<open>The constructor of the dataclass.\<close>

definition field_values :: "(string \<times> json option) list \<Rightarrow> (string \<times> json) list \<Rightarrow> (string \<times> json) list" where
  "field_values specs given = map (\<lambda>(k, d). (k, case map_of given k of Some v \<Rightarrow> v | None \<Rightarrow> the d)) specs"

definition new_config :: "config_spec \<Rightarrow> (string \<times> json) list \<Rightarrow> (string \<times> json) list \<Rightarrow> config res" where
  "new_config sp given kwargs =
     (case filter (\<lambda>(k, d). d = None \<and> k \<notin> fst ` set given) (sp_fields sp) of
        [] \<Rightarrow> post_init sp \<lparr>cfg_fields = field_values (sp_fields sp) given, cfg_kwargs = kwargs\<rparr>
      | missing \<Rightarrow> Inl (TypeError (sp_name sp @ ''.__init__() missing required arguments: '' @ py_join '', '' (map fst missing))))"

definition spec_class :: "config_spec \<Rightarrow> config_class" where
  "spec_class sp = \<lparr>cls_name = sp_name sp, cls_field_names = map fst (sp_fields sp) @ [''kwargs''], cls_new = new_config sp\<rparr>"

section \<open>The classes\<close>

definition BaichuanConfig :: config_spec where
  "BaichuanConfig =
     \<lparr>sp_name = ''BaichuanConfig'',
      sp_fields =
        [(''vocab_size'', None), (''hidden_size'', None), (''num_hidden_layers'', None),
         (''num_attention_heads'', None), (''initializer_range'', None),
         (''intermediate_size'', None), (''rms_norm_eps'', None), (''use_cache'', None),
         (''pad_token_id'', None), (''bos_token_id'', None), (''eos_token_id'', None),
         (''tie_word_embeddings'', None), (''context_window_size'', Some (JInt 0)),
         (''prefill_chunk_size'', Some (JInt 0)), (''tensor_parallel_shards'', Some (JInt 1)),
         (''max_batch_size'', Some (JInt 1)), (''head_dim'', Some (JInt 0))],
      sp_when_zero = None,
      sp_steps =
        [ContextFrom [''max_position_embeddings'', ''max_sequence_length''] context_missing,
         HeadDim ''hidden_size'' ''num_attention_heads'',
         AssertHeads ''num_attention_heads'' ''hidden_size'' '''', PrefillChunk 8192]\<rparr>"

definition BertConfig :: config_spec where
  "BertConfig =
     \<lparr>sp_name = ''BertConfig'',
      sp_fields =
        [(''vocab_size'', None), (''hidden_size'', None), (''num_hidden_layers'', None),
         (''num_attention_heads'', None), (''intermediate_size'', None), (''hidden_act'', None),
         (''layer_norm_eps'', None), (''context_window_size'', Some (JInt 0)),
         (''prefill_chunk_size'', Some (JInt 0)), (''tensor_parallel_shards'', Some (JInt 1)),
         (''head_dim'', Some (JInt 0)), (''max_batch_size'', Some (JInt 1))],
      sp_when_zero = None,
      sp_steps =
        [FourTimes ''intermediate_size'' (- 1) ''hidden_size'',
         ContextFrom [''max_position_embeddings'', ''max_sequence_length''] context_missing,
         HeadDim ''hidden_size'' ''num_attention_heads'',
         AssertHeads ''num_attention_heads'' ''hidden_size'' '''', PrefillWhole]\<rparr>"

definition GLMConfig :: config_spec where
  "GLMConfig =
     \<lparr>sp_name = ''GLMConfig'',
      sp_fields =
        [(''hidden_size'', None), (''num_layers'', None), (''kv_channels'', None),
         (''num_attention_heads'', None), (''ffn_hidden_size'', None),
         (''layernorm_epsilon'', None), (''post_layer_norm'', None), (''rmsnorm'', None),
         (''add_bias_linear'', None), (''add_qkv_bias'', None),
         (''apply_query_key_layer_scaling'', None), (''multi_query_attention'', None),
         (''multi_query_group_num'', None), (''vocab_size'', Some (JInt 0)),
         (''context_window_size'', Some (JInt 0)), (''prefill_chunk_size'', Some (JInt 0)),
         (''tensor_parallel_shards'', Some (JInt 1)), (''head_dim'', Some (JInt 0)),
         (''max_batch_size'', Some (JInt 1))],
      sp_when_zero = None,
      sp_steps =
        [PaddedVocab, ContextFrom [''max_position_embeddings'', ''seq_length''] context_missing,
         HeadDim ''hidden_size'' ''num_attention_heads'',
         AssertHeads ''num_attention_heads'' ''hidden_size'' '''', PrefillChunk 8192]\<rparr>"

definition CohereConfig :: config_spec where
  "CohereConfig =
     \<lparr>sp_name = ''CohereConfig'',
      sp_fields =
        [(''model_type'', None), (''hidden_size'', None), (''vocab_size'', None),
         (''num_hidden_layers'', None), (''num_attention_heads'', None),
         (''num_key_value_heads'', None), (''intermediate_size'', None),
         (''layer_norm_eps'', None), (''position_embedding_base'', Some (JInt 0)),
         (''context_window_size'', Some (JInt 0)), (''prefill_chunk_size'', Some (JInt 0)),
         (''head_dim'', Some (JInt 0)), (''tensor_parallel_shards'', Some (JInt 1)),
         (''max_batch_size'', Some (JInt 1))],
      sp_when_zero = Some ''position_embedding_base'',
      sp_steps =
        [RopeTheta, ContextMaybe [''max_position_embeddings'', ''max_sequence_length''], PrefillChunk 8192,
         DefaultMissing ''num_key_value_heads'' ''num_attention_heads'',
         HeadDim ''hidden_size'' ''num_attention_heads'',
         AssertHeads ''num_attention_heads'' ''hidden_size'' ''head_dim * num_attention_heads != hidden_size'',
         AssertGroups ''num_attention_heads'' ''num_key_value_heads'' ''num_attention_heads % num_key_value_heads != 0'']\<rparr>"

definition DeepseekConfig :: config_spec where
  "DeepseekConfig =
     \<lparr>sp_name = ''DeepseekConfig'',
      sp_fields =
        [(''vocab_size'', None), (''hidden_size'', None), (''intermediate_size'', None),
         (''moe_intermediate_size'', None), (''num_hidden_layers'', None),
         (''num_attention_heads'', None), (''num_key_value_heads'', None),
         (''n_shared_experts'', None), (''n_routed_experts'', None), (''moe_layer_freq'', None),
         (''first_k_dense_replace'', None), (''hidden_act'', None), (''norm_topk_prob'', None),
         (''attention_bias'', None), (''rms_norm_eps'', None), (''use_cache'', None),
         (''bos_token_id'', None), (''eos_token_id'', None),
         (''tie_word_embeddings'', Some (JBool False)), (''rope_theta'', Some (JInt 10000)),
         (''context_window_size'', Some (JInt 0)), (''prefill_chunk_size'', Some (JInt 0)),
         (''tensor_parallel_shards'', Some (JInt 1)), (''head_dim'', Some (JInt 0)),
         (''max_batch_size'', Some (JInt 1)), (''num_experts_per_tok'', Some (JInt 0))],
      sp_when_zero = None,
      sp_steps =
        [ContextFrom [''max_position_embeddings'', ''max_sequence_length''] context_missing,
         HeadDim ''hidden_size'' ''num_attention_heads'',
         AssertHeads ''num_attention_heads'' ''hidden_size'' '''', PrefillChunk 8192]\<rparr>"

definition DeepseekV2Config :: config_spec where
  "DeepseekV2Config =
     \<lparr>sp_name = ''DeepseekV2Config'',
      sp_fields =
        [(''vocab_size'', None), (''hidden_size'', None), (''intermediate_size'', None),
         (''moe_intermediate_size'', None), (''num_hidden_layers'', None),
         (''num_attention_heads'', None), (''num_key_value_heads'', None),
         (''n_shared_experts'', None), (''n_routed_experts'', None),
         (''num_experts_per_tok'', None), (''norm_topk_prob'', None),
         (''first_k_dense_replace'', None), (''moe_layer_freq'', None),
         (''routed_scaling_factor'', None), (''scoring_func'', None), (''topk_method'', None),
         (''n_group'', None), (''topk_group'', None), (''attention_bias'', None),
         (''kv_lora_rank'', None), (''qk_rope_head_dim'', None), (''v_head_dim'', None),
         (''qk_nope_head_dim'', None), (''rms_norm_eps'', None), (''rope_theta'', None),
         (''q_lora_rank'', Some JNull), (''rope_scaling'', Some JNull),
         (''context_window_size'', Some (JInt 0)), (''prefill_chunk_size'', Some (JInt 0)),
         (''tensor_parallel_shards'', Some (JInt 1)), (''dtype'', Some (JStr ''float32'')),
         (''max_batch_size'', Some (JInt 1)), (''weight_block_size'', Some JNull)],
      sp_when_zero = None,
      sp_steps =
        [BlockQuantConfig, ContextFrom [''max_position_embeddings'', ''max_sequence_length''] context_missing,
         AssertGroups ''num_attention_heads'' ''num_key_value_heads'' '''', PrefillChunk 2048]\<rparr>"

definition LlamaConfig :: config_spec where
  "LlamaConfig =
     \<lparr>sp_name = ''LlamaConfig'',
      sp_fields =
        [(''hidden_size'', None), (''intermediate_size'', None), (''num_attention_heads'', None),
         (''num_hidden_layers'', None), (''rms_norm_eps'', None), (''vocab_size'', None),
         (''tie_word_embeddings'', Some (JBool False)),
         (''position_embedding_base'', Some (JInt 0)), (''rope_scaling'', Some JNull),
         (''context_window_size'', Some (JInt 0)), (''prefill_chunk_size'', Some (JInt 0)),
         (''num_key_value_heads'', Some (JInt 0)), (''head_dim'', Some (JInt 0)),
         (''tensor_parallel_shards'', Some (JInt 1)),
         (''pipeline_parallel_stages'', Some (JInt 1)), (''max_batch_size'', Some (JInt 1)),
         (''disaggregation'', Some (JBool False))],
      sp_when_zero = None,
      sp_steps =
        [RopeBase, LlamaRopeScaling,
         ContextFrom [''max_position_embeddings'', ''max_sequence_length''] context_missing,
         PipelineStages '' ('', DefaultField ''num_key_value_heads'' ''num_attention_heads'',
         HeadDim ''hidden_size'' ''num_attention_heads'',
         AssertGroups ''num_attention_heads'' ''num_key_value_heads'' '''', PrefillChunk 8192]\<rparr>"

definition EagleConfig :: config_spec where
  "EagleConfig = LlamaConfig
     \<lparr>sp_name := ''EagleConfig'', sp_fields := sp_fields LlamaConfig @
        [(''bias'', Some (JBool True))]\<rparr>"

definition GemmaConfig :: config_spec where
  "GemmaConfig =
     \<lparr>sp_name = ''GemmaConfig'',
      sp_fields =
        [(''hidden_size'', None), (''intermediate_size'', None), (''attention_bias'', None),
         (''num_attention_heads'', None), (''num_key_value_heads'', None), (''head_dim'', None),
         (''num_hidden_layers'', None), (''rms_norm_eps'', None), (''vocab_size'', None),
         (''hidden_activation'', Some JNull), (''position_embedding_base'', Some (JInt 0)),
         (''context_window_size'', Some (JInt 0)), (''prefill_chunk_size'', Some (JInt 0)),
         (''tensor_parallel_shards'', Some (JInt 1)), (''max_batch_size'', Some (JInt 1))],
      sp_when_zero = None,
      sp_steps =
        [HiddenActivation, CheckActivation, RejectBias, RopeBase,
         ContextFrom [''max_position_embeddings'', ''max_sequence_length''] context_missing,
         AssertGroups ''num_attention_heads'' ''num_key_value_heads'' '''', PrefillChunk 8192]\<rparr>"

definition Gemma2Config :: config_spec where
  "Gemma2Config = GemmaConfig
     \<lparr>sp_name := ''Gemma2Config'', sp_fields := sp_fields GemmaConfig @
        [(''attn_logit_softcapping'', Some JNull), (''final_logit_softcapping'', Some JNull),
                     (''query_pre_attn_scalar'', Some JNull), (''sliding_window'', Some JNull)],
      sp_steps := sp_steps GemmaConfig @ [ContextSliding]\<rparr>"

definition Gemma3TextConfig :: config_spec where
  "Gemma3TextConfig =
     \<lparr>sp_name = ''Gemma3TextConfig'',
      sp_fields =
        [(''hidden_size'', None), (''intermediate_size'', None), (''num_hidden_layers'', None),
         (''attention_bias'', Some (JBool False)), (''num_attention_heads'', Some (JInt 8)),
         (''num_key_value_heads'', Some (JInt 4)), (''head_dim'', Some (JInt 256)),
         (''rms_norm_eps'', Some (JFloat (Finite (4722366482869645 / 4722366482869645213696)))),
         (''hidden_activation'', Some (JStr ''gelu_pytorch_tanh'')),
         (''position_embedding_base'', Some (JInt 0)),
         (''context_window_size'', Some (JInt 131072)), (''prefill_chunk_size'', Some (JInt 0)),
         (''query_pre_attn_scalar'', Some (JInt 256)), (''sliding_window'', Some JNull)],
      sp_when_zero = None,
      sp_steps =
        [HiddenActivation, CheckActivation, RejectBias, RopeBase,
         ContextFrom [''max_position_embeddings'', ''max_sequence_length''] context_missing,
         AssertGroups ''num_attention_heads'' ''num_key_value_heads'' '''', PrefillChunk 8192,
         ContextAtLeast 8192]\<rparr>"

definition GPT2Config :: config_spec where
  "GPT2Config =
     \<lparr>sp_name = ''GPT2Config'',
      sp_fields =
        [(''vocab_size'', None), (''n_embd'', None), (''n_layer'', None), (''n_head'', None),
         (''layer_norm_epsilon'', None), (''n_inner'', Some (JInt (- 1))),
         (''context_window_size'', Some (JInt 0)), (''prefill_chunk_size'', Some (JInt 0)),
         (''scale_attn_by_inverse_layer_idx'', Some (JBool False)),
         (''tensor_parallel_shards'', Some (JInt 1)), (''head_dim'', Some (JInt 0)),
         (''max_batch_size'', Some (JInt 1))],
      sp_when_zero = None,
      sp_steps =
        [FourTimes ''n_inner'' (- 1) ''n_embd'',
         ContextFrom [''n_positions'', ''max_sequence_length''] ''Unable to determine the maximum sequence length, because none of `context_window_size`, `n_positions` or `max_sequence_length` is provided in `config.json`.'',
         HeadDim ''n_embd'' ''n_head'', AssertHeads ''n_head'' ''n_embd'' '''', PrefillChunk 8192]\<rparr>"

definition GPTBigCodeConfig :: config_spec where
  "GPTBigCodeConfig =
     \<lparr>sp_name = ''GPTBigCodeConfig'',
      sp_fields =
        [(''n_embd'', None), (''n_inner'', None), (''n_head'', None), (''n_layer'', None),
         (''n_positions'', None), (''layer_norm_epsilon'', None), (''vocab_size'', None),
         (''context_window_size'', Some (JInt 0)), (''prefill_chunk_size'', Some (JInt 0)),
         (''tensor_parallel_shards'', Some (JInt 1)), (''max_batch_size'', Some (JInt 1))],
      sp_when_zero = None,
      sp_steps =
        [ContextPositive ''n_positions'' context_missing, PrefillChunk 8192]\<rparr>"

definition GPTJConfig :: config_spec where
  "GPTJConfig =
     \<lparr>sp_name = ''GPTJConfig'',
      sp_fields =
        [(''vocab_size'', None), (''n_embd'', None), (''n_layer'', None), (''n_head'', None),
         (''layer_norm_epsilon'', None), (''rotary_dim'', None), (''activation_function'', None),
         (''n_inner'', Some (JInt (- 1))), (''rope_scaling'', Some JNull),
         (''context_window_size'', Some (JInt 0)), (''prefill_chunk_size'', Some (JInt 0)),
         (''tensor_parallel_shards'', Some (JInt 1)), (''max_batch_size'', Some (JInt 1)),
         (''head_dim'', Some (JInt 0))],
      sp_when_zero = None,
      sp_steps =
        [ContextFrom [''max_position_embeddings'', ''n_positions''] context_missing,
         HeadDim ''n_embd'' ''n_head'', AssertHeads ''n_head'' ''n_embd'' '''', PrefillChunk 8192]\<rparr>"

definition GPTNeoXConfig :: config_spec where
  "GPTNeoXConfig =
     \<lparr>sp_name = ''GPTNeoXConfig'',
      sp_fields =
        [(''use_parallel_residual'', None), (''hidden_size'', None),
         (''intermediate_size'', None), (''num_attention_heads'', None),
         (''num_hidden_layers'', None), (''layer_norm_eps'', None), (''vocab_size'', None),
         (''rotary_pct'', None), (''position_embedding_base'', Some (JInt 0)),
         (''context_window_size'', Some (JInt 0)), (''head_dim'', Some (JInt 0)),
         (''prefill_chunk_size'', Some (JInt 0)), (''tensor_parallel_shards'', Some (JInt 1)),
         (''ffn_out_dtype'', Some (JStr ''float32'')), (''max_batch_size'', Some (JInt 1))],
      sp_when_zero = None,
      sp_steps =
        [ContextFrom [''max_position_embeddings'', ''max_sequence_length''] context_missing, RopeBase,
         HeadDim ''hidden_size'' ''num_attention_heads'',
         AssertHeads ''num_attention_heads'' ''hidden_size'' '''', PrefillChunk 8192]\<rparr>"

definition InternLMConfig :: config_spec where
  "InternLMConfig =
     \<lparr>sp_name = ''InternLMConfig'',
      sp_fields =
        [(''vocab_size'', None), (''hidden_size'', None), (''num_hidden_layers'', None),
         (''num_attention_heads'', None), (''rms_norm_eps'', None), (''intermediate_size'', None),
         (''bias'', None), (''use_cache'', None), (''pad_token_id'', None),
         (''bos_token_id'', None), (''eos_token_id'', None),
         (''context_window_size'', Some (JInt 0)), (''prefill_chunk_size'', Some (JInt 0)),
         (''tensor_parallel_shards'', Some (JInt 1)), (''max_batch_size'', Some (JInt 1)),
         (''head_dim'', Some (JInt 0))],
      sp_when_zero = None,
      sp_steps =
        [ContextFrom [''max_position_embeddings'', ''max_sequence_length''] context_missing,
         HeadDim ''hidden_size'' ''num_attention_heads'',
         AssertHeads ''num_attention_heads'' ''hidden_size'' '''', PrefillChunk 8192]\<rparr>"

definition InternLM2Config :: config_spec where
  "InternLM2Config =
     \<lparr>sp_name = ''InternLM2Config'',
      sp_fields =
        [(''vocab_size'', None), (''hidden_size'', None), (''num_hidden_layers'', None),
         (''num_attention_heads'', None), (''num_key_value_heads'', None),
         (''rms_norm_eps'', None), (''intermediate_size'', None), (''bias'', None),
         (''use_cache'', None), (''rope_theta'', None), (''pad_token_id'', None),
         (''bos_token_id'', None), (''eos_token_id'', None),
         (''context_window_size'', Some (JInt 0)), (''prefill_chunk_size'', Some (JInt 0)),
         (''tensor_parallel_shards'', Some (JInt 1)), (''max_batch_size'', Some (JInt 1)),
         (''head_dim'', Some (JInt 0))],
      sp_when_zero = None,
      sp_steps =
        [ContextFrom [''max_position_embeddings'', ''max_sequence_length''] context_missing,
         HeadDim ''hidden_size'' ''num_attention_heads'',
         AssertHeads ''num_attention_heads'' ''hidden_size'' '''', PrefillChunk 2048]\<rparr>"

definition MedusaConfig :: config_spec where
  "MedusaConfig =
     \<lparr>sp_name = ''MedusaConfig'',
      sp_fields =
        [(''medusa_num_heads'', None), (''medusa_num_layers'', None), (''hidden_size'', None),
         (''vocab_size'', None), (''max_batch_size'', Some (JInt 1)),
         (''tensor_parallel_shards'', Some (JInt 1)), (''prefill_chunk_size'', Some (JInt (- 1))),
         (''context_window_size'', Some (JInt (- 1)))],
      sp_when_zero = None,
      sp_steps =
        []\<rparr>"

definition MiniCPMConfig :: config_spec where
  "MiniCPMConfig =
     \<lparr>sp_name = ''MiniCPMConfig'',
      sp_fields =
        [(''vocab_size'', None), (''hidden_size'', None), (''num_hidden_layers'', None),
         (''num_attention_heads'', None), (''num_key_value_heads'', None), (''hidden_act'', None),
         (''rms_norm_eps'', None), (''intermediate_size'', None), (''scale_emb'', None),
         (''scale_depth'', None), (''dim_model_base'', None), (''use_cache'', None),
         (''bos_token_id'', None), (''eos_token_id'', None),
         (''tie_word_embeddings'', Some (JBool False)), (''rope_theta'', Some (JInt 10000)),
         (''context_window_size'', Some (JInt 0)), (''prefill_chunk_size'', Some (JInt 0)),
         (''tensor_parallel_shards'', Some (JInt 1)), (''head_dim'', Some (JInt 0)),
         (''max_batch_size'', Some (JInt 1)), (''num_experts_per_tok'', Some (JInt 0)),
         (''num_experts'', Some (JInt 0))],
      sp_when_zero = None,
      sp_steps =
        [ContextFrom [''max_position_embeddings'', ''max_sequence_length''] context_missing,
         HeadDim ''hidden_size'' ''num_attention_heads'',
         AssertHeads ''num_attention_heads'' ''hidden_size'' '''', PrefillChunk 8192]\<rparr>"

definition MistralConfig :: config_spec where
  "MistralConfig =
     \<lparr>sp_name = ''MistralConfig'',
      sp_fields =
        [(''hidden_size'', None), (''intermediate_size'', None), (''num_attention_heads'', None),
         (''num_hidden_layers'', None), (''rms_norm_eps'', None), (''vocab_size'', None),
         (''position_embedding_base'', Some (JInt 0)), (''num_key_value_heads'', Some (JInt 0)),
         (''head_dim'', Some (JInt 0)), (''context_window_size'', Some (JInt 0)),
         (''sliding_window_size'', Some (JInt 0)), (''prefill_chunk_size'', Some (JInt 0)),
         (''attention_sink_size'', Some (JInt 4)), (''tensor_parallel_shards'', Some (JInt 1)),
         (''max_batch_size'', Some (JInt 1))],
      sp_when_zero = None,
      sp_steps =
        [RopeBase, SlidingWindow, MistralContext,
         DefaultField ''num_key_value_heads'' ''num_attention_heads'',
         HeadDim ''hidden_size'' ''num_attention_heads'',
         AssertGroups ''num_attention_heads'' ''num_key_value_heads'' '''', AssertSink, MistralPrefill]\<rparr>"

definition MixtralConfig :: config_spec where
  "MixtralConfig = LlamaConfig
     \<lparr>sp_name := ''MixtralConfig'', sp_fields := sp_fields LlamaConfig @
        [(''num_local_experts'', Some (JInt 0)), (''num_experts_per_tok'', Some (JInt 0))]\<rparr>"

definition NemotronConfig :: config_spec where
  "NemotronConfig =
     \<lparr>sp_name = ''NemotronConfig'',
      sp_fields =
        [(''vocab_size'', None), (''max_position_embeddings'', None), (''hidden_size'', None),
         (''intermediate_size'', None), (''num_hidden_layers'', None),
         (''num_attention_heads'', None), (''num_key_value_heads'', None),
         (''rope_theta'', Some (JInt 10000)),
         (''partial_rotary_factor'', Some (JFloat (Finite (1 / 2)))),
         (''rope_scaling'', Some JNull),
         (''norm_eps'', Some (JFloat (Finite (5902958103587057 / 590295810358705651712)))),
         (''head_dim'', Some (JInt 0)), (''tie_word_embeddings'', Some (JBool False)),
         (''mlp_bias'', Some (JBool False)), (''context_window_size'', Some (JInt 0)),
         (''prefill_chunk_size'', Some (JInt 0)), (''tensor_parallel_shards'', Some (JInt 1)),
         (''pipeline_parallel_stages'', Some (JInt 1)), (''max_batch_size'', Some (JInt 1)),
         (''disaggregation'', Some (JBool False))],
      sp_when_zero = None,
      sp_steps =
        [ContextField ''max_position_embeddings'', HeadDim ''hidden_size'' ''num_attention_heads'',
         AssertHeads ''num_attention_heads'' ''hidden_size'' '''', RotaryDim, PrefillChunk 8192]\<rparr>"

definition OLMoConfig :: config_spec where
  "OLMoConfig =
     \<lparr>sp_name = ''OLMoConfig'',
      sp_fields =
        [(''vocab_size'', Some JNull), (''hidden_size'', Some JNull),
         (''num_attention_heads'', Some JNull), (''num_key_value_heads'', Some (JInt 0)),
         (''head_dim'', Some (JInt 0)), (''position_embedding_base'', Some (JInt 0)),
         (''rope_scaling'', Some JNull), (''intermediate_size'', Some JNull),
         (''hidden_act'', Some JNull), (''num_hidden_layers'', Some JNull),
         (''tie_word_embeddings'', Some (JBool False)), (''context_window_size'', Some (JInt 0)),
         (''prefill_chunk_size'', Some (JInt 0)), (''tensor_parallel_shards'', Some (JInt 1)),
         (''pipeline_parallel_stages'', Some (JInt 1)), (''max_batch_size'', Some (JInt 1)),
         (''clip_qkv'', Some JNull)],
      sp_when_zero = None,
      sp_steps =
        [DefaultField ''num_key_value_heads'' ''num_attention_heads'',
         HeadDim ''hidden_size'' ''num_attention_heads'',
         AssertGroups ''num_attention_heads'' ''num_key_value_heads'' '''', RopeBase,
         ContextFrom [''max_position_embeddings'', ''max_sequence_length''] context_missing,
         PrefillChunk 8192, PipelineStages ''('', CheckClip]\<rparr>"

definition OrionConfig :: config_spec where
  "OrionConfig =
     \<lparr>sp_name = ''OrionConfig'',
      sp_fields =
        [(''hidden_size'', None), (''intermediate_size'', None), (''num_attention_heads'', None),
         (''num_hidden_layers'', None), (''rms_norm_eps'', None), (''vocab_size'', None),
         (''position_embedding_base'', Some (JInt 0)), (''context_window_size'', Some (JInt 0)),
         (''prefill_chunk_size'', Some (JInt 0)), (''num_key_value_heads'', Some (JInt 0)),
         (''head_dim'', Some (JInt 0)), (''tensor_parallel_shards'', Some (JInt 1)),
         (''max_batch_size'', Some (JInt 1))],
      sp_when_zero = None,
      sp_steps =
        [RopeBase, ContextFrom [''max_position_embeddings'', ''max_sequence_length''] context_missing,
         DefaultField ''num_key_value_heads'' ''num_attention_heads'',
         HeadDim ''hidden_size'' ''num_attention_heads'',
         AssertHeads ''num_attention_heads'' ''hidden_size'' '''',
         AssertGroups ''num_attention_heads'' ''num_key_value_heads'' '''', PrefillChunk 8192]\<rparr>"

definition Phi1Config :: config_spec where
  "Phi1Config =
     \<lparr>sp_name = ''Phi1Config'',
      sp_fields =
        [(''vocab_size'', Some (JInt 51200)), (''hidden_size'', Some (JInt 2048)),
         (''intermediate_size'', Some (JInt 8192)), (''num_hidden_layers'', Some (JInt 24)),
         (''num_attention_heads'', Some (JInt 32)),
         (''layer_norm_eps'', Some (JFloat (Finite (5902958103587057 / 590295810358705651712)))),
         (''position_embedding_base'', Some (JInt 0)),
         (''partial_rotary_factor'', Some (JFloat (Finite (1 / 2)))),
         (''num_key_value_heads'', Some (JInt 0)), (''context_window_size'', Some (JInt 0)),
         (''prefill_chunk_size'', Some (JInt 0)), (''head_dim'', Some (JInt 0)),
         (''tensor_parallel_shards'', Some (JInt 1)), (''max_batch_size'', Some (JInt 1))],
      sp_when_zero = None,
      sp_steps =
        [RopeBase, ContextFrom [''max_position_embeddings'', ''max_sequence_length''] context_missing,
         PrefillChunk 8192, DefaultMissing ''num_key_value_heads'' ''num_attention_heads'',
         FourTimes ''intermediate_size'' 0 ''hidden_size'', HeadDim ''hidden_size'' ''num_attention_heads'',
         AssertHeads ''num_attention_heads'' ''hidden_size'' '''',
         AssertGroups ''num_attention_heads'' ''num_key_value_heads'' '''']\<rparr>"

definition PhiConfig :: config_spec where
  "PhiConfig =
     \<lparr>sp_name = ''PhiConfig'',
      sp_fields =
        [(''model_type'', None), (''vocab_size'', Some (JInt 51200)),
         (''n_positions'', Some (JInt 2048)), (''n_embd'', Some (JInt 2560)),
         (''n_layer'', Some (JInt 32)), (''n_inner'', Some (JInt 0)),
         (''n_head'', Some (JInt 32)), (''rotary_dim'', Some (JInt 32)),
         (''position_embedding_base'', Some (JInt 0)),
         (''layer_norm_epsilon'', Some (JFloat (Finite (5902958103587057 / 590295810358705651712)))),
         (''context_window_size'', Some (JInt 0)), (''prefill_chunk_size'', Some (JInt 0)),
         (''n_head_kv'', Some (JInt 0)), (''head_dim'', Some (JInt 0)),
         (''tensor_parallel_shards'', Some (JInt 1))],
      sp_when_zero = None,
      sp_steps =
        [RopeBase, ContextOrField [''max_position_embeddings'', ''max_sequence_length''] ''n_positions'',
         PrefillPhi, DefaultMissing ''n_head_kv'' ''n_head'', FourTimes ''n_inner'' 0 ''n_embd'',
         HeadDim ''n_embd'' ''n_head'', AssertHeads ''n_head'' ''n_embd'' '''',
         AssertGroups ''n_head'' ''n_head_kv'' '''']\<rparr>"

definition Phi3Config :: config_spec where
  "Phi3Config =
     \<lparr>sp_name = ''Phi3Config'',
      sp_fields =
        [(''model_type'', None), (''hidden_size'', None), (''vocab_size'', None),
         (''num_hidden_layers'', None), (''num_attention_heads'', None),
         (''intermediate_size'', None), (''rms_norm_eps'', None), (''num_key_value_heads'', None),
         (''max_position_embeddings'', None), (''position_embedding_base'', Some (JInt 0)),
         (''rope_scaling'', Some JNull), (''original_max_position_embeddings'', Some (JInt 0)),
         (''context_window_size'', Some (JInt 0)), (''prefill_chunk_size'', Some (JInt 0)),
         (''head_dim'', Some (JInt 0)), (''tensor_parallel_shards'', Some (JInt 1)),
         (''max_batch_size'', Some (JInt 1))],
      sp_when_zero = None,
      sp_steps =
        [RopeBase, Phi3RopeScaling, ContextField ''max_position_embeddings'', PrefillChunk 8192,
         DefaultMissing ''num_key_value_heads'' ''num_attention_heads'',
         HeadDim ''hidden_size'' ''num_attention_heads'',
         AssertHeads ''num_attention_heads'' ''hidden_size'' '''',
         AssertGroups ''num_attention_heads'' ''num_key_value_heads'' '''']\<rparr>"

definition QWenConfig :: config_spec where
  "QWenConfig =
     \<lparr>sp_name = ''QWenConfig'',
      sp_fields =
        [(''vocab_size'', None), (''hidden_size'', None), (''num_hidden_layers'', None),
         (''num_attention_heads'', None), (''layer_norm_epsilon'', None),
         (''scale_attn_weights'', None), (''kv_channels'', None), (''rotary_emb_base'', None),
         (''intermediate_size'', None), (''context_window_size'', Some (JInt 0)),
         (''prefill_chunk_size'', Some (JInt 0)), (''tensor_parallel_shards'', Some (JInt 1)),
         (''max_batch_size'', Some (JInt 1)), (''head_dim'', Some (JInt 0))],
      sp_when_zero = None,
      sp_steps =
        [ContextFrom [''max_position_embeddings'', ''max_sequence_length''] context_missing,
         HeadDim ''hidden_size'' ''num_attention_heads'',
         AssertHeads ''num_attention_heads'' ''hidden_size'' '''', PrefillChunk 8192]\<rparr>"

definition QWen2Config :: config_spec where
  "QWen2Config =
     \<lparr>sp_name = ''QWen2Config'',
      sp_fields =
        [(''hidden_act'', None), (''hidden_size'', None), (''intermediate_size'', None),
         (''num_attention_heads'', None), (''num_hidden_layers'', None),
         (''num_key_value_heads'', None), (''rms_norm_eps'', None), (''rope_theta'', None),
         (''vocab_size'', None), (''tie_word_embeddings'', Some (JBool False)),
         (''context_window_size'', Some (JInt 0)), (''prefill_chunk_size'', Some (JInt 0)),
         (''tensor_parallel_shards'', Some (JInt 1)), (''head_dim'', Some (JInt 0)),
         (''dtype'', Some (JStr ''float32'')), (''max_batch_size'', Some (JInt 1))],
      sp_when_zero = None,
      sp_steps =
        [ContextFrom [''max_position_embeddings'', ''max_sequence_length''] context_missing,
         HeadDim ''hidden_size'' ''num_attention_heads'',
         AssertHeads ''num_attention_heads'' ''hidden_size'' '''', PrefillChunk 8192]\<rparr>"

definition Qwen2MoeConfig :: config_spec where
  "Qwen2MoeConfig = QWen2Config
     \<lparr>sp_name := ''Qwen2MoeConfig'', sp_fields := sp_fields QWen2Config @
        [(''moe_intermediate_size'', Some (JInt 0)),
                     (''shared_expert_intermediate_size'', Some (JInt 0)),
                     (''num_experts_per_tok'', Some (JInt 0)), (''num_experts'', Some (JInt 0)),
                     (''decoder_sparse_step'', Some (JInt 0)), (''norm_topk_prob'', Some (JBool False))]\<rparr>"

definition Qwen3Config :: config_spec where
  "Qwen3Config =
     \<lparr>sp_name = ''Qwen3Config'',
      sp_fields =
        [(''hidden_act'', None), (''hidden_size'', None), (''intermediate_size'', None),
         (''attention_bias'', None), (''num_attention_heads'', None),
         (''num_hidden_layers'', None), (''num_key_value_heads'', None), (''rms_norm_eps'', None),
         (''rope_theta'', None), (''vocab_size'', None),
         (''tie_word_embeddings'', Some (JBool False)), (''context_window_size'', Some (JInt 0)),
         (''prefill_chunk_size'', Some (JInt 0)), (''tensor_parallel_shards'', Some (JInt 1)),
         (''head_dim'', Some (JInt 0)), (''dtype'', Some (JStr ''float32'')),
         (''max_batch_size'', Some (JInt 1)), (''weight_block_size'', Some JNull)],
      sp_when_zero = None,
      sp_steps =
        [BlockQuantConfig, ContextFrom [''max_position_embeddings'', ''max_sequence_length''] context_missing,
         PrefillChunk 2048]\<rparr>"

definition Qwen3MoeConfig :: config_spec where
  "Qwen3MoeConfig = Qwen3Config
     \<lparr>sp_name := ''Qwen3MoeConfig'', sp_fields := sp_fields Qwen3Config @
        [(''moe_intermediate_size'', Some (JInt 0)), (''num_experts_per_tok'', Some (JInt 0)),
                     (''num_experts'', Some (JInt 0)), (''decoder_sparse_step'', Some (JInt 0)),
                     (''norm_topk_prob'', Some (JBool False))]\<rparr>"

definition RWKV5Config :: config_spec where
  "RWKV5Config =
     \<lparr>sp_name = ''RWKV5Config'',
      sp_fields =
        [(''hidden_size'', None), (''intermediate_size'', None), (''num_hidden_layers'', None),
         (''vocab_size'', None), (''model_version'', None),
         (''tensor_parallel_shards'', Some (JInt 1)), (''rescale_every'', Some (JInt 0)),
         (''head_size'', Some (JInt 64)),
         (''layer_norm_epsilon'', Some (JFloat (Finite (5902958103587057 / 590295810358705651712)))),
         (''context_window_size'', Some (JInt (- 1))), (''prefill_chunk_size'', Some (JInt 4096)),
         (''num_heads'', Some (JInt 0)), (''max_batch_size'', Some (JInt 1))],
      sp_when_zero = None,
      sp_steps =
        [ModelVersion ''5_2'', RwkvIntermediate, RwkvHeads, RwkvCheckHeads, SingleDevice]\<rparr>"

definition RWKV6Config :: config_spec where
  "RWKV6Config =
     \<lparr>sp_name = ''RWKV6Config'',
      sp_fields =
        [(''hidden_size'', None), (''intermediate_size'', None), (''num_hidden_layers'', None),
         (''vocab_size'', None), (''model_version'', Some (JStr ''6_0'')),
         (''tensor_parallel_shards'', Some (JInt 1)), (''rescale_every'', Some (JInt 0)),
         (''head_size'', Some (JInt 64)),
         (''layer_norm_epsilon'', Some (JFloat (Finite (5902958103587057 / 590295810358705651712)))),
         (''context_window_size'', Some (JInt (- 1))), (''prefill_chunk_size'', Some (JInt 4096)),
         (''num_heads'', Some (JInt 0)), (''max_batch_size'', Some (JInt 1))],
      sp_when_zero = None,
      sp_steps =
        [ModelVersion ''6_0'', RwkvIntermediate, RwkvHeads, RwkvCheckHeads, SingleDevice]\<rparr>"

definition StableLmConfig :: config_spec where
  "StableLmConfig =
     \<lparr>sp_name = ''StableLmConfig'',
      sp_fields =
        [(''vocab_size'', None), (''hidden_size'', None), (''num_hidden_layers'', None),
         (''num_attention_heads'', None), (''num_key_value_heads'', None),
         (''layer_norm_eps'', None), (''partial_rotary_factor'', None), (''rope_theta'', None),
         (''intermediate_size'', None), (''use_qkv_bias'', Some (JBool False)),
         (''head_dim'', Some (JInt 0)), (''context_window_size'', Some (JInt 0)),
         (''prefill_chunk_size'', Some (JInt 0)), (''tensor_parallel_shards'', Some (JInt 1)),
         (''max_batch_size'', Some (JInt 1))],
      sp_when_zero = None,
      sp_steps =
        [ContextFrom [''max_position_embeddings'', ''max_sequence_length''] context_missing,
         HeadDim ''hidden_size'' ''num_attention_heads'',
         AssertHeads ''num_attention_heads'' ''hidden_size'' '''', PrefillChunk 8192]\<rparr>"

definition Starcoder2Config :: config_spec where
  "Starcoder2Config =
     \<lparr>sp_name = ''Starcoder2Config'',
      sp_fields =
        [(''vocab_size'', None), (''hidden_size'', None), (''num_hidden_layers'', None),
         (''num_attention_heads'', None), (''num_key_value_heads'', None), (''hidden_act'', None),
         (''norm_epsilon'', None), (''intermediate_size'', None), (''rope_theta'', None),
         (''use_bias'', None), (''use_cache'', None), (''bos_token_id'', None),
         (''eos_token_id'', None), (''context_window_size'', Some (JInt 0)),
         (''prefill_chunk_size'', Some (JInt 0)), (''tensor_parallel_shards'', Some (JInt 1)),
         (''max_batch_size'', Some (JInt 1)), (''head_dim'', Some (JInt 0))],
      sp_when_zero = None,
      sp_steps =
        [ContextFrom [''max_position_embeddings'', ''max_sequence_length''] context_missing,
         HeadDim ''hidden_size'' ''num_attention_heads'',
         AssertHeads ''num_attention_heads'' ''hidden_size'' '''', PrefillChunk 8192]\<rparr>"

text \<open>The classes without a nested configuration.\<close>

definition MODEL_CONFIGS :: "config_spec list" where
  "MODEL_CONFIGS =
     [BaichuanConfig, BertConfig, GLMConfig, CohereConfig, DeepseekConfig, DeepseekV2Config, LlamaConfig,
      EagleConfig, GemmaConfig, Gemma2Config, Gemma3TextConfig, GPT2Config, GPTBigCodeConfig, GPTJConfig,
      GPTNeoXConfig, InternLMConfig, InternLM2Config, MedusaConfig, MiniCPMConfig, MistralConfig,
      MixtralConfig, NemotronConfig, OLMoConfig, OrionConfig, Phi1Config, PhiConfig, Phi3Config, QWenConfig,
      QWen2Config, Qwen2MoeConfig, Qwen3Config, Qwen3MoeConfig, RWKV5Config, RWKV6Config, StableLmConfig,
      Starcoder2Config]"

section \<open>Specifications\<close>

text \<open>The fields that a statement reads and those that it writes.\<close>

fun step_writes :: "config_step \<Rightarrow> string list" where
  "step_writes RopeBase = [''position_embedding_base'']"
| "step_writes RopeTheta = [''position_embedding_base'']"
| "step_writes (ContextFrom _ _) = [''context_window_size'']"
| "step_writes (ContextMaybe _) = [''context_window_size'']"
| "step_writes (ContextField _) = [''context_window_size'']"
| "step_writes (ContextOrField _ _) = [''context_window_size'']"
| "step_writes (ContextPositive _ _) = [''context_window_size'']"
| "step_writes (ContextAtLeast _) = [''context_window_size'']"
| "step_writes ContextSliding = [''context_window_size'']"
| "step_writes MistralContext = [''context_window_size'']"
| "step_writes (PrefillChunk _) = [''prefill_chunk_size'']"
| "step_writes PrefillWhole = [''prefill_chunk_size'']"
| "step_writes PrefillPhi = [''prefill_chunk_size'']"
| "step_writes MistralPrefill = [''prefill_chunk_size'']"
| "step_writes (HeadDim _ _) = [''head_dim'']"
| "step_writes (DefaultField k _) = [k]"
| "step_writes (DefaultMissing k _) = [k]"
| "step_writes (FourTimes k _ _) = [k]"
| "step_writes BlockQuantConfig = [''weight_block_size'']"
| "step_writes HiddenActivation = [''hidden_activation'']"
| "step_writes LlamaRopeScaling = [''rope_scaling'']"
| "step_writes Phi3RopeScaling = [''rope_scaling'']"
| "step_writes RwkvIntermediate = [''intermediate_size'']"
| "step_writes RwkvHeads = [''num_heads'']"
| "step_writes PaddedVocab = [''vocab_size'']"
| "step_writes SlidingWindow = [''sliding_window_size'']"
| "step_writes _ = []"

fun step_reads :: "config_step \<Rightarrow> string list" where
  "step_reads RopeBase = [''position_embedding_base'']"
| "step_reads RopeTheta = []"
| "step_reads (ContextFrom _ _) = [''context_window_size'']"
| "step_reads (ContextMaybe _) = [''context_window_size'']"
| "step_reads (ContextField k) = [''context_window_size'', k]"
| "step_reads (ContextOrField _ k) = [''context_window_size'', k]"
| "step_reads (ContextPositive k _) = [''context_window_size'', k]"
| "step_reads (ContextAtLeast _) = [''context_window_size'', ''sliding_window'']"
| "step_reads ContextSliding = [''context_window_size'', ''sliding_window'']"
| "step_reads MistralContext = [''context_window_size'', ''sliding_window_size'']"
| "step_reads (PrefillChunk _) = [''prefill_chunk_size'', ''context_window_size'']"
| "step_reads PrefillWhole = [''prefill_chunk_size'', ''context_window_size'']"
| "step_reads PrefillPhi = [''prefill_chunk_size'', ''context_window_size'']"
| "step_reads MistralPrefill = [''prefill_chunk_size'', ''sliding_window_size'', ''context_window_size'']"
| "step_reads (HeadDim hidden heads) = [''head_dim'', hidden, heads]"
| "step_reads (AssertHeads heads hidden _) = [''head_dim'', heads, hidden]"
| "step_reads (AssertGroups heads kv_heads _) = [heads, kv_heads]"
| "step_reads (DefaultField k k') = [k, k']"
| "step_reads (DefaultMissing k k') = [k, k']"
| "step_reads (FourTimes k _ k') = [k, k']"
| "step_reads BlockQuantConfig = []"
| "step_reads HiddenActivation = [''hidden_activation'']"
| "step_reads CheckActivation = [''hidden_activation'']"
| "step_reads RejectBias = [''attention_bias'']"
| "step_reads LlamaRopeScaling = [''rope_scaling'']"
| "step_reads Phi3RopeScaling = [''rope_scaling'', ''max_position_embeddings'', ''original_max_position_embeddings'']"
| "step_reads (PipelineStages _) = [''pipeline_parallel_stages'', ''num_hidden_layers'']"
| "step_reads RwkvIntermediate = [''intermediate_size'', ''hidden_size'']"
| "step_reads RwkvHeads = [''num_heads'', ''hidden_size'', ''head_size'']"
| "step_reads RwkvCheckHeads = [''num_heads'', ''head_size'', ''hidden_size'']"
| "step_reads SingleDevice = [''tensor_parallel_shards'']"
| "step_reads (ModelVersion _) = [''model_version'']"
| "step_reads PaddedVocab = [''vocab_size'']"
| "step_reads SlidingWindow = [''sliding_window_size'']"
| "step_reads AssertSink = [''attention_sink_size'']"
| "step_reads RotaryDim = [''partial_rotary_factor'', ''head_dim'']"
| "step_reads CheckClip = [''clip_qkv'']"

text \<open>A statement that does not change what it computes its value from.\<close>

fun step_ok :: "config_step \<Rightarrow> bool" where
  "step_ok RopeTheta = False"
| "step_ok (ContextField k) = (k \<noteq> ''context_window_size'')"
| "step_ok (ContextOrField _ k) = (k \<noteq> ''context_window_size'')"
| "step_ok (ContextPositive k _) = (k \<noteq> ''context_window_size'')"
| "step_ok (HeadDim hidden heads) = (hidden \<noteq> ''head_dim'' \<and> heads \<noteq> ''head_dim'')"
| "step_ok (DefaultField k k') = (k \<noteq> k')"
| "step_ok (DefaultMissing k k') = (k \<noteq> k')"
| "step_ok (FourTimes k _ k') = (k \<noteq> k')"
| "step_ok _ = True"

fun noninterfering :: "config_step list \<Rightarrow> bool" where
  "noninterfering [] = True"
| "noninterfering (s # ss) \<longleftrightarrow>
     step_ok s \<and> list_all (\<lambda>t. list_all (\<lambda>k. k \<notin> set (step_reads s)) (step_writes t)) ss \<and> noninterfering ss"

text \<open>
  The fields that are filled from elsewhere when they are 0 are no longer 0, and the context window is an
  integer.
\<close>

definition config_settled :: "config \<Rightarrow> bool" where
  "config_settled c \<longleftrightarrow>
     list_all (\<lambda>k. case map_of (cfg_fields c) k of None \<Rightarrow> True | Some v \<Rightarrow> \<not> json_is v 0)
       [''position_embedding_base'', ''context_window_size'', ''sliding_window_size'']
     \<and> (case map_of (cfg_fields c) ''context_window_size'' of None \<Rightarrow> True | Some v \<Rightarrow> \<not> isl (as_int v))"

definition same_fields :: "string list \<Rightarrow> config \<Rightarrow> config \<Rightarrow> bool" where
  "same_fields ks c d \<longleftrightarrow> (\<forall>k \<in> set ks. map_of (cfg_fields d) k = map_of (cfg_fields c) k)"

section \<open>Lemmas\<close>

lemma config_attr_Inr: "config_attr c k = Inr v \<longleftrightarrow> map_of (cfg_fields c) k = Some v"
  by (cases "map_of (cfg_fields c) k") (auto simp: config_attr_def)

lemma config_attr_Some [simp]: "map_of (cfg_fields c) k = Some v \<Longrightarrow> config_attr c k = Inr v"
  by (simp add: config_attr_Inr)

lemma set_field_lookup [simp]: "map_of (cfg_fields (set_field k v c)) = (map_of (cfg_fields c))(k \<mapsto> v)"
  by (simp add: set_field_def dict_set_lookup)

lemma set_field_kwargs [simp]: "cfg_kwargs (set_field k v c) = cfg_kwargs c"
  by (simp add: set_field_def)

lemma pop_kwarg_fields [simp]: "cfg_fields (pop_kwarg k c) = cfg_fields c"
  by (simp add: pop_kwarg_def)

lemma dict_set_same: "map_of d k = Some v \<Longrightarrow> dict_set d k v = d"
  by (induction d k v rule: dict_set.induct) (auto split: if_splits)

lemma set_field_same: "map_of (cfg_fields c) k = Some v \<Longrightarrow> set_field k v c = c"
  by (simp add: set_field_def dict_set_same)

lemma take_kwarg_fields: "take_kwarg names c = Some (v, c') \<Longrightarrow> cfg_fields c' = cfg_fields c"
  by (induction names) (auto split: option.splits)

lemma take_kwarg_empty [simp]: "cfg_kwargs d = [] \<Longrightarrow> take_kwarg names d = None"
  by (induction names) auto

lemma rope_theta_fields: "rope_theta c = (v, c') \<Longrightarrow> cfg_fields c' = cfg_fields c"
  by (auto simp: rope_theta_def simp del: take_kwarg.simps dest: take_kwarg_fields split: option.splits)

text \<open>A statement changes no field but those it writes.\<close>

lemma run_step_frame:
  assumes "run_step s c = Inr c'" and "k \<notin> set (step_writes s)"
  shows "map_of (cfg_fields c') k = map_of (cfg_fields c) k"
  using assms
  by (cases s)
    (auto simp: res_bind_eq_Inr simp del: take_kwarg.simps split: if_splits option.splits prod.splits
      dest!: take_kwarg_fields rope_theta_fields)

text \<open>The values that a statement computes are the ones it computes from its own result.\<close>

lemma llama_rope_scaling_again: "llama_rope_scaling r = Inr r' \<Longrightarrow> llama_rope_scaling r' = Inr r'"
  by (auto simp: llama_rope_scaling_def res_bind_eq_Inr split: if_splits)

lemma json_setitem_Inr: "json_setitem r k v = Inr r' \<longleftrightarrow> (\<exists>d. r = JObj d \<and> r' = JObj (dict_set d k v))"
  by (cases r) auto

lemma phi3_rope_scaling_again:
  assumes "phi3_rope_scaling r m w = Inr r'"
  shows "phi3_rope_scaling r' m w = Inr r'"
proof (cases "r' = JNull")
  case False
  then obtain d t where r': "r' = JObj d" and d: "map_of d ''type'' = Some (JStr ''longrope'')" "map_of d ''rope_type'' = Some (JStr ''longrope'')"
    "map_of d ''max_position_embeddings'' = Some m" "map_of d ''original_max_position_embeddings'' = Some w"
    using assms by (auto simp: phi3_rope_scaling_def res_bind_eq_Inr json_setitem_Inr dict_get_Inr dict_set_lookup
        split: if_splits)
  have "''type'' \<in> fst ` set d" using d(1) by (metis domI dom_map_of_conv_image_fst)
  with d show ?thesis by (simp add: r' phi3_rope_scaling_def dict_get_def dict_set_same)
qed (simp add: phi3_rope_scaling_def)

lemma json_min_le: "json_min a b = Inr v \<Longrightarrow> json_gt v a = Inr False"
  by (auto simp: json_min_def json_gt_def res_bind_eq_Inr split: if_splits)

lemma json_min_again: "json_min a b = Inr v \<Longrightarrow> json_min v b = Inr v"
  by (auto simp: json_min_def json_gt_def res_bind_eq_Inr split: if_splits)

lemma json_gt_self: "json_gt a b = Inr g \<Longrightarrow> json_gt b b = Inr False"
  by (auto simp: json_gt_def res_bind_eq_Inr)

lemma config_settledD:
  assumes "config_settled d"
  shows "map_of (cfg_fields d) ''position_embedding_base'' = Some v \<Longrightarrow> json_is v 0 = False"
    and "map_of (cfg_fields d) ''context_window_size'' = Some v \<Longrightarrow> json_is v 0 = False"
    and "map_of (cfg_fields d) ''sliding_window_size'' = Some v \<Longrightarrow> json_is v 0 = False"
    and "map_of (cfg_fields d) ''context_window_size'' = Some v \<Longrightarrow> json_gt v v = Inr False"
    and "map_of (cfg_fields d) ''context_window_size'' = Some v \<Longrightarrow> json_min v v = Inr v"
  using assms by (auto simp: config_settled_def json_gt_def json_min_def not_isl_Inr)

lemma res_bind_InrE: "res_bind m f = Inr y \<Longrightarrow> (\<And>x. m = Inr x \<Longrightarrow> f x = Inr y \<Longrightarrow> P) \<Longrightarrow> P"
  by (auto simp: res_bind_eq_Inr)

lemma config_attrD: "config_attr c k = Inr v \<Longrightarrow> map_of (cfg_fields c) k = Some v"
  by (simp add: config_attr_Inr)

lemma check_step_again:
  assumes "run_step s c = Inr c'" and "same_fields (step_reads s) c' d" and "step_writes s = []"
  shows "run_step s d = Inr d"
  using assms
  by (cases s)
    (auto simp: same_fields_def res_assert_def elim!: res_bind_InrE dest!: config_attrD split: if_splits)

lemma value_step_again:
  assumes "run_step s c = Inr c'" and "step_ok s" and "same_fields (step_reads s) c' d" and "step_writes s \<noteq> []"
    and "step_writes s \<noteq> [''context_window_size''] \<or> (\<exists>k k' n. s \<in> {DefaultField k k', DefaultMissing k k', FourTimes k n k'})"
    and "s \<notin> {RopeBase, BlockQuantConfig, HiddenActivation, PaddedVocab, SlidingWindow, PrefillWhole, PrefillPhi}"
  shows "run_step s d = Inr d"
  using assms
  by (cases s)
    (auto simp: same_fields_def set_field_same llama_rope_scaling_again phi3_rope_scaling_again
        json_min_le json_min_again json_gt_self
      elim!: res_bind_InrE dest!: config_attrD split: if_splits)

lemma whole_step_again:
  assumes "run_step s c = Inr c'" and "same_fields (step_reads s) c' d" and "config_settled d" and "s \<in> {PrefillWhole, PrefillPhi}"
  shows "run_step s d = Inr d"
proof -
  obtain p w where d: "map_of (cfg_fields d) ''prefill_chunk_size'' = Some p" "map_of (cfg_fields d) ''context_window_size'' = Some w"
    and p: "p = w \<or> json_gt p w = Inr False \<and> json_min p w = Inr p \<and> \<not> json_is p 0"
  proof (cases "s = PrefillWhole")
    case True
    then show thesis using assms(1,2) that
      by (auto simp: same_fields_def json_min_def elim!: res_bind_InrE dest!: config_attrD split: if_splits)
  next
    case False
    with assms(4) have "s = PrefillPhi" by simp
    then show thesis using assms(1,2) that
      by (auto simp: same_fields_def json_min_def elim!: res_bind_InrE dest!: config_attrD split: if_splits)
  qed
  have "\<not> json_is w 0" "json_gt w w = Inr False" "json_min w w = Inr w" using config_settledD(2,4,5) [OF assms(3) d(2)] by simp_all
  then show ?thesis using assms(4) d p by (auto simp: set_field_same)
qed

lemma context_step_again:
  assumes "run_step s c = Inr c'" and "step_ok s" and "same_fields (step_reads s) c' d" and "config_settled d" and "cfg_kwargs d = []"
    and "step_writes s = [''context_window_size'']" and "\<nexists>k k' n. s \<in> {DefaultField k k', DefaultMissing k k', FourTimes k n k'}"
  shows "run_step s d = Inr d"
  using assms(1-3,5-7) config_settledD(2) [OF assms(4)]
  by (cases s)
    (auto simp: same_fields_def set_field_same simp del: take_kwarg.simps elim!: res_bind_InrE dest!: config_attrD take_kwarg_fields
      split: if_splits option.splits)

lemma kwarg_step_again:
  assumes "run_step s c = Inr c'" and "same_fields (step_reads s) c' d" and "config_settled d" and "cfg_kwargs d = []"
    and "s \<in> {RopeBase, BlockQuantConfig, HiddenActivation, PaddedVocab, SlidingWindow}"
  shows "run_step s d = Inr d"
  using assms(1,2,4,5) config_settledD(1,3) [OF assms(3)]
  by (elim insertE emptyE)
    (auto simp: same_fields_def set_field_same simp del: take_kwarg.simps elim!: res_bind_InrE
      dest!: config_attrD take_kwarg_fields rope_theta_fields split: if_splits option.splits prod.splits)

lemma run_step_again:
  assumes "run_step s c = Inr c'" and "step_ok s" and "same_fields (step_reads s) c' d" and "config_settled d" and "cfg_kwargs d = []"
  shows "run_step s d = Inr d"
  using check_step_again [OF assms(1,3)] value_step_again [OF assms(1-3)] context_step_again [OF assms]
    kwarg_step_again [OF assms(1,3-5)] whole_step_again [OF assms(1,3,4)] by blast

lemma run_steps_simps [simp]:
  "run_steps [] c = Inr c"
  "run_steps (s # ss) c = res_bind (run_step s c) (\<lambda>c'. run_steps ss c')"
  by (simp_all add: run_steps_def)

lemma run_steps_frame:
  assumes "run_steps ss c = Inr c'" and "list_all (\<lambda>s. k \<notin> set (step_writes s)) ss"
  shows "map_of (cfg_fields c') k = map_of (cfg_fields c) k"
  using assms by (induction ss arbitrary: c) (auto elim!: res_bind_InrE dest!: run_step_frame)

lemma run_steps_again:
  assumes "run_steps ss c = Inr c'" and "noninterfering ss" and "config_settled c'" and "cfg_fields d = cfg_fields c'" and "cfg_kwargs d = []"
  shows "run_steps ss d = Inr d"
  using assms(1,2)
proof (induction ss arbitrary: c)
  case (Cons s ss)
  then obtain c1 where c1: "run_step s c = Inr c1" "run_steps ss c1 = Inr c'" by (auto elim!: res_bind_InrE)
  have "map_of (cfg_fields c') k = map_of (cfg_fields c1) k" if "k \<in> set (step_reads s)" for k
    using run_steps_frame [OF c1(2)] Cons.prems(2) that by (fastforce simp: list_all_iff)
  then have "same_fields (step_reads s) c1 d" using assms(4) by (simp add: same_fields_def)
  moreover have "config_settled d" using assms(3,4) by (simp add: config_settled_def)
  ultimately have "run_step s d = Inr d" using run_step_again [OF c1(1)] Cons.prems(2) assms(5) by simp
  with Cons.IH [OF c1(2)] Cons.prems(2) show ?case by simp
qed simp

text \<open>The fields of an object are those of its class, in their order.\<close>

definition has_field :: "(string \<times> json) list \<Rightarrow> string \<Rightarrow> bool" where
  "has_field d k \<longleftrightarrow> k \<in> set (map fst d)"

lemma set_field_keys: "has_field (cfg_fields c) k \<Longrightarrow> map fst (cfg_fields (set_field k v c)) = map fst (cfg_fields c)"
  by (simp add: set_field_def dict_set_keys has_field_def)

lemma run_step_keys:
  assumes "run_step s c = Inr c'" and "list_all (has_field (cfg_fields c)) (step_writes s)"
  shows "map fst (cfg_fields c') = map fst (cfg_fields c)"
  using assms
  by (cases s)
    (auto simp: res_bind_eq_Inr set_field_keys simp del: take_kwarg.simps split: if_splits option.splits prod.splits
      dest!: take_kwarg_fields rope_theta_fields)

lemma run_steps_keys:
  assumes "run_steps ss c = Inr c'" and "list_all (\<lambda>s. list_all (has_field (cfg_fields c)) (step_writes s)) ss"
  shows "map fst (cfg_fields c') = map fst (cfg_fields c)"
  using assms
proof (induction ss arbitrary: c)
  case (Cons s ss)
  then obtain c1 where c1: "run_step s c = Inr c1" "run_steps ss c1 = Inr c'" by (auto elim!: res_bind_InrE)
  have k: "map fst (cfg_fields c1) = map fst (cfg_fields c)" using run_step_keys [OF c1(1)] Cons.prems(2) by simp
  then have "has_field (cfg_fields c1) = has_field (cfg_fields c)" by (simp add: has_field_def fun_eq_iff flip: set_map)
  with Cons.IH [OF c1(2)] Cons.prems(2) k show ?case by simp
qed simp

text \<open>What all classes have in common.\<close>

definition spec_ok :: "config_spec \<Rightarrow> bool" where
  "spec_ok sp \<longleftrightarrow> distinct (map fst (sp_fields sp)) \<and> ''kwargs'' \<notin> set (map fst (sp_fields sp))
     \<and> list_all (\<lambda>s. list_all (\<lambda>k. k \<in> set (map fst (sp_fields sp))) (step_writes s)) (sp_steps sp)"

lemma specs_ok: "list_all spec_ok MODEL_CONFIGS"
  by code_simp

text \<open>The statements of a class do not disturb each other, except in two classes of Gemma; those of Cohere are guarded.\<close>

lemma specs_shape:
  "list_all (\<lambda>sp. noninterfering (sp_steps sp) \<and> sp_when_zero sp = None
     \<or> sp_when_zero sp = Some ''position_embedding_base'' \<and> map fst (sp_fields sp) = map fst (sp_fields CohereConfig)
     \<or> sp_name sp \<in> {''Gemma2Config'', ''Gemma3TextConfig''}) MODEL_CONFIGS"
  by code_simp

text \<open>Reading back the fields of an object.\<close>

lemma field_values_keys [simp]: "map fst (field_values specs given) = map fst specs"
  by (induction specs) (auto simp: field_values_def)

lemma field_values_same:
  assumes "distinct (map fst F)" and "map fst F = map fst specs"
  shows "field_values specs F = F"
proof (rule nth_equalityI)
  show len: "length (field_values specs F) = length F" using assms(2) by (metis field_values_keys length_map)
  fix i assume i: "i < length (field_values specs F)"
  then have "fst (specs ! i) = fst (F ! i)" using assms(2) len by (metis field_values_keys length_map nth_map)
  moreover have "map_of F (fst (F ! i)) = Some (snd (F ! i))" using assms(1) i len by simp
  ultimately show "field_values specs F ! i = F ! i"
    using i by (simp add: field_values_def split_def prod_eq_iff)
qed

lemma new_config_post:
  "new_config sp given kw = Inr c \<Longrightarrow> post_init sp \<lparr>cfg_fields = field_values (sp_fields sp) given, cfg_kwargs = kw\<rparr> = Inr c"
  by (auto simp: new_config_def split: list.splits)

lemma from_dict_fields:
  assumes "spec_ok sp" and "map fst F = map fst (sp_fields sp)"
  shows "from_dict (spec_class sp) F = post_init sp \<lparr>cfg_fields = F, cfg_kwargs = []\<rparr>"
proof -
  have keys: "set (map fst F) = set (map fst (sp_fields sp))" using assms(2) by simp
  have in_keys: "fst x \<in> set (map fst (sp_fields sp))" if "x \<in> set F" for x using that keys by auto
  have F: "filter (\<lambda>(k, _). k \<in> set (cls_field_names (spec_class sp))) F = F"
    "filter (\<lambda>(k, _). k \<notin> set (cls_field_names (spec_class sp))) F = []"
    using in_keys by (auto simp: spec_class_def filter_id_conv filter_empty_conv split_def)
  have in_F: "fst x \<in> fst ` set F" if "x \<in> set (sp_fields sp)" for x using that keys by auto
  have "filter (\<lambda>(k, d). d = None \<and> k \<notin> fst ` set F) (sp_fields sp) = []"
    using in_F by (auto simp: filter_empty_conv split_def)
  then have "new_config sp F [] = post_init sp \<lparr>cfg_fields = F, cfg_kwargs = []\<rparr>"
    using field_values_same [of F "sp_fields sp"] assms by (simp add: new_config_def spec_ok_def)
  moreover have "''kwargs'' \<notin> set (map fst F)" using assms(1) keys by (simp add: spec_ok_def)
  ultimately show ?thesis unfolding from_dict_def Let_def F by (simp add: spec_class_def)
qed

lemma post_init_keys:
  assumes "post_init sp c0 = Inr c" and "spec_ok sp" and "map fst (cfg_fields c0) = map fst (sp_fields sp)"
  shows "map fst (cfg_fields c) = map fst (sp_fields sp)"
proof -
  have "has_field (cfg_fields c0) = (\<lambda>k. k \<in> set (map fst (sp_fields sp)))"
    using assms(3) by (simp add: has_field_def fun_eq_iff del: set_map)
  then have "list_all (\<lambda>s. list_all (has_field (cfg_fields c0)) (step_writes s)) (sp_steps sp)"
    using assms(2) by (simp add: spec_ok_def)
  then show ?thesis
    using assms(1,3) run_steps_keys [of "sp_steps sp" c0 c]
    by (auto simp: post_init_def elim!: res_bind_InrE split: option.splits if_splits)
qed

lemma from_dict_post:
  assumes "from_dict (spec_class sp) src = Inr c"
  obtains c0 where "post_init sp c0 = Inr c" and "map fst (cfg_fields c0) = map fst (sp_fields sp)"
proof -
  obtain given kw where "new_config sp given kw = Inr c"
    using assms by (auto simp: from_dict_def spec_class_def Let_def split: if_splits)
  from new_config_post [OF this] that show thesis by simp
qed

lemma has_field_lookup: "has_field F k \<longleftrightarrow> (\<exists>v. map_of F k = Some v)"
proof -
  have "has_field F k \<longleftrightarrow> map_of F k \<noteq> None" by (simp add: has_field_def map_of_eq_None_iff)
  then show ?thesis by blast
qed

lemma post_init_again:
  assumes "post_init sp c0 = Inr c" and "config_settled c" and "cfg_kwargs d = []" and "cfg_fields d = cfg_fields c"
    and "noninterfering (sp_steps sp) \<and> sp_when_zero sp = None
      \<or> sp_when_zero sp = Some ''position_embedding_base'' \<and> has_field (cfg_fields c) ''position_embedding_base''"
  shows "post_init sp d = Inr d"
  using assms(5)
proof (elim disjE conjE)
  assume "noninterfering (sp_steps sp)" "sp_when_zero sp = None"
  with assms(1-4) show ?thesis by (simp add: post_init_def run_steps_again)
next
  assume s: "sp_when_zero sp = Some ''position_embedding_base''" "has_field (cfg_fields c) ''position_embedding_base''"
  then obtain v where v: "map_of (cfg_fields d) ''position_embedding_base'' = Some v"
    using assms(4) by (auto simp: has_field_lookup)
  have "config_settled d" using assms(2,4) by (simp add: config_settled_def)
  from config_settledD(1) [OF this v] s(1) v show ?thesis by (simp add: post_init_def)
qed

lemma cohere_spec: "has_field (cfg_fields c) ''position_embedding_base''" if "map fst (cfg_fields c) = map fst (sp_fields CohereConfig)"
  using that by (simp add: has_field_def CohereConfig_def del: set_map)

text \<open>The bound of the prefill chunk, once it is established, holds to the end.\<close>

fun bounds_prefill :: "config_step \<Rightarrow> bool" where
  "bounds_prefill (PrefillChunk _) = True"
| "bounds_prefill PrefillWhole = True"
| "bounds_prefill PrefillPhi = True"
| "bounds_prefill _ = False"

fun ends_bounded :: "config_step list \<Rightarrow> bool" where
  "ends_bounded [] = False"
| "ends_bounded (s # ss) \<longleftrightarrow>
     bounds_prefill s
       \<and> list_all (\<lambda>t. ''prefill_chunk_size'' \<notin> set (step_writes t) \<and> ''context_window_size'' \<notin> set (step_writes t)) ss
     \<or> ends_bounded ss"

lemma json_gt_int [simp]: "json_gt (JInt i) (JInt j) = Inr (j < i)"
  by (simp add: json_gt_def)

lemma run_step_bounded:
  assumes "run_step s c = Inr c'" and "bounds_prefill s" and "map_of (cfg_fields c') ''prefill_chunk_size'' = Some (JInt i)"
    and "map_of (cfg_fields c') ''context_window_size'' = Some (JInt j)"
  shows "i \<le> j"
  using assms
  by (cases s rule: bounds_prefill.cases)
    (auto simp: json_min_def json_gt_def elim!: res_bind_InrE dest!: config_attrD split: if_splits)

lemma run_steps_bounded:
  assumes "run_steps ss c = Inr c'" and "ends_bounded ss" and "map_of (cfg_fields c') ''prefill_chunk_size'' = Some (JInt i)"
    and "map_of (cfg_fields c') ''context_window_size'' = Some (JInt j)"
  shows "i \<le> j"
  using assms(1,2)
proof (induction ss arbitrary: c)
  case (Cons s ss)
  then obtain c1 where c1: "run_step s c = Inr c1" "run_steps ss c1 = Inr c'" by (auto elim!: res_bind_InrE)
  show ?case
  proof (cases "ends_bounded ss")
    case False
    with Cons.prems(2) have s: "bounds_prefill s"
      and ss: "list_all (\<lambda>t. ''prefill_chunk_size'' \<notin> set (step_writes t)) ss" "list_all (\<lambda>t. ''context_window_size'' \<notin> set (step_writes t)) ss"
      by (simp_all add: list_all_iff)
    from run_step_bounded [OF c1(1) s] run_steps_frame [OF c1(2) ss(1)] run_steps_frame [OF c1(2) ss(2)] assms(3,4)
    show ?thesis by simp
  qed (use Cons.IH [OF c1(2)] in simp)
qed simp

lemma specs_bounded:
  "list_all (\<lambda>sp. ends_bounded (sp_steps sp) \<and> sp_when_zero sp = None
     \<or> sp_name sp \<in> {''CohereConfig'', ''Gemma2Config'', ''Gemma3TextConfig'', ''MedusaConfig'', ''MistralConfig'', ''RWKV5Config'', ''RWKV6Config''})
     MODEL_CONFIGS"
  by code_simp

lemma phi3_scaling_message:
  assumes "map_of d ''type'' = Some t" and "t \<noteq> JStr ''su''" and "t \<noteq> JStr ''longrope''" and "map_of d ''rope_type'' = None"
  shows "phi3_rope_scaling (JObj d) m w = Inl (KeyError ''rope_type'')"
proof -
  have "''type'' \<in> fst ` set d" using assms(1) by (metis domI dom_map_of_conv_image_fst)
  with assms show ?thesis by (simp add: phi3_rope_scaling_def dict_get_def)
qed

definition llama_source :: "(string \<times> json) list" where
  "llama_source =
     [(''hidden_size'', JInt 64), (''intermediate_size'', JInt 128), (''num_attention_heads'', JInt 8),
      (''num_hidden_layers'', JInt 2), (''rms_norm_eps'', JFloat (Finite 0)), (''vocab_size'', JInt 100),
      (''rope_theta'', JFloat (Finite 500000)), (''max_position_embeddings'', JInt 4096)]"

definition gemma2_source :: "(string \<times> json) list" where
  "gemma2_source =
     [(''hidden_size'', JInt 64), (''intermediate_size'', JInt 128), (''attention_bias'', JBool False),
      (''num_attention_heads'', JInt 8), (''num_key_value_heads'', JInt 4), (''head_dim'', JInt 8),
      (''num_hidden_layers'', JInt 2), (''rms_norm_eps'', JFloat (Finite 0)), (''vocab_size'', JInt 100),
      (''hidden_activation'', JStr ''gelu_pytorch_tanh''), (''max_position_embeddings'', JInt 8192), (''sliding_window'', JInt 4096)]"

definition cohere_source :: "(string \<times> json) list" where
  "cohere_source =
     [(''model_type'', JStr ''cohere''), (''hidden_size'', JInt 64), (''vocab_size'', JInt 100), (''num_hidden_layers'', JInt 2),
      (''num_attention_heads'', JInt 8), (''num_key_value_heads'', JInt 3), (''intermediate_size'', JInt 128),
      (''layer_norm_eps'', JFloat (Finite 0)), (''position_embedding_base'', JInt 10000), (''max_position_embeddings'', JInt 8192)]"

lemma llama_sample:
  "\<exists>c. from_dict (spec_class LlamaConfig) llama_source = Inr c \<and> config_settled c
     \<and> map_of (cfg_fields c) ''prefill_chunk_size'' = Some (JInt 4096) \<and> map_of (cfg_fields c) ''context_window_size'' = Some (JInt 4096)"
proof -
  have "(case from_dict (spec_class LlamaConfig) llama_source of
      Inl _ \<Rightarrow> False
    | Inr c \<Rightarrow> config_settled c \<and> map_of (cfg_fields c) ''prefill_chunk_size'' = Some (JInt 4096)
        \<and> map_of (cfg_fields c) ''context_window_size'' = Some (JInt 4096))" by code_simp
  then show ?thesis by (auto split: sum.splits)
qed

lemma llama_in_configs: "LlamaConfig \<in> set MODEL_CONFIGS"
  by (simp add: MODEL_CONFIGS_def)

text \<open>
  The configuration of Gemma 2 has a prefill chunk that is larger than its context window; read back, it is another
  configuration.
\<close>

lemma gemma2_prefill_exceeds:
  "\<exists>c c'. from_dict (spec_class Gemma2Config) gemma2_source = Inr c
     \<and> map_of (cfg_fields c) ''prefill_chunk_size'' = Some (JInt 8192) \<and> map_of (cfg_fields c) ''context_window_size'' = Some (JInt 4096)
     \<and> from_dict (spec_class Gemma2Config) (asdict c) = Inr c'
     \<and> map_of (cfg_fields c') ''prefill_chunk_size'' = Some (JInt 4096)"
proof -
  have "(case from_dict (spec_class Gemma2Config) gemma2_source of
      Inl _ \<Rightarrow> False
    | Inr c \<Rightarrow> map_of (cfg_fields c) ''prefill_chunk_size'' = Some (JInt 8192)
        \<and> map_of (cfg_fields c) ''context_window_size'' = Some (JInt 4096)
        \<and> (case from_dict (spec_class Gemma2Config) (asdict c) of
             Inl _ \<Rightarrow> False
           | Inr c' \<Rightarrow> map_of (cfg_fields c') ''prefill_chunk_size'' = Some (JInt 4096)))" by code_simp
  then show ?thesis by (auto split: sum.splits)
qed

text \<open>
  The configuration of Cohere is neither completed nor checked when the base of its position embedding is given: every
  statement of its \<open>__post_init__\<close> is under the condition that the base is 0. Here the context window stays 0
  although the length is known, and a number of key and value heads that does not divide the heads is accepted.
\<close>

lemma cohere_config_unchecked:
  "\<exists>c. from_dict (spec_class CohereConfig) cohere_source = Inr c
     \<and> map_of (cfg_fields c) ''context_window_size'' = Some (JInt 0)
     \<and> map_of (cfg_fields c) ''num_key_value_heads'' = Some (JInt 3)
     \<and> map_of (cfg_fields c) ''num_attention_heads'' = Some (JInt 8)"
proof -
  have "(case from_dict (spec_class CohereConfig) cohere_source of
      Inl _ \<Rightarrow> False
    | Inr c \<Rightarrow> map_of (cfg_fields c) ''context_window_size'' = Some (JInt 0)
        \<and> map_of (cfg_fields c) ''num_key_value_heads'' = Some (JInt 3)
        \<and> map_of (cfg_fields c) ''num_attention_heads'' = Some (JInt 8))" by code_simp
  then show ?thesis by (auto split: sum.splits)
qed

section \<open>Properties\<close>

text \<open>
  C12: a configuration reads back as it was. The fields of the configuration of a model, as they are written
  into mlc-chat-config.json, give the same configuration when it is built from them again; only the keywords that its
  class does not know are lost. The condition \<open>config_settled\<close> says that the sizes which 0 leaves open are known.
  Two classes of Gemma are exceptions: they change the context window after the prefill chunk has been fitted to it.
\<close>

theorem config_roundtrip:
  assumes "sp \<in> set MODEL_CONFIGS" and "sp_name sp \<notin> {''Gemma2Config'', ''Gemma3TextConfig''}"
    and "from_dict (spec_class sp) src = Inr c" and "config_settled c"
  shows "from_dict (spec_class sp) (asdict c) = Inr (c\<lparr>cfg_kwargs := []\<rparr>)"
proof -
  have ok: "spec_ok sp" using specs_ok assms(1) by (auto simp: list_all_iff)
  obtain c0 where c0: "post_init sp c0 = Inr c" "map fst (cfg_fields c0) = map fst (sp_fields sp)"
    using assms(3) by (rule from_dict_post)
  have keys: "map fst (cfg_fields c) = map fst (sp_fields sp)" by (rule post_init_keys [OF c0(1) ok c0(2)])
  have "noninterfering (sp_steps sp) \<and> sp_when_zero sp = None
      \<or> sp_when_zero sp = Some ''position_embedding_base'' \<and> has_field (cfg_fields c) ''position_embedding_base''"
    using specs_shape assms(1,2) keys cohere_spec unfolding list_all_iff by metis
  then have "post_init sp \<lparr>cfg_fields = cfg_fields c, cfg_kwargs = []\<rparr> = Inr \<lparr>cfg_fields = cfg_fields c, cfg_kwargs = []\<rparr>"
    by (intro post_init_again [OF c0(1) assms(4)]) simp_all
  then show ?thesis using from_dict_fields [OF ok keys] by (simp add: asdict_def)
qed

theorem config_roundtrip_witness:
  "\<exists>c. from_dict (spec_class LlamaConfig) llama_source = Inr c
     \<and> from_dict (spec_class LlamaConfig) (asdict c) = Inr (c\<lparr>cfg_kwargs := []\<rparr>)"
proof -
  obtain c where c: "from_dict (spec_class LlamaConfig) llama_source = Inr c" "config_settled c" using llama_sample by blast
  have "sp_name LlamaConfig \<notin> {''Gemma2Config'', ''Gemma3TextConfig''}" by (simp add: LlamaConfig_def)
  from config_roundtrip [OF llama_in_configs this c] c show ?thesis by blast
qed

text \<open>
  C26: the prefill chunk of a configuration is never larger than its context window, in every class but seven:
  Cohere skips the statement when the base of the position embedding is given, the two classes of Gemma change the context
  window afterwards, Mistral has windows of -1 and keeps a chunk that is given, and Medusa and RWKV do not relate the two.
\<close>

theorem config_prefill_bounded:
  assumes "sp \<in> set MODEL_CONFIGS"
    and "sp_name sp \<notin> {''CohereConfig'', ''Gemma2Config'', ''Gemma3TextConfig'', ''MedusaConfig'', ''MistralConfig'', ''RWKV5Config'', ''RWKV6Config''}"
    and "from_dict (spec_class sp) src = Inr c"
    and "map_of (cfg_fields c) ''prefill_chunk_size'' = Some (JInt i)" and "map_of (cfg_fields c) ''context_window_size'' = Some (JInt j)"
  shows "i \<le> j"
proof -
  obtain c0 where c0: "post_init sp c0 = Inr c" using assms(3) by (rule from_dict_post)
  have "ends_bounded (sp_steps sp) \<and> sp_when_zero sp = None"
    using bspec [OF specs_bounded [unfolded list_all_iff] assms(1)] assms(2) by blast
  then show ?thesis using c0 run_steps_bounded assms(4,5) by (simp add: post_init_def)
qed

theorem config_prefill_bounded_witness:
  "\<exists>c i j. from_dict (spec_class LlamaConfig) llama_source = Inr c \<and> map_of (cfg_fields c) ''prefill_chunk_size'' = Some (JInt i)
     \<and> map_of (cfg_fields c) ''context_window_size'' = Some (JInt j) \<and> i \<le> j"
proof -
  obtain c where c: "from_dict (spec_class LlamaConfig) llama_source = Inr c"
    "map_of (cfg_fields c) ''prefill_chunk_size'' = Some (JInt 4096)" "map_of (cfg_fields c) ''context_window_size'' = Some (JInt 4096)"
    using llama_sample by blast
  have "sp_name LlamaConfig \<notin> {''CohereConfig'', ''Gemma2Config'', ''Gemma3TextConfig'', ''MedusaConfig'', ''MistralConfig'', ''RWKV5Config'', ''RWKV6Config''}"
    by (simp add: LlamaConfig_def)
  from config_prefill_bounded [OF llama_in_configs this c] c show ?thesis by blast
qed

end
