(* ===== verification/Arg_Parser.thy ===== *)
theory Arg_Parser
  imports Py_Float Py_Parse
begin

text \<open>
  Command lines: \<open>float(text)\<close>, the part of \<open>argparse\<close> that the program uses, and the texts
  \<open>k=v;k=v\<close> in which overrides are written. The locale \<open>override_format\<close> states what a class of
  overrides promises about its printed fields; reading then undoes printing.
\<close>

section \<open>Values of options\<close>

text \<open>\<open>float(text)\<close>\<close>

definition digits_or_empty :: "string \<Rightarrow> nat option" where
  "digits_or_empty s = (if s = [] then Some 0 else digits_value 0 False s)"

definition signed :: "string \<Rightarrow> bool \<times> string" where
  "signed s = (case s of
     c # cs \<Rightarrow> if c = CHR ''-'' then (True, cs) else if c = CHR ''+'' then (False, cs) else (False, s)
   | [] \<Rightarrow> (False, s))"

definition lower_char :: "char \<Rightarrow> char" where
  "lower_char c = (let k = of_char c :: nat in if 65 \<le> k \<and> k \<le> 90 then char_of (k + 32) else c)"

definition str_lower :: "string \<Rightarrow> string" where
  "str_lower s = map lower_char s"

definition exponent_value :: "string option \<Rightarrow> int option" where
  "exponent_value e = (case e of
     None \<Rightarrow> Some 0
   | Some t \<Rightarrow> (case signed t of (neg, ds) \<Rightarrow>
       map_option (\<lambda>n. if neg then - int n else int n) (digits_value 0 False ds)))"

definition decimal_value :: "string \<Rightarrow> rat option" where
  "decimal_value s =
     (case split_once CHR ''e'' s of (mantissa, e) \<Rightarrow>
      case split_once CHR ''.'' mantissa of (ip, fp) \<Rightarrow>
        let frac = (case fp of None \<Rightarrow> [] | Some f \<Rightarrow> f)
        in if ip = [] \<and> frac = [] then None
           else case (digits_or_empty ip, digits_or_empty frac, exponent_value e) of
                  (Some a, Some b, Some x) \<Rightarrow>
                    Some ((of_nat a + of_nat b / 10 ^ length (filter (\<lambda>c. c \<noteq> CHR ''_'') frac)) * 10 powi x)
                | _ \<Rightarrow> None)"

definition float_of_str :: "string \<Rightarrow> py_float res" where
  "float_of_str s =
     (case signed (str_lower (str_strip s)) of (neg, t) \<Rightarrow>
        if t \<in> {''inf'', ''infinity''} then Inr (if neg then NegInf else PosInf)
        else if t = ''nan'' then Inr NaN
        else case decimal_value t of
               None \<Rightarrow> Inl (ValueError (''could not convert string to float: '' @ s))
             | Some r \<Rightarrow> Inr (round_float (if neg then - r else r)))"

section \<open>argparse\<close>

text \<open>
  The parsers of the program as \<open>argparse\<close> runs them (CPython 3.11). An action has its option strings,
  the number of arguments it takes and what it does with them to the namespace; besides the options
  there is at most one positional argument. Python exits with status 2 on an error of the command
  line, and with status 0 after printing the help.
\<close>

datatype nargs = NFlag | NOne | NMany | NHelp

record 's opt_action =
  oa_strings :: "string list"
  oa_nargs :: nargs
  oa_store :: "string list \<Rightarrow> 's \<Rightarrow> 's res"

record 's arg_parser =
  ap_options :: "'s opt_action list"
  ap_positional :: "(string \<Rightarrow> 's \<Rightarrow> 's res) option"

definition usage_error :: py_error where
  "usage_error = SystemExit 2"

definition help_action :: "'s opt_action" where
  "help_action = \<lparr>oa_strings = [''-h'', ''--help''], oa_nargs = NHelp, oa_store = (\<lambda>_. Inr)\<rparr>"

definition option_table :: "'s arg_parser \<Rightarrow> (string \<times> 's opt_action) list" where
  "option_table p =
     concat (map (\<lambda>a. map (\<lambda>s. (s, a)) (oa_strings a)) (help_action # ap_options p))"

text \<open>Errors of a conversion that \<open>argparse\<close> reports; every other exception passes through.\<close>

definition arg_type :: "(string \<Rightarrow> 'a res) \<Rightarrow> string \<Rightarrow> 'a res" where
  "arg_type f s = (case f s of
     Inl (TypeError _) \<Rightarrow> Inl usage_error
   | Inl e \<Rightarrow> Inl (if is_ValueError e then usage_error else e)
   | Inr v \<Rightarrow> Inr v)"

definition check_choice :: "string list \<Rightarrow> string \<Rightarrow> string res" where
  "check_choice choices s = (if s \<in> set choices then Inr s else Inl usage_error)"

definition one_option :: "string \<Rightarrow> (string \<Rightarrow> 's \<Rightarrow> 's res) \<Rightarrow> 's opt_action" where
  "one_option name f = \<lparr>oa_strings = [name], oa_nargs = NOne,
     oa_store = (\<lambda>args s. case args of [v] \<Rightarrow> f v s | _ \<Rightarrow> Inl usage_error)\<rparr>"

definition flag_option :: "string \<Rightarrow> ('s \<Rightarrow> 's) \<Rightarrow> 's opt_action" where
  "flag_option name f = \<lparr>oa_strings = [name], oa_nargs = NFlag, oa_store = (\<lambda>_ s. Inr (f s))\<rparr>"

definition many_option :: "string \<Rightarrow> (string list \<Rightarrow> 's \<Rightarrow> 's res) \<Rightarrow> 's opt_action" where
  "many_option name f = \<lparr>oa_strings = [name], oa_nargs = NMany, oa_store = f\<rparr>"

text \<open>How an argument is read: an option with its text after the sign \<open>=\<close>, an unknown option, a plain argument.\<close>

datatype 's arg_token = TOpt "'s opt_action" string "string option" | TUnknown | TArg | TDashes

definition option_tuples :: "(string \<times> 's opt_action) list \<Rightarrow> string \<Rightarrow> 's arg_token list" where
  "option_tuples table s =
     (if take 2 s = ''--''
      then case split_once CHR ''='' s of (pre, ex) \<Rightarrow>
             map (\<lambda>(o', a). TOpt a o' ex) (filter (\<lambda>(o', _). prefix pre o') table)
      else List.map_filter (\<lambda>(o', a).
             if o' = take 2 s then Some (TOpt a o' (Some (drop 2 s)))
             else if prefix s o' then Some (TOpt a o' None) else None) table)"

definition all_digits :: "string \<Rightarrow> bool" where
  "all_digits s = list_all (\<lambda>c. digit_val c \<noteq> None) s"

definition negative_number :: "string \<Rightarrow> bool" where
  "negative_number s =
     (take 1 s = ''-'' \<and>
      (case split_once CHR ''.'' (drop 1 s) of
         (a, None) \<Rightarrow> a \<noteq> [] \<and> all_digits a
       | (a, Some b) \<Rightarrow> all_digits a \<and> b \<noteq> [] \<and> all_digits b))"

definition parse_optional :: "(string \<times> 's opt_action) list \<Rightarrow> string \<Rightarrow> 's arg_token res" where
  "parse_optional table s =
     (if s = [] \<or> hd s \<noteq> CHR ''-'' then Inr TArg
      else case map_of table s of
        Some a \<Rightarrow> Inr (TOpt a s None)
      | None \<Rightarrow>
          if length s = 1 then Inr TArg
          else case split_once CHR ''='' s of (name, ex) \<Rightarrow>
            (case (ex, map_of table name) of
               (Some x, Some a) \<Rightarrow> Inr (TOpt a name (Some x))
             | _ \<Rightarrow>
                 (case option_tuples table s of
                    [t] \<Rightarrow> Inr t
                  | _ # _ # _ \<Rightarrow> Inl usage_error
                  | [] \<Rightarrow> Inr (if negative_number s \<or> CHR '' '' \<in> set s then TArg else TUnknown))))"

fun read_tokens :: "(string \<times> 's opt_action) list \<Rightarrow> string list \<Rightarrow> ('s arg_token \<times> string) list res" where
  "read_tokens table [] = Inr []"
| "read_tokens table (s # ss) =
     (if s = ''--'' then Inr ((TDashes, s) # map (\<lambda>t. (TArg, t)) ss)
      else res_bind (parse_optional table s) (\<lambda>t. res_bind (read_tokens table ss) (\<lambda>ts. Inr ((t, s) # ts))))"

fun is_TArg :: "'s arg_token \<Rightarrow> bool" where
  "is_TArg TArg = True"
| "is_TArg _ = False"

text \<open>\<open>-h\<close> may be repeated in one word; other text after a flag is an error.\<close>

definition flag_with_text :: "nargs \<Rightarrow> string \<Rightarrow> string \<Rightarrow> py_error" where
  "flag_with_text n name x =
     (if n = NHelp \<and> name = ''-h'' \<and> x \<noteq> [] \<and> list_all (\<lambda>c. c = CHR ''h'') x then SystemExit 0 else usage_error)"

text \<open>
  The arguments one after the other: the state is whether the positional argument is still to come,
  the namespace, and the arguments that nothing takes.
\<close>

function consume ::
  "(string \<Rightarrow> 's \<Rightarrow> 's res) option \<Rightarrow> 's \<Rightarrow> string list \<Rightarrow> ('s arg_token \<times> string) list
     \<Rightarrow> ((string \<Rightarrow> 's \<Rightarrow> 's res) option \<times> 's \<times> string list) res" where
  "consume pos s extras [] = Inr (pos, s, extras)"
| "consume pos s extras ((TOpt a name (Some x), _) # rest) =
     (if oa_nargs a \<in> {NOne, NMany}
      then res_bind (oa_store a [x] s) (\<lambda>s. consume pos s extras rest)
      else Inl (flag_with_text (oa_nargs a) name x))"
| "consume pos s extras ((TOpt a name None, _) # rest) =
     (case oa_nargs a of
        NFlag \<Rightarrow> res_bind (oa_store a [] s) (\<lambda>s. consume pos s extras rest)
      | NHelp \<Rightarrow> Inl (SystemExit 0)
      | NOne \<Rightarrow> (case rest of
            (TArg, v) # rest' \<Rightarrow> res_bind (oa_store a [v] s) (\<lambda>s. consume pos s extras rest')
          | _ \<Rightarrow> Inl usage_error)
      | NMany \<Rightarrow> res_bind (oa_store a (map snd (takeWhile (\<lambda>(t, _). is_TArg t) rest)) s) (\<lambda>s.
            consume pos s extras (dropWhile (\<lambda>(t, _). is_TArg t) rest)))"
| "consume pos s extras ((TUnknown, t) # rest) = consume pos s (extras @ [t]) rest"
| "consume pos s extras ((TArg, t) # rest) =
     (case pos of
        None \<Rightarrow> consume None s (extras @ [t]) rest
      | Some f \<Rightarrow> res_bind (f t s) (\<lambda>s. consume None s extras
            (case rest of (TDashes, _) # rest' \<Rightarrow> rest' | _ \<Rightarrow> rest)))"
| "consume pos s extras ((TDashes, t) # rest) =
     (case (pos, rest) of
        (Some f, (TArg, v) # rest') \<Rightarrow> res_bind (f v s) (\<lambda>s. consume None s extras rest')
      | _ \<Rightarrow> consume pos s (extras @ [t]) rest)"
  by pat_completeness auto
termination
  by (relation "measure (\<lambda>(_, _, _, ts). length ts)")
    (auto simp: le_imp_less_Suc length_dropWhile_le split: list.splits prod.splits arg_token.splits)

definition parse_args :: "'s arg_parser \<Rightarrow> 's \<Rightarrow> string list \<Rightarrow> 's res" where
  "parse_args p defaults argv =
     res_bind (read_tokens (option_table p) argv) (\<lambda>ts.
     res_bind (consume (ap_positional p) defaults [] ts) (\<lambda>(pos, s, extras).
       if pos \<noteq> None \<or> extras \<noteq> [] then Inl usage_error else Inr s))"

section \<open>Overrides\<close>

text \<open>The texts \<open>k=v;k=v\<close> of overrides: \<open>parser.parse_args([f"--{i}" for i in source.split(";") if i])\<close>.\<close>

definition parse_overrides :: "'s arg_parser \<Rightarrow> 's \<Rightarrow> string \<Rightarrow> 's res" where
  "parse_overrides p defaults source =
     parse_args p defaults (map (\<lambda>i. ''--'' @ i) (filter (\<lambda>i. i \<noteq> []) (split_char CHR '';'' source)))"

definition show_pair :: "string \<times> string \<Rightarrow> string" where
  "show_pair = (\<lambda>(k, v). k @ ''='' @ v)"

definition show_overrides :: "(string \<times> string) list \<Rightarrow> string" where
  "show_overrides kvs = py_join '';'' (map show_pair kvs)"

definition store_of :: "'s arg_parser \<Rightarrow> string \<Rightarrow> string \<Rightarrow> 's \<Rightarrow> 's res" where
  "store_of p k v s =
     (case map_of (option_table p) (''--'' @ k) of None \<Rightarrow> Inl usage_error | Some a \<Rightarrow> oa_store a [v] s)"

definition plain_arg :: "string \<Rightarrow> bool" where
  "plain_arg s \<longleftrightarrow> s = [] \<or> hd s \<noteq> CHR ''-''"

definition equals_free :: "'s arg_parser \<Rightarrow> bool" where
  "equals_free p \<longleftrightarrow> (\<forall>a \<in> set (ap_options p). \<forall>s \<in> set (oa_strings a). CHR ''='' \<notin> set s)"

definition known_pair :: "'s arg_parser \<Rightarrow> string \<times> string \<Rightarrow> bool" where
  "known_pair p = (\<lambda>(k, v). CHR ''='' \<notin> set k \<and> CHR '';'' \<notin> set k \<and> CHR '';'' \<notin> set v
     \<and> (\<exists>a. map_of (option_table p) (''--'' @ k) = Some a \<and> oa_nargs a = NOne))"

text \<open>
  A segment of a command line that always has the same effect on the namespace, whatever follows it.
\<close>

fun is_TOpt :: "'s arg_token \<Rightarrow> bool" where
  "is_TOpt (TOpt _ _ _) = True"
| "is_TOpt _ = False"

definition starts_option :: "('s arg_token \<times> string) list \<Rightarrow> bool" where
  "starts_option ts \<longleftrightarrow> ts = [] \<or> is_TOpt (fst (hd ts))"

definition segment :: "'s arg_parser \<Rightarrow> string list \<Rightarrow> ('s \<Rightarrow> 's res) \<Rightarrow> bool" where
  "segment p seg upd \<longleftrightarrow> ''--'' \<notin> set seg \<and>
     (\<exists>ts. read_tokens (option_table p) seg = Inr ts \<and> starts_option ts
        \<and> (\<forall>pos s extras rest. starts_option rest \<longrightarrow>
             consume pos s extras (ts @ rest) = res_bind (upd s) (\<lambda>s. consume pos s extras rest)))"

section \<open>Lemmas\<close>

lemma parse_optional_plain: "plain_arg s \<Longrightarrow> parse_optional table s = Inr TArg"
  by (auto simp: plain_arg_def parse_optional_def)

lemma parse_optional_exact:
  "map_of table (CHR ''-'' # s) = Some a \<Longrightarrow> parse_optional table (CHR ''-'' # s) = Inr (TOpt a (CHR ''-'' # s) None)"
  by (simp add: parse_optional_def)

lemma option_table_equals:
  assumes "equals_free p" and "CHR ''='' \<in> set s"
  shows "map_of (option_table p) s = None"
  using assms by (auto simp: map_of_eq_None_iff option_table_def equals_free_def help_action_def)

lemma parse_optional_equals:
  assumes "equals_free p" and "map_of (option_table p) (''--'' @ k) = Some a" and "CHR ''='' \<notin> set k"
  shows "parse_optional (option_table p) (''--'' @ k @ CHR ''='' # v) = Inr (TOpt a (''--'' @ k) (Some v))"
proof -
  have s: "split_once CHR ''='' ((''--'' @ k) @ CHR ''='' # v) = (''--'' @ k, Some v)"
    using assms(3) by (intro split_once_Some) simp
  have n: "map_of (option_table p) (''--'' @ k @ CHR ''='' # v) = None"
    using option_table_equals [OF assms(1)] by simp
  show ?thesis using s n assms(2) by (simp add: parse_optional_def)
qed

lemma read_tokens_Cons: "s \<noteq> ''--'' \<Longrightarrow> parse_optional table s = Inr t \<Longrightarrow>
    read_tokens table (s # ss) = res_bind (read_tokens table ss) (\<lambda>ts. Inr ((t, s) # ts))"
  by simp

lemma consume_pairs:
  assumes "equals_free p" and "list_all (known_pair p) kvs"
  shows "\<exists>ts. read_tokens (option_table p) (map (\<lambda>kv. ''--'' @ show_pair kv) kvs) = Inr ts
    \<and> (\<forall>s. consume pos s extras ts =
          res_bind (res_fold (\<lambda>s (k, v). store_of p k v s) s kvs) (\<lambda>s. Inr (pos, s, extras)))"
  using assms(2)
proof (induction kvs)
  case (Cons kv kvs)
  obtain k v where kv: "kv = (k, v)" by fastforce
  from Cons.prems obtain a where a: "CHR ''='' \<notin> set k" "map_of (option_table p) (''--'' @ k) = Some a" "oa_nargs a = NOne"
    by (auto simp: kv known_pair_def)
  obtain ts where ts: "read_tokens (option_table p) (map (\<lambda>kv. ''--'' @ show_pair kv) kvs) = Inr ts"
    "\<forall>s. consume pos s extras ts = res_bind (res_fold (\<lambda>s (k, v). store_of p k v s) s kvs) (\<lambda>s. Inr (pos, s, extras))"
    using Cons by auto
  have "parse_optional (option_table p) (''--'' @ show_pair kv) = Inr (TOpt a (''--'' @ k) (Some v))"
    using parse_optional_equals [OF assms(1) a(2,1)] by (simp add: kv show_pair_def)
  moreover have "''--'' @ show_pair kv \<noteq> ''--''" by (simp add: kv show_pair_def)
  ultimately have r: "read_tokens (option_table p) (map (\<lambda>kv. ''--'' @ show_pair kv) (kv # kvs))
      = Inr ((TOpt a (''--'' @ k) (Some v), ''--'' @ show_pair kv) # ts)"
    using ts(1) by (simp add: read_tokens_Cons)
  have "store_of p k v = oa_store a [v]" using a(2) by (simp add: store_of_def fun_eq_iff)
  then show ?case using r a(3) ts(2) by (simp add: kv res_bind_assoc)
qed simp

lemma split_overrides:
  assumes "list_all (known_pair p) kvs"
  shows "filter (\<lambda>i. i \<noteq> []) (split_char CHR '';'' (show_overrides kvs)) = map show_pair kvs"
proof (cases "kvs = []")
  case False
  have "split_char CHR '';'' (py_join [CHR '';''] (map show_pair kvs)) = map show_pair kvs"
    using assms False by (intro split_char_join) (auto simp: list_all_iff known_pair_def show_pair_def)
  then show ?thesis by (auto simp: show_overrides_def show_pair_def intro!: filter_True)
qed (simp add: show_overrides_def)

lemma parse_show_overrides:
  assumes "equals_free p" and "ap_positional p = None" and "list_all (known_pair p) kvs"
  shows "parse_overrides p defaults (show_overrides kvs) = res_fold (\<lambda>s (k, v). store_of p k v s) defaults kvs"
proof -
  obtain ts where ts: "read_tokens (option_table p) (map (\<lambda>kv. ''--'' @ show_pair kv) kvs) = Inr ts"
    "\<forall>s. consume None s [] ts = res_bind (res_fold (\<lambda>s (k, v). store_of p k v s) s kvs) (\<lambda>s. Inr (None, s, []))"
    using consume_pairs [OF assms(1,3), of None "[]"] by blast
  have m: "map (\<lambda>i. ''--'' @ i) (map show_pair kvs) = map (\<lambda>kv. ''--'' @ show_pair kv) kvs"
    unfolding map_map comp_def ..
  show ?thesis
    unfolding parse_overrides_def split_overrides [OF assms(3)] parse_args_def m ts(1)
    using ts(2) assms(2) by (simp add: res_bind_assoc)
qed

lemma read_tokens_append:
  assumes "''--'' \<notin> set xs" and "read_tokens table xs = Inr ts"
  shows "read_tokens table (xs @ ys) = res_bind (read_tokens table ys) (\<lambda>us. Inr (ts @ us))"
  using assms
proof (induction xs arbitrary: ts)
  case (Cons x xs)
  then obtain t ts' where t: "parse_optional table x = Inr t" "read_tokens table xs = Inr ts'" "ts = (t, x) # ts'"
    by (auto simp: res_bind_eq_Inr)
  with Cons show ?case by (auto simp: res_bind_assoc)
qed simp

lemma read_tokens_plain:
  assumes "list_all plain_arg vs"
  shows "read_tokens table vs = Inr (map (Pair TArg) vs)" and "''--'' \<notin> set vs"
proof -
  have d: "\<not> plain_arg ''--''" by (simp add: plain_arg_def)
  then show n: "''--'' \<notin> set vs" using assms by (auto simp: list_all_iff)
  show "read_tokens table vs = Inr (map (Pair TArg) vs)"
    using assms d by (induction vs) (auto simp: parse_optional_plain)
qed

lemma starts_option_append: "starts_option ts \<Longrightarrow> starts_option us \<Longrightarrow> starts_option (ts @ us)"
  by (cases ts) (auto simp: starts_option_def)

lemma segmentI:
  assumes "''--'' \<notin> set seg" and "read_tokens (option_table p) seg = Inr ts" and "starts_option ts"
    and "\<And>pos s extras rest. starts_option rest \<Longrightarrow>
      consume pos s extras (ts @ rest) = res_bind (upd s) (\<lambda>s. consume pos s extras rest)"
  shows "segment p seg upd"
  using assms unfolding segment_def by blast

lemma segment_Nil: "segment p [] Inr"
  by (auto simp: segment_def starts_option_def)

lemma segment_append:
  assumes "segment p xs f" and "segment p ys g"
  shows "segment p (xs @ ys) (\<lambda>s. res_bind (f s) g)"
proof -
  obtain ts where ts: "''--'' \<notin> set xs" "read_tokens (option_table p) xs = Inr ts" "starts_option ts"
    "\<And>pos s extras rest. starts_option rest \<Longrightarrow>
       consume pos s extras (ts @ rest) = res_bind (f s) (\<lambda>s. consume pos s extras rest)"
    using assms(1) unfolding segment_def by blast
  obtain us where us: "''--'' \<notin> set ys" "read_tokens (option_table p) ys = Inr us" "starts_option us"
    "\<And>pos s extras rest. starts_option rest \<Longrightarrow>
       consume pos s extras (us @ rest) = res_bind (g s) (\<lambda>s. consume pos s extras rest)"
    using assms(2) unfolding segment_def by blast
  have "read_tokens (option_table p) (xs @ ys) = Inr (ts @ us)"
    using read_tokens_append [OF ts(1,2), of ys] us(2) by simp
  moreover have "starts_option (ts @ us)" using ts(3) us(3) by (rule starts_option_append)
  moreover have "consume pos s extras ((ts @ us) @ rest) = res_bind (res_bind (f s) g) (\<lambda>s. consume pos s extras rest)"
    if "starts_option rest" for pos s extras rest
    using that us(3) by (simp add: ts(4) us(4) starts_option_append res_bind_assoc)
  ultimately show ?thesis using ts(1) us(1) unfolding segment_def set_append by blast
qed

lemma option_name: "map_of (option_table p) k = Some a \<Longrightarrow> take 2 k = ''--'' \<Longrightarrow> parse_optional (option_table p) k = Inr (TOpt a k None)"
  by (cases k) (auto simp: parse_optional_exact)

lemma segment_one:
  assumes "map_of (option_table p) k = Some a" and "oa_nargs a = NOne" and "take 2 k = ''--''" and "k \<noteq> ''--''" and "plain_arg v"
  shows "segment p [k, v] (oa_store a [v])"
proof -
  have v: "v \<noteq> ''--''" using assms(5) by (auto simp: plain_arg_def)
  have "read_tokens (option_table p) [k, v] = Inr [(TOpt a k None, k), (TArg, v)]"
    using assms v by (simp add: option_name parse_optional_plain)
  then show ?thesis using assms v unfolding segment_def by (auto simp: starts_option_def)
qed

lemma segment_flag:
  assumes "map_of (option_table p) k = Some a" and "oa_nargs a = NFlag" and "take 2 k = ''--''" and "k \<noteq> ''--''"
  shows "segment p [k] (oa_store a [])"
proof -
  have "read_tokens (option_table p) [k] = Inr [(TOpt a k None, k)]" using assms by (simp add: option_name)
  then show ?thesis using assms unfolding segment_def by (auto simp: starts_option_def)
qed

lemma plain_tokens_span:
  assumes "starts_option rest"
  shows "takeWhile (\<lambda>(t, _). is_TArg t) (map (Pair TArg) vs @ rest) = map (Pair TArg) vs"
    and "dropWhile (\<lambda>(t, _). is_TArg t) (map (Pair TArg) vs @ rest) = rest"
  using assms by (induction vs; cases rest; auto simp: starts_option_def elim: is_TOpt.elims)+

lemma segment_many:
  assumes "map_of (option_table p) k = Some a" and "oa_nargs a = NMany" and "take 2 k = ''--''" and "k \<noteq> ''--''"
    and "list_all plain_arg vs"
  shows "segment p (k # vs) (oa_store a vs)"
proof -
  have "read_tokens (option_table p) (k # vs) = Inr ((TOpt a k None, k) # map (Pair TArg) vs)"
    using assms read_tokens_plain(1) [OF assms(5), of "option_table p"] by (simp add: option_name)
  moreover have "consume pos s extras (((TOpt a k None, k) # map (Pair TArg) vs) @ rest)
      = res_bind (oa_store a vs s) (\<lambda>s. consume pos s extras rest)" if "starts_option rest" for pos s extras rest
    using assms(2) plain_tokens_span [OF that] by (simp add: comp_def)
  moreover have "''--'' \<notin> set (k # vs)" using assms(4) read_tokens_plain(2) [OF assms(5)] by simp
  moreover have "starts_option ((TOpt a k None, k) # map (Pair TArg) vs)" by (simp add: starts_option_def)
  ultimately show ?thesis by (blast intro: segmentI)
qed

lemma segment_pure_append:
  "segment p xs (\<lambda>s. Inr (f s)) \<Longrightarrow> segment p ys (\<lambda>s. Inr (g s)) \<Longrightarrow> segment p (xs @ ys) (\<lambda>s. Inr (g (f s)))"
  using segment_append [of p xs "\<lambda>s. Inr (f s)" ys "\<lambda>s. Inr (g s)"] by simp

lemma segment_if:
  assumes "b \<Longrightarrow> segment p xs (\<lambda>s. Inr (f s))" and "\<And>s. g s = (if b then f s else s)"
  shows "segment p (if b then xs else []) (\<lambda>s. Inr (g s))"
  using assms(1) segment_Nil [of p] by (simp add: assms(2))

lemma segment_one_eq:
  assumes "map_of (option_table p) k = Some a" and "oa_nargs a = NOne" and "take 2 k = ''--''" and "k \<noteq> ''--''" and "plain_arg v"
    and "\<And>s. oa_store a [v] s = Inr (f s)"
  shows "segment p [k, v] (\<lambda>s. Inr (f s))"
proof -
  have "oa_store a [v] = (\<lambda>s. Inr (f s))" by (rule ext) (rule assms(6))
  then show ?thesis using segment_one [OF assms(1-5)] by simp
qed

lemma parse_args_segment:
  assumes "ap_positional p = Some f" and "plain_arg m" and "segment p seg upd"
  shows "parse_args p d (m # seg) = res_bind (f m d) upd"
proof -
  obtain ts where ts: "read_tokens (option_table p) seg = Inr ts" "starts_option ts"
    "\<And>pos s extras rest. starts_option rest \<Longrightarrow>
       consume pos s extras (ts @ rest) = res_bind (upd s) (\<lambda>s. consume pos s extras rest)"
    using assms(3) unfolding segment_def by blast
  have m: "m \<noteq> ''--''" using assms(2) by (auto simp: plain_arg_def)
  have r: "read_tokens (option_table p) (m # seg) = Inr ((TArg, m) # ts)"
    using m assms(2) ts(1) by (simp add: parse_optional_plain)
  have nd: "(case ts of (TDashes, _) # rest' \<Rightarrow> rest' | _ \<Rightarrow> ts) = ts"
    using ts(2) by (auto simp: starts_option_def split: list.splits prod.splits arg_token.splits)
  have c: "consume None s [] ts = res_bind (upd s) (\<lambda>s. Inr (None, s, []))" for s
    using ts(3) [of "[]" None s "[]"] by (simp add: starts_option_def)
  show ?thesis unfolding parse_args_def r using assms(1)
    by (simp add: nd c res_bind_assoc)
qed

text \<open>
  What a class with overrides promises: its printed fields are options of its parser, and storing
  them in the defaults gives the object back. Then reading undoes printing.
\<close>

locale override_format =
  fixes parser :: "'s arg_parser" and defaults :: 's and fields :: "'o \<Rightarrow> (string \<times> string) list" and build :: "'o \<Rightarrow> 's"
    and good :: "'o \<Rightarrow> bool"
  assumes no_equals: "equals_free parser" and no_positional: "ap_positional parser = None"
    and known: "good x \<Longrightarrow> list_all (known_pair parser) (fields x)"
    and stores: "good x \<Longrightarrow> res_fold (\<lambda>s (k, v). store_of parser k v s) defaults (fields x) = Inr (build x)"
begin

lemma round_trip: "good x \<Longrightarrow> parse_overrides parser defaults (show_overrides (fields x)) = Inr (build x)"
  by (simp add: parse_show_overrides [OF no_equals no_positional known] stores)

end

end
