(* ===== verification/Compiler_Flags.thy ===== *)
theory Compiler_Flags
  imports Arg_Parser
begin

text \<open>
  The compiler's flags (\<open>python/mlc_llm/interface/compiler_flags.py\<close>): the optimization flags with
  their printed form, its parser, the presets and the adjustment to a target
  (\<open>OptimizationFlags\<close>, \<open>OPT_FLAG_PRESET\<close>), and the overrides of the model configuration
  (\<open>ModelConfigOverride\<close>). The detection of the CUDA architectures is
  \<open>detect_cuda_arch_list\<close> of \<open>support/auto_target.py\<close>. The presets are mutable objects shared by all
  who ask for them by name, so their table is a state.
\<close>

section \<open>Optimization flags\<close>

datatype IPCAllReduceStrategyType = NONE | ONESHOT | TWOSHOT | AUTO

fun strategy_name :: "IPCAllReduceStrategyType \<Rightarrow> string" where
  "strategy_name NONE = ''NONE''"
| "strategy_name ONESHOT = ''ONESHOT''"
| "strategy_name TWOSHOT = ''TWOSHOT''"
| "strategy_name AUTO = ''AUTO''"

definition strategy_of_name :: "string \<Rightarrow> IPCAllReduceStrategyType res" where
  "strategy_of_name n =
     dict_get [(''NONE'', NONE), (''ONESHOT'', ONESHOT), (''TWOSHOT'', TWOSHOT), (''AUTO'', AUTO)] n"

record opt_flags =
  flashinfer :: bool
  cublas_gemm :: bool
  faster_transformer :: bool
  cudagraph :: bool
  cutlass :: bool
  ipc_allreduce_strategy :: IPCAllReduceStrategyType

definition OptimizationFlags :: opt_flags where
  "OptimizationFlags = \<lparr>flashinfer = False, cublas_gemm = False, faster_transformer = False, cudagraph = False,
     cutlass = False, ipc_allreduce_strategy = NONE\<rparr>"

definition show_bit :: "bool \<Rightarrow> string" where
  "show_bit b = str_of_int (if b then 1 else 0)"

definition str_rstrip :: "string \<Rightarrow> string" where
  "str_rstrip s = rev (dropWhile str_space (rev s))"

definition opt_flags_fields :: "opt_flags \<Rightarrow> (string \<times> string) list" where
  "opt_flags_fields f =
     [(''flashinfer'', show_bit (flashinfer f)), (''cublas_gemm'', show_bit (cublas_gemm f)),
      (''faster_transformer'', show_bit (faster_transformer f)), (''cudagraph'', show_bit (cudagraph f)),
      (''cutlass'', show_bit (cutlass f)), (''ipc_allreduce_strategy'', strategy_name (ipc_allreduce_strategy f))]"

definition opt_flags_repr :: "opt_flags \<Rightarrow> string" where
  "opt_flags_repr f = str_rstrip (show_overrides (opt_flags_fields f))"

definition flag_boolean :: "string \<Rightarrow> bool res" where
  "flag_boolean value =
     (if value = ''0'' then Inr False else if value = ''1'' then Inr True
      else Inl (ValueError (''Invalid boolean value: '' @ value)))"

definition bool_option :: "string \<Rightarrow> (bool \<Rightarrow> 's \<Rightarrow> 's) \<Rightarrow> 's opt_action" where
  "bool_option name f = one_option name (\<lambda>v s. res_bind (arg_type flag_boolean v) (\<lambda>b. Inr (f b s)))"

definition opt_flags_parser :: "opt_flags arg_parser" where
  "opt_flags_parser = \<lparr>ap_options =
     [bool_option ''--flashinfer'' (\<lambda>b s. s\<lparr>flashinfer := b\<rparr>),
      bool_option ''--cublas_gemm'' (\<lambda>b s. s\<lparr>cublas_gemm := b\<rparr>),
      bool_option ''--faster_transformer'' (\<lambda>b s. s\<lparr>faster_transformer := b\<rparr>),
      bool_option ''--cudagraph'' (\<lambda>b s. s\<lparr>cudagraph := b\<rparr>),
      bool_option ''--cutlass'' (\<lambda>b s. s\<lparr>cutlass := b\<rparr>),
      one_option ''--ipc_allreduce_strategy'' (\<lambda>v s.
        res_bind (check_choice [''NONE'', ''ONESHOT'', ''TWOSHOT'', ''AUTO''] v) (\<lambda>n.
        res_bind (strategy_of_name n) (\<lambda>st. Inr (s\<lparr>ipc_allreduce_strategy := st\<rparr>))))],
     ap_positional = None\<rparr>"

definition opt_flags_defaults :: opt_flags where
  "opt_flags_defaults = OptimizationFlags\<lparr>flashinfer := True\<rparr>"

definition OPT_FLAG_PRESET :: "(string \<times> opt_flags) list" where
  "OPT_FLAG_PRESET =
     [(''O0'', OptimizationFlags),
      (''O1'', OptimizationFlags\<lparr>cublas_gemm := True, faster_transformer := True, cutlass := True\<rparr>),
      (''O2'', OptimizationFlags\<lparr>flashinfer := True, cublas_gemm := True, cudagraph := True, cutlass := True\<rparr>),
      (''O3'', \<lparr>flashinfer = True, cublas_gemm = True, faster_transformer = True, cudagraph = True, cutlass = True,
               ipc_allreduce_strategy = AUTO\<rparr>)]"

text \<open>
  The presets are objects that live as long as the program; a name gives the object itself and not a
  copy. The state is the table of the presets.
\<close>

datatype flags_ref = PresetFlags string | OwnFlags opt_flags

definition flags_from_str :: "string \<Rightarrow> (string \<times> opt_flags) list \<Rightarrow> flags_ref res" where
  "flags_from_str source presets =
     (if source \<in> fst ` set presets then Inr (PresetFlags source)
      else res_bind (parse_overrides opt_flags_parser opt_flags_defaults source) (\<lambda>f. Inr (OwnFlags f)))"

definition flags_value :: "flags_ref \<Rightarrow> (string \<times> opt_flags) list \<Rightarrow> opt_flags res" where
  "flags_value r presets = (case r of OwnFlags f \<Rightarrow> Inr f | PresetFlags n \<Rightarrow> dict_get presets n)"

record target =
  tg_kind :: string
  tg_arch :: string

definition arch_digits :: "string \<Rightarrow> int res" where
  "arch_digits arch_str =
     (let arch_num_str = filter (\<lambda>c. digit_val c \<noteq> None) arch_str
      in res_bind (res_assert (arch_num_str \<noteq> []) arch_str) (\<lambda>_. int_of_str arch_num_str))"

definition detect_cuda_arch_list :: "string option \<Rightarrow> target \<Rightarrow> int list res" where
  "detect_cuda_arch_list multi_arch target =
     res_bind (res_assert (tg_kind target = ''cuda'') ''Expect target to be CUDA'') (\<lambda>_.
     res_bind (case multi_arch of
         Some archs \<Rightarrow> res_map arch_digits (split_char CHR '','' archs)
       | None \<Rightarrow> res_bind (res_assert (take 3 (tg_arch target) = ''sm_'') []) (\<lambda>_.
           res_map arch_digits [drop 3 (tg_arch target)])) (\<lambda>archs. Inr (remdups archs)))"

definition update_flags :: "string option \<Rightarrow> target \<Rightarrow> string \<Rightarrow> opt_flags \<Rightarrow> opt_flags res" where
  "update_flags multi_arch target quantization f =
     (let cuda = (tg_kind target = ''cuda'');
          plain = (quantization \<in> {''q0f16'', ''q0bf16'', ''q0f32''}
                   \<or> sublist ''e4m3'' quantization \<or> sublist ''e5m2'' quantization)
      in res_bind (if \<not> flashinfer f then Inr False
                   else if \<not> cuda then Inr False
                   else res_bind (detect_cuda_arch_list multi_arch target) (\<lambda>archs.
                          Inr (\<not> list_ex (\<lambda>a. a < 80) archs))) (\<lambda>fi.
         Inr (f\<lparr>flashinfer := fi,
                cublas_gemm := (if tg_kind target \<notin> {''cuda'', ''rocm''} then False
                                else if \<not> plain then False else cublas_gemm f),
                faster_transformer := (if \<not> cuda then False else faster_transformer f),
                cutlass := (if \<not> cuda then False else cutlass f),
                cudagraph := (if \<not> cuda then False else cudagraph f)\<rparr>)))"

definition flags_update ::
  "string option \<Rightarrow> target \<Rightarrow> string \<Rightarrow> flags_ref \<Rightarrow> (string \<times> opt_flags) list
     \<Rightarrow> (flags_ref \<times> (string \<times> opt_flags) list) res" where
  "flags_update multi_arch target quantization r presets =
     res_bind (flags_value r presets) (\<lambda>f.
     res_bind (update_flags multi_arch target quantization f) (\<lambda>f'.
       Inr (case r of OwnFlags _ \<Rightarrow> (OwnFlags f', presets) | PresetFlags n \<Rightarrow> (r, dict_set presets n f'))))"

section \<open>Overrides of the model configuration\<close>

record model_overrides =
  mo_context_window_size :: "int option"
  mo_sliding_window_size :: "int option"
  mo_prefill_chunk_size :: "int option"
  mo_attention_sink_size :: "int option"
  mo_max_batch_size :: "int option"
  mo_tensor_parallel_shards :: "int option"
  mo_pipeline_parallel_stages :: "int option"
  mo_disaggregation :: "bool option"

definition ModelConfigOverride :: model_overrides where
  "ModelConfigOverride = \<lparr>mo_context_window_size = None, mo_sliding_window_size = None, mo_prefill_chunk_size = None,
     mo_attention_sink_size = None, mo_max_batch_size = None, mo_tensor_parallel_shards = None,
     mo_pipeline_parallel_stages = None, mo_disaggregation = None\<rparr>"

definition show_opt_int :: "int option \<Rightarrow> string" where
  "show_opt_int x = (case x of None \<Rightarrow> ''None'' | Some i \<Rightarrow> str_of_int i)"

definition show_opt_bool :: "bool option \<Rightarrow> string" where
  "show_opt_bool x = (case x of None \<Rightarrow> ''None'' | Some b \<Rightarrow> if b then ''True'' else ''False'')"

definition model_overrides_fields :: "model_overrides \<Rightarrow> (string \<times> string) list" where
  "model_overrides_fields m =
     [(''context_window_size'', show_opt_int (mo_context_window_size m)),
      (''sliding_window_size'', show_opt_int (mo_sliding_window_size m)),
      (''prefill_chunk_size'', show_opt_int (mo_prefill_chunk_size m)),
      (''attention_sink_size'', show_opt_int (mo_attention_sink_size m)),
      (''max_batch_size'', show_opt_int (mo_max_batch_size m)),
      (''tensor_parallel_shards'', show_opt_int (mo_tensor_parallel_shards m)),
      (''pipeline_parallel_stages'', show_opt_int (mo_pipeline_parallel_stages m)),
      (''disaggregation'', show_opt_bool (mo_disaggregation m))]"

definition model_overrides_repr :: "model_overrides \<Rightarrow> string" where
  "model_overrides_repr m = str_rstrip (show_overrides (model_overrides_fields m))"

definition int_option :: "string \<Rightarrow> (int option \<Rightarrow> 's \<Rightarrow> 's) \<Rightarrow> 's opt_action" where
  "int_option name f = one_option name (\<lambda>v s. res_bind (arg_type int_of_str v) (\<lambda>i. Inr (f (Some i) s)))"

definition is_true_text :: "string \<Rightarrow> bool" where
  "is_true_text x \<longleftrightarrow> str_lower x \<in> {''true'', ''1'', ''yes'', ''True''}"

definition model_overrides_parser :: "model_overrides arg_parser" where
  "model_overrides_parser = \<lparr>ap_options =
     [int_option ''--context_window_size'' (\<lambda>x s. s\<lparr>mo_context_window_size := x\<rparr>),
      int_option ''--sliding_window_size'' (\<lambda>x s. s\<lparr>mo_sliding_window_size := x\<rparr>),
      int_option ''--prefill_chunk_size'' (\<lambda>x s. s\<lparr>mo_prefill_chunk_size := x\<rparr>),
      int_option ''--attention_sink_size'' (\<lambda>x s. s\<lparr>mo_attention_sink_size := x\<rparr>),
      int_option ''--max_batch_size'' (\<lambda>x s. s\<lparr>mo_max_batch_size := x\<rparr>),
      int_option ''--tensor_parallel_shards'' (\<lambda>x s. s\<lparr>mo_tensor_parallel_shards := x\<rparr>),
      int_option ''--pipeline_parallel_stages'' (\<lambda>x s. s\<lparr>mo_pipeline_parallel_stages := x\<rparr>),
      one_option ''--disaggregation'' (\<lambda>v s. Inr (s\<lparr>mo_disaggregation := Some (is_true_text v)\<rparr>))],
     ap_positional = None\<rparr>"

definition model_overrides_from_str :: "string \<Rightarrow> model_overrides res" where
  "model_overrides_from_str source = parse_overrides model_overrides_parser ModelConfigOverride source"

definition full_overrides :: "model_overrides \<Rightarrow> bool" where
  "full_overrides m \<longleftrightarrow>
     None \<notin> set [mo_context_window_size m, mo_sliding_window_size m, mo_prefill_chunk_size m, mo_attention_sink_size m,
                 mo_max_batch_size m, mo_tensor_parallel_shards m, mo_pipeline_parallel_stages m]"

text \<open>What remains of the flags, once the one for flashinfer is known.\<close>

definition flashinfer_kept :: "string option \<Rightarrow> target \<Rightarrow> opt_flags \<Rightarrow> bool res" where
  "flashinfer_kept multi_arch target f =
     (if \<not> flashinfer f then Inr False else if tg_kind target \<noteq> ''cuda'' then Inr False
      else res_bind (detect_cuda_arch_list multi_arch target) (\<lambda>archs. Inr (\<not> list_ex (\<lambda>a. a < 80) archs)))"

definition kept_flags :: "target \<Rightarrow> string \<Rightarrow> bool \<Rightarrow> opt_flags \<Rightarrow> opt_flags" where
  "kept_flags target quantization fi f =
     \<lparr>flashinfer = fi,
      cublas_gemm = (cublas_gemm f \<and> tg_kind target \<in> {''cuda'', ''rocm''}
        \<and> (quantization \<in> {''q0f16'', ''q0bf16'', ''q0f32''} \<or> sublist ''e4m3'' quantization \<or> sublist ''e5m2'' quantization)),
      faster_transformer = (faster_transformer f \<and> tg_kind target = ''cuda''),
      cudagraph = (cudagraph f \<and> tg_kind target = ''cuda''),
      cutlass = (cutlass f \<and> tg_kind target = ''cuda''), ipc_allreduce_strategy = ipc_allreduce_strategy f\<rparr>"

section \<open>Lemmas\<close>

lemma str_rstrip_append: "t \<noteq> [] \<Longrightarrow> \<not> str_space (last t) \<Longrightarrow> str_rstrip (s @ t) = s @ t"
  by (cases t rule: rev_cases) (simp_all add: str_rstrip_def)

lemma py_join_snoc: "xs \<noteq> [] \<Longrightarrow> py_join sep (xs @ [x]) = py_join sep xs @ sep @ x"
  by (induction sep xs rule: py_join.induct) auto

lemma show_overrides_rstrip:
  assumes "v \<noteq> []" and "\<not> str_space (last v)"
  shows "str_rstrip (show_overrides (kvs @ [(k, v)])) = show_overrides (kvs @ [(k, v)])"
proof -
  have "\<exists>s. show_overrides (kvs @ [(k, v)]) = s @ v"
    by (cases "kvs = []") (auto simp: show_overrides_def show_pair_def py_join_snoc)
  then show ?thesis using str_rstrip_append [OF assms] by auto
qed

lemma str_of_int_chars: "c \<in> set (str_of_int i) \<Longrightarrow> c = CHR ''-'' \<or> digit_val c \<noteq> None"
  by (cases "i < 0") (auto simp: str_of_int_def dest: digits_of_nat_chars)

lemma str_of_int_no_semicolon [simp]: "CHR '';'' \<notin> set (str_of_int i)"
  using str_of_int_chars [of "CHR '';''" i] by (auto simp: digit_val_def)

lemma str_of_int_not_Nil [simp]: "str_of_int i \<noteq> []"
  by (simp add: str_of_int_def)

lemma show_bit_simps [simp]: "show_bit True = ''1''" "show_bit False = ''0''"
  by code_simp+

lemma flag_boolean_show [simp]: "arg_type flag_boolean (show_bit b) = Inr b"
  by (cases b) (simp_all add: arg_type_def flag_boolean_def)

lemma show_bit_no_semicolon [simp]: "CHR '';'' \<notin> set (show_bit b)"
  by (cases b) simp_all

lemma strategy_name_no_semicolon [simp]: "CHR '';'' \<notin> set (strategy_name st)"
  by (cases st) simp_all

lemma arg_type_int [simp]: "arg_type int_of_str (str_of_int i) = Inr i"
  by (simp add: arg_type_def)

lemmas option_defs =
  option_table_def help_action_def bool_option_def int_option_def one_option_def flag_option_def many_option_def

lemma opt_flags_known: "list_all (known_pair opt_flags_parser) (opt_flags_fields f)"
  by (simp add: opt_flags_fields_def known_pair_def opt_flags_parser_def option_defs)

lemma opt_flags_equals: "equals_free opt_flags_parser"
  by (simp add: equals_free_def opt_flags_parser_def option_defs)

lemma opt_flags_positional: "ap_positional opt_flags_parser = None"
  by (simp add: opt_flags_parser_def)

lemma opt_flags_stores:
  "res_fold (\<lambda>s (k, v). store_of opt_flags_parser k v s) opt_flags_defaults (opt_flags_fields f) = Inr f"
proof -
  have "check_choice [''NONE'', ''ONESHOT'', ''TWOSHOT'', ''AUTO''] (strategy_name st) = Inr (strategy_name st)"
    "strategy_of_name (strategy_name st) = Inr st" for st
    by (cases st; simp add: check_choice_def strategy_of_name_def dict_get_def)+
  then show ?thesis
    by (simp add: opt_flags_fields_def store_of_def opt_flags_parser_def option_defs opt_flags_defaults_def OptimizationFlags_def)
qed

interpretation opt_flags_format: override_format opt_flags_parser opt_flags_defaults opt_flags_fields "\<lambda>f. f" "\<lambda>_. True"
  by unfold_locales (rule opt_flags_equals opt_flags_positional opt_flags_known opt_flags_stores)+

lemma show_opt_int_no_semicolon [simp]: "CHR '';'' \<notin> set (show_opt_int x)"
  by (simp add: show_opt_int_def split: option.split)

lemma show_opt_bool_no_semicolon [simp]: "CHR '';'' \<notin> set (show_opt_bool x)"
  by (simp add: show_opt_bool_def split: option.split)

lemma model_overrides_known: "list_all (known_pair model_overrides_parser) (model_overrides_fields m)"
  by (simp add: model_overrides_fields_def known_pair_def model_overrides_parser_def option_defs)

lemma model_overrides_equals: "equals_free model_overrides_parser"
  by (simp add: equals_free_def model_overrides_parser_def option_defs)

lemma model_overrides_positional: "ap_positional model_overrides_parser = None"
  by (simp add: model_overrides_parser_def)

lemma is_true_show: "is_true_text (show_opt_bool x) \<longleftrightarrow> x = Some True"
proof -
  have "is_true_text ''True''" "\<not> is_true_text ''False''" "\<not> is_true_text ''None''" by code_simp+
  then show ?thesis by (simp add: show_opt_bool_def split: option.split)
qed

lemma model_overrides_stores:
  assumes "full_overrides m"
  shows "res_fold (\<lambda>s (k, v). store_of model_overrides_parser k v s) ModelConfigOverride (model_overrides_fields m)
    = Inr (m\<lparr>mo_disaggregation := Some (mo_disaggregation m = Some True)\<rparr>)"
proof -
  from assms obtain a b c d e f g where
    "mo_context_window_size m = Some a" "mo_sliding_window_size m = Some b" "mo_prefill_chunk_size m = Some c"
    "mo_attention_sink_size m = Some d" "mo_max_batch_size m = Some e" "mo_tensor_parallel_shards m = Some f"
    "mo_pipeline_parallel_stages m = Some g"
    by (auto simp: full_overrides_def eq_commute [of None])
  then show ?thesis
    by (cases m) (simp add: model_overrides_fields_def store_of_def model_overrides_parser_def option_defs
        ModelConfigOverride_def show_opt_int_def is_true_show)
qed

interpretation model_format: override_format model_overrides_parser ModelConfigOverride model_overrides_fields
  "\<lambda>m. m\<lparr>mo_disaggregation := Some (mo_disaggregation m = Some True)\<rparr>" full_overrides
  by unfold_locales (use model_overrides_equals model_overrides_positional model_overrides_known model_overrides_stores in blast)+

lemma opt_flags_repr_fields: "opt_flags_repr f = show_overrides (opt_flags_fields f)"
proof -
  have "strategy_name st \<noteq> [] \<and> \<not> str_space (last (strategy_name st))" for st
    by (cases st) (simp_all add: str_space_def is_space_def)
  then show ?thesis
    unfolding opt_flags_repr_def opt_flags_fields_def
    using show_overrides_rstrip [of _ "[(_, _), (_, _), (_, _), (_, _), (_, _)]"] by simp
qed

lemma model_overrides_repr_fields: "model_overrides_repr m = show_overrides (model_overrides_fields m)"
proof -
  have "show_opt_bool x \<noteq> [] \<and> \<not> str_space (last (show_opt_bool x))" for x
    by (simp add: show_opt_bool_def str_space_def is_space_def split: option.split)
  then show ?thesis
    unfolding model_overrides_repr_def model_overrides_fields_def
    using show_overrides_rstrip [of _ "[(_, _), (_, _), (_, _), (_, _), (_, _), (_, _), (_, _)]"] by simp
qed

lemma update_flags_kept:
  "update_flags multi_arch target quantization f =
     res_bind (flashinfer_kept multi_arch target f) (\<lambda>fi. Inr (kept_flags target quantization fi f))"
proof -
  have "(\<lambda>fi. Inr (f\<lparr>flashinfer := fi,
                cublas_gemm := (if tg_kind target \<notin> {''cuda'', ''rocm''} then False
                                else if \<not> (quantization \<in> {''q0f16'', ''q0bf16'', ''q0f32''}
                   \<or> sublist ''e4m3'' quantization \<or> sublist ''e5m2'' quantization) then False else cublas_gemm f),
                faster_transformer := (if \<not> tg_kind target = ''cuda'' then False else faster_transformer f),
                cutlass := (if \<not> tg_kind target = ''cuda'' then False else cutlass f),
                cudagraph := (if \<not> tg_kind target = ''cuda'' then False else cudagraph f)\<rparr>))
      = (\<lambda>fi. Inr (kept_flags target quantization fi f) :: opt_flags res)"
    by (rule ext, cases f) (simp add: kept_flags_def)
  then show ?thesis unfolding update_flags_def flashinfer_kept_def Let_def by simp
qed

section \<open>Properties\<close>

text \<open>The printed form of any optimization flags reads back as the same flags.\<close>

theorem opt_flags_roundtrip: "flags_from_str (opt_flags_repr f) OPT_FLAG_PRESET = Inr (OwnFlags f)"
proof -
  have "take 1 (opt_flags_repr f) = ''f''"
    by (simp add: opt_flags_repr_fields opt_flags_fields_def show_overrides_def show_pair_def)
  then have "opt_flags_repr f \<notin> fst ` set OPT_FLAG_PRESET" by (auto simp: OPT_FLAG_PRESET_def)
  then show ?thesis
    using opt_flags_format.round_trip [of f] by (simp add: flags_from_str_def opt_flags_repr_fields)
qed

text \<open>Adjusting the flags to a target only switches flags off, never on, leaves the all-reduce
  strategy alone, and doing it again for the same target changes nothing.\<close>

theorem update_flags_sound:
  assumes "update_flags multi_arch target quantization f = Inr f'"
  shows "(flashinfer f' \<longrightarrow> flashinfer f) \<and> (cublas_gemm f' \<longrightarrow> cublas_gemm f)
    \<and> (faster_transformer f' \<longrightarrow> faster_transformer f) \<and> (cudagraph f' \<longrightarrow> cudagraph f) \<and> (cutlass f' \<longrightarrow> cutlass f)
    \<and> ipc_allreduce_strategy f' = ipc_allreduce_strategy f
    \<and> (tg_kind target \<noteq> ''cuda'' \<longrightarrow> \<not> flashinfer f' \<and> \<not> faster_transformer f' \<and> \<not> cudagraph f' \<and> \<not> cutlass f')
    \<and> update_flags multi_arch target quantization f' = Inr f'"
proof -
  obtain fi where fi: "flashinfer_kept multi_arch target f = Inr fi" and f': "f' = kept_flags target quantization fi f"
    using assms by (auto simp: update_flags_kept res_bind_eq_Inr)
  have keep: "fi \<longrightarrow> flashinfer f \<and> tg_kind target = ''cuda''"
    using fi by (simp add: flashinfer_kept_def split: if_splits)
  have "flashinfer_kept multi_arch target f' = Inr fi"
    using fi keep by (cases fi) (simp_all add: flashinfer_kept_def f' kept_flags_def)
  then have "update_flags multi_arch target quantization f' = Inr f'"
    by (simp add: update_flags_kept) (simp add: f' kept_flags_def)
  moreover have "tg_kind target \<noteq> ''cuda'' \<longrightarrow> \<not> fi" using keep by blast
  ultimately show ?thesis using keep by (simp add: f' kept_flags_def)
qed

theorem update_flags_sound_witness:
  "\<exists>f'. update_flags None \<lparr>tg_kind = ''rocm'', tg_arch = []\<rparr> ''q0f16''
      (OptimizationFlags\<lparr>flashinfer := True, cublas_gemm := True\<rparr>) = Inr f'
     \<and> cublas_gemm f' \<and> \<not> flashinfer f'
     \<and> update_flags None \<lparr>tg_kind = ''rocm'', tg_arch = []\<rparr> ''q0f16'' f' = Inr f'"
proof -
  let ?f = "OptimizationFlags\<lparr>flashinfer := True, cublas_gemm := True\<rparr>"
  let ?t = "\<lparr>tg_kind = ''rocm'', tg_arch = []\<rparr>"
  have step: "update_flags None ?t ''q0f16'' ?f = Inr (OptimizationFlags\<lparr>cublas_gemm := True\<rparr>)"
    by (simp add: update_flags_def OptimizationFlags_def)
  then show ?thesis using update_flags_sound [OF step] by (auto simp: OptimizationFlags_def)
qed

text \<open>The presets are shared. Adjusting the flags that the name O2 gave to a target without CUDA
  changes what the name O2 gives from then on, for every later target.\<close>

theorem preset_shared:
  "\<exists>r presets f. flags_from_str ''O2'' OPT_FLAG_PRESET = Inr r
     \<and> flags_update None \<lparr>tg_kind = ''metal'', tg_arch = []\<rparr> ''q4f16_1'' r OPT_FLAG_PRESET = Inr (r, presets)
     \<and> flags_from_str ''O2'' presets = Inr r \<and> flags_value r presets = Inr f \<and> f = OptimizationFlags"
  by (simp add: flags_from_str_def flags_update_def flags_value_def OPT_FLAG_PRESET_def dict_get_def
      update_flags_def OptimizationFlags_def)

text \<open>The printed form of overrides reads back as the same overrides when every number is given;
  only a missing disaggregation flag comes back as \<open>False\<close>.\<close>

theorem model_overrides_roundtrip:
  assumes "full_overrides m"
  shows "model_overrides_from_str (model_overrides_repr m)
    = Inr (m\<lparr>mo_disaggregation := Some (mo_disaggregation m = Some True)\<rparr>)"
  using model_format.round_trip [OF assms] by (simp add: model_overrides_from_str_def model_overrides_repr_fields)

theorem model_overrides_roundtrip_witness:
  "model_overrides_from_str (model_overrides_repr \<lparr>mo_context_window_size = Some 4096, mo_sliding_window_size = Some (-1),
      mo_prefill_chunk_size = Some 2048, mo_attention_sink_size = Some 4, mo_max_batch_size = Some 80,
      mo_tensor_parallel_shards = Some 2, mo_pipeline_parallel_stages = Some 1, mo_disaggregation = None\<rparr>)
   = Inr \<lparr>mo_context_window_size = Some 4096, mo_sliding_window_size = Some (-1),
      mo_prefill_chunk_size = Some 2048, mo_attention_sink_size = Some 4, mo_max_batch_size = Some 80,
      mo_tensor_parallel_shards = Some 2, mo_pipeline_parallel_stages = Some 1, mo_disaggregation = Some False\<rparr>"
  by (subst model_overrides_roundtrip) (simp_all add: full_overrides_def)

end
