(* ===== verification/Cli_Serve.thy ===== *)
theory Cli_Serve
  imports Server Compiler_Flags
begin

text \<open>
  The command line of the server: \<open>EngineConfigOverride\<close> and \<open>main\<close> of \<open>python/mlc_llm/cli/serve.py\<close>, the engine
  configuration that \<open>interface/serve.py\<close> makes of the arguments, and the dispatch of the subcommands in
  \<open>\_\_main\_\_.py\<close>. \<open>json.loads\<close> of the CORS arguments is a parameter. The lemmas say what each piece of a
  command line does to the namespace of \<open>main\<close>.
\<close>

section \<open>cli/serve.py: overrides of the engine configuration\<close>

record engine_overrides =
  eo_max_num_sequence :: "int option"
  eo_max_total_seq_length :: "int option"
  eo_prefill_chunk_size :: "int option"
  eo_max_history_size :: "int option"
  eo_gpu_memory_utilization :: "py_float option"
  eo_spec_draft_length :: "int option"
  eo_spec_tree_width :: "int option"
  eo_prefix_cache_mode :: "string option"
  eo_prefix_cache_max_num_recycling_seqs :: "int option"
  eo_prefill_mode :: "string option"
  eo_context_window_size :: "int option"
  eo_sliding_window_size :: "int option"
  eo_attention_sink_size :: "int option"
  eo_tensor_parallel_shards :: "int option"
  eo_pipeline_parallel_stages :: "int option"
  eo_opt :: "string option"

definition EngineConfigOverride :: engine_overrides where
  "EngineConfigOverride = \<lparr>eo_max_num_sequence = None, eo_max_total_seq_length = None,
     eo_prefill_chunk_size = None, eo_max_history_size = None, eo_gpu_memory_utilization = None,
     eo_spec_draft_length = None, eo_spec_tree_width = None, eo_prefix_cache_mode = None,
     eo_prefix_cache_max_num_recycling_seqs = None, eo_prefill_mode = None, eo_context_window_size = None,
     eo_sliding_window_size = None, eo_attention_sink_size = None, eo_tensor_parallel_shards = None,
     eo_pipeline_parallel_stages = None, eo_opt = None\<rparr>"

definition engine_overrides_fields :: "(py_float \<Rightarrow> string) \<Rightarrow> engine_overrides \<Rightarrow> (string \<times> string) list" where
  "engine_overrides_fields frepr r =
     [(''max_num_sequence'', show_opt_int (eo_max_num_sequence r)),
      (''max_total_seq_length'', show_opt_int (eo_max_total_seq_length r)),
      (''prefill_chunk_size'', show_opt_int (eo_prefill_chunk_size r)),
      (''max_history_size'', show_opt_int (eo_max_history_size r)),
      (''gpu_memory_utilization'', case eo_gpu_memory_utilization r of None \<Rightarrow> ''None'' | Some x \<Rightarrow> frepr x),
      (''spec_draft_length'', show_opt_int (eo_spec_draft_length r)),
      (''spec_tree_width'', show_opt_int (eo_spec_tree_width r)),
      (''prefix_cache_mode'', case eo_prefix_cache_mode r of None \<Rightarrow> ''None'' | Some s \<Rightarrow> s),
      (''prefix_cache_max_num_recycling_seqs'', show_opt_int (eo_prefix_cache_max_num_recycling_seqs r)),
      (''prefill_mode'', case eo_prefill_mode r of None \<Rightarrow> ''None'' | Some s \<Rightarrow> s),
      (''context_window_size'', show_opt_int (eo_context_window_size r)),
      (''sliding_window_size'', show_opt_int (eo_sliding_window_size r)),
      (''attention_sink_size'', show_opt_int (eo_attention_sink_size r)),
      (''tensor_parallel_shards'', show_opt_int (eo_tensor_parallel_shards r)),
      (''pipeline_parallel_stages'', show_opt_int (eo_pipeline_parallel_stages r)),
      (''opt'', case eo_opt r of None \<Rightarrow> ''None'' | Some s \<Rightarrow> s)]"

definition engine_overrides_repr :: "(py_float \<Rightarrow> string) \<Rightarrow> engine_overrides \<Rightarrow> string" where
  "engine_overrides_repr frepr r = str_rstrip (show_overrides (engine_overrides_fields frepr r))"

definition text_option :: "string \<Rightarrow> (string option \<Rightarrow> 's \<Rightarrow> 's) \<Rightarrow> 's opt_action" where
  "text_option name f = one_option name (\<lambda>v s. Inr (f (Some v) s))"

definition engine_overrides_parser :: "engine_overrides arg_parser" where
  "engine_overrides_parser = \<lparr>ap_options =
     [int_option ''--max_num_sequence'' (\<lambda>x s. s\<lparr>eo_max_num_sequence := x\<rparr>),
      int_option ''--max_total_seq_length'' (\<lambda>x s. s\<lparr>eo_max_total_seq_length := x\<rparr>),
      int_option ''--prefill_chunk_size'' (\<lambda>x s. s\<lparr>eo_prefill_chunk_size := x\<rparr>),
      int_option ''--max_history_size'' (\<lambda>x s. s\<lparr>eo_max_history_size := x\<rparr>),
      one_option ''--gpu_memory_utilization'' (\<lambda>v s.
        res_bind (arg_type float_of_str v) (\<lambda>x. Inr (s\<lparr>eo_gpu_memory_utilization := Some x\<rparr>))),
      int_option ''--spec_draft_length'' (\<lambda>x s. s\<lparr>eo_spec_draft_length := x\<rparr>),
      int_option ''--spec_tree_width'' (\<lambda>x s. s\<lparr>eo_spec_tree_width := x\<rparr>),
      text_option ''--prefix_cache_mode'' (\<lambda>x s. s\<lparr>eo_prefix_cache_mode := x\<rparr>),
      int_option ''--prefix_cache_max_num_recycling_seqs'' (\<lambda>x s. s\<lparr>eo_prefix_cache_max_num_recycling_seqs := x\<rparr>),
      text_option ''--prefill_mode'' (\<lambda>x s. s\<lparr>eo_prefill_mode := x\<rparr>),
      int_option ''--context_window_size'' (\<lambda>x s. s\<lparr>eo_context_window_size := x\<rparr>),
      int_option ''--sliding_window_size'' (\<lambda>x s. s\<lparr>eo_sliding_window_size := x\<rparr>),
      int_option ''--attention_sink_size'' (\<lambda>x s. s\<lparr>eo_attention_sink_size := x\<rparr>),
      int_option ''--tensor_parallel_shards'' (\<lambda>x s. s\<lparr>eo_tensor_parallel_shards := x\<rparr>),
      int_option ''--pipeline_parallel_stages'' (\<lambda>x s. s\<lparr>eo_pipeline_parallel_stages := x\<rparr>),
      text_option ''--opt'' (\<lambda>x s. s\<lparr>eo_opt := x\<rparr>)],
     ap_positional = None\<rparr>"

definition engine_overrides_defaults :: engine_overrides where
  "engine_overrides_defaults =
     EngineConfigOverride\<lparr>eo_prefix_cache_mode := Some ''radix'', eo_prefill_mode := Some ''hybrid''\<rparr>"

definition engine_overrides_from_str :: "string \<Rightarrow> engine_overrides res" where
  "engine_overrides_from_str source = parse_overrides engine_overrides_parser engine_overrides_defaults source"

section \<open>cli/serve.py: main\<close>

record serve_args =
  sa_model :: string
  sa_device :: string
  sa_model_lib :: "string option"
  sa_mode :: string
  sa_enable_debug :: bool
  sa_additional_models :: "string list option"
  sa_speculative_mode :: string
  sa_prefix_cache_mode :: string
  sa_prefill_mode :: string
  sa_overrides :: "engine_overrides option"
  sa_enable_tracing :: bool
  sa_host :: string
  sa_port :: int
  sa_allow_credentials :: bool
  sa_allow_origins :: json
  sa_allow_methods :: json
  sa_allow_headers :: json

definition serve_defaults :: serve_args where
  "serve_defaults = \<lparr>sa_model = [], sa_device = ''auto'', sa_model_lib = None, sa_mode = ''local'',
     sa_enable_debug = False, sa_additional_models = None, sa_speculative_mode = ''disable'',
     sa_prefix_cache_mode = ''radix'', sa_prefill_mode = ''hybrid'', sa_overrides = None,
     sa_enable_tracing = False, sa_host = ''127.0.0.1'', sa_port = 8000, sa_allow_credentials = False,
     sa_allow_origins = JList [JStr ''*''], sa_allow_methods = JList [JStr ''*''],
     sa_allow_headers = JList [JStr ''*'']\<rparr>"

definition choice_option :: "string \<Rightarrow> string list \<Rightarrow> (string \<Rightarrow> 's \<Rightarrow> 's) \<Rightarrow> 's opt_action" where
  "choice_option name choices f = one_option name (\<lambda>v s. res_bind (check_choice choices v) (\<lambda>v. Inr (f v s)))"

definition serve_parser :: "(string \<Rightarrow> json res) \<Rightarrow> serve_args arg_parser" where
  "serve_parser loads = \<lparr>ap_options =
     [text_option ''--device'' (\<lambda>x s. s\<lparr>sa_device := the x\<rparr>),
      text_option ''--model-lib'' (\<lambda>x s. s\<lparr>sa_model_lib := x\<rparr>),
      choice_option ''--mode'' [''local'', ''interactive'', ''server''] (\<lambda>v s. s\<lparr>sa_mode := v\<rparr>),
      flag_option ''--enable-debug'' (\<lambda>s. s\<lparr>sa_enable_debug := True\<rparr>),
      many_option ''--additional-models'' (\<lambda>vs s. Inr (s\<lparr>sa_additional_models := Some vs\<rparr>)),
      choice_option ''--speculative-mode'' [''disable'', ''small_draft'', ''eagle'', ''medusa'']
        (\<lambda>v s. s\<lparr>sa_speculative_mode := v\<rparr>),
      choice_option ''--prefix-cache-mode'' [''disable'', ''radix''] (\<lambda>v s. s\<lparr>sa_prefix_cache_mode := v\<rparr>),
      choice_option ''--prefill-mode'' [''hybrid'', ''chunked''] (\<lambda>v s. s\<lparr>sa_prefill_mode := v\<rparr>),
      one_option ''--overrides'' (\<lambda>v s.
        res_bind (arg_type engine_overrides_from_str v) (\<lambda>r. Inr (s\<lparr>sa_overrides := Some r\<rparr>))),
      flag_option ''--enable-tracing'' (\<lambda>s. s\<lparr>sa_enable_tracing := True\<rparr>),
      text_option ''--host'' (\<lambda>x s. s\<lparr>sa_host := the x\<rparr>),
      int_option ''--port'' (\<lambda>x s. s\<lparr>sa_port := the x\<rparr>),
      flag_option ''--allow-credentials'' (\<lambda>s. s\<lparr>sa_allow_credentials := True\<rparr>),
      one_option ''--allow-origins'' (\<lambda>v s. res_bind (arg_type loads v) (\<lambda>j. Inr (s\<lparr>sa_allow_origins := j\<rparr>))),
      one_option ''--allow-methods'' (\<lambda>v s. res_bind (arg_type loads v) (\<lambda>j. Inr (s\<lparr>sa_allow_methods := j\<rparr>))),
      one_option ''--allow-headers'' (\<lambda>v s. res_bind (arg_type loads v) (\<lambda>j. Inr (s\<lparr>sa_allow_headers := j\<rparr>)))],
     ap_positional = Some (\<lambda>v s. Inr (s\<lparr>sa_model := v\<rparr>))\<rparr>"

text \<open>\<open>additional_model.split(",", maxsplit=1)\<close>\<close>

definition additional_model_of :: "string \<Rightarrow> additional_model" where
  "additional_model_of s =
     (case split_once CHR '','' s of (a, Some b) \<Rightarrow> ModelWithLib a b | (a, None) \<Rightarrow> ModelOnly a)"

fun mode_name :: "engine_mode \<Rightarrow> string" where
  "mode_name Local = ''local''"
| "mode_name Interactive = ''interactive''"
| "mode_name Server = ''server''"

definition mode_of :: "string \<Rightarrow> engine_mode res" where
  "mode_of s = dict_get [(''local'', Local), (''interactive'', Interactive), (''server'', Server)] s"

fun speculative_mode_name :: "speculative_mode \<Rightarrow> string" where
  "speculative_mode_name SpecDisable = ''disable''"
| "speculative_mode_name SmallDraft = ''small_draft''"
| "speculative_mode_name Eagle = ''eagle''"
| "speculative_mode_name Medusa = ''medusa''"

definition speculative_mode_of :: "string \<Rightarrow> speculative_mode res" where
  "speculative_mode_of s =
     dict_get [(''disable'', SpecDisable), (''small_draft'', SmallDraft), (''eagle'', Eagle), (''medusa'', Medusa)] s"

fun prefix_cache_mode_name :: "prefix_cache_mode \<Rightarrow> string" where
  "prefix_cache_mode_name PrefixDisable = ''disable''"
| "prefix_cache_mode_name PrefixRadix = ''radix''"

definition prefix_cache_mode_of :: "string \<Rightarrow> prefix_cache_mode res" where
  "prefix_cache_mode_of s = dict_get [(''disable'', PrefixDisable), (''radix'', PrefixRadix)] s"

definition prefill_mode_of :: "string \<Rightarrow> prefill_mode res" where
  "prefill_mode_of s = dict_get [(''hybrid'', Hybrid), (''chunked'', Chunked)] s"

text \<open>The arguments of the engine and of the web application that \<open>serve\<close> creates.\<close>

record serve_call =
  sc_model :: string
  sc_device :: string
  sc_model_lib :: "string option"
  sc_mode :: engine_mode
  sc_engine_config :: engine_config
  sc_enable_tracing :: bool
  sc_enable_debug :: bool
  sc_host :: string
  sc_port :: int
  sc_allow_credentials :: bool
  sc_allow_origins :: json
  sc_allow_methods :: json
  sc_allow_headers :: json

definition serve_engine_config ::
  "serve_args \<Rightarrow> engine_overrides \<Rightarrow> speculative_mode \<Rightarrow> prefix_cache_mode \<Rightarrow> prefill_mode \<Rightarrow> engine_config" where
  "serve_engine_config args r spec cache prefill =
     EngineConfig\<lparr>ec_additional_models := (case sa_additional_models args of
         None \<Rightarrow> [] | Some ms \<Rightarrow> map additional_model_of ms),
       ec_tensor_parallel_shards := eo_tensor_parallel_shards r,
       ec_pipeline_parallel_stages := eo_pipeline_parallel_stages r, ec_opt := eo_opt r,
       ec_max_num_sequence := eo_max_num_sequence r, ec_max_total_sequence_length := eo_max_total_seq_length r,
       ec_max_single_sequence_length := eo_context_window_size r, ec_prefill_chunk_size := eo_prefill_chunk_size r,
       ec_sliding_window_size := eo_sliding_window_size r, ec_attention_sink_size := eo_attention_sink_size r,
       ec_max_history_size := eo_max_history_size r, ec_gpu_memory_utilization := eo_gpu_memory_utilization r,
       ec_speculative_mode := spec, ec_spec_draft_length := eo_spec_draft_length r,
       ec_spec_tree_width := eo_spec_tree_width r, ec_prefix_cache_mode := cache,
       ec_prefix_cache_max_num_recycling_seqs := eo_prefix_cache_max_num_recycling_seqs r,
       ec_prefill_mode := prefill\<rparr>"

definition serve_main :: "(string \<Rightarrow> json res) \<Rightarrow> string list \<Rightarrow> serve_call res" where
  "serve_main loads argv =
     res_bind (parse_args (serve_parser loads) serve_defaults argv) (\<lambda>args.
     res_bind (case sa_overrides args of None \<Rightarrow> engine_overrides_from_str [] | Some r \<Rightarrow> Inr r) (\<lambda>r.
     res_bind (mode_of (sa_mode args)) (\<lambda>mode.
     res_bind (speculative_mode_of (sa_speculative_mode args)) (\<lambda>spec.
     res_bind (prefix_cache_mode_of (sa_prefix_cache_mode args)) (\<lambda>cache.
     res_bind (prefill_mode_of (sa_prefill_mode args)) (\<lambda>prefill.
       Inr \<lparr>sc_model = sa_model args, sc_device = sa_device args, sc_model_lib = sa_model_lib args, sc_mode = mode,
         sc_engine_config = serve_engine_config args r spec cache prefill,
         sc_enable_tracing = sa_enable_tracing args, sc_enable_debug = sa_enable_debug args,
         sc_host = sa_host args, sc_port = sa_port args, sc_allow_credentials = sa_allow_credentials args,
         sc_allow_origins = sa_allow_origins args, sc_allow_methods = sa_allow_methods args,
         sc_allow_headers = sa_allow_headers args\<rparr>))))))"

section \<open>\_\_main\_\_.py\<close>

definition subcommands :: "string list" where
  "subcommands = [''compile'', ''convert_weight'', ''gen_config'', ''chat'', ''serve'', ''package'', ''calibrate'', ''router'']"

definition subcommand_parser :: "string arg_parser" where
  "subcommand_parser = \<lparr>ap_options = [], ap_positional = Some (\<lambda>v _. check_choice subcommands v)\<rparr>"

text \<open>The command and the arguments its own \<open>main\<close> is called with.\<close>

definition mlc_llm_main :: "string list \<Rightarrow> (string \<times> string list) res" where
  "mlc_llm_main argv =
     res_bind (parse_args subcommand_parser [] (take 1 argv)) (\<lambda>subcommand.
       if subcommand \<in> set subcommands then Inr (subcommand, drop 1 argv)
       else Inl (ValueError (''Unknown subcommand '' @ subcommand)))"

text \<open>
  Overrides in which every field is given, and whose texts survive the format: no semicolon, and the last one
  without white space at its end.
\<close>

definition full_engine_overrides :: "(py_float \<Rightarrow> string) \<Rightarrow> engine_overrides \<Rightarrow> bool" where
  "full_engine_overrides frepr r \<longleftrightarrow>
     eo_max_num_sequence r \<noteq> None \<and> eo_max_total_seq_length r \<noteq> None \<and> eo_prefill_chunk_size r \<noteq> None
     \<and> eo_max_history_size r \<noteq> None \<and> eo_spec_draft_length r \<noteq> None \<and> eo_spec_tree_width r \<noteq> None
     \<and> eo_prefix_cache_max_num_recycling_seqs r \<noteq> None \<and> eo_context_window_size r \<noteq> None
     \<and> eo_sliding_window_size r \<noteq> None \<and> eo_attention_sink_size r \<noteq> None
     \<and> eo_tensor_parallel_shards r \<noteq> None \<and> eo_pipeline_parallel_stages r \<noteq> None
     \<and> (case eo_gpu_memory_utilization r of None \<Rightarrow> False
        | Some x \<Rightarrow> float_of_str (frepr x) = Inr x \<and> CHR '';'' \<notin> set (frepr x))
     \<and> (case eo_prefix_cache_mode r of None \<Rightarrow> False | Some s \<Rightarrow> CHR '';'' \<notin> set s)
     \<and> (case eo_prefill_mode r of None \<Rightarrow> False | Some s \<Rightarrow> CHR '';'' \<notin> set s)
     \<and> (case eo_opt r of None \<Rightarrow> False | Some s \<Rightarrow> CHR '';'' \<notin> set s \<and> s \<noteq> [] \<and> \<not> str_space (last s))"

definition sample_engine_overrides :: engine_overrides where
  "sample_engine_overrides = \<lparr>eo_max_num_sequence = Some 8, eo_max_total_seq_length = Some 4096,
     eo_prefill_chunk_size = Some 2048, eo_max_history_size = Some 0, eo_gpu_memory_utilization = Some PosInf,
     eo_spec_draft_length = Some 4, eo_spec_tree_width = Some 1, eo_prefix_cache_mode = Some ''radix'',
     eo_prefix_cache_max_num_recycling_seqs = Some (-1), eo_prefill_mode = Some ''hybrid'', eo_context_window_size = Some 4096,
     eo_sliding_window_size = Some (-1), eo_attention_sink_size = Some 4, eo_tensor_parallel_shards = Some 2,
     eo_pipeline_parallel_stages = Some 1, eo_opt = Some ''O2''\<rparr>"

section \<open>Lemmas\<close>

lemmas engine_option_defs = store_of_def engine_overrides_parser_def option_defs text_option_def

lemma engine_overrides_equals: "equals_free engine_overrides_parser"
  by (simp add: equals_free_def engine_option_defs)

lemma engine_overrides_positional: "ap_positional engine_overrides_parser = None"
  by (simp add: engine_overrides_parser_def)

lemma serve_options:
  "map_of (option_table (serve_parser loads)) ''--device'' = Some (text_option ''--device'' (\<lambda>x s. s\<lparr>sa_device := the x\<rparr>))"
  "map_of (option_table (serve_parser loads)) ''--model-lib'' = Some (text_option ''--model-lib'' (\<lambda>x s. s\<lparr>sa_model_lib := x\<rparr>))"
  "map_of (option_table (serve_parser loads)) ''--mode'' = Some (choice_option ''--mode''
     [''local'', ''interactive'', ''server''] (\<lambda>v s. s\<lparr>sa_mode := v\<rparr>))"
  "map_of (option_table (serve_parser loads)) ''--enable-debug'' = Some (flag_option ''--enable-debug'' (\<lambda>s. s\<lparr>sa_enable_debug := True\<rparr>))"
  "map_of (option_table (serve_parser loads)) ''--additional-models''
     = Some (many_option ''--additional-models'' (\<lambda>vs s. Inr (s\<lparr>sa_additional_models := Some vs\<rparr>)))"
  "map_of (option_table (serve_parser loads)) ''--speculative-mode'' = Some (choice_option ''--speculative-mode''
     [''disable'', ''small_draft'', ''eagle'', ''medusa''] (\<lambda>v s. s\<lparr>sa_speculative_mode := v\<rparr>))"
  "map_of (option_table (serve_parser loads)) ''--prefix-cache-mode'' = Some (choice_option ''--prefix-cache-mode''
     [''disable'', ''radix''] (\<lambda>v s. s\<lparr>sa_prefix_cache_mode := v\<rparr>))"
  "map_of (option_table (serve_parser loads)) ''--overrides'' = Some (one_option ''--overrides'' (\<lambda>v s.
        res_bind (arg_type engine_overrides_from_str v) (\<lambda>r. Inr (s\<lparr>sa_overrides := Some r\<rparr>))))"
  "map_of (option_table (serve_parser loads)) ''--enable-tracing'' = Some (flag_option ''--enable-tracing'' (\<lambda>s. s\<lparr>sa_enable_tracing := True\<rparr>))"
  "map_of (option_table (serve_parser loads)) ''--host'' = Some (text_option ''--host'' (\<lambda>x s. s\<lparr>sa_host := the x\<rparr>))"
  "map_of (option_table (serve_parser loads)) ''--port'' = Some (int_option ''--port'' (\<lambda>x s. s\<lparr>sa_port := the x\<rparr>))"
  by (simp_all add: serve_parser_def option_defs text_option_def choice_option_def)

lemma str_of_int_plain: "0 \<le> i \<Longrightarrow> plain_arg (str_of_int i)"
  using digits_of_nat_chars [of "hd (digits_of_nat (nat i))" "nat i"]
  by (auto simp: plain_arg_def str_of_int_def digit_val_def)

lemma mode_names:
  "plain_arg (mode_name m)" "mode_name m \<in> set [''local'', ''interactive'', ''server'']" "mode_of (mode_name m) = Inr m"
  by (cases m; simp add: plain_arg_def mode_of_def dict_get_def)+

lemma speculative_mode_names:
  "plain_arg (speculative_mode_name m)"
  "speculative_mode_name m \<in> set [''disable'', ''small_draft'', ''eagle'', ''medusa'']"
  "speculative_mode_of (speculative_mode_name m) = Inr m"
  by (cases m; simp add: plain_arg_def speculative_mode_of_def dict_get_def)+

lemma prefix_cache_mode_names:
  "plain_arg (prefix_cache_mode_name m)" "prefix_cache_mode_name m \<in> set [''disable'', ''radix'']"
  "prefix_cache_mode_of (prefix_cache_mode_name m) = Inr m"
  by (cases m; simp add: plain_arg_def prefix_cache_mode_of_def dict_get_def)+

lemma serve_segments:
  "plain_arg v \<Longrightarrow> segment (serve_parser loads) [''--device'', v] (\<lambda>s. Inr (s\<lparr>sa_device := v\<rparr>))"
  "plain_arg v \<Longrightarrow> segment (serve_parser loads) [''--model-lib'', v] (\<lambda>s. Inr (s\<lparr>sa_model_lib := Some v\<rparr>))"
  "segment (serve_parser loads) [''--mode'', mode_name m] (\<lambda>s. Inr (s\<lparr>sa_mode := mode_name m\<rparr>))"
  "segment (serve_parser loads) [''--enable-debug''] (\<lambda>s. Inr (s\<lparr>sa_enable_debug := True\<rparr>))"
  "list_all plain_arg vs \<Longrightarrow> segment (serve_parser loads) (''--additional-models'' # vs) (\<lambda>s. Inr (s\<lparr>sa_additional_models := Some vs\<rparr>))"
  "segment (serve_parser loads) [''--speculative-mode'', speculative_mode_name sm]
     (\<lambda>s. Inr (s\<lparr>sa_speculative_mode := speculative_mode_name sm\<rparr>))"
  "segment (serve_parser loads) [''--prefix-cache-mode'', prefix_cache_mode_name pm]
     (\<lambda>s. Inr (s\<lparr>sa_prefix_cache_mode := prefix_cache_mode_name pm\<rparr>))"
  "plain_arg v \<Longrightarrow> engine_overrides_from_str v = Inr r \<Longrightarrow>
     segment (serve_parser loads) [''--overrides'', v] (\<lambda>s. Inr (s\<lparr>sa_overrides := Some r\<rparr>))"
  "segment (serve_parser loads) [''--enable-tracing''] (\<lambda>s. Inr (s\<lparr>sa_enable_tracing := True\<rparr>))"
  "plain_arg v \<Longrightarrow> segment (serve_parser loads) [''--host'', v] (\<lambda>s. Inr (s\<lparr>sa_host := v\<rparr>))"
  "0 \<le> i \<Longrightarrow> segment (serve_parser loads) [''--port'', str_of_int i] (\<lambda>s. Inr (s\<lparr>sa_port := i\<rparr>))"
proof -
  note one = segment_one_eq and d = text_option_def choice_option_def option_defs
  show "plain_arg v \<Longrightarrow> segment (serve_parser loads) [''--device'', v] (\<lambda>s. Inr (s\<lparr>sa_device := v\<rparr>))"
    by (rule one [OF serve_options(1)]) (simp_all add: d)
  show "plain_arg v \<Longrightarrow> segment (serve_parser loads) [''--model-lib'', v] (\<lambda>s. Inr (s\<lparr>sa_model_lib := Some v\<rparr>))"
    by (rule one [OF serve_options(2)]) (simp_all add: d)
  show "segment (serve_parser loads) [''--mode'', mode_name m] (\<lambda>s. Inr (s\<lparr>sa_mode := mode_name m\<rparr>))"
    using mode_names [of m] by (intro one [OF serve_options(3)]) (simp_all add: d check_choice_def)
  show "segment (serve_parser loads) [''--enable-debug''] (\<lambda>s. Inr (s\<lparr>sa_enable_debug := True\<rparr>))"
    using segment_flag [OF serve_options(4) [of loads]] by (simp add: d)
  show "list_all plain_arg vs \<Longrightarrow> segment (serve_parser loads) (''--additional-models'' # vs) (\<lambda>s. Inr (s\<lparr>sa_additional_models := Some vs\<rparr>))"
    using segment_many [OF serve_options(5) [of loads], of vs] by (simp add: d)
  show "segment (serve_parser loads) [''--speculative-mode'', speculative_mode_name sm]
     (\<lambda>s. Inr (s\<lparr>sa_speculative_mode := speculative_mode_name sm\<rparr>))"
    using speculative_mode_names [of sm] by (intro one [OF serve_options(6)]) (simp_all add: d check_choice_def)
  show "segment (serve_parser loads) [''--prefix-cache-mode'', prefix_cache_mode_name pm]
     (\<lambda>s. Inr (s\<lparr>sa_prefix_cache_mode := prefix_cache_mode_name pm\<rparr>))"
    using prefix_cache_mode_names [of pm] by (intro one [OF serve_options(7)]) (simp_all add: d check_choice_def)
  show "plain_arg v \<Longrightarrow> engine_overrides_from_str v = Inr r \<Longrightarrow>
     segment (serve_parser loads) [''--overrides'', v] (\<lambda>s. Inr (s\<lparr>sa_overrides := Some r\<rparr>))"
    by (rule one [OF serve_options(8)]) (simp_all add: d arg_type_def)
  show "segment (serve_parser loads) [''--enable-tracing''] (\<lambda>s. Inr (s\<lparr>sa_enable_tracing := True\<rparr>))"
    using segment_flag [OF serve_options(9) [of loads]] by (simp add: d)
  show "plain_arg v \<Longrightarrow> segment (serve_parser loads) [''--host'', v] (\<lambda>s. Inr (s\<lparr>sa_host := v\<rparr>))"
    by (rule one [OF serve_options(10)]) (simp_all add: d)
  show "0 \<le> i \<Longrightarrow> segment (serve_parser loads) [''--port'', str_of_int i] (\<lambda>s. Inr (s\<lparr>sa_port := i\<rparr>))"
    by (rule one [OF serve_options(11)]) (simp_all add: d str_of_int_plain)
qed

lemma mlc_llm_main_serve: "mlc_llm_main (''serve'' # argv) = Inr (''serve'', argv)"
  by (simp add: mlc_llm_main_def parse_args_def subcommand_parser_def subcommands_def option_table_def help_action_def
      check_choice_def parse_optional_def)

lemma engine_overrides_known:
  "full_engine_overrides frepr r \<Longrightarrow> list_all (known_pair engine_overrides_parser) (engine_overrides_fields frepr r)"
  by (auto simp: full_engine_overrides_def engine_overrides_fields_def known_pair_def engine_option_defs split: option.splits)

lemma engine_overrides_stores:
  assumes "full_engine_overrides frepr r"
  shows "res_fold (\<lambda>s (k, v). store_of engine_overrides_parser k v s) engine_overrides_defaults (engine_overrides_fields frepr r)
    = Inr r"
proof -
  obtain a b c d e f g h i j k l where ints:
    "eo_max_num_sequence r = Some a" "eo_max_total_seq_length r = Some b" "eo_prefill_chunk_size r = Some c"
    "eo_max_history_size r = Some d" "eo_spec_draft_length r = Some e" "eo_spec_tree_width r = Some f"
    "eo_prefix_cache_max_num_recycling_seqs r = Some g" "eo_context_window_size r = Some h"
    "eo_sliding_window_size r = Some i" "eo_attention_sink_size r = Some j"
    "eo_tensor_parallel_shards r = Some k" "eo_pipeline_parallel_stages r = Some l"
    using assms unfolding full_engine_overrides_def not_None_eq by blast
  obtain x s t u where others: "eo_gpu_memory_utilization r = Some x" "eo_prefix_cache_mode r = Some s"
    "eo_prefill_mode r = Some t" "eo_opt r = Some u" and x: "float_of_str (frepr x) = Inr x"
    using assms unfolding full_engine_overrides_def by (auto split: option.splits)
  from ints others x show ?thesis
    by (cases r) (simp add: engine_overrides_fields_def engine_option_defs engine_overrides_defaults_def
        EngineConfigOverride_def show_opt_int_def arg_type_def)
qed

interpretation engine_format: override_format engine_overrides_parser engine_overrides_defaults
  "engine_overrides_fields frepr" "\<lambda>r. r" "full_engine_overrides frepr" for frepr
  by unfold_locales
    (use engine_overrides_equals engine_overrides_positional engine_overrides_known engine_overrides_stores in blast)+

section \<open>Properties\<close>

text \<open>The printed form of engine overrides reads back as the same overrides when every field is given and
  the texts contain no semicolon; \<open>None\<close> is printed as a word that no number reads.\<close>

theorem engine_overrides_roundtrip:
  assumes "full_engine_overrides frepr r"
  shows "engine_overrides_from_str (engine_overrides_repr frepr r) = Inr r"
proof -
  obtain u where u: "eo_opt r = Some u" "u \<noteq> []" "\<not> str_space (last u)"
    using assms by (auto simp: full_engine_overrides_def split: option.splits)
  then have "engine_overrides_repr frepr r = show_overrides (engine_overrides_fields frepr r)"
    unfolding engine_overrides_repr_def
    using show_overrides_rstrip [OF u(2,3), of "butlast (engine_overrides_fields frepr r)" "''opt''"]
    by (simp add: engine_overrides_fields_def)
  then show ?thesis using engine_format.round_trip [OF assms] by (simp add: engine_overrides_from_str_def)
qed

theorem engine_overrides_roundtrip_witness:
  "engine_overrides_from_str (engine_overrides_repr (\<lambda>_. ''inf'') sample_engine_overrides) = Inr sample_engine_overrides"
proof -
  have "float_of_str ''inf'' = Inr PosInf" by code_simp
  then have "full_engine_overrides (\<lambda>_. ''inf'') sample_engine_overrides"
    by (simp add: full_engine_overrides_def sample_engine_overrides_def str_space_def is_space_def)
  then show ?thesis by (rule engine_overrides_roundtrip)
qed

end
