(* ===== verification/Popen_Server.thy ===== *)
theory Popen_Server
  imports Cli_Serve
begin

text \<open>
  The server in a subprocess, \<open>python/mlc_llm/serve/server/popen\_server.py\<close>: the command line that \<open>start\<close> writes, the
  wait until the server answers, and \<open>terminate\<close>. The printed form of a float and the answers of the network are
  parameters. The properties read the command line back with the parser of \<open>Cli_Serve\<close>, and follow the sum of the
  floating-point steps of the wait through its 1201 values.
\<close>

section \<open>serve/server/popen\_server.py\<close>

text \<open>
  The device is given by its name and the mode by one of its three values. The annotation of the device
  also allows a \<open>Device\<close> object, which cannot be an element of a command line: \<open>subprocess.Popen\<close> then raises
  a \<open>TypeError\<close> before anything else is done, so that no server of that kind ever starts.
\<close>

record popen_server =
  ps_model :: string
  ps_model_lib :: "string option"
  ps_device :: string
  ps_mode :: engine_mode
  ps_engine_config :: engine_config
  ps_enable_tracing :: bool
  ps_enable_debug :: bool
  ps_host :: string
  ps_port :: int
  ps_proc :: "string list option"
  ps_base_url :: string
  ps_openai_v1_base_url :: string

definition PopenServer ::
  "string \<Rightarrow> string \<Rightarrow> string option \<Rightarrow> engine_mode \<Rightarrow> engine_config option \<Rightarrow> bool \<Rightarrow> bool \<Rightarrow> string \<Rightarrow> int
     \<Rightarrow> popen_server res" where
  "PopenServer model device model_lib mode engine_config enable_debug enable_tracing host port =
     (let ec = (case engine_config of None \<Rightarrow> EngineConfig | Some c \<Rightarrow> c)
      in res_bind (check_engine_config model model_lib mode ec) (\<lambda>_.
           Inr \<lparr>ps_model = model, ps_model_lib = model_lib, ps_device = device, ps_mode = mode,
             ps_engine_config = ec, ps_enable_tracing = enable_tracing, ps_enable_debug = enable_debug,
             ps_host = host, ps_port = port, ps_proc = None, ps_base_url = [], ps_openai_v1_base_url = []\<rparr>))"

fun additional_model_arg :: "additional_model \<Rightarrow> string" where
  "additional_model_arg (ModelOnly m) = m"
| "additional_model_arg (ModelWithLib m l) = m @ '','' @ l"

definition opt_pair :: "string \<Rightarrow> ('a \<Rightarrow> string) \<Rightarrow> 'a option \<Rightarrow> (string \<times> string) list" where
  "opt_pair k f x = (case x of None \<Rightarrow> [] | Some v \<Rightarrow> [(k, f v)])"

definition popen_overrides :: "(py_float \<Rightarrow> string) \<Rightarrow> engine_config \<Rightarrow> (string \<times> string) list" where
  "popen_overrides frepr ec =
     opt_pair ''max_num_sequence'' str_of_int (ec_max_num_sequence ec)
     @ opt_pair ''max_total_seq_length'' str_of_int (ec_max_total_sequence_length ec)
     @ opt_pair ''prefill_chunk_size'' str_of_int (ec_prefill_chunk_size ec)
     @ opt_pair ''max_history_size'' str_of_int (ec_max_history_size ec)
     @ opt_pair ''gpu_memory_utilization'' frepr (ec_gpu_memory_utilization ec)
     @ opt_pair ''spec_draft_length'' str_of_int (ec_spec_draft_length ec)
     @ opt_pair ''prefix_cache_max_num_recycling_seqs'' str_of_int (ec_prefix_cache_max_num_recycling_seqs ec)"

definition popen_cmd :: "(py_float \<Rightarrow> string) \<Rightarrow> string \<Rightarrow> popen_server \<Rightarrow> string list" where
  "popen_cmd frepr executable p =
     (let ec = ps_engine_config p; args_overrides = popen_overrides frepr ec
      in [executable] @ [''-m'', ''mlc_llm'', ''serve'', ps_model p]
         @ (case ps_model_lib p of None \<Rightarrow> [] | Some l \<Rightarrow> [''--model-lib'', l])
         @ [''--device'', ps_device p]
         @ (if ps_enable_debug p then [''--enable-debug''] else [])
         @ [''--mode'', mode_name (ps_mode p)]
         @ (if ec_additional_models ec \<noteq> [] then ''--additional-models'' # map additional_model_arg (ec_additional_models ec)
            else [])
         @ [''--speculative-mode'', speculative_mode_name (ec_speculative_mode ec)]
         @ [''--prefix-cache-mode'', prefix_cache_mode_name (ec_prefix_cache_mode ec)]
         @ (if args_overrides \<noteq> [] then [''--overrides'', show_overrides args_overrides] else [])
         @ (if ps_enable_tracing p then [''--enable-tracing''] else [])
         @ (if ps_enable_debug p then [''--enable-debug''] else [])
         @ [''--host'', ps_host p]
         @ [''--port'', str_of_int (ps_port p)])"

text \<open>
  The wait for the server. The world answers the \<open>n\<close>-th query: \<open>True\<close> for the status 200, \<open>False\<close>
  for another status or an exception. The result is the number of queries made, whether one was
  answered, and the last value of \<open>attempts\<close>; \<open>None\<close> is a loop that never ends.
\<close>

definition wait_step :: py_float where
  "wait_step = round_float (1 / 10)"

definition wait_timeout :: rat where
  "wait_timeout = 120"

definition below_timeout :: "py_float \<Rightarrow> bool" where
  "below_timeout x = (case x of Finite a \<Rightarrow> a < wait_timeout | NegInf \<Rightarrow> True | _ \<Rightarrow> False)"

partial_function (option) wait_ready ::
  "(nat \<Rightarrow> bool) \<Rightarrow> nat \<Rightarrow> py_float \<Rightarrow> (nat \<times> bool \<times> py_float) option" where
  "wait_ready answers n attempts =
     (if \<not> below_timeout attempts then Some (n, False, attempts)
      else if answers n then Some (Suc n, True, attempts)
      else wait_ready answers (Suc n) (float_add attempts wait_step))"

text \<open>\<open>terminate\<close>: the processes are killed and joined; whatever fails there is ignored.\<close>

definition popen_terminate :: "popen_server \<Rightarrow> popen_server" where
  "popen_terminate p = (if ps_proc p = None then p else p\<lparr>ps_proc := None\<rparr>)"

text \<open>
  \<open>exited\<close> is what \<open>poll()\<close> gives after the wait. The result is the outcome, the object afterwards and the
  number of queries; \<open>None\<close> when the wait never ends.
\<close>

definition popen_start ::
  "(py_float \<Rightarrow> string) \<Rightarrow> string \<Rightarrow> (nat \<Rightarrow> bool) \<Rightarrow> int option \<Rightarrow> popen_server
     \<Rightarrow> (unit res \<times> popen_server \<times> nat) option" where
  "popen_start frepr executable answers exited p =
     (let base_url = ''http://'' @ ps_host p @ '':'' @ str_of_int (ps_port p);
          p = p\<lparr>ps_proc := Some (popen_cmd frepr executable p), ps_base_url := base_url,
                ps_openai_v1_base_url := base_url @ ''/v1''\<rparr>
      in map_option (\<lambda>(n, _, attempts).
           if exited \<noteq> None
           then (Inl (RuntimeError (''The server fails to launch. Please check if '' @ [CHR 0x22] @ ps_model p @ [CHR 0x22]
                 @ '' is a valid model compiled by MLC LLM.'')), p, n)
           else if attempts = Finite wait_timeout
           then (Inl (RuntimeError ''The server fails to launch in 120 seconds.''), popen_terminate p, n)
           else (Inr (), p, n)) (wait_ready answers 0 (Finite 0)))"

section \<open>What reaches the server\<close>

text \<open>What is relied on of the printed form of a float: it reads back, and it contains no semicolon.\<close>

definition float_text_ok :: "(py_float \<Rightarrow> string) \<Rightarrow> engine_config \<Rightarrow> bool" where
  "float_text_ok frepr ec = (case ec_gpu_memory_utilization ec of
     None \<Rightarrow> True | Some x \<Rightarrow> float_of_str (frepr x) = Inr x \<and> CHR '';'' \<notin> set (frepr x))"

text \<open>What reaches the engine of the configuration.\<close>

definition transmitted :: "engine_config \<Rightarrow> engine_config" where
  "transmitted ec = ec\<lparr>ec_model := None, ec_model_lib := None, ec_mode := None, ec_tensor_parallel_shards := None,
     ec_pipeline_parallel_stages := None, ec_opt := None, ec_kv_cache_page_size := 16,
     ec_max_single_sequence_length := None, ec_sliding_window_size := None, ec_attention_sink_size := None,
     ec_kv_state_kind := None, ec_spec_tree_width := None, ec_prefill_mode := Hybrid, ec_verbose := True\<rparr>"

definition overrides_read :: "engine_config \<Rightarrow> engine_overrides" where
  "overrides_read ec = engine_overrides_defaults\<lparr>eo_max_num_sequence := ec_max_num_sequence ec,
     eo_max_total_seq_length := ec_max_total_sequence_length ec, eo_prefill_chunk_size := ec_prefill_chunk_size ec,
     eo_max_history_size := ec_max_history_size ec, eo_gpu_memory_utilization := ec_gpu_memory_utilization ec,
     eo_spec_draft_length := ec_spec_draft_length ec,
     eo_prefix_cache_max_num_recycling_seqs := ec_prefix_cache_max_num_recycling_seqs ec\<rparr>"

definition plain_server :: "popen_server \<Rightarrow> bool" where
  "plain_server p \<longleftrightarrow> plain_arg (ps_model p) \<and> plain_arg (ps_device p) \<and> plain_arg (ps_host p) \<and> 0 \<le> ps_port p
     \<and> (case ps_model_lib p of None \<Rightarrow> True | Some l \<Rightarrow> plain_arg l)
     \<and> list_all (\<lambda>a. plain_arg (additional_model_arg a) \<and>
          (case a of ModelOnly m \<Rightarrow> CHR '','' \<notin> set m | ModelWithLib m _ \<Rightarrow> CHR '','' \<notin> set m))
         (ec_additional_models (ps_engine_config p))"

text \<open>The namespace that the command line of the server gives.\<close>

definition parsed_args :: "(py_float \<Rightarrow> string) \<Rightarrow> popen_server \<Rightarrow> serve_args" where
  "parsed_args frepr p = (let ec = ps_engine_config p in
     serve_defaults\<lparr>sa_model := ps_model p, sa_device := ps_device p, sa_model_lib := ps_model_lib p,
       sa_mode := mode_name (ps_mode p), sa_enable_debug := ps_enable_debug p,
       sa_additional_models := (if ec_additional_models ec \<noteq> [] then Some (map additional_model_arg (ec_additional_models ec)) else None),
       sa_speculative_mode := speculative_mode_name (ec_speculative_mode ec),
       sa_prefix_cache_mode := prefix_cache_mode_name (ec_prefix_cache_mode ec),
       sa_overrides := (if popen_overrides frepr ec \<noteq> [] then Some (overrides_read ec) else None),
       sa_enable_tracing := ps_enable_tracing p, sa_host := ps_host p, sa_port := ps_port p\<rparr>)"

definition sample_popen :: popen_server where
  "sample_popen = \<lparr>ps_model = ''HF://llama'', ps_model_lib = Some ''llama.so'', ps_device = ''cuda:0'', ps_mode = Server,
     ps_engine_config = EngineConfig\<lparr>ec_additional_models := [ModelOnly ''draft'', ModelWithLib ''eagle'' ''eagle.so''],
       ec_speculative_mode := Eagle, ec_max_num_sequence := Some 8, ec_gpu_memory_utilization := Some (Finite (1 / 2)),
       ec_spec_tree_width := Some 3, ec_opt := Some ''O3''\<rparr>,
     ps_enable_tracing = False, ps_enable_debug = True, ps_host = ''127.0.0.1'', ps_port = 8082, ps_proc = None,
     ps_base_url = [], ps_openai_v1_base_url = []\<rparr>"

text \<open>Rounding an integer to a multiple of a power of two.\<close>

definition int_round :: "nat \<Rightarrow> int \<Rightarrow> int" where
  "int_round j S = (let q = S div 2 ^ j; r = S mod 2 ^ j
     in if 2 * r < 2 ^ j \<or> (2 * r = 2 ^ j \<and> even q) then q else q + 1)"

text \<open>The value of \<open>attempts\<close> after \<open>n\<close> failed queries, as a multiple of \<open>2\<^sup>-\<^sup>5\<^sup>6\<close>.\<close>

definition attempts_after :: "nat \<Rightarrow> py_float" where
  "attempts_after n = ((\<lambda>x. float_add x wait_step) ^^ n) (Finite 0)"

definition wait_reached :: "nat \<Rightarrow> int \<Rightarrow> bool" where
  "wait_reached n A \<longleftrightarrow> attempts_after n = Finite (of_int A / 2 ^ 56) \<and> (\<forall>i \<le> n. below_timeout (attempts_after i))"

abbreviation tenth :: int where
  "tenth \<equiv> 7205759403792794"

section \<open>Lemmas\<close>

lemma res_fold_opt_pair:
  assumes "\<And>v s. x = Some v \<Longrightarrow> F s (k, f v) = Inr (upd (Some v) s)" and "upd None s = s"
  shows "res_fold F s (opt_pair k f x @ r) = res_fold F (upd x s) r"
  using assms by (cases x) (simp_all add: opt_pair_def)

lemma res_fold_opt_pair_last:
  assumes "\<And>v s. x = Some v \<Longrightarrow> F s (k, f v) = Inr (upd (Some v) s)" and "upd None s = s"
  shows "res_fold F s (opt_pair k f x) = Inr (upd x s)"
  using assms by (cases x) (simp_all add: opt_pair_def)

lemma popen_overrides_known:
  assumes "float_text_ok frepr ec"
  shows "list_all (known_pair engine_overrides_parser) (popen_overrides frepr ec)"
proof -
  have "list_all (known_pair engine_overrides_parser) (opt_pair k str_of_int x)"
    if "k \<in> {''max_num_sequence'', ''max_total_seq_length'', ''prefill_chunk_size'', ''max_history_size'',
      ''spec_draft_length'', ''prefix_cache_max_num_recycling_seqs''}" for k x
    using that by (cases x) (auto simp: opt_pair_def known_pair_def engine_option_defs)
  moreover have "list_all (known_pair engine_overrides_parser)
      (opt_pair ''gpu_memory_utilization'' frepr (ec_gpu_memory_utilization ec))"
    using assms by (auto simp: opt_pair_def known_pair_def engine_option_defs float_text_ok_def split: option.splits)
  ultimately show ?thesis by (simp add: popen_overrides_def)
qed

lemma popen_overrides_stores:
  assumes "float_text_ok frepr ec"
  shows "res_fold (\<lambda>s (k, v). store_of engine_overrides_parser k v s) engine_overrides_defaults (popen_overrides frepr ec)
    = Inr (overrides_read ec)"
proof -
  let ?F = "\<lambda>s (k, v). store_of engine_overrides_parser k v s"
  have ints: "?F s (''max_num_sequence'', str_of_int i) = Inr (s\<lparr>eo_max_num_sequence := Some i\<rparr>)"
    "?F s (''max_total_seq_length'', str_of_int i) = Inr (s\<lparr>eo_max_total_seq_length := Some i\<rparr>)"
    "?F s (''prefill_chunk_size'', str_of_int i) = Inr (s\<lparr>eo_prefill_chunk_size := Some i\<rparr>)"
    "?F s (''max_history_size'', str_of_int i) = Inr (s\<lparr>eo_max_history_size := Some i\<rparr>)"
    "?F s (''spec_draft_length'', str_of_int i) = Inr (s\<lparr>eo_spec_draft_length := Some i\<rparr>)"
    "?F s (''prefix_cache_max_num_recycling_seqs'', str_of_int i)
       = Inr (s\<lparr>eo_prefix_cache_max_num_recycling_seqs := Some i\<rparr>)" for s i
    by (simp_all add: engine_option_defs)
  have float: "?F s (''gpu_memory_utilization'', frepr x) = Inr (s\<lparr>eo_gpu_memory_utilization := Some x\<rparr>)"
    if "ec_gpu_memory_utilization ec = Some x" for s x
    using assms that by (simp add: engine_option_defs float_text_ok_def arg_type_def)
  note folds =
    res_fold_opt_pair [where F = ?F and upd = "\<lambda>x s. s\<lparr>eo_max_num_sequence := x\<rparr>", OF ints(1)]
    res_fold_opt_pair [where F = ?F and upd = "\<lambda>x s. s\<lparr>eo_max_total_seq_length := x\<rparr>", OF ints(2)]
    res_fold_opt_pair [where F = ?F and upd = "\<lambda>x s. s\<lparr>eo_prefill_chunk_size := x\<rparr>", OF ints(3)]
    res_fold_opt_pair [where F = ?F and upd = "\<lambda>x s. s\<lparr>eo_max_history_size := x\<rparr>", OF ints(4)]
    res_fold_opt_pair [where F = ?F and upd = "\<lambda>x s. s\<lparr>eo_gpu_memory_utilization := x\<rparr>", OF float]
    res_fold_opt_pair [where F = ?F and upd = "\<lambda>x s. s\<lparr>eo_spec_draft_length := x\<rparr>", OF ints(5)]
    res_fold_opt_pair_last [where F = ?F and upd = "\<lambda>x s. s\<lparr>eo_prefix_cache_max_num_recycling_seqs := x\<rparr>", OF ints(6)]
  show ?thesis unfolding popen_overrides_def
    by (simp add: folds overrides_read_def engine_overrides_defaults_def EngineConfigOverride_def)
qed

interpretation popen_format: override_format engine_overrides_parser engine_overrides_defaults "popen_overrides frepr"
  overrides_read "float_text_ok frepr" for frepr
  by unfold_locales (use engine_overrides_equals engine_overrides_positional popen_overrides_known popen_overrides_stores in blast)+

lemma show_overrides_plain:
  "kvs \<noteq> [] \<Longrightarrow> fst (hd kvs) \<noteq> [] \<Longrightarrow> hd (fst (hd kvs)) \<noteq> CHR ''-'' \<Longrightarrow> plain_arg (show_overrides kvs)"
  by (cases kvs; cases "tl kvs") (auto simp: show_overrides_def show_pair_def plain_arg_def hd_append)

lemma popen_overrides_plain: "popen_overrides frepr ec \<noteq> [] \<Longrightarrow> plain_arg (show_overrides (popen_overrides frepr ec))"
proof (rule show_overrides_plain)
  assume ne: "popen_overrides frepr ec \<noteq> []"
  have "fst kv \<noteq> [] \<and> hd (fst kv) \<noteq> CHR ''-''" if "kv \<in> set (popen_overrides frepr ec)" for kv
    using that by (auto simp: popen_overrides_def opt_pair_def split: option.splits)
  then show "fst (hd (popen_overrides frepr ec)) \<noteq> []" "hd (fst (hd (popen_overrides frepr ec))) \<noteq> CHR ''-''"
    using hd_in_set [OF ne] by blast+
qed

lemma additional_model_roundtrip:
  assumes "case a of ModelOnly m \<Rightarrow> CHR '','' \<notin> set m | ModelWithLib m _ \<Rightarrow> CHR '','' \<notin> set m"
  shows "additional_model_of (additional_model_arg a) = a"
  using assms by (cases a) (simp_all add: additional_model_of_def split_once_None split_once_Some)

lemma popen_parse_args:
  assumes "plain_server p" and "float_text_ok frepr (ps_engine_config p)"
  shows "parse_args (serve_parser loads) serve_defaults (drop 4 (popen_cmd frepr executable p)) = Inr (parsed_args frepr p)"
proof -
  let ?ec = "ps_engine_config p"
  have plain: "plain_arg (ps_model p)" "plain_arg (ps_device p)" "plain_arg (ps_host p)" "0 \<le> ps_port p"
    "list_all plain_arg (map additional_model_arg (ec_additional_models ?ec))"
    using assms(1) by (auto simp: plain_server_def list_all_iff)
  have lib: "segment (serve_parser loads) (case ps_model_lib p of None \<Rightarrow> [] | Some l \<Rightarrow> [''--model-lib'', l])
      (\<lambda>s. Inr (s\<lparr>sa_model_lib := (case ps_model_lib p of None \<Rightarrow> sa_model_lib s | Some l \<Rightarrow> Some l)\<rparr>))"
    using assms(1) serve_segments(2) segment_Nil by (auto simp: plain_server_def split: option.split)
  have ov: "engine_overrides_from_str (show_overrides (popen_overrides frepr ?ec)) = Inr (overrides_read ?ec)"
    unfolding engine_overrides_from_str_def using assms(2) by (rule popen_format.round_trip)
  have debug: "segment (serve_parser loads) (if ps_enable_debug p then [''--enable-debug''] else [])
      (\<lambda>s. Inr (s\<lparr>sa_enable_debug := ps_enable_debug p \<or> sa_enable_debug s\<rparr>))"
    by (rule segment_if [OF serve_segments(4)]) simp
  have tracing: "segment (serve_parser loads) (if ps_enable_tracing p then [''--enable-tracing''] else [])
      (\<lambda>s. Inr (s\<lparr>sa_enable_tracing := ps_enable_tracing p \<or> sa_enable_tracing s\<rparr>))"
    by (rule segment_if [OF serve_segments(9)]) simp
  have models: "segment (serve_parser loads)
      (if ec_additional_models ?ec \<noteq> [] then ''--additional-models'' # map additional_model_arg (ec_additional_models ?ec) else [])
      (\<lambda>s. Inr (s\<lparr>sa_additional_models := (if ec_additional_models ?ec \<noteq> []
          then Some (map additional_model_arg (ec_additional_models ?ec)) else sa_additional_models s)\<rparr>))"
    by (rule segment_if [OF serve_segments(5) [OF plain(5)]]) simp
  have overrides: "segment (serve_parser loads)
      (if popen_overrides frepr ?ec \<noteq> [] then [''--overrides'', show_overrides (popen_overrides frepr ?ec)] else [])
      (\<lambda>s. Inr (s\<lparr>sa_overrides := (if popen_overrides frepr ?ec \<noteq> [] then Some (overrides_read ?ec) else sa_overrides s)\<rparr>))"
    by (rule segment_if [OF serve_segments(8) [OF popen_overrides_plain ov]]) simp_all
  note seg = segment_pure_append [OF lib segment_pure_append [OF serve_segments(1) [OF plain(2)]
    segment_pure_append [OF debug segment_pure_append [OF serve_segments(3) [where m = "ps_mode p"]
    segment_pure_append [OF models segment_pure_append [OF serve_segments(6) [where sm = "ec_speculative_mode ?ec"]
    segment_pure_append [OF serve_segments(7) [where pm = "ec_prefix_cache_mode ?ec"] segment_pure_append [OF overrides
    segment_pure_append [OF tracing segment_pure_append [OF debug
    segment_pure_append [OF serve_segments(10) [OF plain(3)] serve_segments(11) [OF plain(4)]]]]]]]]]]]]
  have pos: "ap_positional (serve_parser loads) = Some (\<lambda>v s. Inr (s\<lparr>sa_model := v\<rparr>))" by (simp add: serve_parser_def)
  show ?thesis
    using parse_args_segment [where d = serve_defaults, OF pos plain(1) seg]
    by (simp add: popen_cmd_def Let_def parsed_args_def serve_defaults_def option.case_eq_if)
qed

lemma popen_command: "drop 3 (popen_cmd frepr executable p) = ''serve'' # drop 4 (popen_cmd frepr executable p)"
  by (simp add: popen_cmd_def Let_def)

lemma parsed_args_selectors:
  "sa_model (parsed_args frepr p) = ps_model p" "sa_device (parsed_args frepr p) = ps_device p"
  "sa_model_lib (parsed_args frepr p) = ps_model_lib p" "sa_mode (parsed_args frepr p) = mode_name (ps_mode p)"
  "sa_enable_debug (parsed_args frepr p) = ps_enable_debug p" "sa_enable_tracing (parsed_args frepr p) = ps_enable_tracing p"
  "sa_speculative_mode (parsed_args frepr p) = speculative_mode_name (ec_speculative_mode (ps_engine_config p))"
  "sa_prefix_cache_mode (parsed_args frepr p) = prefix_cache_mode_name (ec_prefix_cache_mode (ps_engine_config p))"
  "sa_prefill_mode (parsed_args frepr p) = ''hybrid''" "sa_host (parsed_args frepr p) = ps_host p"
  "sa_port (parsed_args frepr p) = ps_port p" "sa_allow_credentials (parsed_args frepr p) = False"
  "sa_allow_origins (parsed_args frepr p) = JList [JStr ''*'']" "sa_allow_methods (parsed_args frepr p) = JList [JStr ''*'']"
  "sa_allow_headers (parsed_args frepr p) = JList [JStr ''*'']"
  by (simp_all add: parsed_args_def Let_def serve_defaults_def)

lemma float_half: "float_of_str ''0.5'' = Inr (Finite (1 / 2))"
proof -
  have "decimal_value ''0.5'' = Some (1 / 2)" by code_simp
  moreover have "signed (str_lower (str_strip ''0.5'')) = (False, ''0.5'')" by code_simp
  moreover have "round_float (1 / 2) = Finite (1 / 2)" using round_float_exact [of 1 "- 1"] by simp
  ultimately show ?thesis by (simp add: float_of_str_def)
qed

lemma round_even_int_round: "round_even (of_int S / 2 ^ j) = int_round j S"
proof -
  have fl: "\<lfloor>of_int S / 2 ^ j :: rat\<rfloor> = S div 2 ^ j"
    using floor_divide_of_int_eq [of S "2 ^ j", where 'a = rat] by simp
  have S: "of_int S = (of_int (S div 2 ^ j) * 2 ^ j + of_int (S mod 2 ^ j) :: rat)"
    using arg_cong [OF div_mult_mod_eq [of S "2 ^ j"], of "of_int :: int \<Rightarrow> rat"] by simp
  have r: "of_int S / 2 ^ j - of_int (S div 2 ^ j) = (of_int (S mod 2 ^ j) / 2 ^ j :: rat)"
    by (subst S) (simp add: field_simps)
  have c1: "(of_int (S mod 2 ^ j) / 2 ^ j :: rat) < 1 / 2 \<longleftrightarrow> 2 * (S mod 2 ^ j) < 2 ^ j"
    using of_int_less_iff [of "2 * (S mod 2 ^ j)" "2 ^ j", where 'a = rat] by (simp add: field_simps)
  have c2: "(of_int (S mod 2 ^ j) / 2 ^ j :: rat) = 1 / 2 \<longleftrightarrow> 2 * (S mod 2 ^ j) = 2 ^ j"
    using of_int_eq_iff [of "2 * (S mod 2 ^ j)" "2 ^ j", where 'a = rat] by (auto simp: field_simps)
  show ?thesis unfolding round_even_def int_round_def fl Let_def r c1 c2 ..
qed

lemma int_round_le: "S < 2 ^ 53 * 2 ^ j \<Longrightarrow> int_round j S \<le> 2 ^ 53"
proof -
  assume "S < 2 ^ 53 * 2 ^ j"
  then have "S div 2 ^ j * 2 ^ j < 2 ^ 53 * 2 ^ j"
    using div_mult_mod_eq [of S "2 ^ j"] pos_mod_sign [of "2 ^ j" S] zero_less_power [of "2 :: int" j] by linarith
  then have "S div 2 ^ j < 2 ^ 53" by (simp only: mult_less_cancel_right) simp
  then show ?thesis by (auto simp: int_round_def Let_def)
qed

lemma round_float_scaled:
  assumes "2 ^ 52 * 2 ^ j \<le> S" and "S < 2 ^ 53 * 2 ^ j" and "j \<le> 60"
  shows "round_float (of_int S / 2 ^ 56) = Finite (of_int (2 ^ j * int_round j S) / 2 ^ 56)"
proof -
  define e where "e = int j - 56"
  let ?x = "of_int S / 2 ^ 56 :: rat"
  have S: "0 < S" using assms(1) less_le_trans [of 0 "2 ^ 52 * 2 ^ j" S] by simp
  have u: "(2::rat) powi e = 2 ^ j / 2 ^ 56" by (simp add: e_def power_int_diff)
  have lo: "(2 ^ 52 * 2 ^ j :: rat) \<le> of_int S" and hi: "of_int S < (2 ^ 53 * 2 ^ j :: rat)"
    using assms(1,2) of_int_le_iff [of "2 ^ 52 * 2 ^ j" S, where 'a = rat]
      of_int_less_iff [of S "2 ^ 53 * 2 ^ j", where 'a = rat] by simp_all
  have "2 powi (52 + e) \<le> ?x" using lo by (simp add: power_int_add u divide_right_mono)
  moreover have "?x < 2 powi (53 + e)" using hi by (simp add: power_int_add u divide_strict_right_mono)
  ultimately have fe: "float_exponent ?x = e"
    using float_exponent_lower [of ?x e] float_exponent_upper [of ?x e] S by (simp add: e_def)
  have q: "?x / 2 powi e = of_int S / 2 ^ j" by (simp add: u)
  have rp: "round_pos ?x = of_int (2 ^ j * int_round j S) / 2 ^ 56"
    unfolding round_pos_def fe Let_def q round_even_int_round by (simp add: u)
  have "int_round j S \<le> 2 ^ 53" by (rule int_round_le [OF assms(2)])
  then have "2 ^ j * int_round j S \<le> 2 ^ j * 2 ^ 53" by (intro mult_left_mono) simp_all
  also have "(2 ^ j * 2 ^ 53 :: int) \<le> 2 ^ 60 * 2 ^ 53"
    using assms(3) by (intro mult_right_mono power_increasing) simp_all
  finally have "(of_int (2 ^ j * int_round j S) :: rat) \<le> 2 ^ 60 * 2 ^ 53"
    using of_int_le_iff [of "2 ^ j * int_round j S" "2 ^ 60 * 2 ^ 53", where 'a = rat] by simp
  then have "round_pos ?x < 2 ^ 1024" unfolding rp by simp
  moreover have "0 \<le> int_round j S" using S by (auto simp: int_round_def Let_def pos_imp_zdiv_nonneg_iff)
  then have "0 \<le> round_pos ?x" unfolding rp by simp
  then have "- (2 ^ 1024) < round_pos ?x" by (rule less_le_trans [rotated]) simp
  ultimately show ?thesis using S rp by (simp add: round_float_def Let_def not_le)
qed

lemma wait_step_tenth: "wait_step = Finite (of_int tenth / 2 ^ 56)"
proof -
  have "float_exponent (1 / 10) = - 56"
    using float_exponent_lower [of "1 / 10" "- 56"] float_exponent_upper [of "1 / 10" "- 56"] by simp
  moreover have "\<lfloor>36028797018963968 / 5 :: rat\<rfloor> = 7205759403792793" by (rule floor_unique) simp_all
  ultimately have "round_pos (1 / 10) = of_int tenth / 2 ^ 56"
    by (simp add: round_pos_def round_even_def Let_def power_int_minus)
  then show ?thesis by (simp add: wait_step_def round_float_def Let_def)
qed

lemma attempts_step:
  assumes "attempts_after n = Finite (of_int A / 2 ^ 56)"
    and "2 ^ 52 * 2 ^ j \<le> A + tenth" and "A + tenth < 2 ^ 53 * 2 ^ j" and "j \<le> 60"
  shows "attempts_after (Suc n) = Finite (of_int (2 ^ j * int_round j (A + tenth)) / 2 ^ 56)"
proof -
  have "of_int A / 2 ^ 56 + of_int tenth / 2 ^ 56 = (of_int (A + tenth) / 2 ^ 56 :: rat)" by (simp add: add_divide_distrib)
  then have "float_add (Finite (of_int A / 2 ^ 56)) wait_step = Finite (of_int (2 ^ j * int_round j (A + tenth)) / 2 ^ 56)"
    unfolding wait_step_tenth float_add.simps(1) using round_float_scaled [OF assms(2-4)] by (simp only:)
  then show ?thesis using assms(1) by (simp add: attempts_after_def)
qed

lemma below_scaled: "below_timeout (Finite (of_int A / 2 ^ 56)) \<longleftrightarrow> A < 120 * 2 ^ 56"
  using of_int_less_iff [of A "120 * 2 ^ 56", where 'a = rat] by (simp add: below_timeout_def wait_timeout_def field_simps)

lemma wait_reached_step:
  assumes "wait_reached n A" and "2 ^ 52 * 2 ^ j \<le> A + tenth" and "A + tenth < 2 ^ 53 * 2 ^ j" and "j \<le> 60"
    and "2 ^ j * int_round j (A + tenth) = B" and "B < 120 * 2 ^ 56"
  shows "wait_reached (n + 1) B"
proof -
  have "attempts_after (Suc n) = Finite (of_int B / 2 ^ 56)"
    using assms attempts_step [of n A j] by (simp add: wait_reached_def)
  then show ?thesis using assms(1,6) below_scaled [of B] by (auto simp: wait_reached_def le_Suc_eq)
qed

text \<open>Between two powers of two the rounded step is the same each time.\<close>

lemma wait_reached_run:
  assumes "wait_reached n A" and "A = 2 ^ j * m" and "2 ^ 52 \<le> m" and "j \<le> 60" and "d = int_round j tenth"
    and "2 * (tenth mod 2 ^ j) \<noteq> 2 ^ j" and "2 ^ j * (m + int K * d) < 120 * 2 ^ 56" and "m + int K * d < 2 ^ 53"
  shows "wait_reached (n + K) (2 ^ j * (m + int K * d))"
  using assms(7,8)
proof (induction K)
  case (Suc K)
  let ?m = "m + int K * d"
  have d: "0 \<le> d" "tenth < d * 2 ^ j + 2 ^ j"
  proof -
    have q: "tenth div 2 ^ j \<le> d" "0 \<le> tenth div 2 ^ j"
      by (simp_all add: assms(5) int_round_def Let_def pos_imp_zdiv_nonneg_iff)
    then show "0 \<le> d" by linarith
    have "tenth = tenth div 2 ^ j * 2 ^ j + tenth mod 2 ^ j" by (rule div_mult_mod_eq [symmetric])
    moreover have "tenth mod 2 ^ j < 2 ^ j" by simp
    moreover have "tenth div 2 ^ j * 2 ^ j \<le> d * 2 ^ j" using q by (intro mult_right_mono) simp_all
    ultimately show "tenth < d * 2 ^ j + 2 ^ j" by linarith
  qed
  have next_m: "m + int (Suc K) * d = ?m + d" by (simp add: distrib_right)
  have m: "m \<le> ?m" "?m \<le> ?m + d" using d(1) by simp_all
  then have "2 ^ j * ?m \<le> 2 ^ j * (?m + d)" by (intro mult_left_mono) simp_all
  then have IH: "wait_reached (n + K) (2 ^ j * ?m)"
    using Suc.prems m unfolding next_m by (intro Suc.IH) linarith+
  have r: "int_round j (2 ^ j * ?m + tenth) = ?m + d"
    using assms(6) by (simp add: int_round_def assms(5) Let_def)
  have "2 ^ 52 \<le> ?m" using assms(3) m(1) by linarith
  then have "2 ^ 52 * 2 ^ j \<le> ?m * 2 ^ j" by (rule mult_right_mono) simp
  then have lo: "2 ^ 52 * 2 ^ j \<le> 2 ^ j * ?m + tenth" using mult.commute [of ?m "2 ^ j"] by linarith
  have "2 ^ j * (?m + d + 1) \<le> 2 ^ j * 2 ^ 53" using Suc.prems(2) unfolding next_m by (intro mult_left_mono) simp_all
  then have hi: "2 ^ j * ?m + tenth < 2 ^ 53 * 2 ^ j" using d(2) by (simp add: algebra_simps)
  show ?case
    using wait_reached_step [OF IH lo hi assms(4)] Suc.prems(1) unfolding next_m r by simp
qed (use assms(1,2) in simp)

lemma wait_reached_1200: "wait_reached 1200 8646911284551169024"
proof -
  have r0: "wait_reached 0 0" by (simp add: wait_reached_def attempts_after_def below_timeout_def wait_timeout_def)
  have r1: "wait_reached 1 7205759403792794"
    using wait_reached_step [OF r0, of 0 7205759403792794] by (simp add: int_round_def)
  have r2: "wait_reached 2 14411518807585588"
    using wait_reached_step [OF r1, of 1 14411518807585588] by (simp add: int_round_def numeral_2_eq_2)
  have r3: "wait_reached 3 21617278211378384"
    using wait_reached_step [OF r2, of 2 21617278211378384] by (simp add: int_round_def)
  have r4: "wait_reached 4 28823037615171176"
    using wait_reached_step [OF r3, of 2 28823037615171176] by (simp add: int_round_def)
  have r5: "wait_reached 5 36028797018963968"
    using wait_reached_step [OF r4, of 3 36028797018963968] by (simp add: int_round_def)
  have r6: "wait_reached 10 72057594037927928"
    using wait_reached_run [OF r5, of 3 4503599627370496 900719925474099 5] by (simp add: int_round_def)
  have r7: "wait_reached 11 79263353441720720"
    using wait_reached_step [OF r6, of 4 79263353441720720] by (simp add: int_round_def)
  have r8: "wait_reached 19 136909428672063120"
    using wait_reached_run [OF r7, of 4 4953959590107545 450359962737050 8] by (simp add: int_round_def)
  have r9: "wait_reached 20 144115188075855904"
    using wait_reached_step [OF r8, of 5 144115188075855904] by (simp add: int_round_def)
  have r10: "wait_reached 39 281024616747919104"
    using wait_reached_run [OF r9, of 5 4503599627370497 225179981368525 19] by (simp add: int_round_def)
  have r11: "wait_reached 40 288230376151711872"
    using wait_reached_step [OF r10, of 6 288230376151711872] by (simp add: int_round_def)
  have r12: "wait_reached 80 576460752303422592"
    using wait_reached_run [OF r11, of 6 4503599627370498 112589990684262 40] by (simp add: int_round_def)
  have r13: "wait_reached 81 583666511707215360"
    using wait_reached_step [OF r12, of 7 583666511707215360] by (simp add: int_round_def)
  have r14: "wait_reached 160 1152921504606844032"
    using wait_reached_run [OF r13, of 7 4559894622712620 56294995342131 79] by (simp add: int_round_def)
  have r15: "wait_reached 161 1160127264010636800"
    using wait_reached_step [OF r14, of 8 1160127264010636800] by (simp add: int_round_def)
  have r16: "wait_reached 319 2298637249809914368"
    using wait_reached_run [OF r15, of 8 4531747125041550 28147497671066 158] by (simp add: int_round_def)
  have r17: "wait_reached 320 2305843009213707264"
    using wait_reached_step [OF r16, of 9 2305843009213707264] by (simp add: int_round_def)
  have r18: "wait_reached 639 4604480259023641088"
    using wait_reached_run [OF r17, of 9 4503599627370522 14073748835533 319] by (simp add: int_round_def)
  have r19: "wait_reached 640 4611686018427433984"
    using wait_reached_step [OF r18, of 10 4611686018427433984] by (simp add: int_round_def)
  have r20: "wait_reached 1200 8646911284551169024"
    using wait_reached_run [OF r19, of 10 4503599627370541 7036874417766 560] by (simp add: int_round_def)
  show ?thesis by (rule r20)
qed

lemma attempts_after_1201: "attempts_after 1201 = Finite (of_int 8654117043954961408 / 2 ^ 56)"
  using attempts_step [of 1200 8646911284551169024 10] wait_reached_1200
  by (simp add: wait_reached_def int_round_def)

lemma wait_ready_step:
  "wait_ready answers n (attempts_after n) =
     (if \<not> below_timeout (attempts_after n) then Some (n, False, attempts_after n)
      else if answers n then Some (Suc n, True, attempts_after n)
      else wait_ready answers (Suc n) (attempts_after (Suc n)))"
  by (subst wait_ready.simps) (simp add: attempts_after_def)

lemma wait_ready_unanswered:
  "n \<le> 1201 \<Longrightarrow> \<forall>i < n. \<not> answers i \<Longrightarrow> wait_ready answers 0 (attempts_after 0) = wait_ready answers n (attempts_after n)"
proof (induction n)
  case (Suc n)
  then have "below_timeout (attempts_after n)" using wait_reached_1200 by (simp add: wait_reached_def)
  then show ?case using Suc wait_ready_step [of answers n] by simp
qed simp

lemma timeout_passed: "\<not> below_timeout (attempts_after 1201)" "attempts_after 1201 \<noteq> Finite wait_timeout"
  unfolding attempts_after_1201 below_scaled by (simp_all add: wait_timeout_def)

lemma wait_ready_result:
  "wait_ready answers 0 (Finite 0) =
     (if \<exists>i \<le> 1200. answers i then Some (Suc (LEAST i. answers i), True, attempts_after (LEAST i. answers i))
      else Some (1201, False, attempts_after 1201))"
proof -
  have start: "attempts_after 0 = Finite 0" by (simp add: attempts_after_def)
  let ?i = "LEAST i. answers i"
  show ?thesis
  proof (cases "\<exists>i \<le> 1200. answers i")
    case True
    then have i: "answers ?i" "?i \<le> 1200" by (auto intro: LeastI Least_le order_trans)
    then have "wait_ready answers 0 (attempts_after 0) = wait_ready answers ?i (attempts_after ?i)"
      by (intro wait_ready_unanswered) (auto dest: not_less_Least)
    moreover have "below_timeout (attempts_after ?i)" using i(2) wait_reached_1200 by (simp add: wait_reached_def)
    ultimately show ?thesis using i True wait_ready_step [of answers ?i] by (simp add: start)
  next
    case False
    then have "wait_ready answers 0 (attempts_after 0) = wait_ready answers 1201 (attempts_after 1201)"
      by (intro wait_ready_unanswered) auto
    then show ?thesis using False wait_ready_step [of answers 1201] timeout_passed(1) by (simp add: start)
  qed
qed

lemma attempts_not_timeout: "n \<le> 1201 \<Longrightarrow> attempts_after n \<noteq> Finite wait_timeout"
proof (cases "n = 1201")
  case False
  assume "n \<le> 1201"
  then have "below_timeout (attempts_after n)" using False wait_reached_1200 by (simp add: wait_reached_def)
  then show ?thesis by (auto simp: below_timeout_def)
qed (simp add: timeout_passed(2))

section \<open>Properties\<close>

text \<open>C38: the server that \<open>PopenServer\<close> starts runs with the arguments it was given: the command line that
  \<open>start\<close> writes is read by \<open>mlc_llm serve\<close> as the same model, device, mode, address and engine configuration,
  except for the fields of the configuration that are never written. Those are listed by \<open>transmitted\<close>: the sizes of
  the windows, the parallelism, the optimization level, the width of the speculative tree and the prefill mode.
  Assumed: the texts do not look like options, the names of additional models contain no comma, and the printed
  float reads back.\<close>

theorem popen_transmits:
  assumes "plain_server p" and "float_text_ok frepr (ps_engine_config p)"
  shows "res_bind (mlc_llm_main (drop 3 (popen_cmd frepr executable p))) (\<lambda>(command, argv).
      res_bind (serve_main loads argv) (\<lambda>call. Inr (command, call)))
    = Inr (''serve'', \<lparr>sc_model = ps_model p, sc_device = ps_device p, sc_model_lib = ps_model_lib p, sc_mode = ps_mode p,
        sc_engine_config = transmitted (ps_engine_config p), sc_enable_tracing = ps_enable_tracing p,
        sc_enable_debug = ps_enable_debug p, sc_host = ps_host p, sc_port = ps_port p, sc_allow_credentials = False,
        sc_allow_origins = JList [JStr ''*''], sc_allow_methods = JList [JStr ''*''], sc_allow_headers = JList [JStr ''*'']\<rparr>)"
proof -
  let ?ec = "ps_engine_config p"
  have ov: "engine_overrides_from_str (show_overrides (popen_overrides frepr ?ec)) = Inr (overrides_read ?ec)"
    unfolding engine_overrides_from_str_def using assms(2) by (rule popen_format.round_trip)
  have r: "(case sa_overrides (parsed_args frepr p) of None \<Rightarrow> engine_overrides_from_str [] | Some r \<Rightarrow> Inr r)
      = Inr (overrides_read ?ec)"
    using ov by (cases "popen_overrides frepr ?ec = []") (simp_all add: parsed_args_def Let_def show_overrides_def)
  have models: "map (\<lambda>a. additional_model_of (additional_model_arg a)) (ec_additional_models ?ec) = ec_additional_models ?ec"
    using assms(1) by (intro map_idI additional_model_roundtrip) (simp add: plain_server_def list_all_iff)
  have cfg: "serve_engine_config (parsed_args frepr p) (overrides_read ?ec) (ec_speculative_mode ?ec) (ec_prefix_cache_mode ?ec)
      Hybrid = transmitted ?ec"
    using models by (simp add: serve_engine_config_def parsed_args_def overrides_read_def transmitted_def Let_def
        EngineConfig_def engine_overrides_defaults_def EngineConfigOverride_def serve_defaults_def comp_def)
  have hybrid: "prefill_mode_of ''hybrid'' = Inr Hybrid" by (simp add: prefill_mode_of_def dict_get_def)
  have "serve_main loads (drop 4 (popen_cmd frepr executable p)) = Inr \<lparr>sc_model = ps_model p, sc_device = ps_device p,
        sc_model_lib = ps_model_lib p, sc_mode = ps_mode p,
        sc_engine_config = transmitted ?ec, sc_enable_tracing = ps_enable_tracing p,
        sc_enable_debug = ps_enable_debug p, sc_host = ps_host p, sc_port = ps_port p, sc_allow_credentials = False,
        sc_allow_origins = JList [JStr ''*''], sc_allow_methods = JList [JStr ''*''], sc_allow_headers = JList [JStr ''*'']\<rparr>"
    using r cfg hybrid by (simp add: serve_main_def popen_parse_args [OF assms] parsed_args_selectors
        mode_names speculative_mode_names prefix_cache_mode_names)
  then show ?thesis unfolding popen_command mlc_llm_main_serve by simp
qed

theorem popen_transmits_witness:
  "\<exists>call. res_bind (mlc_llm_main (drop 3 (popen_cmd (\<lambda>_. ''0.5'') ''python'' sample_popen))) (\<lambda>(command, argv).
      res_bind (serve_main (\<lambda>_. Inl (ValueError [])) argv) (\<lambda>call. Inr (command, call))) = Inr (''serve'', call)
    \<and> ec_gpu_memory_utilization (sc_engine_config call) = Some (Finite (1 / 2))
    \<and> ec_additional_models (sc_engine_config call) = [ModelOnly ''draft'', ModelWithLib ''eagle'' ''eagle.so'']
    \<and> ec_opt (sc_engine_config call) = None \<and> ec_spec_tree_width (sc_engine_config call) = None"
proof -
  have "plain_server sample_popen" by (simp add: plain_server_def sample_popen_def EngineConfig_def plain_arg_def)
  moreover have "float_text_ok (\<lambda>_. ''0.5'') (ps_engine_config sample_popen)"
    by (simp add: float_text_ok_def sample_popen_def EngineConfig_def float_half)
  ultimately show ?thesis
    by (simp add: popen_transmits) (simp add: sample_popen_def transmitted_def EngineConfig_def)
qed

text \<open>C39: \<open>start\<close> always returns, after at most 1201 queries: at the first query that is answered, or after the
  last. It raises an error exactly if the process has ended. A server that does not answer in time is not
  reported: the sum of the steps of 0.1 skips the number 120, so the test \<open>attempts == timeout\<close> is
  never true, and \<open>start\<close> returns as if the server were ready.\<close>

theorem popen_start_result:
  "\<exists>r p' n. popen_start frepr executable answers exited p = Some (r, p', n)
     \<and> n = (if \<exists>i \<le> 1200. answers i then Suc (LEAST i. answers i) else 1201)
     \<and> (r = Inr ()) = (exited = None) \<and> ps_proc p' = Some (popen_cmd frepr executable p)"
proof -
  let ?n = "if \<exists>i \<le> 1200. answers i then Suc (LEAST i. answers i) else 1201"
  have "(LEAST i. answers i) \<le> 1201" if "\<exists>i \<le> 1200. answers i" using that by (auto intro: Least_le order_trans)
  note ne = attempts_not_timeout [OF this] timeout_passed(2)
  have "\<exists>ok a. wait_ready answers 0 (Finite 0) = Some (?n, ok, a) \<and> a \<noteq> Finite wait_timeout"
  proof (cases "\<exists>i \<le> 1200. answers i")
    case True
    then show ?thesis using ne(1) [OF True] wait_ready_result [of answers] by (simp only: if_True) blast
  next
    case False
    then show ?thesis using ne(2) wait_ready_result [of answers] by (simp only: if_False) blast
  qed
  then obtain ok a where w: "wait_ready answers 0 (Finite 0) = Some (?n, ok, a)" "a \<noteq> Finite wait_timeout" by blast
  show ?thesis unfolding popen_start_def Let_def w(1) using w(2) by (cases exited) simp_all
qed

end
