(* ===== verification/Chat_Cli.thy ===== *)
theory Chat_Cli
  imports Json_Ffi Cli_Serve
begin

text \<open>
  The interactive chat, \<open>python/mlc_llm/interface/chat.py\<close> and \<open>cli/chat.py\<close>: the overrides of the generation, the
  state of a chat with its window on the history, the commands, and the loop over the prompts. The engine is a
  parameter that answers the requests of the chat, and what the terminal delivers is a list of prompts; key
  bindings are left out. The properties are the invariant of the history and what one turn does to it.
\<close>

section \<open>Overrides of the generation\<close>

record chat_overrides =
  cho_temperature :: "py_float option"
  cho_top_p :: "py_float option"
  cho_frequency_penalty :: "py_float option"
  cho_presence_penalty :: "py_float option"
  cho_max_tokens :: "int option"
  cho_seed :: "int option"
  cho_stop :: "string list option"

definition ChatCompletionOverride :: chat_overrides where
  "ChatCompletionOverride = \<lparr>cho_temperature = None, cho_top_p = None, cho_frequency_penalty = None,
     cho_presence_penalty = None, cho_max_tokens = None, cho_seed = None, cho_stop = None\<rparr>"

definition float_option :: "string \<Rightarrow> (py_float option \<Rightarrow> 's \<Rightarrow> 's) \<Rightarrow> 's opt_action" where
  "float_option name f = one_option name (\<lambda>v s. res_bind (arg_type float_of_str v) (\<lambda>x. Inr (f (Some x) s)))"

definition chat_overrides_parser :: "chat_overrides arg_parser" where
  "chat_overrides_parser = \<lparr>ap_options =
     [float_option ''--temperature'' (\<lambda>x s. s\<lparr>cho_temperature := x\<rparr>),
      float_option ''--top_p'' (\<lambda>x s. s\<lparr>cho_top_p := x\<rparr>),
      float_option ''--frequency_penalty'' (\<lambda>x s. s\<lparr>cho_frequency_penalty := x\<rparr>),
      float_option ''--presence_penalty'' (\<lambda>x s. s\<lparr>cho_presence_penalty := x\<rparr>),
      int_option ''--max_tokens'' (\<lambda>x s. s\<lparr>cho_max_tokens := x\<rparr>),
      int_option ''--seed'' (\<lambda>x s. s\<lparr>cho_seed := x\<rparr>),
      one_option ''--stop'' (\<lambda>v s. Inr (s\<lparr>cho_stop := Some (split_char CHR '','' v)\<rparr>))],
     ap_positional = None\<rparr>"

definition chat_overrides_from_str :: "string \<Rightarrow> chat_overrides res" where
  "chat_overrides_from_str source = parse_overrides chat_overrides_parser ChatCompletionOverride source"

definition given :: "'a option \<Rightarrow> 'a option \<Rightarrow> 'a option" where
  "given new old = (if new \<noteq> None then new else old)"

text \<open>The loop over \<open>dataclasses.asdict(overrides)\<close> that sets the fields that are given.\<close>

definition set_overrides :: "chat_overrides \<Rightarrow> chat_overrides \<Rightarrow> chat_overrides" where
  "set_overrides new old =
     old\<lparr>cho_temperature := given (cho_temperature new) (cho_temperature old),
       cho_top_p := given (cho_top_p new) (cho_top_p old),
       cho_frequency_penalty := given (cho_frequency_penalty new) (cho_frequency_penalty old),
       cho_presence_penalty := given (cho_presence_penalty new) (cho_presence_penalty old),
       cho_max_tokens := given (cho_max_tokens new) (cho_max_tokens old),
       cho_seed := given (cho_seed new) (cho_seed old),
       cho_stop := given (cho_stop new) (cho_stop old)\<rparr>"

section \<open>ChatState\<close>

text \<open>
  The three requests that the chat makes of its engine: the warm-up with the system prompt, a turn of the
  chat, and the query of the metrics. The engine gives the responses it streams and how the stream ends.
\<close>

type_synonym turn = "chat_role \<times> string"

datatype chat_call = WarmUp | Turn "turn list" chat_overrides | QueryMetrics

text \<open>
  The messages of a request. The one of the metrics has the key \<open>context\<close> instead of \<open>content\<close>, so that it
  has no content.
\<close>

fun call_messages :: "chat_call \<Rightarrow> (chat_role \<times> string option) list" where
  "call_messages WarmUp = [(User, Some [])]"
| "call_messages (Turn ms _) = map (\<lambda>(role, content). (role, Some content)) ms"
| "call_messages QueryMetrics = [(User, None)]"

record 'e chat_state =
  ch_history :: "turn list"
  ch_history_window_begin :: nat
  ch_overrides :: chat_overrides
  ch_last_usage :: "completion_usage option"
  ch_engine :: 'e
  ch_calls :: "chat_call list"
  ch_printed :: "string list"

type_synonym 'e chat_engine = "chat_call \<Rightarrow> 'e \<Rightarrow> (chat_stream_response list \<times> unit res) \<times> 'e"

definition ChatState :: "'e \<Rightarrow> 'e chat_state" where
  "ChatState engine = \<lparr>ch_history = [], ch_history_window_begin = 0, ch_overrides = ChatCompletionOverride,
     ch_last_usage = None, ch_engine = engine, ch_calls = [], ch_printed = []\<rparr>"

definition call_engine ::
  "'e chat_engine \<Rightarrow> chat_call \<Rightarrow> 'e chat_state \<Rightarrow> (chat_stream_response list \<times> unit res) \<times> 'e chat_state" where
  "call_engine engine call s =
     (case engine call (ch_engine s) of (r, e) \<Rightarrow> (r, s\<lparr>ch_engine := e, ch_calls := ch_calls s @ [call]\<rparr>))"

definition chat_print :: "string \<Rightarrow> 'e chat_state \<Rightarrow> 'e chat_state" where
  "chat_print t s = s\<lparr>ch_printed := ch_printed s @ [t]\<rparr>"

abbreviation chat_println :: "string \<Rightarrow> 'e chat_state \<Rightarrow> 'e chat_state" where
  "chat_println t s \<equiv> chat_print (t @ [CHR 0x0A]) s"

definition slide_history :: "'e chat_state \<Rightarrow> unit res \<times> 'e chat_state" where
  "slide_history s =
     (let history_window_size = length (ch_history s) - ch_history_window_begin s
      in if history_window_size mod 2 \<noteq> 0 then (Inl (AssertionError []), s)
         else (Inr (), s\<lparr>ch_history_window_begin :=
                 ch_history_window_begin s + ((history_window_size + 3) div 4) * 2\<rparr>))"

definition process_system_prompts :: "'e chat_engine \<Rightarrow> 'e chat_state \<Rightarrow> unit res \<times> 'e chat_state" where
  "process_system_prompts engine s = (case call_engine engine WarmUp s of ((_, end_res), s) \<Rightarrow> (end_res, s))"

text \<open>
  One turn. The loop over the responses carries the text so far and whether the length limit was
  reached; what follows the loop runs only if it ends without an exception.
\<close>

fun generate_choices ::
  "chat_stream_choice list \<Rightarrow> string \<Rightarrow> bool \<Rightarrow> 'e chat_state \<Rightarrow> (string \<times> bool) res \<times> 'e chat_state" where
  "generate_choices [] output_text truncated s = (Inr (output_text, truncated), s)"
| "generate_choices (c # cs) output_text truncated s =
     (if msg_role (sc_delta c) \<noteq> Assistant then (Inl (AssertionError []), s)
      else let truncated_now = (truncated \<or> sc_finish_reason c = Some ''length'')
           in case msg_content (sc_delta c) of
                Some (ContentStr t) \<Rightarrow> generate_choices cs (output_text @ t) truncated_now (chat_print t s)
              | _ \<Rightarrow> generate_choices cs output_text truncated_now s)"

fun generate_loop ::
  "chat_stream_response list \<Rightarrow> unit res \<Rightarrow> string \<Rightarrow> bool \<Rightarrow> 'e chat_state \<Rightarrow> (string \<times> bool) res \<times> 'e chat_state" where
  "generate_loop [] end_res output_text truncated s =
     (case end_res of Inl e \<Rightarrow> (Inl e, s) | Inr _ \<Rightarrow> (Inr (output_text, truncated), s))"
| "generate_loop (r # rs) end_res output_text truncated s =
     (case csresp_usage r of
        Some u \<Rightarrow> generate_loop rs end_res output_text truncated (s\<lparr>ch_last_usage := Some u\<rparr>)
      | None \<Rightarrow> (case generate_choices (csresp_choices r) output_text truncated s of
            (Inl e, s) \<Rightarrow> (Inl e, s)
          | (Inr (output_text, truncated), s) \<Rightarrow> generate_loop rs end_res output_text truncated s))"

definition chat_generate :: "'e chat_engine \<Rightarrow> string \<Rightarrow> 'e chat_state \<Rightarrow> unit res \<times> 'e chat_state" where
  "chat_generate engine prompt s =
     (let s = s\<lparr>ch_history := ch_history s @ [(User, prompt)]\<rparr>;
          messages = drop (ch_history_window_begin s) (ch_history s)
      in case call_engine engine (Turn messages (ch_overrides s)) s of ((responses, end_res), s) \<Rightarrow>
         case generate_loop responses end_res [] False s of
           (Inl e, s) \<Rightarrow> (Inl e, s)
         | (Inr (output_text, truncated), s) \<Rightarrow>
             let s = (if truncated then chat_println '' [output truncated due to context length limit...]'' s else s);
                 s = chat_println [] s;
                 s = s\<lparr>ch_history := ch_history s @ [(Assistant, output_text)]\<rparr>
             in if truncated then slide_history s else (Inr (), s))"

text \<open>\<open>show\_speed\<close> formats a number with one digit after the point.\<close>

definition stats_text :: "(json \<Rightarrow> string res) \<Rightarrow> completion_usage option \<Rightarrow> string res" where
  "stats_text show_speed usage =
     (case usage of None \<Rightarrow> Inr ''N/A''
      | Some u \<Rightarrow> (case usage_extra u of None \<Rightarrow> Inr ''N/A''
          | Some extra \<Rightarrow>
              let speed = (\<lambda>key. case map_of extra key of None \<Rightarrow> Inr ''N/A'' | Some JNull \<Rightarrow> Inr ''N/A''
                             | Some v \<Rightarrow> show_speed v)
              in res_bind (speed ''prefill_tokens_per_s'') (\<lambda>prefill.
                 res_bind (speed ''decode_tokens_per_s'') (\<lambda>decode.
                   Inr (''prefill: '' @ prefill @ '' tok/s, decode: '' @ decode @ '' tok/s'')))))"

definition chat_stats :: "(json \<Rightarrow> string res) \<Rightarrow> 'e chat_state \<Rightarrow> unit res \<times> 'e chat_state" where
  "chat_stats show_speed s = (case stats_text show_speed (ch_last_usage s) of
     Inl e \<Rightarrow> (Inl e, s) | Inr t \<Rightarrow> (Inr (), chat_println t s))"

text \<open>The query stops at the first response with a usage; an exception of the stream before it is raised.\<close>

definition metrics_of_stream :: "chat_stream_response list \<Rightarrow> unit res \<Rightarrow> (string \<times> json) list option res" where
  "metrics_of_stream responses end_res =
     (if list_ex (\<lambda>r. csresp_usage r \<noteq> None) responses then query_engine_metrics responses
      else res_bind end_res (\<lambda>_. query_engine_metrics responses))"

definition chat_metrics :: "(py_float \<Rightarrow> string) \<Rightarrow> 'e chat_engine \<Rightarrow> 'e chat_state \<Rightarrow> unit res \<times> 'e chat_state" where
  "chat_metrics frepr engine s =
     (case call_engine engine QueryMetrics s of ((responses, end_res), s) \<Rightarrow>
      case metrics_of_stream responses end_res of
        Inl e \<Rightarrow> (Inl e, s)
      | Inr m \<Rightarrow> (Inr (), chat_println (prometheus_text frepr (case m of None \<Rightarrow> JNull | Some kvs \<Rightarrow> JObj kvs)) s))"

definition chat_reset :: "'e chat_state \<Rightarrow> 'e chat_state" where
  "chat_reset s = s\<lparr>ch_history := [], ch_history_window_begin := 0\<rparr>"

text \<open>\<open>prompt.split()\<close>\<close>

fun str_words_aux :: "string \<Rightarrow> string \<Rightarrow> string list" where
  "str_words_aux word [] = (if word = [] then [] else [word])"
| "str_words_aux word (c # cs) =
     (if str_space c then (if word = [] then str_words_aux [] cs else word # str_words_aux [] cs)
      else str_words_aux (word @ [c]) cs)"

definition str_words :: "string \<Rightarrow> string list" where
  "str_words s = str_words_aux [] s"

definition chat_set :: "string \<Rightarrow> 'e chat_state \<Rightarrow> unit res \<times> 'e chat_state" where
  "chat_set prompt s =
     (case str_words prompt of
        _ # source # _ \<Rightarrow> (case chat_overrides_from_str source of
            Inl e \<Rightarrow> (Inl e, s)
          | Inr new \<Rightarrow> (Inr (), s\<lparr>ch_overrides := set_overrides new (ch_overrides s)\<rparr>))
      | _ \<Rightarrow> (Inl IndexError, s))"

definition chat_help :: string where
  "chat_help = py_join [CHR 0x0A]
     [''You can use the following special commands:'',
      ''  /help               print the special commands'',
      ''  /exit               quit the cli'',
      ''  /stats              print out stats of last request (token/sec)'',
      ''  /metrics            print out full engine metrics'',
      ''  /reset              restart a fresh chat'',
      ''  /set [overrides]    override settings in the generation config. For example,'',
      ''                      `/set temperature=0.5;top_p=0.8;seed=23;max_tokens=100;stop=str1,str2`'',
      ''                      Note: Separate stop words in the `stop` option with commas (,).'',
      ''  Multi-line input: Use escape+enter to start a new line.'', []]"

datatype chat_command = CmdSet | CmdStats | CmdMetrics | CmdReset | CmdExit | CmdHelp | CmdPrompt

definition command_of :: "string \<Rightarrow> chat_command" where
  "command_of prompt =
     (if take 4 prompt = ''/set'' then CmdSet
      else if take 6 prompt = ''/stats'' then CmdStats
      else if take 8 prompt = ''/metrics'' then CmdMetrics
      else if take 6 prompt = ''/reset'' then CmdReset
      else if take 5 prompt = ''/exit'' then CmdExit
      else if take 5 prompt = ''/help'' then CmdHelp
      else CmdPrompt)"

record chat_formats =
  cf_float :: "py_float \<Rightarrow> string"
  cf_speed :: "json \<Rightarrow> string res"

definition chat_step ::
  "chat_formats \<Rightarrow> 'e chat_engine \<Rightarrow> string \<Rightarrow> 'e chat_state \<Rightarrow> unit res \<times> 'e chat_state" where
  "chat_step fmt engine prompt s =
     (case command_of prompt of
        CmdSet \<Rightarrow> chat_set prompt s
      | CmdStats \<Rightarrow> chat_stats (cf_speed fmt) s
      | CmdMetrics \<Rightarrow> chat_metrics (cf_float fmt) engine s
      | CmdReset \<Rightarrow> (Inr (), chat_reset s)
      | CmdExit \<Rightarrow> (Inr (), s)
      | CmdHelp \<Rightarrow> (Inr (), chat_println chat_help s)
      | CmdPrompt \<Rightarrow> chat_generate engine prompt s)"

text \<open>The loop reads the prompts one after the other; \<open>eof\<close> is what reading raises when there is no more.\<close>

fun chat_loop ::
  "chat_formats \<Rightarrow> 'e chat_engine \<Rightarrow> py_error \<Rightarrow> string list \<Rightarrow> 'e chat_state \<Rightarrow> unit res \<times> 'e chat_state" where
  "chat_loop fmt engine eof [] s = (Inl eof, s)"
| "chat_loop fmt engine eof (p # ps) s =
     (case chat_step fmt engine p s of
        (Inl e, s) \<Rightarrow> (Inl e, s)
      | (Inr _, s) \<Rightarrow> if command_of p = CmdExit then (Inr (), s) else chat_loop fmt engine eof ps s)"

definition chat_session ::
  "chat_formats \<Rightarrow> 'e chat_engine \<Rightarrow> py_error \<Rightarrow> string list \<Rightarrow> 'e chat_state \<Rightarrow> unit res \<times> 'e chat_state" where
  "chat_session fmt engine eof prompts s =
     (case process_system_prompts engine (chat_println chat_help s) of
        (Inl e, s) \<Rightarrow> (Inl e, s)
      | (Inr _, s) \<Rightarrow> chat_loop fmt engine eof prompts s)"


section \<open>The chat command\<close>

record chat_model_overrides =
  cmo_context_window_size :: "int option"
  cmo_sliding_window_size :: "int option"
  cmo_prefill_chunk_size :: "int option"
  cmo_attention_sink_size :: "int option"
  cmo_tensor_parallel_shards :: "int option"
  cmo_pipeline_parallel_stages :: "int option"
  cmo_opt :: "string option"

definition chat_ModelConfigOverride :: chat_model_overrides where
  "chat_ModelConfigOverride = \<lparr>cmo_context_window_size = None, cmo_sliding_window_size = None,
     cmo_prefill_chunk_size = None, cmo_attention_sink_size = None, cmo_tensor_parallel_shards = None,
     cmo_pipeline_parallel_stages = None, cmo_opt = None\<rparr>"

definition chat_model_parser :: "chat_model_overrides arg_parser" where
  "chat_model_parser = \<lparr>ap_options =
     [int_option ''--tensor_parallel_shards'' (\<lambda>x s. s\<lparr>cmo_tensor_parallel_shards := x\<rparr>),
      int_option ''--pipeline_parallel_stages'' (\<lambda>x s. s\<lparr>cmo_pipeline_parallel_stages := x\<rparr>),
      text_option ''--opt'' (\<lambda>x s. s\<lparr>cmo_opt := x\<rparr>),
      int_option ''--context_window_size'' (\<lambda>x s. s\<lparr>cmo_context_window_size := x\<rparr>),
      int_option ''--sliding_window_size'' (\<lambda>x s. s\<lparr>cmo_sliding_window_size := x\<rparr>),
      int_option ''--prefill_chunk_size'' (\<lambda>x s. s\<lparr>cmo_prefill_chunk_size := x\<rparr>),
      int_option ''--attention_sink_size'' (\<lambda>x s. s\<lparr>cmo_attention_sink_size := x\<rparr>)],
     ap_positional = None\<rparr>"

definition chat_model_from_str :: "string \<Rightarrow> chat_model_overrides res" where
  "chat_model_from_str source = parse_overrides chat_model_parser chat_ModelConfigOverride source"

record chat_args =
  ca_model :: string
  ca_device :: string
  ca_model_lib :: "string option"
  ca_overrides :: "chat_model_overrides option"

definition chat_parser :: "chat_args arg_parser" where
  "chat_parser = \<lparr>ap_options =
     [text_option ''--device'' (\<lambda>x s. s\<lparr>ca_device := the x\<rparr>),
      text_option ''--model-lib'' (\<lambda>x s. s\<lparr>ca_model_lib := x\<rparr>),
      one_option ''--overrides'' (\<lambda>v s.
        res_bind (arg_type chat_model_from_str v) (\<lambda>r. Inr (s\<lparr>ca_overrides := Some r\<rparr>)))],
     ap_positional = Some (\<lambda>v s. Inr (s\<lparr>ca_model := v\<rparr>))\<rparr>"

definition chat_engine_config :: "chat_model_overrides \<Rightarrow> engine_config" where
  "chat_engine_config r =
     EngineConfig\<lparr>ec_max_single_sequence_length := cmo_context_window_size r,
       ec_prefill_chunk_size := cmo_prefill_chunk_size r, ec_sliding_window_size := cmo_sliding_window_size r,
       ec_attention_sink_size := cmo_attention_sink_size r, ec_tensor_parallel_shards := cmo_tensor_parallel_shards r,
       ec_pipeline_parallel_stages := cmo_pipeline_parallel_stages r, ec_opt := cmo_opt r\<rparr>"

text \<open>
  \<open>main\<close> and \<open>chat\<close>: the engine is made by \<open>JSONFFIEngine.__init__\<close>, and the session runs on it.
\<close>

definition chat_main ::
  "string model_env \<Rightarrow> string list \<Rightarrow> json_ffi_state
     \<Rightarrow> (engine_config \<times> background_loops) res \<times> json_ffi_state" where
  "chat_main env argv s =
     (case res_bind (parse_args chat_parser \<lparr>ca_model = [], ca_device = ''auto'', ca_model_lib = None, ca_overrides = None\<rparr> argv)
             (\<lambda>args. res_bind (case ca_overrides args of None \<Rightarrow> chat_model_from_str [] | Some r \<Rightarrow> Inr r)
                (\<lambda>r. Inr (args, r))) of
        Inl e \<Rightarrow> (Inl e, s)
      | Inr (args, r) \<Rightarrow>
          json_engine_init env (ca_model args) (ca_device args) (ca_model_lib args) Interactive (Some (chat_engine_config r)) s)"

section \<open>Invariant and meaning of a turn\<close>

text \<open>Turns of user and assistant that alternate and start with the user.\<close>

fun alternating_from :: "bool \<Rightarrow> (chat_role \<times> 'a) list \<Rightarrow> bool" where
  "alternating_from user [] = True"
| "alternating_from user (m # ms) = (fst m = (if user then User else Assistant) \<and> alternating_from (\<not> user) ms)"

definition alternating :: "(chat_role \<times> 'a) list \<Rightarrow> bool" where
  "alternating ms = alternating_from True ms"

definition chat_inv :: "'e chat_state \<Rightarrow> bool" where
  "chat_inv s \<longleftrightarrow> alternating (ch_history s) \<and> even (length (ch_history s))
     \<and> even (ch_history_window_begin s) \<and> ch_history_window_begin s \<le> length (ch_history s)"

definition good_call :: "chat_call \<Rightarrow> bool" where
  "good_call call \<longleftrightarrow> alternating (call_messages call) \<and> odd (length (call_messages call))"

text \<open>What a turn shows of the responses: the texts of the deltas up to the end.\<close>

definition delta_text :: "chat_stream_choice \<Rightarrow> string" where
  "delta_text c = (case msg_content (sc_delta c) of Some (ContentStr t) \<Rightarrow> t | _ \<Rightarrow> [])"

definition answer_text :: "chat_stream_response list \<Rightarrow> string" where
  "answer_text rs = concat (map (\<lambda>r. concat (map delta_text (csresp_choices r))) (filter (\<lambda>r. csresp_usage r = None) rs))"

definition answer_truncated :: "chat_stream_response list \<Rightarrow> bool" where
  "answer_truncated rs = list_ex (\<lambda>r. csresp_usage r = None \<and>
     list_ex (\<lambda>c. sc_finish_reason c = Some ''length'') (csresp_choices r)) rs"

definition from_assistant :: "chat_stream_response list \<Rightarrow> bool" where
  "from_assistant rs = list_all (\<lambda>r. csresp_usage r = None \<longrightarrow> list_all (\<lambda>c. msg_role (sc_delta c) = Assistant) (csresp_choices r)) rs"

definition same_chat :: "'e chat_state \<Rightarrow> 'e chat_state \<Rightarrow> bool" where
  "same_chat s s' \<longleftrightarrow> ch_history s' = ch_history s \<and> ch_history_window_begin s' = ch_history_window_begin s
     \<and> ch_calls s' = ch_calls s \<and> ch_overrides s' = ch_overrides s"

definition sample_reply :: "string \<Rightarrow> string option \<Rightarrow> chat_stream_response" where
  "sample_reply t reason = \<lparr>csresp_id = ''r'', csresp_choices = [\<lparr>sc_finish_reason = reason, sc_index = 0,
     sc_delta = ChatCompletionMessage Assistant (Some (ContentStr t)), sc_logprobs = None\<rparr>],
     csresp_model = None, csresp_usage = None\<rparr>"

section \<open>Lemmas\<close>

lemma alternating_from_map:
  "alternating_from user (map (\<lambda>(role, content). (role, f content)) ms) = alternating_from user ms"
  by (induction ms arbitrary: user) auto

lemma good_call_simps [simp]:
  "good_call (Turn ms ov) \<longleftrightarrow> alternating ms \<and> odd (length ms)" "good_call WarmUp" "good_call QueryMetrics"
  by (simp_all add: good_call_def alternating_def alternating_from_map)

lemma alternating_from_append:
  "alternating_from user (xs @ ys) \<longleftrightarrow> alternating_from user xs \<and> alternating_from (if even (length xs) then user else \<not> user) ys"
  by (induction xs arbitrary: user) auto

lemma alternating_snoc: "alternating (ms @ [m]) \<longleftrightarrow> alternating ms \<and> fst m = (if even (length ms) then User else Assistant)"
  by (simp add: alternating_def alternating_from_append)

lemma alternating_drop:
  assumes "alternating ms" and "even n" and "n \<le> length ms"
  shows "alternating (drop n ms)"
proof -
  have "alternating_from True (take n ms @ drop n ms)" using assms(1) by (simp add: alternating_def)
  then show ?thesis using assms(2,3) unfolding alternating_from_append by (simp add: alternating_def min_absorb2)
qed

text \<open>Printing and the engine leave the history alone.\<close>

lemma chat_print_fields [simp]:
  "ch_history (chat_print t s) = ch_history s" "ch_history_window_begin (chat_print t s) = ch_history_window_begin s"
  "ch_calls (chat_print t s) = ch_calls s" "ch_overrides (chat_print t s) = ch_overrides s"
  by (simp_all add: chat_print_def)

lemma same_chat_refl [simp]: "same_chat s s"
  by (simp add: same_chat_def)

lemma same_chat_trans: "same_chat s s' \<Longrightarrow> same_chat s' s'' \<Longrightarrow> same_chat s s''"
  by (simp add: same_chat_def)

lemma same_chat_print: "same_chat s (chat_print t s)"
  by (simp add: same_chat_def)

lemma generate_choices_same: "same_chat s (snd (generate_choices cs t b s))"
proof (induction cs arbitrary: t b s)
  case (Cons c cs)
  show ?case
  proof (cases "msg_role (sc_delta c) = Assistant")
    case True
    then show ?thesis
      using Cons same_chat_trans [OF same_chat_print Cons] by (simp add: Let_def split: option.split chat_content.split)
  qed simp
qed simp

lemma generate_loop_same: "same_chat s (snd (generate_loop rs end_res t b s))"
proof (induction rs arbitrary: t b s)
  case Nil
  show ?case by (simp split: sum.split)
next
  case (Cons x rs)
  show ?case
  proof (cases "csresp_usage x")
    case None
    obtain r1 s1 where c: "generate_choices (csresp_choices x) t b s = (r1, s1)" by fastforce
    have s1: "same_chat s s1" using generate_choices_same [of s "csresp_choices x" t b] c by simp
    show ?thesis using None c s1 same_chat_trans [OF s1 Cons] by (cases r1) (simp_all split: prod.split)
  next
    case (Some u)
    have "same_chat s (s\<lparr>ch_last_usage := Some u\<rparr>)" by (simp add: same_chat_def)
    then show ?thesis using Some same_chat_trans [OF _ Cons] by simp
  qed
qed

lemma slide_window: "even w \<Longrightarrow> (w + 3) div 4 * 2 \<le> (w :: nat)"
  by presburger

lemma slide_history_inv:
  assumes "chat_inv s" and "slide_history s = (r, s')"
  shows "r = Inr () \<and> chat_inv s' \<and> ch_calls s' = ch_calls s"
proof -
  let ?w = "length (ch_history s) - ch_history_window_begin s"
  have w: "even ?w" using assms(1) by (simp add: chat_inv_def)
  then have "slide_history s = (Inr (), s\<lparr>ch_history_window_begin := ch_history_window_begin s + (?w + 3) div 4 * 2\<rparr>)"
    unfolding slide_history_def Let_def by (simp only: even_iff_mod_2_eq_zero [symmetric]) simp
  then have s': "r = Inr ()" "s' = s\<lparr>ch_history_window_begin := ch_history_window_begin s + (?w + 3) div 4 * 2\<rparr>"
    using assms(2) by simp_all
  have "ch_history_window_begin s + (?w + 3) div 4 * 2 \<le> length (ch_history s)"
    using slide_window [OF w] assms(1) unfolding chat_inv_def by linarith
  then show ?thesis using assms(1) unfolding s' chat_inv_def by simp
qed

lemma call_engine_fields:
  assumes "call_engine engine call s = (r, s')"
  shows "ch_history s' = ch_history s" "ch_history_window_begin s' = ch_history_window_begin s"
    "ch_calls s' = ch_calls s @ [call]" "ch_overrides s' = ch_overrides s"
  using assms by (auto simp: call_engine_def split: prod.splits)

text \<open>A turn, seen from the history: what it sends, and what it leaves behind when it ends normally.\<close>

lemma chat_generate_turn:
  assumes "chat_generate engine prompt s = (r, s')"
  defines "h \<equiv> ch_history s @ [(User, prompt)]" and "b \<equiv> ch_history_window_begin s"
  shows "ch_calls s' = ch_calls s @ [Turn (drop b h) (ch_overrides s)]"
    and "r = Inr () \<Longrightarrow> \<exists>t s1. ch_history s1 = h @ [(Assistant, t)] \<and> ch_history_window_begin s1 = b
      \<and> (s' = s1 \<or> slide_history s1 = (Inr (), s'))"
proof -
  define s0 where "s0 = s\<lparr>ch_history := h\<rparr>"
  have s0: "ch_history s0 = h" "ch_history_window_begin s0 = b" "ch_overrides s0 = ch_overrides s"
    by (simp_all add: s0_def b_def)
  obtain rs end_res s1 where call: "call_engine engine (Turn (drop b h) (ch_overrides s)) s0 = ((rs, end_res), s1)"
    by (metis prod.collapse)
  obtain r2 s2 where loop: "generate_loop rs end_res [] False s1 = (r2, s2)" by fastforce
  have f1: "ch_history s1 = h" "ch_history_window_begin s1 = b" "ch_calls s1 = ch_calls s @ [Turn (drop b h) (ch_overrides s)]"
    using call_engine_fields [OF call] by (simp_all add: s0_def b_def)
  have f2: "ch_history s2 = h" "ch_history_window_begin s2 = b" "ch_calls s2 = ch_calls s1"
    using generate_loop_same [of s1 rs end_res "[]" False] loop f1 by (simp_all add: same_chat_def)
  have gen: "chat_generate engine prompt s = (case r2 of Inl e \<Rightarrow> (Inl e, s2)
      | Inr (t, truncated) \<Rightarrow>
          let s3 = (if truncated then chat_println '' [output truncated due to context length limit...]'' s2 else s2);
              s4 = (chat_println [] s3)\<lparr>ch_history := h @ [(Assistant, t)]\<rparr>
          in if truncated then slide_history s4 else (Inr (), s4))"
    by (simp only: chat_generate_def Let_def h_def [symmetric] s0_def [symmetric] s0 call prod.case loop)
      (cases r2; simp add: f2(1) split: prod.split)
  show "ch_calls s' = ch_calls s @ [Turn (drop b h) (ch_overrides s)]"
    using assms(1) f1(3) f2(3) unfolding gen
    by (auto simp: Let_def slide_history_def split: sum.splits prod.splits if_splits)
  show "\<exists>t s1. ch_history s1 = h @ [(Assistant, t)] \<and> ch_history_window_begin s1 = b
      \<and> (s' = s1 \<or> slide_history s1 = (Inr (), s'))" if "r = Inr ()"
  proof (cases r2)
    case (Inl e)
    then show ?thesis using assms(1) that unfolding gen by simp
  next
    case (Inr x)
    obtain t truncated where x: "x = (t, truncated)" by fastforce
    define s3 where "s3 = (if truncated then chat_println '' [output truncated due to context length limit...]'' s2 else s2)"
    define s4 where "s4 = (chat_println [] s3)\<lparr>ch_history := h @ [(Assistant, t)]\<rparr>"
    have s4: "ch_history s4 = h @ [(Assistant, t)]" "ch_history_window_begin s4 = b"
      using f2(2) by (simp_all add: s4_def s3_def)
    have "chat_generate engine prompt s = (if truncated then slide_history s4 else (Inr (), s4))"
      unfolding gen Inr x s4_def s3_def Let_def by simp
    then show ?thesis using s4 assms(1) that by (metis prod.inject)
  qed
qed

lemma chat_generate_inv:
  assumes "chat_inv s" and "chat_generate engine prompt s = (r, s')" and "list_all good_call (ch_calls s)"
  shows "list_all good_call (ch_calls s')" and "r = Inr () \<Longrightarrow> chat_inv s'"
proof -
  let ?h = "ch_history s @ [(User, prompt)]" and ?b = "ch_history_window_begin s"
  have h: "alternating ?h" "odd (length ?h)" "even ?b" "?b \<le> length ?h"
    using assms(1) by (simp_all add: chat_inv_def alternating_snoc)
  have "odd (length (drop ?b ?h))" unfolding length_drop using h(2-4) unfolding even_diff_nat even_add by auto
  then have "good_call (Turn (drop ?b ?h) (ch_overrides s))"
    using alternating_drop [OF h(1,3,4)] by (simp only: good_call_simps simp_thms)
  then show "list_all good_call (ch_calls s')" using assms(3) by (simp add: chat_generate_turn(1) [OF assms(2)])
  show "chat_inv s'" if r: "r = Inr ()"
  proof -
    obtain t s1 where s1: "ch_history s1 = ?h @ [(Assistant, t)]" "ch_history_window_begin s1 = ?b"
      "s' = s1 \<or> slide_history s1 = (Inr (), s')" using chat_generate_turn(2) [OF assms(2) r] by blast
    have "alternating (?h @ [(Assistant, t)])" using h(1,2) by (simp only: alternating_snoc) simp
    then have "chat_inv s1" using h by (simp add: chat_inv_def s1(1,2))
    then show ?thesis using s1(3) slide_history_inv by blast
  qed
qed

lemma chat_step_inv:
  assumes "chat_inv s" and "list_all good_call (ch_calls s)" and "chat_step fmt engine p s = (r, s')"
  shows "list_all good_call (ch_calls s') \<and> (r = Inr () \<longrightarrow> chat_inv s')"
proof (cases "command_of p")
  case CmdPrompt
  then show ?thesis using assms chat_generate_inv [of s engine p r s'] by (simp add: chat_step_def)
next
  case CmdMetrics
  obtain rs end_res s1 where call: "call_engine engine QueryMetrics s = ((rs, end_res), s1)" by (metis prod.collapse)
  then show ?thesis
    using assms CmdMetrics call_engine_fields [OF call]
    by (auto simp: chat_step_def chat_metrics_def chat_inv_def split: sum.splits)
qed (use assms in \<open>auto simp: chat_step_def chat_set_def chat_stats_def chat_reset_def chat_inv_def alternating_def
       split: sum.splits list.splits\<close>)

lemma chat_loop_calls:
  "chat_inv s \<Longrightarrow> list_all good_call (ch_calls s) \<Longrightarrow> list_all good_call (ch_calls (snd (chat_loop fmt engine eof ps s)))"
proof (induction ps arbitrary: s)
  case (Cons p ps)
  obtain r s' where step: "chat_step fmt engine p s = (r, s')" by fastforce
  show ?case
    using Cons.IH [of s'] chat_step_inv [OF Cons.prems step] step by (cases r) auto
qed simp

lemma generate_choices_result:
  "list_all (\<lambda>c. msg_role (sc_delta c) = Assistant) cs \<Longrightarrow>
   fst (generate_choices cs t b s)
     = Inr (t @ concat (map delta_text cs), b \<or> list_ex (\<lambda>c. sc_finish_reason c = Some ''length'') cs)"
  by (induction cs arbitrary: t b s) (simp_all add: Let_def delta_text_def split: option.split chat_content.split)

lemma generate_loop_result:
  "from_assistant rs \<Longrightarrow> fst (generate_loop rs (Inr ()) t b s) = Inr (t @ answer_text rs, b \<or> answer_truncated rs)"
proof (induction rs arbitrary: t b s)
  case Nil
  then show ?case by (simp add: answer_text_def answer_truncated_def)
next
  case (Cons x rs)
  then have rs: "from_assistant rs" by (simp add: from_assistant_def)
  show ?case
  proof (cases "csresp_usage x")
    case None
    let ?t = "t @ concat (map delta_text (csresp_choices x))"
    let ?b = "b \<or> list_ex (\<lambda>c. sc_finish_reason c = Some ''length'') (csresp_choices x)"
    have "list_all (\<lambda>c. msg_role (sc_delta c) = Assistant) (csresp_choices x)"
      using Cons.prems None by (simp add: from_assistant_def)
    then obtain s1 where "generate_choices (csresp_choices x) t b s = (Inr (?t, ?b), s1)"
      using generate_choices_result [of "csresp_choices x" t b s] by (metis prod.collapse)
    then have "generate_loop (x # rs) (Inr ()) t b s = generate_loop rs (Inr ()) ?t ?b s1" using None by simp
    then show ?thesis using Cons.IH [OF rs, of ?t ?b s1] None by (simp add: answer_text_def answer_truncated_def)
  next
    case (Some u)
    then show ?thesis using Cons.IH [OF rs] by (simp add: answer_text_def answer_truncated_def)
  qed
qed

lemma slide_history_halves:
  assumes "chat_inv s"
  shows "\<exists>s'. slide_history s = (Inr (), s') \<and> ch_history s' = ch_history s
    \<and> 2 * (length (ch_history s) - ch_history_window_begin s') \<le> length (ch_history s) - ch_history_window_begin s"
proof -
  have "even (length (ch_history s) - ch_history_window_begin s)" using assms by (simp add: chat_inv_def)
  then obtain k where k: "length (ch_history s) - ch_history_window_begin s = 2 * k" by (rule evenE)
  have "2 * (2 * k - (2 * k + 3) div 4 * 2) \<le> 2 * k" by presburger
  then show ?thesis using k by (simp add: slide_history_def Let_def diff_diff_left [symmetric])
qed

section \<open>Properties\<close>

text \<open>C40: whatever the user types and however the engine answers, every request of a chat session is a
  conversation that starts and ends with the user and in which user and assistant alternate, also after
  the history was reset or its window moved.\<close>

theorem chat_requests_alternate:
  "list_all good_call (ch_calls (snd (chat_session fmt engine eof prompts (ChatState e))))"
proof -
  obtain rs end_res s where call: "call_engine engine WarmUp (chat_println chat_help (ChatState e)) = ((rs, end_res), s)"
    by (metis prod.collapse)
  note f = call_engine_fields [OF call]
  have "chat_inv s" "list_all good_call (ch_calls s)"
    using f by (simp_all add: chat_inv_def ChatState_def alternating_def)
  then show ?thesis
    using chat_loop_calls [of s fmt engine eof prompts] call
    by (cases end_res) (simp_all add: chat_session_def process_system_prompts_def)
qed

text \<open>A turn of the chat adds the prompt and the whole streamed text to the history. If the answer hit the
  length limit, the window of the history that is sent moves on so that at most half of it is left;
  otherwise it stays.\<close>

theorem chat_turn:
  assumes "chat_inv s" and "\<And>call. fst (engine call (ch_engine s)) = (rs, Inr ())" and "from_assistant rs"
  shows "\<exists>s'. chat_generate engine prompt s = (Inr (), s')
    \<and> ch_history s' = ch_history s @ [(User, prompt), (Assistant, answer_text rs)] \<and> chat_inv s'
    \<and> (if answer_truncated rs
       then 2 * (length (ch_history s') - ch_history_window_begin s') \<le> length (ch_history s') - ch_history_window_begin s
       else ch_history_window_begin s' = ch_history_window_begin s)"
proof -
  let ?h = "ch_history s @ [(User, prompt)]"
  define s0 where "s0 = s\<lparr>ch_history := ?h\<rparr>"
  let ?call = "Turn (drop (ch_history_window_begin s0) (ch_history s0)) (ch_overrides s0)"
  obtain s1 where call: "call_engine engine ?call s0 = ((rs, Inr ()), s1)"
    using assms(2) [of ?call] by (cases "engine ?call (ch_engine s)") (auto simp: call_engine_def s0_def)
  obtain s2 where loop: "generate_loop rs (Inr ()) [] False s1 = (Inr (answer_text rs, answer_truncated rs), s2)"
    using generate_loop_result [OF assms(3), of "[]" False s1] by (metis prod.collapse append_Nil simp_thms(32))
  have s2: "ch_history s2 = ?h" "ch_history_window_begin s2 = ch_history_window_begin s"
    using generate_loop_same [of s1 rs "Inr ()" "[]" False] loop call_engine_fields [OF call]
    by (simp_all add: same_chat_def s0_def)
  define s3 where "s3 = (if answer_truncated rs then chat_println '' [output truncated due to context length limit...]'' s2 else s2)"
  define s4 where "s4 = (chat_println [] s3)\<lparr>ch_history := ch_history s @ [(User, prompt), (Assistant, answer_text rs)]\<rparr>"
  have gen: "chat_generate engine prompt s = (if answer_truncated rs then slide_history s4 else (Inr (), s4))"
    using s2(1) by (simp only: chat_generate_def Let_def s0_def [symmetric] call prod.case loop sum.case)
      (simp add: s4_def s3_def)
  have f4: "ch_history s4 = ch_history s @ [(User, prompt), (Assistant, answer_text rs)]"
    "ch_history_window_begin s4 = ch_history_window_begin s" using s2(2) by (simp_all add: s4_def s3_def)
  have "alternating ((ch_history s @ [(User, prompt)]) @ [(Assistant, answer_text rs)])"
    using assms(1) by (simp only: alternating_snoc chat_inv_def) simp
  then have inv: "chat_inv s4" using assms(1) f4 by (simp add: chat_inv_def)
  show ?thesis using slide_history_halves [OF inv] slide_history_inv [OF inv] inv f4 gen by (cases "answer_truncated rs") auto
qed

theorem chat_turn_witness:
  "\<exists>s'. chat_generate (\<lambda>_ e. (([sample_reply ''Hel'' None, sample_reply ''lo'' (Some ''length'')], Inr ()), e)) ''Hi'' (ChatState ())
      = (Inr (), s') \<and> ch_history s' = [(User, ''Hi''), (Assistant, ''Hello'')]
    \<and> 2 * (length (ch_history s') - ch_history_window_begin s') \<le> length (ch_history s')"
proof -
  let ?rs = "[sample_reply ''Hel'' None, sample_reply ''lo'' (Some ''length'')]"
  have "chat_inv (ChatState ())" by (simp add: chat_inv_def ChatState_def alternating_def)
  moreover have "from_assistant ?rs" by (simp add: from_assistant_def sample_reply_def ChatCompletionMessage_def)
  moreover have "answer_text ?rs = ''Hello''" "answer_truncated ?rs"
    by (simp_all add: answer_text_def answer_truncated_def sample_reply_def delta_text_def ChatCompletionMessage_def)
  ultimately show ?thesis
    using chat_turn [of "ChatState ()" "\<lambda>_ e. ((?rs, Inr ()), e)" ?rs "''Hi''"] by (auto simp: ChatState_def)
qed

text \<open>\<open>/set\<close> without an argument ends the chat: the missing word raises \<open>IndexError\<close>, which nothing
  catches, and neither the history nor the settings have changed. The same holds for every word that begins
  with \<open>/set\<close>.\<close>

theorem chat_set_alone:
  assumes "list_all (\<lambda>c. \<not> str_space c) word"
  shows "chat_loop fmt engine eof ((''/set'' @ word) # prompts) s = (Inl IndexError, s)"
proof -
  have aux: "list_all (\<lambda>c. \<not> str_space c) w \<Longrightarrow> str_words_aux v w = (if v @ w = [] then [] else [v @ w])" for v w
    by (induction w arbitrary: v) auto
  have "list_all (\<lambda>c. \<not> str_space c) (''/set'' @ word)"
    using assms by (simp add: str_space_def is_space_def)
  then have "str_words (''/set'' @ word) = [''/set'' @ word]"
    unfolding str_words_def by (subst aux) simp_all
  then show ?thesis by (simp add: chat_step_def command_of_def chat_set_def)
qed

theorem chat_set_alone_witness:
  "chat_loop \<lparr>cf_float = (\<lambda>_. []), cf_speed = (\<lambda>_. Inr [])\<rparr> (\<lambda>_ e. (([], Inr ()), e)) StopIteration
     [''/settings'', ''hello''] (ChatState ()) = (Inl IndexError, ChatState ())"
  using chat_set_alone [of "''tings''" _ _ _ "[''hello'']"] by (simp add: str_space_def is_space_def)

end
