(* ===== verification/Spec2Isabelle.thy ===== *)
theory Spec2Isabelle
  imports Router_Frontend Batch_Engine Json_Ffi Conv_Templates Model_Loaders Tokenizer_Convert Model_Configs Popen_Server Chat_Cli
begin

text \<open>
  \<^bold>\<open>Verification of the serving layer of MLC LLM\<close> (python/mlc\_llm).

  \<^bold>\<open>The program.\<close> MLC LLM serves language models. A client talks to one of three faces: the
  Python engines \<open>MLCEngine\<close> and \<open>AsyncMLCEngine\<close> (serve/engine.py), the HTTP server
  (interface/serve.py, serve/server, serve/entrypoints) in front of an asynchronous engine, and the
  router (interface/router.py, router/router.py) in front of several servers. A request is a
  pydantic model (protocol/openai\_api\_protocol.py). The engine validates it, fills a conversation
  template (protocol/conversation\_protocol.py), tokenizes the prompt and derives a generation
  config (serve/engine\_utils.py, serve/engine\_base.py), hands the request to the C++ engine and
  turns the delta outputs of its callbacks into a stream of chunks (serve/engine\_base.py), which
  the completion API turns into responses, streamed or collected. The C++ engine, the tokenizer,
  the compiler and HTTP are outside; the model takes them as arguments.

  \<^bold>\<open>Theories\<close>, each with the sources it follows:

  \<^item> \<open>Py_Prelude\<close>: exceptions as \<open>py_error\<close>, results \<open>res\<close> (a sum with the exception on the
    left), computations \<open>py\<close> on a state that survives an exception, dictionaries as association
    lists in insertion order, indexing with Python's negative positions, strings, JSON values and
    their printing, floats with NaN and the infinities. \<open>Py_Float\<close>: IEEE double arithmetic by
    rounding rational numbers, for the balance factor of the router.
  \<^item> \<open>OpenAI_Protocol\<close>: protocol/openai\_api\_protocol.py, debug\_protocol.py,
    microserving\_protocol.py. The request and response classes are records; a microserving
    request extends the record of a completion request as the class does. The validators are shown
    to accept exactly the requests of a declarative predicate.
  \<^item> \<open>Conversation_Template\<close>: protocol/conversation\_protocol.py and \<open>check_function_call_usage\<close>.
    What the prompt of a conversation is, that merging adjacent texts keeps the content, and where
    the function string goes.
  \<^item> \<open>Engine_Utils\<close>: serve/engine\_utils.py and protocol/generation\_config.py: the generation
    config of a request, the tokenization of nested prompts, the conversion to engine data.
  \<^item> \<open>Engine_Config\<close>: serve/config.py, protocol/mlc\_chat\_config.py and of serve/engine\_base.py the
    model arguments, the constructor and \<open>terminate\<close> of \<open>MLCEngineBase\<close>, the metrics queries and
    their Prometheus text.
  \<^item> \<open>Stream_Output\<close>: of serve/engine\_base.py the processing of requests, of the delta outputs
    and of function calls, and the wrapping of responses. The locales \<open>delta_stepper\<close>,
    \<open>delta_processor\<close> and \<open>total_processor\<close> state what one output, one chunk and a whole stream
    do to the texts and finish reasons, for a choice type with an index, a text and a reason; the
    chat and the completion functions are their interpretations.
  \<^item> \<open>Async_Engine\<close>: \<open>AsyncRequestStream\<close>, \<open>EngineState\<close>, and \<open>_generate\<close> and \<open>_abort\<close> of
    \<open>AsyncMLCEngine\<close>. The state is the event loop, the streams by reference and the table of
    requests; the step relation \<open>astep\<close> has the starts, resumptions and closings of generators, the
    calls of \<open>abort\<close> and the callbacks of the C++ engine as its steps, and \<open>areach\<close> its reachable states.
  \<^item> \<open>Sync_Engine\<close>: \<open>_generate\<close> of \<open>MLCEngine\<close> and its callback, shown to yield what the
    asynchronous engine yields.
  \<^item> \<open>Completion_Api\<close>: \<open>_handle_chat_completion\<close>, \<open>_handle_completion\<close>, \<open>_chat_completion\<close> and
    \<open>_completion\<close> of both engines. The locale \<open>collector\<close> states what the collecting loops do.
  \<^item> \<open>Server\<close>: \<open>ServerContext\<close>, the entry points for the OpenAI API, microserving, metrics and
    debugging, the error handler, and \<open>serve\<close>.
  \<^item> \<open>Router\<close>: \<open>Router\<close> of router/router.py. A generator is its start, its yields and its end, so
    that a consumer which stops at a \<open>yield\<close> differs from one that reads on. The locale
    \<open>dispatcher\<close> states what the two dispatch modes do to the counts; \<open>rstep\<close> interleaves
    requests at the \<open>await\<close>s.
    A request that is posted is what the receiver reads from its \<open>model_dump()\<close>, \<open>reread_request\<close>.
  \<^item> \<open>Router_Frontend\<close>: interface/router.py and the event stream between router and server; \<open>wire\<close> is how the
    bytes of a response reach the router, split at line ends and with no limit on the length of a line.
  \<^item> \<open>Batch_Engine\<close>: serve/sync\_engine.py, \<open>generate\<close> for a batch of prompts over the steps of the engine.
  \<^item> \<open>Json_Ffi\<close>: json\_ffi/engine.py, the engine whose requests and answers are JSON texts.
  \<^item> \<open>Conv_Templates\<close>: the registry and the presets of conversation\_template.
  \<^item> \<open>Weight_Loader\<close>: loader/mapping.py, utils.py, stats.py and huggingface\_loader.py. The locale \<open>file_cache\<close>
    states what the loader relies on of its cache of files; files, torch and numpy are the fields of \<open>weight_env\<close>.
  \<^item> \<open>Weight_Convert\<close>: interface/convert\_weight.py, support/preshard.py, support/auto\_weight.py and the parameter
    mappings of model/llama/llama\_loader.py.
  \<^item> \<open>Tensor_Expr\<close>: tensor expressions as shape and function of the index, the packing of quantization/utils.py and
    \<open>ShardSingleDim\<close> of support/tensor\_parallel.py.
  \<^item> \<open>Group_Quantize\<close>: quantization/group\_quantization.py. The scalar operations of the model's float type are the
    record \<open>tir_float\<close>; the locale \<open>rounded_float\<close> is the standard model of rounded arithmetic (relative error at most
    the unit roundoff between the least normal and the largest value), under which the error of the scheme is bounded.
    \<open>Tir_Float\<close> rounds rational numbers to a binary format, to nearest and to even; float16, bfloat16 and float32 are
    the interpretations. The functions that TVM builds are the record \<open>tvm_build\<close>, with the device and the target they
    are built for. \<open>Quant_Models\<close>: quantization/ft\_quantization.py,
    awq\_quantization.py, the visitors of \<open>quantize_model\<close> and the registry of quantization/quantization.py.
  \<^item> \<open>Model_Loaders\<close>: model/*/*\_loader.py of the other families. A loader is a program of look-ups, calls of
    \<open>add_mapping\<close> and the loop over the remaining parameters, given as data and run by \<open>run_program\<close>; what holds
    of all programs is shown once. \<open>MODEL_LOADERS\<close> lists them; numpy is the record \<open>numpy_fns\<close>.
  \<^item> \<open>Tokenizer_Convert\<close>: byte pair encoding and the merges of support/convert\_tiktoken.py.
  \<^item> \<open>Gen_Config\<close>: support/config.py and interface/gen\_config.py, with the file system in \<open>gen_env\<close>.
  \<^item> \<open>Model_Configs\<close>: the configuration classes of model/*/*\_model.py, as instances of the classes that support/config.py
    works with. A \<open>__post_init__\<close> is a list of the statements that recur in the classes, \<open>config_step\<close>.
  \<^item> \<open>Py_Parse\<close>: \<open>int(text)\<close>, splitting and stripping. \<open>Arg_Parser\<close>: \<open>argparse\<close> of CPython 3.11 as far as the
    program uses it, \<open>float(text)\<close>, and the texts \<open>k=v;k=v\<close> of overrides. The locale \<open>override_format\<close> states what a
    class of overrides promises of its printed fields; its four interpretations are the optimization flags, the
    overrides of the model and of the engine, and what \<open>PopenServer\<close> writes.
  \<^item> \<open>Compiler_Flags\<close>: interface/compiler\_flags.py, with the presets as shared objects.
  \<^item> \<open>Cli_Serve\<close>: cli/serve.py, the engine config of interface/serve.py and \_\_main\_\_.py.
  \<^item> \<open>Popen_Server\<close>: serve/server/popen\_server.py; the wait for the server adds floating-point steps, whose
    1201 values are followed exactly.
  \<^item> \<open>Chat_Cli\<close>: interface/chat.py and cli/chat.py.

  \<^bold>\<open>What is shown.\<close> Invariants of the reachable states (\<open>async_engine_safe\<close>,
  \<open>router_counts_flying\<close>), isolation of requests, the text and the finish reasons that reach the
  client on every path (engine, API, server, router), agreement of the synchronous with the
  asynchronous engine and of the server with the API, the event stream as a round trip, the
  windows of disaggregated serving, and the exact outcome, errors included, of the request
  processing functions. The cache of the weight loader cannot be seen in what it yields, a conversion
  succeeds exactly when the loader yields the parameters of the model, the merges of a tokenizer can be
  applied in their order, the configuration takes each value from the first source that has it, command
  lines read back what they were written from, and a chat only sends alternating conversations. Packed
  fields read back, shards partition a weight, the matrix of a quantized layer is the weight up to half a
  step and the errors of rounding, the parameters recorded for a quantized module are those it has, and the cache of
  quantization functions does exactly what its key says. Loading a Llama checkpoint gives each parameter its value; the
  mapping of a model family gives a parameter its type, with the exceptions listed; a configuration reads back from
  the fields that are written, and its prefill chunk fits into the context window, with the exceptions listed.

  \<^bold>\<open>Loops and fuel.\<close> Loops over data are structural recursion, and total. Only the retries of the
  router may go on forever: \<open>handle_loop\<close> has the number of attempts as fuel and gives \<open>None\<close> when
  they are not enough; \<open>handle_completion_returns\<close> shows that it returns exactly when an attempt
  within the fuel is not preempted. The wait of \<open>PopenServer\<close> is a \<open>partial_function\<close>, shown to return by
  \<open>popen_start_result\<close>; byte pair encoding ends because every round merges two parts. The loops of the
  batch and of the JSON engine read a given list of answers and are \<open>None\<close> when it ends before they do.
  Texts are lists of characters below 256, and a non-ASCII character stands for its UTF-8 bytes. Python's integers are unbounded and modelled by \<open>int\<close> and
  \<open>nat\<close>.

  \<^bold>\<open>Not modelled.\<close> The neural network definitions, the operators and the compiler passes
  build programs of TVM, whose semantics is not in the repository. Of quantization, the tensor expressions
  are modelled with the scalar arithmetic as an argument, rational numbers with rounding for the theorem on the error; infinities and
  NaN of the float formats, the per-tensor and block-scale layers and the vendor kernels are not. The traversal of \<open>nn.Mutator\<close> and
  the compilation of a quantization function are arguments; the drivers of the compiler, jit and
  packaging are files, processes and downloads; the C++ engine is seen through its calls and
  callbacks. The configurations that contain another one (LLaVA, Gemma 3, Phi-3 vision) are left out. Logging, timestamps and the texts of most assertion messages are left out.
\<close>

end
